(* ===== verification/Go_Prelude.thy ===== *)
theory Go_Prelude
  imports Complex_Main "HOL-Library.AList" "HOL-Library.Multiset" "HOL-Library.Sublist"
    "HOL-Library.Char_ord" "HOL-Library.List_Lexorder" "HOL-Library.Word"
begin

section \<open>What the models share: Go values, strings and maps\<close>

text \<open>
  The Go source uses a small part of the language and of its standard library over and
  over; this theory models that part once.
  \<^item> \<open>time.Time\<close> (always normalised with \<open>UTC()\<close> by the code) is the number of
    nanoseconds since Go's zero time, an \<open>int\<close>; \<open>IsZero\<close> is equality with 0,
    \<open>After\<close>/\<open>Before\<close>/\<open>Equal\<close> are the order, \<open>Add\<close> is addition.
  \<^item> \<open>string\<close> and \<open>[]byte\<close> are byte strings: HOL's \<open>string\<close>, whose characters are
    the 256 byte values, so \<open>length\<close> counts bytes as Go's \<open>len\<close> does.
  \<^item> A Go map is an association list with distinct keys. Its order is the order in which
    one particular \<open>range\<close> loop would visit the map: theorems hold for every such list,
    so for every iteration order.
  \<^item> An \<open>(x, error)\<close> result is a sum: \<open>Inl\<close> the error, \<open>Inr\<close> the value.
\<close>

type_synonym time = int
type_synonym duration = int

definition nanosecond :: duration where "nanosecond = 1"
definition millisecond :: duration where "millisecond = 1000000"
definition second :: duration where "second = 1000000000"
definition minute :: duration where "minute = 60 * 1000000000"
definition hour :: duration where "hour = 3600 * 1000000000"

lemmas duration_units = nanosecond_def millisecond_def second_def minute_def hour_def

text \<open>The collections the component theories add their facts to.\<close>

named_theorems model_defs \<open>definitions of the modelled operations, to unfold them together\<close>
named_theorems inv_intros \<open>preservation of the components' invariants\<close>

subsection \<open>Results\<close>

definition is_ok :: "'e + 'a \<Rightarrow> bool" where
  "is_ok r = (case r of Inl _ \<Rightarrow> False | Inr _ \<Rightarrow> True)"

lemma is_ok_simps [simp]: "is_ok (Inr x)" "\<not> is_ok (Inl e)"
  by (simp_all add: is_ok_def)

text \<open>What a \<open>Get\<close> of the API server answers: an object, a NotFound error, another error.\<close>

datatype 'a read = Found 'a | Missing | ReadError

subsection \<open>The \<open>strings\<close> package\<close>

text \<open>
  \<open>strings.TrimSpace\<close> removes leading and trailing Unicode white space. The runes are
  listed by their UTF-8 encodings; none is a proper prefix or suffix of another and each
  is self-delimiting, so matching the bytes is what Go's decoder does.
\<close>

abbreviation (input) byte :: "nat \<Rightarrow> char" where "byte n \<equiv> char_of n"

definition space_runes :: "string list" where
  "space_runes =
     map (\<lambda>n. [byte n]) [9, 10, 11, 12, 13, 32]
     @ [[byte 194, byte 133], [byte 194, byte 160], [byte 225, byte 154, byte 128]]
     @ map (\<lambda>n. [byte 226, byte 128, byte n]) [128..<139]
     @ [[byte 226, byte 128, byte 168], [byte 226, byte 128, byte 169], [byte 226, byte 128, byte 175],
        [byte 226, byte 129, byte 159], [byte 227, byte 128, byte 128]]"

text \<open>Strip listed prefixes as long as one matches; an empty entry never matches.\<close>

function strip_left :: "string list \<Rightarrow> string \<Rightarrow> string" where
  "strip_left ws s =
     (case List.find (\<lambda>w. w \<noteq> [] \<and> prefix w s) ws of
        None \<Rightarrow> s
      | Some w \<Rightarrow> strip_left ws (drop (length w) s))"
  by pat_completeness auto
termination
proof (relation "measure (\<lambda>(ws, s). length s)")
  show "wf (measure (\<lambda>(ws :: string list, s :: string). length s))" by simp
  fix ws s w assume "List.find (\<lambda>w. w \<noteq> [] \<and> prefix w s) ws = Some w"
  then have "w \<noteq> []" "prefix w s" by (auto simp: find_Some_iff)
  then show "((ws, drop (length w) s), ws, s) \<in> measure (\<lambda>(ws, s). length s)"
    by (cases s) (auto simp: prefix_def)
qed

declare strip_left.simps [simp del]

definition TrimSpace :: "string \<Rightarrow> string" where
  "TrimSpace s = rev (strip_left (map rev space_runes) (rev (strip_left space_runes s)))"

definition blank :: "string \<Rightarrow> bool" where
  "blank s \<longleftrightarrow> TrimSpace s = ''''"

definition HasPrefix :: "string \<Rightarrow> string \<Rightarrow> bool" where
  "HasPrefix s p \<longleftrightarrow> prefix p s"

definition TrimPrefix :: "string \<Rightarrow> string \<Rightarrow> string" where
  "TrimPrefix s p = (if prefix p s then drop (length p) s else s)"

text \<open>\<open>strings.Split\<close> with a one-byte separator, and \<open>strings.Join\<close>.\<close>

fun split_on :: "char \<Rightarrow> string \<Rightarrow> string list" where
  "split_on c [] = [[]]"
| "split_on c (x # xs) =
     (if x = c then [] # split_on c xs
      else case split_on c xs of [] \<Rightarrow> [[x]] | w # ws \<Rightarrow> (x # w) # ws)"

fun join_with :: "string \<Rightarrow> string list \<Rightarrow> string" where
  "join_with sep [] = []"
| "join_with sep [w] = w"
| "join_with sep (w # v # ws) = w @ sep @ join_with sep (v # ws)"

lemma split_on_nonempty [simp]: "split_on c s \<noteq> []"
  by (induction s) (auto split: list.splits)

lemma split_on_no_sep: "c \<notin> set s \<Longrightarrow> split_on c s = [s]"
  by (induction s) auto

lemma split_on_append:
  "c \<notin> set u \<Longrightarrow> split_on c (u @ c # v) = u # split_on c v"
  by (induction u) auto

lemma split_on_pieces: "w \<in> set (split_on c s) \<Longrightarrow> c \<notin> set w"
  by (induction s arbitrary: w) (auto split: if_splits list.splits)

lemma split_on_two: "split_on c (u @ c # v) = split_on c u @ split_on c v"
  by (induction u) (auto split: list.splits)

text \<open>Lines each ended by the separator split into themselves and a last empty piece.\<close>

lemma split_on_lines:
  "list_all (\<lambda>l. c \<notin> set l) ls \<Longrightarrow> split_on c (concat (map (\<lambda>l. l @ [c]) ls) @ t) = ls @ split_on c t"
  by (induction ls) (simp_all add: split_on_append)

lemma join_split: "join_with [c] (split_on c s) = s"
proof (induction s)
  case (Cons x xs)
  then show ?case by (cases "split_on c xs"; cases "tl (split_on c xs)") auto
qed simp

text \<open>Printable ASCII without the space: a string between two of them is its own trimmed form.\<close>

definition graphic :: "char \<Rightarrow> bool" where
  "graphic c \<longleftrightarrow> 33 \<le> (of_char c :: nat) \<and> (of_char c :: nat) \<le> 126"

lemma space_runes_not_graphic:
  "w \<in> set space_runes \<Longrightarrow> w \<noteq> [] \<and> \<not> graphic (hd w) \<and> \<not> graphic (last w)"
  by (auto simp: space_runes_def graphic_def)

lemma strip_left_graphic:
  assumes "s \<noteq> [] \<Longrightarrow> graphic (hd s)" and "\<forall>w\<in>set ws. w \<noteq> [] \<longrightarrow> \<not> graphic (hd w)"
  shows "strip_left ws s = s"
proof -
  have "List.find (\<lambda>w. w \<noteq> [] \<and> prefix w s) ws = None"
    using assms by (auto simp: find_None_iff prefix_def)
  then show ?thesis by (subst strip_left.simps) simp
qed

lemma TrimSpace_graphic:
  assumes "s \<noteq> []" "graphic (hd s)" "graphic (last s)"
  shows "TrimSpace s = s"
proof -
  have "strip_left space_runes s = s"
    using assms space_runes_not_graphic by (intro strip_left_graphic) auto
  moreover have "strip_left (map rev space_runes) (rev s) = rev s"
    using assms space_runes_not_graphic by (intro strip_left_graphic) (auto simp: hd_rev)
  ultimately show ?thesis by (simp add: TrimSpace_def)
qed

subsection \<open>The \<open>unicode/utf8\<close> package\<close>

text \<open>
  The width of the UTF-8 sequence a byte string starts with, 0 when there is none. Go decodes an
  invalid byte as the replacement character U+FFFD of width 1, and encodes that as three bytes.
\<close>

definition utf8_cont :: "char \<Rightarrow> bool" where
  "utf8_cont c \<longleftrightarrow> 128 \<le> (of_char c :: nat) \<and> (of_char c :: nat) \<le> 191"

text \<open>The second byte is restricted after some first bytes: overlong forms, surrogates, the upper limit.\<close>

definition utf8_second :: "nat \<Rightarrow> char \<Rightarrow> bool" where
  "utf8_second x b \<longleftrightarrow>
     (if x = 224 then 160 else if x = 240 then 144 else 128) \<le> (of_char b :: nat)
     \<and> (of_char b :: nat) \<le> (if x = 237 then 159 else if x = 244 then 143 else 191)"

definition rune_need :: "nat \<Rightarrow> nat" where
  "rune_need x =
     (if x < 128 then 1
      else if 194 \<le> x \<and> x \<le> 223 then 2
      else if 224 \<le> x \<and> x \<le> 239 then 3
      else if 240 \<le> x \<and> x \<le> 244 then 4
      else 0)"

definition rune_tail :: "nat \<Rightarrow> string \<Rightarrow> bool" where
  "rune_tail x r \<longleftrightarrow> list_all utf8_cont r \<and> (r = [] \<or> utf8_second x (hd r))"

fun rune_width :: "string \<Rightarrow> nat" where
  "rune_width [] = 0"
| "rune_width (a # s) =
     (let x = of_char a; n = rune_need x in
      if n \<noteq> 0 \<and> n - 1 \<le> length s \<and> rune_tail x (take (n - 1) s) then n else 0)"

definition rune_error :: "string" where
  "rune_error = [byte 239, byte 191, byte 189]"

text \<open>\<open>[]rune(s)\<close>, each rune as the bytes \<open>string(r)\<close> gives back.\<close>

function runes :: "string \<Rightarrow> string list" where
  "runes [] = []"
| "runes (c # s) =
     (if rune_width (c # s) = 0 then rune_error # runes s
      else take (rune_width (c # s)) (c # s) # runes (drop (rune_width (c # s)) (c # s)))"
  by pat_completeness auto
termination
  by (relation "measure length") auto

declare runes.simps [simp del]
declare rune_width.simps [simp del]

lemma rune_width_append:
  "rune_width s \<noteq> 0 \<Longrightarrow> rune_width (s @ t) = rune_width s"
  by (cases s) (auto simp: rune_width.simps Let_def split: if_splits)

lemma rune_width_le: "rune_width s \<le> length s"
  by (cases s) (auto simp: rune_width.simps Let_def)

lemma rune_width_take: "rune_width s \<noteq> 0 \<Longrightarrow> rune_width (take (rune_width s) s) = rune_width s"
  by (cases s) (auto simp: rune_width.simps Let_def take_Cons' split: if_splits)

lemma rune_error_width: "rune_width rune_error = 3"
  by (simp add: rune_error_def rune_width.simps rune_need_def rune_tail_def utf8_second_def utf8_cont_def)

text \<open>The pieces are the encodings of single runes, and such pieces decode back.\<close>

definition one_rune :: "string \<Rightarrow> bool" where
  "one_rune r \<longleftrightarrow> r \<noteq> [] \<and> rune_width r = length r"

lemma runes_valid: "list_all one_rune (runes s)"
proof (induction s rule: runes.induct)
  case (2 c s)
  let ?w = "rune_width (c # s)"
  have "one_rune rune_error" by (simp add: one_rune_def rune_error_width) (simp add: rune_error_def)
  moreover have "?w \<noteq> 0 \<Longrightarrow> one_rune (take ?w (c # s))"
    using rune_width_take [of "c # s"] rune_width_le [of "c # s"] by (simp add: one_rune_def)
  ultimately show ?case using 2 by (simp add: runes.simps(2) del: take_Cons drop_Cons)
qed (simp add: runes.simps)

lemma runes_cons: "one_rune r \<Longrightarrow> runes (r @ t) = r # runes t"
proof -
  assume r: "one_rune r"
  then obtain c s where rs: "r = c # s" by (cases r) (auto simp: one_rune_def)
  have "rune_width (c # s @ t) = length r"
    using rune_width_append [of r t] r rs by (auto simp: one_rune_def)
  with rs show ?thesis by (simp add: runes.simps(2))
qed

lemma runes_concat: "list_all one_rune rs \<Longrightarrow> runes (concat rs) = rs"
  by (induction rs) (auto simp: runes_cons runes.simps(1))

lemma runes_ascii: "list_all (\<lambda>c. (of_char c :: nat) < 128) s \<Longrightarrow> runes s = map (\<lambda>c. [c]) s"
  by (induction s) (simp_all add: runes.simps rune_width.simps rune_need_def rune_tail_def Let_def)

text \<open>Decoding and encoding the runes gives the string back exactly when it is valid UTF-8.\<close>

definition ValidString :: "string \<Rightarrow> bool" where
  "ValidString s \<longleftrightarrow> concat (runes s) = s"

definition ascii_lower :: "char \<Rightarrow> char" where
  "ascii_lower c = (if 65 \<le> (of_char c :: nat) \<and> (of_char c :: nat) \<le> 90 then char_of ((of_char c :: nat) + 32) else c)"

subsection \<open>The \<open>strconv\<close> package\<close>

text \<open>\<open>strconv.FormatInt(n, 10)\<close> and \<open>%d\<close>.\<close>

fun nat_digits :: "nat \<Rightarrow> string" where
  "nat_digits n = (if n < 10 then [char_of (48 + n)] else nat_digits (n div 10) @ [char_of (48 + n mod 10)])"

declare nat_digits.simps [simp del]

definition FormatInt :: "int \<Rightarrow> string" where
  "FormatInt n = (if n < 0 then ''-'' @ nat_digits (nat (- n)) else nat_digits (nat n))"

definition is_digit :: "char \<Rightarrow> bool" where
  "is_digit c \<longleftrightarrow> 48 \<le> (of_char c :: nat) \<and> (of_char c :: nat) \<le> 57"

definition digits_value :: "string \<Rightarrow> nat" where
  "digits_value ds = foldl (\<lambda>n c. 10 * n + (of_char c - 48)) 0 ds"

text \<open>\<open>strconv.Atoi\<close>: an optional sign and digits within the range of \<open>int64\<close>; \<open>None\<close> is its error.\<close>

definition Atoi :: "string \<Rightarrow> int option" where
  "Atoi s =
     (let neg = (s \<noteq> [] \<and> hd s = CHR ''-'');
          ds = (if s \<noteq> [] \<and> (hd s = CHR ''-'' \<or> hd s = CHR ''+'') then tl s else s);
          n = int (digits_value ds)
      in if ds = [] \<or> \<not> list_all is_digit ds then None
         else if neg then (if n \<le> 2 ^ 63 then Some (- n) else None)
         else (if n < 2 ^ 63 then Some n else None))"

text \<open>\<open>hex.DecodeString\<close>: pairs of hexadecimal digits; an odd length or another byte is its error.\<close>

definition hex_value :: "char \<Rightarrow> nat option" where
  "hex_value c =
     (let n = of_char c :: nat in
      if 48 \<le> n \<and> n \<le> 57 then Some (n - 48)
      else if 97 \<le> n \<and> n \<le> 102 then Some (n - 87)
      else if 65 \<le> n \<and> n \<le> 70 then Some (n - 55)
      else None)"

fun hex_DecodeString :: "string \<Rightarrow> string option" where
  "hex_DecodeString [] = Some []"
| "hex_DecodeString [_] = None"
| "hex_DecodeString (a # b # s) =
     (case (hex_value a, hex_value b, hex_DecodeString s) of
        (Some x, Some y, Some r) \<Rightarrow> Some (char_of (16 * x + y) # r)
      | _ \<Rightarrow> None)"

lemma nat_digits_nonempty [simp]: "nat_digits n \<noteq> []"
  by (subst nat_digits.simps) simp

lemma digit_char: "d < 10 \<Longrightarrow> is_digit (char_of (48 + d)) \<and> of_char (char_of (48 + d) :: char) - 48 = (d :: nat)"
  by (simp add: is_digit_def)

lemma nat_digits_digits: "list_all is_digit (nat_digits n)"
  by (induction n rule: nat_digits.induct) (subst nat_digits.simps, simp add: digit_char)

lemma digits_value_append: "digits_value (ds @ [c]) = 10 * digits_value ds + (of_char c - 48)"
  by (simp add: digits_value_def)

lemma digits_value_digits: "digits_value (nat_digits n) = n"
proof (induction n rule: nat_digits.induct)
  case (1 n)
  show ?case
  proof (cases "n < 10")
    case True
    then show ?thesis by (subst nat_digits.simps) (simp add: digits_value_def)
  next
    case False
    with 1 show ?thesis by (subst nat_digits.simps) (simp add: digits_value_append)
  qed
qed

lemma digits_no_sign: "is_digit c \<Longrightarrow> c \<noteq> CHR ''-'' \<and> c \<noteq> CHR ''+'' \<and> c \<noteq> CHR ''.'' \<and> c \<noteq> CHR ''v''"
  by (auto simp: is_digit_def)

lemma Atoi_digits:
  assumes "list_all is_digit ds" and "ds \<noteq> []"
  shows "Atoi ds = (if int (digits_value ds) < 2 ^ 63 then Some (int (digits_value ds)) else None)"
  using assms digits_no_sign [of "hd ds"] by (cases ds) (simp_all add: Atoi_def Let_def)

lemma Atoi_FormatInt: "0 \<le> n \<Longrightarrow> n < 2 ^ 63 \<Longrightarrow> Atoi (FormatInt n) = Some n"
  by (simp add: FormatInt_def Atoi_digits nat_digits_digits digits_value_digits)

subsection \<open>The \<open>path\<close> package\<close>

text \<open>\<open>path.Clean\<close>: the components kept so far are a stack, the last one first.\<close>

fun clean_push :: "bool \<Rightarrow> string list \<Rightarrow> string \<Rightarrow> string list" where
  "clean_push rooted stack w =
     (if w = '''' \<or> w = ''.'' then stack
      else if w = ''..'' then
        (case stack of
           [] \<Rightarrow> if rooted then [] else [w]
         | d # rest \<Rightarrow> if d = ''..'' then w # stack else rest)
      else w # stack)"

definition path_Clean :: "string \<Rightarrow> string" where
  "path_Clean p =
     (if p = '''' then ''.''
      else let rooted = (hd p = CHR ''/'');
               body = join_with ''/'' (rev (fold (\<lambda>w stack. clean_push rooted stack w) (split_on CHR ''/'' p) []))
           in if rooted then CHR ''/'' # body else if body = '''' then ''.'' else body)"

definition TrimSuffix :: "string \<Rightarrow> string \<Rightarrow> string" where
  "TrimSuffix s t = (if suffix t s then take (length s - length t) s else s)"

text \<open>\<open>strings.Cut\<close> at the first separator.\<close>

fun cut_at :: "char \<Rightarrow> string \<Rightarrow> (string \<times> string) option" where
  "cut_at c [] = None"
| "cut_at c (x # xs) = (if x = c then Some ([], xs) else map_option (\<lambda>(a, b). (x # a, b)) (cut_at c xs))"

lemma TrimSuffix_cases: "TrimSuffix p t = p \<or> p = TrimSuffix p t @ t"
  by (auto simp: TrimSuffix_def suffix_def)

lemma cut_at_first: "c \<notin> set u \<Longrightarrow> cut_at c (u @ c # v) = Some (u, v)"
  by (induction u) auto

text \<open>A segment that a router or a file system can only read one way.\<close>

definition plain_segment :: "string \<Rightarrow> bool" where
  "plain_segment w \<longleftrightarrow> w \<noteq> '''' \<and> w \<noteq> ''.'' \<and> w \<noteq> ''..'' \<and> CHR ''/'' \<notin> set w"

lemma clean_push_plain:
  assumes "list_all plain_segment stack" and "CHR ''/'' \<notin> set w"
  shows "list_all plain_segment (clean_push True stack w)"
  using assms by (cases stack) (simp_all add: plain_segment_def)

lemma clean_fold_plain:
  assumes "list_all plain_segment stack" and "\<forall>w\<in>set ws. CHR ''/'' \<notin> set w"
  shows "list_all plain_segment (fold (\<lambda>w stack. clean_push True stack w) ws stack)"
  using assms
proof (induction ws arbitrary: stack)
  case (Cons w ws)
  from Cons.prems(2) have w: "CHR ''/'' \<notin> set w" and ws: "\<forall>w\<in>set ws. CHR ''/'' \<notin> set w" by simp_all
  from Cons.IH [OF clean_push_plain [OF Cons.prems(1) w] ws] show ?case
    unfolding fold_simps .
qed simp

lemma path_Clean_rooted:
  assumes "p \<noteq> ''''" and "hd p = CHR ''/''"
  obtains segs where "list_all plain_segment segs" and "path_Clean p = CHR ''/'' # join_with ''/'' segs"
proof
  let ?stack = "fold (\<lambda>w stack. clean_push True stack w) (split_on CHR ''/'' p) []"
  have "\<forall>w\<in>set (split_on CHR ''/'' p). CHR ''/'' \<notin> set w" by (simp add: split_on_pieces)
  then show "list_all plain_segment (rev ?stack)" using clean_fold_plain [of "[]"] by simp
  show "path_Clean p = CHR ''/'' # join_with ''/'' (rev ?stack)" using assms by (simp add: path_Clean_def Let_def)
qed

text \<open>\<open>path.Base\<close> and \<open>path.Dir\<close>: around the last slash.\<close>

definition path_Base :: "string \<Rightarrow> string" where
  "path_Base p =
     (if p = '''' then ''.''
      else let q = rev (dropWhile (\<lambda>c. c = CHR ''/'') (rev p)) in
           if q = '''' then ''/'' else last (split_on CHR ''/'' q))"

definition path_Dir :: "string \<Rightarrow> string" where
  "path_Dir p = path_Clean (rev (dropWhile (\<lambda>c. c \<noteq> CHR ''/'') (rev p)))"

text \<open>\<open>strings.HasSuffix\<close> and \<open>strings.Contains\<close>.\<close>

definition HasSuffix :: "string \<Rightarrow> string \<Rightarrow> bool" where
  "HasSuffix s t \<longleftrightarrow> suffix t s"

fun contains :: "string \<Rightarrow> string \<Rightarrow> bool" where
  "contains sub [] = (sub = [])"
| "contains sub (c # cs) = (prefix sub (c # cs) \<or> contains sub cs)"

lemma join_nonempty: "list_all plain_segment segs \<Longrightarrow> segs \<noteq> [] \<Longrightarrow> join_with ''/'' segs \<noteq> []"
  by (cases segs; cases "tl segs") (auto simp: plain_segment_def)

lemma split_join:
  "segs \<noteq> [] \<Longrightarrow> list_all plain_segment segs \<Longrightarrow> split_on CHR ''/'' (join_with ''/'' segs) = segs"
proof (induction segs rule: induct_list012)
  case (3 x y zs)
  then have "CHR ''/'' \<notin> set x" by (simp add: plain_segment_def)
  then show ?case using 3 by (simp add: split_on_append)
qed (simp_all add: plain_segment_def split_on_no_sep)

lemma clean_fold_id:
  "list_all plain_segment segs \<Longrightarrow> fold (\<lambda>w stack. clean_push b stack w) segs stack = rev segs @ stack"
  by (induction segs arbitrary: stack) (simp_all add: plain_segment_def)

text \<open>A relative path of plain segments is its own canonical form, and its parent the path without the last.\<close>

lemma path_Clean_plain:
  assumes "list_all plain_segment segs" and "segs \<noteq> []"
  shows "path_Clean (join_with ''/'' segs) = join_with ''/'' segs"
proof -
  have ne: "join_with ''/'' segs \<noteq> []" by (rule join_nonempty [OF assms])
  have "hd (join_with ''/'' segs) \<noteq> CHR ''/''"
    using assms by (cases segs; cases "tl segs"; cases "hd segs") (auto simp: plain_segment_def)
  then show ?thesis
    using ne clean_fold_id [OF assms(1), of _ "[]"] split_join [OF assms(2,1)] by (simp add: path_Clean_def Let_def)
qed

lemma join_snoc: "segs \<noteq> [] \<Longrightarrow> join_with sep (segs @ [w]) = join_with sep segs @ sep @ w"
  by (induction segs rule: induct_list012) simp_all

lemma dropWhile_to_slash:
  "CHR ''/'' \<notin> set w \<Longrightarrow> dropWhile (\<lambda>c. c \<noteq> CHR ''/'') (rev w @ CHR ''/'' # s) = CHR ''/'' # s"
  by (subst dropWhile_append2) auto

lemma path_Dir_plain:
  assumes "list_all plain_segment segs" and "segs \<noteq> []"
  shows "path_Dir (join_with ''/'' segs) = (if butlast segs = [] then ''.'' else join_with ''/'' (butlast segs))"
proof -
  obtain ds w where segs: "segs = ds @ [w]" using assms(2) by (cases segs rule: rev_cases) auto
  then have w: "CHR ''/'' \<notin> set w" and ds: "list_all plain_segment ds" using assms(1) by (simp_all add: plain_segment_def)
  show ?thesis
  proof (cases "ds = []")
    case True
    have "dropWhile (\<lambda>c. c \<noteq> CHR ''/'') (rev w) = []" using w by (auto simp: dropWhile_eq_Nil_conv)
    then show ?thesis using segs True by (simp add: path_Dir_def path_Clean_def)
  next
    case False
    have "path_Dir (join_with ''/'' segs) = path_Clean (join_with ''/'' ds @ ''/'')"
      unfolding segs join_snoc [OF False] path_Dir_def using dropWhile_to_slash [OF w] by simp
    also have "\<dots> = join_with ''/'' ds"
    proof -
      have "split_on CHR ''/'' (join_with ''/'' ds @ ''/'') = ds @ [[]]"
        using split_on_two [of "CHR ''/''" "join_with ''/'' ds" "[]"] split_join [OF False ds] by simp
      moreover have "hd (join_with ''/'' ds @ ''/'') \<noteq> CHR ''/''"
        using False ds by (cases ds; cases "tl ds"; cases "hd ds") (auto simp: plain_segment_def)
      ultimately show ?thesis
        using clean_fold_id [OF ds, of False "[]"] join_nonempty [OF ds False] by (simp add: path_Clean_def Let_def)
    qed
    finally show ?thesis using False segs by simp
  qed
qed

text \<open>Signed 64-bit arithmetic: the value after wrap-around.\<close>

definition wrap64 :: "int \<Rightarrow> int" where
  "wrap64 x = (x + 2 ^ 63) mod 2 ^ 64 - 2 ^ 63"

definition fits_int64 :: "int \<Rightarrow> bool" where
  "fits_int64 x \<longleftrightarrow> - (2 ^ 63) \<le> x \<and> x < 2 ^ 63"

lemma wrap64_id: "fits_int64 x \<Longrightarrow> wrap64 x = x"
  by (simp add: wrap64_def fits_int64_def)

subsection \<open>Go maps as association lists\<close>

type_synonym ('k, 'v) gomap = "('k \<times> 'v) list"

abbreviation go_keys :: "('k, 'v) gomap \<Rightarrow> 'k set" where
  "go_keys m \<equiv> fst ` set m"

abbreviation go_wf :: "('k, 'v) gomap \<Rightarrow> bool" where
  "go_wf m \<equiv> distinct (map fst m)"

text \<open>\<open>m[k]\<close> for a map whose values are strings: a missing key reads as the zero value.\<close>

definition str_at :: "('k, string) gomap \<Rightarrow> 'k \<Rightarrow> string" where
  "str_at m k = (case map_of m k of None \<Rightarrow> '''' | Some v \<Rightarrow> v)"

text \<open>How many values of the map satisfy a predicate: the counting loops of the stores.\<close>

definition count_vals :: "('v \<Rightarrow> bool) \<Rightarrow> ('k \<times> 'v) list \<Rightarrow> nat" where
  "count_vals P es = length (filter (\<lambda>e. P (snd e)) es)"

lemma count_vals_simps [simp]:
  "count_vals P [] = 0"
  "count_vals P (e # es) = (if P (snd e) then Suc (count_vals P es) else count_vals P es)"
  by (simp_all add: count_vals_def)

lemma count_vals_le_length: "count_vals P es \<le> length es"
  by (simp add: count_vals_def)

text \<open>
  The interface the stores rely on: a finite map with lookup, update, delete and a listing
  of its entries. The counting facts the limits rest on are proved once from its laws.
\<close>

locale finite_map =
  fixes lookup :: "'m \<Rightarrow> 'k \<Rightarrow> 'v option"
    and update :: "'k \<Rightarrow> 'v \<Rightarrow> 'm \<Rightarrow> 'm"
    and delete :: "'k \<Rightarrow> 'm \<Rightarrow> 'm"
    and entries :: "'m \<Rightarrow> ('k \<times> 'v) list"
    and invar :: "'m \<Rightarrow> bool"
  assumes lookup_update: "lookup (update k v m) = (lookup m)(k \<mapsto> v)"
    and lookup_delete: "invar m \<Longrightarrow> lookup (delete k m) = (lookup m)(k := None)"
    and entries_lookup: "invar m \<Longrightarrow> (k, v) \<in> set (entries m) \<longleftrightarrow> lookup m k = Some v"
    and entries_distinct: "invar m \<Longrightarrow> distinct (map fst (entries m))"
    and invar_update: "invar m \<Longrightarrow> invar (update k v m)"
    and invar_delete: "invar m \<Longrightarrow> invar (delete k m)"
begin

lemma count_card:
  assumes "invar m"
  shows "count_vals P (entries m) = card {k. \<exists>v. lookup m k = Some v \<and> P v}"
proof -
  let ?fs = "filter (\<lambda>e. P (snd e)) (entries m)"
  from assms have d: "distinct (map fst ?fs)"
    by (rule distinct_map_filter [OF entries_distinct])
  then have "length ?fs = card (set (map fst ?fs))"
    by (metis distinct_card length_map)
  also have "set (map fst ?fs) = {k. \<exists>v. lookup m k = Some v \<and> P v}"
    using assms by (force simp: entries_lookup [symmetric])
  finally show ?thesis by (simp add: count_vals_def)
qed

lemma finite_matching:
  assumes "invar m"
  shows "finite {k. \<exists>v. lookup m k = Some v \<and> P v}"
proof (rule finite_subset)
  show "{k. \<exists>v. lookup m k = Some v \<and> P v} \<subseteq> fst ` set (entries m)"
    using assms by (force simp: entries_lookup [symmetric])
qed simp

lemma matching_update:
  "{j. \<exists>w. lookup (update k v m) j = Some w \<and> P w} =
   (let S = {j. \<exists>w. lookup m j = Some w \<and> P w} in if P v then insert k S else S - {k})"
  by (auto simp: lookup_update Let_def split: if_splits)

lemma count_update_new:
  assumes "invar m" "lookup m k = None"
  shows "count_vals P (entries (update k v m)) = count_vals P (entries m) + (if P v then 1 else 0)"
  using assms by (simp add: count_card invar_update matching_update finite_matching)

lemma count_update_old:
  assumes "invar m" "lookup m k = Some w"
  shows "count_vals P (entries (update k v m)) + (if P w then 1 else 0)
           = count_vals P (entries m) + (if P v then 1 else 0)"
proof -
  let ?S = "{j. \<exists>w. lookup m j = Some w \<and> P w}"
  have fin: "finite ?S" using assms(1) by (rule finite_matching)
  have mem: "k \<in> ?S \<longleftrightarrow> P w" using assms(2) by simp
  have card: "card (if P v then insert k ?S else ?S - {k}) + (if P w then 1 else 0)
              = card ?S + (if P v then 1 else 0)"
  proof (cases "P w")
    case True
    with mem have "k \<in> ?S" by simp
    then have "insert k ?S = ?S" and "0 < card ?S" using fin by (auto simp: card_gt_0_iff)
    with True fin \<open>k \<in> ?S\<close> show ?thesis by (cases "P v") simp_all
  next
    case False
    with mem have "k \<notin> ?S" by simp
    with False fin show ?thesis by (cases "P v") simp_all
  qed
  then show ?thesis
    using assms(1) by (simp add: count_card invar_update matching_update Let_def)
qed

lemma count_update_mono:
  assumes "invar m" "lookup m k = Some w" "P v \<Longrightarrow> P w"
  shows "count_vals P (entries (update k v m)) \<le> count_vals P (entries m)"
  using count_update_old [OF assms(1,2), of P v] assms(3) by (auto split: if_splits)

lemma count_delete_le:
  assumes "invar m"
  shows "count_vals P (entries (delete k m)) \<le> count_vals P (entries m)"
proof -
  have "{j. \<exists>w. lookup (delete k m) j = Some w \<and> P w} \<subseteq> {j. \<exists>w. lookup m j = Some w \<and> P w}"
    using assms by (auto simp: lookup_delete split: if_splits)
  with assms show ?thesis
    by (simp add: count_card invar_delete finite_matching card_mono)
qed

end

text \<open>The maps of the models are association lists; \<open>range\<close> visits the list itself.\<close>

lemma alist_lookup_update: "map_of (AList.update k v m) = (map_of m)(k \<mapsto> v)"
  by (simp add: update_conv')

lemma alist_lookup_delete: "map_of (AList.delete k m) = (map_of m)(k := None)"
  by (simp add: delete_conv')

interpretation am: finite_map map_of AList.update AList.delete "\<lambda>m. m" go_wf
proof unfold_locales
  fix m :: "('k, 'v) gomap" and k v
  show "map_of (AList.update k v m) = (map_of m)(k \<mapsto> v)" by (rule alist_lookup_update)
  assume wf: "go_wf m"
  then show "map_of (AList.delete k m) = (map_of m)(k := None)" by (simp add: alist_lookup_delete)
  show "(k, v) \<in> set m \<longleftrightarrow> map_of m k = Some v"
    using wf by (simp add: map_of_eq_Some_iff)
  show "distinct (map fst m)" by (rule wf)
  show "go_wf (AList.update k v m)" using wf by (rule distinct_update)
  show "go_wf (AList.delete k m)" using wf by (rule distinct_delete)
qed

lemma length_update_new: "map_of m k = None \<Longrightarrow> length (AList.update k v m) = Suc (length m)"
  by (induction m) (auto split: if_splits)

lemma length_update_old: "map_of m k \<noteq> None \<Longrightarrow> length (AList.update k v m) = length m"
  by (induction m) (auto split: if_splits)

lemma update_entries:
  "go_wf m \<Longrightarrow> (j, w) \<in> set (AList.update k v m) \<Longrightarrow> (j = k \<and> w = v) \<or> (j \<noteq> k \<and> (j, w) \<in> set m)"
  using am.entries_lookup [of "AList.update k v m" j w] am.entries_lookup [of m j w]
  by (auto simp: distinct_update alist_lookup_update split: if_splits)

subsection \<open>The error-valued \<open>for\<close> loop\<close>

text \<open>A \<open>for\<close> loop that returns at the first error is the first error of the list.\<close>

fun first_error :: "('a \<Rightarrow> 'e option) \<Rightarrow> 'a list \<Rightarrow> 'e option" where
  "first_error f [] = None"
| "first_error f (x # xs) = (case f x of Some e \<Rightarrow> Some e | None \<Rightarrow> first_error f xs)"

lemma first_error_None [simp]: "first_error f xs = None \<longleftrightarrow> (\<forall>x\<in>set xs. f x = None)"
  by (induction xs) (auto split: option.splits)

end
