(* ===== verification/Agent_Lifecycle.thy ===== *)
theory Agent_Lifecycle
  imports Go_Prelude
begin

section \<open>The agent lifecycle state machine (\<open>pkg/controllers/agent/state_machine.go\<close>)\<close>

text \<open>
  The pure state machine of the Agent controller: the phases of an agent
  (\<open>pkg/api/v1/agent_types.go\<close>), the events that drive it, the actions the reconciler must
  take, and \<open>NextPhase\<close>, which the source writes as a map literal from (phase, event) to
  (action, next phase). The literal is kept here as the association list
  \<open>agent_transitions\<close>, one row per entry, in the source's order and in the source's comment
  groups; a missing key is the source's "invalid transition" error. The retry backoff is
  computed in 64-bit two's complement as the code does.
\<close>

subsection \<open>Phases, events, actions\<close>

text \<open>\<open>PhaseNone\<close> is the empty string of an agent whose status was never written.\<close>

datatype agent_phase =
    PhaseNone | PhaseCreating | PhaseStarting | PhaseRunning | PhaseStopping | PhaseStopped
  | PhaseRestarting | PhaseFailed | PhaseDeleted | PhaseDraining | PhaseWaitingForMachine
  | PhaseNeedsAuth | PhaseMemoryExhausted | PhaseDiskExhausted | PhaseBrokenRuntime

datatype agent_event =
    EventCRDCreated
  | EventCRDCreatedStopped
  | EventPodScheduled
  | EventPodScheduleFailed
  | EventPodReady
  | EventStartupTimeout
  | EventDesiredStopped
  | EventDesiredRestarting
  | EventDesiredNeedsAuth
  | EventDesiredRunning
  | EventPodDied
  | EventLivenessFailed
  | EventPodTerminated
  | EventGracePeriodExceeded
  | EventPodDeleted
  | EventAutoRestartTriggered
  | EventRetryLimitReached
  | EventPreemptionNotice
  | EventMachinePreempted
  | EventMachineUnavailable
  | EventStaleNodePod
  | EventMachineReady
  | EventOAuthRefreshFailed
  | EventInferenceAuthRejected
  | EventInferenceCredentialRotated
  | EventAuthServiceFailed
  | EventCredentialSyncFailed
  | EventRuntimeProbeFailed
  | EventOOMKilled
  | EventDiskReserveReached
  | EventDiskReserveCleared
  | EventIdentityRepoReady
  | EventRestoreComplete

datatype agent_action =
    ActionCreatePVAndPod
  | ActionCreatePVOnly
  | ActionWaitForStart
  | ActionLogAndEmitEvent
  | ActionUpdateStatus
  | ActionKillPodAndEmitEvent
  | ActionSendSIGTERM
  | ActionCaptureStateAndDeletePod
  | ActionEmitEventAutoRestart
  | ActionKillPodEmitEventAutoRestart
  | ActionForceKillPod
  | ActionWriteBriefAndCreatePod
  | ActionResetRetryAndCreatePod
  | ActionStayFailedAndAlert
  | ActionDrainAgent
  | ActionTransitionToWaiting

record transition_result =
  Action :: agent_action
  NextPhaseOf :: agent_phase

datatype transition_error = InvalidTransition agent_phase agent_event

subsection \<open>The transition table\<close>

type_synonym transition_row = "(agent_phase \<times> agent_event) \<times> transition_result"

abbreviation row :: "agent_phase \<Rightarrow> agent_event \<Rightarrow> agent_action \<Rightarrow> agent_phase \<Rightarrow> transition_row" where
  "row p e a q \<equiv> ((p, e), \<lparr>Action = a, NextPhaseOf = q\<rparr>)"

definition transitions_initial_creating :: "transition_row list" where
  "transitions_initial_creating =
    [row PhaseNone EventCRDCreated ActionCreatePVAndPod PhaseCreating,
     row PhaseNone EventCRDCreatedStopped ActionCreatePVOnly PhaseStopped,
     row PhaseCreating EventIdentityRepoReady ActionCreatePVAndPod PhaseCreating,
     row PhaseCreating EventRestoreComplete ActionCreatePVAndPod PhaseCreating,
     row PhaseCreating EventPodScheduled ActionWaitForStart PhaseStarting,
     row PhaseCreating EventPodScheduleFailed ActionLogAndEmitEvent PhaseFailed]"

definition transitions_starting :: "transition_row list" where
  "transitions_starting =
    [row PhaseStarting EventPodReady ActionUpdateStatus PhaseRunning,
     row PhaseStarting EventStartupTimeout ActionKillPodAndEmitEvent PhaseFailed,
     row PhaseStarting EventPodScheduleFailed ActionLogAndEmitEvent PhaseFailed,
     row PhaseStarting EventPodDied ActionEmitEventAutoRestart PhaseFailed,
     row PhaseStarting EventOAuthRefreshFailed ActionUpdateStatus PhaseNeedsAuth,
     row PhaseStarting EventAuthServiceFailed ActionEmitEventAutoRestart PhaseFailed,
     row PhaseStarting EventCredentialSyncFailed ActionEmitEventAutoRestart PhaseFailed,
     row PhaseStarting EventRuntimeProbeFailed ActionUpdateStatus PhaseBrokenRuntime,
     row PhaseStarting EventOOMKilled ActionUpdateStatus PhaseMemoryExhausted]"

definition transitions_running :: "transition_row list" where
  "transitions_running =
    [row PhaseRunning EventDesiredStopped ActionSendSIGTERM PhaseStopping,
     row PhaseRunning EventDesiredRestarting ActionCaptureStateAndDeletePod PhaseRestarting,
     row PhaseBrokenRuntime EventDesiredRestarting ActionCaptureStateAndDeletePod PhaseRestarting,
     row PhaseRunning EventPodDied ActionEmitEventAutoRestart PhaseFailed,
     row PhaseRunning EventOAuthRefreshFailed ActionUpdateStatus PhaseNeedsAuth,
     row PhaseRunning EventInferenceAuthRejected ActionCaptureStateAndDeletePod PhaseNeedsAuth,
     row PhaseRunning EventInferenceCredentialRotated ActionCaptureStateAndDeletePod PhaseRestarting,
     row PhaseRunning EventAuthServiceFailed ActionEmitEventAutoRestart PhaseFailed,
     row PhaseRunning EventCredentialSyncFailed ActionEmitEventAutoRestart PhaseFailed,
     row PhaseRunning EventRuntimeProbeFailed ActionUpdateStatus PhaseBrokenRuntime,
     row PhaseRunning EventOOMKilled ActionUpdateStatus PhaseMemoryExhausted,
     row PhaseRunning EventDiskReserveReached ActionUpdateStatus PhaseDiskExhausted,
     row PhaseDiskExhausted EventDiskReserveCleared ActionUpdateStatus PhaseRunning,
     row PhaseDiskExhausted EventDesiredRunning ActionResetRetryAndCreatePod PhaseCreating,
     row PhaseDiskExhausted EventDesiredRestarting ActionCaptureStateAndDeletePod PhaseRestarting,
     row PhaseRunning EventLivenessFailed ActionKillPodEmitEventAutoRestart PhaseFailed]"

definition transitions_stopping_failed :: "transition_row list" where
  "transitions_stopping_failed =
    [row PhaseStopping EventPodTerminated ActionUpdateStatus PhaseStopped,
     row PhaseStopping EventGracePeriodExceeded ActionForceKillPod PhaseStopped,
     row PhaseStopped EventDesiredRunning ActionWriteBriefAndCreatePod PhaseCreating,
     row PhaseRestarting EventPodDeleted ActionWriteBriefAndCreatePod PhaseCreating,
     row PhaseFailed EventAutoRestartTriggered ActionWriteBriefAndCreatePod PhaseCreating,
     row PhaseFailed EventStaleNodePod ActionTransitionToWaiting PhaseWaitingForMachine,
     row PhaseFailed EventRetryLimitReached ActionStayFailedAndAlert PhaseFailed,
     row PhaseFailed EventDesiredRunning ActionResetRetryAndCreatePod PhaseCreating]"

definition transitions_needs_auth :: "transition_row list" where
  "transitions_needs_auth =
    [row PhaseNeedsAuth EventDesiredRunning ActionResetRetryAndCreatePod PhaseCreating,
     row PhaseRunning EventDesiredNeedsAuth ActionCaptureStateAndDeletePod PhaseNeedsAuth,
     row PhaseStarting EventDesiredNeedsAuth ActionCaptureStateAndDeletePod PhaseNeedsAuth,
     row PhaseFailed EventDesiredNeedsAuth ActionUpdateStatus PhaseNeedsAuth,
     row PhaseMemoryExhausted EventDesiredNeedsAuth ActionUpdateStatus PhaseNeedsAuth,
     row PhaseDiskExhausted EventDesiredNeedsAuth ActionCaptureStateAndDeletePod PhaseNeedsAuth,
     row PhaseStopped EventDesiredNeedsAuth ActionUpdateStatus PhaseNeedsAuth]"

definition transitions_stop_switch :: "transition_row list" where
  "transitions_stop_switch =
    [row PhaseStarting EventDesiredStopped ActionCaptureStateAndDeletePod PhaseStopping,
     row PhaseFailed EventDesiredStopped ActionCaptureStateAndDeletePod PhaseStopping,
     row PhaseMemoryExhausted EventDesiredStopped ActionCaptureStateAndDeletePod PhaseStopping,
     row PhaseDiskExhausted EventDesiredStopped ActionCaptureStateAndDeletePod PhaseStopping,
     row PhaseBrokenRuntime EventDesiredStopped ActionCaptureStateAndDeletePod PhaseStopping,
     row PhaseWaitingForMachine EventDesiredStopped ActionForceKillPod PhaseStopped,
     row PhaseMemoryExhausted EventDesiredRunning ActionResetRetryAndCreatePod PhaseCreating]"

definition transitions_machine :: "transition_row list" where
  "transitions_machine =
    [row PhaseRunning EventPreemptionNotice ActionDrainAgent PhaseDraining,
     row PhaseDraining EventPodDeleted ActionTransitionToWaiting PhaseWaitingForMachine,
     row PhaseRunning EventMachinePreempted ActionTransitionToWaiting PhaseWaitingForMachine,
     row PhaseStarting EventMachinePreempted ActionTransitionToWaiting PhaseWaitingForMachine,
     row PhaseCreating EventMachineUnavailable ActionTransitionToWaiting PhaseWaitingForMachine,
     row PhaseStarting EventMachineUnavailable ActionTransitionToWaiting PhaseWaitingForMachine,
     row PhaseRunning EventMachineUnavailable ActionTransitionToWaiting PhaseWaitingForMachine,
     row PhaseRestarting EventMachineUnavailable ActionTransitionToWaiting PhaseWaitingForMachine,
     row PhaseDraining EventMachinePreempted ActionTransitionToWaiting PhaseWaitingForMachine,
     row PhaseWaitingForMachine EventMachineReady ActionWriteBriefAndCreatePod PhaseCreating]"

definition agent_transitions :: "transition_row list" where
  "agent_transitions =
     transitions_initial_creating @ transitions_starting @ transitions_running
     @ transitions_stopping_failed @ transitions_needs_auth @ transitions_stop_switch
     @ transitions_machine"

lemmas transitions_defs = agent_transitions_def transitions_initial_creating_def
  transitions_starting_def transitions_running_def transitions_stopping_failed_def
  transitions_needs_auth_def transitions_stop_switch_def transitions_machine_def

definition NextPhase :: "agent_phase \<Rightarrow> agent_event \<Rightarrow> transition_error + transition_result" where
  "NextPhase current event =
     (case map_of agent_transitions (current, event) of
        None \<Rightarrow> Inl (InvalidTransition current event)
      | Some result \<Rightarrow> Inr result)"

lemma NextPhase_rows:
  "NextPhase p e = Inr r \<Longrightarrow> ((p, e), r) \<in> set agent_transitions"
  by (auto simp: NextPhase_def dest: map_of_SomeD split: option.splits)

text \<open>A property of every transition is a property of the table's rows.\<close>

lemma NextPhase_all_rows:
  assumes "list_all (\<lambda>((p, e), r). P p e r) agent_transitions" and "NextPhase p e = Inr r"
  shows "P p e r"
  using assms by (auto dest: NextPhase_rows simp: list_all_iff)

text \<open>The table as rewrite rules, for the controller's proofs.\<close>

lemma NextPhase_table [simp]:
  "NextPhase PhaseNone EventCRDCreated = Inr \<lparr>Action = ActionCreatePVAndPod, NextPhaseOf = PhaseCreating\<rparr>"
  "NextPhase PhaseNone EventCRDCreatedStopped = Inr \<lparr>Action = ActionCreatePVOnly, NextPhaseOf = PhaseStopped\<rparr>"
  "NextPhase PhaseCreating EventIdentityRepoReady = Inr \<lparr>Action = ActionCreatePVAndPod, NextPhaseOf = PhaseCreating\<rparr>"
  "NextPhase PhaseCreating EventRestoreComplete = Inr \<lparr>Action = ActionCreatePVAndPod, NextPhaseOf = PhaseCreating\<rparr>"
  "NextPhase PhaseCreating EventPodScheduled = Inr \<lparr>Action = ActionWaitForStart, NextPhaseOf = PhaseStarting\<rparr>"
  "NextPhase PhaseCreating EventPodScheduleFailed = Inr \<lparr>Action = ActionLogAndEmitEvent, NextPhaseOf = PhaseFailed\<rparr>"
  "NextPhase PhaseStarting EventPodReady = Inr \<lparr>Action = ActionUpdateStatus, NextPhaseOf = PhaseRunning\<rparr>"
  "NextPhase PhaseStarting EventStartupTimeout = Inr \<lparr>Action = ActionKillPodAndEmitEvent, NextPhaseOf = PhaseFailed\<rparr>"
  "NextPhase PhaseStarting EventPodScheduleFailed = Inr \<lparr>Action = ActionLogAndEmitEvent, NextPhaseOf = PhaseFailed\<rparr>"
  "NextPhase PhaseStarting EventPodDied = Inr \<lparr>Action = ActionEmitEventAutoRestart, NextPhaseOf = PhaseFailed\<rparr>"
  "NextPhase PhaseStarting EventOAuthRefreshFailed = Inr \<lparr>Action = ActionUpdateStatus, NextPhaseOf = PhaseNeedsAuth\<rparr>"
  "NextPhase PhaseStarting EventAuthServiceFailed = Inr \<lparr>Action = ActionEmitEventAutoRestart, NextPhaseOf = PhaseFailed\<rparr>"
  "NextPhase PhaseStarting EventCredentialSyncFailed = Inr \<lparr>Action = ActionEmitEventAutoRestart, NextPhaseOf = PhaseFailed\<rparr>"
  "NextPhase PhaseStarting EventRuntimeProbeFailed = Inr \<lparr>Action = ActionUpdateStatus, NextPhaseOf = PhaseBrokenRuntime\<rparr>"
  "NextPhase PhaseStarting EventOOMKilled = Inr \<lparr>Action = ActionUpdateStatus, NextPhaseOf = PhaseMemoryExhausted\<rparr>"
  "NextPhase PhaseRunning EventDesiredStopped = Inr \<lparr>Action = ActionSendSIGTERM, NextPhaseOf = PhaseStopping\<rparr>"
  "NextPhase PhaseRunning EventDesiredRestarting = Inr \<lparr>Action = ActionCaptureStateAndDeletePod, NextPhaseOf = PhaseRestarting\<rparr>"
  "NextPhase PhaseBrokenRuntime EventDesiredRestarting = Inr \<lparr>Action = ActionCaptureStateAndDeletePod, NextPhaseOf = PhaseRestarting\<rparr>"
  "NextPhase PhaseRunning EventPodDied = Inr \<lparr>Action = ActionEmitEventAutoRestart, NextPhaseOf = PhaseFailed\<rparr>"
  "NextPhase PhaseRunning EventOAuthRefreshFailed = Inr \<lparr>Action = ActionUpdateStatus, NextPhaseOf = PhaseNeedsAuth\<rparr>"
  "NextPhase PhaseRunning EventInferenceAuthRejected = Inr \<lparr>Action = ActionCaptureStateAndDeletePod, NextPhaseOf = PhaseNeedsAuth\<rparr>"
  "NextPhase PhaseRunning EventInferenceCredentialRotated = Inr \<lparr>Action = ActionCaptureStateAndDeletePod, NextPhaseOf = PhaseRestarting\<rparr>"
  "NextPhase PhaseRunning EventAuthServiceFailed = Inr \<lparr>Action = ActionEmitEventAutoRestart, NextPhaseOf = PhaseFailed\<rparr>"
  "NextPhase PhaseRunning EventCredentialSyncFailed = Inr \<lparr>Action = ActionEmitEventAutoRestart, NextPhaseOf = PhaseFailed\<rparr>"
  "NextPhase PhaseRunning EventRuntimeProbeFailed = Inr \<lparr>Action = ActionUpdateStatus, NextPhaseOf = PhaseBrokenRuntime\<rparr>"
  "NextPhase PhaseRunning EventOOMKilled = Inr \<lparr>Action = ActionUpdateStatus, NextPhaseOf = PhaseMemoryExhausted\<rparr>"
  "NextPhase PhaseRunning EventDiskReserveReached = Inr \<lparr>Action = ActionUpdateStatus, NextPhaseOf = PhaseDiskExhausted\<rparr>"
  "NextPhase PhaseDiskExhausted EventDiskReserveCleared = Inr \<lparr>Action = ActionUpdateStatus, NextPhaseOf = PhaseRunning\<rparr>"
  "NextPhase PhaseDiskExhausted EventDesiredRunning = Inr \<lparr>Action = ActionResetRetryAndCreatePod, NextPhaseOf = PhaseCreating\<rparr>"
  "NextPhase PhaseDiskExhausted EventDesiredRestarting = Inr \<lparr>Action = ActionCaptureStateAndDeletePod, NextPhaseOf = PhaseRestarting\<rparr>"
  "NextPhase PhaseRunning EventLivenessFailed = Inr \<lparr>Action = ActionKillPodEmitEventAutoRestart, NextPhaseOf = PhaseFailed\<rparr>"
  "NextPhase PhaseStopping EventPodTerminated = Inr \<lparr>Action = ActionUpdateStatus, NextPhaseOf = PhaseStopped\<rparr>"
  "NextPhase PhaseStopping EventGracePeriodExceeded = Inr \<lparr>Action = ActionForceKillPod, NextPhaseOf = PhaseStopped\<rparr>"
  "NextPhase PhaseStopped EventDesiredRunning = Inr \<lparr>Action = ActionWriteBriefAndCreatePod, NextPhaseOf = PhaseCreating\<rparr>"
  "NextPhase PhaseRestarting EventPodDeleted = Inr \<lparr>Action = ActionWriteBriefAndCreatePod, NextPhaseOf = PhaseCreating\<rparr>"
  "NextPhase PhaseFailed EventAutoRestartTriggered = Inr \<lparr>Action = ActionWriteBriefAndCreatePod, NextPhaseOf = PhaseCreating\<rparr>"
  "NextPhase PhaseFailed EventStaleNodePod = Inr \<lparr>Action = ActionTransitionToWaiting, NextPhaseOf = PhaseWaitingForMachine\<rparr>"
  "NextPhase PhaseFailed EventRetryLimitReached = Inr \<lparr>Action = ActionStayFailedAndAlert, NextPhaseOf = PhaseFailed\<rparr>"
  "NextPhase PhaseFailed EventDesiredRunning = Inr \<lparr>Action = ActionResetRetryAndCreatePod, NextPhaseOf = PhaseCreating\<rparr>"
  "NextPhase PhaseNeedsAuth EventDesiredRunning = Inr \<lparr>Action = ActionResetRetryAndCreatePod, NextPhaseOf = PhaseCreating\<rparr>"
  "NextPhase PhaseRunning EventDesiredNeedsAuth = Inr \<lparr>Action = ActionCaptureStateAndDeletePod, NextPhaseOf = PhaseNeedsAuth\<rparr>"
  "NextPhase PhaseStarting EventDesiredNeedsAuth = Inr \<lparr>Action = ActionCaptureStateAndDeletePod, NextPhaseOf = PhaseNeedsAuth\<rparr>"
  "NextPhase PhaseFailed EventDesiredNeedsAuth = Inr \<lparr>Action = ActionUpdateStatus, NextPhaseOf = PhaseNeedsAuth\<rparr>"
  "NextPhase PhaseMemoryExhausted EventDesiredNeedsAuth = Inr \<lparr>Action = ActionUpdateStatus, NextPhaseOf = PhaseNeedsAuth\<rparr>"
  "NextPhase PhaseDiskExhausted EventDesiredNeedsAuth = Inr \<lparr>Action = ActionCaptureStateAndDeletePod, NextPhaseOf = PhaseNeedsAuth\<rparr>"
  "NextPhase PhaseStopped EventDesiredNeedsAuth = Inr \<lparr>Action = ActionUpdateStatus, NextPhaseOf = PhaseNeedsAuth\<rparr>"
  "NextPhase PhaseStarting EventDesiredStopped = Inr \<lparr>Action = ActionCaptureStateAndDeletePod, NextPhaseOf = PhaseStopping\<rparr>"
  "NextPhase PhaseFailed EventDesiredStopped = Inr \<lparr>Action = ActionCaptureStateAndDeletePod, NextPhaseOf = PhaseStopping\<rparr>"
  "NextPhase PhaseMemoryExhausted EventDesiredStopped = Inr \<lparr>Action = ActionCaptureStateAndDeletePod, NextPhaseOf = PhaseStopping\<rparr>"
  "NextPhase PhaseDiskExhausted EventDesiredStopped = Inr \<lparr>Action = ActionCaptureStateAndDeletePod, NextPhaseOf = PhaseStopping\<rparr>"
  "NextPhase PhaseBrokenRuntime EventDesiredStopped = Inr \<lparr>Action = ActionCaptureStateAndDeletePod, NextPhaseOf = PhaseStopping\<rparr>"
  "NextPhase PhaseWaitingForMachine EventDesiredStopped = Inr \<lparr>Action = ActionForceKillPod, NextPhaseOf = PhaseStopped\<rparr>"
  "NextPhase PhaseMemoryExhausted EventDesiredRunning = Inr \<lparr>Action = ActionResetRetryAndCreatePod, NextPhaseOf = PhaseCreating\<rparr>"
  "NextPhase PhaseRunning EventPreemptionNotice = Inr \<lparr>Action = ActionDrainAgent, NextPhaseOf = PhaseDraining\<rparr>"
  "NextPhase PhaseDraining EventPodDeleted = Inr \<lparr>Action = ActionTransitionToWaiting, NextPhaseOf = PhaseWaitingForMachine\<rparr>"
  "NextPhase PhaseRunning EventMachinePreempted = Inr \<lparr>Action = ActionTransitionToWaiting, NextPhaseOf = PhaseWaitingForMachine\<rparr>"
  "NextPhase PhaseStarting EventMachinePreempted = Inr \<lparr>Action = ActionTransitionToWaiting, NextPhaseOf = PhaseWaitingForMachine\<rparr>"
  "NextPhase PhaseCreating EventMachineUnavailable = Inr \<lparr>Action = ActionTransitionToWaiting, NextPhaseOf = PhaseWaitingForMachine\<rparr>"
  "NextPhase PhaseStarting EventMachineUnavailable = Inr \<lparr>Action = ActionTransitionToWaiting, NextPhaseOf = PhaseWaitingForMachine\<rparr>"
  "NextPhase PhaseRunning EventMachineUnavailable = Inr \<lparr>Action = ActionTransitionToWaiting, NextPhaseOf = PhaseWaitingForMachine\<rparr>"
  "NextPhase PhaseRestarting EventMachineUnavailable = Inr \<lparr>Action = ActionTransitionToWaiting, NextPhaseOf = PhaseWaitingForMachine\<rparr>"
  "NextPhase PhaseDraining EventMachinePreempted = Inr \<lparr>Action = ActionTransitionToWaiting, NextPhaseOf = PhaseWaitingForMachine\<rparr>"
  "NextPhase PhaseWaitingForMachine EventMachineReady = Inr \<lparr>Action = ActionWriteBriefAndCreatePod, NextPhaseOf = PhaseCreating\<rparr>"
  by (simp_all add: NextPhase_def transitions_defs)

subsection \<open>Retry backoff\<close>

definition retryResetThreshold :: duration where "retryResetThreshold = 5 * minute"

type_synonym int64 = "64 word"
type_synonym int32 = "32 word"

definition retryBackoffBase :: int64 where "retryBackoffBase = 10000000000"

definition ShouldResetRetryCount :: "time \<Rightarrow> agent_phase \<Rightarrow> time \<Rightarrow> bool" where
  "ShouldResetRetryCount now phase stableAt =
     (if phase \<noteq> PhaseRunning then False else now - stableAt \<ge> retryResetThreshold)"

text \<open>The loop runs once per unit of a positive \<open>retryCount\<close>, never for a negative one.\<close>

fun backoff_loop :: "nat \<Rightarrow> int64 \<Rightarrow> int64" where
  "backoff_loop 0 d = d"
| "backoff_loop (Suc n) d = backoff_loop n (d * 3)"

definition RetryBackoffDuration :: "int32 \<Rightarrow> int64" where
  "RetryBackoffDuration retryCount = backoff_loop (nat (sint retryCount)) retryBackoffBase"

lemma backoff_loop_pow: "backoff_loop n d = d * 3 ^ n"
  by (induction n arbitrary: d) (simp_all add: mult.assoc)

lemma backoff_value:
  "RetryBackoffDuration rc = of_nat (10000000000 * 3 ^ nat (sint rc))"
  by (simp add: RetryBackoffDuration_def backoff_loop_pow retryBackoffBase_def)

lemma sint_of_nat_small:
  assumes "x < 2 ^ 63"
  shows "sint (of_nat x :: int64) = int x"
  by (subst of_int_of_nat_eq [symmetric], subst sint_sbintrunc')
    (use assms in \<open>simp add: signed_take_bit_int_eq_self\<close>)

text \<open>
  the backoff of the n-th retry is exactly 10s times three to the n, and the 64-bit
  multiplication does not overflow, for every retry count up to 18; the controller only asks
  for counts below its cap of 3.
\<close>

theorem retry_backoff_exact:
  assumes "0 \<le> sint rc" and "sint rc \<le> 18"
  shows "sint (RetryBackoffDuration rc) = 10 * second * 3 ^ nat (sint rc)"
proof -
  let ?n = "nat (sint rc)"
  from assms have "?n \<le> 18" by simp
  then have "(3::nat) ^ ?n \<le> 3 ^ 18" by (rule power_increasing) simp
  then have "10000000000 * (3::nat) ^ ?n < 2 ^ 63" by simp
  then have "sint (RetryBackoffDuration rc) = int (10000000000 * 3 ^ ?n)"
    unfolding backoff_value by (rule sint_of_nat_small)
  then show ?thesis by (simp add: second_def)
qed

theorem retry_backoff_exact_witness:
  "sint (RetryBackoffDuration 3) = 270 * second"
  using retry_backoff_exact [of 3] by simp

end
