(* ===== verification/Machine_Lifecycle.thy ===== *)
theory Machine_Lifecycle
  imports Go_Prelude
begin

section \<open>The machine lifecycle state machine (\<open>pkg/controllers/machine/state_machine.go\<close>)\<close>

text \<open>
  Phases of a Machine (\<open>pkg/api/v1/machine_types.go\<close>), the events and actions of the Machine
  controller, and its transition table, kept as the association list of the source's map
  literal. Constructors carry an \<open>M\<close> where the Agent controller has the same name.
\<close>

datatype machine_phase =
    MachineNone | MachineProvisioning | MachineReady | MachineRunning | MachineStopping
  | MachineStopped | MachinePreempted | MachineReplacing | MachineFailed | MachineDeleted

datatype machine_event =
    MEventCRDCreated
  | MEventInstanceRunningNodeReady
  | MEventInstanceRunningNodeNotReady
  | MEventInstanceCreationFailed
  | MEventProvisioningTimeout
  | MEventAgentScheduled
  | MEventAllAgentsRemoved
  | MEventDesiredStopped
  | MEventDesiredRunning
  | MEventAllAgentsStoppedVMStopped
  | MEventStoppingTimeout
  | MEventNodeDisappearedPreempted
  | MEventNodeDisappearedFailed
  | MEventReplacementStarted
  | MEventReplacementSucceeded
  | MEventReplacementFailed
  | MEventReplacementRetryLimitReached

datatype machine_action =
    MActionCreateInstance
  | MActionWaitForNode
  | MActionMarkFailed
  | MActionUpdateStatus
  | MActionStopVM
  | MActionForceStopVM
  | MActionStartInstance
  | MActionBeginReplacement
  | MActionCreateReplacementInstance
  | MActionCompleteReplacement
  | MActionRetryReplacement
  | MActionMarkReplacementFailed

record machine_transition_result =
  MAction :: machine_action
  MNextPhase :: machine_phase

datatype machine_transition_error = MInvalidTransition machine_phase machine_event

definition ProvisioningTimeout :: duration where "ProvisioningTimeout = 10 * minute"
definition StoppingTimeout :: duration where "StoppingTimeout = 5 * minute"
definition StaleNodeGrace :: duration where "StaleNodeGrace = 5 * minute"
definition MaxReplacementRetries :: int where "MaxReplacementRetries = 3"

abbreviation machine_row ::
  "machine_phase \<Rightarrow> machine_event \<Rightarrow> machine_action \<Rightarrow> machine_phase
     \<Rightarrow> (machine_phase \<times> machine_event) \<times> machine_transition_result" where
  "machine_row p e a q \<equiv> ((p, e), \<lparr>MAction = a, MNextPhase = q\<rparr>)"

definition machine_transitions :: "((machine_phase \<times> machine_event) \<times> machine_transition_result) list" where
  "machine_transitions =
    [machine_row MachineNone MEventCRDCreated MActionCreateInstance MachineProvisioning,
     machine_row MachineProvisioning MEventInstanceRunningNodeReady MActionUpdateStatus MachineReady,
     machine_row MachineProvisioning MEventInstanceRunningNodeNotReady MActionWaitForNode MachineProvisioning,
     machine_row MachineProvisioning MEventInstanceCreationFailed MActionMarkFailed MachineFailed,
     machine_row MachineProvisioning MEventProvisioningTimeout MActionMarkFailed MachineFailed,
     machine_row MachineReady MEventAgentScheduled MActionUpdateStatus MachineRunning,
     machine_row MachineReady MEventDesiredStopped MActionStopVM MachineStopping,
     machine_row MachineReady MEventNodeDisappearedPreempted MActionBeginReplacement MachinePreempted,
     machine_row MachineReady MEventNodeDisappearedFailed MActionMarkFailed MachineFailed,
     machine_row MachineRunning MEventDesiredStopped MActionStopVM MachineStopping,
     machine_row MachineRunning MEventAllAgentsRemoved MActionUpdateStatus MachineReady,
     machine_row MachineRunning MEventNodeDisappearedPreempted MActionBeginReplacement MachinePreempted,
     machine_row MachineRunning MEventNodeDisappearedFailed MActionMarkFailed MachineFailed,
     machine_row MachineStopping MEventAllAgentsStoppedVMStopped MActionUpdateStatus MachineStopped,
     machine_row MachineStopping MEventStoppingTimeout MActionForceStopVM MachineStopped,
     machine_row MachineStopped MEventDesiredRunning MActionStartInstance MachineProvisioning,
     machine_row MachinePreempted MEventReplacementStarted MActionCreateReplacementInstance MachineReplacing,
     machine_row MachinePreempted MEventReplacementRetryLimitReached MActionMarkReplacementFailed MachineFailed,
     machine_row MachineReplacing MEventReplacementSucceeded MActionCompleteReplacement MachineReady,
     machine_row MachineReplacing MEventReplacementFailed MActionCreateReplacementInstance MachineReplacing,
     machine_row MachineReplacing MEventReplacementRetryLimitReached MActionMarkReplacementFailed MachineFailed,
     machine_row MachineFailed MEventDesiredRunning MActionCreateInstance MachineProvisioning]"

definition machine_NextPhase ::
  "machine_phase \<Rightarrow> machine_event \<Rightarrow> machine_transition_error + machine_transition_result" where
  "machine_NextPhase current event =
     (case map_of machine_transitions (current, event) of
        None \<Rightarrow> Inl (MInvalidTransition current event)
      | Some result \<Rightarrow> Inr result)"

lemma machine_NextPhase_rows:
  "machine_NextPhase p e = Inr r \<Longrightarrow> ((p, e), r) \<in> set machine_transitions"
  by (auto simp: machine_NextPhase_def dest: map_of_SomeD split: option.splits)

lemma machine_NextPhase_all_rows:
  assumes "list_all (\<lambda>((p, e), r). P p e r) machine_transitions" and "machine_NextPhase p e = Inr r"
  shows "P p e r"
  using assms by (auto dest: machine_NextPhase_rows simp: list_all_iff)

definition ShouldReplaceOnPreemption :: "bool \<Rightarrow> bool" where
  "ShouldReplaceOnPreemption spot = spot"

definition ReplacementRetryExceeded :: "int \<Rightarrow> bool" where
  "ReplacementRetryExceeded replacementCount \<longleftrightarrow> replacementCount \<ge> MaxReplacementRetries"

end
