(* ===== verification/Agent_Controller.thy ===== *)
theory Agent_Controller
  imports Agent_Lifecycle Machine_Lifecycle
begin

section \<open>Event classification of the Agent controller (\<open>pkg/controllers/agent/reconciler.go\<close>)\<close>

text \<open>
  \<open>classifyEvent\<close> looks at an agent, its pod and the cluster and derives the event that drives
  the lifecycle machine of \<open>Agent_Lifecycle\<close>. The records keep the fields of the Kubernetes
  objects the function reads. Every read of the API server or of another component is a field
  of \<open>agent_env\<close> that holds its answer: \<open>Found\<close> an object, \<open>Missing\<close> (a NotFound
  error) or \<open>ReadError\<close>. The function's own writes are modelled: it returns the agent object
  with the claims it recorded, whether or not it derives an event.
\<close>

subsection \<open>The objects read\<close>

record terminated_state =
  ExitCode :: int
  Reason :: string
  StartedAt :: time
  FinishedAt :: time

record container_status =
  cs_Name :: string
  cs_Terminated :: "terminated_state option"

datatype pod_phase = PodPending | PodRunning | PodSucceeded | PodFailed | PodUnknown

record status_condition =
  cond_Type :: string
  cond_Status :: string
  cond_Reason :: string

record liveness_probe =
  InitialDelaySeconds :: int32
  PeriodSeconds :: int32
  FailureThreshold :: int32

record container_spec =
  c_Name :: string
  c_LivenessProbe :: "liveness_probe option"

record selector_requirement =
  sr_Key :: string
  sr_Operator :: string
  sr_Values :: "string list"

record node_selector_term =
  MatchExpressions :: "selector_requirement list"
  MatchFields :: "selector_requirement list"

text \<open>\<open>pod_RequiredTerms\<close> is \<open>None\<close> when any pointer on the affinity path is nil.\<close>

record pod =
  pod_UID :: string
  pod_DeletionTimestamp :: "time option"
  pod_Phase :: pod_phase
  pod_Conditions :: "status_condition list"
  pod_ContainerStatuses :: "container_status list"
  pod_Labels :: "(string, string) gomap"
  pod_Annotations :: "(string, string) gomap"
  pod_Containers :: "container_spec list"
  pod_NodeName :: string
  pod_RequiredTerms :: "node_selector_term list option"
  pod_ControllerUID :: "string option"

record inference_spec =
  inf_ExistingSecret :: string
  inf_Key :: string

text \<open>\<open>act_DiskReserve\<close> is \<open>None\<close> when \<open>Activity.Resources\<close> is nil.\<close>

record activity_status =
  act_State :: string
  act_DiskReserve :: "bool option"
  act_RejectedPodUID :: string
  act_RejectedSecretRV :: string

record agent =
  ag_Name :: string
  ag_Namespace :: string
  ag_UID :: string
  ag_Generation :: int
  ag_Annotations :: "(string, string) gomap"
  DesiredPhase :: agent_phase
  spec_Machine :: string
  spec_Runtime :: string
  spec_Inference :: "inference_spec option"
  spec_Memory :: string
  spec_Disk :: string
  spec_AuthType :: string
  spec_RepoTemplate :: string
  spec_Repo :: string
  Phase :: agent_phase
  Activity :: "activity_status option"
  RestartCount :: int
  LastTransition :: "time option"
  StatusMessage :: string
  ProbeMessage :: string
  StartTime :: "time option"
  DiskExpansionStage :: "string option"
  RecoveryInput :: string
  ObservedGeneration :: int
  LastKernelOOMKillAt :: "time option"
  st_NodeName :: string
  st_Conditions :: "status_condition list"

record machine_view =
  mv_Phase :: machine_phase
  mv_Spot :: bool
  mv_NodeName :: string

record secret_view =
  sec_Data :: "(string, string) gomap"
  sec_ResourceVersion :: string

record runtime_descriptor =
  AuthFailureExitCode :: int
  AuthServiceFailureExitCode :: int
  CredentialSyncFailureExitCode :: int

datatype ctrl_error =
    ErrUpdateAgent | ErrRollDecision | ErrEnsurePVC | ErrDiskCapacity
  | ErrCredentialSecret string | ErrRecordRecovery | ErrClaimGeneration
  | ErrFetchMachine string | ErrInferenceCredential | ErrAuthSecret

text \<open>
  What the reconciler reads. \<open>env_MachineGetter\<close> is \<open>None\<close> when the reconciler has no
  machine getter. \<open>env_Roll\<close> is \<open>shouldRollRuntimeImage\<close>'s answer for a desired image (the
  canary pacing is not modelled), \<open>env_DiskReady\<close> that of \<open>ensureDiskRecoveryCapacity\<close>,
  \<open>env_AdapterImage\<close> the image of the resolved adapter (\<open>None\<close> when it cannot be resolved).
\<close>

record agent_env =
  env_now :: time
  env_MachineGetter :: "(string \<Rightarrow> string \<Rightarrow> machine_view read) option"
  env_Machine :: "string \<Rightarrow> string \<Rightarrow> machine_view read"
  env_Node :: "string \<Rightarrow> status_condition list read"
  env_Secret :: "string \<Rightarrow> string \<Rightarrow> secret_view read"
  env_UpdateOk :: bool
  env_StatusPatchOk :: bool
  env_AdapterImage :: "string option"
  env_Roll :: "string \<Rightarrow> ctrl_error + bool"
  env_EnsurePVCOk :: bool
  env_DiskReady :: "ctrl_error + bool"
  env_CredentialSecretName :: "string option"
  env_Describe :: "string \<Rightarrow> runtime_descriptor option"
  env_AuthPending :: "(string \<Rightarrow> (string, string) gomap \<Rightarrow> bool) option"
  env_AuthSecretName :: string

definition maxRestartRetries :: int where "maxRestartRetries = 3"
definition startupTimeoutSeconds :: duration where "startupTimeoutSeconds = 120 * second"
definition terminatingPodGraceWindow :: duration where "terminatingPodGraceWindow = 60 * second"
definition oomDetectionWindow :: duration where "oomDetectionWindow = 30 * second"
definition RuntimeProbeFailureExitCode :: int where "RuntimeProbeFailureExitCode = 43"

abbreviation AgentContainerName :: string where "AgentContainerName \<equiv> ''agent''"

lemmas controller_constants = maxRestartRetries_def startupTimeoutSeconds_def
  terminatingPodGraceWindow_def oomDetectionWindow_def RuntimeProbeFailureExitCode_def

subsection \<open>Predicates on pods\<close>

definition podTerminating :: "pod option \<Rightarrow> bool" where
  "podTerminating p = (case p of None \<Rightarrow> False | Some q \<Rightarrow> pod_DeletionTimestamp q \<noteq> None)"

definition isPodReady :: "pod \<Rightarrow> bool" where
  "isPodReady p =
     (if pod_Phase p \<noteq> PodRunning then False
      else list_ex (\<lambda>c. cond_Type c = ''Ready'' \<and> cond_Status c = ''True'') (pod_Conditions p))"

text \<open>The probe budget is int32 arithmetic before it becomes a duration.\<close>

definition startupTimeoutForPod :: "pod option \<Rightarrow> duration" where
  "startupTimeoutForPod p =
     (case p of
        None \<Rightarrow> startupTimeoutSeconds
      | Some q \<Rightarrow>
          (case List.find (\<lambda>c. c_Name c = AgentContainerName \<and> c_LivenessProbe c \<noteq> None) (pod_Containers q) of
             None \<Rightarrow> startupTimeoutSeconds
           | Some c \<Rightarrow>
               (let probe = the (c_LivenessProbe c);
                    budget = sint (InitialDelaySeconds probe + PeriodSeconds probe * FailureThreshold probe) * second
                in if budget > startupTimeoutSeconds then budget else startupTimeoutSeconds)))"

definition isRuntimeProbeFailure :: "pod option \<Rightarrow> bool" where
  "isRuntimeProbeFailure p =
     (case p of
        None \<Rightarrow> False
      | Some q \<Rightarrow>
          list_ex (\<lambda>cs. cs_Name cs = AgentContainerName
                        \<and> (case cs_Terminated cs of None \<Rightarrow> False
                            | Some t \<Rightarrow> ExitCode t = RuntimeProbeFailureExitCode))
                  (pod_ContainerStatuses q))"

datatype runtime_failure =
  runtimeFailureNone | runtimeFailureAuthentication | runtimeFailureAuthService | runtimeFailureCredentialSync

text \<open>The \<open>switch\<close> on the exit code takes the first matching case; a matched case whose
  declared code is 0 does nothing and the loop goes on.\<close>

definition declared_failure :: "runtime_descriptor \<Rightarrow> int \<Rightarrow> runtime_failure" where
  "declared_failure d code =
     (if code = AuthFailureExitCode d then
        (if AuthFailureExitCode d \<noteq> 0 then runtimeFailureAuthentication else runtimeFailureNone)
      else if code = AuthServiceFailureExitCode d then
        (if AuthServiceFailureExitCode d \<noteq> 0 then runtimeFailureAuthService else runtimeFailureNone)
      else if code = CredentialSyncFailureExitCode d then
        (if CredentialSyncFailureExitCode d \<noteq> 0 then runtimeFailureCredentialSync else runtimeFailureNone)
      else runtimeFailureNone)"

fun failure_in_statuses :: "runtime_descriptor \<Rightarrow> container_status list \<Rightarrow> runtime_failure" where
  "failure_in_statuses d [] = runtimeFailureNone"
| "failure_in_statuses d (cs # rest) =
     (if cs_Name cs \<noteq> AgentContainerName then failure_in_statuses d rest
      else case cs_Terminated cs of
             None \<Rightarrow> failure_in_statuses d rest
           | Some t \<Rightarrow>
               (case declared_failure d (ExitCode t) of
                  runtimeFailureNone \<Rightarrow> failure_in_statuses d rest
                | f \<Rightarrow> f))"

definition classifyRuntimeFailure :: "agent_env \<Rightarrow> pod option \<Rightarrow> string \<Rightarrow> runtime_failure" where
  "classifyRuntimeFailure env p runtimeID =
     (case p of
        None \<Rightarrow> runtimeFailureNone
      | Some q \<Rightarrow>
          (let label = str_at (pod_Labels q) ''kyber.io/runtime'';
               rid = (if label \<noteq> '''' then label else runtimeID)
           in case env_Describe env rid of
                None \<Rightarrow> runtimeFailureNone
              | Some d \<Rightarrow> failure_in_statuses d (pod_ContainerStatuses q)))"

definition isAgentContainerTerminated :: "pod option \<Rightarrow> bool" where
  "isAgentContainerTerminated p =
     (case p of None \<Rightarrow> False
      | Some q \<Rightarrow> list_ex (\<lambda>cs. cs_Name cs = ''agent'' \<and> cs_Terminated cs \<noteq> None) (pod_ContainerStatuses q))"

definition isOOMKilled :: "pod option \<Rightarrow> string \<Rightarrow> bool" where
  "isOOMKilled p containerName =
     (case p of None \<Rightarrow> False
      | Some q \<Rightarrow>
          list_ex (\<lambda>cs. cs_Name cs = containerName
                        \<and> (case cs_Terminated cs of None \<Rightarrow> False | Some t \<Rightarrow> Reason t = ''OOMKilled''))
                  (pod_ContainerStatuses q))"

text \<open>The current termination of the agent container: the first status the loops stop at.\<close>

definition agent_termination :: "pod \<Rightarrow> terminated_state option" where
  "agent_termination q =
     (case List.find (\<lambda>cs. cs_Name cs = ''agent'' \<and> cs_Terminated cs \<noteq> None) (pod_ContainerStatuses q) of
        None \<Rightarrow> None | Some cs \<Rightarrow> cs_Terminated cs)"

definition hasRecentKernelOOMKill :: "agent \<Rightarrow> pod option \<Rightarrow> bool" where
  "hasRecentKernelOOMKill a p =
     (case LastKernelOOMKillAt a of
        None \<Rightarrow> False
      | Some killed \<Rightarrow>
          (case p of
             None \<Rightarrow> False
           | Some q \<Rightarrow>
               (case agent_termination q of
                  None \<Rightarrow> False
                | Some t \<Rightarrow> (if StartedAt t = 0 then False else killed > StartedAt t))))"

definition isAgentExitCode137 :: "pod option \<Rightarrow> bool" where
  "isAgentExitCode137 p =
     (case p of None \<Rightarrow> False
      | Some q \<Rightarrow> (case agent_termination q of None \<Rightarrow> False | Some t \<Rightarrow> ExitCode t = 137))"

definition agentTerminatedWithin :: "agent_env \<Rightarrow> pod option \<Rightarrow> duration \<Rightarrow> bool" where
  "agentTerminatedWithin env p window =
     (case p of None \<Rightarrow> False
      | Some q \<Rightarrow>
          (case agent_termination q of
             None \<Rightarrow> False
           | Some t \<Rightarrow> (if FinishedAt t = 0 then True else env_now env - FinishedAt t < window)))"

definition podRequiredHostname :: "pod \<Rightarrow> string" where
  "podRequiredHostname p =
     (case pod_RequiredTerms p of
        None \<Rightarrow> ''''
      | Some terms \<Rightarrow>
          (case terms of
             [t] \<Rightarrow>
               (if MatchFields t \<noteq> [] then ''''
                else case MatchExpressions t of
                       [r] \<Rightarrow> (if sr_Key r \<noteq> ''kubernetes.io/hostname'' \<or> sr_Operator r \<noteq> ''In'' then ''''
                               else case sr_Values r of [v] \<Rightarrow> v | _ \<Rightarrow> '''')
                     | _ \<Rightarrow> '''')
           | _ \<Rightarrow> ''''))"

subsection \<open>Predicates on the machine and its node\<close>

text \<open>The assigned machine as the machine getter returns it; every failure reads as "none".\<close>

definition assigned_machine :: "agent_env \<Rightarrow> agent \<Rightarrow> machine_view option" where
  "assigned_machine env a =
     (case env_MachineGetter env of
        None \<Rightarrow> None
      | Some get \<Rightarrow>
          (if spec_Machine a = '''' then None
           else case get (spec_Machine a) (ag_Namespace a) of Found m \<Rightarrow> Some m | _ \<Rightarrow> None))"

fun first_ready_status :: "status_condition list \<Rightarrow> string option" where
  "first_ready_status [] = None"
| "first_ready_status (c # cs) =
     (if cond_Type c = ''Ready'' then Some (cond_Status c) else first_ready_status cs)"

definition isNodeNotReady :: "agent_env \<Rightarrow> string \<Rightarrow> bool" where
  "isNodeNotReady env nodeName =
     (case env_Node env nodeName of
        Found conds \<Rightarrow> (case first_ready_status conds of None \<Rightarrow> False | Some st \<Rightarrow> st \<noteq> ''True'')
      | _ \<Rightarrow> False)"

definition isNodeUnavailable :: "agent_env \<Rightarrow> string \<Rightarrow> bool" where
  "isNodeUnavailable env nodeName =
     (case env_Node env nodeName of
        Found conds \<Rightarrow> (case first_ready_status conds of None \<Rightarrow> True | Some st \<Rightarrow> st \<noteq> ''True'')
      | Missing \<Rightarrow> True
      | ReadError \<Rightarrow> False)"

definition isMachinePreempted :: "agent_env \<Rightarrow> agent \<Rightarrow> pod option \<Rightarrow> bool" where
  "isMachinePreempted env a p =
     (case assigned_machine env a of
        None \<Rightarrow> False
      | Some m \<Rightarrow>
          (if mv_Phase m \<in> {MachinePreempted, MachineReplacing, MachineProvisioning} then True
           else if mv_Phase m = MachineFailed then mv_Spot m
           else let nodeName = (case p of
                                  Some q \<Rightarrow> if pod_NodeName q \<noteq> '''' then pod_NodeName q else st_NodeName a
                                | None \<Rightarrow> st_NodeName a)
                in mv_Spot m \<and> nodeName \<noteq> '''' \<and> isNodeNotReady env nodeName))"

definition isMachineUnavailable :: "agent_env \<Rightarrow> agent \<Rightarrow> bool" where
  "isMachineUnavailable env a =
     (case assigned_machine env a of
        None \<Rightarrow> False
      | Some m \<Rightarrow> mv_Phase m \<noteq> MachineReady \<and> mv_Phase m \<noteq> MachineRunning)"

definition isMachineReady :: "agent_env \<Rightarrow> agent \<Rightarrow> bool" where
  "isMachineReady env a =
     (case assigned_machine env a of
        None \<Rightarrow> False
      | Some m \<Rightarrow> mv_Phase m = MachineReady \<or> mv_Phase m = MachineRunning)"

definition resolveNodeName :: "agent_env \<Rightarrow> agent \<Rightarrow> ctrl_error + string" where
  "resolveNodeName env a =
     (case env_Machine env (spec_Machine a) (ag_Namespace a) of
        Missing \<Rightarrow> Inr (spec_Machine a)
      | ReadError \<Rightarrow> Inl (ErrFetchMachine (spec_Machine a))
      | Found m \<Rightarrow> Inr (if mv_NodeName m \<noteq> '''' then mv_NodeName m else spec_Machine a))"

definition unschedulable :: "pod \<Rightarrow> bool" where
  "unschedulable p =
     list_ex (\<lambda>c. cond_Type c = ''PodScheduled'' \<and> cond_Status c = ''False'' \<and> cond_Reason c = ''Unschedulable'')
             (pod_Conditions p)"

definition isStaleNodePendingPod :: "agent_env \<Rightarrow> agent \<Rightarrow> pod \<Rightarrow> string \<Rightarrow> bool" where
  "isStaleNodePendingPod env a p currentNode =
     (if pod_Phase p \<noteq> PodPending \<or> pod_NodeName p \<noteq> '''' \<or> pod_DeletionTimestamp p \<noteq> None
         \<or> pod_ControllerUID p \<noteq> Some (ag_UID a) \<or> \<not> isMachineReady env a then False
      else if \<not> unschedulable p then False
      else let oldNode = podRequiredHostname p in oldNode \<noteq> '''' \<and> oldNode \<noteq> currentNode)"

subsection \<open>Claims recorded before an event is derived\<close>

definition SpecChangedSinceLastPod :: "agent \<Rightarrow> bool" where
  "SpecChangedSinceLastPod a \<longleftrightarrow> ObservedGeneration a > 0 \<and> ag_Generation a > ObservedGeneration a"

definition restartRequestChanged :: "agent_env \<Rightarrow> agent \<Rightarrow> (ctrl_error + bool) \<times> agent" where
  "restartRequestChanged env a =
     (if str_at (ag_Annotations a) ''kyber.io/passive-config-generation'' = FormatInt (ag_Generation a)
      then (Inr False, a)
      else if \<not> SpecChangedSinceLastPod a then (Inr False, a)
      else let a' = a\<lparr>ObservedGeneration := ag_Generation a\<rparr>
           in if env_StatusPatchOk env then (Inr True, a') else (Inl ErrClaimGeneration, a'))"

definition currentRecoveryInput :: "agent_env \<Rightarrow> agent \<Rightarrow> ctrl_error + string" where
  "currentRecoveryInput env a =
     (case Phase a of
        PhaseMemoryExhausted \<Rightarrow> Inr (''mem='' @ spec_Memory a)
      | PhaseDiskExhausted \<Rightarrow> Inr (''disk='' @ spec_Disk a)
      | PhaseNeedsAuth \<Rightarrow>
          (case env_CredentialSecretName env of
             None \<Rightarrow> Inr ''unresolved-adapter''
           | Some name \<Rightarrow>
               (if name = '''' then Inr ''no-credential-secret''
                else case env_Secret env (ag_Namespace a) name of
                       Missing \<Rightarrow> Inr (''absent:'' @ name)
                     | ReadError \<Rightarrow> Inl (ErrCredentialSecret name)
                     | Found sec \<Rightarrow> Inr (''rv:'' @ name @ '':'' @ sec_ResourceVersion sec)))
      | _ \<Rightarrow> Inr '''')"

definition recoveryInputChanged :: "agent_env \<Rightarrow> agent \<Rightarrow> (ctrl_error + bool) \<times> agent" where
  "recoveryInputChanged env a =
     (case currentRecoveryInput env a of
        Inl e \<Rightarrow> (Inl e, a)
      | Inr current \<Rightarrow>
          (if current = '''' \<or> current = RecoveryInput a then (Inr False, a)
           else let a' = a\<lparr>RecoveryInput := current\<rparr>
                in if env_StatusPatchOk env then (Inr True, a') else (Inl ErrRecordRecovery, a')))"

text \<open>\<open>env_AuthPending\<close> is \<open>None\<close> when the runtime has no authentication strategy.\<close>

definition runtimeAuthenticationPending :: "agent_env \<Rightarrow> agent \<Rightarrow> ctrl_error + bool" where
  "runtimeAuthenticationPending env a =
     (case env_AuthPending env of
        None \<Rightarrow> Inr False
      | Some pending \<Rightarrow>
          (if env_AuthSecretName env = '''' then Inr False
           else case env_Secret env (ag_Namespace a) (env_AuthSecretName env) of
                  Missing \<Rightarrow> Inr False
                | ReadError \<Rightarrow> Inl ErrAuthSecret
                | Found sec \<Rightarrow> Inr (pending (spec_AuthType a) (sec_Data sec))))"

definition condition_true :: "agent \<Rightarrow> string \<Rightarrow> bool" where
  "condition_true a kind =
     (case List.find (\<lambda>c. cond_Type c = kind) (st_Conditions a) of
        None \<Rightarrow> False | Some c \<Rightarrow> cond_Status c = ''True'')"

definition identityRepoScaffoldPending :: "agent \<Rightarrow> bool" where
  "identityRepoScaffoldPending a \<longleftrightarrow> spec_RepoTemplate a \<noteq> '''' \<and> spec_Repo a = ''''"

definition awaitingIdentityRepo :: "agent \<Rightarrow> bool" where
  "awaitingIdentityRepo a = condition_true a ''AwaitingIdentityRepo''"

definition awaitingRestore :: "agent \<Rightarrow> bool" where
  "awaitingRestore a = condition_true a ''AwaitingRestore''"

definition archiveHold :: "agent \<Rightarrow> string" where
  "archiveHold a = str_at (ag_Annotations a) ''kyber.io/archive-hold''"

lemmas [model_defs] = restartRequestChanged_def recoveryInputChanged_def currentRecoveryInput_def
  runtimeAuthenticationPending_def resolveNodeName_def

subsection \<open>\<open>classifyEvent\<close>\<close>

text \<open>
  The function's sections, in its order. A section that can fall through to the next one
  answers \<open>Continue\<close> with the agent as it left it; a \<open>return\<close> is \<open>Done\<close>. The empty
  event of the source is \<open>None\<close>.
\<close>

type_synonym classification = "(ctrl_error + agent_event option) \<times> agent"

datatype step = Done classification | Continue agent

abbreviation event :: "agent_event \<Rightarrow> agent \<Rightarrow> classification" where
  "event e a \<equiv> (Inr (Some e), a)"

abbreviation no_event :: "agent \<Rightarrow> classification" where
  "no_event a \<equiv> (Inr None, a)"

abbreviation failed :: "ctrl_error \<Rightarrow> agent \<Rightarrow> classification" where
  "failed err a \<equiv> (Inl err, a)"

definition needs_auth_phases :: "agent_phase set" where
  "needs_auth_phases = {PhaseRunning, PhaseStarting, PhaseFailed, PhaseMemoryExhausted,
     PhaseDiskExhausted, PhaseStopped}"

definition stop_phases :: "agent_phase set" where
  "stop_phases = {PhaseRunning, PhaseStarting, PhaseFailed, PhaseMemoryExhausted,
     PhaseDiskExhausted, PhaseBrokenRuntime, PhaseWaitingForMachine}"

definition operator_event :: "agent \<Rightarrow> agent_event option" where
  "operator_event a =
     (let phase = Phase a; desired = DesiredPhase a in
      if phase = PhaseNone then
        (if desired = PhaseStopped then Some EventCRDCreatedStopped else Some EventCRDCreated)
      else if desired = PhaseNeedsAuth \<and> phase \<in> needs_auth_phases then Some EventDesiredNeedsAuth
      else if desired = PhaseStopped \<and> phase \<in> stop_phases then Some EventDesiredStopped
      else if desired = PhaseRestarting \<and> phase = PhaseBrokenRuntime then Some EventDesiredRestarting
      else None)"

definition machine_event_for :: "agent_env \<Rightarrow> agent \<Rightarrow> agent_event option" where
  "machine_event_for env a =
     (if Phase a \<in> {PhaseCreating, PhaseStarting, PhaseRunning, PhaseRestarting}
         \<and> isMachineUnavailable env a
      then Some EventMachineUnavailable else None)"

definition intent_running :: "agent_env \<Rightarrow> agent \<Rightarrow> pod option \<Rightarrow> step" where
  "intent_running env a p =
     (if (case Activity a of None \<Rightarrow> False | Some act \<Rightarrow> act_DiskReserve act = Some True)
      then Done (event EventDiskReserveReached a)
      else if str_at (ag_Annotations a) ''kyber.dev/preemption-notice'' \<noteq> ''''
      then let a' = a\<lparr>ag_Annotations := AList.delete ''kyber.dev/preemption-notice'' (ag_Annotations a)\<rparr>
           in Done (if env_UpdateOk env then event EventPreemptionNotice a' else failed ErrUpdateAgent a')
      else if DesiredPhase a = PhaseRestarting then Done (event EventDesiredRestarting a)
      else case p of
             None \<Rightarrow> Continue a
           | Some q \<Rightarrow>
               (if pod_DeletionTimestamp q \<noteq> None then Continue a
                else case env_AdapterImage env of
                       None \<Rightarrow> Continue a
                     | Some img \<Rightarrow>
                         (case env_Roll env img of
                            Inl err \<Rightarrow> Done (failed err a)
                          | Inr True \<Rightarrow> Done (event EventDesiredRestarting a)
                          | Inr False \<Rightarrow> Continue a)))"

definition disk_recovery :: "agent_env \<Rightarrow> agent \<Rightarrow> step" where
  "disk_recovery env a =
     (case env_DiskReady env of
        Inl err \<Rightarrow> Done (failed err a)
      | Inr False \<Rightarrow> Done (no_event a)
      | Inr True \<Rightarrow>
          (case recoveryInputChanged env a of
             (Inl err, a') \<Rightarrow> Done (failed err a')
           | (Inr True, a') \<Rightarrow> Done (event EventDesiredRunning a')
           | (Inr False, a') \<Rightarrow> Continue a'))"

definition pod_gone_or_ended :: "pod option \<Rightarrow> bool" where
  "pod_gone_or_ended p =
     (case p of None \<Rightarrow> True
      | Some q \<Rightarrow> pod_Phase q = PodFailed \<or> pod_Phase q = PodSucceeded \<or> isAgentContainerTerminated p)"

definition intent_disk_exhausted :: "agent_env \<Rightarrow> agent \<Rightarrow> pod option \<Rightarrow> step" where
  "intent_disk_exhausted env a p =
     (if DesiredPhase a = PhaseRestarting
         \<and> (DiskExpansionStage a = Some ''Restarting'' \<or> DiskExpansionStage a = Some ''Verifying'')
      then Done (event EventDesiredRestarting a)
      else if (case Activity a of None \<Rightarrow> False | Some act \<Rightarrow> act_DiskReserve act = Some False)
      then Done (event EventDiskReserveCleared a)
      else if \<not> env_EnsurePVCOk env then Done (failed ErrEnsurePVC a)
      else if DesiredPhase a = PhaseRunning \<and> \<not> podTerminating p \<and> pod_gone_or_ended p
      then disk_recovery env a
      else Continue a)"

definition stale_node_check :: "agent_env \<Rightarrow> agent \<Rightarrow> pod option \<Rightarrow> step" where
  "stale_node_check env a p =
     (case p of
        None \<Rightarrow> Continue a
      | Some q \<Rightarrow>
          (if pod_Phase q \<noteq> PodPending then Continue a
           else case resolveNodeName env a of
                  Inl err \<Rightarrow> Done (failed err a)
                | Inr currentNode \<Rightarrow>
                    (if isStaleNodePendingPod env a q currentNode
                     then Done (event EventStaleNodePod a) else Continue a)))"

definition retry_decision :: "agent \<Rightarrow> classification" where
  "retry_decision a =
     (if RestartCount a < maxRestartRetries then event EventAutoRestartTriggered a
      else event EventRetryLimitReached a)"

definition intent_failed :: "agent_env \<Rightarrow> agent \<Rightarrow> pod option \<Rightarrow> classification" where
  "intent_failed env a p =
     (let restart = (if DesiredPhase a = PhaseRunning then restartRequestChanged env a else (Inr False, a)) in
      case restart of
        (Inl err, a') \<Rightarrow> failed err a'
      | (Inr True, a') \<Rightarrow> event EventDesiredRunning a'
      | (Inr False, a') \<Rightarrow>
          (case stale_node_check env a' p of Done r \<Rightarrow> r | Continue a'' \<Rightarrow> retry_decision a''))"

definition intent_step :: "agent_env \<Rightarrow> agent \<Rightarrow> pod option \<Rightarrow> step" where
  "intent_step env a p =
     (case Phase a of
        PhaseRunning \<Rightarrow> intent_running env a p
      | PhaseStopped \<Rightarrow>
          (if DesiredPhase a = PhaseRunning then Done (event EventDesiredRunning a) else Continue a)
      | PhaseDiskExhausted \<Rightarrow> intent_disk_exhausted env a p
      | PhaseFailed \<Rightarrow> Done (intent_failed env a p)
      | _ \<Rightarrow> Continue a)"

definition creating_event :: "agent \<Rightarrow> pod option \<Rightarrow> classification" where
  "creating_event a p =
     (case p of
        None \<Rightarrow>
          (if awaitingIdentityRepo a \<and> \<not> identityRepoScaffoldPending a then event EventIdentityRepoReady a
           else if awaitingRestore a \<and> archiveHold a = '''' then event EventRestoreComplete a
           else no_event a)
      | Some q \<Rightarrow>
          (case pod_Phase q of
             PodPending \<Rightarrow> (if unschedulable q then event EventPodScheduleFailed a else no_event a)
           | PodRunning \<Rightarrow> event EventPodScheduled a
           | PodSucceeded \<Rightarrow> event EventPodScheduled a
           | PodFailed \<Rightarrow> event EventPodScheduleFailed a
           | PodUnknown \<Rightarrow> no_event a))"

text \<open>The checks Starting and Running make in the same order on a terminated agent container.\<close>

definition failure_event :: "runtime_failure \<Rightarrow> agent_event option" where
  "failure_event f =
     (case f of
        runtimeFailureNone \<Rightarrow> None
      | runtimeFailureAuthentication \<Rightarrow> Some EventOAuthRefreshFailed
      | runtimeFailureAuthService \<Rightarrow> Some EventAuthServiceFailed
      | runtimeFailureCredentialSync \<Rightarrow> Some EventCredentialSyncFailed)"

definition death_cause :: "agent_env \<Rightarrow> agent \<Rightarrow> pod option \<Rightarrow> agent_event option" where
  "death_cause env a p =
     (if isRuntimeProbeFailure p then Some EventRuntimeProbeFailed
      else case failure_event (classifyRuntimeFailure env p (spec_Runtime a)) of
             Some e \<Rightarrow> Some e
           | None \<Rightarrow>
               (if isOOMKilled p AgentContainerName then Some EventOOMKilled
                else if hasRecentKernelOOMKill a p then Some EventOOMKilled
                else None))"

definition oom_may_be_pending :: "agent_env \<Rightarrow> pod option \<Rightarrow> bool" where
  "oom_may_be_pending env p \<longleftrightarrow>
     isAgentExitCode137 p \<and> agentTerminatedWithin env p oomDetectionWindow"

definition starting_event :: "agent_env \<Rightarrow> agent \<Rightarrow> pod option \<Rightarrow> classification" where
  "starting_event env a p =
     (case p of
        None \<Rightarrow> (if isMachinePreempted env a p then event EventMachinePreempted a
                 else event EventPodScheduleFailed a)
      | Some q \<Rightarrow>
          (if pod_DeletionTimestamp q \<noteq> None
           then (if isMachinePreempted env a p then event EventMachinePreempted a
                 else event EventPodScheduleFailed a)
           else if pod_gone_or_ended p
           then (case death_cause env a p of
                   Some e \<Rightarrow> event e a
                 | None \<Rightarrow> (if oom_may_be_pending env p then no_event a else event EventPodDied a))
           else if isPodReady q then event EventPodReady a
           else case LastTransition a of
                  None \<Rightarrow> no_event a
                | Some since \<Rightarrow>
                    (if env_now env - since > startupTimeoutForPod p
                     then (case runtimeAuthenticationPending env a of
                             Inl err \<Rightarrow> failed err a
                           | Inr True \<Rightarrow> no_event a
                           | Inr False \<Rightarrow> event EventStartupTimeout a)
                     else no_event a)))"

text \<open>The Running pod is gone, terminating, exited, or its agent container has exited.\<close>

definition running_pod_dead :: "pod option \<Rightarrow> bool" where
  "running_pod_dead p \<longleftrightarrow> p = None \<or> podTerminating p \<or> pod_gone_or_ended p"

definition recently_deleted :: "agent_env \<Rightarrow> pod option \<Rightarrow> bool" where
  "recently_deleted env p =
     (case p of None \<Rightarrow> False
      | Some q \<Rightarrow> (case pod_DeletionTimestamp q of None \<Rightarrow> False
                   | Some d \<Rightarrow> env_now env - d < terminatingPodGraceWindow))"

definition running_dead_event :: "agent_env \<Rightarrow> agent \<Rightarrow> pod option \<Rightarrow> classification" where
  "running_dead_event env a p =
     (if isMachinePreempted env a p then event EventMachinePreempted a
      else case death_cause env a p of
             Some e \<Rightarrow> event e a
           | None \<Rightarrow>
               (if DesiredPhase a = PhaseRestarting then event EventDesiredRestarting a
                else if recently_deleted env p then no_event a
                else if oom_may_be_pending env p then no_event a
                else event EventPodDied a))"

text \<open>A rotated endpoint key: a read error, "rotated and not mid-turn", or neither.\<close>

definition credential_rotated :: "agent_env \<Rightarrow> agent \<Rightarrow> pod \<Rightarrow> inference_spec \<Rightarrow> ctrl_error + bool" where
  "credential_rotated env a q isp =
     (let mountedRV = str_at (pod_Annotations q) ''kyber.io/inference-credential-rv'' in
      if mountedRV = '''' then Inr False
      else case env_Secret env (ag_Namespace a) (inf_ExistingSecret isp) of
             Missing \<Rightarrow> Inr False
           | ReadError \<Rightarrow> Inl ErrInferenceCredential
           | Found sec \<Rightarrow>
               Inr (str_at (sec_Data sec) (inf_Key isp) \<noteq> '''' \<and> sec_ResourceVersion sec \<noteq> mountedRV
                    \<and> (case Activity a of None \<Rightarrow> True | Some act \<Rightarrow> act_State act \<noteq> ''working'')))"

definition running_live_event :: "agent_env \<Rightarrow> agent \<Rightarrow> pod \<Rightarrow> classification" where
  "running_live_event env a q =
     (if spec_Runtime a \<noteq> ''codex'' then no_event a
      else case spec_Inference a of
             None \<Rightarrow> no_event a
           | Some isp \<Rightarrow>
               (case credential_rotated env a q isp of
                  Inl err \<Rightarrow> failed err a
                | Inr True \<Rightarrow> event EventInferenceCredentialRotated a
                | Inr False \<Rightarrow>
                    (case Activity a of
                       None \<Rightarrow> no_event a
                     | Some act \<Rightarrow>
                         (if act_RejectedPodUID act \<noteq> '''' \<and> pod_UID q = act_RejectedPodUID act
                          then event EventInferenceAuthRejected a else no_event a))))"

definition running_event :: "agent_env \<Rightarrow> agent \<Rightarrow> pod option \<Rightarrow> classification" where
  "running_event env a p =
     (if running_pod_dead p then running_dead_event env a p
      else case p of None \<Rightarrow> no_event a | Some q \<Rightarrow> running_live_event env a q)"

definition pod_ended :: "pod option \<Rightarrow> bool" where
  "pod_ended p =
     (case p of None \<Rightarrow> True | Some q \<Rightarrow> pod_Phase q = PodSucceeded \<or> pod_Phase q = PodFailed)"

definition stopping_event :: "agent_env \<Rightarrow> agent \<Rightarrow> pod option \<Rightarrow> classification" where
  "stopping_event env a p =
     (if pod_ended p then event EventPodTerminated a
      else case LastTransition a of
             None \<Rightarrow> no_event a
           | Some since \<Rightarrow>
               (if env_now env - since > 30 * second then event EventGracePeriodExceeded a else no_event a))"

text \<open>NeedsAuth and MemoryExhausted: leave only on a changed operator input.\<close>

definition recovery_event :: "agent_env \<Rightarrow> agent \<Rightarrow> pod option \<Rightarrow> classification" where
  "recovery_event env a p =
     (if DesiredPhase a \<noteq> PhaseRunning \<or> podTerminating p then no_event a
      else case recoveryInputChanged env a of
             (Inl err, a') \<Rightarrow> failed err a'
           | (Inr True, a') \<Rightarrow> event EventDesiredRunning a'
           | (Inr False, a') \<Rightarrow> no_event a')"

definition draining_event :: "agent_env \<Rightarrow> agent \<Rightarrow> pod option \<Rightarrow> classification" where
  "draining_event env a p =
     (if pod_ended p then event EventPodDeleted a
      else if isMachinePreempted env a p then event EventMachinePreempted a
      else no_event a)"

definition pod_state_event :: "agent_env \<Rightarrow> agent \<Rightarrow> pod option \<Rightarrow> classification" where
  "pod_state_event env a p =
     (case Phase a of
        PhaseCreating \<Rightarrow> creating_event a p
      | PhaseStarting \<Rightarrow> starting_event env a p
      | PhaseRunning \<Rightarrow> running_event env a p
      | PhaseStopping \<Rightarrow> stopping_event env a p
      | PhaseRestarting \<Rightarrow> (if p = None then event EventPodDeleted a else no_event a)
      | PhaseWaitingForMachine \<Rightarrow>
          (if isMachineReady env a then event EventMachineReady a else no_event a)
      | PhaseNeedsAuth \<Rightarrow> recovery_event env a p
      | PhaseMemoryExhausted \<Rightarrow> recovery_event env a p
      | PhaseDraining \<Rightarrow> draining_event env a p
      | _ \<Rightarrow> no_event a)"

definition classifyEvent :: "agent_env \<Rightarrow> agent \<Rightarrow> pod option \<Rightarrow> classification" where
  "classifyEvent env a p =
     (case operator_event a of
        Some e \<Rightarrow> event e a
      | None \<Rightarrow>
          (case machine_event_for env a of
             Some e \<Rightarrow> event e a
           | None \<Rightarrow>
               (case intent_step env a p of
                  Done r \<Rightarrow> r
                | Continue a' \<Rightarrow> pod_state_event env a' p)))"

subsection \<open>Every derived event is a transition of the lifecycle machine\<close>

text \<open>\<open>accepted a c\<close>: the event of classification \<open>c\<close>, if any, has a row for \<open>a\<close>'s phase.\<close>

definition accepted :: "agent \<Rightarrow> classification \<Rightarrow> bool" where
  "accepted a c =
     (case fst c of Inr (Some e) \<Rightarrow> is_ok (NextPhase (Phase a) e) | _ \<Rightarrow> True)"

fun step_accepted :: "agent \<Rightarrow> step \<Rightarrow> bool" where
  "step_accepted a (Done c) = accepted a c"
| "step_accepted a (Continue a') = (Phase a' = Phase a \<and> DesiredPhase a' = DesiredPhase a)"

lemma accepted_simps [simp]:
  "accepted a (Inr None, a')" "accepted a (Inl err, a')"
  "accepted a (Inr (Some e), a') = is_ok (NextPhase (Phase a) e)"
  by (simp_all add: accepted_def)

lemma operator_event_accepted:
  "operator_event a = Some e \<Longrightarrow> is_ok (NextPhase (Phase a) e)"
  by (auto simp: operator_event_def Let_def needs_auth_phases_def stop_phases_def split: if_splits)

lemma machine_event_accepted:
  "machine_event_for env a = Some e \<Longrightarrow> is_ok (NextPhase (Phase a) e)"
  by (auto simp: machine_event_for_def split: if_splits)

lemma recoveryInputChanged_frame:
  "Phase (snd (recoveryInputChanged env a)) = Phase a"
  "DesiredPhase (snd (recoveryInputChanged env a)) = DesiredPhase a"
  by (auto simp: recoveryInputChanged_def Let_def split: sum.splits)

lemma intent_running_accepted:
  "Phase a = PhaseRunning \<Longrightarrow> step_accepted a (intent_running env a p)"
  by (auto simp: intent_running_def Let_def split: option.splits sum.splits bool.splits)

lemma disk_recovery_accepted:
  "Phase a = PhaseDiskExhausted \<Longrightarrow> step_accepted a (disk_recovery env a)"
  using recoveryInputChanged_frame [of env a]
  by (auto simp: disk_recovery_def split: sum.splits bool.splits prod.splits)

lemma intent_disk_accepted:
  "Phase a = PhaseDiskExhausted \<Longrightarrow> step_accepted a (intent_disk_exhausted env a p)"
  by (auto simp: intent_disk_exhausted_def disk_recovery_accepted)

lemma intent_failed_accepted:
  "Phase a = PhaseFailed \<Longrightarrow> accepted a (intent_failed env a p)"
  by (auto simp: intent_failed_def retry_decision_def stale_node_check_def restartRequestChanged_def Let_def
      split: sum.splits bool.splits prod.splits option.splits)

lemma intent_step_accepted: "step_accepted a (intent_step env a p)"
  by (cases "Phase a")
    (simp_all add: intent_step_def intent_running_accepted intent_disk_accepted intent_failed_accepted)

lemma death_cause_cases:
  "death_cause env a p = Some e \<Longrightarrow>
     e \<in> {EventRuntimeProbeFailed, EventOAuthRefreshFailed, EventAuthServiceFailed,
          EventCredentialSyncFailed, EventOOMKilled}"
  by (auto simp: death_cause_def failure_event_def split: if_splits runtime_failure.splits option.splits)

lemma creating_accepted: "Phase a = PhaseCreating \<Longrightarrow> accepted a (creating_event a p)"
  by (auto simp: creating_event_def split: option.splits pod_phase.splits)

lemma starting_accepted: "Phase a = PhaseStarting \<Longrightarrow> accepted a (starting_event env a p)"
  by (auto simp: starting_event_def split: option.splits sum.splits bool.splits
      dest!: death_cause_cases)

lemma running_dead_accepted:
  assumes "Phase a = PhaseRunning"
  shows "accepted a (running_dead_event env a p)"
proof (cases "death_cause env a p")
  case None
  with assms show ?thesis by (simp add: running_dead_event_def)
next
  case (Some e)
  from death_cause_cases [OF this] Some assms show ?thesis
    by (auto simp: running_dead_event_def)
qed

lemma running_live_accepted: "Phase a = PhaseRunning \<Longrightarrow> accepted a (running_live_event env a q)"
  by (simp add: running_live_event_def split: option.split sum.split bool.split)

lemma running_accepted: "Phase a = PhaseRunning \<Longrightarrow> accepted a (running_event env a p)"
  by (simp add: running_event_def running_dead_accepted running_live_accepted split: option.split)

lemma recovery_accepted:
  "Phase a \<in> {PhaseNeedsAuth, PhaseMemoryExhausted} \<Longrightarrow> accepted a (recovery_event env a p)"
  by (auto simp: recovery_event_def split: sum.splits bool.splits prod.splits)

lemma pod_state_accepted: "accepted a (pod_state_event env a p)"
  by (cases "Phase a")
    (simp_all add: pod_state_event_def creating_accepted starting_accepted running_accepted
      recovery_accepted stopping_event_def draining_event_def split: option.split)

lemma accepted_cong: "Phase a = Phase b \<Longrightarrow> accepted a c = accepted b c"
  by (auto simp: accepted_def split: sum.split option.split)

text \<open>
  C1: whatever the agent, its pod and the cluster look like, the event the controller derives
  is one the lifecycle machine has a transition for: the reconciler never reaches its
  "invalid transition" branch, which would leave the agent stuck without a requeue.
\<close>

theorem classify_accepted:
  assumes "classifyEvent env a p = (Inr (Some e), a')"
  shows "\<exists>r. NextPhase (Phase a) e = Inr r"
proof -
  have "accepted a (classifyEvent env a p)"
    using intent_step_accepted [of a env p]
    by (auto simp: classifyEvent_def operator_event_accepted machine_event_accepted
        intro: accepted_cong [THEN iffD1, OF _ pod_state_accepted]
        split: option.split step.split)
  with assms show ?thesis
    by (cases "NextPhase (Phase a) e") auto
qed

subsection \<open>A concrete agent and cluster\<close>

text \<open>An agent that is starting, its ready pod, and a cluster with no machines.\<close>

definition example_agent :: agent where
  "example_agent = \<lparr>ag_Name = ''a'', ag_Namespace = ''ns'', ag_UID = ''u'', ag_Generation = 1,
     ag_Annotations = [], DesiredPhase = PhaseRunning, spec_Machine = '''', spec_Runtime = ''claude-code'',
     spec_Inference = None, spec_Memory = ''1Gi'', spec_Disk = ''10Gi'', spec_AuthType = '''',
     spec_RepoTemplate = '''', spec_Repo = '''', Phase = PhaseStarting, Activity = None, RestartCount = 1,
     LastTransition = Some 1, StatusMessage = '''', ProbeMessage = '''', StartTime = None,
     DiskExpansionStage = None, RecoveryInput = '''', ObservedGeneration = 0, LastKernelOOMKillAt = None,
     st_NodeName = '''', st_Conditions = []\<rparr>"

definition example_pod :: pod where
  "example_pod = \<lparr>pod_UID = ''p'', pod_DeletionTimestamp = None, pod_Phase = PodRunning,
     pod_Conditions = [\<lparr>cond_Type = ''Ready'', cond_Status = ''True'', cond_Reason = ''''\<rparr>],
     pod_ContainerStatuses = [], pod_Labels = [], pod_Annotations = [], pod_Containers = [],
     pod_NodeName = '''', pod_RequiredTerms = None, pod_ControllerUID = None\<rparr>"

definition example_env :: agent_env where
  "example_env = \<lparr>env_now = 10 * second, env_MachineGetter = None, env_Machine = (\<lambda>_ _. Missing),
     env_Node = (\<lambda>_. Missing), env_Secret = (\<lambda>_ _. Missing), env_UpdateOk = True, env_StatusPatchOk = True,
     env_AdapterImage = None, env_Roll = (\<lambda>_. Inr False), env_EnsurePVCOk = True, env_DiskReady = Inr True,
     env_CredentialSecretName = None, env_Describe = (\<lambda>_. None), env_AuthPending = None,
     env_AuthSecretName = ''''\<rparr>"

lemmas example_defs = example_agent_def example_pod_def example_env_def

lemmas classify_defs = classifyEvent_def operator_event_def needs_auth_phases_def stop_phases_def
  machine_event_for_def isMachineUnavailable_def assigned_machine_def isMachinePreempted_def
  intent_step_def intent_running_def intent_failed_def restartRequestChanged_def
  SpecChangedSinceLastPod_def stale_node_check_def retry_decision_def controller_constants
  pod_state_event_def creating_event_def starting_event_def stopping_event_def pod_ended_def
  pod_gone_or_ended_def isAgentContainerTerminated_def isPodReady_def podTerminating_def

theorem classify_accepted_witness:
  "\<exists>r. NextPhase PhaseStarting EventPodReady = Inr r"
  using classify_accepted [of example_env example_agent "Some example_pod" EventPodReady example_agent]
  by (simp add: example_defs classify_defs)

end
