(* ===== verification/Agent_Reconcile.thy ===== *)
theory Agent_Reconcile
  imports Agent_Controller
begin

section \<open>Executing a transition (\<open>pkg/controllers/agent/reconciler.go\<close>)\<close>

text \<open>
  What the reconciler does with a derived event: throttle an automatic restart, look the
  transition up, execute its action and record the new phase. Calls to the API server that
  create, delete or patch objects are effects, listed in the order the code makes them; their
  outcomes, and those of \<open>createPod\<close>, \<open>ensurePVC\<close> and \<open>ensureOffsetsPVC\<close>, are fields
  of \<open>exec_env\<close>. Recorder events and alerts are effects too (their texts are not kept);
  metrics and log lines are not modelled. The restart count is an \<open>int\<close>: the source's
  \<open>int32\<close> is only ever incremented from below the cap of 3 or zeroed.
\<close>

datatype effect =
    EmitEvent string
  | FireAlert string
  | EnsurePVC
  | EnsureOffsetsPVC
  | CreatePod
  | DeletePod bool
  | DeletePodGrace nat
  | PatchSpec
  | PatchStatus
  | WriteBrief
  | WritePreemptionBrief

datatype exec_error =
    ExecEnsurePVC | ExecEnsureOffsets | ExecCreatePod | ExecDeletePod | ExecSweepPod | ExecDrain
  | ExecClearDesired | ExecRestartCount | ExecResetRetry | ExecReleaseInput | ExecRejectedCredential
  | ExecStatusPatch
  | AwaitingPodDeletion

text \<open>\<open>ex_Remaining\<close>: the pod read back after the sweep of a reset-retry, if it is still there.\<close>

record exec_env =
  ex_EnsurePVCOk :: bool
  ex_EnsureOffsetsOk :: bool
  ex_CreatePodOk :: bool
  ex_DeletePodOk :: bool
  ex_SpecPatchOk :: bool
  ex_StatusPatchOk :: bool
  ex_ReleasePatchOk :: bool
  ex_PhasePatchOk :: bool
  ex_Remaining :: "pod_phase option"

definition requeueWaiting :: duration where "requeueWaiting = 30 * second"
definition awaitingPodDeletionRequeue :: duration where "awaitingPodDeletionRequeue = 2 * second"

type_synonym execution = "(exec_error + duration) \<times> agent \<times> effect list"

subsection \<open>\<open>executeAction\<close>\<close>

text \<open>Delete the pod if there is one, then go on; a failed delete stops the action.\<close>

definition with_pod_deleted ::
  "exec_env \<Rightarrow> agent \<Rightarrow> pod option \<Rightarrow> bool \<Rightarrow> effect list \<Rightarrow> (effect list \<Rightarrow> execution) \<Rightarrow> execution" where
  "with_pod_deleted x a p force fx k =
     (case p of
        None \<Rightarrow> k fx
      | Some _ \<Rightarrow>
          (if ex_DeletePodOk x then k (fx @ [DeletePod force])
           else (Inl ExecDeletePod, a, fx @ [DeletePod force])))"

definition create_pod :: "exec_env \<Rightarrow> agent \<Rightarrow> effect list \<Rightarrow> execution" where
  "create_pod x a fx =
     (if ex_CreatePodOk x then (Inr requeueWaiting, a, fx @ [CreatePod])
      else (Inl ExecCreatePod, a, fx @ [CreatePod]))"

definition bump_restart_count :: "exec_env \<Rightarrow> agent \<Rightarrow> effect list \<Rightarrow> execution" where
  "bump_restart_count x a fx =
     (let a' = a\<lparr>RestartCount := RestartCount a + 1\<rparr> in
      if ex_StatusPatchOk x then (Inr requeueWaiting, a', fx @ [PatchStatus])
      else (Inl ExecRestartCount, a', fx @ [PatchStatus]))"

definition capture_and_delete :: "exec_env \<Rightarrow> agent \<Rightarrow> pod option \<Rightarrow> agent_event \<Rightarrow> execution" where
  "capture_and_delete x a p ev =
     with_pod_deleted x a p False [] (\<lambda>fx.
       if ev = EventDesiredRestarting then
         (let a' = a\<lparr>DesiredPhase := PhaseNone\<rparr> in
          if ex_SpecPatchOk x then (Inr requeueWaiting, a', fx @ [PatchSpec])
          else (Inl ExecClearDesired, a', fx @ [PatchSpec]))
       else (Inr requeueWaiting, a, fx))"

definition crash_reason :: "agent_event \<Rightarrow> string" where
  "crash_reason ev =
     (if ev = EventAuthServiceFailed then ''AuthServiceUnavailable''
      else if ev = EventCredentialSyncFailed then ''CredentialSyncFailed''
      else ''AgentCrashed'')"

text \<open>
  The operator override: zero the retry count, sweep the old pod, and hold while a non-terminal
  pod remains, giving the claimed recovery input back first.
\<close>

definition reset_retry_and_create :: "exec_env \<Rightarrow> agent \<Rightarrow> pod option \<Rightarrow> execution" where
  "reset_retry_and_create x a p =
     (let a1 = a\<lparr>RestartCount := 0\<rparr> in
      if \<not> ex_StatusPatchOk x then (Inl ExecResetRetry, a1, [PatchStatus])
      else case p of
             None \<Rightarrow> create_pod x a1 [PatchStatus, WriteBrief]
           | Some _ \<Rightarrow>
               (if \<not> ex_DeletePodOk x then (Inl ExecSweepPod, a1, [PatchStatus, DeletePodGrace 0])
                else case ex_Remaining x of
                       None \<Rightarrow> create_pod x a1 [PatchStatus, DeletePodGrace 0, WriteBrief]
                     | Some ph \<Rightarrow>
                         (if ph = PodFailed \<or> ph = PodSucceeded
                          then create_pod x a1 [PatchStatus, DeletePodGrace 0, WriteBrief]
                          else if RecoveryInput a1 \<noteq> ''''
                          then (Inl (if ex_ReleasePatchOk x then AwaitingPodDeletion else ExecReleaseInput),
                                a1\<lparr>RecoveryInput := ''''\<rparr>,
                                [PatchStatus, DeletePodGrace 0, PatchStatus])
                          else (Inl AwaitingPodDeletion, a1, [PatchStatus, DeletePodGrace 0]))))"

definition drain_agent :: "exec_env \<Rightarrow> agent \<Rightarrow> pod option \<Rightarrow> execution" where
  "drain_agent x a p =
     (case p of
        None \<Rightarrow> (Inr (5 * second), a, [WritePreemptionBrief, EmitEvent ''PreemptionDrain''])
      | Some _ \<Rightarrow>
          (if ex_DeletePodOk x
           then (Inr (5 * second), a,
                 [WritePreemptionBrief, DeletePodGrace 20, EmitEvent ''PreemptionDrain''])
           else (Inl ExecDrain, a, [WritePreemptionBrief, DeletePodGrace 20])))"

definition transition_to_waiting ::
  "agent_env \<Rightarrow> exec_env \<Rightarrow> agent \<Rightarrow> pod option \<Rightarrow> agent_event \<Rightarrow> execution" where
  "transition_to_waiting env x a p ev =
     (let force = (case p of None \<Rightarrow> False
                   | Some q \<Rightarrow> pod_NodeName q = '''' \<or> isNodeUnavailable env (pod_NodeName q)) in
      with_pod_deleted x a p force [] (\<lambda>fx.
        (Inr (15 * second), a,
         fx @ [EmitEvent (if ev = EventStaleNodePod then ''StaleNodePod'' else ''MachineUnavailable'')])))"

definition executeAction ::
  "agent_env \<Rightarrow> exec_env \<Rightarrow> agent \<Rightarrow> pod option \<Rightarrow> agent_action \<Rightarrow> agent_event \<Rightarrow> execution" where
  "executeAction env x a p act ev =
     (case act of
        ActionCreatePVOnly \<Rightarrow>
          (if \<not> ex_EnsurePVCOk x then (Inl ExecEnsurePVC, a, [EnsurePVC])
           else if \<not> ex_EnsureOffsetsOk x then (Inl ExecEnsureOffsets, a, [EnsurePVC, EnsureOffsetsPVC])
           else (Inr 0, a, [EnsurePVC, EnsureOffsetsPVC]))
      | ActionCreatePVAndPod \<Rightarrow> create_pod x a []
      | ActionWaitForStart \<Rightarrow> (Inr requeueWaiting, a, [])
      | ActionUpdateStatus \<Rightarrow> (Inr 0, a, [])
      | ActionLogAndEmitEvent \<Rightarrow> (Inr 0, a, [EmitEvent ''PodScheduleFailed''])
      | ActionKillPodAndEmitEvent \<Rightarrow>
          with_pod_deleted x a p False [EmitEvent ''StartupTimeout''] (\<lambda>fx. (Inr 0, a, fx))
      | ActionSendSIGTERM \<Rightarrow> with_pod_deleted x a p False [] (\<lambda>fx. (Inr requeueWaiting, a, fx))
      | ActionCaptureStateAndDeletePod \<Rightarrow> capture_and_delete x a p ev
      | ActionEmitEventAutoRestart \<Rightarrow> bump_restart_count x a [EmitEvent (crash_reason ev)]
      | ActionKillPodEmitEventAutoRestart \<Rightarrow>
          with_pod_deleted x a p True [EmitEvent ''LivenessProbeFailure''] (bump_restart_count x a)
      | ActionForceKillPod \<Rightarrow> with_pod_deleted x a p True [] (\<lambda>fx. (Inr requeueWaiting, a, fx))
      | ActionWriteBriefAndCreatePod \<Rightarrow> create_pod x a [WriteBrief]
      | ActionResetRetryAndCreatePod \<Rightarrow> reset_retry_and_create x a p
      | ActionStayFailedAndAlert \<Rightarrow>
          (Inr 0, a, if contains ''retry limit'' (StatusMessage a) then [] else [EmitEvent ''RetryLimitReached''])
      | ActionDrainAgent \<Rightarrow> drain_agent x a p
      | ActionTransitionToWaiting \<Rightarrow> transition_to_waiting env x a p ev)"

subsection \<open>\<open>shouldThrottleRestart\<close> and \<open>updatePhase\<close>\<close>

text \<open>The remaining backoff, when the last transition is too recent.\<close>

definition shouldThrottleRestart :: "agent_env \<Rightarrow> agent \<Rightarrow> duration option" where
  "shouldThrottleRestart env a =
     (case LastTransition a of
        None \<Rightarrow> None
      | Some since \<Rightarrow>
          (let required = sint (RetryBackoffDuration (word_of_int (RestartCount a)));
               elapsed = env_now env - since
           in if elapsed \<ge> required then None else Some (required - elapsed)))"

definition endpoint_agent :: "agent \<Rightarrow> bool" where
  "endpoint_agent a \<longleftrightarrow> spec_Runtime a = ''codex'' \<and> spec_Inference a \<noteq> None"

definition phase_message :: "agent \<Rightarrow> agent_phase \<Rightarrow> string \<Rightarrow> string" where
  "phase_message a newPhase message =
     (if newPhase = PhaseWaitingForMachine \<and> message = ''''
      then ''Waiting for machine '' @ spec_Machine a
           @ '' to recover. Kyber will resume this agent automatically.''
      else message)"

text \<open>Baseline a credential that was rejected at start: the pod's stamp, else what is current.\<close>

definition baseline_startup_rejection ::
  "agent_env \<Rightarrow> agent \<Rightarrow> agent_phase \<Rightarrow> agent_event \<Rightarrow> pod option \<Rightarrow> ctrl_error + agent" where
  "baseline_startup_rejection env a newPhase ev p =
     (if newPhase = PhaseNeedsAuth \<and> ev = EventOAuthRefreshFailed \<and> endpoint_agent a then
        (let stamp = (case p of None \<Rightarrow> ''''
                      | Some q \<Rightarrow> str_at (pod_Annotations q) ''kyber.io/inference-credential-rv'') in
         if stamp \<noteq> '''' then
           Inr (a\<lparr>RecoveryInput := ''rv:'' @ inf_ExistingSecret (the (spec_Inference a)) @ '':'' @ stamp\<rparr>)
         else case currentRecoveryInput env a of
                Inl e \<Rightarrow> Inl e
              | Inr input \<Rightarrow> Inr (a\<lparr>RecoveryInput := input\<rparr>))
      else Inr a)"

definition consume_rejection :: "agent_env \<Rightarrow> agent \<Rightarrow> agent_phase \<Rightarrow> ctrl_error + agent" where
  "consume_rejection env a newPhase =
     (case Activity a of
        None \<Rightarrow> Inr a
      | Some act \<Rightarrow>
          (if act_RejectedPodUID act = '''' then Inr a
           else
             (let cleared = Some (act\<lparr>act_RejectedPodUID := '''', act_RejectedSecretRV := ''''\<rparr>) in
              if newPhase \<noteq> PhaseNeedsAuth then Inr (a\<lparr>Activity := cleared\<rparr>)
              else if act_RejectedSecretRV act \<noteq> '''' \<and> spec_Inference a \<noteq> None then
                Inr (a\<lparr>RecoveryInput := ''rv:'' @ inf_ExistingSecret (the (spec_Inference a)) @ '':''
                         @ act_RejectedSecretRV act, Activity := cleared\<rparr>)
              else case currentRecoveryInput env a of
                     Inl e \<Rightarrow> Inl e
                   | Inr input \<Rightarrow> Inr (a\<lparr>RecoveryInput := input, Activity := cleared\<rparr>))))"

definition updatePhase ::
  "agent_env \<Rightarrow> exec_env \<Rightarrow> agent \<Rightarrow> agent_phase \<Rightarrow> string \<Rightarrow> agent_event \<Rightarrow> pod option
     \<Rightarrow> (exec_error + unit) \<times> agent" where
  "updatePhase env x a newPhase message ev p =
     (if Phase a = newPhase \<and> StatusMessage a = message then (Inr (), a)
      else
        (let a1 = a\<lparr>StatusMessage := phase_message a newPhase message, Phase := newPhase,
                     LastTransition := Some (env_now env)\<rparr> in
         case baseline_startup_rejection env a1 newPhase ev p of
           Inl _ \<Rightarrow> (Inl ExecRejectedCredential, a1)
         | Inr a2 \<Rightarrow>
             (case consume_rejection env a2 newPhase of
                Inl _ \<Rightarrow> (Inl ExecRejectedCredential, a2)
              | Inr a3 \<Rightarrow>
                  (let a4 = (if newPhase = PhaseDiskExhausted
                             then a3\<lparr>RecoveryInput := ''disk='' @ spec_Disk a3\<rparr> else a3);
                       a5 = (if newPhase = PhaseRunning \<and> StartTime a4 = None
                             then a4\<lparr>StartTime := Some (env_now env)\<rparr> else a4)
                   in (if ex_PhasePatchOk x then Inr () else Inl ExecStatusPatch, a5)))))"

subsection \<open>The transition step of \<open>Reconcile\<close>\<close>

text \<open>\<open>strings.Replace(s, old, new, 1)\<close> for a non-empty \<open>old\<close>.\<close>

fun replace_first :: "string \<Rightarrow> string \<Rightarrow> string \<Rightarrow> string" where
  "replace_first old new [] = []"
| "replace_first old new (c # cs) =
     (if prefix old (c # cs) then new @ drop (length old) (c # cs)
      else c # replace_first old new cs)"

definition transition_message :: "agent \<Rightarrow> agent_phase \<Rightarrow> agent_event \<Rightarrow> string" where
  "transition_message a next ev =
     (if next = PhaseNeedsAuth \<and> endpoint_agent a
         \<and> (ev = EventInferenceAuthRejected \<or> ev = EventOAuthRefreshFailed)
      then (if ev = EventInferenceAuthRejected
            then ''Codex inference endpoint rejected its credential (HTTP 401). Update the configured endpoint Secret to retry.''
            else ''Codex inference endpoint credential is missing or rejected. Update the configured endpoint Secret to retry.'')
      else if next = PhaseBrokenRuntime
      then (if ProbeMessage a \<noteq> '''' then ProbeMessage a
            else spec_Runtime a
                 @ '' runtime harness failed its executable/version probe. Repair the runtime before retrying authentication.'')
      else if next = PhaseFailed \<and> ev = EventAuthServiceFailed
      then ''The runtime authentication provider or network is unavailable. Kyber will retry within the bounded restart policy; replacing credentials is not the indicated fix.''
      else if next = PhaseFailed \<and> ev = EventCredentialSyncFailed
      then ''The runtime refreshed its credential but could not persist it to Kyber. Kyber will retry within the bounded restart policy; reauthorization may be required if the rotated credential cannot be recovered.''
      else if next = PhaseFailed \<and> ev = EventRetryLimitReached
      then replace_first ''Kyber will retry within the bounded restart policy;''
             ''Automatic retries are exhausted;'' (StatusMessage a)
      else '''')"

datatype outcome =
    Throttled duration            \<comment> \<open>requeue when the backoff has passed\<close>
  | Invalid transition_error      \<comment> \<open>invalid transition: logged, no requeue\<close>
  | Awaiting                      \<comment> \<open>the previous pod must be gone first\<close>
  | Errored exec_error            \<comment> \<open>the reconcile returns an error\<close>
  | Advanced agent_phase duration \<comment> \<open>the phase was recorded\<close>

text \<open>What \<open>Reconcile\<close> announces before it runs the action.\<close>

definition transition_notice :: "agent_phase \<Rightarrow> effect list" where
  "transition_notice next =
     EmitEvent ''StateTransition'' # (if next = PhaseFailed then [FireAlert ''Failed''] else [])"

lemma transition_notice_pods [simp]:
  "CreatePod \<notin> set (transition_notice n)" "DeletePod f \<notin> set (transition_notice n)"
  by (simp_all add: transition_notice_def)

definition reconcile_event ::
  "agent_env \<Rightarrow> exec_env \<Rightarrow> agent \<Rightarrow> pod option \<Rightarrow> agent_event \<Rightarrow> outcome \<times> agent \<times> effect list" where
  "reconcile_event env x a p ev =
     (case (if ev = EventAutoRestartTriggered then shouldThrottleRestart env a else None) of
        Some remaining \<Rightarrow> (Throttled remaining, a, [])
      | None \<Rightarrow>
          (case NextPhase (Phase a) ev of
             Inl err \<Rightarrow> (Invalid err, a, [EmitEvent ''InvalidTransition''])
           | Inr result \<Rightarrow>
               (let pre = transition_notice (NextPhaseOf result) in
                case executeAction env x a p (Action result) ev of
                  (Inl AwaitingPodDeletion, a', fx) \<Rightarrow> (Awaiting, a', pre @ fx)
                | (Inl err, a', fx) \<Rightarrow> (Errored err, a', pre @ fx)
                | (Inr requeue, a', fx) \<Rightarrow>
                    (let msg = transition_message a' (NextPhaseOf result) ev in
                     case updatePhase env x a' (NextPhaseOf result) msg ev p of
                       (Inl err, a'') \<Rightarrow> (Errored err, a'', pre @ fx)
                     | (Inr _, a'') \<Rightarrow> (Advanced (NextPhaseOf result) requeue, a'', pre @ fx)))))"

text \<open>One pass over an agent: classify, and act on the event if there is one.\<close>

definition reconcile_once ::
  "agent_env \<Rightarrow> exec_env \<Rightarrow> agent \<Rightarrow> pod option
     \<Rightarrow> (ctrl_error + outcome option) \<times> agent \<times> effect list" where
  "reconcile_once env x a p =
     (case classifyEvent env a p of
        (Inl err, a') \<Rightarrow> (Inl err, a', [])
      | (Inr None, a') \<Rightarrow> (Inr None, a', [])
      | (Inr (Some ev), a') \<Rightarrow>
          (case reconcile_event env x a' p ev of (r, a'', fx) \<Rightarrow> (Inr (Some r), a'', fx)))"

subsection \<open>A concrete executor\<close>

definition example_exec :: exec_env where
  "example_exec = \<lparr>ex_EnsurePVCOk = True, ex_EnsureOffsetsOk = True, ex_CreatePodOk = True,
     ex_DeletePodOk = True, ex_SpecPatchOk = True, ex_StatusPatchOk = True, ex_ReleasePatchOk = True,
     ex_PhasePatchOk = True, ex_Remaining = None\<rparr>"

text \<open>The example agent after it failed, at retry count \<open>n\<close>.\<close>

definition example_failed :: "int \<Rightarrow> agent" where
  "example_failed n = example_agent\<lparr>Phase := PhaseFailed, RestartCount := n\<rparr>"

lemmas reconcile_defs = reconcile_event_def transition_notice_def executeAction_def updatePhase_def transition_message_def
  phase_message_def baseline_startup_rejection_def consume_rejection_def shouldThrottleRestart_def
  create_pod_def bump_restart_count_def with_pod_deleted_def capture_and_delete_def crash_reason_def
  reset_retry_and_create_def endpoint_agent_def requeueWaiting_def

subsection \<open>What actions do\<close>

lemma with_pod_deleted_effects:
  assumes "\<And>fx'. set fx' \<subseteq> insert (DeletePod force) (set fx) \<Longrightarrow> CreatePod \<notin> set (snd (snd (k fx')))"
    and "CreatePod \<notin> set fx"
  shows "CreatePod \<notin> set (snd (snd (with_pod_deleted x a p force fx k)))"
  using assms by (auto simp: with_pod_deleted_def split: option.splits)

definition pod_creating :: "agent_action \<Rightarrow> bool" where
  "pod_creating act \<longleftrightarrow>
     act \<in> {ActionCreatePVAndPod, ActionWriteBriefAndCreatePod, ActionResetRetryAndCreatePod}"

text \<open>Only three actions ever create a pod, and every transition that takes one enters Creating.\<close>

lemma executeAction_creates_pod:
  "CreatePod \<in> set (snd (snd (executeAction env x a p act ev))) \<Longrightarrow> pod_creating act"
  by (cases act)
    (auto simp: executeAction_def pod_creating_def capture_and_delete_def with_pod_deleted_def
      bump_restart_count_def drain_agent_def transition_to_waiting_def Let_def
      split: if_splits option.splits)

lemma table_creating:
  "NextPhase p e = Inr r \<Longrightarrow> pod_creating (Action r) \<longleftrightarrow> NextPhaseOf r = PhaseCreating"
  by (rule NextPhase_all_rows [where P = "\<lambda>p e r. pod_creating (Action r) \<longleftrightarrow> NextPhaseOf r = PhaseCreating"])
    (simp_all add: transitions_defs pod_creating_def)

lemma executeAction_frame:
  "Phase (fst (snd (executeAction env x a p act ev))) = Phase a"
  by (cases act)
    (auto simp: executeAction_def capture_and_delete_def with_pod_deleted_def create_pod_def
      bump_restart_count_def drain_agent_def transition_to_waiting_def reset_retry_and_create_def Let_def
      split: option.splits)

lemma baseline_phase:
  "baseline_startup_rejection env a n ev p = Inr a' \<Longrightarrow> Phase a' = Phase a \<and> RestartCount a' = RestartCount a"
  by (auto simp: baseline_startup_rejection_def Let_def split: if_splits sum.splits)

lemma consume_phase:
  "consume_rejection env a n = Inr a' \<Longrightarrow> Phase a' = Phase a \<and> RestartCount a' = RestartCount a"
  by (auto simp: consume_rejection_def Let_def split: if_splits sum.splits option.splits)

lemma updatePhase_phase:
  "updatePhase env x a n msg ev p = (Inr u, a') \<Longrightarrow> Phase a' = n"
  by (auto simp: updatePhase_def Let_def dest!: baseline_phase consume_phase split: if_splits sum.splits)

lemma updatePhase_restarts:
  "updatePhase env x a n msg ev p = (Inr u, a') \<Longrightarrow> RestartCount a' = RestartCount a"
  by (auto simp: updatePhase_def Let_def dest!: baseline_phase consume_phase split: if_splits sum.splits)

lemma consume_desired:
  "consume_rejection env a n = Inr a' \<Longrightarrow> DesiredPhase a' = DesiredPhase a"
  by (auto simp: consume_rejection_def Let_def split: if_splits sum.splits option.splits)

lemma baseline_desired:
  "baseline_startup_rejection env a n ev p = Inr a' \<Longrightarrow> DesiredPhase a' = DesiredPhase a"
  by (auto simp: baseline_startup_rejection_def Let_def split: if_splits sum.splits)

lemma updatePhase_desired:
  "updatePhase env x a n msg ev p = (Inr u, a') \<Longrightarrow> DesiredPhase a' = DesiredPhase a"
  by (auto simp: updatePhase_def Let_def dest!: baseline_desired consume_desired split: if_splits sum.splits)

text \<open>An advance decomposes into its transition, its action and its status write.\<close>

lemma reconcile_advancedE:
  assumes "reconcile_event env x a p ev = (Advanced ph d, a', fx)"
  obtains r a1 u fx1 where
    "NextPhase (Phase a) ev = Inr r" "ph = NextPhaseOf r" "fx = transition_notice ph @ fx1"
    "executeAction env x a p (Action r) ev = (Inr d, a1, fx1)"
    "updatePhase env x a1 ph (transition_message a1 ph ev) ev p = (Inr u, a')"
  using assms
  by (auto simp: reconcile_event_def Let_def split: option.splits sum.splits prod.splits exec_error.splits)

lemma executeAction_ok_creates:
  assumes "executeAction env x a p act ev = (Inr d, a', fx)" "pod_creating act"
  shows "CreatePod \<in> set fx"
  using assms
  by (cases act)
    (auto simp: executeAction_def pod_creating_def create_pod_def reset_retry_and_create_def Let_def
      split: if_splits option.splits)

text \<open>
  the reconciler creates a pod exactly when it moves the agent to Creating, whatever event
  and action led there; no other phase is entered with a new pod.
\<close>

theorem pod_created_iff_creating:
  assumes "reconcile_event env x a p ev = (Advanced ph d, a', fx)"
  shows "CreatePod \<in> set fx \<longleftrightarrow> ph = PhaseCreating"
proof -
  from assms obtain r a1 u fx1 where r: "NextPhase (Phase a) ev = Inr r" "ph = NextPhaseOf r"
    and f: "fx = transition_notice ph @ fx1"
    and x: "executeAction env x a p (Action r) ev = (Inr d, a1, fx1)"
    by (rule reconcile_advancedE)
  from x executeAction_creates_pod [of env x a p "Action r" ev]
  have "CreatePod \<in> set fx1 \<longleftrightarrow> pod_creating (Action r)"
    by (auto intro: executeAction_ok_creates)
  with r f table_creating [OF r(1)] show ?thesis by simp
qed

theorem pod_created_iff_creating_witness:
  "\<exists>a' fx. reconcile_event example_env example_exec (example_agent\<lparr>Phase := PhaseStopped\<rparr>) None EventDesiredRunning
             = (Advanced PhaseCreating requeueWaiting, a', fx) \<and> CreatePod \<in> set fx"
proof -
  obtain a' fx where r: "reconcile_event example_env example_exec (example_agent\<lparr>Phase := PhaseStopped\<rparr>) None
      EventDesiredRunning = (Advanced PhaseCreating requeueWaiting, a', fx)"
    by (simp add: reconcile_defs example_defs example_exec_def)
  with pod_created_iff_creating [OF r] show ?thesis by auto
qed

subsection \<open>The restart budget\<close>

definition spends_budget :: "agent_event \<Rightarrow> bool" where
  "spends_budget ev \<longleftrightarrow>
     ev \<in> {EventPodDied, EventAuthServiceFailed, EventCredentialSyncFailed, EventLivenessFailed}"

definition resets_budget :: "agent_phase \<Rightarrow> agent_event \<Rightarrow> bool" where
  "resets_budget ph ev \<longleftrightarrow> ev = EventDesiredRunning \<and> ph \<noteq> PhaseStopped"

definition counts :: "agent_action \<Rightarrow> bool" where
  "counts act \<longleftrightarrow> act \<in> {ActionEmitEventAutoRestart, ActionKillPodEmitEventAutoRestart}"

lemma executeAction_restarts:
  "executeAction env x a p act ev = (Inr d, a', fx) \<Longrightarrow>
     RestartCount a' = (if counts act then RestartCount a + 1
                        else if act = ActionResetRetryAndCreatePod then 0 else RestartCount a)"
  by (cases act)
    (auto simp: executeAction_def counts_def capture_and_delete_def with_pod_deleted_def create_pod_def
      bump_restart_count_def drain_agent_def transition_to_waiting_def reset_retry_and_create_def Let_def
      split: if_splits option.splits)

lemma table_counts:
  "NextPhase p e = Inr r \<Longrightarrow>
     (counts (Action r) \<longleftrightarrow> spends_budget e)
     \<and> (Action r = ActionResetRetryAndCreatePod \<longleftrightarrow> resets_budget p e)"
  by (rule NextPhase_all_rows
      [where P = "\<lambda>p e r. (counts (Action r) \<longleftrightarrow> spends_budget e)
         \<and> (Action r = ActionResetRetryAndCreatePod \<longleftrightarrow> resets_budget p e)"])
    (simp_all add: transitions_defs counts_def spends_budget_def resets_budget_def)

text \<open>
  what a transition does to the restart count, on every row: the four crash events add
  one, an operator's start from a failed or exhausted phase zeroes it, and every other event,
  a startup timeout and a failed schedule included, leaves it alone.
\<close>

theorem restart_count_accounting:
  assumes "reconcile_event env x a p ev = (Advanced ph d, a', fx)"
  shows "RestartCount a' =
           (if spends_budget ev then RestartCount a + 1
            else if resets_budget (Phase a) ev then 0 else RestartCount a)"
proof -
  from assms obtain r a1 u fx1 where r: "NextPhase (Phase a) ev = Inr r" "ph = NextPhaseOf r"
    and f: "fx = transition_notice ph @ fx1"
    and x: "executeAction env x a p (Action r) ev = (Inr d, a1, fx1)"
    and u: "updatePhase env x a1 ph (transition_message a1 ph ev) ev p = (Inr u, a')"
    by (rule reconcile_advancedE)
  show ?thesis
    using executeAction_restarts [OF x] table_counts [OF r(1)] updatePhase_restarts [OF u] by simp
qed

theorem restart_count_accounting_witness:
  "\<exists>a' fx. reconcile_event example_env example_exec (example_agent\<lparr>Phase := PhaseRunning\<rparr>) None EventPodDied
             = (Advanced PhaseFailed requeueWaiting, a', fx) \<and> RestartCount a' = 2"
proof -
  obtain a' fx where r: "reconcile_event example_env example_exec (example_agent\<lparr>Phase := PhaseRunning\<rparr>) None
      EventPodDied = (Advanced PhaseFailed requeueWaiting, a', fx)"
    by (simp add: reconcile_defs example_defs example_exec_def)
  with restart_count_accounting [OF r] show ?thesis
    by (auto simp: spends_budget_def example_agent_def)
qed



subsection \<open>Stopping\<close>

text \<open>What a finished or withheld stop leaves: the pass derives no event at all.\<close>

lemma stop_event:
  "DesiredPhase a = PhaseStopped \<Longrightarrow> Phase a \<in> stop_phases \<Longrightarrow>
     classifyEvent env a p = (Inr (Some EventDesiredStopped), a)"
  by (auto simp: classifyEvent_def operator_event_def Let_def stop_phases_def)

lemma stop_transition:
  "Phase a \<in> stop_phases \<Longrightarrow>
     NextPhase (Phase a) EventDesiredStopped =
       Inr (if Phase a = PhaseWaitingForMachine
            then \<lparr>Action = ActionForceKillPod, NextPhaseOf = PhaseStopped\<rparr>
            else if Phase a = PhaseRunning
            then \<lparr>Action = ActionSendSIGTERM, NextPhaseOf = PhaseStopping\<rparr>
            else \<lparr>Action = ActionCaptureStateAndDeletePod, NextPhaseOf = PhaseStopping\<rparr>)"
  by (auto simp: stop_phases_def)



lemma stopping_pass:
  assumes "Phase a = PhaseStopping" and "ex_PhasePatchOk x"
    and "reconcile_once env x a None = (r, a', fx)"
  shows "Phase a' = PhaseStopped \<and> DesiredPhase a' = DesiredPhase a"
  using assms
  by (auto simp: reconcile_once_def classifyEvent_def operator_event_def stop_phases_def needs_auth_phases_def
      machine_event_for_def intent_step_def pod_state_event_def stopping_event_def pod_ended_def
      reconcile_event_def executeAction_def updatePhase_def baseline_startup_rejection_def
      consume_rejection_def Let_def
      split: if_splits option.splits)

lemma stopped_pass:
  "Phase a = PhaseStopped \<Longrightarrow> DesiredPhase a = PhaseStopped \<Longrightarrow> reconcile_once env x a p = (Inr None, a, [])"
  by (simp add: reconcile_once_def classifyEvent_def operator_event_def stop_phases_def needs_auth_phases_def
      machine_event_for_def intent_step_def pod_state_event_def)

lemma stop_pass:
  assumes "DesiredPhase a = PhaseStopped" and "Phase a \<in> stop_phases"
    and "ex_DeletePodOk x" and "ex_PhasePatchOk x"
    and "reconcile_once env x a p = (r, a', fx)"
  shows "(Phase a' = PhaseStopping \<or> Phase a' = PhaseStopped) \<and> DesiredPhase a' = PhaseStopped"
  using assms(5) stop_transition [OF assms(2)] assms(1,3,4)
  by (auto simp: reconcile_once_def stop_event [OF assms(1,2)] reconcile_event_def executeAction_def
      with_pod_deleted_def capture_and_delete_def updatePhase_def baseline_startup_rejection_def
      consume_rejection_def Let_def
      split: if_splits option.splits sum.splits prod.splits exec_error.splits)



subsection \<open>Leaving a phase that waits for the operator\<close>

lemma recoveryInputChanged_True:
  assumes "recoveryInputChanged env a = (Inr True, a')"
  obtains input where "currentRecoveryInput env a = Inr input" "input \<noteq> RecoveryInput a"
    "a' = a\<lparr>RecoveryInput := input\<rparr>"
  using assms by (auto simp: recoveryInputChanged_def Let_def split: sum.splits if_splits)

lemma gate_event:
  assumes "Phase a \<in> {PhaseNeedsAuth, PhaseMemoryExhausted}"
    and "classifyEvent env a p = (Inr (Some EventDesiredRunning), a')"
  shows "recoveryInputChanged env a = (Inr True, a')"
  using assms
  by (auto simp: classifyEvent_def operator_event_def machine_event_for_def intent_step_def
      pod_state_event_def recovery_event_def Let_def
      split: if_splits sum.splits bool.splits prod.splits)



subsection \<open>The loop the restart budget does not see\<close>

text \<open>
  One round of an agent whose pod runs but never becomes ready: Failed, then the automatic
  restart, then the pod is scheduled, then the startup timeout; three passes of the
  reconciler at times \<open>t\<close>, one second later and 200 seconds later.
\<close>

definition env_at :: "time \<Rightarrow> agent_env" where
  "env_at t = example_env\<lparr>env_now := t\<rparr>"

definition unready_pod :: pod where
  "unready_pod = example_pod\<lparr>pod_Conditions := []\<rparr>"

definition startup_timeout_round :: "time \<Rightarrow> agent \<Rightarrow> agent \<times> effect list" where
  "startup_timeout_round t a =
     (case reconcile_once (env_at t) example_exec a None of (_, a1, fx1) \<Rightarrow>
      case reconcile_once (env_at (t + second)) example_exec a1 (Some unready_pod) of (_, a2, fx2) \<Rightarrow>
      case reconcile_once (env_at (t + 200 * second)) example_exec a2 (Some unready_pod) of (_, a3, fx3) \<Rightarrow>
      (a3, fx1 @ fx2 @ fx3))"

fun startup_timeout_rounds :: "nat \<Rightarrow> time \<Rightarrow> agent \<Rightarrow> agent \<times> effect list" where
  "startup_timeout_rounds 0 t a = (a, [])"
| "startup_timeout_rounds (Suc n) t a =
     (case startup_timeout_round t a of (a', fx) \<Rightarrow>
      case startup_timeout_rounds n (t + 1000 * second) a' of (a'', fx') \<Rightarrow> (a'', fx @ fx'))"

lemma backoff_1: "sint (RetryBackoffDuration 1) = 30000000000"
  by (simp add: RetryBackoffDuration_def retryBackoffBase_def numeral_eq_Suc)

lemma failed_to_creating:
  assumes "s + 30 * second \<le> t"
  shows "reconcile_once (env_at t) example_exec (example_failed 1\<lparr>LastTransition := Some s\<rparr>) None
     = (Inr (Some (Advanced PhaseCreating requeueWaiting)),
        example_failed 1\<lparr>Phase := PhaseCreating, LastTransition := Some t\<rparr>,
        [EmitEvent ''StateTransition'', WriteBrief, CreatePod])"
  using assms
  by (simp add: reconcile_once_def reconcile_defs classify_defs env_at_def example_failed_def example_defs
      example_exec_def backoff_1 second_def str_at_def FormatInt_def nat_digits.simps)

lemma creating_to_starting:
  "reconcile_once (env_at t) example_exec
       (example_failed 1\<lparr>Phase := PhaseCreating, LastTransition := Some s\<rparr>) (Some unready_pod)
     = (Inr (Some (Advanced PhaseStarting requeueWaiting)),
        example_failed 1\<lparr>Phase := PhaseStarting, LastTransition := Some t\<rparr>, [EmitEvent ''StateTransition''])"
  by (simp add: reconcile_once_def reconcile_defs classify_defs env_at_def example_failed_def example_defs
      example_exec_def unready_pod_def)

lemma starting_to_failed:
  assumes "s + 120 * second < t"
  shows "reconcile_once (env_at t) example_exec
       (example_failed 1\<lparr>Phase := PhaseStarting, LastTransition := Some s\<rparr>) (Some unready_pod)
     = (Inr (Some (Advanced PhaseFailed 0)), example_failed 1\<lparr>LastTransition := Some t\<rparr>,
        [EmitEvent ''StateTransition'', FireAlert ''Failed'', EmitEvent ''StartupTimeout'', DeletePod False])"
  using assms
  by (simp add: reconcile_once_def reconcile_defs classify_defs env_at_def example_failed_def example_defs
      example_exec_def unready_pod_def startupTimeoutForPod_def runtimeAuthenticationPending_def second_def)

lemma timeout_round:
  assumes "s + 30 * second \<le> t"
  shows "startup_timeout_round t (example_failed 1\<lparr>LastTransition := Some s\<rparr>)
     = (example_failed 1\<lparr>LastTransition := Some (t + 200 * second)\<rparr>,
        [EmitEvent ''StateTransition'', WriteBrief, CreatePod, EmitEvent ''StateTransition'',
         EmitEvent ''StateTransition'', FireAlert ''Failed'', EmitEvent ''StartupTimeout'', DeletePod False])"
  using assms
  by (simp add: startup_timeout_round_def failed_to_creating creating_to_starting starting_to_failed
      second_def)

lemma timeout_rounds:
  "s + 30 * second \<le> t \<Longrightarrow>
   \<exists>s'. fst (startup_timeout_rounds n t (example_failed 1\<lparr>LastTransition := Some s\<rparr>))
          = example_failed 1\<lparr>LastTransition := Some s'\<rparr>
        \<and> count (mset (snd (startup_timeout_rounds n t (example_failed 1\<lparr>LastTransition := Some s\<rparr>)))) CreatePod = n"
proof (induction n arbitrary: s t)
  case (Suc n)
  from Suc.IH [of "t + 200 * second" "t + 1000 * second"] timeout_round [OF Suc.prems]
  show ?case by (auto simp: second_def split: prod.splits)
qed auto


end
