(* ===== verification/Machine_Controller.thy ===== *)
theory Machine_Controller
  imports Machine_Lifecycle Agent_Lifecycle
begin

section \<open>The Machine controller (\<open>pkg/controllers/machine\<close>)\<close>

text \<open>
  Capacity arithmetic (\<open>capacity.go\<close>), the provider-neutral observations
  (\<open>pkg/adapters/compute.go\<close>) and the reconciler of a Machine (\<open>reconciler.go\<close>): how it derives
  the event that drives the lifecycle machine, what it does for each action, and one pass over a
  Machine of a managed provider. A compute adapter or capacity provider is a cloud driver chosen
  at start-up: its answers, and those of the API server, are fields of \<open>machine_env\<close>. The
  returned machine is the object in memory, which is what the API server holds when the status
  writes succeed. Log lines and metrics are not modelled.
\<close>

subsection \<open>Capacity\<close>

text \<open>A \<open>resource.Quantity\<close> is an exact decimal: a rational.\<close>

record capacity =
  CPU :: rat
  Memory :: rat
  EphemeralStorage :: rat

definition floor_zero :: "rat \<Rightarrow> rat" where
  "floor_zero q = (if q < 0 then 0 else q)"

definition ComputeAssignable :: "capacity \<Rightarrow> capacity \<Rightarrow> capacity" where
  "ComputeAssignable observed reservation =
     \<lparr>CPU = floor_zero (CPU observed - CPU reservation),
      Memory = floor_zero (Memory observed - Memory reservation),
      EphemeralStorage = floor_zero (EphemeralStorage observed - EphemeralStorage reservation)\<rparr>"

text \<open>An agent's bound machine and its resource requests.\<close>

record agent_request =
  req_Machine :: string
  req_CPU :: rat
  req_Memory :: rat
  req_Disk :: rat

fun subtract_requests :: "agent_request list \<Rightarrow> string \<Rightarrow> capacity \<Rightarrow> capacity" where
  "subtract_requests [] name c = c"
| "subtract_requests (a # as) name c =
     (if req_Machine a \<noteq> name then subtract_requests as name c
      else subtract_requests as name
             \<lparr>CPU = CPU c - req_CPU a, Memory = Memory c - req_Memory a,
              EphemeralStorage = EphemeralStorage c - req_Disk a\<rparr>)"

definition ComputeAvailable :: "capacity \<Rightarrow> agent_request list \<Rightarrow> string \<Rightarrow> capacity" where
  "ComputeAvailable assignable agents machineName =
     (let c = subtract_requests agents machineName assignable in
      \<lparr>CPU = floor_zero (CPU c), Memory = floor_zero (Memory c),
       EphemeralStorage = floor_zero (EphemeralStorage c)\<rparr>)"

lemma subtract_requests_sum:
  "subtract_requests as name c =
     (let mine = filter (\<lambda>a. req_Machine a = name) as in
      \<lparr>CPU = CPU c - sum_list (map req_CPU mine), Memory = Memory c - sum_list (map req_Memory mine),
       EphemeralStorage = EphemeralStorage c - sum_list (map req_Disk mine)\<rparr>)"
  by (induction as name c rule: subtract_requests.induct) (simp_all add: Let_def algebra_simps)

lemma floor_zero_max: "floor_zero q = max 0 q"
  by (simp add: floor_zero_def max_def)

text \<open>
  the capacity a machine offers is what its node allocates, less the platform's share,
  less the requests of the agents bound to it, and it never goes below zero; requests of agents
  on other machines never count, and the order of the agents does not matter.
\<close>

theorem available_capacity_exact:
  "ComputeAvailable (ComputeAssignable observed reserved) agents name =
     \<lparr>CPU = max 0 (max 0 (CPU observed - CPU reserved)
               - (\<Sum>a\<leftarrow>filter (\<lambda>a. req_Machine a = name) agents. req_CPU a)),
      Memory = max 0 (max 0 (Memory observed - Memory reserved)
               - (\<Sum>a\<leftarrow>filter (\<lambda>a. req_Machine a = name) agents. req_Memory a)),
      EphemeralStorage = max 0 (max 0 (EphemeralStorage observed - EphemeralStorage reserved)
               - (\<Sum>a\<leftarrow>filter (\<lambda>a. req_Machine a = name) agents. req_Disk a))\<rparr>"
  by (simp add: ComputeAvailable_def ComputeAssignable_def subtract_requests_sum floor_zero_max Let_def)

subsection \<open>Provider-neutral observations\<close>

datatype desired_availability = DesiredOnline | DesiredOffline | DesiredDeleted

datatype availability_state =
    CapacityPending | CapacityAvailable | CapacityRecovering | CapacityOffline | CapacityAbsent
  | CapacityFailed | CapacityUnknown

datatype availability_reason =
    ReasonReady | ReasonProvisioning | ReasonNodeJoining | ReasonInterrupted | ReasonRepairing
  | ReasonStopping | ReasonStopped | ReasonDeleted | ReasonExternalWait | ReasonProviderError
  | ReasonUnknown

datatype instance_state =
    InstanceStatePending | InstanceStateRunning | InstanceStateStopped | InstanceStateFailed
  | InstanceStateUnknown

record instance_observation =
  io_State :: instance_state
  io_Preempted :: bool
  io_ExternalIP :: string
  io_InternalIP :: string

text \<open>The zero time stands for an unset time of an observation.\<close>

record capacity_observation =
  co_State :: availability_state
  co_Reason :: availability_reason
  co_Message :: string
  co_ProviderRef :: string
  co_ExternalIP :: string
  co_InternalIP :: string
  co_EffectiveClass :: string
  co_FallbackReason :: string
  co_FallbackSince :: time
  co_UnavailableSince :: time
  co_RetryObserved :: string
  co_RetrySince :: time

definition CapacityObservationFromInstance :: "string \<Rightarrow> instance_observation \<Rightarrow> capacity_observation" where
  "CapacityObservationFromInstance ref obs =
     (let (st, reason) =
        (if io_Preempted obs then (CapacityRecovering, ReasonInterrupted)
         else case io_State obs of
                InstanceStatePending \<Rightarrow> (CapacityPending, ReasonProvisioning)
              | InstanceStateRunning \<Rightarrow> (CapacityAvailable, ReasonReady)
              | InstanceStateStopped \<Rightarrow> (CapacityOffline, ReasonStopped)
              | InstanceStateFailed \<Rightarrow> (CapacityFailed, ReasonProviderError)
              | InstanceStateUnknown \<Rightarrow> (CapacityUnknown, ReasonUnknown))
      in \<lparr>co_State = st, co_Reason = reason, co_Message = '''', co_ProviderRef = ref,
          co_ExternalIP = io_ExternalIP obs, co_InternalIP = io_InternalIP obs,
          co_EffectiveClass = '''', co_FallbackReason = '''', co_FallbackSince = 0,
          co_UnavailableSince = 0, co_RetryObserved = '''', co_RetrySince = 0\<rparr>)"

subsection \<open>The Machine and what the reconciler reads\<close>

record node_view =
  nv_Name :: string
  nv_Labels :: "(string, string) gomap"
  nv_Conditions :: "(string \<times> string) list"
  nv_Allocatable :: capacity

text \<open>\<open>m_ProfileResolved\<close>: \<open>status.resolvedProfile\<close> is set.\<close>

record machine =
  m_Name :: string
  m_Provider :: string
  m_External :: bool
  m_Desired :: machine_phase
  m_Spot :: bool
  m_AvailabilityClass :: string
  m_Profile :: string
  m_MachineType :: string
  m_RetryRequest :: string
  m_Phase :: machine_phase
  m_LastTransition :: "time option"
  m_InstanceId :: string
  m_ProviderRef :: string
  m_Availability :: "availability_state option"
  m_EffectiveClass :: string
  m_FallbackReason :: string
  m_FallbackSince :: "time option"
  m_UnavailableSince :: "time option"
  m_RetryObserved :: string
  m_RetrySince :: "time option"
  m_ProfileResolved :: bool
  m_InternalIP :: string
  m_ExternalIP :: string
  m_Message :: string
  m_NodeName :: string
  m_AgentCount :: nat
  m_ReplacementCount :: int
  m_Observed :: "capacity option"
  m_Assignable :: "capacity option"
  m_AvailableCap :: "capacity option"

datatype machine_error =
    MErrProvider | MErrNoProvider | MErrListNodes | MErrListPods | MErrListAgents | MErrPatch
  | MErrNoSelector | MErrListDemand | MErrCapacityPod
  | MErrCreateInstance | MErrStopInstance | MErrStartInstance | MErrObserve | MErrNoInstance

datatype machine_effect =
    MEmit string | MAlert string
  | ProviderReconcile desired_availability
  | CallCreateInstance
  | CallStopInstance string
  | CallStartInstance string
  | CleanupStaleNodes
  | CreateCapacityPod
  | DeleteCapacityPod

text \<open>What the capacity request looks at of an agent: its machine, desired and current phase.\<close>

record agent_demand =
  dem_Machine :: string
  dem_Desired :: agent_phase
  dem_Phase :: agent_phase

text \<open>
  A capacity provider is its type and its \<open>Reconcile\<close>, given the machine (the desired machine
  is built from it) and the desired availability; \<open>me_Selector\<close> is its node selector when it
  has one (and empty otherwise), \<open>me_NeedsDemand\<close> its need of scheduler demand;
  \<open>me_CapacityPod\<close> reads the capacity request pod and \<open>me_CapacityPodOk\<close> says whether creating
  or deleting it succeeds. \<open>me_ListNodes\<close> and \<open>me_ListPods\<close> list the nodes with the given labels and the label
  maps of the pods on a node. The provider's type decides whether the machine uses it.
\<close>

type_synonym provider = "string \<times> (desired_availability \<Rightarrow> machine \<Rightarrow> machine_error + capacity_observation)"

record machine_env =
  me_now :: time
  me_CapacityProvider :: "provider option"
  me_AdapterProvider :: "provider option"
  me_Selector :: "machine \<Rightarrow> (string, string) gomap"
  me_Observe :: "string \<Rightarrow> machine_error + instance_observation"
  me_CreateInstance :: "machine_error + string"
  me_StopOk :: bool
  me_StartOk :: bool
  me_NodeAttachmentExisting :: bool
  me_ListNodes :: "(string, string) gomap \<Rightarrow> machine_error + node_view list"
  me_ListPods :: "string \<Rightarrow> machine_error + (string, string) gomap list"
  me_ListAgents :: "machine_error + agent_request list"
  me_NeedsDemand :: bool
  me_ListDemand :: "machine_error + agent_demand list"
  me_CapacityPod :: "unit read"
  me_CapacityPodOk :: bool
  me_AllowSimulated :: bool
  me_Reservation :: capacity
  me_PatchOk :: bool

definition requeueProvisioning :: duration where "requeueProvisioning = 30 * second"
definition requeueStopping :: duration where "requeueStopping = 15 * second"
definition requeueReplacing :: duration where "requeueReplacing = 30 * second"
definition requeueImmediate :: duration where "requeueImmediate = 2 * second"

abbreviation MachineLabelKey :: string where "MachineLabelKey \<equiv> ''kyber.io/machine''"
abbreviation AgentLabelKey :: string where "AgentLabelKey \<equiv> ''platform.example.com/agent''"

definition requeueAfterForPhase :: "machine_phase \<Rightarrow> duration" where
  "requeueAfterForPhase ph =
     (case ph of
        MachineProvisioning \<Rightarrow> requeueProvisioning
      | MachineReplacing \<Rightarrow> requeueProvisioning
      | MachineStopping \<Rightarrow> requeueStopping
      | MachinePreempted \<Rightarrow> requeueImmediate
      | _ \<Rightarrow> 2 * minute)"

subsection \<open>The capacity provider\<close>

definition machineInterruptible :: "machine \<Rightarrow> bool" where
  "machineInterruptible m =
     (if m_AvailabilityClass m \<noteq> '''' then m_AvailabilityClass m = ''costOptimized'' else m_Spot m)"

definition machineAvailabilityClass :: "machine \<Rightarrow> string" where
  "machineAvailabilityClass m =
     (if m_AvailabilityClass m \<noteq> '''' then m_AvailabilityClass m
      else if m_Spot m then ''costOptimized'' else ''reliable'')"

definition machineProfile :: "machine \<Rightarrow> string" where
  "machineProfile m = (if m_Profile m \<noteq> '''' then m_Profile m else m_MachineType m)"

definition optionalMetaTime :: "time \<Rightarrow> time option" where
  "optionalMetaTime t = (if t = 0 then None else Some t)"

definition capacityProviderFor :: "machine_env \<Rightarrow> machine \<Rightarrow> provider option" where
  "capacityProviderFor env m =
     (if m_Provider m = ''gce'' then None
      else case me_CapacityProvider env of
             Some p \<Rightarrow> (if fst p = m_Provider m then Some p else None)
           | None \<Rightarrow>
               (case me_AdapterProvider env of
                  Some p \<Rightarrow> (if fst p \<noteq> m_Provider m then None else Some p)
                | None \<Rightarrow> None))"

definition recordFallbackEvents :: "machine \<Rightarrow> capacity_observation \<Rightarrow> machine_effect list" where
  "recordFallbackEvents previous obs =
     (if m_UnavailableSince previous = None \<and> co_UnavailableSince obs \<noteq> 0
      then [MEmit ''CostOptimizedUnavailable''] else [])
     @ (if m_FallbackSince previous = None \<and> co_FallbackSince obs \<noteq> 0
        then MEmit ''ReliableFallbackStarted''
             # (if co_State obs = CapacityAvailable \<and> co_EffectiveClass obs = ''reliable''
                then [MEmit ''ReliableFallbackReady''] else [])
        else [])
     @ (if co_RetryObserved obs = '''' \<or> co_RetryObserved obs = m_RetryObserved previous then []
        else MEmit ''CostOptimizedRetryStarted''
             # (if co_EffectiveClass obs = ''costOptimized'' then [MEmit ''CostOptimizedRetryReady'']
                else if co_EffectiveClass obs = ''reliable'' then [MEmit ''CostOptimizedRetryRolledBack'']
                else []))"

text \<open>The status fields an observation writes.\<close>

definition observed_status :: "machine \<Rightarrow> capacity_observation \<Rightarrow> machine" where
  "observed_status m obs =
     m\<lparr>m_ProviderRef := co_ProviderRef obs, m_InstanceId := co_ProviderRef obs,
       m_Availability := Some (co_State obs),
       m_EffectiveClass := (if co_EffectiveClass obs = '''' then machineAvailabilityClass m
                            else co_EffectiveClass obs),
       m_FallbackReason := co_FallbackReason obs,
       m_FallbackSince := optionalMetaTime (co_FallbackSince obs),
       m_UnavailableSince := optionalMetaTime (co_UnavailableSince obs),
       m_RetryObserved := co_RetryObserved obs,
       m_RetrySince := optionalMetaTime (co_RetrySince obs),
       m_InternalIP := co_InternalIP obs, m_ExternalIP := co_ExternalIP obs,
       m_Message := co_Message obs,
       m_ProfileResolved := (m_ProfileResolved m \<or> machineProfile m \<noteq> '''')\<rparr>"

type_synonym 'a machine_step = "(machine_error + 'a) \<times> machine \<times> machine_effect list"

text \<open>A provider with a node selector first lists its nodes; that list can fail.\<close>

definition reconcileCapacity ::
  "machine_env \<Rightarrow> machine \<Rightarrow> desired_availability \<Rightarrow> capacity_observation machine_step" where
  "reconcileCapacity env m availability =
     (case capacityProviderFor env m of
        None \<Rightarrow> (Inl MErrNoProvider, m, [])
      | Some p \<Rightarrow>
          (if me_Selector env m \<noteq> [] \<and> \<not> is_ok (me_ListNodes env (me_Selector env m))
           then (Inl MErrListNodes, m, [])
           else case snd p availability m of
                  Inl err \<Rightarrow> (Inl err, m, [ProviderReconcile availability])
                | Inr obs \<Rightarrow>
                    (let m' = observed_status m obs in
                     if m' = m then (Inr obs, m, [ProviderReconcile availability])
                     else if me_PatchOk env
                     then (Inr obs, m', ProviderReconcile availability # recordFallbackEvents m obs)
                     else (Inl MErrPatch, m', [ProviderReconcile availability]))))"

definition observeMachineCapacity ::
  "machine_env \<Rightarrow> machine \<Rightarrow> desired_availability \<Rightarrow> capacity_observation machine_step" where
  "observeMachineCapacity env m desired =
     (if capacityProviderFor env m \<noteq> None then reconcileCapacity env m desired
      else case me_Observe env (m_InstanceId m) of
             Inl err \<Rightarrow> (Inl err, m, [])
           | Inr obs \<Rightarrow> (Inr (CapacityObservationFromInstance (m_InstanceId m) obs), m, []))"

subsection \<open>Nodes and agent pods\<close>

fun isNodeReady_conditions :: "(string \<times> string) list \<Rightarrow> bool" where
  "isNodeReady_conditions [] = False"
| "isNodeReady_conditions ((kind, status) # rest) =
     (if kind = ''Ready'' then status = ''True'' else isNodeReady_conditions rest)"

definition isNodeReady :: "node_view \<Rightarrow> bool" where
  "isNodeReady n = isNodeReady_conditions (nv_Conditions n)"

definition isManagedNodeReady :: "machine_env \<Rightarrow> node_view \<Rightarrow> bool" where
  "isManagedNodeReady env n =
     (if me_AllowSimulated env \<and> str_at (nv_Labels n) ''kyber.io/simulated'' = ''true'' then True
      else isNodeReady n)"

text \<open>The node labelled for the machine; a provider selector takes its first ready node.\<close>

definition getNodeForMachine :: "machine_env \<Rightarrow> machine \<Rightarrow> machine_error + node_view option" where
  "getNodeForMachine env m =
     (if capacityProviderFor env m \<noteq> None \<and> me_Selector env m \<noteq> []
      then (case me_ListNodes env (me_Selector env m) of
              Inl err \<Rightarrow> Inl err
            | Inr nodes \<Rightarrow> Inr (List.find isNodeReady nodes))
      else case me_ListNodes env [(MachineLabelKey, m_Name m)] of
             Inl err \<Rightarrow> Inl err
           | Inr (n # _) \<Rightarrow> Inr (Some n)
           | Inr [] \<Rightarrow>
               (if m_Provider m = ''fake'' \<and> me_NodeAttachmentExisting env
                then (case me_ListNodes env [] of
                        Inl err \<Rightarrow> Inl err
                      | Inr nodes \<Rightarrow> Inr (List.find isNodeReady nodes))
                else Inr None))"

definition countAgentPods :: "machine_env \<Rightarrow> machine \<Rightarrow> machine_error + nat" where
  "countAgentPods env m =
     (if m_NodeName m = '''' then Inr 0
      else case me_ListPods env (m_NodeName m) of
             Inl err \<Rightarrow> Inl err
           | Inr pods \<Rightarrow> Inr (length (filter (\<lambda>labels. AgentLabelKey \<in> go_keys labels) pods)))"

text \<open>The labels the Agent controller puts on an agent's pod (\<open>pod_builder.go\<close>).\<close>

definition AgentPodLabels :: "string \<Rightarrow> string \<Rightarrow> string \<Rightarrow> (string, string) gomap" where
  "AgentPodLabels agent_name runtime auth_type =
     [(''app.kubernetes.io/part-of'', ''kyber''), (''app.kubernetes.io/component'', ''agent''),
      (''kyber.io/agent'', agent_name), (''kyber.io/runtime'', runtime), (''kyber.io/auth-type'', auth_type)]"

definition updateNodeInfo :: "machine_env \<Rightarrow> machine \<Rightarrow> machine" where
  "updateNodeInfo env m =
     (case getNodeForMachine env m of
        Inl _ \<Rightarrow> m
      | Inr None \<Rightarrow> m\<lparr>m_Observed := None, m_Assignable := None, m_AvailableCap := None\<rparr>
      | Inr (Some n) \<Rightarrow>
          (let assignable = ComputeAssignable (nv_Allocatable n) (me_Reservation env);
               m1 = m\<lparr>m_NodeName := nv_Name n, m_Observed := Some (nv_Allocatable n),
                      m_Assignable := Some assignable,
                      m_AvailableCap := (case me_ListAgents env of
                           Inl _ \<Rightarrow> None
                         | Inr agents \<Rightarrow> Some (ComputeAvailable assignable agents (m_Name m)))\<rparr>
           in if m_InstanceId m1 \<noteq> '''' \<and> capacityProviderFor env m1 = None
              then (case me_Observe env (m_InstanceId m1) of
                      Inl _ \<Rightarrow> m1
                    | Inr obs \<Rightarrow> m1\<lparr>m_InternalIP := io_InternalIP obs, m_ExternalIP := io_ExternalIP obs\<rparr>)
              else m1))"

definition updateAgentCount :: "machine_env \<Rightarrow> machine \<Rightarrow> machine" where
  "updateAgentCount env m =
     (case countAgentPods env m of Inl _ \<Rightarrow> m | Inr n \<Rightarrow> m\<lparr>m_AgentCount := n\<rparr>)"

subsection \<open>\<open>classifyEvent\<close>\<close>

text \<open>A classification is an event, if any, and the requeue that goes with it.\<close>

type_synonym machine_classification = "(machine_event option \<times> duration) machine_step"

definition classifyNodeDisappeared :: "machine_env \<Rightarrow> machine \<Rightarrow> machine_classification" where
  "classifyNodeDisappeared env m =
     (if m_InstanceId m = '''' then (Inr (Some MEventNodeDisappearedFailed, 0), m, [])
      else case observeMachineCapacity env m DesiredOnline of
             (Inl _, m', fx) \<Rightarrow> (Inr (Some MEventNodeDisappearedFailed, 0), m', fx)
           | (Inr obs, m', fx) \<Rightarrow>
               (if co_Reason obs = ReasonInterrupted \<and> machineInterruptible m'
                then (Inr (Some MEventNodeDisappearedPreempted, 0), m', fx)
                else if capacityProviderFor env m' \<noteq> None \<and> machineInterruptible m'
                then (Inr (Some MEventNodeDisappearedPreempted, 0), m', fx)
                else (Inr (Some MEventNodeDisappearedFailed, 0), m', fx)))"

definition timed_out :: "machine_env \<Rightarrow> machine \<Rightarrow> duration \<Rightarrow> bool" where
  "timed_out env m limit =
     (case m_LastTransition m of None \<Rightarrow> False | Some t \<Rightarrow> me_now env - t > limit)"

definition classifyProvisioning :: "machine_env \<Rightarrow> machine \<Rightarrow> machine_classification" where
  "classifyProvisioning env m =
     (if timed_out env m ProvisioningTimeout then (Inr (Some MEventProvisioningTimeout, 0), m, [])
      else if m_InstanceId m = '''' then (Inr (None, requeueProvisioning), m, [])
      else case observeMachineCapacity env m DesiredOnline of
             (Inl _, m', fx) \<Rightarrow> (Inr (None, requeueProvisioning), m', fx)
           | (Inr obs, m', fx) \<Rightarrow>
               (if co_State obs \<noteq> CapacityAvailable
                then (Inr (Some MEventInstanceRunningNodeNotReady, requeueProvisioning), m', fx)
                else case getNodeForMachine env m' of
                       Inl err \<Rightarrow> (Inl err, m', fx)
                     | Inr None \<Rightarrow>
                         (Inr (Some MEventInstanceRunningNodeNotReady, requeueProvisioning), m', fx)
                     | Inr (Some n) \<Rightarrow>
                         (if \<not> isManagedNodeReady env n
                          then (Inr (Some MEventInstanceRunningNodeNotReady, requeueProvisioning), m', fx)
                          else (Inr (Some MEventInstanceRunningNodeReady, 0), m', fx))))"

definition classifyExistingNodeProviderState :: "machine_env \<Rightarrow> machine \<Rightarrow> machine_event option \<times> duration" where
  "classifyExistingNodeProviderState env m =
     (if \<not> me_NodeAttachmentExisting env \<or> m_InstanceId m = '''' then (None, 0)
      else case me_Observe env (m_InstanceId m) of
             Inl _ \<Rightarrow> (None, requeueAfterForPhase (m_Phase m))
           | Inr obs \<Rightarrow>
               (if io_Preempted obs \<and> m_Spot m then (Some MEventNodeDisappearedPreempted, 0)
                else case io_State obs of
                       InstanceStateRunning \<Rightarrow> (None, 0)
                     | InstanceStatePending \<Rightarrow> (None, requeueAfterForPhase (m_Phase m))
                     | InstanceStateUnknown \<Rightarrow> (None, requeueAfterForPhase (m_Phase m))
                     | _ \<Rightarrow> (Some MEventNodeDisappearedFailed, 0)))"

text \<open>\<open>classifyReady\<close> and \<open>classifyRunning\<close>, up to the decision on the agent count.\<close>

definition classify_online ::
  "machine_env \<Rightarrow> machine \<Rightarrow> (nat \<Rightarrow> machine_event option) \<Rightarrow> machine_classification" where
  "classify_online env m decide =
     (if classifyExistingNodeProviderState env m \<noteq> (None, 0)
      then (Inr (classifyExistingNodeProviderState env m), m, [])
      else case getNodeForMachine env m of
             Inl err \<Rightarrow> (Inl err, m, [])
           | Inr None \<Rightarrow> classifyNodeDisappeared env m
           | Inr (Some n) \<Rightarrow>
               (if \<not> isManagedNodeReady env n then classifyNodeDisappeared env m
                else case countAgentPods env m of
                       Inl err \<Rightarrow> (Inl err, m, [])
                     | Inr c \<Rightarrow> (Inr (decide c, 0), m, [])))"

definition classifyReady :: "machine_env \<Rightarrow> machine \<Rightarrow> machine_classification" where
  "classifyReady env m =
     classify_online env m (\<lambda>c. if c > 0 then Some MEventAgentScheduled else None)"

definition classifyRunning :: "machine_env \<Rightarrow> machine \<Rightarrow> machine_classification" where
  "classifyRunning env m =
     classify_online env m (\<lambda>c. if c = 0 then Some MEventAllAgentsRemoved else None)"

definition classifyStopping :: "machine_env \<Rightarrow> machine \<Rightarrow> machine_classification" where
  "classifyStopping env m =
     (if timed_out env m StoppingTimeout then (Inr (Some MEventStoppingTimeout, 0), m, [])
      else case countAgentPods env m of
             Inl _ \<Rightarrow> (Inr (None, requeueStopping), m, [])
           | Inr c \<Rightarrow>
               (if c > 0 then (Inr (None, requeueStopping), m, [])
                else if m_InstanceId m \<noteq> '''' then
                  (case observeMachineCapacity env m DesiredOffline of
                     (Inl _, m', fx) \<Rightarrow> (Inr (None, requeueStopping), m', fx)
                   | (Inr obs, m', fx) \<Rightarrow>
                       (if co_State obs = CapacityOffline
                        then (Inr (Some MEventAllAgentsStoppedVMStopped, 0), m', fx)
                        else (Inr (None, requeueStopping), m', fx)))
                else (Inr (None, requeueStopping), m, [])))"

definition classifyReplacing :: "machine_env \<Rightarrow> machine \<Rightarrow> machine_classification" where
  "classifyReplacing env m =
     (if ReplacementRetryExceeded (m_ReplacementCount m)
      then (Inr (Some MEventReplacementRetryLimitReached, 0), m, [])
      else if m_InstanceId m = '''' then (Inr (None, requeueReplacing), m, [])
      else case observeMachineCapacity env m DesiredOnline of
             (Inl _, m', fx) \<Rightarrow> (Inr (None, requeueReplacing), m', fx)
           | (Inr obs, m', fx) \<Rightarrow>
               (if co_Reason obs = ReasonInterrupted then (Inr (Some MEventReplacementFailed, 0), m', fx)
                else if co_State obs \<noteq> CapacityAvailable then (Inr (None, requeueReplacing), m', fx)
                else case getNodeForMachine env m' of
                       Inl err \<Rightarrow> (Inl err, m', fx)
                     | Inr None \<Rightarrow> (Inr (None, requeueReplacing), m', fx)
                     | Inr (Some n) \<Rightarrow>
                         (if \<not> isManagedNodeReady env n then (Inr (None, requeueReplacing), m', fx)
                          else (Inr (Some MEventReplacementSucceeded, 0), m', fx))))"

definition machine_classifyEvent :: "machine_env \<Rightarrow> machine \<Rightarrow> machine_classification" where
  "machine_classifyEvent env m =
     (let ph = m_Phase m; desired = m_Desired m in
      if ph = MachineNone then (Inr (Some MEventCRDCreated, 0), m, [])
      else if ph \<in> {MachineReady, MachineRunning} \<and> desired = MachineStopped
      then (Inr (Some MEventDesiredStopped, 0), m, [])
      else if ph \<in> {MachineStopped, MachineFailed}
      then (Inr (if desired = MachineRunning then Some MEventDesiredRunning else None, 0), m, [])
      else case ph of
             MachineProvisioning \<Rightarrow> classifyProvisioning env m
           | MachineReady \<Rightarrow> classifyReady env m
           | MachineRunning \<Rightarrow> classifyRunning env m
           | MachineStopping \<Rightarrow> classifyStopping env m
           | MachinePreempted \<Rightarrow>
               (Inr (Some (if ReplacementRetryExceeded (m_ReplacementCount m)
                           then MEventReplacementRetryLimitReached else MEventReplacementStarted), 0), m, [])
           | MachineReplacing \<Rightarrow> classifyReplacing env m
           | _ \<Rightarrow> (Inr (None, 0), m, []))"

subsection \<open>The capacity request pod (\<open>capacity_request.go\<close>)\<close>

definition agentNeedsMachineCapacity :: "agent_demand \<Rightarrow> bool" where
  "agentNeedsMachineCapacity a =
     (case dem_Desired a of
        PhaseStopped \<Rightarrow> False
      | PhaseRunning \<Rightarrow> True
      | PhaseRestarting \<Rightarrow> True
      | PhaseNeedsAuth \<Rightarrow> True
      | _ \<Rightarrow> dem_Phase a \<notin> {PhaseStopped, PhaseDeleted, PhaseFailed, PhaseMemoryExhausted})"

definition capacityRequestWanted :: "machine_env \<Rightarrow> machine \<Rightarrow> machine_error + bool" where
  "capacityRequestWanted env m =
     (if m_External m \<or> m_Desired m \<noteq> MachineRunning
         \<or> m_Phase m \<notin> {MachineProvisioning, MachinePreempted, MachineReplacing} then Inr False
      else if capacityProviderFor env m = None \<or> \<not> me_NeedsDemand env then Inr False
      else if me_Selector env m = [] then Inl MErrNoSelector
      else case me_ListDemand env of
             Inl _ \<Rightarrow> Inl MErrListDemand
           | Inr agents \<Rightarrow>
               Inr (list_ex (\<lambda>a. dem_Machine a = m_Name m \<and> agentNeedsMachineCapacity a) agents))"

definition reconcileCapacityRequestPod :: "machine_env \<Rightarrow> machine \<Rightarrow> (machine_error + unit) \<times> machine_effect list" where
  "reconcileCapacityRequestPod env m =
     (case capacityRequestWanted env m of
        Inl err \<Rightarrow> (Inl err, [])
      | Inr wanted \<Rightarrow>
          (case me_CapacityPod env of
             ReadError \<Rightarrow> (Inl MErrCapacityPod, [])
           | Found _ \<Rightarrow>
               (if wanted then (Inr (), [])
                else if me_CapacityPodOk env then (Inr (), [DeleteCapacityPod])
                else (Inl MErrCapacityPod, [DeleteCapacityPod]))
           | Missing \<Rightarrow>
               (if \<not> wanted then (Inr (), [])
                else if me_CapacityPodOk env then (Inr (), [CreateCapacityPod, MEmit ''CapacityRequested''])
                else (Inl MErrCapacityPod, [CreateCapacityPod]))))"

subsection \<open>\<open>executeAction\<close>\<close>

text \<open>An action answers a requeue (0: none) and a status message.\<close>

type_synonym machine_execution = "(duration \<times> string) machine_step"

text \<open>The provider branch of an action: reconcile, then emit the event on success.\<close>

definition provider_action ::
  "machine_env \<Rightarrow> machine \<Rightarrow> desired_availability \<Rightarrow> duration \<Rightarrow> string \<Rightarrow> machine_execution" where
  "provider_action env m desired requeue ev =
     (case reconcileCapacity env m desired of
        (Inl err, m', fx) \<Rightarrow> (Inl err, m', fx)
      | (Inr _, m', fx) \<Rightarrow> (Inr (requeue, ''''), m', fx @ [MEmit ev]))"

text \<open>The direct branch of a create: the new instance id is recorded at once.\<close>

definition direct_create :: "machine_env \<Rightarrow> machine \<Rightarrow> machine_effect list \<Rightarrow> duration \<Rightarrow> string \<Rightarrow> machine_execution" where
  "direct_create env m fx requeue ev =
     (case me_CreateInstance env of
        Inl err \<Rightarrow> (Inl err, m, fx @ [CallCreateInstance])
      | Inr iid \<Rightarrow>
          (let m' = m\<lparr>m_InstanceId := iid\<rparr> in
           if me_PatchOk env then (Inr (requeue, ''''), m', fx @ [CallCreateInstance, MEmit ev])
           else (Inl MErrPatch, m', fx @ [CallCreateInstance])))"

definition create_instance :: "machine_env \<Rightarrow> machine \<Rightarrow> machine_execution" where
  "create_instance env m =
     (if capacityProviderFor env m \<noteq> None
      then provider_action env m DesiredOnline requeueProvisioning ''CapacityProvisioning''
      else direct_create env m (if m_InstanceId m \<noteq> '''' then [CleanupStaleNodes] else [])
             requeueProvisioning ''InstanceCreated'')"

definition stop_vm :: "machine_env \<Rightarrow> machine \<Rightarrow> machine_execution" where
  "stop_vm env m =
     (if capacityProviderFor env m \<noteq> None
      then provider_action env m DesiredOffline requeueStopping ''CapacityStopping''
      else if m_InstanceId m = '''' then (Inr (0, ''stopped (no instance)''), m, [])
      else if \<not> me_StopOk env then (Inl MErrStopInstance, m, [CallStopInstance (m_InstanceId m)])
      else (Inr (requeueStopping, ''''), m, [CallStopInstance (m_InstanceId m), MEmit ''InstanceStopping'']))"

definition force_stop_vm :: "machine_env \<Rightarrow> machine \<Rightarrow> machine_execution" where
  "force_stop_vm env m =
     (if capacityProviderFor env m \<noteq> None
      then (case reconcileCapacity env m DesiredOffline of
              (_, m', fx) \<Rightarrow> (Inr (0, ''force-stopped after timeout''), m', fx @ [MEmit ''StoppingTimeout'']))
      else (Inr (0, ''force-stopped after timeout''), m,
            (if m_InstanceId m \<noteq> '''' then [CallStopInstance (m_InstanceId m)] else [])
            @ [MEmit ''StoppingTimeout'']))"

definition start_instance :: "machine_env \<Rightarrow> machine \<Rightarrow> machine_execution" where
  "start_instance env m =
     (if capacityProviderFor env m \<noteq> None
      then provider_action env m DesiredOnline requeueProvisioning ''CapacityStarting''
      else if m_InstanceId m = '''' then (Inl MErrNoInstance, m, [])
      else if \<not> me_StartOk env then (Inl MErrStartInstance, m, [CallStartInstance (m_InstanceId m)])
      else (Inr (requeueProvisioning, ''''), m,
            [CallStartInstance (m_InstanceId m), MEmit ''InstanceStarting'']))"

text \<open>The count is written first, so that a failed create is still counted.\<close>

definition create_replacement :: "machine_env \<Rightarrow> machine \<Rightarrow> machine_execution" where
  "create_replacement env m =
     (let m1 = m\<lparr>m_ReplacementCount := m_ReplacementCount m + 1\<rparr> in
      if \<not> me_PatchOk env then (Inl MErrPatch, m1, [])
      else if capacityProviderFor env m1 \<noteq> None
      then (case reconcileCapacity env m1 DesiredOnline of
              (Inl err, m', fx) \<Rightarrow> (Inl err, m', fx @ [MEmit ''ReplacementFailed''])
            | (Inr _, m', fx) \<Rightarrow> (Inr (requeueReplacing, ''''), m', fx @ [MEmit ''ReplacementReconciled'']))
      else (case me_CreateInstance env of
              Inl err \<Rightarrow> (Inl err, m1, [CleanupStaleNodes, CallCreateInstance, MEmit ''ReplacementFailed''])
            | Inr iid \<Rightarrow>
                (Inr (requeueReplacing, ''''), m1\<lparr>m_InstanceId := iid\<rparr>,
                 [CleanupStaleNodes, CallCreateInstance, MEmit ''ReplacementCreated''])))"

definition machine_executeAction :: "machine_env \<Rightarrow> machine \<Rightarrow> machine_action \<Rightarrow> machine_execution" where
  "machine_executeAction env m act =
     (case act of
        MActionCreateInstance \<Rightarrow> create_instance env m
      | MActionWaitForNode \<Rightarrow> (Inr (requeueProvisioning, ''''), m, [])
      | MActionUpdateStatus \<Rightarrow> (Inr (0, ''''), updateAgentCount env (updateNodeInfo env m), [])
      | MActionMarkFailed \<Rightarrow> (Inr (0, ''machine entered failed state''), m, [MEmit ''MachineFailed''])
      | MActionStopVM \<Rightarrow> stop_vm env m
      | MActionForceStopVM \<Rightarrow> force_stop_vm env m
      | MActionStartInstance \<Rightarrow> start_instance env m
      | MActionBeginReplacement \<Rightarrow>
          (Inr (requeueImmediate, ''preempted '' @ [byte 226, byte 128, byte 148] @ '' replacement pending''), m, [MEmit ''PreemptionDetected''])
      | MActionCreateReplacementInstance \<Rightarrow> create_replacement env m
      | MActionCompleteReplacement \<Rightarrow> (Inr (0, ''''), updateNodeInfo env m, [MEmit ''ReplacementComplete''])
      | MActionRetryReplacement \<Rightarrow> (Inr (30 * second, ''''), m, [MEmit ''ReplacementRetrying''])
      | MActionMarkReplacementFailed \<Rightarrow>
          (Inr (0, ''replacement failed after 3 attempts''), m, [MEmit ''ReplacementExhausted'']))"

subsection \<open>One pass of \<open>Reconcile\<close>\<close>

definition machine_updatePhase :: "machine_env \<Rightarrow> machine \<Rightarrow> machine_phase \<Rightarrow> string \<Rightarrow> (machine_error + unit) \<times> machine" where
  "machine_updatePhase env m newPhase message =
     (if m_Phase m = newPhase \<and> message = '''' then (Inr (), m)
      else if m_Phase m = newPhase \<and> m_Message m = message then (Inr (), m)
      else (if me_PatchOk env then Inr () else Inl MErrPatch,
            m\<lparr>m_Phase := newPhase, m_LastTransition := Some (me_now env), m_Message := message\<rparr>))"

text \<open>The notices of a transition that changes the phase.\<close>

definition machine_notices :: "machine_phase \<Rightarrow> machine_phase \<Rightarrow> machine_effect list" where
  "machine_notices old new =
     (if new = old then []
      else MEmit ''StateTransition''
           # (if new = MachinePreempted then [MAlert ''Preempted'']
              else if new = MachineFailed then [MAlert ''Failed''] else []))"

datatype machine_outcome =
    MStable duration           \<comment> \<open>no transition; requeue\<close>
  | MInvalid machine_event     \<comment> \<open>no row for the event\<close>
  | MErrored machine_error     \<comment> \<open>the reconcile returns an error\<close>
  | MActionError machine_error \<comment> \<open>the action failed; its error is in the status, the phase stays\<close>
  | MAdvanced machine_phase duration

definition hasPendingCostOptimizedRetry :: "machine \<Rightarrow> bool" where
  "hasPendingCostOptimizedRetry m \<longleftrightarrow>
     m_RetryRequest m \<noteq> '''' \<and> m_RetryRequest m \<noteq> m_RetryObserved m"

text \<open>\<open>updateMessage\<close> with the text of an error, which is not modelled: the message stays.\<close>

definition machine_transition ::
  "machine_env \<Rightarrow> machine \<Rightarrow> machine_event \<Rightarrow> duration \<Rightarrow> machine_outcome \<times> machine \<times> machine_effect list" where
  "machine_transition env m ev requeueAfter =
     (case machine_NextPhase (m_Phase m) ev of
        Inl _ \<Rightarrow> (MInvalid ev, m, [MEmit ''InvalidTransition''])
      | Inr r \<Rightarrow>
          (let pre = machine_notices (m_Phase m) (MNextPhase r) in
           case machine_executeAction env m (MAction r) of
             (Inl err, m', fx) \<Rightarrow> (MActionError err, m', pre @ fx @ [MEmit ''ActionFailed''])
           | (Inr (requeue, message), m', fx) \<Rightarrow>
               (case machine_updatePhase env m' (MNextPhase r) message of
                  (Inl err, m'') \<Rightarrow> (MErrored err, m'', pre @ fx)
                | (Inr _, m'') \<Rightarrow>
                    (MAdvanced (MNextPhase r)
                       (if requeue > 0 then requeue
                        else if requeueAfter > 0 then requeueAfter
                        else requeueAfterForPhase (MNextPhase r)), m'', pre @ fx))))"

text \<open>A pass over a Machine that is not being deleted and has its finalizer.\<close>

definition machine_reconcile :: "machine_env \<Rightarrow> machine \<Rightarrow> machine_outcome \<times> machine \<times> machine_effect list" where
  "machine_reconcile env m =
     (case reconcileCapacityRequestPod env m of
        (Inl err, fx) \<Rightarrow> (MErrored err, m, fx)
      | (Inr _, fx0) \<Rightarrow>
          (if hasPendingCostOptimizedRetry m
           then (case reconcileCapacity env m DesiredOnline of
                   (_, m', fx) \<Rightarrow> (MStable requeueProvisioning, m', fx0 @ fx))
           else case machine_classifyEvent env m of
                  (Inl err, m', fx) \<Rightarrow> (MErrored err, m', fx0 @ fx)
                | (Inr (None, _), m', fx) \<Rightarrow>
                    (MStable (requeueAfterForPhase (m_Phase m')),
                     (if m_Phase m' \<in> {MachineReady, MachineRunning}
                      then updateAgentCount env (updateNodeInfo env m') else m'), fx0 @ fx)
                | (Inr (Some ev, requeueAfter), m', fx) \<Rightarrow>
                    (case machine_transition env m' ev requeueAfter of
                       (r, m'', fx') \<Rightarrow> (r, m'', fx0 @ fx @ fx'))))"

subsection \<open>What a pass leaves alone\<close>

text \<open>The fields the controller's decisions rest on, which observing the provider never writes.\<close>

definition same_lifecycle :: "machine \<Rightarrow> machine \<Rightarrow> bool" where
  "same_lifecycle m m' \<longleftrightarrow>
     m_Phase m' = m_Phase m \<and> m_Desired m' = m_Desired m \<and> m_ReplacementCount m' = m_ReplacementCount m
     \<and> m_LastTransition m' = m_LastTransition m \<and> m_NodeName m' = m_NodeName m
     \<and> m_Provider m' = m_Provider m \<and> m_RetryRequest m' = m_RetryRequest m"

lemma same_lifecycle_refl [simp]: "same_lifecycle m m"
  by (simp add: same_lifecycle_def)

lemma observed_lifecycle: "same_lifecycle m (observed_status m obs)"
  by (simp add: same_lifecycle_def observed_status_def)

lemma reconcileCapacity_lifecycle:
  "reconcileCapacity env m d = (r, m', fx) \<Longrightarrow> same_lifecycle m m'"
  by (auto simp: reconcileCapacity_def Let_def observed_lifecycle split: option.splits sum.splits if_splits)

lemma observe_lifecycle:
  "observeMachineCapacity env m d = (r, m', fx) \<Longrightarrow> same_lifecycle m m'"
  by (auto simp: observeMachineCapacity_def reconcileCapacity_lifecycle split: if_splits sum.splits)

lemma nodeDisappeared_lifecycle:
  "classifyNodeDisappeared env m = (r, m', fx) \<Longrightarrow> same_lifecycle m m'"
  by (auto simp: classifyNodeDisappeared_def dest: observe_lifecycle split: if_splits sum.splits prod.splits)

lemma classify_online_lifecycle:
  "classify_online env m f = (r, m', fx) \<Longrightarrow> same_lifecycle m m'"
  by (auto simp: classify_online_def dest: nodeDisappeared_lifecycle
      split: if_splits sum.splits option.splits)

lemma classifyProvisioning_lifecycle:
  "classifyProvisioning env m = (r, m', fx) \<Longrightarrow> same_lifecycle m m'"
  by (auto simp: classifyProvisioning_def dest: observe_lifecycle
      split: if_splits sum.splits option.splits prod.splits)

lemma classifyReplacing_lifecycle:
  "classifyReplacing env m = (r, m', fx) \<Longrightarrow> same_lifecycle m m'"
  by (auto simp: classifyReplacing_def dest: observe_lifecycle
      split: if_splits sum.splits option.splits prod.splits)

lemma classifyStopping_lifecycle:
  "classifyStopping env m = (r, m', fx) \<Longrightarrow> same_lifecycle m m'"
  by (auto simp: classifyStopping_def dest: observe_lifecycle
      split: if_splits sum.splits prod.splits)

lemmas classify_lifecycles = classifyProvisioning_lifecycle classifyReplacing_lifecycle
  classifyStopping_lifecycle classify_online_lifecycle

lemma machine_classify_lifecycle:
  assumes "machine_classifyEvent env m = (r, m', fx)"
  shows "same_lifecycle m m'"
  using assms
  by (cases "m_Phase m")
    (auto simp: machine_classifyEvent_def Let_def classifyReady_def classifyRunning_def
      dest: classify_lifecycles split: if_splits)

lemma machine_classify_phase:
  "machine_classifyEvent env m = (r, m', fx) \<Longrightarrow> m_Phase m' = m_Phase m"
  by (drule machine_classify_lifecycle) (simp add: same_lifecycle_def)

subsection \<open>Derived events are transitions\<close>

lemmas machine_rows = machine_NextPhase_def machine_transitions_def

lemma nodeDisappeared_event:
  "classifyNodeDisappeared env m = (Inr (Some ev, d), m', fx) \<Longrightarrow>
     ev \<in> {MEventNodeDisappearedFailed, MEventNodeDisappearedPreempted}"
  by (auto simp: classifyNodeDisappeared_def split: if_splits sum.splits prod.splits)

lemma existing_event:
  "classifyExistingNodeProviderState env m = (Some ev, d) \<Longrightarrow>
     ev \<in> {MEventNodeDisappearedFailed, MEventNodeDisappearedPreempted}"
  by (auto simp: classifyExistingNodeProviderState_def split: if_splits sum.splits instance_state.splits)

lemma classify_online_event:
  "classify_online env m f = (Inr (Some ev, d), m', fx) \<Longrightarrow>
     ev \<in> {MEventNodeDisappearedFailed, MEventNodeDisappearedPreempted}
     \<or> (\<exists>c. countAgentPods env m = Inr c \<and> f c = Some ev)"
  by (auto simp: classify_online_def dest!: nodeDisappeared_event existing_event
      split: if_splits sum.splits option.splits)

lemma classifyProvisioning_event:
  "classifyProvisioning env m = (Inr (Some ev, d), m', fx) \<Longrightarrow>
     ev \<in> {MEventProvisioningTimeout, MEventInstanceRunningNodeNotReady, MEventInstanceRunningNodeReady}"
  by (auto simp: classifyProvisioning_def split: if_splits sum.splits option.splits prod.splits)

lemma classifyStopping_event:
  "classifyStopping env m = (Inr (Some ev, d), m', fx) \<Longrightarrow>
     ev \<in> {MEventStoppingTimeout, MEventAllAgentsStoppedVMStopped}"
  by (auto simp: classifyStopping_def split: if_splits sum.splits prod.splits)

lemma classifyReplacing_event:
  "classifyReplacing env m = (Inr (Some ev, d), m', fx) \<Longrightarrow>
     (ReplacementRetryExceeded (m_ReplacementCount m) \<and> ev = MEventReplacementRetryLimitReached)
     \<or> (\<not> ReplacementRetryExceeded (m_ReplacementCount m)
         \<and> ev \<in> {MEventReplacementFailed, MEventReplacementSucceeded})"
  by (auto simp: classifyReplacing_def split: if_splits sum.splits option.splits prod.splits)

text \<open>The events the controller can derive in a phase.\<close>

definition derivable :: "machine_phase \<Rightarrow> machine_event set" where
  "derivable ph =
     (case ph of
        MachineNone \<Rightarrow> {MEventCRDCreated}
      | MachineProvisioning \<Rightarrow>
          {MEventProvisioningTimeout, MEventInstanceRunningNodeNotReady, MEventInstanceRunningNodeReady}
      | MachineReady \<Rightarrow> {MEventDesiredStopped, MEventNodeDisappearedFailed,
                         MEventNodeDisappearedPreempted, MEventAgentScheduled}
      | MachineRunning \<Rightarrow> {MEventDesiredStopped, MEventNodeDisappearedFailed,
                           MEventNodeDisappearedPreempted, MEventAllAgentsRemoved}
      | MachineStopping \<Rightarrow> {MEventStoppingTimeout, MEventAllAgentsStoppedVMStopped}
      | MachineStopped \<Rightarrow> {MEventDesiredRunning}
      | MachinePreempted \<Rightarrow> {MEventReplacementRetryLimitReached, MEventReplacementStarted}
      | MachineReplacing \<Rightarrow> {MEventReplacementRetryLimitReached, MEventReplacementFailed,
                             MEventReplacementSucceeded}
      | MachineFailed \<Rightarrow> {MEventDesiredRunning}
      | MachineDeleted \<Rightarrow> {})"

lemma derivable_rows: "ev \<in> derivable ph \<Longrightarrow> \<exists>r. machine_NextPhase ph ev = Inr r"
  by (cases ph) (auto simp: derivable_def machine_rows)

lemma machine_classify_derivable:
  assumes "machine_classifyEvent env m = (Inr (Some ev, d), m', fx)"
  shows "ev \<in> derivable (m_Phase m)"
proof (cases "m_Phase m")
  case MachineProvisioning
  with assms have "classifyProvisioning env m = (Inr (Some ev, d), m', fx)"
    by (simp add: machine_classifyEvent_def)
  from classifyProvisioning_event [OF this] MachineProvisioning show ?thesis
    by (simp add: derivable_def)
next
  case MachineReady
  show ?thesis
  proof (cases "m_Desired m = MachineStopped")
    case False
    with assms MachineReady have "classifyReady env m = (Inr (Some ev, d), m', fx)"
      by (simp add: machine_classifyEvent_def)
    from classify_online_event [OF this [unfolded classifyReady_def]] MachineReady show ?thesis
      by (auto simp: derivable_def split: if_splits)
  qed (use assms MachineReady in \<open>simp add: machine_classifyEvent_def derivable_def\<close>)
next
  case MachineRunning
  show ?thesis
  proof (cases "m_Desired m = MachineStopped")
    case False
    with assms MachineRunning have "classifyRunning env m = (Inr (Some ev, d), m', fx)"
      by (simp add: machine_classifyEvent_def)
    from classify_online_event [OF this [unfolded classifyRunning_def]] MachineRunning show ?thesis
      by (auto simp: derivable_def split: if_splits)
  qed (use assms MachineRunning in \<open>simp add: machine_classifyEvent_def derivable_def\<close>)
next
  case MachineStopping
  with assms have "classifyStopping env m = (Inr (Some ev, d), m', fx)"
    by (simp add: machine_classifyEvent_def)
  from classifyStopping_event [OF this] MachineStopping show ?thesis
    by (simp add: derivable_def)
next
  case MachineReplacing
  with assms have "classifyReplacing env m = (Inr (Some ev, d), m', fx)"
    by (simp add: machine_classifyEvent_def)
  from classifyReplacing_event [OF this] MachineReplacing show ?thesis
    by (auto simp: derivable_def)
qed (use assms in \<open>auto simp: machine_classifyEvent_def derivable_def Let_def split: if_splits\<close>)

text \<open>
  whatever the cluster and the provider answer, the event the Machine controller derives
  has a transition for the machine's phase.
\<close>

theorem machine_classify_accepted:
  assumes "machine_classifyEvent env m = (Inr (Some ev, d), m', fx)"
  shows "\<exists>r. machine_NextPhase (m_Phase m') ev = Inr r"
  using machine_classify_derivable [OF assms] by (simp add: machine_classify_phase [OF assms] derivable_rows)

subsection \<open>A concrete Machine\<close>

text \<open>A preempted direct GCE machine on its third replacement, and a cluster whose calls all succeed.\<close>

definition example_capacity :: capacity where
  "example_capacity = \<lparr>CPU = 4, Memory = 16, EphemeralStorage = 100\<rparr>"

definition example_node :: node_view where
  "example_node = \<lparr>nv_Name = ''n1'', nv_Labels = [(''kyber.io/machine'', ''vm'')],
     nv_Conditions = [(''Ready'', ''True'')], nv_Allocatable = example_capacity\<rparr>"

definition example_machine :: "machine_phase \<Rightarrow> int \<Rightarrow> machine" where
  "example_machine ph n = \<lparr>m_Name = ''vm'', m_Provider = ''gce'', m_External = False, m_Desired = MachineRunning,
     m_Spot = True, m_AvailabilityClass = '''', m_Profile = '''', m_MachineType = ''n2'', m_RetryRequest = '''',
     m_Phase = ph, m_LastTransition = Some 1, m_InstanceId = ''i1'', m_ProviderRef = '''',
     m_Availability = None, m_EffectiveClass = '''', m_FallbackReason = '''', m_FallbackSince = None,
     m_UnavailableSince = None, m_RetryObserved = '''', m_RetrySince = None, m_ProfileResolved = False,
     m_InternalIP = '''', m_ExternalIP = '''', m_Message = '''', m_NodeName = ''n1'', m_AgentCount = 0,
     m_ReplacementCount = n, m_Observed = None, m_Assignable = None, m_AvailableCap = None\<rparr>"

definition example_machine_env :: machine_env where
  "example_machine_env = \<lparr>me_now = hour, me_CapacityProvider = None, me_AdapterProvider = None,
     me_Selector = (\<lambda>_. []),
     me_Observe = (\<lambda>_. Inr \<lparr>io_State = InstanceStateRunning, io_Preempted = False, io_ExternalIP = '''',
                                io_InternalIP = ''''\<rparr>),
     me_CreateInstance = Inr ''i2'', me_StopOk = True, me_StartOk = True, me_NodeAttachmentExisting = False,
     me_ListNodes = (\<lambda>_. Inr [example_node]),
     me_ListPods = (\<lambda>_. Inr [AgentPodLabels ''a'' ''codex'' '''']), me_ListAgents = Inr [],
     me_NeedsDemand = False, me_ListDemand = Inr [], me_CapacityPod = Missing, me_CapacityPodOk = True,
     me_AllowSimulated = False, me_Reservation = \<lparr>CPU = 1, Memory = 1, EphemeralStorage = 0\<rparr>,
     me_PatchOk = True\<rparr>"

lemmas example_machine_defs = example_machine_def example_machine_env_def example_node_def example_capacity_def

lemmas pass_defs = machine_reconcile_def reconcileCapacityRequestPod_def capacityRequestWanted_def
  hasPendingCostOptimizedRetry_def machine_transition_def machine_notices_def machine_updatePhase_def
  machine_executeAction_def capacityProviderFor_def

theorem machine_classify_accepted_witness:
  "\<exists>r. machine_NextPhase MachineReplacing MEventReplacementSucceeded = Inr r"
  using machine_classify_accepted [of example_machine_env "example_machine MachineReplacing 1"
      MEventReplacementSucceeded 0 "example_machine MachineReplacing 1" "[]"]
  by (simp add: machine_classifyEvent_def classifyReplacing_def observeMachineCapacity_def
      CapacityObservationFromInstance_def capacityProviderFor_def getNodeForMachine_def isManagedNodeReady_def
      isNodeReady_def ReplacementRetryExceeded_def MaxReplacementRetries_def example_machine_defs)

subsection \<open>The replacement budget\<close>

lemma updateNodeInfo_count [simp]: "m_ReplacementCount (updateNodeInfo env m) = m_ReplacementCount m"
  by (simp add: updateNodeInfo_def Let_def split: sum.split option.split)

lemma updateAgentCount_count [simp]: "m_ReplacementCount (updateAgentCount env m) = m_ReplacementCount m"
  by (simp add: updateAgentCount_def split: sum.split)

lemma lifecycle_count: "same_lifecycle m m' \<Longrightarrow> m_ReplacementCount m' = m_ReplacementCount m"
  by (simp add: same_lifecycle_def)

lemma reconcileCapacity_count:
  "reconcileCapacity env m d = (r, m', fx) \<Longrightarrow> m_ReplacementCount m' = m_ReplacementCount m"
  by (rule lifecycle_count [OF reconcileCapacity_lifecycle])

lemma provider_action_count:
  "provider_action env m d q ev = (r, m', fx) \<Longrightarrow> m_ReplacementCount m' = m_ReplacementCount m"
  by (auto simp: provider_action_def dest: reconcileCapacity_count split: sum.splits prod.splits)

lemma create_instance_count:
  "create_instance env m = (r, m', fx) \<Longrightarrow> m_ReplacementCount m' = m_ReplacementCount m"
  by (auto simp: create_instance_def direct_create_def Let_def dest: provider_action_count
      split: sum.splits if_splits)

lemma create_replacement_count:
  "create_replacement env m = (r, m', fx) \<Longrightarrow> m_ReplacementCount m' = m_ReplacementCount m + 1"
  by (auto simp: create_replacement_def Let_def dest: reconcileCapacity_count
      split: sum.splits if_splits prod.splits)

lemma stop_count:
  "stop_vm env m = (r, m', fx) \<Longrightarrow> m_ReplacementCount m' = m_ReplacementCount m"
  "force_stop_vm env m = (r, m', fx) \<Longrightarrow> m_ReplacementCount m' = m_ReplacementCount m"
  "start_instance env m = (r, m', fx) \<Longrightarrow> m_ReplacementCount m' = m_ReplacementCount m"
  by (auto simp: stop_vm_def force_stop_vm_def start_instance_def
      dest: provider_action_count reconcileCapacity_count split: if_splits prod.splits)

lemma machine_execute_count:
  "machine_executeAction env m act = (r, m', fx) \<Longrightarrow>
     m_ReplacementCount m' = m_ReplacementCount m + (if act = MActionCreateReplacementInstance then 1 else 0)"
  by (cases act)
    (auto simp: machine_executeAction_def
      dest: create_instance_count create_replacement_count stop_count)

lemma machine_updatePhase_count:
  "machine_updatePhase env m ph msg = (r, m') \<Longrightarrow> m_ReplacementCount m' = m_ReplacementCount m"
  by (auto simp: machine_updatePhase_def split: if_splits)

lemma replacement_rows:
  "machine_NextPhase ph ev = Inr r \<Longrightarrow> MAction r = MActionCreateReplacementInstance \<longleftrightarrow>
     ev \<in> {MEventReplacementStarted, MEventReplacementFailed}"
  by (rule machine_NextPhase_all_rows
      [where P = "\<lambda>p e r. MAction r = MActionCreateReplacementInstance \<longleftrightarrow>
         e \<in> {MEventReplacementStarted, MEventReplacementFailed}"])
    (simp_all add: machine_transitions_def)

lemma transition_count:
  assumes "machine_transition env m ev d = (r, m', fx)"
  shows "m_ReplacementCount m' = m_ReplacementCount m
           + (if ev \<in> {MEventReplacementStarted, MEventReplacementFailed}
                 \<and> is_ok (machine_NextPhase (m_Phase m) ev) then 1 else 0)"
proof (cases "machine_NextPhase (m_Phase m) ev")
  case (Inr t)
  from Inr assms replacement_rows [OF Inr] show ?thesis
    by (auto simp: machine_transition_def Let_def dest!: machine_execute_count machine_updatePhase_count
        split: sum.splits prod.splits)
qed (use assms in \<open>simp add: machine_transition_def\<close>)

lemma replacement_events:
  assumes "machine_classifyEvent env m = (Inr (Some ev, d), m', fx)"
    and "ev \<in> {MEventReplacementStarted, MEventReplacementFailed}"
  shows "\<not> ReplacementRetryExceeded (m_ReplacementCount m)"
proof -
  from machine_classify_derivable [OF assms(1)] assms(2)
  have "m_Phase m = MachinePreempted \<or> m_Phase m = MachineReplacing"
    by (auto simp: derivable_def split: machine_phase.splits)
  then show ?thesis
    using assms
    by (auto simp: machine_classifyEvent_def dest!: classifyReplacing_event split: if_splits)
qed

text \<open>
  over one pass the replacement count stays, or goes up by one, and only from below the
  limit of three; no pass ever lowers it, whatever the phase, so the three replacements are a
  budget for the machine's whole life.
\<close>

theorem replacement_count_step:
  assumes "machine_reconcile env m = (r, m', fx)"
  shows "m_ReplacementCount m' = m_ReplacementCount m
         \<or> (m_ReplacementCount m < MaxReplacementRetries
             \<and> m_ReplacementCount m' = m_ReplacementCount m + 1)"
proof -
  have *: "m_ReplacementCount m2 = m_ReplacementCount m
         \<or> (m_ReplacementCount m < MaxReplacementRetries \<and> m_ReplacementCount m2 = m_ReplacementCount m + 1)"
    if c: "machine_classifyEvent env m = (Inr (Some ev, d), m1, fx1)"
      and t: "machine_transition env m1 ev d = (r2, m2, fx2)" for ev d m1 fx1 r2 m2 fx2
    using transition_count [OF t] lifecycle_count [OF machine_classify_lifecycle [OF c]] replacement_events [OF c]
    by (auto simp: ReplacementRetryExceeded_def split: if_splits)
  show ?thesis
    using assms *
    by (auto simp: machine_reconcile_def dest: reconcileCapacity_count
        dest!: lifecycle_count [OF machine_classify_lifecycle]
        split: sum.splits prod.splits if_splits option.splits)
qed

theorem replacement_count_step_witness:
  "\<exists>r m' fx. machine_reconcile example_machine_env (example_machine MachinePreempted 2) = (r, m', fx)
     \<and> (m_ReplacementCount m' = 2 \<or> m_ReplacementCount m' = 3)"
proof -
  obtain r m' fx where p: "machine_reconcile example_machine_env (example_machine MachinePreempted 2) = (r, m', fx)"
    by (cases "machine_reconcile example_machine_env (example_machine MachinePreempted 2)")
  from p replacement_count_step [OF p] show ?thesis
    by (auto simp: example_machine_def MaxReplacementRetries_def)
qed

lemma exhausted_pass:
  assumes "m_Phase m = MachinePreempted \<or> m_Phase m = MachineReplacing"
    and "ReplacementRetryExceeded (m_ReplacementCount m)" and "me_PatchOk env"
    and "\<not> hasPendingCostOptimizedRetry m" and "fst (reconcileCapacityRequestPod env m) = Inr ()"
    and "machine_reconcile env m = (r, m', fx)"
  shows "r = MAdvanced MachineFailed (2 * minute) \<and> m_Phase m' = MachineFailed"
proof -
  have c: "machine_classifyEvent env m = (Inr (Some MEventReplacementRetryLimitReached, 0), m, [])"
    using assms(1,2) by (auto simp: machine_classifyEvent_def classifyReplacing_def)
  have n: "machine_NextPhase (m_Phase m) MEventReplacementRetryLimitReached
      = Inr \<lparr>MAction = MActionMarkReplacementFailed, MNextPhase = MachineFailed\<rparr>"
    using assms(1) by (auto simp: machine_rows)
  from assms(3-6) c n assms(1) show ?thesis
    by (auto simp: machine_reconcile_def machine_transition_def machine_executeAction_def
        machine_updatePhase_def requeueAfterForPhase_def Let_def split: sum.splits prod.splits)
qed

text \<open>
  the third replacement is never given a chance. When a preempted machine starts its third
  attempt and the new instance is accepted, the count is at the limit, and the very next pass
  fails the machine, even if the provider reports the new instance available and its node is
  ready: of the three attempts the limit names, only two can succeed.
\<close>

theorem third_replacement_abandoned:
  assumes "m_Phase m = MachinePreempted" and "m_ReplacementCount m = 2"
    and "machine_reconcile env m = (MAdvanced MachineReplacing d, m1, fx1)"
    and "\<not> hasPendingCostOptimizedRetry m1" and "fst (reconcileCapacityRequestPod env2 m1) = Inr ()"
    and "me_PatchOk env2" and "machine_reconcile env2 m1 = (r, m2, fx2)"
  shows "r = MAdvanced MachineFailed (2 * minute) \<and> m_Phase m2 = MachineFailed"
proof (rule exhausted_pass [OF _ _ assms(6,4,5,7)])
  have c: "machine_classifyEvent env m = (Inr (Some MEventReplacementStarted, 0), m, [])"
    using assms(1,2)
    by (simp add: machine_classifyEvent_def ReplacementRetryExceeded_def MaxReplacementRetries_def)
  have t: "machine_transition env m MEventReplacementStarted 0 = (MAdvanced MachineReplacing d, m1, snd (snd (machine_transition env m MEventReplacementStarted 0)))"
    using assms(3) c
    by (auto simp: machine_reconcile_def split: sum.splits prod.splits if_splits)
  then show "m_Phase m1 = MachinePreempted \<or> m_Phase m1 = MachineReplacing"
    using assms(1)
    by (auto simp: machine_transition_def machine_rows machine_updatePhase_def Let_def
        split: sum.splits prod.splits if_splits)
  from transition_count [OF t] assms(1,2) have "m_ReplacementCount m1 = 3"
    by (simp add: machine_rows)
  then show "ReplacementRetryExceeded (m_ReplacementCount m1)"
    by (simp add: ReplacementRetryExceeded_def MaxReplacementRetries_def)
qed

theorem third_replacement_abandoned_witness:
  "\<exists>d m1 fx1 m2 fx2.
     machine_reconcile example_machine_env (example_machine MachinePreempted 2) = (MAdvanced MachineReplacing d, m1, fx1)
     \<and> machine_reconcile example_machine_env m1 = (MAdvanced MachineFailed (2 * minute), m2, fx2)"
proof -
  let ?e = example_machine_env
  obtain d m1 fx1 where 1: "machine_reconcile ?e (example_machine MachinePreempted 2)
      = (MAdvanced MachineReplacing d, m1, fx1)"
    and m1: "m_RetryRequest m1 = ''''" "fst (reconcileCapacityRequestPod ?e m1) = Inr ()"
    by (simp add: pass_defs machine_classifyEvent_def ReplacementRetryExceeded_def MaxReplacementRetries_def
        machine_rows create_replacement_def example_machine_defs)
  obtain r m2 fx2 where 2: "machine_reconcile ?e m1 = (r, m2, fx2)"
    by (cases "machine_reconcile ?e m1")
  from third_replacement_abandoned [OF _ _ 1 _ m1(2) _ 2] m1(1)
  have "r = MAdvanced MachineFailed (2 * minute)"
    by (simp add: example_machine_defs hasPendingCostOptimizedRetry_def)
  with 1 2 show ?thesis by blast
qed

text \<open>
  a failed machine does not stay failed. As long as its desired phase is Running, which is
  what the API writes when it creates the machine, the next pass asks the provider for new
  capacity again, at whatever replacement count the machine failed.
\<close>

theorem failed_machine_reprovisions:
  assumes "m_Phase m = MachineFailed" and "m_Desired m = MachineRunning"
    and "\<not> hasPendingCostOptimizedRetry m" and "fst (reconcileCapacityRequestPod env m) = Inr ()"
    and "machine_reconcile env m = (r, m', fx)"
  shows "CallCreateInstance \<in> set fx \<or> ProviderReconcile DesiredOnline \<in> set fx
         \<or> r = MActionError MErrListNodes"
proof -
  have c: "machine_classifyEvent env m = (Inr (Some MEventDesiredRunning, 0), m, [])"
    using assms(1,2) by (simp add: machine_classifyEvent_def)
  have n: "machine_NextPhase (m_Phase m) MEventDesiredRunning
      = Inr \<lparr>MAction = MActionCreateInstance, MNextPhase = MachineProvisioning\<rparr>"
    using assms(1) by (simp add: machine_rows)
  have create: "CallCreateInstance \<in> set fxc \<or> ProviderReconcile DesiredOnline \<in> set fxc \<or> rc = Inl MErrListNodes"
    if "create_instance env m = (rc, mc, fxc)" for rc mc fxc
    using that
    by (auto simp: create_instance_def direct_create_def provider_action_def reconcileCapacity_def Let_def
        split: if_splits sum.splits option.splits)
  from assms(3-5) c n show ?thesis
    by (auto simp: machine_reconcile_def machine_transition_def machine_executeAction_def Let_def
        split: sum.splits prod.splits dest!: create)
qed

theorem failed_machine_reprovisions_witness:
  "\<exists>r m' fx. machine_reconcile example_machine_env (example_machine MachineFailed 3) = (r, m', fx)
     \<and> CallCreateInstance \<in> set fx"
proof -
  obtain r m' fx where p: "machine_reconcile example_machine_env (example_machine MachineFailed 3) = (r, m', fx)"
    by (cases "machine_reconcile example_machine_env (example_machine MachineFailed 3)")
  have "CallCreateInstance \<in> set fx \<or> ProviderReconcile DesiredOnline \<in> set fx \<or> r = MActionError MErrListNodes"
    by (rule failed_machine_reprovisions [OF _ _ _ _ p])
      (simp_all add: example_machine_defs pass_defs)
  with p have "CallCreateInstance \<in> set fx"
    by (auto simp: pass_defs machine_classifyEvent_def machine_rows create_instance_def direct_create_def
        example_machine_defs)
  with p show ?thesis by blast
qed

subsection \<open>Agents on a machine\<close>

text \<open>
  the controller never sees an agent on a machine. The pods of agents carry the label
  \<open>kyber.io/agent\<close>, the count looks for another one, so a node that runs only agent pods counts
  none: a Ready machine never becomes Running, and a Running one is told its agents are gone.
\<close>

theorem agent_pods_not_counted:
  assumes "me_ListPods env (m_NodeName m) = Inr pods"
    and "\<forall>labels\<in>set pods. \<exists>agent runtime auth. labels = AgentPodLabels agent runtime auth"
  shows "countAgentPods env m = Inr 0
     \<and> (m_Phase m = MachineReady \<longrightarrow>
          (\<forall>d m' fx. machine_classifyEvent env m \<noteq> (Inr (Some MEventAgentScheduled, d), m', fx)))"
proof -
  have none: "filter (\<lambda>labels. AgentLabelKey \<in> go_keys labels) pods = []"
    using assms(2) by (fastforce simp: filter_empty_conv AgentPodLabels_def)
  then have c: "countAgentPods env m = Inr 0"
    by (simp only: countAgentPods_def assms(1) sum.case) simp
  have False if ph: "m_Phase m = MachineReady"
    and e: "machine_classifyEvent env m = (Inr (Some MEventAgentScheduled, d), m', fx)" for d m' fx
  proof (cases "m_Desired m = MachineStopped")
    case False
    with ph e have "classifyReady env m = (Inr (Some MEventAgentScheduled, d), m', fx)"
      by (simp add: machine_classifyEvent_def)
    from classify_online_event [OF this [unfolded classifyReady_def]] c show False by simp
  qed (use ph e in \<open>simp add: machine_classifyEvent_def\<close>)
  with c show ?thesis by blast
qed

theorem agent_pods_not_counted_witness:
  "countAgentPods example_machine_env (example_machine MachineReady 0) = Inr 0"
  using agent_pods_not_counted
    [of example_machine_env "example_machine MachineReady 0" "[AgentPodLabels ''a'' ''codex'' '''']"]
  by (auto simp: example_machine_defs)

subsection \<open>Stopping a machine\<close>

text \<open>
  a stop ends. Five minutes after it entered Stopping, whatever its agents and its provider
  do, the pass moves the machine to Stopped.
\<close>

theorem machine_stop_bounded:
  assumes "m_Phase m = MachineStopping" and "m_LastTransition m = Some t"
    and "me_now env - t > 5 * minute" and "me_PatchOk env"
    and "\<not> hasPendingCostOptimizedRetry m" and "fst (reconcileCapacityRequestPod env m) = Inr ()"
    and "machine_reconcile env m = (r, m', fx)"
  shows "\<exists>d. r = MAdvanced MachineStopped d \<and> m_Phase m' = MachineStopped"
proof -
  have c: "machine_classifyEvent env m = (Inr (Some MEventStoppingTimeout, 0), m, [])"
    using assms(1-3) by (simp add: machine_classifyEvent_def classifyStopping_def timed_out_def StoppingTimeout_def)
  have n: "machine_NextPhase (m_Phase m) MEventStoppingTimeout
      = Inr \<lparr>MAction = MActionForceStopVM, MNextPhase = MachineStopped\<rparr>"
    using assms(1) by (simp add: machine_rows)
  have force: "fst (force_stop_vm env m) = Inr (0, ''force-stopped after timeout'')"
    by (simp add: force_stop_vm_def split: prod.split)
  from assms(4-7) c n show ?thesis
    by (cases "force_stop_vm env m")
      (use force in \<open>auto simp: machine_reconcile_def machine_transition_def machine_executeAction_def
        machine_updatePhase_def Let_def split: sum.splits prod.splits if_splits\<close>)
qed

theorem machine_stop_bounded_witness:
  "\<exists>d m' fx. machine_reconcile example_machine_env (example_machine MachineStopping 0)
     = (MAdvanced MachineStopped d, m', fx)"
proof -
  obtain r m' fx where p: "machine_reconcile example_machine_env (example_machine MachineStopping 0) = (r, m', fx)"
    by (cases "machine_reconcile example_machine_env (example_machine MachineStopping 0)")
  have "\<exists>d. r = MAdvanced MachineStopped d \<and> m_Phase m' = MachineStopped"
    by (rule machine_stop_bounded [OF _ _ _ _ _ _ p, where t = 1])
      (simp_all add: example_machine_defs pass_defs minute_def hour_def)
  with p show ?thesis by blast
qed

end
