(* ===== verification/Task_Types.thy ===== *)
theory Task_Types
  imports Go_Prelude
begin

section \<open>The durable task model (\<open>pkg/taskstore/store.go\<close>)\<close>

text \<open>
  The data of an agent task, its limits and their validation, and what the store takes from Go's
  standard library. A \<open>json.RawMessage\<close> is its bytes. The store hands out copies
  (\<open>cloneTask\<close>), so a returned task is a value that later calls cannot change; in HOL every
  value is one.
\<close>

datatype task_error =
    ErrNotFound | ErrInvalid | ErrPromptTooLarge | ErrCorrelationTooLarge | ErrResponseTooLarge
  | ErrIdempotencyTooLarge | ErrIdempotencyConflict | ErrOutstandingLimit | ErrCapacity | ErrConflict
  | ErrInvalidCursor | ErrUpdateConflict | ErrResultConflict | ErrProgressTooLarge | ErrResultTooLarge
  | ErrResultLimit | ErrUpdateLimit | ErrInvalidAttempt | ErrCancelReasonTooLarge | ErrInteractionLimit
  | ErrInteractionNotReady | ErrInteractionExpired | ErrAuthorizationFlow
  | NilDereference  \<comment> \<open>a panic of the Go runtime\<close>

datatype task_state =
    StateQueued | StateDispatched | StateCanceling | StateInputRequired | StateAuthRequired
  | StateCanceled | StateCompleted | StateFailed | StateRejected

datatype failure_code =
    FailureNone
  | FailureAgentUnavailable | FailureDelivery | FailureDeliveryUnknown | FailureDeadline
  | FailureInternal | FailureCancelUnconfirmed | FailureInputTimeout | FailureAuthTimeout
  | FailureContextTooLarge

record limits =
  MaxPromptBytes :: int
  MaxCorrelationBytes :: int
  MaxResponseBytes :: int
  MaxOutstanding :: int
  MaxRetained :: int
  DefaultDeadline :: duration
  MaxDeadline :: duration
  Retention :: duration
  DefaultListPage :: int
  MaxListPage :: int
  MaxDispatchAttempts :: int
  MaxProgressBytes :: int
  MaxProgressUpdates :: int
  MaxResults :: int
  MaxResultParts :: int
  MaxTextPartBytes :: int
  MaxJSONPartBytes :: int
  MaxFileBytes :: int
  MaxTaskFileBytes :: int
  MaxResultNameBytes :: int
  MaxDescriptionBytes :: int
  MaxFilenameBytes :: int
  MaxCancelReasonBytes :: int
  DefaultCancelDeadline :: duration
  MaxCancelDeadline :: duration
  MaxInteractions :: int
  MaxMessages :: int
  MaxInteractionOptions :: int
  MaxInteractionQuestionBytes :: int
  MaxInteractionResponseBytes :: int
  DefaultInteractionExpiry :: duration
  MaxInteractionExpiry :: duration

definition HardMaxIdempotencyBytes :: int where "HardMaxIdempotencyBytes = 128"

definition DefaultLimits :: limits where
  "DefaultLimits = \<lparr>
     MaxPromptBytes = 8 * 1024, MaxCorrelationBytes = 256, MaxResponseBytes = 32 * 1024,
     MaxOutstanding = 8, MaxRetained = 100000,
     DefaultDeadline = 24 * hour, MaxDeadline = 7 * 24 * hour, Retention = 7 * 24 * hour,
     DefaultListPage = 20, MaxListPage = 100, MaxDispatchAttempts = 3,
     MaxProgressBytes = 1024, MaxProgressUpdates = 200, MaxResults = 16, MaxResultParts = 8,
     MaxTextPartBytes = 32 * 1024, MaxJSONPartBytes = 64 * 1024, MaxFileBytes = 25 * 1024 * 1024,
     MaxTaskFileBytes = 100 * 1024 * 1024, MaxResultNameBytes = 128, MaxDescriptionBytes = 1024,
     MaxFilenameBytes = 255, MaxCancelReasonBytes = 512, DefaultCancelDeadline = 5 * minute,
     MaxCancelDeadline = hour, MaxInteractions = 16, MaxMessages = 64, MaxInteractionOptions = 20,
     MaxInteractionQuestionBytes = 4 * 1024, MaxInteractionResponseBytes = 64 * 1024,
     DefaultInteractionExpiry = 24 * hour, MaxInteractionExpiry = 7 * 24 * hour\<rparr>"

text \<open>\<open>Limits.Validate\<close>: \<open>True\<close> when it returns no error.\<close>

definition limits_Validate :: "limits \<Rightarrow> bool" where
  "limits_Validate l \<longleftrightarrow>
     \<not> (MaxPromptBytes l \<le> 0 \<or> MaxPromptBytes l > 32 * 1024
        \<or> MaxCorrelationBytes l < 0 \<or> MaxCorrelationBytes l > 1024
        \<or> MaxResponseBytes l \<le> 0 \<or> MaxResponseBytes l > 128 * 1024
        \<or> MaxOutstanding l \<le> 0 \<or> MaxOutstanding l > 100
        \<or> MaxRetained l \<le> 0 \<or> DefaultDeadline l < 5 * minute
        \<or> MaxDeadline l < DefaultDeadline l \<or> MaxDeadline l > 7 * 24 * hour
        \<or> Retention l \<le> 0 \<or> Retention l > 30 * 24 * hour
        \<or> DefaultListPage l \<le> 0 \<or> DefaultListPage l > MaxListPage l
        \<or> MaxListPage l \<le> 0 \<or> MaxListPage l > 100
        \<or> MaxDispatchAttempts l \<le> 0 \<or> MaxDispatchAttempts l > 10
        \<or> MaxProgressBytes l \<le> 0 \<or> MaxProgressBytes l > 4 * 1024
        \<or> MaxProgressUpdates l \<le> 0 \<or> MaxProgressUpdates l > 2000
        \<or> MaxResults l \<le> 0 \<or> MaxResults l > 64
        \<or> MaxResultParts l \<le> 0 \<or> MaxResultParts l > 32
        \<or> MaxTextPartBytes l \<le> 0 \<or> MaxTextPartBytes l > 128 * 1024
        \<or> MaxJSONPartBytes l \<le> 0 \<or> MaxJSONPartBytes l > 256 * 1024
        \<or> MaxFileBytes l \<le> 0 \<or> MaxFileBytes l > 100 * 1024 * 1024
        \<or> MaxTaskFileBytes l \<le> 0 \<or> MaxTaskFileBytes l > 500 * 1024 * 1024
        \<or> MaxFileBytes l > MaxTaskFileBytes l
        \<or> MaxResultNameBytes l \<le> 0 \<or> MaxResultNameBytes l > 256
        \<or> MaxDescriptionBytes l < 0 \<or> MaxDescriptionBytes l > 4 * 1024
        \<or> MaxFilenameBytes l \<le> 0 \<or> MaxFilenameBytes l > 255)
     \<and> \<not> (MaxCancelReasonBytes l \<le> 0 \<or> MaxCancelReasonBytes l > 2 * 1024
        \<or> DefaultCancelDeadline l \<le> 0 \<or> MaxCancelDeadline l < DefaultCancelDeadline l
        \<or> MaxCancelDeadline l > hour)
     \<and> \<not> (MaxInteractions l \<le> 0 \<or> MaxInteractions l > 64 \<or> MaxMessages l \<le> 0 \<or> MaxMessages l > 256
        \<or> MaxInteractionOptions l \<le> 0 \<or> MaxInteractionOptions l > 100
        \<or> MaxInteractionQuestionBytes l \<le> 0 \<or> MaxInteractionQuestionBytes l > 16 * 1024
        \<or> MaxInteractionResponseBytes l \<le> 0 \<or> MaxInteractionResponseBytes l > 256 * 1024
        \<or> DefaultInteractionExpiry l \<le> 0 \<or> MaxInteractionExpiry l < DefaultInteractionExpiry l
        \<or> MaxInteractionExpiry l > 7 * 24 * hour)"

lemma DefaultLimits_valid: "limits_Validate DefaultLimits"
  by (simp add: limits_Validate_def DefaultLimits_def duration_units)

subsection \<open>Tasks\<close>

record agent_ref =
  ref_Namespace :: string
  ref_Name :: string

record authorization =
  TenantID :: string
  PrincipalID :: string
  AgentResourceID :: string

definition auth_Valid :: "authorization \<Rightarrow> bool" where
  "auth_Valid a \<longleftrightarrow> TenantID a \<noteq> '''' \<and> PrincipalID a \<noteq> '''' \<and> AgentResourceID a \<noteq> ''''"

record progress =
  pg_Message :: string
  pg_Percent :: "int option"
  pg_UpdatedAt :: time

record progress_update =
  UpdateID :: string
  up_Message :: string
  up_Percent :: "int option"

datatype part_kind = PartText | PartJSON | PartFile | PartOther string

record file_metadata =
  ObjectID :: string
  Filename :: string
  MediaType :: string
  SHA256 :: string
  SizeBytes :: int
  ScanStatus :: string

text \<open>\<open>part_JSON\<close> is \<open>None\<close> for a nil slice.\<close>

record result_part =
  part_ID :: string
  part_Kind :: part_kind
  part_Text :: string
  part_JSON :: "string option"
  part_File :: "file_metadata option"

record task_result =
  r_ID :: string
  r_Name :: string
  r_Description :: string
  r_ContentDigest :: string
  r_Parts :: "result_part list"
  r_CreatedAt :: time

datatype interaction_type =
    InteractionText | InteractionChoice | InteractionConfirm | InteractionJSON
  | InteractionAuthorization | InteractionOther string

datatype interaction_status =
  InteractionPaused | InteractionAnswered | InteractionConsumed | InteractionExpired

text \<open>The options keep their ids; labels are only stored.\<close>

record interaction =
  i_ID :: string
  i_AttemptID :: string
  i_Type :: interaction_type
  i_Status :: interaction_status
  i_Question :: string
  i_Options :: "(string \<times> string) list"
  i_Schema :: string
  i_AuthorizationFlow :: string
  i_Response :: string
  i_CreatedAt :: time
  i_ExpiresAt :: time
  i_AnsweredAt :: "time option"

record message =
  msg_Sequence :: int
  msg_Role :: string
  msg_Kind :: string
  msg_Text :: string
  msg_Data :: string
  msg_CreatedAt :: time

record cancellation =
  cn_RequestedAt :: time
  cn_RequestedBy :: string
  cn_Reason :: string
  cn_DeadlineAt :: time
  cn_AcknowledgedAt :: "time option"
  cn_AckSource :: string
  cn_Status :: string
  cn_Scope :: string

record task =
  t_ID :: string
  t_AgentNamespace :: string
  t_AgentName :: string
  t_CreatedBy :: string
  t_Prompt :: string
  t_Correlation :: string
  t_TenantID :: string
  t_OwnerPrincipalID :: string
  t_AgentResourceID :: string
  t_State :: task_state
  t_FailureCode :: failure_code
  t_Response :: string
  t_Version :: int
  t_CreatedAt :: time
  t_UpdatedAt :: time
  t_DeadlineAt :: time
  t_RetainUntil :: time
  t_CompletedAt :: "time option"
  t_Progress :: "progress option"
  t_Results :: "task_result list"
  t_Cancellation :: "cancellation option"
  t_Interaction :: "interaction option"
  t_Messages :: "message list"

subsection \<open>What the store uses of Go's standard library\<close>

datatype json = JNull | JBool bool | JNumber rat | JString string | JArray "json list" | JObject "(string \<times> json) list"

text \<open>An object lists the entries of the Go map it is decoded into: keys are distinct. Below, the decoded
  schema of \<open>validateBoundedJSONSchema\<close>.\<close>

record json_schema =
  sch_Type :: string
  sch_Required :: "string list"
  sch_Properties :: "(string \<times> string) list"

text \<open>
  \<open>lib_valid\<close> is \<open>json.Valid\<close>, \<open>lib_json\<close> is \<open>json.Unmarshal\<close> into \<open>any\<close> (\<open>None\<close>: an error; a valid
  number can be too large for a \<open>float64\<close>), \<open>lib_schema\<close> into the schema
  struct, \<open>lib_flow_id\<close> into the struct with the flow id, \<open>lib_reference\<close> is the JSON object with the
  connection reference; \<open>lib_sha256_hex\<close> is the lower-case hex of the SHA-256 of the bytes;
  \<open>lib_progress_json\<close> and \<open>lib_result_json\<close> are \<open>json.Marshal\<close> of the values the digests hash.
\<close>

record golib =
  lib_valid :: "string \<Rightarrow> bool"
  lib_json :: "string \<Rightarrow> json option"
  lib_schema :: "string \<Rightarrow> json_schema option"
  lib_flow_id :: "string \<Rightarrow> string option"
  lib_reference :: "string \<Rightarrow> string"
  lib_sha256_hex :: "string \<Rightarrow> string"
  lib_progress_json :: "string \<times> int option \<Rightarrow> string"
  lib_result_json :: "task_result \<Rightarrow> string"

end
