(* ===== verification/Task_Store.thy ===== *)
theory Task_Store
  imports Task_Types
begin

section \<open>The task store (\<open>pkg/taskstore/memory.go\<close>)\<close>

text \<open>
  \<open>MemoryStore\<close> is the contract implementation of the store's interface. Every method holds the
  mutex for its whole run, so a method is one atomic step: a function from the clock's reading,
  the parameters and the store to a result and the store it leaves. An error result can leave a
  changed store, as in the source.
\<close>

record idempotency_record =
  idem_hash :: string
  idem_taskID :: string

record cancel_idempotency_record =
  ck_hash :: string
  ck_taskID :: string
  ck_applied :: bool

record authorization_flow =
  flow_taskID :: string
  flow_interactionID :: string
  flow_createdBy :: string
  flow_reference :: string
  flow_complete :: bool

record task_store =
  st_limits :: limits
  st_tasks :: "(string, task) gomap"
  st_idempotency :: "(string, idempotency_record) gomap"
  st_updates :: "(string, (string, string) gomap) gomap"
  st_cancelKeys :: "(string, cancel_idempotency_record) gomap"
  st_cancelAcks :: "(string, string) gomap"
  st_interactionKeys :: "(string, idempotency_record) gomap"
  st_authorizationFlows :: "(string, authorization_flow) gomap"

type_synonym 'a store_step = "(task_error + 'a) \<times> task_store"

definition NewMemoryStore :: "limits \<Rightarrow> task_store option" where
  "NewMemoryStore l =
     (if limits_Validate l
      then Some \<lparr>st_limits = l, st_tasks = [], st_idempotency = [], st_updates = [], st_cancelKeys = [],
                 st_cancelAcks = [], st_interactionKeys = [], st_authorizationFlows = []\<rparr>
      else None)"

definition put_task :: "string \<Rightarrow> task \<Rightarrow> task_store \<Rightarrow> task_store" where
  "put_task tid t s = s\<lparr>st_tasks := AList.update tid t (st_tasks s)\<rparr>"

abbreviation len :: "'a list \<Rightarrow> int" where "len xs \<equiv> int (length xs)"
abbreviation NUL :: string where "NUL \<equiv> [byte 0]"

subsection \<open>Create, Get\<close>

record create_params =
  cp_ID :: string
  cp_Agent :: agent_ref
  cp_CreatedBy :: string
  cp_Prompt :: string
  cp_Correlation :: string
  cp_IdempotencyKey :: string
  cp_RequestHash :: string
  cp_Authorization :: authorization
  cp_DeadlineAt :: time

definition validateCreate :: "limits \<Rightarrow> create_params \<Rightarrow> task_error option" where
  "validateCreate l p =
     (if cp_ID p = '''' \<or> ref_Namespace (cp_Agent p) = '''' \<or> ref_Name (cp_Agent p) = ''''
         \<or> cp_CreatedBy p = '''' \<or> blank (cp_Prompt p) then Some ErrInvalid
      else if len (cp_Prompt p) > MaxPromptBytes l then Some ErrPromptTooLarge
      else if len (cp_Correlation p) > MaxCorrelationBytes l then Some ErrCorrelationTooLarge
      else if len (cp_IdempotencyKey p) > HardMaxIdempotencyBytes then Some ErrIdempotencyTooLarge
      else if cp_IdempotencyKey p \<noteq> '''' \<and> cp_RequestHash p = '''' then Some ErrInvalid
      else None)"

definition effective_auth :: "create_params \<Rightarrow> authorization" where
  "effective_auth p =
     (if auth_Valid (cp_Authorization p) then cp_Authorization p
      else \<lparr>TenantID = ''tenant_legacy'', PrincipalID = cp_CreatedBy p,
            AgentResourceID = ref_Namespace (cp_Agent p) @ ''/'' @ ref_Name (cp_Agent p)\<rparr>)"

definition create_key :: "create_params \<Rightarrow> string" where
  "create_key p =
     (let auth = effective_auth p in
      TenantID auth @ NUL @ PrincipalID auth @ NUL @ AgentResourceID auth @ NUL
      @ ref_Namespace (cp_Agent p) @ NUL @ ref_Name (cp_Agent p) @ NUL @ cp_IdempotencyKey p)"

definition outstanding_state :: "task_state \<Rightarrow> bool" where
  "outstanding_state st \<longleftrightarrow>
     st \<in> {StateQueued, StateDispatched, StateCanceling, StateInputRequired, StateAuthRequired}"

definition of_agent :: "agent_ref \<Rightarrow> task \<Rightarrow> bool" where
  "of_agent a t \<longleftrightarrow> t_AgentNamespace t = ref_Namespace a \<and> t_AgentName t = ref_Name a"

definition owned_by :: "authorization \<Rightarrow> task \<Rightarrow> bool" where
  "owned_by auth t \<longleftrightarrow>
     t_TenantID t = TenantID auth \<and> t_OwnerPrincipalID t = PrincipalID auth
     \<and> t_AgentResourceID t = AgentResourceID auth"

definition new_task :: "limits \<Rightarrow> time \<Rightarrow> create_params \<Rightarrow> time \<Rightarrow> task" where
  "new_task l now p deadline =
     (let auth = effective_auth p in
      \<lparr>t_ID = cp_ID p, t_AgentNamespace = ref_Namespace (cp_Agent p), t_AgentName = ref_Name (cp_Agent p),
       t_CreatedBy = cp_CreatedBy p, t_Prompt = cp_Prompt p, t_Correlation = cp_Correlation p,
       t_TenantID = TenantID auth, t_OwnerPrincipalID = PrincipalID auth,
       t_AgentResourceID = AgentResourceID auth, t_State = StateQueued, t_FailureCode = FailureNone,
       t_Response = '''', t_Version = 1, t_CreatedAt = now, t_UpdatedAt = now, t_DeadlineAt = deadline,
       t_RetainUntil = deadline + Retention l, t_CompletedAt = None, t_Progress = None, t_Results = [],
       t_Cancellation = None, t_Interaction = None,
       t_Messages = [\<lparr>msg_Sequence = 1, msg_Role = ''caller'', msg_Kind = ''task_instruction'',
                      msg_Text = cp_Prompt p, msg_Data = '''', msg_CreatedAt = now\<rparr>]\<rparr>)"

text \<open>A requested deadline, the default when it is zero, capped at \<open>MaxDeadline\<close> from now.\<close>

definition effective_deadline :: "limits \<Rightarrow> time \<Rightarrow> time \<Rightarrow> time option" where
  "effective_deadline l now requested =
     (let deadline = (if requested = 0 then now + DefaultDeadline l else requested) in
      if deadline \<le> now then None
      else Some (if deadline > now + MaxDeadline l then now + MaxDeadline l else deadline))"

definition create_fresh :: "time \<Rightarrow> create_params \<Rightarrow> task_store \<Rightarrow> (task \<times> bool) store_step" where
  "create_fresh now p s =
     (if map_of (st_tasks s) (cp_ID p) \<noteq> None then (Inl ErrConflict, s)
      else if len (st_tasks s) \<ge> MaxRetained (st_limits s) then (Inl ErrCapacity, s)
      else if int (count_vals (\<lambda>t. of_agent (cp_Agent p) t \<and> outstanding_state (t_State t)) (st_tasks s))
              \<ge> MaxOutstanding (st_limits s) then (Inl ErrOutstandingLimit, s)
      else case effective_deadline (st_limits s) now (cp_DeadlineAt p) of
             None \<Rightarrow> (Inl ErrInvalid, s)
           | Some deadline \<Rightarrow>
               (let t = new_task (st_limits s) now p deadline;
                    s' = put_task (cp_ID p) t s
                in (Inr (t, False),
                    if cp_IdempotencyKey p \<noteq> ''''
                    then s'\<lparr>st_idempotency := AList.update (create_key p)
                              \<lparr>idem_hash = cp_RequestHash p, idem_taskID = cp_ID p\<rparr> (st_idempotency s')\<rparr>
                    else s')))"

text \<open>\<open>Create\<close> answers the task and whether it is a replay.\<close>

definition Create :: "time \<Rightarrow> create_params \<Rightarrow> task_store \<Rightarrow> (task \<times> bool) store_step" where
  "Create now p s =
     (case validateCreate (st_limits s) p of
        Some err \<Rightarrow> (Inl err, s)
      | None \<Rightarrow>
          (case (if cp_IdempotencyKey p \<noteq> '''' then map_of (st_idempotency s) (create_key p) else None) of
             Some old \<Rightarrow>
               (if idem_hash old \<noteq> cp_RequestHash p then (Inl ErrIdempotencyConflict, s)
                else case map_of (st_tasks s) (idem_taskID old) of
                       None \<Rightarrow> (Inl ErrNotFound, s)
                     | Some t \<Rightarrow> (if \<not> owned_by (effective_auth p) t then (Inl ErrNotFound, s)
                                 else (Inr (t, True), s)))
           | None \<Rightarrow> create_fresh now p s))"

definition locked :: "task_store \<Rightarrow> agent_ref \<Rightarrow> string \<Rightarrow> task_error + task" where
  "locked s a tid =
     (case map_of (st_tasks s) tid of
        None \<Rightarrow> Inl ErrNotFound
      | Some t \<Rightarrow> (if of_agent a t then Inr t else Inl ErrNotFound))"

definition Get :: "agent_ref \<Rightarrow> string \<Rightarrow> task_store \<Rightarrow> task_error + task" where
  "Get a tid s = locked s a tid"

definition GetAuthorized :: "agent_ref \<Rightarrow> string \<Rightarrow> authorization \<Rightarrow> task_store \<Rightarrow> task_error + task" where
  "GetAuthorized a tid auth s =
     (case map_of (st_tasks s) tid of
        None \<Rightarrow> Inl ErrNotFound
      | Some t \<Rightarrow> (if \<not> of_agent a t \<or> \<not> auth_Valid auth \<or> \<not> owned_by auth t then Inl ErrNotFound else Inr t))"

subsection \<open>Dispatch, failure, completion\<close>

text \<open>A method that changes one located task.\<close>

definition on_task ::
  "agent_ref \<Rightarrow> string \<Rightarrow> (task \<Rightarrow> 'a store_step) \<Rightarrow> task_store \<Rightarrow> 'a store_step" where
  "on_task a tid f s = (case locked s a tid of Inl err \<Rightarrow> (Inl err, s) | Inr t \<Rightarrow> f t)"

definition MarkDispatched :: "time \<Rightarrow> agent_ref \<Rightarrow> string \<Rightarrow> int \<Rightarrow> task_store \<Rightarrow> unit store_step" where
  "MarkDispatched now a tid v s = on_task a tid (\<lambda>t.
     if t_State t = StateDispatched then (Inr (), s)
     else if t_Version t \<noteq> v \<or> t_State t \<noteq> StateQueued then (Inl ErrConflict, s)
     else (Inr (), put_task tid (t\<lparr>t_State := StateDispatched, t_Version := t_Version t + 1,
                                  t_UpdatedAt := now\<rparr>) s)) s"

definition Fail :: "time \<Rightarrow> agent_ref \<Rightarrow> string \<Rightarrow> int \<Rightarrow> failure_code \<Rightarrow> task_store \<Rightarrow> unit store_step" where
  "Fail now a tid v code s = on_task a tid (\<lambda>t.
     if t_State t = StateFailed \<and> t_FailureCode t = code then (Inr (), s)
     else if t_Version t \<noteq> v \<or> t_State t \<notin> {StateQueued, StateDispatched, StateCanceling}
     then (Inl ErrConflict, s)
     else (Inr (), put_task tid (t\<lparr>t_State := StateFailed, t_FailureCode := code,
                                  t_Version := t_Version t + 1, t_UpdatedAt := now,
                                  t_CompletedAt := Some now\<rparr>) s)) s"

text \<open>\<open>resultDigest\<close> hashes the result without its digest, time, object ids and scan states.\<close>

definition digest_view :: "task_result \<Rightarrow> task_result" where
  "digest_view r =
     r\<lparr>r_ContentDigest := '''', r_CreatedAt := 0,
       r_Parts := map (\<lambda>p. p\<lparr>part_File := map_option (\<lambda>f. f\<lparr>ObjectID := '''', ScanStatus := ''''\<rparr>) (part_File p)\<rparr>)
                      (r_Parts r)\<rparr>"

definition resultDigest :: "golib \<Rightarrow> task_result \<Rightarrow> string" where
  "resultDigest lib r = lib_sha256_hex lib (lib_result_json lib (digest_view r))"

definition progressDigest :: "golib \<Rightarrow> progress_update \<Rightarrow> string" where
  "progressDigest lib u = lib_sha256_hex lib (lib_progress_json lib (up_Message u, up_Percent u))"

text \<open>The result a non-empty response becomes: 16 bytes of hash are 32 hex digits.\<close>

definition response_result :: "golib \<Rightarrow> time \<Rightarrow> task \<Rightarrow> string \<Rightarrow> task_result" where
  "response_result lib now t response =
     (let r = \<lparr>r_ID = ''result_'' @ take 32 (lib_sha256_hex lib (t_ID t)), r_Name = ''response'',
               r_Description = '''', r_ContentDigest = '''',
               r_Parts = [\<lparr>part_ID = ''part_0'', part_Kind = PartText, part_Text = response,
                           part_JSON = None, part_File = None\<rparr>],
               r_CreatedAt = now\<rparr>
      in r\<lparr>r_ContentDigest := resultDigest lib r\<rparr>)"

definition Complete :: "golib \<Rightarrow> time \<Rightarrow> agent_ref \<Rightarrow> string \<Rightarrow> int \<Rightarrow> string \<Rightarrow> task_store \<Rightarrow> unit store_step" where
  "Complete lib now a tid v response s =
     (if len response > MaxResponseBytes (st_limits s) then (Inl ErrResponseTooLarge, s)
      else on_task a tid (\<lambda>t.
        if t_State t = StateCompleted \<and> t_Response t = response then (Inr (), s)
        else if t_Version t \<noteq> v \<or> t_State t \<notin> {StateDispatched, StateCanceling} then (Inl ErrConflict, s)
        else (Inr (), put_task tid (t\<lparr>t_State := StateCompleted, t_Response := response,
                t_Results := (if response \<noteq> '''' \<and> t_Results t = []
                              then [response_result lib now t response] else t_Results t),
                t_Version := t_Version t + 1, t_UpdatedAt := now, t_CompletedAt := Some now\<rparr>) s)) s)"

subsection \<open>Interactions\<close>

record request_params =
  rp_Agent :: agent_ref
  rp_TaskID :: string
  rp_AttemptID :: string
  rp_InteractionID :: string
  rp_Type :: interaction_type
  rp_Question :: string
  rp_Options :: "(string \<times> string) list"
  rp_Schema :: string
  rp_AuthorizationFlow :: string
  rp_ExpiresIn :: duration

definition registeredAuthorizationKind :: "string \<Rightarrow> bool" where
  "registeredAuthorizationKind kind \<longleftrightarrow>
     TrimSpace kind = ''github-app'' \<or> TrimSpace kind = ''claude-oauth'' \<or> TrimSpace kind = ''codex-oauth''"

definition authorizationFlowID :: "string \<Rightarrow> string" where
  "authorizationFlowID interactionID = ''authflow_'' @ TrimPrefix interactionID ''interaction_''"

definition is_request :: "message \<Rightarrow> bool" where
  "is_request m \<longleftrightarrow> msg_Kind m = ''input_request'' \<or> msg_Kind m = ''authorization_request''"

definition append_message :: "string \<Rightarrow> string \<Rightarrow> string \<Rightarrow> string \<Rightarrow> time \<Rightarrow> message list \<Rightarrow> message list" where
  "append_message role kind txt dat now ms =
     ms @ [\<lparr>msg_Sequence = len ms + 1, msg_Role = role, msg_Kind = kind, msg_Text = txt,
            msg_Data = dat, msg_CreatedAt = now\<rparr>]"

definition interaction_open :: "task \<Rightarrow> bool" where
  "interaction_open t \<longleftrightarrow>
     (case t_Interaction t of None \<Rightarrow> False
      | Some i \<Rightarrow> i_Status i = InteractionPaused \<or> i_Status i = InteractionAnswered)"

text \<open>The checks of \<open>RequestInteraction\<close> on the located task, in order.\<close>

definition request_error :: "limits \<Rightarrow> task \<Rightarrow> request_params \<Rightarrow> task_error option" where
  "request_error l t p =
     (if t_State t \<noteq> StateDispatched \<or> rp_InteractionID p = '''' \<or> rp_AttemptID p = '''' \<or> blank (rp_Question p)
      then Some ErrConflict
      else if interaction_open t then Some ErrConflict
      else if len (rp_Question p) > MaxInteractionQuestionBytes l \<or> len (rp_Options p) > MaxInteractionOptions l
      then Some ErrInvalid
      else if len (filter is_request (t_Messages t)) \<ge> MaxInteractions l \<or> len (t_Messages t) + 1 \<ge> MaxMessages l
      then Some ErrInteractionLimit
      else if (case rp_Type p of InteractionOther _ \<Rightarrow> True | _ \<Rightarrow> False) then Some ErrInvalid
      else if rp_Type p = InteractionAuthorization \<and> \<not> registeredAuthorizationKind (rp_AuthorizationFlow p)
      then Some ErrInvalid
      else None)"

definition interaction_expiry :: "limits \<Rightarrow> time \<Rightarrow> task \<Rightarrow> duration \<Rightarrow> time" where
  "interaction_expiry l now t requested =
     (let e1 = (if requested \<le> 0 then DefaultInteractionExpiry l else requested);
          e2 = (if e1 > MaxInteractionExpiry l then MaxInteractionExpiry l else e1);
          expires = now + e2
      in if expires > t_DeadlineAt t then t_DeadlineAt t else expires)"

definition requested_task :: "limits \<Rightarrow> time \<Rightarrow> request_params \<Rightarrow> task \<Rightarrow> task" where
  "requested_task l now p t =
     (let authz = rp_Type p = InteractionAuthorization in
      t\<lparr>t_Interaction := Some \<lparr>i_ID = rp_InteractionID p, i_AttemptID = rp_AttemptID p, i_Type = rp_Type p,
            i_Status = InteractionPaused, i_Question = rp_Question p, i_Options = rp_Options p,
            i_Schema = rp_Schema p,
            i_AuthorizationFlow = (if authz then authorizationFlowID (rp_InteractionID p)
                                   else rp_AuthorizationFlow p),
            i_Response = '''', i_CreatedAt = now,
            i_ExpiresAt = interaction_expiry l now t (rp_ExpiresIn p), i_AnsweredAt = None\<rparr>,
        t_State := (if authz then StateAuthRequired else StateInputRequired),
        t_Version := t_Version t + 1, t_UpdatedAt := now,
        t_Messages := append_message ''agent''
            (if authz then ''authorization_request'' else ''input_request'') (rp_Question p) '''' now (t_Messages t)\<rparr>)"

definition RequestInteraction :: "time \<Rightarrow> request_params \<Rightarrow> task_store \<Rightarrow> task store_step" where
  "RequestInteraction now p s = on_task (rp_Agent p) (rp_TaskID p) (\<lambda>t.
     case request_error (st_limits s) t p of
       Some err \<Rightarrow> (Inl err, s)
     | None \<Rightarrow>
         (let t' = requested_task (st_limits s) now p t;
              s' = put_task (rp_TaskID p) t' s
          in (Inr t',
              if rp_Type p = InteractionAuthorization
              then s'\<lparr>st_authorizationFlows := AList.update (authorizationFlowID (rp_InteractionID p))
                       \<lparr>flow_taskID = rp_TaskID p, flow_interactionID = rp_InteractionID p,
                        flow_createdBy = t_CreatedBy t, flow_reference = '''', flow_complete = False\<rparr>
                       (st_authorizationFlows s')\<rparr>
              else s'))) s"

text \<open>
  \<open>typeOK\<close>. A number is a \<open>float64\<close>, whose value is a rational; it is an "integer" when the
  conversion to \<open>int64\<close> and back gives it again, which needs it in the \<open>int64\<close> range.
\<close>

definition typeOK :: "string \<Rightarrow> json \<Rightarrow> bool" where
  "typeOK typ x =
     (if typ = '''' then True
      else if typ = ''object'' then (case x of JObject _ \<Rightarrow> True | _ \<Rightarrow> False)
      else if typ = ''array'' then (case x of JArray _ \<Rightarrow> True | _ \<Rightarrow> False)
      else if typ = ''string'' then (case x of JString _ \<Rightarrow> True | _ \<Rightarrow> False)
      else if typ = ''boolean'' then (case x of JBool _ \<Rightarrow> True | _ \<Rightarrow> False)
      else if typ = ''number'' then (case x of JNumber _ \<Rightarrow> True | _ \<Rightarrow> False)
      else if typ = ''integer'' then
        (case x of JNumber n \<Rightarrow> n = of_int \<lfloor>n\<rfloor> \<and> - (2 ^ 63) \<le> \<lfloor>n\<rfloor> \<and> \<lfloor>n\<rfloor> < 2 ^ 63 | _ \<Rightarrow> False)
      else if typ = ''null'' then x = JNull
      else False)"

definition schema_conforms :: "json_schema \<Rightarrow> json \<Rightarrow> bool" where
  "schema_conforms sch v \<longleftrightarrow>
     typeOK (sch_Type sch) v
     \<and> (sch_Required sch = [] \<and> sch_Properties sch = []
        \<or> (case v of
             JObject obj \<Rightarrow>
               list_all (\<lambda>name. map_of obj name \<noteq> None) (sch_Required sch)
               \<and> list_all (\<lambda>(name, typ). case map_of obj name of None \<Rightarrow> True | Some x \<Rightarrow> typeOK typ x)
                          (sch_Properties sch)
           | _ \<Rightarrow> False))"

definition validateBoundedJSONSchema :: "golib \<Rightarrow> string \<Rightarrow> json \<Rightarrow> bool" where
  "validateBoundedJSONSchema lib raw v =
     (if raw = '''' then True
      else case lib_schema lib raw of None \<Rightarrow> False | Some sch \<Rightarrow> schema_conforms sch v)"

definition validateInteractionResponse :: "golib \<Rightarrow> interaction \<Rightarrow> string \<Rightarrow> bool" where
  "validateInteractionResponse lib i raw =
     (case lib_json lib raw of
        None \<Rightarrow> False
      | Some v \<Rightarrow>
          (case i_Type i of
             InteractionText \<Rightarrow> (case v of JString _ \<Rightarrow> True | _ \<Rightarrow> False)
           | InteractionConfirm \<Rightarrow> (case v of JBool _ \<Rightarrow> True | _ \<Rightarrow> False)
           | InteractionChoice \<Rightarrow> (case v of JString c \<Rightarrow> c \<in> fst ` set (i_Options i) | _ \<Rightarrow> False)
           | InteractionJSON \<Rightarrow> validateBoundedJSONSchema lib (i_Schema i) v
           | InteractionAuthorization \<Rightarrow>
               (case v of
                  JObject obj \<Rightarrow> (case map_of obj ''reference'' of
                                    Some (JString ref) \<Rightarrow> \<not> blank ref | _ \<Rightarrow> False)
                | _ \<Rightarrow> False)
           | InteractionOther _ \<Rightarrow> False))"

record respond_params =
  sp_Agent :: agent_ref
  sp_TaskID :: string
  sp_InteractionID :: string
  sp_RespondedBy :: string
  sp_IdempotencyKey :: string
  sp_RequestHash :: string
  sp_Authorization :: authorization
  sp_Response :: string

definition respond_key :: "respond_params \<Rightarrow> string" where
  "respond_key p = sp_RespondedBy p @ NUL @ sp_TaskID p @ NUL @ sp_InteractionID p @ NUL @ sp_IdempotencyKey p"

text \<open>The caller's right to a task: its authorization context, or the legacy creator.\<close>

definition may_act :: "authorization \<Rightarrow> string \<Rightarrow> task \<Rightarrow> bool" where
  "may_act auth caller t \<longleftrightarrow> (if auth_Valid auth then owned_by auth t else t_CreatedBy t = caller)"

definition expired_task :: "time \<Rightarrow> interaction \<Rightarrow> task \<Rightarrow> task" where
  "expired_task now i t =
     t\<lparr>t_Interaction := Some (i\<lparr>i_Status := InteractionExpired\<rparr>), t_State := StateFailed,
       t_FailureCode := (if i_Type i = InteractionAuthorization then FailureAuthTimeout else FailureInputTimeout),
       t_Version := t_Version t + 1, t_UpdatedAt := now, t_CompletedAt := Some now\<rparr>"

text \<open>The response that is stored: for an authorization, the reference of the completed flow.\<close>

definition stored_response ::
  "golib \<Rightarrow> task_store \<Rightarrow> respond_params \<Rightarrow> interaction \<Rightarrow> task_error + string" where
  "stored_response lib s p i =
     (if i_Type i \<noteq> InteractionAuthorization then Inr (sp_Response p)
      else case lib_flow_id lib (sp_Response p) of
             None \<Rightarrow> Inl ErrAuthorizationFlow
           | Some supplied \<Rightarrow>
               (if supplied \<noteq> i_AuthorizationFlow i then Inl ErrAuthorizationFlow
                else case map_of (st_authorizationFlows s) supplied of
                       None \<Rightarrow> Inl ErrAuthorizationFlow
                     | Some flow \<Rightarrow>
                         (if \<not> flow_complete flow \<or> flow_taskID flow \<noteq> sp_TaskID p
                             \<or> flow_interactionID flow \<noteq> sp_InteractionID p
                             \<or> flow_createdBy flow \<noteq> sp_RespondedBy p then Inl ErrAuthorizationFlow
                          else Inr (lib_reference lib (flow_reference flow)))))"

definition answered_task :: "time \<Rightarrow> interaction \<Rightarrow> string \<Rightarrow> task \<Rightarrow> task" where
  "answered_task now i response t =
     t\<lparr>t_Interaction := Some (i\<lparr>i_Response := response, i_Status := InteractionAnswered,
                                i_AnsweredAt := Some now\<rparr>),
       t_Messages := append_message ''platform'' ''continuation_instruction''
           ''Continue the task using the caller response above.'' '''' now
           (append_message ''caller''
              (if i_Type i = InteractionAuthorization then ''authorization_completed'' else ''input_response'')
              '''' response now (t_Messages t)),
       t_State := StateQueued, t_Version := t_Version t + 1, t_UpdatedAt := now\<rparr>"

text \<open>A paused interaction of the caller's task: expire it, refuse the response, or take it.\<close>

definition respond_paused ::
  "golib \<Rightarrow> time \<Rightarrow> respond_params \<Rightarrow> interaction \<Rightarrow> task \<Rightarrow> task_store \<Rightarrow> (task \<times> bool) store_step" where
  "respond_paused lib now p i t s =
     (if i_ExpiresAt i \<le> now
      then (Inl ErrInteractionExpired, put_task (sp_TaskID p) (expired_task now i t) s)
      else if sp_Response p = '''' \<or> len (sp_Response p) > MaxInteractionResponseBytes (st_limits s)
              \<or> \<not> lib_valid lib (sp_Response p) then (Inl ErrInvalid, s)
      else case stored_response lib s p i of
             Inl err \<Rightarrow> (Inl err, s)
           | Inr response \<Rightarrow>
               (if \<not> validateInteractionResponse lib i response then (Inl ErrInvalid, s)
                else (let t' = answered_task now i response t;
                          s' = put_task (sp_TaskID p) t' s
                      in (Inr (t', False),
                          if sp_IdempotencyKey p \<noteq> ''''
                          then s'\<lparr>st_interactionKeys := AList.update (respond_key p)
                                   \<lparr>idem_hash = sp_RequestHash p, idem_taskID = t_ID t\<rparr> (st_interactionKeys s')\<rparr>
                          else s'))))"

definition RespondInteraction :: "golib \<Rightarrow> time \<Rightarrow> respond_params \<Rightarrow> task_store \<Rightarrow> (task \<times> bool) store_step" where
  "RespondInteraction lib now p s = on_task (sp_Agent p) (sp_TaskID p) (\<lambda>t.
     if \<not> may_act (sp_Authorization p) (sp_RespondedBy p) t then (Inl ErrNotFound, s)
     else case (if sp_IdempotencyKey p \<noteq> '''' then map_of (st_interactionKeys s) (respond_key p) else None) of
            Some old \<Rightarrow>
              (if idem_hash old \<noteq> sp_RequestHash p then (Inl ErrIdempotencyConflict, s) else (Inr (t, True), s))
          | None \<Rightarrow>
              (case t_Interaction t of
                 None \<Rightarrow> (Inl ErrNotFound, s)
               | Some i \<Rightarrow>
                   (if i_ID i \<noteq> sp_InteractionID p then (Inl ErrNotFound, s)
                    else if i_Status i \<noteq> InteractionPaused then (Inl ErrInteractionNotReady, s)
                    else respond_paused lib now p i t s))) s"

record flow_params =
  fp_FlowID :: string
  fp_TaskID :: string
  fp_InteractionID :: string
  fp_CreatedBy :: string
  fp_ConnectionReference :: string

definition CompleteAuthorizationFlow :: "flow_params \<Rightarrow> task_store \<Rightarrow> unit store_step" where
  "CompleteAuthorizationFlow p s =
     (case map_of (st_authorizationFlows s) (fp_FlowID p) of
        None \<Rightarrow> (Inl ErrAuthorizationFlow, s)
      | Some flow \<Rightarrow>
          (if flow_complete flow \<or> flow_taskID flow \<noteq> fp_TaskID p \<or> flow_interactionID flow \<noteq> fp_InteractionID p
              \<or> flow_createdBy flow \<noteq> fp_CreatedBy p \<or> blank (fp_ConnectionReference p)
           then (Inl ErrAuthorizationFlow, s)
           else (Inr (), s\<lparr>st_authorizationFlows := AList.update (fp_FlowID p)
                   (flow\<lparr>flow_complete := True, flow_reference := TrimSpace (fp_ConnectionReference p)\<rparr>)
                   (st_authorizationFlows s)\<rparr>)))"

definition Reject :: "time \<Rightarrow> agent_ref \<Rightarrow> string \<Rightarrow> string \<Rightarrow> string \<Rightarrow> task_store \<Rightarrow> task store_step" where
  "Reject now a tid attemptID reason s =
     (if attemptID = '''' \<or> blank reason \<or> len reason > MaxResponseBytes (st_limits s) then (Inl ErrInvalid, s)
      else on_task a tid (\<lambda>t.
        if t_State t \<noteq> StateDispatched then (Inl ErrConflict, s)
        else (let t' = t\<lparr>t_State := StateRejected, t_Response := reason, t_Version := t_Version t + 1,
                         t_UpdatedAt := now, t_CompletedAt := Some now,
                         t_Messages := append_message ''agent'' ''terminal_summary'' reason '''' now (t_Messages t)\<rparr>
              in (Inr t', put_task tid t' s))) s)"

subsection \<open>Cancellation\<close>

record cancel_params =
  xp_Agent :: agent_ref
  xp_TaskID :: string
  xp_RequestedBy :: string
  xp_Reason :: string
  xp_IdempotencyKey :: string
  xp_RequestHash :: string
  xp_Authorization :: authorization

record cancel_result =
  cr_Task :: task
  cr_Applied :: bool
  cr_Replay :: bool

definition cancel_key :: "cancel_params \<Rightarrow> string" where
  "cancel_key p = xp_RequestedBy p @ NUL @ ref_Namespace (xp_Agent p) @ NUL @ ref_Name (xp_Agent p) @ NUL
                  @ xp_IdempotencyKey p"

definition remember_cancel :: "cancel_params \<Rightarrow> string \<Rightarrow> bool \<Rightarrow> task_store \<Rightarrow> task_store" where
  "remember_cancel p tid applied s =
     (if xp_IdempotencyKey p \<noteq> ''''
      then s\<lparr>st_cancelKeys := AList.update (cancel_key p)
               \<lparr>ck_hash = xp_RequestHash p, ck_taskID = tid, ck_applied = applied\<rparr> (st_cancelKeys s)\<rparr>
      else s)"

text \<open>Work that nobody runs is canceled at once; a dispatched task waits for its agent.\<close>

definition canceled_task :: "limits \<Rightarrow> time \<Rightarrow> cancel_params \<Rightarrow> task \<Rightarrow> task" where
  "canceled_task l now p t =
     (let at_once = t_State t \<in> {StateQueued, StateInputRequired, StateAuthRequired};
          deadline = now + DefaultCancelDeadline l
      in t\<lparr>t_Cancellation := Some \<lparr>cn_RequestedAt = now, cn_RequestedBy = xp_RequestedBy p,
              cn_Reason = xp_Reason p,
              cn_DeadlineAt = (if deadline > t_DeadlineAt t then t_DeadlineAt t else deadline),
              cn_AcknowledgedAt = None, cn_AckSource = '''', cn_Status = ''requested'',
              cn_Scope = ''future_task_work''\<rparr>,
           t_State := (if at_once then StateCanceled else StateCanceling),
           t_CompletedAt := (if at_once then Some now else t_CompletedAt t),
           t_Version := t_Version t + 1, t_UpdatedAt := now\<rparr>)"

definition cancel_located :: "time \<Rightarrow> cancel_params \<Rightarrow> task \<Rightarrow> task_store \<Rightarrow> cancel_result store_step" where
  "cancel_located now p t s =
     (if t_Cancellation t \<noteq> None \<or> t_State t = StateCanceled \<or> t_State t = StateCanceling
      then (Inr \<lparr>cr_Task = t, cr_Applied = False, cr_Replay = True\<rparr>, remember_cancel p (t_ID t) False s)
      else if t_State t \<in> {StateCompleted, StateFailed, StateRejected}
      then (Inr \<lparr>cr_Task = t, cr_Applied = False, cr_Replay = False\<rparr>, remember_cancel p (t_ID t) False s)
      else (let t' = canceled_task (st_limits s) now p t in
            (Inr \<lparr>cr_Task = t', cr_Applied = True, cr_Replay = False\<rparr>,
             remember_cancel p (t_ID t) True (put_task (xp_TaskID p) t' s))))"

definition Cancel :: "time \<Rightarrow> cancel_params \<Rightarrow> task_store \<Rightarrow> cancel_result store_step" where
  "Cancel now p s =
     (if xp_TaskID p = '''' \<or> xp_RequestedBy p = '''' \<or> len (xp_IdempotencyKey p) > HardMaxIdempotencyBytes
      then (Inl ErrInvalid, s)
      else if len (xp_Reason p) > MaxCancelReasonBytes (st_limits s) then (Inl ErrCancelReasonTooLarge, s)
      else on_task (xp_Agent p) (xp_TaskID p) (\<lambda>t.
        if \<not> may_act (xp_Authorization p) (xp_RequestedBy p) t then (Inl ErrNotFound, s)
        else case (if xp_IdempotencyKey p \<noteq> '''' then map_of (st_cancelKeys s) (cancel_key p) else None) of
               Some prior \<Rightarrow>
                 (if ck_hash prior \<noteq> xp_RequestHash p then (Inl ErrIdempotencyConflict, s)
                  else (Inr \<lparr>cr_Task = t, cr_Applied = ck_applied prior, cr_Replay = True\<rparr>, s))
             | None \<Rightarrow> cancel_located now p t s) s)"

record task_control =
  CancelRequested :: bool
  ctl_Reason :: string
  ctl_RequestedAt :: time

definition GetControl :: "agent_ref \<Rightarrow> string \<Rightarrow> string \<Rightarrow> task_store \<Rightarrow> task_error + task_control" where
  "GetControl a tid attemptID s =
     (if attemptID = '''' then Inl ErrInvalidAttempt
      else case locked s a tid of
             Inl err \<Rightarrow> Inl err
           | Inr t \<Rightarrow>
               (case t_Cancellation t of
                  None \<Rightarrow> Inr \<lparr>CancelRequested = False, ctl_Reason = '''', ctl_RequestedAt = 0\<rparr>
                | Some c \<Rightarrow> Inr \<lparr>CancelRequested = True, ctl_Reason = cn_Reason c, ctl_RequestedAt = cn_RequestedAt c\<rparr>))"

definition acknowledged_task :: "time \<Rightarrow> cancellation \<Rightarrow> task \<Rightarrow> task" where
  "acknowledged_task now c t =
     t\<lparr>t_State := StateCanceled, t_Version := t_Version t + 1, t_UpdatedAt := now, t_CompletedAt := Some now,
       t_Cancellation := Some (c\<lparr>cn_AcknowledgedAt := Some now, cn_AckSource := ''agent'',
                                 cn_Status := ''acknowledged''\<rparr>)\<rparr>"

text \<open>The note is not stored.\<close>

definition AcknowledgeCancel ::
  "time \<Rightarrow> agent_ref \<Rightarrow> string \<Rightarrow> string \<Rightarrow> string \<Rightarrow> task_store \<Rightarrow> (task \<times> bool) store_step" where
  "AcknowledgeCancel now a tid attemptID ackID s =
     (if attemptID = '''' \<or> ackID = '''' then (Inl ErrInvalid, s)
      else on_task a tid (\<lambda>t.
        case map_of (st_cancelAcks s) tid of
          Some prior \<Rightarrow> (if prior \<noteq> ackID then (Inl ErrConflict, s) else (Inr (t, True), s))
        | None \<Rightarrow>
            (if t_State t \<noteq> StateCanceling then (Inl ErrConflict, s)
             else case t_Cancellation t of
                    None \<Rightarrow> (Inl ErrConflict, s)
                  | Some c \<Rightarrow>
                      (let t' = acknowledged_task now c t;
                           s' = put_task tid t' s
                       in (Inr (t', False),
                           s'\<lparr>st_cancelAcks := AList.update tid ackID (st_cancelAcks s')\<rparr>)))) s)"

subsection \<open>Progress and results\<close>

definition validateProgress :: "limits \<Rightarrow> string \<Rightarrow> progress_update \<Rightarrow> task_error option" where
  "validateProgress l attempt u =
     (if attempt = '''' then Some ErrInvalidAttempt
      else if UpdateID u = '''' \<or> blank (up_Message u) then Some ErrInvalid
      else if len (up_Message u) > MaxProgressBytes l then Some ErrProgressTooLarge
      else case up_Percent u of
             None \<Rightarrow> None
           | Some n \<Rightarrow> (if n < 0 \<or> n > 100 then Some ErrInvalid else None))"

definition task_updates :: "task_store \<Rightarrow> string \<Rightarrow> (string, string) gomap" where
  "task_updates s tid = (case map_of (st_updates s) tid of None \<Rightarrow> [] | Some m \<Rightarrow> m)"

definition ReportProgress ::
  "golib \<Rightarrow> time \<Rightarrow> agent_ref \<Rightarrow> string \<Rightarrow> string \<Rightarrow> progress_update \<Rightarrow> task_store \<Rightarrow> (progress \<times> bool) store_step" where
  "ReportProgress lib now a tid attemptID u s = on_task a tid (\<lambda>t.
     case validateProgress (st_limits s) attemptID u of
       Some err \<Rightarrow> (Inl err, s)
     | None \<Rightarrow>
         (case map_of (task_updates s tid) (UpdateID u) of
            Some prior \<Rightarrow>
              (if prior \<noteq> progressDigest lib u then (Inl ErrUpdateConflict, s)
               else case t_Progress t of None \<Rightarrow> (Inl NilDereference, s) | Some pg \<Rightarrow> (Inr (pg, True), s))
          | None \<Rightarrow>
              (if t_State t \<noteq> StateDispatched then (Inl ErrConflict, s)
               else if len (task_updates s tid) \<ge> MaxProgressUpdates (st_limits s) then (Inl ErrUpdateLimit, s)
               else (let pg = \<lparr>pg_Message = up_Message u, pg_Percent = up_Percent u, pg_UpdatedAt = now\<rparr>;
                         s' = put_task tid (t\<lparr>t_Progress := Some pg, t_Version := t_Version t + 1,
                                              t_UpdatedAt := now\<rparr>) s
                     in (Inr (pg, False),
                         s'\<lparr>st_updates := AList.update tid
                              (AList.update (UpdateID u) (progressDigest lib u) (task_updates s tid))
                              (st_updates s')\<rparr>))))) s"

text \<open>The loop over the parts of a result: the ids seen and the bytes of files so far.\<close>

definition part_error :: "golib \<Rightarrow> limits \<Rightarrow> result_part \<Rightarrow> task_error option" where
  "part_error lib l p =
     (case part_Kind p of
        PartText \<Rightarrow>
          (if part_JSON p \<noteq> None \<or> part_File p \<noteq> None \<or> len (part_Text p) > MaxTextPartBytes l
           then Some ErrResultTooLarge else None)
      | PartJSON \<Rightarrow>
          (case part_JSON p of
             None \<Rightarrow> Some ErrInvalid
           | Some raw \<Rightarrow>
               (if part_Text p \<noteq> '''' \<or> part_File p \<noteq> None \<or> raw = '''' \<or> \<not> lib_valid lib raw
                then Some ErrInvalid
                else if len raw > MaxJSONPartBytes l then Some ErrResultTooLarge else None))
      | PartFile \<Rightarrow>
          (case part_File p of
             None \<Rightarrow> Some ErrInvalid
           | Some f \<Rightarrow>
               (if part_Text p \<noteq> '''' \<or> part_JSON p \<noteq> None \<or> ObjectID f = '''' \<or> Filename f = ''''
                   \<or> MediaType f = '''' \<or> SHA256 f = '''' \<or> SizeBytes f < 0 then Some ErrInvalid
                else if len (Filename f) > MaxFilenameBytes l \<or> SizeBytes f > MaxFileBytes l
                then Some ErrResultTooLarge else None))
      | PartOther _ \<Rightarrow> Some ErrInvalid)"

definition part_bytes :: "result_part \<Rightarrow> int" where
  "part_bytes p = (case (part_Kind p, part_File p) of (PartFile, Some f) \<Rightarrow> SizeBytes f | _ \<Rightarrow> 0)"

fun parts_error :: "golib \<Rightarrow> limits \<Rightarrow> string list \<Rightarrow> result_part list \<Rightarrow> task_error option" where
  "parts_error lib l seen [] = None"
| "parts_error lib l seen (p # ps) =
     (if part_ID p = '''' \<or> part_ID p \<in> set seen then Some ErrInvalid
      else case part_error lib l p of
             Some err \<Rightarrow> Some err
           | None \<Rightarrow> parts_error lib l (part_ID p # seen) ps)"

definition validateResult :: "golib \<Rightarrow> limits \<Rightarrow> string \<Rightarrow> task_result \<Rightarrow> task_error option" where
  "validateResult lib l attempt r =
     (if attempt = '''' then Some ErrInvalidAttempt
      else if r_ID r = '''' \<or> blank (r_Name r) \<or> r_Parts r = [] then Some ErrInvalid
      else if len (r_Name r) > MaxResultNameBytes l \<or> len (r_Description r) > MaxDescriptionBytes l
              \<or> len (r_Parts r) > MaxResultParts l then Some ErrResultTooLarge
      else case parts_error lib l [] (r_Parts r) of
             Some err \<Rightarrow> Some err
           | None \<Rightarrow> (if sum_list (map part_bytes (r_Parts r)) > MaxTaskFileBytes l
                     then Some ErrResultTooLarge else None))"

text \<open>The loop over the stored results: a stored id or name decides, else the loop falls through.\<close>

fun find_result :: "string \<Rightarrow> task_result \<Rightarrow> task_result list \<Rightarrow> (task_error + task_result) option" where
  "find_result digest r [] = None"
| "find_result digest r (x # xs) =
     (if r_ID x = r_ID r then
        Some (if r_ContentDigest x \<noteq> digest then Inl ErrResultConflict else Inr x)
      else if r_Name x = r_Name r then Some (Inl ErrResultConflict)
      else find_result digest r xs)"

definition PublishResult ::
  "golib \<Rightarrow> time \<Rightarrow> agent_ref \<Rightarrow> string \<Rightarrow> string \<Rightarrow> task_result \<Rightarrow> task_store \<Rightarrow> (task_result \<times> bool) store_step" where
  "PublishResult lib now a tid attemptID r s = on_task a tid (\<lambda>t.
     case validateResult lib (st_limits s) attemptID r of
       Some err \<Rightarrow> (Inl err, s)
     | None \<Rightarrow>
         (case find_result (resultDigest lib r) r (t_Results t) of
            Some (Inl err) \<Rightarrow> (Inl err, s)
          | Some (Inr out) \<Rightarrow> (Inr (out, True), s)
          | None \<Rightarrow>
              (if t_State t \<noteq> StateDispatched then (Inl ErrConflict, s)
               else if len (t_Results t) \<ge> MaxResults (st_limits s) then (Inl ErrResultLimit, s)
               else (let r' = r\<lparr>r_ContentDigest := resultDigest lib r, r_CreatedAt := now\<rparr> in
                     (Inr (r', False),
                      put_task tid (t\<lparr>t_Results := t_Results t @ [r'], t_Version := t_Version t + 1,
                                      t_UpdatedAt := now\<rparr>) s))))) s"

end
