(* ===== verification/Task_Lifecycle.thy ===== *)
theory Task_Lifecycle
  imports Task_Store
begin

section \<open>The lifecycle of a task, and that the store implements it\<close>

text \<open>
  The abstract specification of the task store is a transition relation on a single task,
  \<open>task_step\<close>: which changes of state exist and what each may touch. The refinement lemma shows
  that every method of the store is a stutter, the creation of a task, or one such step on the
  one task it names. The properties of the store follow from the steps.
\<close>

inductive task_step :: "limits \<Rightarrow> time \<Rightarrow> task \<Rightarrow> task \<Rightarrow> bool" for l :: limits and now :: time where
  dispatch: "t_State t = StateQueued \<Longrightarrow>
     task_step l now t (t\<lparr>t_State := StateDispatched, t_Version := t_Version t + 1, t_UpdatedAt := now\<rparr>)"
| fail: "t_State t \<in> {StateQueued, StateDispatched, StateCanceling} \<Longrightarrow>
     task_step l now t (t\<lparr>t_State := StateFailed, t_FailureCode := code, t_Version := t_Version t + 1,
                          t_UpdatedAt := now, t_CompletedAt := Some now\<rparr>)"
| complete: "t_State t \<in> {StateDispatched, StateCanceling} \<Longrightarrow> len response \<le> MaxResponseBytes l \<Longrightarrow>
     rs = t_Results t \<or> (t_Results t = [] \<and> (\<exists>r. rs = [r])) \<Longrightarrow>
     task_step l now t (t\<lparr>t_State := StateCompleted, t_Response := response, t_Results := rs,
                          t_Version := t_Version t + 1, t_UpdatedAt := now, t_CompletedAt := Some now\<rparr>)"
| reject: "t_State t = StateDispatched \<Longrightarrow>
     task_step l now t (t\<lparr>t_State := StateRejected, t_Response := reason, t_Version := t_Version t + 1,
        t_UpdatedAt := now, t_CompletedAt := Some now,
        t_Messages := append_message ''agent'' ''terminal_summary'' reason '''' now (t_Messages t)\<rparr>)"
| request: "request_error l t p = None \<Longrightarrow> task_step l now t (requested_task l now p t)"
| answer: "t_Interaction t = Some i \<Longrightarrow> i_Status i = InteractionPaused \<Longrightarrow> now < i_ExpiresAt i \<Longrightarrow>
     task_step l now t (answered_task now i response t)"
| expire: "t_Interaction t = Some i \<Longrightarrow> i_Status i = InteractionPaused \<Longrightarrow> i_ExpiresAt i \<le> now \<Longrightarrow>
     task_step l now t (expired_task now i t)"
| cancel: "t_Cancellation t = None \<Longrightarrow>
     t_State t \<in> {StateQueued, StateDispatched, StateInputRequired, StateAuthRequired} \<Longrightarrow>
     task_step l now t (canceled_task l now p t)"
| acknowledge: "t_State t = StateCanceling \<Longrightarrow> t_Cancellation t = Some c \<Longrightarrow>
     task_step l now t (acknowledged_task now c t)"
| progress: "t_State t = StateDispatched \<Longrightarrow>
     task_step l now t (t\<lparr>t_Progress := Some pg, t_Version := t_Version t + 1, t_UpdatedAt := now\<rparr>)"
| publish: "t_State t = StateDispatched \<Longrightarrow> len (t_Results t) < MaxResults l \<Longrightarrow>
     r_ID r \<notin> r_ID ` set (t_Results t) \<Longrightarrow> r_Name r \<notin> r_Name ` set (t_Results t) \<Longrightarrow>
     task_step l now t (t\<lparr>t_Results := t_Results t @ [r], t_Version := t_Version t + 1, t_UpdatedAt := now\<rparr>)"

lemmas task_updates_defs = requested_task_def answered_task_def expired_task_def canceled_task_def
  acknowledged_task_def append_message_def

subsection \<open>The methods as one alphabet\<close>

datatype task_op =
    OpCreate create_params
  | OpMarkDispatched agent_ref string int
  | OpFail agent_ref string int failure_code
  | OpComplete agent_ref string int string
  | OpRequest request_params
  | OpRespond respond_params
  | OpCompleteFlow flow_params
  | OpReject agent_ref string string string
  | OpCancel cancel_params
  | OpAcknowledge agent_ref string string string
  | OpProgress agent_ref string string progress_update
  | OpPublish agent_ref string string task_result

fun exec_op :: "golib \<Rightarrow> time \<Rightarrow> task_op \<Rightarrow> task_store \<Rightarrow> task_store" where
  "exec_op lib now (OpCreate p) s = snd (Create now p s)"
| "exec_op lib now (OpMarkDispatched a tid v) s = snd (MarkDispatched now a tid v s)"
| "exec_op lib now (OpFail a tid v code) s = snd (Fail now a tid v code s)"
| "exec_op lib now (OpComplete a tid v response) s = snd (Complete lib now a tid v response s)"
| "exec_op lib now (OpRequest p) s = snd (RequestInteraction now p s)"
| "exec_op lib now (OpRespond p) s = snd (RespondInteraction lib now p s)"
| "exec_op lib now (OpCompleteFlow p) s = snd (CompleteAuthorizationFlow p s)"
| "exec_op lib now (OpReject a tid attempt reason) s = snd (Reject now a tid attempt reason s)"
| "exec_op lib now (OpCancel p) s = snd (Cancel now p s)"
| "exec_op lib now (OpAcknowledge a tid attempt ack) s = snd (AcknowledgeCancel now a tid attempt ack s)"
| "exec_op lib now (OpProgress a tid attempt u) s = snd (ReportProgress lib now a tid attempt u s)"
| "exec_op lib now (OpPublish a tid attempt r) s = snd (PublishResult lib now a tid attempt r s)"

text \<open>A run: the methods called, each with the clock it read.\<close>

fun run_ops :: "golib \<Rightarrow> (time \<times> task_op) list \<Rightarrow> task_store \<Rightarrow> task_store" where
  "run_ops lib [] s = s"
| "run_ops lib ((now, op) # ops) s = run_ops lib ops (exec_op lib now op s)"

subsection \<open>Refinement\<close>

text \<open>What a method does to the map of tasks.\<close>

inductive store_effect :: "limits \<Rightarrow> time \<Rightarrow> (string, task) gomap \<Rightarrow> (string, task) gomap \<Rightarrow> bool"
  for l :: limits and now :: time where
  stutter: "store_effect l now ts ts"
| created: "map_of ts (cp_ID p) = None \<Longrightarrow> validateCreate l p = None \<Longrightarrow> len ts < MaxRetained l \<Longrightarrow>
     int (count_vals (\<lambda>t. of_agent (cp_Agent p) t \<and> outstanding_state (t_State t)) ts) < MaxOutstanding l \<Longrightarrow>
     store_effect l now ts (AList.update (cp_ID p) (new_task l now p deadline) ts)"
| stepped: "map_of ts tid = Some t \<Longrightarrow> task_step l now t t' \<Longrightarrow> store_effect l now ts (AList.update tid t' ts)"

lemma put_task_simps [simp]:
  "st_tasks (put_task tid t s) = AList.update tid t (st_tasks s)"
  "st_limits (put_task tid t s) = st_limits s"
  "st_idempotency (put_task tid t s) = st_idempotency s"
  "st_updates (put_task tid t s) = st_updates s"
  "st_cancelKeys (put_task tid t s) = st_cancelKeys s"
  "st_cancelAcks (put_task tid t s) = st_cancelAcks s"
  "st_interactionKeys (put_task tid t s) = st_interactionKeys s"
  "st_authorizationFlows (put_task tid t s) = st_authorizationFlows s"
  by (simp_all add: put_task_def)

lemma remember_cancel_simps [simp]:
  "st_tasks (remember_cancel p tid ap s) = st_tasks s"
  "st_limits (remember_cancel p tid ap s) = st_limits s"
  "st_idempotency (remember_cancel p tid ap s) = st_idempotency s"
  "st_updates (remember_cancel p tid ap s) = st_updates s"
  "st_cancelAcks (remember_cancel p tid ap s) = st_cancelAcks s"
  "st_interactionKeys (remember_cancel p tid ap s) = st_interactionKeys s"
  "st_authorizationFlows (remember_cancel p tid ap s) = st_authorizationFlows s"
  by (simp_all add: remember_cancel_def)

lemma locked_InrD: "locked s a tid = Inr t \<Longrightarrow> map_of (st_tasks s) tid = Some t \<and> of_agent a t"
  by (auto simp: locked_def split: option.splits if_splits)

text \<open>A located method keeps any property its body keeps.\<close>

lemma on_taskI:
  assumes "P s" "\<And>t. map_of (st_tasks s) tid = Some t \<Longrightarrow> of_agent a t \<Longrightarrow> P (snd (f t))"
  shows "P (snd (on_task a tid f s))"
  using assms by (auto simp: on_task_def dest: locked_InrD split: sum.splits)

text \<open>A part of the store that the body of a located method keeps, the method keeps.\<close>

lemma on_task_frame:
  assumes "\<And>t. map_of (st_tasks s) tid = Some t \<Longrightarrow> g (snd (f t)) = g s"
  shows "g (snd (on_task a tid f s)) = g s"
  using assms by (simp add: on_task_def locked_def split: option.split)

abbreviation effect_of :: "time \<Rightarrow> task_store \<Rightarrow> task_store \<Rightarrow> bool" where
  "effect_of now s s' \<equiv> store_effect (st_limits s) now (st_tasks s) (st_tasks s')"

text \<open>A located method has an allowed effect if its body has one.\<close>

lemma on_task_effect:
  assumes "\<And>t. map_of (st_tasks s) tid = Some t \<Longrightarrow> effect_of now s (snd (f t))"
  shows "effect_of now s (snd (on_task a tid f s))"
  using assms by (simp add: on_task_def locked_def stutter split: option.split)

lemmas step_effects = stepped [OF _ dispatch] stepped [OF _ fail] stepped [OF _ complete]
  stepped [OF _ reject] stepped [OF _ request] stepped [OF _ answer] stepped [OF _ expire]
  stepped [OF _ cancel] stepped [OF _ acknowledge] stepped [OF _ progress] stepped [OF _ publish]

lemma Create_effect: "effect_of now s (snd (Create now p s))"
  by (simp add: Create_def create_fresh_def Let_def stutter not_le created split: option.split)

lemma MarkDispatched_effect: "effect_of now s (snd (MarkDispatched now a tid v s))"
  unfolding MarkDispatched_def
  by (rule on_task_effect) (auto simp: stutter stepped [OF _ dispatch])

lemma Fail_effect: "effect_of now s (snd (Fail now a tid v code s))"
  unfolding Fail_def
  by (rule on_task_effect) (auto simp: stutter stepped [OF _ fail])

lemma Complete_effect: "effect_of now s (snd (Complete lib now a tid v response s))"
proof (cases "len response > MaxResponseBytes (st_limits s)")
  case False
  show ?thesis
    unfolding Complete_def if_not_P [OF False]
  proof (rule on_task_effect)
    fix t assume t: "map_of (st_tasks s) tid = Some t"
    let ?rs = "if response \<noteq> '''' \<and> t_Results t = [] then [response_result lib now t response] else t_Results t"
    let ?t = "t\<lparr>t_State := StateCompleted, t_Response := response, t_Results := ?rs,
                t_Version := t_Version t + 1, t_UpdatedAt := now, t_CompletedAt := Some now\<rparr>"
    show "effect_of now s (snd (if t_State t = StateCompleted \<and> t_Response t = response then (Inr (), s)
        else if t_Version t \<noteq> v \<or> t_State t \<notin> {StateDispatched, StateCanceling} then (Inl ErrConflict, s)
        else (Inr (), put_task tid ?t s)))"
    proof (cases "t_State t \<in> {StateDispatched, StateCanceling}")
      case True
      have "task_step (st_limits s) now t ?t"
        by (rule complete) (use True False in auto)
      from stepped [OF t this] show ?thesis
        by (cases "t_State t = StateCompleted \<and> t_Response t = response"; cases "t_Version t = v")
          (simp_all only: True simp_thms if_True if_False snd_conv put_task_simps stutter)
    qed (simp add: stutter)
  qed
qed (simp add: Complete_def stutter)

lemma RequestInteraction_effect: "effect_of now s (snd (RequestInteraction now p s))"
  unfolding RequestInteraction_def
  by (rule on_task_effect) (simp add: stutter Let_def stepped [OF _ request] split: option.split)

lemma respond_paused_effect:
  assumes "map_of (st_tasks s) (sp_TaskID p) = Some t" "t_Interaction t = Some i" "i_Status i = InteractionPaused"
  shows "effect_of now s (snd (respond_paused lib now p i t s))"
  using assms
  by (simp add: respond_paused_def Let_def stutter not_le stepped [OF _ answer] stepped [OF _ expire]
      split: sum.split)

lemma RespondInteraction_effect: "effect_of now s (snd (RespondInteraction lib now p s))"
  unfolding RespondInteraction_def
  by (rule on_task_effect) (simp add: stutter respond_paused_effect split: option.split)

lemma CompleteAuthorizationFlow_effect: "effect_of now s (snd (CompleteAuthorizationFlow p s))"
  by (simp add: CompleteAuthorizationFlow_def stutter split: option.split)

lemma Reject_effect: "effect_of now s (snd (Reject now a tid attempt reason s))"
proof (cases "attempt = '''' \<or> blank reason \<or> len reason > MaxResponseBytes (st_limits s)")
  case False
  show ?thesis
    unfolding Reject_def if_not_P [OF False]
    by (rule on_task_effect) (simp add: stutter Let_def stepped [OF _ reject])
qed (simp add: Reject_def stutter)

lemma cancel_located_effect:
  assumes "map_of (st_tasks s) (xp_TaskID p) = Some t"
  shows "effect_of now s (snd (cancel_located now p t s))"
proof -
  have "t_State t \<in> {StateQueued, StateDispatched, StateInputRequired, StateAuthRequired}"
    if "t_State t \<noteq> StateCanceled" "t_State t \<noteq> StateCanceling" "t_State t \<noteq> StateCompleted"
      "t_State t \<noteq> StateFailed" "t_State t \<noteq> StateRejected"
    using that by (cases "t_State t") simp_all
  with assms show ?thesis
    by (simp add: cancel_located_def Let_def stutter stepped [OF _ cancel])
qed

lemma Cancel_effect: "effect_of now s (snd (Cancel now p s))"
proof -
  have "effect_of now s (snd (on_task (xp_Agent p) (xp_TaskID p) (\<lambda>t.
        if \<not> may_act (xp_Authorization p) (xp_RequestedBy p) t then (Inl ErrNotFound, s)
        else case (if xp_IdempotencyKey p \<noteq> '''' then map_of (st_cancelKeys s) (cancel_key p) else None) of
               Some prior \<Rightarrow>
                 (if ck_hash prior \<noteq> xp_RequestHash p then (Inl ErrIdempotencyConflict, s)
                  else (Inr \<lparr>cr_Task = t, cr_Applied = ck_applied prior, cr_Replay = True\<rparr>, s))
             | None \<Rightarrow> cancel_located now p t s) s))"
    by (rule on_task_effect) (simp add: stutter cancel_located_effect split: option.split)
  then show ?thesis by (simp add: Cancel_def stutter del: not_None_eq)
qed

lemma AcknowledgeCancel_effect: "effect_of now s (snd (AcknowledgeCancel now a tid attempt ack s))"
proof (cases "attempt = '''' \<or> ack = ''''")
  case False
  show ?thesis
    unfolding AcknowledgeCancel_def if_not_P [OF False]
    by (rule on_task_effect) (simp add: stutter Let_def stepped [OF _ acknowledge] split: option.split)
qed (simp add: AcknowledgeCancel_def stutter)

lemma ReportProgress_effect: "effect_of now s (snd (ReportProgress lib now a tid attempt u s))"
  unfolding ReportProgress_def
  by (rule on_task_effect) (simp add: stutter Let_def stepped [OF _ progress] split: option.split)

lemma find_result_None:
  "find_result d r rs = None \<Longrightarrow> r_ID r \<notin> r_ID ` set rs \<and> r_Name r \<notin> r_Name ` set rs"
  by (induction d r rs rule: find_result.induct) (auto split: if_splits)

lemma PublishResult_effect: "effect_of now s (snd (PublishResult lib now a tid attempt r s))"
  unfolding PublishResult_def
  by (rule on_task_effect)
    (simp add: stutter Let_def stepped [OF _ publish] find_result_None split: option.split sum.split)

lemmas effects = Create_effect MarkDispatched_effect Fail_effect Complete_effect RequestInteraction_effect
  RespondInteraction_effect CompleteAuthorizationFlow_effect Reject_effect Cancel_effect
  AcknowledgeCancel_effect ReportProgress_effect PublishResult_effect

lemma store_refines: "store_effect (st_limits s) now (st_tasks s) (st_tasks (exec_op lib now op s))"
  by (cases op) (simp_all add: effects)


end
