(* ===== verification/Task_Invariant.thy ===== *)
theory Task_Invariant
  imports Task_Lifecycle
begin

section \<open>The invariant of the task store\<close>

text \<open>
  What holds of every task, and of the store, after any sequence of calls. The invariant of a
  task is preserved by every step of the lifecycle; the refinement of \<open>Task_Lifecycle\<close> carries it
  to the store.
\<close>

inductive_cases task_stepE: "task_step l now t t'"

definition terminal :: "task_state \<Rightarrow> bool" where
  "terminal st \<longleftrightarrow> st \<in> {StateCanceled, StateCompleted, StateFailed, StateRejected}"

definition paused :: "task \<Rightarrow> bool" where
  "paused t \<longleftrightarrow> (case t_Interaction t of None \<Rightarrow> False | Some i \<Rightarrow> i_Status i = InteractionPaused)"

lemma terminal_outstanding: "terminal st \<longleftrightarrow> \<not> outstanding_state st"
  by (cases st) (simp_all add: terminal_def outstanding_state_def)

subsection \<open>What no step changes, and what every step does\<close>

text \<open>The fields fixed at creation.\<close>

definition identity_of :: "task \<Rightarrow> string \<times> agent_ref \<times> authorization \<times> string \<times> string \<times> string \<times> time \<times> time" where
  "identity_of t =
     (t_ID t, \<lparr>ref_Namespace = t_AgentNamespace t, ref_Name = t_AgentName t\<rparr>,
      \<lparr>TenantID = t_TenantID t, PrincipalID = t_OwnerPrincipalID t, AgentResourceID = t_AgentResourceID t\<rparr>,
      t_CreatedBy t, t_Prompt t, t_Correlation t, t_CreatedAt t, t_DeadlineAt t)"

lemma task_step_identity: "task_step l now t t' \<Longrightarrow> identity_of t' = identity_of t"
  by (erule task_stepE) (simp_all add: identity_of_def task_updates_defs Let_def)

lemma task_step_version: "task_step l now t t' \<Longrightarrow> t_Version t' = t_Version t + 1 \<and> t_UpdatedAt t' = now"
  by (erule task_stepE) (simp_all add: task_updates_defs Let_def)

lemma identity_agent: "identity_of t' = identity_of t \<Longrightarrow> of_agent a t' = of_agent a t"
  by (simp add: identity_of_def of_agent_def)

lemma identity_owner: "identity_of t' = identity_of t \<Longrightarrow> owned_by auth t' = owned_by auth t"
  by (simp add: identity_of_def owned_by_def)

lemma identity_ID: "identity_of t' = identity_of t \<Longrightarrow> t_ID t' = t_ID t"
  by (simp add: identity_of_def)

text \<open>A terminal task only takes the two steps of a paused interaction.\<close>

lemma terminal_step:
  "task_step l now t t' \<Longrightarrow> terminal (t_State t) \<Longrightarrow>
     paused t \<and> t_State t = t_State t \<and> (t_State t' = StateQueued \<or> t_State t' = StateFailed)"
  by (erule task_stepE)
    (auto simp: terminal_def paused_def task_updates_defs request_error_def split: if_splits)

subsection \<open>The invariant of a task\<close>

definition sequenced :: "message list \<Rightarrow> bool" where
  "sequenced ms \<longleftrightarrow> map msg_Sequence ms = map int [1..<Suc (length ms)]"

lemma sequenced_append [simp]:
  "sequenced (append_message role kind txt dat now ms) \<longleftrightarrow> sequenced ms"
  by (simp add: sequenced_def append_message_def)

lemma append_message_length [simp]: "len (append_message role kind txt dat now ms) = len ms + 1"
  by (simp add: append_message_def)

definition requests :: "task \<Rightarrow> int" where
  "requests t = len (filter is_request (t_Messages t))"

definition task_ok :: "limits \<Rightarrow> task \<Rightarrow> bool" where
  "task_ok l t \<longleftrightarrow>
     t_Version t \<ge> 1 \<and> sequenced (t_Messages t)
     \<and> requests t \<le> MaxInteractions l
     \<and> distinct (map r_ID (t_Results t)) \<and> distinct (map r_Name (t_Results t))
     \<and> len (t_Results t) \<le> MaxResults l
     \<and> (terminal (t_State t) \<longrightarrow> t_CompletedAt t \<noteq> None)
     \<and> (t_State t \<in> {StateInputRequired, StateAuthRequired} \<longrightarrow> paused t)
     \<and> (paused t \<longrightarrow> t_State t \<in> {StateInputRequired, StateAuthRequired, StateCanceled}
                     \<and> len (t_Messages t) \<le> MaxMessages l - 1)
     \<and> (t_State t = StateCanceling \<longrightarrow> t_Cancellation t \<noteq> None)
     \<and> len (t_Messages t) \<le> MaxMessages l + (if t_State t = StateRejected then 2 else 1)"

lemma requests_append [simp]:
  "len (filter is_request (append_message role kind txt dat now ms))
     = len (filter is_request ms) + (if kind = ''input_request'' \<or> kind = ''authorization_request'' then 1 else 0)"
  by (simp add: append_message_def is_request_def)

lemma request_errorD:
  "request_error l t p = None \<Longrightarrow>
     t_State t = StateDispatched \<and> \<not> interaction_open t \<and> requests t < MaxInteractions l
     \<and> len (t_Messages t) + 1 < MaxMessages l"
  by (auto simp: request_error_def requests_def split: if_splits)

lemma task_ok_new:
  "limits_Validate l \<Longrightarrow> task_ok l (new_task l now p deadline)"
  by (simp add: task_ok_def new_task_def Let_def sequenced_def requests_def is_request_def limits_Validate_def
      terminal_def paused_def)

lemma task_ok_step:
  assumes "limits_Validate l" "task_step l now t t'" "task_ok l t"
  shows "task_ok l t'"
  using assms(2)
proof (cases rule: task_step.cases)
  case (request p)
  with assms(3) request_errorD [OF request(2)] show ?thesis
    by (auto simp: task_ok_def requested_task_def Let_def requests_def terminal_def paused_def)
next
  case (answer i response)
  with assms(3) show ?thesis
    by (auto simp: task_ok_def answered_task_def requests_def terminal_def paused_def)
next
  case (expire i)
  with assms(3) show ?thesis
    by (auto simp: task_ok_def expired_task_def requests_def terminal_def paused_def)
next
  case (cancel p)
  have same: "t_Messages t' = t_Messages t" "t_Results t' = t_Results t" "paused t' = paused t"
    "t_Version t' = t_Version t + 1" "t_Cancellation t' \<noteq> None"
    by (simp_all add: cancel(1) canceled_task_def Let_def paused_def)
  show ?thesis
  proof (cases "t_State t = StateDispatched")
    case True
    then have "t_State t' = StateCanceling"
      by (simp add: cancel(1) canceled_task_def Let_def)
    with same True assms(3) show ?thesis by (simp add: task_ok_def requests_def terminal_def)
  next
    case False
    with cancel(3) have "t_State t' = StateCanceled" "t_CompletedAt t' \<noteq> None"
      by (auto simp: cancel(1) canceled_task_def Let_def)
    moreover have "t_State t \<noteq> StateRejected" using cancel(3) by auto
    ultimately show ?thesis
      using same assms(3) by (simp add: task_ok_def requests_def terminal_def)
  qed
next
  case (acknowledge c)
  with assms(3) show ?thesis
    by (auto simp: task_ok_def acknowledged_task_def requests_def terminal_def paused_def split: option.splits)
next
  case (complete response rs)
  from assms(1) have "1 \<le> MaxResults l" by (simp add: limits_Validate_def)
  with complete(4) assms(3) have rs: "distinct (map r_ID rs)" "distinct (map r_Name rs)" "len rs \<le> MaxResults l"
    by (auto simp: task_ok_def)
  have "t_State t \<noteq> StateRejected" and np: "\<not> paused t"
    using complete(2) assms(3) by (auto simp: task_ok_def)
  then show ?thesis
    using rs assms(3) by (simp add: complete(1) task_ok_def requests_def terminal_def paused_def)
next
  case (publish r)
  with assms(3) show ?thesis
    by (auto simp: task_ok_def requests_def terminal_def paused_def split: option.splits)
next
  case dispatch
  then show ?thesis
    using assms(3) by (simp add: task_ok_def requests_def terminal_def paused_def)
next
  case (fail code)
  have "t_State t \<noteq> StateRejected" and "\<not> paused t"
    using fail(2) assms(3) by (auto simp: task_ok_def)
  then show ?thesis
    using assms(3) by (simp add: fail(1) task_ok_def requests_def terminal_def paused_def)
next
  case (reject reason)
  then show ?thesis
    using assms(3) by (simp add: task_ok_def requests_def terminal_def paused_def)
next
  case (progress pg)
  then show ?thesis
    using assms(3) by (simp add: task_ok_def requests_def terminal_def paused_def)
qed

subsection \<open>The invariant of the store\<close>

definition tasks_ok :: "limits \<Rightarrow> (string, task) gomap \<Rightarrow> bool" where
  "tasks_ok l ts \<longleftrightarrow>
     go_wf ts \<and> len ts \<le> MaxRetained l
     \<and> (\<forall>tid t. map_of ts tid = Some t \<longrightarrow> t_ID t = tid \<and> task_ok l t)"

definition updates_ok :: "task_store \<Rightarrow> bool" where
  "updates_ok s \<longleftrightarrow>
     (\<forall>tid. len (task_updates s tid) \<le> MaxProgressUpdates (st_limits s)
        \<and> (task_updates s tid \<noteq> [] \<longrightarrow>
             (\<exists>t. map_of (st_tasks s) tid = Some t \<and> t_Progress t \<noteq> None)))"

definition store_ok :: "task_store \<Rightarrow> bool" where
  "store_ok s \<longleftrightarrow> limits_Validate (st_limits s) \<and> tasks_ok (st_limits s) (st_tasks s) \<and> updates_ok s"

lemma tasks_ok_effect:
  assumes "store_effect l now ts ts'" "limits_Validate l" "tasks_ok l ts"
  shows "tasks_ok l ts'"
  using assms(1)
proof cases
  case (created p deadline)
  have "t_ID (new_task l now p deadline) = cp_ID p" by (simp add: new_task_def Let_def)
  with created assms(2,3) task_ok_new [OF assms(2), of now p deadline] show ?thesis
    by (simp add: tasks_ok_def update_conv' distinct_update length_update_new)
next
  case (stepped tid t t')
  have "t_ID t' = t_ID t" by (rule identity_ID [OF task_step_identity [OF stepped(3)]])
  moreover have "task_ok l t'"
    using assms(3) stepped(2) by (intro task_ok_step [OF assms(2) stepped(3)]) (simp add: tasks_ok_def)
  ultimately show ?thesis
    using stepped assms(3) by (simp add: tasks_ok_def update_conv' distinct_update length_update_old)
qed (use assms in simp)

lemma effect_keeps_tasks:
  assumes "store_effect l now ts ts'" "map_of ts tid = Some t"
  shows "\<exists>t'. map_of ts' tid = Some t' \<and> (t' = t \<or> task_step l now t t')"
  using assms by cases (auto simp: update_conv')

lemma task_step_progress: "task_step l now t t' \<Longrightarrow> t_Progress t \<noteq> None \<Longrightarrow> t_Progress t' \<noteq> None"
  by (erule task_stepE) (simp_all add: task_updates_defs Let_def)

lemma frame_Create: "st_limits (snd (Create now p s)) = st_limits s" "st_updates (snd (Create now p s)) = st_updates s"
  by (simp_all add: Create_def create_fresh_def Let_def split: option.split)

lemma frame_dispatch:
  "st_limits (snd (MarkDispatched now a tid v s)) = st_limits s"
  "st_updates (snd (MarkDispatched now a tid v s)) = st_updates s"
  "st_idempotency (snd (MarkDispatched now a tid v s)) = st_idempotency s"
  unfolding MarkDispatched_def by (rule on_task_frame; simp)+

lemma frame_Fail:
  "st_limits (snd (Fail now a tid v code s)) = st_limits s"
  "st_updates (snd (Fail now a tid v code s)) = st_updates s"
  "st_idempotency (snd (Fail now a tid v code s)) = st_idempotency s"
  unfolding Fail_def by (rule on_task_frame; simp)+

lemma frame_Complete:
  "st_limits (snd (Complete lib now a tid v response s)) = st_limits s"
  "st_updates (snd (Complete lib now a tid v response s)) = st_updates s"
  "st_idempotency (snd (Complete lib now a tid v response s)) = st_idempotency s"
  unfolding Complete_def if_distrib [of snd] if_distrib [of st_limits] if_distrib [of st_updates] if_distrib [of st_idempotency]
  by (subst on_task_frame; simp)+

lemma frame_Request:
  "st_limits (snd (RequestInteraction now p s)) = st_limits s"
  "st_updates (snd (RequestInteraction now p s)) = st_updates s"
  "st_idempotency (snd (RequestInteraction now p s)) = st_idempotency s"
  unfolding RequestInteraction_def by (rule on_task_frame; simp add: Let_def split: option.split)+

lemma frame_respond_paused:
  "st_limits (snd (respond_paused lib now p i t s)) = st_limits s"
  "st_updates (snd (respond_paused lib now p i t s)) = st_updates s"
  "st_idempotency (snd (respond_paused lib now p i t s)) = st_idempotency s"
  by (simp_all add: respond_paused_def Let_def split: sum.split)

lemma frame_Respond:
  "st_limits (snd (RespondInteraction lib now p s)) = st_limits s"
  "st_updates (snd (RespondInteraction lib now p s)) = st_updates s"
  "st_idempotency (snd (RespondInteraction lib now p s)) = st_idempotency s"
  unfolding RespondInteraction_def
  by (rule on_task_frame; simp add: frame_respond_paused split: option.split)+

lemma frame_CompleteFlow:
  "st_limits (snd (CompleteAuthorizationFlow p s)) = st_limits s"
  "st_updates (snd (CompleteAuthorizationFlow p s)) = st_updates s"
  "st_idempotency (snd (CompleteAuthorizationFlow p s)) = st_idempotency s"
  by (simp_all add: CompleteAuthorizationFlow_def split: option.split)

lemma frame_Reject:
  "st_limits (snd (Reject now a tid attempt reason s)) = st_limits s"
  "st_updates (snd (Reject now a tid attempt reason s)) = st_updates s"
  "st_idempotency (snd (Reject now a tid attempt reason s)) = st_idempotency s"
  unfolding Reject_def if_distrib [of snd] if_distrib [of st_limits] if_distrib [of st_updates] if_distrib [of st_idempotency]
  by (subst on_task_frame; simp add: Let_def)+

lemma frame_cancel_located:
  "st_limits (snd (cancel_located now p t s)) = st_limits s"
  "st_updates (snd (cancel_located now p t s)) = st_updates s"
  "st_idempotency (snd (cancel_located now p t s)) = st_idempotency s"
  by (simp_all add: cancel_located_def Let_def)

lemma frame_Cancel:
  "st_limits (snd (Cancel now p s)) = st_limits s"
  "st_updates (snd (Cancel now p s)) = st_updates s"
  "st_idempotency (snd (Cancel now p s)) = st_idempotency s"
  unfolding Cancel_def if_distrib [of snd] if_distrib [of st_limits] if_distrib [of st_updates] if_distrib [of st_idempotency]
  by (subst on_task_frame; simp add: frame_cancel_located split: option.split)+

lemma frame_Acknowledge:
  "st_limits (snd (AcknowledgeCancel now a tid attempt ack s)) = st_limits s"
  "st_updates (snd (AcknowledgeCancel now a tid attempt ack s)) = st_updates s"
  "st_idempotency (snd (AcknowledgeCancel now a tid attempt ack s)) = st_idempotency s"
  unfolding AcknowledgeCancel_def if_distrib [of snd] if_distrib [of st_limits] if_distrib [of st_updates] if_distrib [of st_idempotency]
  by (subst on_task_frame; simp add: Let_def split: option.split)+

lemma frame_Publish:
  "st_limits (snd (PublishResult lib now a tid attempt r s)) = st_limits s"
  "st_updates (snd (PublishResult lib now a tid attempt r s)) = st_updates s"
  "st_idempotency (snd (PublishResult lib now a tid attempt r s)) = st_idempotency s"
  unfolding PublishResult_def by (rule on_task_frame; simp add: Let_def split: option.split sum.split)+

lemma frame_Progress:
  "st_limits (snd (ReportProgress lib now a tid attempt u s)) = st_limits s"
  "st_idempotency (snd (ReportProgress lib now a tid attempt u s)) = st_idempotency s"
  unfolding ReportProgress_def by (rule on_task_frame; simp add: Let_def split: option.split)+

lemmas frames = frame_Create frame_dispatch frame_Fail frame_Complete frame_Request frame_Respond
  frame_CompleteFlow frame_Reject frame_Cancel frame_Acknowledge frame_Publish frame_Progress

lemma exec_limits [simp]: "st_limits (exec_op lib now op s) = st_limits s"
  by (cases op) (simp_all add: frames)

fun is_progress_op :: "task_op \<Rightarrow> bool" where
  "is_progress_op (OpProgress a tid attempt u) = True"
| "is_progress_op op = False"

lemma exec_updates:
  "\<not> is_progress_op op \<Longrightarrow> st_updates (exec_op lib now op s) = st_updates s"
  by (cases op) (simp_all add: frames)

text \<open>A recorded create key is never forgotten or overwritten.\<close>

lemma Create_keys:
  assumes "map_of (st_idempotency s) k = Some r"
  shows "map_of (st_idempotency (snd (Create now p s))) k = Some r"
  using assms
  by (auto simp: Create_def create_fresh_def Let_def update_conv' split: option.split)

lemma exec_keys:
  "map_of (st_idempotency s) k = Some r \<Longrightarrow> map_of (st_idempotency (exec_op lib now op s)) k = Some r"
  by (cases op) (simp_all add: frames Create_keys)

lemma task_updates_frame:
  "st_updates s' = st_updates s \<Longrightarrow> task_updates s' tid = task_updates s tid"
  by (simp add: task_updates_def)

text \<open>A report stores the update and the task's progress together.\<close>

lemma ReportProgress_updates:
  assumes "updates_ok s"
  shows "updates_ok (snd (ReportProgress lib now a tid attempt u s))"
  unfolding ReportProgress_def
proof (rule on_taskI [where P = updates_ok])
  fix t assume t: "map_of (st_tasks s) tid = Some t"
  let ?s = "\<lambda>pg. (put_task tid (t\<lparr>t_Progress := Some pg, t_Version := t_Version t + 1, t_UpdatedAt := now\<rparr>) s)
      \<lparr>st_updates := AList.update tid (AList.update (UpdateID u) (progressDigest lib u) (task_updates s tid))
                       (st_updates s)\<rparr>"
  have step: "updates_ok (?s pg)"
    if "map_of (task_updates s tid) (UpdateID u) = None"
      "len (task_updates s tid) < MaxProgressUpdates (st_limits s)" for pg
    using assms that
    by (simp add: updates_ok_def task_updates_def update_conv' length_update_new)
  show "updates_ok (snd (case validateProgress (st_limits s) attempt u of Some err \<Rightarrow> (Inl err, s)
     | None \<Rightarrow>
         (case map_of (task_updates s tid) (UpdateID u) of
            Some prior \<Rightarrow>
              (if prior \<noteq> progressDigest lib u then (Inl ErrUpdateConflict, s)
               else case t_Progress t of None \<Rightarrow> (Inl NilDereference, s) | Some pg \<Rightarrow> (Inr (pg, True), s))
          | None \<Rightarrow>
              (if t_State t \<noteq> StateDispatched then (Inl ErrConflict, s)
               else if len (task_updates s tid) \<ge> MaxProgressUpdates (st_limits s) then (Inl ErrUpdateLimit, s)
               else (let pg = \<lparr>pg_Message = up_Message u, pg_Percent = up_Percent u, pg_UpdatedAt = now\<rparr>;
                         s' = put_task tid (t\<lparr>t_Progress := Some pg, t_Version := t_Version t + 1,
                                              t_UpdatedAt := now\<rparr>) s
                     in (Inr (pg, False),
                         s'\<lparr>st_updates := AList.update tid
                              (AList.update (UpdateID u) (progressDigest lib u) (task_updates s tid))
                              (st_updates s')\<rparr>))))))"
    using assms step by (simp add: Let_def split: option.split)
qed (rule assms)

lemma exec_updates_ok:
  assumes "updates_ok s"
  shows "updates_ok (exec_op lib now op s)"
proof (cases "is_progress_op op")
  case True
  then show ?thesis using assms by (cases op) (simp_all add: ReportProgress_updates)
next
  case False
  show ?thesis
    unfolding updates_ok_def
  proof (intro allI conjI impI)
    fix tid
    note same = task_updates_frame [OF exec_updates [OF False]]
    show "len (task_updates (exec_op lib now op s) tid) \<le> MaxProgressUpdates (st_limits (exec_op lib now op s))"
      using assms by (simp add: same updates_ok_def)
    assume "task_updates (exec_op lib now op s) tid \<noteq> []"
    then obtain t where t: "map_of (st_tasks s) tid = Some t" "t_Progress t \<noteq> None"
      using assms by (auto simp: same updates_ok_def)
    obtain t' where "map_of (st_tasks (exec_op lib now op s)) tid = Some t'"
      and "t' = t \<or> task_step (st_limits s) now t t'"
      using effect_keeps_tasks [OF store_refines [of s now lib op] t(1)] by blast
    with t(2) show "\<exists>t. map_of (st_tasks (exec_op lib now op s)) tid = Some t \<and> t_Progress t \<noteq> None"
      using task_step_progress by blast
  qed
qed

lemma exec_store_ok: "store_ok s \<Longrightarrow> store_ok (exec_op lib now op s)"
  by (auto simp: store_ok_def exec_updates_ok intro: tasks_ok_effect [OF store_refines])

lemma run_store_ok: "store_ok s \<Longrightarrow> store_ok (run_ops lib ops s)"
  by (induction lib ops s rule: run_ops.induct) (simp_all add: exec_store_ok)

lemma new_store_ok:
  assumes "NewMemoryStore l = Some s"
  shows "store_ok s"
proof -
  from assms have v: "limits_Validate l" and s: "st_limits s = l" "st_tasks s = []" "st_updates s = []"
    by (simp_all add: NewMemoryStore_def split: if_splits) auto
  from v have "0 < MaxRetained l" "0 < MaxProgressUpdates l" by (simp_all add: limits_Validate_def)
  with v s show ?thesis by (simp add: store_ok_def tasks_ok_def updates_ok_def task_updates_def)
qed

lemmas [inv_intros] = exec_store_ok run_store_ok new_store_ok task_ok_step

text \<open>
  C8: the store's invariant. In every store reached by any calls from an empty one, no more than
  the retained limit of tasks exist and each is stored under its own id, with a positive version,
  message sequences 1 to n, distinct result ids and names within the result limit, at most the
  allowed interaction requests, a completion time when it is terminal, a paused interaction when
  it waits for one, and at most two messages beyond the message limit; recorded progress updates
  are within their limit and their task has its progress.
\<close>

theorem store_invariant:
  assumes "NewMemoryStore l = Some s0"
  shows "store_ok (run_ops lib ops s0)"
  using assms by (intro inv_intros)

end
