(* ===== verification/Task_Properties.thy ===== *)
theory Task_Properties
  imports Task_Invariant
begin

section \<open>What the task store promises\<close>

text \<open>
  The promises a caller of the store relies on, over any sequence of later calls by anybody:
  versions identify contents, terminal tasks stay as they are, creating with a used key replays,
  a cancellation is applied once, a caller never reaches another owner's task; and the one case
  where a terminal task comes back.
\<close>

subsection \<open>Over a run\<close>

text \<open>What a task of the store becomes over a run.\<close>

lemma run_keeps_task:
  assumes "map_of (st_tasks s) tid = Some t"
    and "\<And>l now u u'. task_step l now u u' \<Longrightarrow> R u u'"
    and "\<And>u. R u u" and "\<And>u v w. R u v \<Longrightarrow> R v w \<Longrightarrow> R u w"
  shows "\<exists>t'. map_of (st_tasks (run_ops lib ops s)) tid = Some t' \<and> R t t'"
  using assms(1)
proof (induction lib ops s arbitrary: t rule: run_ops.induct)
  case (2 lib now op ops s)
  obtain t1 where t1: "map_of (st_tasks (exec_op lib now op s)) tid = Some t1" "R t t1"
    using effect_keeps_tasks [OF store_refines [of s now lib op] 2(2)] assms(2,3) by blast
  from 2(1) [OF t1(1)] t1(2) assms(4) show ?case by auto
qed (use assms(3) in auto)

text \<open>
  C9: versions identify contents. A task in the store keeps its id, agent, owner, creator, prompt
  and deadline for ever; its version never falls, and as long as the version is the same the whole
  task is the same, so a caller that acts on a version acts on the task it read.
\<close>

theorem version_identifies_content:
  assumes "map_of (st_tasks s) tid = Some t"
  shows "\<exists>t'. map_of (st_tasks (run_ops lib ops s)) tid = Some t' \<and> identity_of t' = identity_of t
           \<and> t_Version t \<le> t_Version t' \<and> (t_Version t' = t_Version t \<longrightarrow> t' = t)"
proof (rule run_keeps_task [OF assms])
  fix l now u u' assume step: "task_step l now u u'"
  then show "identity_of u' = identity_of u \<and> t_Version u \<le> t_Version u'
      \<and> (t_Version u' = t_Version u \<longrightarrow> u' = u)"
    using task_step_version [OF step] task_step_identity [OF step] by simp
qed auto

text \<open>
  C10: finished tasks are final. In any reachable store, a task that is completed, failed or
  rejected, or canceled without an interaction left paused, is exactly the same task after any
  further calls.
\<close>

theorem terminal_tasks_final:
  assumes "NewMemoryStore l = Some s0" and "s = run_ops lib0 ops0 s0"
    and "map_of (st_tasks s) tid = Some t" and "terminal (t_State t)"
    and "t_State t \<noteq> StateCanceled \<or> \<not> paused t"
  shows "map_of (st_tasks (run_ops lib ops s)) tid = Some t"
proof -
  have "store_ok s" using assms(1,2) by (simp add: new_store_ok run_store_ok)
  then have "task_ok (st_limits s) t"
    using assms(3) by (simp add: store_ok_def tasks_ok_def)
  then have "\<not> paused t"
    using assms(4,5) by (auto simp: task_ok_def terminal_def)
  with assms(4) have closed: "\<not> task_step l' now t t'" for l' now t'
    using terminal_step by blast
  have "\<exists>t'. map_of (st_tasks (run_ops lib ops s)) tid = Some t' \<and> ((\<forall>l now v. \<not> task_step l now t v) \<longrightarrow> t' = t)"
    using assms(3)
  proof (induction lib ops s rule: run_ops.induct)
    case (2 lib now op ops s)
    from effect_keeps_tasks [OF store_refines [of s now lib op] 2(2)] closed
    have "map_of (st_tasks (exec_op lib now op s)) tid = Some t" by blast
    from 2(1) [OF this] show ?case by simp
  qed simp
  with closed show ?thesis by blast
qed

subsection \<open>Creating\<close>

lemma Create_fresh_key:
  assumes "Create now p s = (Inr (t, False), s')" and "cp_IdempotencyKey p \<noteq> ''''"
  shows "map_of (st_idempotency s') (create_key p)
           = Some \<lparr>idem_hash = cp_RequestHash p, idem_taskID = cp_ID p\<rparr>
         \<and> map_of (st_tasks s') (cp_ID p) = Some t \<and> owned_by (effective_auth p) t
         \<and> validateCreate (st_limits s') p = None"
  using assms
  by (auto simp: Create_def create_fresh_def Let_def update_conv' new_task_def owned_by_def
      split: option.splits if_splits)

lemma run_keys:
  "map_of (st_idempotency s) k = Some r \<Longrightarrow> map_of (st_idempotency (run_ops lib ops s)) k = Some r"
  by (induction lib ops s rule: run_ops.induct) (simp_all add: exec_keys)

lemma run_limits [simp]: "st_limits (run_ops lib ops s) = st_limits s"
  by (induction lib ops s rule: run_ops.induct) simp_all


subsection \<open>Other owners' tasks\<close>

text \<open>
  C12: a caller whose authorization does not own a task cannot see it, cancel it or answer for it:
  the task reads as absent, and the store is left exactly as it was.
\<close>

theorem foreign_task_invisible:
  assumes "map_of (st_tasks s) tid = Some t" and "\<not> owned_by auth t" and "auth_Valid auth"
  shows "GetAuthorized a tid auth s = Inl ErrNotFound
         \<and> (xp_TaskID p = tid \<and> xp_Authorization p = auth \<longrightarrow>
              snd (Cancel now p s) = s \<and> fst (Cancel now p s) \<in> {Inl ErrNotFound, Inl ErrInvalid, Inl ErrCancelReasonTooLarge})
         \<and> (sp_TaskID r = tid \<and> sp_Authorization r = auth \<longrightarrow>
              RespondInteraction lib now r s = (Inl ErrNotFound, s))"
  using assms
  by (auto simp: GetAuthorized_def Cancel_def RespondInteraction_def on_task_def locked_def may_act_def)

subsection \<open>Cancellation\<close>

lemma task_step_cancellation:
  "task_step l now t t' \<Longrightarrow> t_Cancellation t \<noteq> None \<Longrightarrow> t_Cancellation t' \<noteq> None"
  by (erule task_stepE) (simp_all add: task_updates_defs Let_def)

lemma Cancel_applied:
  assumes "Cancel now p s = (Inr r, s')" and "cr_Applied r" and "\<not> cr_Replay r"
  shows "map_of (st_tasks s') (xp_TaskID p) = Some (cr_Task r) \<and> t_Cancellation (cr_Task r) \<noteq> None
         \<and> t_State (cr_Task r) \<in> {StateCanceled, StateCanceling}"
  using assms
  by (auto simp: Cancel_def cancel_located_def on_task_def Let_def update_conv' canceled_task_def
      split: if_splits sum.splits option.splits)

text \<open>
  a cancellation happens once. When a cancel is applied, the task is canceled or canceling
  from that call on; every later cancel of it that succeeds, by whichever key, is a replay.
\<close>

theorem cancel_applied_once:
  assumes "Cancel now p s = (Inr r, s1)" and "cr_Applied r" and "\<not> cr_Replay r"
    and "xp_TaskID p' = xp_TaskID p" and "Cancel now' p' (run_ops lib ops s1) = (Inr r', s2)"
  shows "t_State (cr_Task r) \<in> {StateCanceled, StateCanceling} \<and> cr_Replay r'"
proof -
  note c = Cancel_applied [OF assms(1-3)]
  from c have t: "map_of (st_tasks s1) (xp_TaskID p') = Some (cr_Task r)" by (simp add: assms(4))
  obtain t' where "map_of (st_tasks (run_ops lib ops s1)) (xp_TaskID p') = Some t'"
    and "t_Cancellation (cr_Task r) \<noteq> None \<longrightarrow> t_Cancellation t' \<noteq> None"
    using run_keeps_task [OF t, of "\<lambda>u v. t_Cancellation u \<noteq> None \<longrightarrow> t_Cancellation v \<noteq> None" lib ops]
      task_step_cancellation by blast
  with c assms(5) show ?thesis
    by (auto simp: Cancel_def cancel_located_def on_task_def locked_def split: if_splits option.splits)
qed

subsection \<open>Progress\<close>

text \<open>
  reporting progress never dereferences a nil progress. In a reachable store a replayed update
  finds the task's progress, so the method answers it or one of its errors; and a repeated report
  of the same update, right after it was stored, is answered as a replay.
\<close>

theorem progress_never_panics:
  assumes "NewMemoryStore l = Some s0" and "s = run_ops lib0 ops s0"
  shows "fst (ReportProgress lib now a tid attempt u s) \<noteq> Inl NilDereference
         \<and> (\<forall>pg s'. ReportProgress lib now a tid attempt u s = (Inr (pg, False), s') \<longrightarrow>
              ReportProgress lib now' a tid attempt u s' = (Inr (pg, True), s'))"
proof -
  have ok: "updates_ok s" using run_store_ok [OF new_store_ok [OF assms(1)]] assms(2) by (simp add: store_ok_def)
  have pg: "t_Progress t \<noteq> None"
    if "map_of (st_tasks s) tid = Some t" "map_of (task_updates s tid) k = Some d" for t k d
  proof -
    from that(2) have "task_updates s tid \<noteq> []" by auto
    with ok that(1) show ?thesis by (auto simp: updates_ok_def)
  qed
  have "validateProgress l attempt u \<noteq> Some NilDereference" for l
    by (simp add: validateProgress_def split: option.split)
  then have "fst (ReportProgress lib now a tid attempt u s) \<noteq> Inl NilDereference"
    by (auto simp: ReportProgress_def on_task_def locked_def Let_def dest: pg split: option.split)
  moreover have "ReportProgress lib now' a tid attempt u s' = (Inr (pg, True), s')"
    if "ReportProgress lib now a tid attempt u s = (Inr (pg, False), s')" for pg s'
    using that
    by (auto simp: ReportProgress_def on_task_def locked_def Let_def update_conv' task_updates_def of_agent_def
        split: option.splits if_splits)
  ultimately show ?thesis by blast
qed

subsection \<open>A concrete store\<close>

text \<open>
  The default limits with room for one outstanding task, an agent, a caller, and a library whose
  JSON parser reads every response as a string.
\<close>

definition example_lib :: golib where
  "example_lib = \<lparr>lib_valid = (\<lambda>_. True), lib_json = (\<lambda>raw. Some (JString raw)), lib_schema = (\<lambda>_. None), lib_flow_id = Some,
     lib_reference = (\<lambda>r. r), lib_sha256_hex = (\<lambda>b. b), lib_progress_json = fst,
     lib_result_json = r_Name\<rparr>"

definition example_limits :: limits where
  "example_limits = DefaultLimits\<lparr>MaxOutstanding := 1\<rparr>"

definition example_ref :: agent_ref where
  "example_ref = \<lparr>ref_Namespace = ''ns'', ref_Name = ''sol''\<rparr>"

definition example_auth :: "string \<Rightarrow> authorization" where
  "example_auth who = \<lparr>TenantID = ''t'', PrincipalID = who, AgentResourceID = ''a''\<rparr>"

definition example_create :: "string \<Rightarrow> create_params" where
  "example_create tid = \<lparr>cp_ID = tid, cp_Agent = example_ref, cp_CreatedBy = ''op'', cp_Prompt = ''go'',
     cp_Correlation = '''', cp_IdempotencyKey = tid, cp_RequestHash = ''h'',
     cp_Authorization = example_auth ''op'', cp_DeadlineAt = 0\<rparr>"

definition example_request :: request_params where
  "example_request = \<lparr>rp_Agent = example_ref, rp_TaskID = ''A'', rp_AttemptID = ''1'', rp_InteractionID = ''i'',
     rp_Type = InteractionText, rp_Question = ''ok?'', rp_Options = [], rp_Schema = '''',
     rp_AuthorizationFlow = '''', rp_ExpiresIn = 0\<rparr>"

definition example_cancel :: cancel_params where
  "example_cancel = \<lparr>xp_Agent = example_ref, xp_TaskID = ''A'', xp_RequestedBy = ''op'', xp_Reason = '''',
     xp_IdempotencyKey = '''', xp_RequestHash = '''', xp_Authorization = example_auth ''op''\<rparr>"

definition example_respond :: respond_params where
  "example_respond = \<lparr>sp_Agent = example_ref, sp_TaskID = ''A'', sp_InteractionID = ''i'', sp_RespondedBy = ''op'',
     sp_IdempotencyKey = '''', sp_RequestHash = '''', sp_Authorization = example_auth ''op'', sp_Response = ''y''\<rparr>"

definition example_store :: task_store where
  "example_store = the (NewMemoryStore example_limits)"

definition paused_run :: "(time \<times> task_op) list" where
  "paused_run = [(1, OpCreate (example_create ''A'')), (2, OpMarkDispatched example_ref ''A'' 1),
                 (3, OpRequest example_request)]"

lemmas example_task_defs = example_lib_def example_limits_def example_ref_def example_auth_def
  example_create_def example_request_def example_cancel_def example_respond_def

lemma example_store_new: "NewMemoryStore example_limits = Some example_store"
  by (simp add: example_store_def NewMemoryStore_def example_limits_def limits_Validate_def DefaultLimits_def
      duration_units)

lemma example_not_blank: "\<not> blank ''go''" "\<not> blank ''ok?''"
  by code_simp+

text \<open>The store after that run, and its one task, which waits for an answer.\<close>

definition asked_task :: task where
  "asked_task = requested_task example_limits 3 example_request
     ((new_task example_limits 1 (example_create ''A'') (1 + 24 * hour))
        \<lparr>t_State := StateDispatched, t_Version := 2, t_UpdatedAt := 2\<rparr>)"

definition asked_store :: task_store where
  "asked_store = \<lparr>st_limits = example_limits, st_tasks = [(''A'', asked_task)],
     st_idempotency = [(create_key (example_create ''A''), \<lparr>idem_hash = ''h'', idem_taskID = ''A''\<rparr>)],
     st_updates = [], st_cancelKeys = [], st_cancelAcks = [], st_interactionKeys = [],
     st_authorizationFlows = []\<rparr>"

lemma example_limit_values [simp]:
  "MaxOutstanding example_limits = 1" "MaxRetained example_limits = 100000"
  "MaxMessages example_limits = 64" "MaxInteractions example_limits = 16"
  "DefaultDeadline example_limits = 24 * hour" "MaxDeadline example_limits = 168 * hour"
  "MaxInteractionQuestionBytes example_limits = 4096" "MaxInteractionOptions example_limits = 20"
  "MaxInteractionResponseBytes example_limits = 65536" "MaxCancelReasonBytes example_limits = 512"
  "DefaultInteractionExpiry example_limits = 24 * hour" "MaxInteractionExpiry example_limits = 168 * hour"
  by (simp_all add: example_limits_def DefaultLimits_def)

lemma example_store_value:
  "example_store = \<lparr>st_limits = example_limits, st_tasks = [], st_idempotency = [], st_updates = [],
     st_cancelKeys = [], st_cancelAcks = [], st_interactionKeys = [], st_authorizationFlows = []\<rparr>"
  using example_store_new by (simp add: NewMemoryStore_def split: if_splits)

lemma validate_example [simp]: "tid \<in> {''A'', ''B''} \<Longrightarrow> validateCreate example_limits (example_create tid) = None"
  by (auto simp: validateCreate_def example_create_def example_ref_def example_not_blank HardMaxIdempotencyBytes_def
      example_limits_def DefaultLimits_def)

lemma example_create_values [simp]:
  "cp_ID (example_create tid) = tid" "cp_Agent (example_create tid) = example_ref"
  "cp_IdempotencyKey (example_create tid) = tid" "cp_RequestHash (example_create tid) = ''h''"
  "cp_DeadlineAt (example_create tid) = 0"
  by (simp_all add: example_create_def)

lemma example_deadline: "effective_deadline example_limits now 0 = Some (now + 24 * hour)"
  by (simp add: effective_deadline_def hour_def)

lemma paused_value: "run_ops example_lib paused_run example_store = asked_store"
proof -
  let ?t = "new_task example_limits 1 (example_create ''A'') (1 + 24 * hour)"
  have 1: "snd (Create 1 (example_create ''A'') example_store)
      = asked_store\<lparr>st_tasks := [(''A'', ?t)]\<rparr>"
    by (simp add: Create_def create_fresh_def example_store_value example_deadline Let_def put_task_def
        asked_store_def)
  have a: "of_agent example_ref ?t" "t_State ?t = StateQueued" "t_Version ?t = 1"
    by (simp_all add: new_task_def of_agent_def Let_def)
  then have 2: "snd (MarkDispatched 2 example_ref ''A'' 1 (asked_store\<lparr>st_tasks := [(''A'', ?t)]\<rparr>))
      = asked_store\<lparr>st_tasks := [(''A'', ?t\<lparr>t_State := StateDispatched, t_Version := 2, t_UpdatedAt := 2\<rparr>)]\<rparr>"
    by (simp add: MarkDispatched_def on_task_def locked_def put_task_def)
  let ?d = "?t\<lparr>t_State := StateDispatched, t_Version := 2, t_UpdatedAt := 2\<rparr>"
  have r: "request_error example_limits ?d example_request = None"
    by (simp add: request_error_def example_request_def example_not_blank interaction_open_def new_task_def
        Let_def is_request_def)
  have 3: "snd (RequestInteraction 3 example_request (asked_store\<lparr>st_tasks := [(''A'', ?d)]\<rparr>)) = asked_store"
    using r a by (simp add: RequestInteraction_def on_task_def locked_def put_task_def of_agent_def
        asked_store_def asked_task_def Let_def) (simp add: example_request_def)
  show ?thesis by (simp add: paused_run_def 1 2 3)
qed

lemma asked_task_values:
  "t_State asked_task = StateInputRequired" "t_Cancellation asked_task = None" "t_ID asked_task = ''A''"
  "of_agent example_ref asked_task" "may_act (example_auth ''op'') ''op'' asked_task"
  "t_Interaction asked_task = Some \<lparr>i_ID = ''i'', i_AttemptID = ''1'', i_Type = InteractionText,
     i_Status = InteractionPaused, i_Question = ''ok?'', i_Options = [], i_Schema = '''',
     i_AuthorizationFlow = '''', i_Response = '''', i_CreatedAt = 3,
     i_ExpiresAt = 1 + 24 * hour, i_AnsweredAt = None\<rparr>"
  by (simp_all add: asked_task_def requested_task_def example_request_def new_task_def Let_def of_agent_def
      may_act_def owned_by_def effective_auth_def example_create_def example_auth_def auth_Valid_def
      interaction_expiry_def hour_def)

lemma asked_store_values [simp]:
  "st_limits asked_store = example_limits" "st_tasks asked_store = [(''A'', asked_task)]"
  by (simp_all add: asked_store_def)

lemma canceled_frame [simp]:
  "of_agent a (canceled_task l now p t) = of_agent a t"
  "may_act auth who (canceled_task l now p t) = may_act auth who t"
  by (simp_all add: canceled_task_def Let_def of_agent_def may_act_def owned_by_def)

subsection \<open>The task that comes back\<close>

text \<open>
  a canceled task can be resurrected. The caller cancels a task that waits for input; it is
  canceled, and as it no longer counts, a second task is created within the limit of one
  outstanding task. Then the caller answers the old question: the answer is accepted, the canceled
  task is queued for delivery again, and two tasks are outstanding.
\<close>

theorem canceled_task_resurrected:
  "let s1 = run_ops example_lib (paused_run @ [(4, OpCancel example_cancel)]) example_store;
       s2 = run_ops example_lib [(5, OpCreate (example_create ''B'')), (6, OpRespond example_respond)] s1
   in map_option t_State (map_of (st_tasks s1) ''A'') = Some StateCanceled
      \<and> map_option t_State (map_of (st_tasks s2) ''A'') = Some StateQueued
      \<and> MaxOutstanding (st_limits s2) = 1
      \<and> count_vals (\<lambda>t. of_agent example_ref t \<and> outstanding_state (t_State t)) (st_tasks s2) = 2"
proof -
  let ?c = "canceled_task example_limits 4 example_cancel asked_task"
  let ?b = "new_task example_limits 5 (example_create ''B'') (5 + 24 * hour)"
  have run: "run_ops example_lib (paused_run @ [(4, OpCancel example_cancel)]) example_store
      = exec_op example_lib 4 (OpCancel example_cancel) asked_store"
    using paused_value by (simp add: paused_run_def)
  have c: "t_State ?c = StateCanceled" "t_Interaction ?c = t_Interaction asked_task"
    using asked_task_values by (simp_all add: canceled_task_def Let_def)
  have 1: "snd (Cancel 4 example_cancel asked_store) = asked_store\<lparr>st_tasks := [(''A'', ?c)]\<rparr>"
    using asked_task_values
    by (simp add: Cancel_def on_task_def locked_def cancel_located_def put_task_def remember_cancel_def
        HardMaxIdempotencyBytes_def asked_store_def example_cancel_def Let_def)
  have key: "create_key (example_create ''B'') \<noteq> create_key (example_create ''A'')"
    by (simp add: create_key_def effective_auth_def example_create_def example_auth_def auth_Valid_def example_ref_def)
  have count: "count_vals (\<lambda>t. of_agent example_ref t \<and> outstanding_state (t_State t)) [(''A'', ?c)] = 0"
    by (simp add: c outstanding_state_def)
  have 2: "st_tasks (snd (Create 5 (example_create ''B'') (asked_store\<lparr>st_tasks := [(''A'', ?c)]\<rparr>)))
        = [(''A'', ?c), (''B'', ?b)]"
    "st_limits (snd (Create 5 (example_create ''B'') (asked_store\<lparr>st_tasks := [(''A'', ?c)]\<rparr>))) = example_limits"
    using key count
    by (simp_all add: Create_def create_fresh_def example_deadline Let_def asked_store_def put_task_def)
  have respond: "st_tasks (snd (RespondInteraction example_lib 6 example_respond s)) =
      [(''A'', answered_task 6 (the (t_Interaction ?c)) ''y'' ?c), (''B'', ?b)]"
    if "st_tasks s = [(''A'', ?c), (''B'', ?b)]" "st_limits s = example_limits" for s
    using that asked_task_values c
    by (simp add: RespondInteraction_def on_task_def locked_def respond_paused_def stored_response_def
        validateInteractionResponse_def put_task_def example_respond_def example_lib_def hour_def Let_def)
  have final: "of_agent example_ref (answered_task 6 i ''y'' ?c)" "of_agent example_ref ?b"
    "t_State (answered_task 6 i ''y'' ?c) = StateQueued" "t_State ?b = StateQueued" for i
    using asked_task_values(4) canceled_frame(1) [of example_ref]
    by (simp_all add: answered_task_def of_agent_def new_task_def Let_def)
  show ?thesis
    unfolding run Let_def
    by (simp add: 1 c frames 2 respond final outstanding_state_def)
qed

subsection \<open>The promises at work\<close>

theorem version_identifies_content_witness:
  "\<exists>t'. map_of (st_tasks (run_ops example_lib [(4, OpCancel example_cancel)] asked_store)) ''A'' = Some t'
        \<and> identity_of t' = identity_of asked_task \<and> t_Version asked_task \<le> t_Version t'"
  using version_identifies_content
    [of asked_store "''A''" asked_task example_lib "[(4, OpCancel example_cancel)]"] by auto

text \<open>A task that was created and failed.\<close>

definition failed_run :: "(time \<times> task_op) list" where
  "failed_run = [(1, OpCreate (example_create ''A'')), (2, OpFail example_ref ''A'' 1 FailureInternal)]"

definition failed_task :: task where
  "failed_task = (new_task example_limits 1 (example_create ''A'') (1 + 24 * hour))
     \<lparr>t_State := StateFailed, t_FailureCode := FailureInternal, t_Version := 2, t_UpdatedAt := 2,
       t_CompletedAt := Some 2\<rparr>"

lemma failed_store: "st_tasks (run_ops example_lib failed_run example_store) = [(''A'', failed_task)]"
proof -
  let ?t = "new_task example_limits 1 (example_create ''A'') (1 + 24 * hour)"
  have 1: "snd (Create 1 (example_create ''A'') example_store)
      = asked_store\<lparr>st_tasks := [(''A'', ?t)]\<rparr>"
    by (simp add: Create_def create_fresh_def example_store_value example_deadline Let_def put_task_def
        asked_store_def)
  have a: "of_agent example_ref ?t" "t_State ?t = StateQueued" "t_Version ?t = 1"
    by (simp_all add: new_task_def of_agent_def Let_def)
  then show ?thesis
    by (simp add: failed_run_def 1 Fail_def on_task_def locked_def put_task_def failed_task_def)
qed

theorem terminal_tasks_final_witness:
  "map_of (st_tasks (run_ops example_lib [(3, OpRequest example_request), (4, OpCancel example_cancel)]
     (run_ops example_lib failed_run example_store))) ''A'' = Some failed_task"
  by (rule terminal_tasks_final [OF example_store_new refl])
    (simp_all add: failed_store failed_task_def terminal_def)

theorem store_invariant_witness: "store_ok (run_ops example_lib paused_run example_store)"
  by (rule store_invariant [OF example_store_new])


theorem foreign_task_invisible_witness:
  "GetAuthorized example_ref ''A'' (example_auth ''eve'') asked_store = Inl ErrNotFound
   \<and> RespondInteraction example_lib 4 (example_respond\<lparr>sp_Authorization := example_auth ''eve''\<rparr>) asked_store
       = (Inl ErrNotFound, asked_store)"
proof -
  have "\<not> owned_by (example_auth ''eve'') asked_task" "auth_Valid (example_auth ''eve'')"
    by (simp_all add: owned_by_def asked_task_def requested_task_def new_task_def effective_auth_def
        example_create_def example_auth_def auth_Valid_def Let_def)
  with foreign_task_invisible [of asked_store "''A''" asked_task "example_auth ''eve''" example_ref
      example_cancel 4 "example_respond\<lparr>sp_Authorization := example_auth ''eve''\<rparr>" example_lib]
  show ?thesis by (simp add: example_respond_def)
qed

lemma example_cancel_value:
  "Cancel 4 example_cancel asked_store =
     (Inr \<lparr>cr_Task = canceled_task example_limits 4 example_cancel asked_task, cr_Applied = True, cr_Replay = False\<rparr>,
      asked_store\<lparr>st_tasks := [(''A'', canceled_task example_limits 4 example_cancel asked_task)]\<rparr>)"
  using asked_task_values
  by (simp add: Cancel_def on_task_def locked_def cancel_located_def put_task_def remember_cancel_def
      HardMaxIdempotencyBytes_def example_cancel_def Let_def asked_store_def)

theorem cancel_applied_once_witness:
  "\<exists>r s1 r' s2. Cancel 4 example_cancel asked_store = (Inr r, s1) \<and> cr_Applied r
     \<and> Cancel 5 example_cancel s1 = (Inr r', s2) \<and> cr_Replay r'"
proof -
  let ?c = "canceled_task example_limits 4 example_cancel asked_task"
  let ?s = "asked_store\<lparr>st_tasks := [(''A'', ?c)]\<rparr>"
  have "of_agent example_ref ?c" "may_act (example_auth ''op'') ''op'' ?c"
    using asked_task_values(4,5) by simp_all
  moreover have "t_Cancellation ?c \<noteq> None"
    by (simp add: canceled_task_def Let_def)
  ultimately obtain r' s2 where r': "Cancel 5 example_cancel (run_ops example_lib [] ?s) = (Inr r', s2)"
    by (simp add: Cancel_def on_task_def locked_def cancel_located_def HardMaxIdempotencyBytes_def example_cancel_def)
  from cancel_applied_once [OF example_cancel_value _ _ refl r'] have "cr_Replay r'" by simp
  with r' example_cancel_value show ?thesis by auto
qed

theorem progress_never_panics_witness:
  "fst (ReportProgress example_lib 4 example_ref ''A'' ''1'' \<lparr>UpdateID = ''u'', up_Message = ''go'', up_Percent = None\<rparr>
          asked_store) \<noteq> Inl NilDereference"
  using progress_never_panics [OF example_store_new paused_value [symmetric]] by blast

end
