(* ===== verification/Request_Store.thy ===== *)
theory Request_Store
  imports Go_Prelude
begin

section \<open>Ephemeral requests to agents (\<open>pkg/requeststore\<close>)\<close>

text \<open>
  \<open>MemoryStore\<close> keeps the bounded request/reply state: per agent a map from ids to requests that
  live for a fixed time. Every method holds the mutex, first prunes the agent's expired requests,
  and is one step from the clock's reading and the store to a result and a store. The loop that
  trims terminal requests has no bound of its own; a method that did not return (or dereferenced
  nil) would be \<open>None\<close>.
\<close>

datatype request_error =
    ReqNotFound | ReqInvalidLimits | ReqInvalidRequest | ReqPromptTooLarge | ReqCorrelationTooLarge
  | ReqResponseTooLarge | ReqOutstandingLimit | ReqConflict

datatype request_status =
  StatusQueued | StatusDispatched | StatusCompleted | StatusFailed | StatusExpired

record request_limits =
  rl_Lifetime :: duration
  rl_MaxPromptBytes :: int
  rl_MaxCorrelationBytes :: int
  rl_MaxResponseBytes :: int
  rl_MaxOutstanding :: int
  rl_MaxTerminal :: int

definition request_DefaultLimits :: request_limits where
  "request_DefaultLimits = \<lparr>rl_Lifetime = 60 * second, rl_MaxPromptBytes = 2 * 1024,
     rl_MaxCorrelationBytes = 256, rl_MaxResponseBytes = 8 * 1024, rl_MaxOutstanding = 2,
     rl_MaxTerminal = 20\<rparr>"

text \<open>\<open>Limits.Validate\<close>: \<open>True\<close> when it returns no error.\<close>

definition request_limits_Validate :: "request_limits \<Rightarrow> bool" where
  "request_limits_Validate l \<longleftrightarrow>
     \<not> (rl_Lifetime l \<le> 0 \<or> rl_Lifetime l > 5 * minute
        \<or> rl_MaxPromptBytes l \<le> 0 \<or> rl_MaxPromptBytes l > 8 * 1024
        \<or> rl_MaxCorrelationBytes l \<le> 0 \<or> rl_MaxCorrelationBytes l > 1024
        \<or> rl_MaxResponseBytes l \<le> 0 \<or> rl_MaxResponseBytes l > 32 * 1024
        \<or> rl_MaxOutstanding l \<le> 0 \<or> rl_MaxOutstanding l > 8
        \<or> rl_MaxTerminal l \<le> 0 \<or> rl_MaxTerminal l > 100)"

record request =
  q_ID :: string
  q_Agent :: string
  q_Prompt :: string
  q_Correlation :: string
  q_Status :: request_status
  q_Response :: string
  q_FailureCode :: string
  q_CreatedAt :: time
  q_ExpiresAt :: time
  q_UpdatedAt :: time

type_synonym requests = "(string, request) gomap"

record request_store =
  rq_requests :: "(string, requests) gomap"
  rq_limits :: request_limits

definition NewRequestStore :: "request_limits \<Rightarrow> request_error + request_store" where
  "NewRequestStore l =
     (if request_limits_Validate l then Inr \<lparr>rq_requests = [], rq_limits = l\<rparr> else Inl ReqInvalidLimits)"

definition request_validateCreate ::
  "string \<Rightarrow> string \<Rightarrow> string \<Rightarrow> string \<Rightarrow> request_limits \<Rightarrow> request_error option" where
  "request_validateCreate agent rid prompt correlation l =
     (if agent = '''' \<or> rid = '''' \<or> prompt = '''' then Some ReqInvalidRequest
      else if int (length prompt) > rl_MaxPromptBytes l then Some ReqPromptTooLarge
      else if int (length correlation) > rl_MaxCorrelationBytes l then Some ReqCorrelationTooLarge
      else None)"

subsection \<open>Pruning and trimming\<close>

text \<open>\<open>m.requests[agent]\<close>: a nil map reads as the empty one.\<close>

definition requests_of :: "request_store \<Rightarrow> string \<Rightarrow> requests" where
  "requests_of s agent = (case map_of (rq_requests s) agent of None \<Rightarrow> [] | Some rs \<Rightarrow> rs)"

definition put_requests :: "string \<Rightarrow> requests \<Rightarrow> request_store \<Rightarrow> request_store" where
  "put_requests agent rs s = s\<lparr>rq_requests := AList.update agent rs (rq_requests s)\<rparr>"

definition pruneLocked :: "string \<Rightarrow> time \<Rightarrow> request_store \<Rightarrow> request_store" where
  "pruneLocked agent now s =
     (let rs = filter (\<lambda>e. q_ExpiresAt (snd e) > now) (requests_of s agent) in
      if rs = [] then s\<lparr>rq_requests := AList.delete agent (rq_requests s)\<rparr> else put_requests agent rs s)"

definition terminal_request :: "request \<Rightarrow> bool" where
  "terminal_request q \<longleftrightarrow> q_Status q = StatusCompleted \<or> q_Status q = StatusFailed"

definition outstanding_request :: "request \<Rightarrow> bool" where
  "outstanding_request q \<longleftrightarrow> q_Status q = StatusQueued \<or> q_Status q = StatusDispatched"

text \<open>The age of a request: the time of its last update, ties broken by its id.\<close>

datatype age = Age (age_time: time) (age_id: string)

instantiation age :: linorder
begin

definition less_age :: "age \<Rightarrow> age \<Rightarrow> bool" where
  "a < b \<longleftrightarrow> age_time a < age_time b \<or> (age_time a = age_time b \<and> age_id a < age_id b)"

definition less_eq_age :: "age \<Rightarrow> age \<Rightarrow> bool" where
  "a \<le> b \<longleftrightarrow> age_time a < age_time b \<or> (age_time a = age_time b \<and> age_id a \<le> age_id b)"

instance
  by standard (auto simp: less_age_def less_eq_age_def age.expand)

end

definition age_of :: "request \<Rightarrow> age" where
  "age_of q = Age (q_UpdatedAt q) (q_ID q)"

text \<open>The inner loop of \<open>trimTerminalLocked\<close>: the number of terminal requests and the oldest.\<close>

fun scan_terminal :: "nat \<Rightarrow> request option \<Rightarrow> requests \<Rightarrow> nat \<times> request option" where
  "scan_terminal n oldest [] = (n, oldest)"
| "scan_terminal n oldest (e # es) =
     (if \<not> terminal_request (snd e) then scan_terminal n oldest es
      else scan_terminal (Suc n)
             (case oldest of
                None \<Rightarrow> Some (snd e)
              | Some p \<Rightarrow> if age_of (snd e) < age_of p then Some (snd e) else oldest) es)"

partial_function (option) trim_loop :: "int \<Rightarrow> requests \<Rightarrow> requests option" where
  "trim_loop max_terminal rs =
     (case scan_terminal 0 None rs of
        (n, oldest) \<Rightarrow>
          (if int n \<le> max_terminal then Some rs
           else case oldest of
                  None \<Rightarrow> None
                | Some q \<Rightarrow> trim_loop max_terminal (AList.delete (q_ID q) rs)))"

declare trim_loop.simps [code]

definition trimTerminalLocked :: "string \<Rightarrow> request_store \<Rightarrow> request_store option" where
  "trimTerminalLocked agent s =
     (case trim_loop (rl_MaxTerminal (rq_limits s)) (requests_of s agent) of
        None \<Rightarrow> None
      | Some rs \<Rightarrow> Some (put_requests agent rs s))"

subsection \<open>The methods\<close>

type_synonym 'a request_step = "((request_error + 'a) \<times> request_store) option"

definition Create_request ::
  "time \<Rightarrow> string \<Rightarrow> string \<Rightarrow> string \<Rightarrow> string \<Rightarrow> request_store \<Rightarrow> request request_step" where
  "Create_request now agent rid prompt correlation s =
     (case request_validateCreate agent rid prompt correlation (rq_limits s) of
        Some err \<Rightarrow> Some (Inl err, s)
      | None \<Rightarrow>
          (let s1 = pruneLocked agent now s;
               s2 = (if map_of (rq_requests s1) agent = None then put_requests agent [] s1 else s1);
               rs = requests_of s2 agent
           in if map_of rs rid \<noteq> None then Some (Inl ReqConflict, s2)
              else if int (count_vals outstanding_request rs) \<ge> rl_MaxOutstanding (rq_limits s2)
              then Some (Inl ReqOutstandingLimit, s2)
              else (let q = \<lparr>q_ID = rid, q_Agent = agent, q_Prompt = prompt, q_Correlation = correlation,
                             q_Status = StatusQueued, q_Response = '''', q_FailureCode = '''', q_CreatedAt = now,
                             q_ExpiresAt = now + rl_Lifetime (rq_limits s2), q_UpdatedAt = now\<rparr>
                    in Some (Inr q, put_requests agent (AList.update rid q rs) s2))))"

definition Get_request :: "time \<Rightarrow> string \<Rightarrow> string \<Rightarrow> request_store \<Rightarrow> request request_step" where
  "Get_request now agent rid s =
     (let s1 = pruneLocked agent now s in
      case map_of (requests_of s1 agent) rid of
        None \<Rightarrow> Some (Inl ReqNotFound, s1)
      | Some q \<Rightarrow> Some (Inr q, s1))"

text \<open>The located request is changed in place: \<open>set_request\<close> writes it back into the map.\<close>

definition set_request :: "string \<Rightarrow> string \<Rightarrow> request \<Rightarrow> request_store \<Rightarrow> request_store" where
  "set_request agent rid q s = put_requests agent (AList.update rid q (requests_of s agent)) s"

definition transition ::
  "time \<Rightarrow> string \<Rightarrow> string \<Rightarrow> (request \<Rightarrow> request_store \<Rightarrow> unit request_step) \<Rightarrow> request_store \<Rightarrow> unit request_step" where
  "transition now agent rid f s =
     (let s1 = pruneLocked agent now s in
      case map_of (requests_of s1 agent) rid of
        None \<Rightarrow> Some (Inl ReqNotFound, s1)
      | Some q \<Rightarrow> f q s1)"

definition MarkDispatched_request :: "time \<Rightarrow> string \<Rightarrow> string \<Rightarrow> request_store \<Rightarrow> unit request_step" where
  "MarkDispatched_request now agent rid s = transition now agent rid (\<lambda>q s1.
     if q_Status q = StatusDispatched then Some (Inr (), s1)
     else if q_Status q \<noteq> StatusQueued then Some (Inl ReqConflict, s1)
     else Some (Inr (), set_request agent rid (q\<lparr>q_Status := StatusDispatched, q_UpdatedAt := now\<rparr>) s1)) s"

definition Fail_request :: "time \<Rightarrow> string \<Rightarrow> string \<Rightarrow> string \<Rightarrow> request_store \<Rightarrow> unit request_step" where
  "Fail_request now agent rid code s =
     (if code = '''' then Some (Inl ReqInvalidRequest, s)
      else transition now agent rid (\<lambda>q s1.
        if q_Status q = StatusFailed \<and> q_FailureCode q = code then Some (Inr (), s1)
        else if q_Status q \<noteq> StatusQueued \<and> q_Status q \<noteq> StatusDispatched then Some (Inl ReqConflict, s1)
        else map_option (\<lambda>s2. (Inr (), s2))
               (trimTerminalLocked agent
                  (set_request agent rid (q\<lparr>q_Status := StatusFailed, q_FailureCode := code,
                                            q_UpdatedAt := now\<rparr>) s1))) s)"

definition Complete_request :: "time \<Rightarrow> string \<Rightarrow> string \<Rightarrow> string \<Rightarrow> request_store \<Rightarrow> unit request_step" where
  "Complete_request now agent rid response s =
     (if int (length response) > rl_MaxResponseBytes (rq_limits s) then Some (Inl ReqResponseTooLarge, s)
      else transition now agent rid (\<lambda>q s1.
        if q_Status q = StatusCompleted
        then (if q_Response q = response then Some (Inr (), s1) else Some (Inl ReqConflict, s1))
        else if q_Status q \<noteq> StatusDispatched then Some (Inl ReqConflict, s1)
        else map_option (\<lambda>s2. (Inr (), s2))
               (trimTerminalLocked agent
                  (set_request agent rid (q\<lparr>q_Status := StatusCompleted, q_Response := response,
                                            q_UpdatedAt := now\<rparr>) s1))) s)"

subsection \<open>Trimming\<close>

lemma scan_terminal_result:
  "scan_terminal n oldest es = (n', oldest') \<Longrightarrow>
     n' = n + count_vals terminal_request es
     \<and> (oldest' = None \<longrightarrow> oldest = None \<and> count_vals terminal_request es = 0)
     \<and> (\<forall>p. oldest' = Some p \<longrightarrow>
           (oldest = Some p \<or> (\<exists>e\<in>set es. snd e = p \<and> terminal_request p))
           \<and> (\<forall>e\<in>set es. terminal_request (snd e) \<longrightarrow> age_of p \<le> age_of (snd e))
           \<and> (\<forall>p0. oldest = Some p0 \<longrightarrow> age_of p \<le> age_of p0))"
proof (induction n oldest es rule: scan_terminal.induct)
  case (2 n oldest e es)
  show ?case
  proof (cases "terminal_request (snd e)")
    case False
    with 2(1,3) show ?thesis by auto
  next
    case True
    with 2(2,3) show ?thesis
      by (cases oldest) (auto split: if_splits intro: order_trans less_imp_le)
  qed
qed simp

text \<open>Requests are stored under their own ids.\<close>

definition keyed :: "requests \<Rightarrow> bool" where
  "keyed rs \<longleftrightarrow> go_wf rs \<and> (\<forall>e\<in>set rs. q_ID (snd e) = fst e)"

lemma set_delete: "set (AList.delete k m) = {e \<in> set m. fst e \<noteq> k}"
  by (auto simp: AList.delete_eq)

lemma keyed_delete: "keyed rs \<Longrightarrow> keyed (AList.delete k rs)"
  by (simp add: keyed_def distinct_delete set_delete)

lemma keyed_filter: "keyed rs \<Longrightarrow> keyed (filter P rs)"
  by (auto simp: keyed_def distinct_map_filter)

lemma keyed_unique: "keyed rs \<Longrightarrow> e \<in> set rs \<Longrightarrow> e' \<in> set rs \<Longrightarrow> q_ID (snd e) = q_ID (snd e') \<Longrightarrow> e = e'"
  unfolding keyed_def by (metis eq_key_imp_eq_value prod.collapse)

lemma count_delete:
  "keyed rs \<Longrightarrow> e \<in> set rs \<Longrightarrow> terminal_request (snd e)
   \<Longrightarrow> Suc (count_vals terminal_request (AList.delete (q_ID (snd e)) rs)) = count_vals terminal_request rs"
proof (induction rs)
  case (Cons x xs)
  have k: "keyed xs" and x: "q_ID (snd x) = fst x" "fst x \<notin> fst ` set xs" using Cons(2) by (auto simp: keyed_def)
  show ?case
  proof (cases "e = x")
    case True
    with x have "AList.delete (q_ID (snd e)) xs = xs"
      by simp
    with True x Cons(4) show ?thesis by simp
  next
    case False
    with Cons(3) have e: "e \<in> set xs" by simp
    with k x have "q_ID (snd e) \<noteq> fst x" unfolding keyed_def by (metis image_eqI)
    with Cons(1) [OF k e Cons(4)] show ?thesis by simp
  qed
qed simp

text \<open>The loop ends; it removes terminal requests only, each older than every terminal one it keeps.\<close>

definition trimmed :: "int \<Rightarrow> requests \<Rightarrow> requests \<Rightarrow> bool" where
  "trimmed max_terminal rs rs' \<longleftrightarrow>
     keyed rs' \<and> set rs' \<subseteq> set rs
     \<and> (\<forall>e\<in>set rs - set rs'. terminal_request (snd e)
          \<and> (\<forall>e'\<in>set rs'. terminal_request (snd e') \<longrightarrow> age_of (snd e) < age_of (snd e')))
     \<and> int (count_vals terminal_request rs') = min (int (count_vals terminal_request rs)) max_terminal"

lemma trim_loop_trims:
  assumes "keyed rs" and "0 \<le> max_terminal"
  shows "\<exists>rs'. trim_loop max_terminal rs = Some rs' \<and> trimmed max_terminal rs rs'"
  using assms(1)
proof (induction "length rs" arbitrary: rs rule: less_induct)
  case less
  obtain n oldest where scan: "scan_terminal 0 None rs = (n, oldest)" by (cases "scan_terminal 0 None rs")
  note r = scan_terminal_result [OF scan]
  show ?case
  proof (cases "int n \<le> max_terminal")
    case True
    with scan r less(2) show ?thesis
      by (subst trim_loop.simps) (simp add: trimmed_def)
  next
    case False
    with assms(2) r obtain q where q: "oldest = Some q" by (cases oldest) auto
    then obtain e where e: "e \<in> set rs" "snd e = q" "terminal_request (snd e)" using r by auto
    let ?rs = "AList.delete (q_ID q) rs"
    have fst_e: "fst e = q_ID q" using less(2) e by (auto simp: keyed_def)
    have shorter: "length ?rs < length rs"
      using e(1) fst_e by (simp add: AList.delete_eq length_filter_less [of e] split_beta)
    obtain rs' where rs': "trim_loop max_terminal ?rs = Some rs'" "trimmed max_terminal ?rs rs'"
      using less(1) [OF shorter keyed_delete [OF less(2)]] by blast
    have gone: "x = e" if "x \<in> set rs" "x \<notin> set ?rs" for x
      using that keyed_unique [OF less(2) that(1) e(1)] fst_e less(2) e(2) by (auto simp: set_delete keyed_def)
    have older: "age_of q < age_of (snd x)" if "x \<in> set ?rs" "terminal_request (snd x)" for x
    proof -
      from that have "age_of q \<le> age_of (snd x)" "q_ID (snd x) \<noteq> q_ID q"
        using r q less(2) by (auto simp: set_delete keyed_def)
      then show ?thesis by (auto simp: age_of_def less_age_def less_eq_age_def)
    qed
    note t = rs'(2) [unfolded trimmed_def]
    have "terminal_request (snd x)
        \<and> (\<forall>y\<in>set rs'. terminal_request (snd y) \<longrightarrow> age_of (snd x) < age_of (snd y))"
      if x: "x \<in> set rs - set rs'" for x
    proof (cases "x \<in> set ?rs")
      case True
      with t x show ?thesis by blast
    next
      case False
      with gone x have "x = e" by blast
      moreover have "set rs' \<subseteq> set ?rs" using t by blast
      ultimately show ?thesis using older e(2,3) by blast
    qed
    moreover have "int (count_vals terminal_request rs')
        = min (int (count_vals terminal_request rs)) max_terminal"
      using count_delete [OF less(2) e(1,3)] t e(2) r False by (auto simp: min_def)
    moreover have "set rs' \<subseteq> set rs" using t by (auto simp: set_delete)
    ultimately have "trimmed max_terminal rs rs'" using t by (simp add: trimmed_def)
    with rs' scan q False show ?thesis
      by (subst trim_loop.simps) simp
  qed
qed

subsection \<open>The lifecycle of an agent's requests\<close>

lemma requests_of_put [simp]:
  "requests_of (put_requests a rs s) b = (if b = a then rs else requests_of s b)"
  by (simp add: requests_of_def put_requests_def update_conv')

lemma requests_of_prune [simp]:
  "requests_of (pruneLocked a now s) b =
     (if b = a then filter (\<lambda>e. now < q_ExpiresAt (snd e)) (requests_of s a) else requests_of s b)"
  by (simp add: pruneLocked_def Let_def)
    (simp add: requests_of_def delete_conv' split: option.split)

lemma request_limits_frame [simp]:
  "rq_limits (put_requests a rs s) = rq_limits s" "rq_limits (pruneLocked a now s) = rq_limits s"
  "rq_limits (set_request a rid q s) = rq_limits s"
  by (simp_all add: put_requests_def pruneLocked_def set_request_def Let_def)

text \<open>How one request moves: it is dispatched, or it ends; an ended request does not move.\<close>

inductive request_moves :: "request_limits \<Rightarrow> time \<Rightarrow> request \<Rightarrow> request \<Rightarrow> bool" for l now where
  dispatched: "q_Status q = StatusQueued
    \<Longrightarrow> request_moves l now q (q\<lparr>q_Status := StatusDispatched, q_UpdatedAt := now\<rparr>)"
| failed: "q_Status q \<in> {StatusQueued, StatusDispatched} \<Longrightarrow> code \<noteq> ''''
    \<Longrightarrow> request_moves l now q (q\<lparr>q_Status := StatusFailed, q_FailureCode := code, q_UpdatedAt := now\<rparr>)"
| completed: "q_Status q = StatusDispatched \<Longrightarrow> int (length response) \<le> rl_MaxResponseBytes l
    \<Longrightarrow> request_moves l now q (q\<lparr>q_Status := StatusCompleted, q_Response := response, q_UpdatedAt := now\<rparr>)"

inductive_cases request_movesE: "request_moves l now q q'"

definition new_request :: "request_limits \<Rightarrow> time \<Rightarrow> string \<Rightarrow> string \<Rightarrow> string \<Rightarrow> string \<Rightarrow> request" where
  "new_request l now agent rid prompt correlation =
     \<lparr>q_ID = rid, q_Agent = agent, q_Prompt = prompt, q_Correlation = correlation,
      q_Status = StatusQueued, q_Response = '''', q_FailureCode = '''', q_CreatedAt = now,
      q_ExpiresAt = now + rl_Lifetime l, q_UpdatedAt = now\<rparr>"

text \<open>What one method may do to the requests of an agent, once they are pruned; it creates ids of \<open>new\<close> only.\<close>

inductive requests_step ::
    "request_limits \<Rightarrow> time \<Rightarrow> string \<Rightarrow> string set \<Rightarrow> requests \<Rightarrow> requests \<Rightarrow> bool" for l now agent new where
  keep: "requests_step l now agent new rs rs"
| create: "rid \<in> new \<Longrightarrow> map_of rs rid = None \<Longrightarrow> int (count_vals outstanding_request rs) < rl_MaxOutstanding l
    \<Longrightarrow> request_validateCreate agent rid prompt correlation l = None
    \<Longrightarrow> requests_step l now agent new rs (AList.update rid (new_request l now agent rid prompt correlation) rs)"
| dispatch: "map_of rs rid = Some q \<Longrightarrow> request_moves l now q q' \<Longrightarrow> \<not> terminal_request q'
    \<Longrightarrow> requests_step l now agent new rs (AList.update rid q' rs)"
| finish: "map_of rs rid = Some q \<Longrightarrow> request_moves l now q q' \<Longrightarrow> terminal_request q'
    \<Longrightarrow> trimmed (rl_MaxTerminal l) (AList.update rid q' rs) rs'
    \<Longrightarrow> requests_step l now agent new rs rs'"

text \<open>The invariant of an agent's requests.\<close>

definition request_ok :: "request_limits \<Rightarrow> string \<Rightarrow> request \<Rightarrow> bool" where
  "request_ok l agent q \<longleftrightarrow>
     q_Agent q = agent \<and> int (length (q_Prompt q)) \<le> rl_MaxPromptBytes l
     \<and> int (length (q_Correlation q)) \<le> rl_MaxCorrelationBytes l
     \<and> int (length (q_Response q)) \<le> rl_MaxResponseBytes l
     \<and> q_ExpiresAt q = q_CreatedAt q + rl_Lifetime l
     \<and> q_Status q \<noteq> StatusExpired"

definition agent_requests_ok :: "request_limits \<Rightarrow> string \<Rightarrow> requests \<Rightarrow> bool" where
  "agent_requests_ok l agent rs \<longleftrightarrow>
     keyed rs \<and> (\<forall>e\<in>set rs. request_ok l agent (snd e))
     \<and> int (count_vals outstanding_request rs) \<le> rl_MaxOutstanding l
     \<and> int (count_vals terminal_request rs) \<le> rl_MaxTerminal l"

definition requests_ok :: "request_store \<Rightarrow> bool" where
  "requests_ok s \<longleftrightarrow> request_limits_Validate (rq_limits s)
     \<and> (\<forall>agent. agent_requests_ok (rq_limits s) agent (requests_of s agent))"

lemma limits_positive:
  assumes "request_limits_Validate l"
  shows "0 < rl_Lifetime l" "0 < rl_MaxResponseBytes l" "0 < rl_MaxOutstanding l" "0 < rl_MaxTerminal l"
    "rl_Lifetime l \<le> 5 * minute"
  using assms by (simp_all add: request_limits_Validate_def)

lemma count_filter_le: "count_vals P (filter Q rs) \<le> count_vals P rs"
  by (induction rs) auto

lemma prune_ok: "agent_requests_ok l agent rs \<Longrightarrow> agent_requests_ok l agent (filter P rs)"
  using count_filter_le [of outstanding_request P rs] count_filter_le [of terminal_request P rs]
  by (auto simp: agent_requests_ok_def keyed_filter)

lemma request_moves_frame:
  assumes "request_moves l now q q'"
  shows "q_ID q' = q_ID q" "outstanding_request q" "\<not> terminal_request q"
    "outstanding_request q' \<longleftrightarrow> \<not> terminal_request q'"
    "request_ok l agent q \<Longrightarrow> request_ok l agent q'"
  using assms by (auto elim!: request_movesE simp: outstanding_request_def terminal_request_def request_ok_def)

lemma keyed_update: "keyed rs \<Longrightarrow> q_ID q = k \<Longrightarrow> keyed (AList.update k q rs)"
  by (auto simp: keyed_def distinct_update dest: update_entries)

lemma update_all: "keyed rs \<Longrightarrow> \<forall>e\<in>set rs. P (snd e) \<Longrightarrow> P q \<Longrightarrow> \<forall>e\<in>set (AList.update k q rs). P (snd e)"
  by (auto simp: keyed_def dest: update_entries)

lemma keyed_lookup: "keyed rs \<Longrightarrow> map_of rs k = Some q \<Longrightarrow> (k, q) \<in> set rs \<and> q_ID q = k"
  by (auto simp: keyed_def dest: map_of_SomeD)

text \<open>Trimming keeps a subset, so it does not raise a count.\<close>

lemma trimmed_count:
  assumes "keyed rs" and "trimmed m rs rs'"
  shows "count_vals P rs' \<le> count_vals P rs"
proof -
  have "count_vals P rs' = card {k. \<exists>v. map_of rs' k = Some v \<and> P v}"
    and "count_vals P rs = card {k. \<exists>v. map_of rs k = Some v \<and> P v}"
    using assms am.count_card [of rs' P] am.count_card [of rs P] by (auto simp: trimmed_def keyed_def)
  moreover have "{k. \<exists>v. map_of rs' k = Some v \<and> P v} \<subseteq> {k. \<exists>v. map_of rs k = Some v \<and> P v}"
    using assms by (auto simp: trimmed_def keyed_def dest!: map_of_SomeD intro!: map_of_is_SomeI)
  moreover have "finite {k. \<exists>v. map_of rs k = Some v \<and> P v}"
    using assms am.finite_matching [of rs] by (simp add: keyed_def)
  ultimately show ?thesis by (simp add: card_mono)
qed

lemma requests_step_ok:
  assumes "requests_step l now agent new rs rs'" and ok: "agent_requests_ok l agent rs"
    and l: "request_limits_Validate l"
  shows "agent_requests_ok l agent rs'"
  using assms(1)
proof cases
  case keep
  with ok show ?thesis by simp
next
  case (create rid prompt correlation)
  let ?q = "new_request l now agent rid prompt correlation"
  have q: "request_ok l agent ?q" "outstanding_request ?q" "\<not> terminal_request ?q" "q_ID ?q = rid"
    using create(5) limits_positive [OF l]
    by (auto simp: new_request_def request_ok_def outstanding_request_def terminal_request_def
        request_validateCreate_def split: if_splits)
  have "keyed rs" "go_wf rs" using ok by (simp_all add: agent_requests_ok_def keyed_def)
  with create ok q show ?thesis
    using am.count_update_new [of rs rid outstanding_request ?q] am.count_update_new [of rs rid terminal_request ?q]
      update_all [of rs "request_ok l agent" ?q rid]
    by (simp add: agent_requests_ok_def keyed_update)
next
  case (dispatch rid q q')
  note f = request_moves_frame [OF dispatch(3)]
  have k: "keyed rs" "go_wf rs" using ok by (simp_all add: agent_requests_ok_def keyed_def)
  have q: "(rid, q) \<in> set rs" "q_ID q = rid" using keyed_lookup [OF k(1) dispatch(2)] by simp_all
  have "request_ok l agent q'" using ok q(1) f(5) by (force simp: agent_requests_ok_def)
  then have all: "\<forall>e\<in>set (AList.update rid q' rs). request_ok l agent (snd e)"
    using ok update_all [OF k(1), of "request_ok l agent" q' rid] by (simp add: agent_requests_ok_def)
  have "outstanding_request q'" "\<not> terminal_request q'" using f(4) dispatch(4) by simp_all
  with f(2,3) have "count_vals outstanding_request (AList.update rid q' rs) = count_vals outstanding_request rs"
    "count_vals terminal_request (AList.update rid q' rs) = count_vals terminal_request rs"
    using am.count_update_old [OF k(2) dispatch(2), of outstanding_request q']
      am.count_update_old [OF k(2) dispatch(2), of terminal_request q'] by simp_all
  moreover have "keyed (AList.update rid q' rs)" using k(1) q(2) f(1) by (simp add: keyed_update)
  ultimately show ?thesis using ok all dispatch(1) by (simp add: agent_requests_ok_def)
next
  case (finish rid q q')
  note f = request_moves_frame [OF finish(2)]
  have k: "keyed rs" "go_wf rs" using ok by (simp_all add: agent_requests_ok_def keyed_def)
  have q: "(rid, q) \<in> set rs" "q_ID q = rid" using keyed_lookup [OF k(1) finish(1)] by simp_all
  let ?rs = "AList.update rid q' rs"
  have "request_ok l agent q'" using ok q(1) f(5) by (force simp: agent_requests_ok_def)
  then have all: "\<forall>e\<in>set ?rs. request_ok l agent (snd e)"
    using ok update_all [OF k(1), of "request_ok l agent" q' rid] by (simp add: agent_requests_ok_def)
  have ku: "keyed ?rs" using k q f(1) by (simp add: keyed_update)
  have "int (count_vals outstanding_request ?rs) \<le> rl_MaxOutstanding l"
    using am.count_update_old [OF k(2) finish(1), of outstanding_request q'] f finish(3) ok
    by (simp add: agent_requests_ok_def)
  moreover note trimmed_count [OF ku finish(4), of outstanding_request]
  ultimately show ?thesis
    using finish(4) all by (auto simp: agent_requests_ok_def trimmed_def)
qed

subsection \<open>Runs\<close>

datatype request_op =
    ReqCreate string string string string | ReqGet string string | ReqMark string string
  | ReqFail string string string | ReqComplete string string string

fun op_agent :: "request_op \<Rightarrow> string" where
  "op_agent (ReqCreate a _ _ _) = a" | "op_agent (ReqGet a _) = a" | "op_agent (ReqMark a _) = a"
| "op_agent (ReqFail a _ _) = a" | "op_agent (ReqComplete a _ _) = a"

fun op_creates :: "request_op \<Rightarrow> string set" where
  "op_creates (ReqCreate _ rid _ _) = {rid}"
| "op_creates _ = {}"

fun exec_request :: "time \<Rightarrow> request_op \<Rightarrow> request_store \<Rightarrow> request_store option" where
  "exec_request now (ReqCreate a rid p c) s = map_option snd (Create_request now a rid p c s)"
| "exec_request now (ReqGet a rid) s = map_option snd (Get_request now a rid s)"
| "exec_request now (ReqMark a rid) s = map_option snd (MarkDispatched_request now a rid s)"
| "exec_request now (ReqFail a rid code) s = map_option snd (Fail_request now a rid code s)"
| "exec_request now (ReqComplete a rid r) s = map_option snd (Complete_request now a rid r s)"

text \<open>What a method does to the whole store: \<open>s'\<close> differs from \<open>s\<close> in one agent's requests.\<close>

abbreviation live :: "time \<Rightarrow> requests \<Rightarrow> requests" where
  "live now rs \<equiv> filter (\<lambda>e. now < q_ExpiresAt (snd e)) rs"

definition request_effect :: "time \<Rightarrow> string \<Rightarrow> string set \<Rightarrow> request_store \<Rightarrow> request_store \<Rightarrow> bool" where
  "request_effect now agent new s s' \<longleftrightarrow>
     rq_limits s' = rq_limits s
     \<and> (\<forall>b. b \<noteq> agent \<longrightarrow> requests_of s' b = requests_of s b)
     \<and> (requests_of s' agent = requests_of s agent
        \<or> requests_step (rq_limits s) now agent new (live now (requests_of s agent)) (requests_of s' agent))"

lemma request_effect_refl: "request_effect now agent new s s"
  by (simp add: request_effect_def)

lemma request_effect_prune: "request_effect now agent new s (pruneLocked agent now s)"
  by (simp add: request_effect_def requests_step.keep)

lemma Create_request_effect:
  "\<exists>r s'. Create_request now agent rid prompt correlation s = Some (r, s') \<and> request_effect now agent {rid} s s'"
proof (cases "request_validateCreate agent rid prompt correlation (rq_limits s)")
  case (Some err)
  then show ?thesis by (simp add: Create_request_def request_effect_refl)
next
  case None
  let ?s1 = "pruneLocked agent now s"
  define s2 where "s2 = (if map_of (rq_requests ?s1) agent = None then put_requests agent [] ?s1 else ?s1)"
  have same: "requests_of s2 b = requests_of ?s1 b" "rq_limits s2 = rq_limits s" for b
    by (simp_all add: s2_def requests_of_def) (simp add: put_requests_def update_conv')
  let ?rs = "requests_of s2 agent"
  let ?q = "new_request (rq_limits s) now agent rid prompt correlation"
  have pruned: "request_effect now agent {rid} s s2"
    using same by (simp add: request_effect_def requests_step.keep)
  have created: "request_effect now agent {rid} s (put_requests agent (AList.update rid ?q ?rs) s2)"
    if "map_of ?rs rid = None" "int (count_vals outstanding_request ?rs) < rl_MaxOutstanding (rq_limits s)"
    using that None unfolding same
    by (simp add: request_effect_def same requests_step.create)
  have "Create_request now agent rid prompt correlation s =
      (if map_of ?rs rid \<noteq> None then Some (Inl ReqConflict, s2)
       else if int (count_vals outstanding_request ?rs) \<ge> rl_MaxOutstanding (rq_limits s)
       then Some (Inl ReqOutstandingLimit, s2)
       else Some (Inr ?q, put_requests agent (AList.update rid ?q ?rs) s2))"
    unfolding Create_request_def None Let_def s2_def [symmetric] new_request_def same(2) by simp
  with pruned created show ?thesis by (simp add: not_le)
qed

lemma Get_request_effect:
  "\<exists>r s'. Get_request now agent rid s = Some (r, s') \<and> request_effect now agent new s s'"
  by (simp add: Get_request_def Let_def request_effect_prune split: option.split)

lemma request_effect_dispatch:
  assumes "map_of (requests_of (pruneLocked agent now s) agent) rid = Some q"
    and "request_moves (rq_limits s) now q q'" and "\<not> terminal_request q'"
  shows "request_effect now agent new s (set_request agent rid q' (pruneLocked agent now s))"
  using assms by (simp add: request_effect_def set_request_def requests_step.dispatch)

lemma MarkDispatched_request_effect:
  "\<exists>r s'. MarkDispatched_request now agent rid s = Some (r, s') \<and> request_effect now agent new s s'"
proof (cases "map_of (requests_of (pruneLocked agent now s) agent) rid")
  case None
  then show ?thesis by (simp add: MarkDispatched_request_def transition_def Let_def request_effect_prune)
next
  case (Some q)
  show ?thesis
    unfolding MarkDispatched_request_def transition_def Let_def Some
    by (simp add: request_effect_prune request_effect_dispatch [OF Some request_moves.dispatched]
        terminal_request_def)
qed

text \<open>An ending request: the trimming returns.\<close>

lemma trim_effect:
  assumes ok: "requests_ok s"
    and q: "map_of (requests_of (pruneLocked agent now s) agent) rid = Some q"
    and moves: "request_moves (rq_limits s) now q q'" and t: "terminal_request q'"
  shows "\<exists>s'. trimTerminalLocked agent (set_request agent rid q' (pruneLocked agent now s)) = Some s'
           \<and> request_effect now agent new s s'"
proof -
  let ?l = "rq_limits s" and ?rs = "requests_of (pruneLocked agent now s) agent"
  have l: "request_limits_Validate ?l" and "agent_requests_ok ?l agent ?rs"
    using ok by (simp_all add: requests_ok_def prune_ok)
  then have k: "keyed ?rs" by (simp add: agent_requests_ok_def)
  with keyed_lookup [OF k q] request_moves_frame(1) [OF moves] have "keyed (AList.update rid q' ?rs)"
    by (simp add: keyed_update)
  then obtain rs' where rs': "trim_loop (rl_MaxTerminal ?l) (AList.update rid q' ?rs) = Some rs'"
      "trimmed (rl_MaxTerminal ?l) (AList.update rid q' ?rs) rs'"
    using trim_loop_trims limits_positive(4) [OF l] by (meson less_imp_le)
  have "requests_step ?l now agent new ?rs rs'"
    by (rule requests_step.finish [OF q moves t rs'(2)])
  with rs'(1) show ?thesis
    by (simp add: trimTerminalLocked_def set_request_def request_effect_def)
qed

lemma Fail_request_effect:
  assumes "requests_ok s"
  shows "\<exists>r s'. Fail_request now agent rid code s = Some (r, s') \<and> request_effect now agent new s s'"
proof (cases "code = '''' \<or> map_of (requests_of (pruneLocked agent now s) agent) rid = None")
  case True
  then show ?thesis
    by (auto simp: Fail_request_def transition_def Let_def request_effect_prune request_effect_refl)
next
  case False
  then obtain q where q: "map_of (requests_of (pruneLocked agent now s) agent) rid = Some q" by blast
  let ?q = "q\<lparr>q_Status := StatusFailed, q_FailureCode := code, q_UpdatedAt := now\<rparr>"
  show ?thesis
  proof (cases "q_Status q = StatusQueued \<or> q_Status q = StatusDispatched")
    case True
    then have "request_moves (rq_limits s) now q ?q" using False by (intro request_moves.failed) auto
    from trim_effect [OF assms q this] True False q show ?thesis
      by (auto simp: Fail_request_def transition_def Let_def terminal_request_def)
  next
    case st: False
    with False q show ?thesis
      by (simp add: Fail_request_def transition_def Let_def request_effect_prune)
  qed
qed

lemma Complete_request_effect:
  assumes "requests_ok s"
  shows "\<exists>r s'. Complete_request now agent rid response s = Some (r, s') \<and> request_effect now agent new s s'"
proof (cases "int (length response) > rl_MaxResponseBytes (rq_limits s)
    \<or> map_of (requests_of (pruneLocked agent now s) agent) rid = None")
  case True
  then show ?thesis
    by (auto simp: Complete_request_def transition_def Let_def request_effect_prune request_effect_refl)
next
  case False
  then obtain q where q: "map_of (requests_of (pruneLocked agent now s) agent) rid = Some q" by blast
  let ?q = "q\<lparr>q_Status := StatusCompleted, q_Response := response, q_UpdatedAt := now\<rparr>"
  show ?thesis
  proof (cases "q_Status q = StatusDispatched")
    case True
    then have "request_moves (rq_limits s) now q ?q" using False by (intro request_moves.completed) auto
    from trim_effect [OF assms q this] True False q show ?thesis
      by (auto simp: Complete_request_def transition_def Let_def terminal_request_def)
  next
    case st: False
    with False q show ?thesis
      by (simp add: Complete_request_def transition_def Let_def request_effect_prune)
  qed
qed

lemma exec_request_effect:
  assumes "requests_ok s"
  shows "\<exists>s'. exec_request now op s = Some s' \<and> request_effect now (op_agent op) (op_creates op) s s'"
proof (cases op)
  case (ReqCreate a rid p c)
  with Create_request_effect [of now a rid p c s] show ?thesis by auto
next
  case (ReqGet a rid)
  with Get_request_effect [of now a rid s "{}"] show ?thesis by auto
next
  case (ReqMark a rid)
  with MarkDispatched_request_effect [of now a rid s "{}"] show ?thesis by auto
next
  case (ReqFail a rid code)
  with Fail_request_effect [OF assms, of now a rid code "{}"] show ?thesis by auto
next
  case (ReqComplete a rid r)
  with Complete_request_effect [OF assms, of now a rid r "{}"] show ?thesis by auto
qed

lemma request_effect_ok:
  assumes "request_effect now agent new s s'" and "requests_ok s"
  shows "requests_ok s'"
proof -
  have l: "rq_limits s' = rq_limits s" using assms(1) by (simp add: request_effect_def)
  have "agent_requests_ok (rq_limits s) b (requests_of s' b)" for b
  proof (cases "requests_of s' b = requests_of s b")
    case True
    with assms(2) show ?thesis by (simp add: requests_ok_def)
  next
    case False
    then have b: "b = agent" using assms(1) by (auto simp: request_effect_def)
    have step: "requests_step (rq_limits s) now b new (live now (requests_of s b)) (requests_of s' b)"
      using False assms(1) unfolding b request_effect_def by simp
    have "agent_requests_ok (rq_limits s) b (requests_of s b)" and "request_limits_Validate (rq_limits s)"
      using assms(2) unfolding requests_ok_def by blast+
    then show ?thesis by (intro requests_step_ok [OF step] prune_ok)
  qed
  with assms(2) l show ?thesis by (simp add: requests_ok_def)
qed

fun run_requests :: "(time \<times> request_op) list \<Rightarrow> request_store \<Rightarrow> request_store option" where
  "run_requests [] s = Some s"
| "run_requests ((now, op) # ops) s =
     (case exec_request now op s of None \<Rightarrow> None | Some s' \<Rightarrow> run_requests ops s')"

lemma new_requests_ok:
  assumes "NewRequestStore l = Inr s0"
  shows "requests_ok s0" "rq_limits s0 = l"
proof -
  have l: "request_limits_Validate l" and s0: "s0 = \<lparr>rq_requests = [], rq_limits = l\<rparr>"
    using assms by (auto simp: NewRequestStore_def split: if_splits)
  from l limits_positive [OF l] show "requests_ok s0" "rq_limits s0 = l"
    by (simp_all add: s0 requests_ok_def requests_of_def agent_requests_ok_def keyed_def)
qed

lemma run_requests_ok:
  "requests_ok s \<Longrightarrow> \<exists>s'. run_requests ops s = Some s' \<and> requests_ok s' \<and> rq_limits s' = rq_limits s"
proof (induction ops arbitrary: s)
  case (Cons o' ops)
  obtain now op where o': "o' = (now, op)" by (cases o')
  obtain s1 where s1: "exec_request now op s = Some s1"
      "request_effect now (op_agent op) (op_creates op) s s1"
    using exec_request_effect [OF Cons(2)] by blast
  have "requests_ok s1" "rq_limits s1 = rq_limits s"
    using request_effect_ok [OF s1(2) Cons(2)] s1(2) by (simp_all add: request_effect_def)
  with Cons(1) [of s1] s1(1) show ?case by (simp add: o')
qed simp

lemma reachable_requests:
  assumes "NewRequestStore l = Inr s0" and "run_requests ops s0 = Some s"
  shows "requests_ok s" "rq_limits s = l"
  using run_requests_ok [OF new_requests_ok(1) [OF assms(1)], of ops] new_requests_ok(2) [OF assms(1)]
    assms(2) by auto

lemmas [inv_intros] = request_effect_ok

text \<open>
  C13: the request store is bounded and its methods return. From an empty store any calls at any
  times all return (the trimming loop ends), and then every agent has at most the allowed
  outstanding and the allowed terminal requests, each under its own id, with its payloads within
  their limits and its expiry exactly the lifetime after its creation.
\<close>

theorem requests_bounded:
  assumes "NewRequestStore l = Inr s0"
  shows "\<exists>s. run_requests ops s0 = Some s
           \<and> (\<forall>agent. int (count_vals outstanding_request (requests_of s agent)) \<le> rl_MaxOutstanding l
                \<and> int (count_vals terminal_request (requests_of s agent)) \<le> rl_MaxTerminal l
                \<and> (\<forall>(rid, q)\<in>set (requests_of s agent). q_ID q = rid \<and> request_ok l agent q))"
proof -
  obtain s where s: "run_requests ops s0 = Some s" "requests_ok s" "rq_limits s = l"
    using run_requests_ok [OF new_requests_ok(1) [OF assms]] new_requests_ok(2) [OF assms] by blast
  then have "agent_requests_ok l agent (requests_of s agent)" for agent
    by (simp add: requests_ok_def)
  then show ?thesis
    using s(1) by (fastforce simp: agent_requests_ok_def keyed_def)
qed

text \<open>
  trimming keeps the newest. On requests stored under their own ids the trimming loop ends; it
  keeps every outstanding request and as many terminal ones as the limit allows, and every one it
  drops is older (by update time, then id) than every terminal one it keeps.
\<close>

theorem trimming_keeps_newest:
  assumes "keyed rs" and "0 \<le> max_terminal"
  shows "\<exists>rs'. trim_loop max_terminal rs = Some rs' \<and> set rs' \<subseteq> set rs
           \<and> (\<forall>e\<in>set rs. \<not> terminal_request (snd e) \<longrightarrow> e \<in> set rs')
           \<and> int (count_vals terminal_request rs') = min (int (count_vals terminal_request rs)) max_terminal
           \<and> (\<forall>e\<in>set rs - set rs'. \<forall>e'\<in>set rs'. terminal_request (snd e') \<longrightarrow> age_of (snd e) < age_of (snd e'))"
  using trim_loop_trims [OF assms] unfolding trimmed_def by blast

text \<open>
  no request outlives its lifetime. A request that \<open>Get\<close> answers is the one asked for, is
  unexpired, and expires exactly the configured lifetime (at most five minutes) after its creation;
  from its expiry on \<open>Get\<close> answers not found.
\<close>

theorem request_never_outlives:
  assumes "NewRequestStore l = Inr s0" and "run_requests ops s0 = Some s"
    and "Get_request now agent rid s = Some (Inr q, s1)"
  shows "q_ID q = rid \<and> q_Agent q = agent \<and> now < q_ExpiresAt q
         \<and> q_ExpiresAt q = q_CreatedAt q + rl_Lifetime l \<and> q_ExpiresAt q \<le> q_CreatedAt q + 5 * minute
         \<and> (\<forall>now'. q_ExpiresAt q \<le> now' \<longrightarrow> (\<exists>s2. Get_request now' agent rid s1 = Some (Inl ReqNotFound, s2)))"
proof -
  note r = reachable_requests [OF assms(1,2)]
  have ok: "agent_requests_ok l agent (requests_of s agent)" and l: "request_limits_Validate l"
    using r by (simp_all add: requests_ok_def)
  have q: "map_of (live now (requests_of s agent)) rid = Some q" and s1: "s1 = pruneLocked agent now s"
    using assms(3) by (auto simp: Get_request_def Let_def split: option.splits)
  then have mem: "(rid, q) \<in> set (requests_of s agent)" "now < q_ExpiresAt q"
    by (auto dest: map_of_SomeD)
  with ok have "request_ok l agent q" "q_ID q = rid"
    by (auto simp: agent_requests_ok_def keyed_def)
  moreover have "map_of (live now' (live now (requests_of s agent))) rid = None"
    if "q_ExpiresAt q \<le> now'" for now'
  proof -
    have "keyed (requests_of s agent)" using ok by (simp add: agent_requests_ok_def)
    then have "x = (rid, q)" if "x \<in> set (requests_of s agent)" "fst x = rid" for x
      using keyed_unique [OF _ that(1) mem(1)] that mem(1) by (auto simp: keyed_def)
    then show ?thesis using that by (auto simp: map_of_eq_None_iff)
  qed
  ultimately show ?thesis
    using mem limits_positive(5) [OF l] by (simp add: request_ok_def Get_request_def s1 Let_def)
qed

subsection \<open>The first response\<close>

lemma subset_lookup:
  assumes "go_wf rs'" "go_wf rs" "set rs' \<subseteq> set rs"
  shows "map_of rs' k = None \<or> map_of rs' k = map_of rs k"
  using assms by (cases "map_of rs' k") (auto dest!: map_of_SomeD)

text \<open>An ended request stays as it is until it is dropped.\<close>

lemma ended_request_stays:
  assumes "request_effect now agent new s s'" and "requests_ok s"
    and "b = agent \<longrightarrow> rid \<notin> new" and "\<And>q. map_of (requests_of s b) rid = Some q \<Longrightarrow> terminal_request q"
  shows "map_of (requests_of s' b) rid = None \<or> map_of (requests_of s' b) rid = map_of (requests_of s b) rid"
    (is "?gone s'")
proof (cases "requests_of s' b = requests_of s b")
  case False
  let ?rs = "live now (requests_of s b)"
  have b: "b = agent" using False assms(1) by (auto simp: request_effect_def)
  have wf: "keyed (requests_of s b)" using assms(2) by (simp add: requests_ok_def agent_requests_ok_def)
  then have k: "keyed ?rs" by (rule keyed_filter)
  have live: "map_of ?rs rid = None \<or> map_of ?rs rid = map_of (requests_of s b) rid"
    by (rule subset_lookup) (use wf k in \<open>auto simp: keyed_def\<close>)
  have "requests_step (rq_limits s) now b new ?rs (requests_of s' b)"
    using False assms(1) unfolding b request_effect_def by simp
  then have "map_of (requests_of s' b) rid = None \<or> map_of (requests_of s' b) rid = map_of ?rs rid"
  proof cases
    case (create rid')
    with assms(3) b have "rid' \<noteq> rid" by auto
    with create(1) show ?thesis by (simp add: update_conv')
  next
    case (dispatch rid' q0 q1)
    from request_moves_frame(3) [OF dispatch(3)] dispatch(2) live assms(4) have "rid' \<noteq> rid" by auto
    with dispatch(1) show ?thesis by (simp add: update_conv')
  next
    case (finish rid' q0 q1)
    from request_moves_frame(3) [OF finish(2)] finish(1) live assms(4) have ne: "rid' \<noteq> rid" by auto
    have "go_wf (AList.update rid' q1 ?rs)" using k by (simp add: keyed_def distinct_update)
    then have "map_of (requests_of s' b) rid = None
        \<or> map_of (requests_of s' b) rid = map_of (AList.update rid' q1 ?rs) rid"
      using finish(4) by (intro subset_lookup) (simp_all add: trimmed_def keyed_def)
    with ne show ?thesis by (simp add: update_conv')
  qed simp
  with live show ?thesis by auto
qed simp

definition answered :: "string \<Rightarrow> string \<Rightarrow> string \<Rightarrow> request_store \<Rightarrow> bool" where
  "answered agent rid response s \<longleftrightarrow>
     (\<forall>q. map_of (requests_of s agent) rid = Some q \<longrightarrow> q_Status q = StatusCompleted \<and> q_Response q = response)"

lemma answered_effect:
  assumes "request_effect now a new s s'" and "requests_ok s" and "agent = a \<longrightarrow> rid \<notin> new"
    and "answered agent rid response s"
  shows "answered agent rid response s'"
  using ended_request_stays [OF assms(1-3)] assms(4) by (auto simp: answered_def terminal_request_def)

lemma answered_run:
  assumes "requests_ok s" and "answered agent rid response s" and "run_requests ops s = Some s'"
    and "\<forall>(now, op)\<in>set ops. op_agent op = agent \<longrightarrow> rid \<notin> op_creates op"
  shows "answered agent rid response s' \<and> requests_ok s'"
  using assms
proof (induction ops arbitrary: s)
  case (Cons o' ops)
  obtain now op where o': "o' = (now, op)" by (cases o')
  obtain s1 where s1: "exec_request now op s = Some s1"
      "request_effect now (op_agent op) (op_creates op) s s1"
    using exec_request_effect [OF Cons(2)] by blast
  have "requests_ok s1" by (rule request_effect_ok [OF s1(2) Cons(2)])
  moreover have "answered agent rid response s1"
    using Cons(3,5) by (intro answered_effect [OF s1(2) Cons(2)]) (auto simp: o')
  moreover have "run_requests ops s1 = Some s'" using Cons(4) s1(1) by (simp add: o')
  ultimately show ?case using Cons(1,5) by (simp add: o')
qed simp

lemma Complete_answers:
  assumes "Complete_request now agent rid response s = Some (Inr (), s1)" and "requests_ok s"
  shows "answered agent rid response s1"
proof -
  let ?rs = "requests_of (pruneLocked agent now s) agent"
  obtain q where q: "map_of ?rs rid = Some q"
    using assms(1) by (auto simp: Complete_request_def transition_def Let_def split: if_splits option.splits)
  let ?q = "q\<lparr>q_Status := StatusCompleted, q_Response := response, q_UpdatedAt := now\<rparr>"
  show ?thesis
  proof (cases "q_Status q = StatusCompleted")
    case True
    with assms(1) q have "s1 = pruneLocked agent now s" "q_Response q = response"
      by (auto simp: Complete_request_def transition_def Let_def split: if_splits)
    with q True show ?thesis by (simp add: answered_def)
  next
    case False
    with assms(1) q have d: "q_Status q = StatusDispatched" "int (length response) \<le> rl_MaxResponseBytes (rq_limits s)"
      and t: "trimTerminalLocked agent (set_request agent rid ?q (pruneLocked agent now s)) = Some s1"
      by (auto simp: Complete_request_def transition_def Let_def split: if_splits)
    have ok: "agent_requests_ok (rq_limits s) agent (requests_of s agent)" and l: "0 < rl_MaxTerminal (rq_limits s)"
      using assms(2) limits_positive(4) by (auto simp: requests_ok_def)
    then have k: "keyed ?rs" by (simp add: agent_requests_ok_def keyed_filter)
    have u: "keyed (AList.update rid ?q ?rs)" using keyed_lookup [OF k q] by (intro keyed_update [OF k]) simp
    from t trim_loop_trims [OF u, of "rl_MaxTerminal (rq_limits s)"] l
    have "trimmed (rl_MaxTerminal (rq_limits s)) (AList.update rid ?q ?rs) (requests_of s1 agent)"
      by (auto simp: trimTerminalLocked_def set_request_def split: option.splits)
    then have "map_of (requests_of s1 agent) rid = None
        \<or> map_of (requests_of s1 agent) rid = map_of (AList.update rid ?q ?rs) rid"
      using u by (intro subset_lookup) (auto simp: trimmed_def keyed_def)
    then show ?thesis by (auto simp: answered_def update_conv')
  qed
qed

text \<open>
  C14: the first response wins. Once \<open>Complete\<close> has accepted a response, then after any later calls
  that do not create the id anew, \<open>Get\<close> answers that response or not found; completing with
  another response and failing the request are refused, as a conflict or as not found.
\<close>

theorem first_response_wins:
  assumes "NewRequestStore l = Inr s0" and "run_requests before s0 = Some s"
    and "Complete_request now agent rid response s = Some (Inr (), s1)"
    and "run_requests ops s1 = Some s2"
    and "\<forall>(now, op)\<in>set ops. op_agent op = agent \<longrightarrow> rid \<notin> op_creates op"
  shows "(\<exists>r s3. Get_request now' agent rid s2 = Some (r, s3)
            \<and> (r = Inl ReqNotFound \<or> (\<exists>q. r = Inr q \<and> q_Status q = StatusCompleted \<and> q_Response q = response)))
         \<and> (other \<noteq> response \<longrightarrow> (\<exists>err s3. Complete_request now' agent rid other s2 = Some (Inl err, s3)))
         \<and> (\<exists>err s3. Fail_request now' agent rid code s2 = Some (Inl err, s3))"
proof -
  have ok: "requests_ok s" using reachable_requests [OF assms(1,2)] by simp
  obtain r s1' where "Complete_request now agent rid response s = Some (r, s1')" "request_effect now agent {} s s1'"
    using Complete_request_effect [OF ok] by blast
  with assms(3) have "requests_ok s1" using request_effect_ok [OF _ ok] by simp
  with answered_run [OF this Complete_answers [OF assms(3) ok] assms(4,5)]
  have a: "answered agent rid response s2" "requests_ok s2" by simp_all
  let ?rs = "requests_of (pruneLocked agent now' s2) agent"
  have k: "keyed (requests_of s2 agent)" using a(2) by (simp add: requests_ok_def agent_requests_ok_def)
  then have "map_of ?rs rid = None \<or> map_of ?rs rid = map_of (requests_of s2 agent) rid"
    using keyed_filter by (intro subset_lookup) (auto simp: keyed_def distinct_map_filter)
  with a(1) consider "map_of ?rs rid = None"
    | q where "map_of ?rs rid = Some q" "q_Status q = StatusCompleted" "q_Response q = response"
    unfolding answered_def by (cases "map_of ?rs rid") auto
  then show ?thesis
    by cases (auto simp: Get_request_def Complete_request_def Fail_request_def transition_def Let_def)
qed

subsection \<open>Examples\<close>

definition example_request_store :: request_store where
  "example_request_store = \<lparr>rq_requests = [], rq_limits = request_DefaultLimits\<rparr>"

definition example_request :: request where
  "example_request = \<lparr>q_ID = ''r'', q_Agent = ''a'', q_Prompt = ''hi'', q_Correlation = '''',
     q_Status = StatusDispatched, q_Response = '''', q_FailureCode = '''', q_CreatedAt = 1,
     q_ExpiresAt = 1 + 60 * second, q_UpdatedAt = 2\<rparr>"

definition example_requests_run :: "(time \<times> request_op) list" where
  "example_requests_run = [(1, ReqCreate ''a'' ''r'' ''hi'' ''''), (2, ReqMark ''a'' ''r'')]"

definition example_dispatched :: request_store where
  "example_dispatched = \<lparr>rq_requests = [(''a'', [(''r'', example_request)])], rq_limits = request_DefaultLimits\<rparr>"

definition example_answered :: request_store where
  "example_answered = \<lparr>rq_requests = [(''a'', [(''r'', example_request
     \<lparr>q_Status := StatusCompleted, q_Response := ''yes'', q_UpdatedAt := 3\<rparr>)])], rq_limits = request_DefaultLimits\<rparr>"

lemmas request_store_defs = Create_request_def Get_request_def MarkDispatched_request_def Fail_request_def
  Complete_request_def transition_def pruneLocked_def trimTerminalLocked_def put_requests_def set_request_def
  requests_of_def request_validateCreate_def

lemma example_requests_new: "NewRequestStore request_DefaultLimits = Inr example_request_store"
  by (simp add: NewRequestStore_def request_limits_Validate_def request_DefaultLimits_def
      example_request_store_def duration_units)

lemma example_requests_dispatched:
  "run_requests example_requests_run example_request_store = Some example_dispatched"
  by (simp add: example_requests_run_def example_request_store_def example_dispatched_def example_request_def
      request_store_defs request_DefaultLimits_def second_def outstanding_request_def Let_def)

lemma example_requests_completed:
  "Complete_request 3 ''a'' ''r'' ''yes'' example_dispatched = Some (Inr (), example_answered)"
  by (simp add: example_dispatched_def example_answered_def example_request_def request_store_defs
      request_DefaultLimits_def second_def trim_loop.simps terminal_request_def Let_def)

theorem requests_bounded_witness:
  "\<exists>s. run_requests example_requests_run example_request_store = Some s
     \<and> count_vals outstanding_request (requests_of s ''a'') \<le> 2"
  using requests_bounded [OF example_requests_new, of example_requests_run]
  by (fastforce simp: request_DefaultLimits_def)

theorem trimming_keeps_newest_witness:
  "\<exists>rs'. trim_loop 1 [(''r'', example_request\<lparr>q_Status := StatusFailed\<rparr>),
       (''s'', example_request\<lparr>q_ID := ''s'', q_Status := StatusCompleted\<rparr>)] = Some rs'
     \<and> count_vals terminal_request rs' = 1"
proof -
  let ?rs = "[(''r'', example_request\<lparr>q_Status := StatusFailed\<rparr>),
       (''s'', example_request\<lparr>q_ID := ''s'', q_Status := StatusCompleted\<rparr>)]"
  have "keyed ?rs" "count_vals terminal_request ?rs = 2"
    by (simp_all add: keyed_def example_request_def terminal_request_def)
  with trimming_keeps_newest [of ?rs 1] show ?thesis by auto
qed

theorem request_never_outlives_witness:
  "\<exists>s2. Get_request (1 + 60 * second) ''a'' ''r'' example_dispatched = Some (Inl ReqNotFound, s2)"
proof -
  have "Get_request 3 ''a'' ''r'' example_dispatched = Some (Inr example_request, example_dispatched)"
    by (simp add: example_dispatched_def request_store_defs example_request_def second_def Let_def)
  from request_never_outlives [OF example_requests_new example_requests_dispatched this]
  show ?thesis by (simp add: example_request_def)
qed

theorem first_response_wins_witness:
  "\<exists>err s3. Fail_request 5 ''a'' ''r'' ''delivery_failed'' example_answered = Some (Inl err, s3)"
  using first_response_wins [OF example_requests_new example_requests_dispatched example_requests_completed,
      of "[]" example_answered 5 "''no''"] by simp

end
