(* ===== verification/Update_Version.thy ===== *)
theory Update_Version
  imports Go_Prelude "HOL-Library.Product_Lexorder"
begin

section \<open>Versions and their order (\<open>pkg/updates/version.go\<close>)\<close>

text \<open>
  Parsing, printing and comparing versions. A head-of-main build carries the suffix of
  \<open>git describe\<close> and ranks above the release it follows; every other suffix ranks below. The
  comparison is nested case analysis in the code; here it is shown to be the comparison of keys in
  one linear order, and the interface \<open>comparison\<close> collects what selecting a newest version needs.
\<close>

record version =
  Major :: int
  Minor :: int
  Patch :: int
  Prerelease :: string

datatype version_error =
  EmptyVersion | EmptyPrerelease | NotStrictXYZ | EmptyComponent | NonNumericComponent | ComponentRange

definition IsPrerelease :: "version \<Rightarrow> bool" where
  "IsPrerelease v \<longleftrightarrow> Prerelease v \<noteq> ''''"

subsection \<open>Parsing and printing\<close>

text \<open>The body of the loop over the three components.\<close>

definition parse_component :: "string \<Rightarrow> version_error + int" where
  "parse_component p =
     (if p = '''' then Inl EmptyComponent
      else if \<not> list_all is_digit p then Inl NonNumericComponent
      else case Atoi p of None \<Rightarrow> Inl ComponentRange | Some n \<Rightarrow> Inr n)"

definition parse_core :: "string \<Rightarrow> string \<Rightarrow> version_error + version" where
  "parse_core raw pre =
     (case split_on CHR ''.'' raw of
        [a, b, c] \<Rightarrow>
          (case parse_component a of
             Inl e \<Rightarrow> Inl e
           | Inr x \<Rightarrow>
               (case parse_component b of
                  Inl e \<Rightarrow> Inl e
                | Inr y \<Rightarrow>
                    (case parse_component c of
                       Inl e \<Rightarrow> Inl e
                     | Inr z \<Rightarrow> Inr \<lparr>Major = x, Minor = y, Patch = z, Prerelease = pre\<rparr>)))
      | _ \<Rightarrow> Inl NotStrictXYZ)"

text \<open>Build metadata is cut at the first \<open>+\<close>, then the suffix at the first \<open>-\<close>.\<close>

definition ParseVersion :: "string \<Rightarrow> version_error + version" where
  "ParseVersion s =
     (let raw = TrimPrefix (TrimSpace s) ''v'' in
      if raw = '''' then Inl EmptyVersion
      else
        (let raw1 = takeWhile (\<lambda>c. c \<noteq> CHR ''+'') raw in
         if CHR ''-'' \<in> set raw1
         then (let pre = tl (dropWhile (\<lambda>c. c \<noteq> CHR ''-'') raw1) in
               if pre = '''' then Inl EmptyPrerelease
               else parse_core (takeWhile (\<lambda>c. c \<noteq> CHR ''-'') raw1) pre)
         else parse_core raw1 ''''))"

definition version_String :: "version \<Rightarrow> string" where
  "version_String v =
     FormatInt (Major v) @ ''.'' @ FormatInt (Minor v) @ ''.'' @ FormatInt (Patch v)
     @ (if Prerelease v \<noteq> '''' then ''-'' @ Prerelease v else '''')"

subsection \<open>Comparing\<close>

text \<open>Go's \<open>int\<close> has 64 bits: a difference wraps around.\<close>

definition sub64 :: "int \<Rightarrow> int \<Rightarrow> int" where
  "sub64 a b = sint (word_of_int (a - b) :: 64 word)"

definition sign :: "int \<Rightarrow> int" where
  "sign n = (if n < 0 then - 1 else if n > 0 then 1 else 0)"

text \<open>\<open>strings.Compare\<close>, and the comparison of keys in a linear order it is an instance of.\<close>

definition three_way :: "'a::linorder \<Rightarrow> 'a \<Rightarrow> int" where
  "three_way x y = (if x = y then 0 else if x < y then - 1 else 1)"

text \<open>The last occurrence of a separator: what is before it and what is after it.\<close>

fun last_cut :: "string \<Rightarrow> string \<Rightarrow> (string \<times> string) option" where
  "last_cut sep [] = None"
| "last_cut sep (x # xs) =
     (case last_cut sep xs of
        Some (a, b) \<Rightarrow> Some (x # a, b)
      | None \<Rightarrow> if prefix sep (x # xs) then Some ([], drop (length sep) (x # xs)) else None)"

definition is_hex :: "char \<Rightarrow> bool" where
  "is_hex c \<longleftrightarrow> is_digit c \<or> (97 \<le> (of_char c :: nat) \<and> (of_char c :: nat) \<le> 102)"

definition isAbbrevSHA :: "string \<Rightarrow> bool" where
  "isAbbrevSHA s \<longleftrightarrow> \<not> (length s < 7 \<or> length s > 40) \<and> list_all is_hex s"

definition splitDescribe :: "string \<Rightarrow> string \<times> int" where
  "splitDescribe pre =
     (case last_cut ''-g'' pre of
        None \<Rightarrow> (pre, 0)
      | Some (head, sha) \<Rightarrow>
          (if \<not> isAbbrevSHA sha then (pre, 0)
           else (let countStr = (case last_cut ''-'' head of None \<Rightarrow> head | Some (_, c) \<Rightarrow> c)
                 in case Atoi countStr of
                      None \<Rightarrow> (pre, 0)
                    | Some ahead \<Rightarrow>
                        (if ahead < 0 \<or> countStr = '''' then (pre, 0)
                         else case last_cut ''-'' head of
                                None \<Rightarrow> ('''', ahead)
                              | Some (base, _) \<Rightarrow> (base, ahead)))))"

definition splitLeadingDigits :: "string \<Rightarrow> int \<times> string" where
  "splitLeadingDigits s =
     (let ds = takeWhile is_digit s in
      if ds = [] then (- 1, s)
      else case Atoi ds of None \<Rightarrow> (- 1, s) | Some n \<Rightarrow> (n, drop (length ds) s))"

definition compareIdentifier :: "string \<Rightarrow> string \<Rightarrow> int" where
  "compareIdentifier a b =
     (case (splitLeadingDigits a, splitLeadingDigits b) of
        ((aNum, aRest), (bNum, bRest)) \<Rightarrow>
          (if aNum \<ge> 0 \<and> bNum \<ge> 0
           then (if aNum \<noteq> bNum then sign (sub64 aNum bNum) else three_way aRest bRest)
           else if aNum \<ge> 0 then - 1
           else if bNum \<ge> 0 then 1
           else three_way a b))"

text \<open>The loop over the shared identifiers; the longer list wins a tie.\<close>

fun compare_parts :: "string list \<Rightarrow> string list \<Rightarrow> int" where
  "compare_parts (a # as) (b # bs) =
     (if compareIdentifier a b \<noteq> 0 then compareIdentifier a b else compare_parts as bs)"
| "compare_parts as bs = sign (int (length as) - int (length bs))"

definition compareBaseSuffix :: "string \<Rightarrow> string \<Rightarrow> int" where
  "compareBaseSuffix a b =
     (if a = b then 0
      else if a = '''' then 1
      else if b = '''' then - 1
      else compare_parts (split_on CHR ''.'' a) (split_on CHR ''.'' b))"

definition comparePrerelease :: "string \<Rightarrow> string \<Rightarrow> int" where
  "comparePrerelease a b =
     (if a = b then 0
      else case (splitDescribe a, splitDescribe b) of
             ((aBase, aAhead), (bBase, bAhead)) \<Rightarrow>
               (if compareBaseSuffix aBase bBase \<noteq> 0 then compareBaseSuffix aBase bBase
                else sign (sub64 aAhead bAhead)))"

definition Compare :: "version \<Rightarrow> version \<Rightarrow> int" where
  "Compare v w =
     (if Major v \<noteq> Major w then sign (sub64 (Major v) (Major w))
      else if Minor v \<noteq> Minor w then sign (sub64 (Minor v) (Minor w))
      else if Patch v \<noteq> Patch w then sign (sub64 (Patch v) (Patch w))
      else comparePrerelease (Prerelease v) (Prerelease w))"

definition GreaterThan :: "version \<Rightarrow> version \<Rightarrow> bool" where
  "GreaterThan v w \<longleftrightarrow> Compare v w > 0"

subsection \<open>The order behind the comparison\<close>

lemma three_way_simps [simp]: "three_way x x = 0" "three_way x y = 0 \<longleftrightarrow> x = y"
  "three_way x y < 0 \<longleftrightarrow> x < y" "three_way x y > 0 \<longleftrightarrow> y < x" "three_way x y \<le> 0 \<longleftrightarrow> x \<le> y"
  by (auto simp: three_way_def)

lemma three_way_sym: "three_way y x = - three_way x y"
  by (auto simp: three_way_def)

lemma three_way_pair:
  "three_way (a, b) (c, d) = (if three_way a c \<noteq> 0 then three_way a c else three_way b d)"
  by (auto simp: three_way_def)

lemma three_way_list:
  "three_way [] [] = 0" "three_way [] (y # ys) = - 1" "three_way (x # xs) [] = 1"
  "three_way (x # xs) (y # ys) = (if three_way x y \<noteq> 0 then three_way x y else three_way xs ys)"
  by (auto simp: three_way_def)

lemma sub64_exact:
  assumes "0 \<le> a" "a < 2 ^ 63" "0 \<le> b" "b < 2 ^ 63"
  shows "sub64 a b = a - b"
  unfolding sub64_def sint_sbintrunc' using assms by (simp add: signed_take_bit_int_eq_self)

lemma sign_sub64:
  "0 \<le> a \<Longrightarrow> a < 2 ^ 63 \<Longrightarrow> 0 \<le> b \<Longrightarrow> b < 2 ^ 63 \<Longrightarrow> sign (sub64 a b) = three_way a b"
  by (simp add: sub64_exact sign_def three_way_def)

lemma Atoi_range: "Atoi s = Some n \<Longrightarrow> n < 2 ^ 63"
  by (auto simp: Atoi_def Let_def split: if_splits)

lemma splitLeadingDigits_range: "splitLeadingDigits s = (n, r) \<Longrightarrow> n < 2 ^ 63"
  by (auto simp: splitLeadingDigits_def Let_def dest: Atoi_range split: if_splits option.splits)

lemma splitDescribe_range: "splitDescribe s = (base, n) \<Longrightarrow> 0 \<le> n \<and> n < 2 ^ 63"
  by (auto simp: splitDescribe_def Let_def dest: Atoi_range split: if_splits option.splits prod.splits)

definition ident_key :: "string \<Rightarrow> nat \<times> int \<times> string" where
  "ident_key s = (case splitLeadingDigits s of (n, rest) \<Rightarrow> if n \<ge> 0 then (0, n, rest) else (1, 0, s))"

definition base_key :: "string \<Rightarrow> nat \<times> (nat \<times> int \<times> string) list" where
  "base_key s = (if s = '''' then (1, []) else (0, map ident_key (split_on CHR ''.'' s)))"

definition pre_key :: "string \<Rightarrow> (nat \<times> (nat \<times> int \<times> string) list) \<times> int" where
  "pre_key s = (case splitDescribe s of (base, ahead) \<Rightarrow> (base_key base, ahead))"

definition version_key :: "version \<Rightarrow> int \<times> int \<times> int \<times> (nat \<times> (nat \<times> int \<times> string) list) \<times> int" where
  "version_key v = (Major v, Minor v, Patch v, pre_key (Prerelease v))"

definition version_ok :: "version \<Rightarrow> bool" where
  "version_ok v \<longleftrightarrow> 0 \<le> Major v \<and> Major v < 2 ^ 63 \<and> 0 \<le> Minor v \<and> Minor v < 2 ^ 63
     \<and> 0 \<le> Patch v \<and> Patch v < 2 ^ 63"

lemma compareIdentifier_key: "compareIdentifier a b = three_way (ident_key a) (ident_key b)"
proof (cases "splitLeadingDigits a")
  case a: (Pair m r)
  show ?thesis
  proof (cases "splitLeadingDigits b")
    case b: (Pair n t)
    show ?thesis
      using splitLeadingDigits_range [OF a] splitLeadingDigits_range [OF b]
      by (auto simp: compareIdentifier_def ident_key_def a b three_way_pair sign_sub64)
        (simp_all add: three_way_def)
  qed
qed

lemma compare_parts_key: "compare_parts as bs = three_way (map ident_key as) (map ident_key bs)"
  by (induction as bs rule: compare_parts.induct)
    (auto simp: compareIdentifier_key three_way_list sign_def three_way_def neq_Nil_conv less_le)

lemma compareBaseSuffix_key: "compareBaseSuffix a b = three_way (base_key a) (base_key b)"
  by (auto simp: compareBaseSuffix_def base_key_def three_way_pair compare_parts_key)
    (simp_all add: three_way_def)

lemma comparePrerelease_key: "comparePrerelease a b = three_way (pre_key a) (pre_key b)"
  using splitDescribe_range [of a] splitDescribe_range [of b]
  by (auto simp: comparePrerelease_def pre_key_def three_way_pair compareBaseSuffix_key sign_sub64
      split: prod.splits)

lemma Compare_key:
  assumes "version_ok v" and "version_ok w"
  shows "Compare v w = three_way (version_key v) (version_key w)"
  using assms
  by (auto simp: Compare_def version_key_def version_ok_def three_way_pair sign_sub64 comparePrerelease_key)

text \<open>What choosing a newest element needs of a comparison, and the scan that does it.\<close>

locale comparison =
  fixes cmp :: "'a \<Rightarrow> 'a \<Rightarrow> int" and valid :: "'a \<Rightarrow> bool"
  assumes cmp_refl: "valid a \<Longrightarrow> cmp a a = 0"
    and cmp_sym: "valid a \<Longrightarrow> valid b \<Longrightarrow> cmp b a = - cmp a b"
    and cmp_trans: "valid a \<Longrightarrow> valid b \<Longrightarrow> valid c \<Longrightarrow> cmp a b \<le> 0 \<Longrightarrow> cmp b c \<le> 0 \<Longrightarrow> cmp a c \<le> 0"
begin

lemma scan_newest:
  assumes "\<forall>x\<in>set xs. valid (f x)" and "\<forall>b. best = Some b \<longrightarrow> valid (f b)"
    and "foldl (\<lambda>best x. case best of None \<Rightarrow> Some x | Some b \<Rightarrow> if cmp (f x) (f b) > 0 then Some x else best)
           best xs = r"
  shows "(r = None \<longrightarrow> best = None \<and> xs = [])
         \<and> (\<forall>m. r = Some m \<longrightarrow> (m \<in> set xs \<or> best = Some m)
               \<and> (\<forall>x\<in>set xs. cmp (f x) (f m) \<le> 0) \<and> (\<forall>b. best = Some b \<longrightarrow> cmp (f b) (f m) \<le> 0))"
  using assms
proof (induction xs arbitrary: best)
  case Nil
  then show ?case by (auto simp: cmp_refl)
next
  case (Cons x xs)
  have x: "valid (f x)" using Cons(2) by simp
  let ?best = "case best of None \<Rightarrow> Some x | Some b \<Rightarrow> if cmp (f x) (f b) > 0 then Some x else best"
  obtain b' where b': "?best = Some b'" "valid (f b')" "b' = x \<or> best = Some b'"
    "cmp (f x) (f b') \<le> 0" "\<forall>b. best = Some b \<longrightarrow> cmp (f b) (f b') \<le> 0"
  proof (cases best)
    case None
    with that [of x] x cmp_refl [OF x] show ?thesis by simp
  next
    case (Some b)
    with Cons(3) have b: "valid (f b)" by simp
    show ?thesis
    proof (cases "cmp (f x) (f b) > 0")
      case True
      with Some that [of x] x cmp_refl [OF x] cmp_sym [OF x b] show ?thesis by simp
    next
      case False
      with Some that [of b] b cmp_refl [OF b] show ?thesis by simp
    qed
  qed
  have ih: "(r = None \<longrightarrow> ?best = None \<and> xs = [])
         \<and> (\<forall>m. r = Some m \<longrightarrow> (m \<in> set xs \<or> ?best = Some m)
               \<and> (\<forall>x\<in>set xs. cmp (f x) (f m) \<le> 0) \<and> (\<forall>b. ?best = Some b \<longrightarrow> cmp (f b) (f m) \<le> 0))"
    using Cons(2,4) b'(1,2) by (intro Cons(1)) auto
  show ?case
  proof (intro conjI allI impI)
    assume "r = None"
    with ih b'(1) show "best = None" "x # xs = []" by simp_all
  next
    fix m assume m: "r = Some m"
    have m': "m \<in> set xs \<or> m = b'" "cmp (f b') (f m) \<le> 0" "\<forall>y\<in>set xs. cmp (f y) (f m) \<le> 0"
      using ih m b'(1) by auto
    then show "m \<in> set (x # xs) \<or> best = Some m" using b'(3) by auto
    have vm: "valid (f m)" using m'(1) b'(2) Cons(2) by auto
    show "\<forall>y\<in>set (x # xs). cmp (f y) (f m) \<le> 0"
      using m'(2,3) cmp_trans [OF x b'(2) vm b'(4)] by simp
    fix b assume b: "best = Some b"
    with Cons(3) have "valid (f b)" by simp
    from cmp_trans [OF this b'(2) vm] b'(5) b m'(2) show "cmp (f b) (f m) \<le> 0" by simp
  qed
qed

end

interpretation vo: comparison Compare version_ok
  by unfold_locales (auto simp: Compare_key intro: three_way_sym)

text \<open>
  version comparison is a total order of versions up to spelling. On versions whose numbers fit
  an \<open>int64\<close>, as every parsed one's do, \<open>Compare\<close> is antisymmetric and transitive, and it is
  the comparison of one key: the three numbers, then the suffix's identifiers (numbers below
  words, fewer below more, no suffix above any), then the commits ahead.
\<close>

theorem version_compare_order:
  assumes "version_ok u" and "version_ok v" and "version_ok w"
  shows "Compare v u = - Compare u v
         \<and> (Compare u v \<le> 0 \<and> Compare v w \<le> 0 \<longrightarrow> Compare u w \<le> 0)
         \<and> Compare u v = three_way (version_key u) (version_key v)"
  using assms vo.cmp_sym vo.cmp_trans Compare_key by blast

subsection \<open>Builds past a tag\<close>

lemma last_cut_absent: "c \<notin> set s \<Longrightarrow> last_cut (c # cs) s = None"
  by (induction s) auto

lemma last_cut_append:
  "last_cut (c # cs) (cs @ b) = None \<Longrightarrow> last_cut (c # cs) (a @ c # cs @ b) = Some (a, b)"
  by (induction a) auto

lemma digits_no_dash: "CHR ''-'' \<notin> set (FormatInt n)" if "0 \<le> n"
  using that nat_digits_digits [of "nat n"] digits_no_sign by (auto simp: FormatInt_def list_all_iff)

lemma sha_no_dash: "isAbbrevSHA sha \<Longrightarrow> CHR ''-'' \<notin> set sha"
  by (auto simp: isAbbrevSHA_def list_all_iff is_hex_def is_digit_def)

lemma splitDescribe_describe:
  assumes "0 \<le> n" "n < 2 ^ 63" "isAbbrevSHA sha"
  shows "splitDescribe (FormatInt n @ ''-g'' @ sha) = ('''', n)"
    and "splitDescribe (base @ ''-'' @ FormatInt n @ ''-g'' @ sha) = (base, n)"
proof -
  have g: "last_cut ''-g'' (a @ ''-g'' @ sha) = Some (a, sha)" for a
    using last_cut_append [of "CHR ''-''" "''g''" sha a] sha_no_dash [OF assms(3)]
    by (simp add: last_cut_absent)
  have n: "last_cut ''-'' (FormatInt n) = None" using digits_no_dash [OF assms(1)] by (rule last_cut_absent)
  have b: "last_cut ''-'' (base @ ''-'' @ FormatInt n) = Some (base, FormatInt n)"
    using last_cut_append [of "CHR ''-''" "[]" "FormatInt n" base] n by simp
  have ne: "FormatInt n \<noteq> ''''" using assms(1) by (simp add: FormatInt_def)
  show "splitDescribe (FormatInt n @ ''-g'' @ sha) = ('''', n)"
    unfolding splitDescribe_def g using assms n ne by (simp add: Atoi_FormatInt)
  show "splitDescribe (base @ ''-'' @ FormatInt n @ ''-g'' @ sha) = (base, n)"
    using g [of "base @ ''-'' @ FormatInt n"] assms b ne by (simp add: splitDescribe_def Atoi_FormatInt)
qed

text \<open>
  Head-of-main builds rank past the release they follow. A build \<open>n\<close> commits past a release
  (suffix \<open>n-g\<close> and a commit hash) is newer than the release, a build more commits past it is newer
  still whatever the hashes, every version with a greater number is newer than both, and a suffix
  that is no \<open>git describe\<close> output ranks below the release.
\<close>

theorem describe_builds_rank:
  assumes "version_ok v" and "Prerelease v = ''''" and "0 < n" "n < m" "m < 2 ^ 63"
    and "isAbbrevSHA sha" "isAbbrevSHA sha'"
  shows "GreaterThan (v\<lparr>Prerelease := FormatInt n @ ''-g'' @ sha\<rparr>) v
         \<and> GreaterThan (v\<lparr>Prerelease := FormatInt m @ ''-g'' @ sha'\<rparr>) (v\<lparr>Prerelease := FormatInt n @ ''-g'' @ sha\<rparr>)
         \<and> (\<forall>w. version_ok w \<and> (Major v, Minor v, Patch v) < (Major w, Minor w, Patch w)
               \<longrightarrow> GreaterThan w (v\<lparr>Prerelease := FormatInt m @ ''-g'' @ sha'\<rparr>))
         \<and> (\<forall>p. p \<noteq> '''' \<and> splitDescribe p = (p, 0) \<longrightarrow> GreaterThan v (v\<lparr>Prerelease := p\<rparr>))"
proof -
  have ok: "version_ok (v\<lparr>Prerelease := p\<rparr>)" for p using assms(1) by (simp add: version_ok_def)
  have s: "splitDescribe (FormatInt n @ ''-g'' @ sha) = ('''', n)"
    "splitDescribe (FormatInt m @ ''-g'' @ sha') = ('''', m)"
    using splitDescribe_describe(1) [of n sha] splitDescribe_describe(1) [of m sha'] assms(3-7) by simp_all
  have pk: "pre_key (FormatInt n @ ''-g'' @ sha) = ((1, []), n)" "pre_key (FormatInt m @ ''-g'' @ sha') = ((1, []), m)"
    "pre_key '''' = ((1, []), 0)"
    using s by (simp_all add: pre_key_def base_key_def splitDescribe_def)
  have key: "version_key (v\<lparr>Prerelease := p\<rparr>) = (Major v, Minor v, Patch v, pre_key p)" for p
    by (simp add: version_key_def)
  have v: "version_key v = (Major v, Minor v, Patch v, pre_key '''')"
    using assms(2) by (simp add: version_key_def)
  have pre: "pre_key p < pre_key ''''" if "p \<noteq> ''''" "splitDescribe p = (p, 0)" for p
    using that pk(3) by (simp add: pre_key_def base_key_def)
  have greater: "(Major v, Minor v, Patch v, k) < version_key w"
    if "(Major v, Minor v, Patch v) < (Major w, Minor w, Patch w)" for w k
    using that by (auto simp: version_key_def)
  have gt: "GreaterThan x y \<longleftrightarrow> version_key y < version_key x" if "version_ok x" "version_ok y" for x y
    using that by (simp add: GreaterThan_def Compare_key)
  have "version_key v < version_key (v\<lparr>Prerelease := FormatInt n @ ''-g'' @ sha\<rparr>)"
    "version_key (v\<lparr>Prerelease := FormatInt n @ ''-g'' @ sha\<rparr>) < version_key (v\<lparr>Prerelease := FormatInt m @ ''-g'' @ sha'\<rparr>)"
    using assms(3,4) unfolding key v pk by simp_all
  moreover have "version_key (v\<lparr>Prerelease := p\<rparr>) < version_key v" if "p \<noteq> ''''" "splitDescribe p = (p, 0)" for p
    using pre [OF that] unfolding key v by simp
  ultimately show ?thesis using gt ok assms(1) greater key by simp
qed

subsection \<open>Printing and parsing\<close>

text \<open>The characters semantic versioning allows in a suffix, and every suffix made here has.\<close>

definition suffix_char :: "char \<Rightarrow> bool" where
  "suffix_char c \<longleftrightarrow> is_digit c \<or> c = CHR ''.'' \<or> c = CHR ''-''
     \<or> (65 \<le> (of_char c :: nat) \<and> (of_char c :: nat) \<le> 90) \<or> (97 \<le> (of_char c :: nat) \<and> (of_char c :: nat) \<le> 122)"

lemma suffix_char_graphic: "suffix_char c \<Longrightarrow> graphic c \<and> c \<noteq> CHR ''+''"
  by (auto simp: suffix_char_def graphic_def is_digit_def)

lemma FormatInt_digits: "0 \<le> n \<Longrightarrow> list_all is_digit (FormatInt n) \<and> FormatInt n \<noteq> []"
  by (simp add: FormatInt_def nat_digits_digits)

lemma parse_component_FormatInt: "0 \<le> n \<Longrightarrow> n < 2 ^ 63 \<Longrightarrow> parse_component (FormatInt n) = Inr n"
  using FormatInt_digits [of n] by (simp add: parse_component_def Atoi_FormatInt)

lemma parse_core_String:
  assumes "version_ok v"
  shows "parse_core (FormatInt (Major v) @ ''.'' @ FormatInt (Minor v) @ ''.'' @ FormatInt (Patch v)) pre
         = Inr (v\<lparr>Prerelease := pre\<rparr>)"
proof -
  have "CHR ''.'' \<notin> set (FormatInt n)" if "0 \<le> n" for n
    using FormatInt_digits [OF that] digits_no_sign by (auto simp: list_all_iff)
  then show ?thesis
    using assms by (simp add: parse_core_def split_on_append split_on_no_sep parse_component_FormatInt version_ok_def)
qed

lemma parse_component_range: "parse_component p = Inr n \<Longrightarrow> 0 \<le> n \<and> n < 2 ^ 63"
  by (auto simp: parse_component_def Atoi_digits split: if_splits)

lemma parse_core_ok: "parse_core raw pre = Inr v \<Longrightarrow> version_ok v \<and> Prerelease v = pre"
  by (auto simp: parse_core_def version_ok_def dest!: parse_component_range
      split: list.splits sum.splits)

lemma cut_at:
  assumes "c \<notin> set a"
  shows "takeWhile (\<lambda>x. x \<noteq> c) (a @ c # b) = a" "dropWhile (\<lambda>x. x \<noteq> c) (a @ c # b) = c # b"
  using assms by (induction a) auto

text \<open>The printed numbers.\<close>

abbreviation core_String :: "version \<Rightarrow> string" where
  "core_String v \<equiv> FormatInt (Major v) @ ''.'' @ FormatInt (Minor v) @ ''.'' @ FormatInt (Patch v)"

lemma core_String_chars:
  assumes "version_ok v"
  shows "c \<in> set (core_String v) \<Longrightarrow> is_digit c \<or> c = CHR ''.''" and "is_digit (hd (core_String v))"
    and "core_String v \<noteq> []"
proof -
  have d: "\<forall>c\<in>set (FormatInt n). is_digit c" "FormatInt n \<noteq> []" if "0 \<le> n" for n
    using FormatInt_digits [OF that] by (simp_all add: list_all_iff)
  have n: "0 \<le> Major v" "0 \<le> Minor v" "0 \<le> Patch v" using assms by (simp_all add: version_ok_def)
  show "c \<in> set (core_String v) \<Longrightarrow> is_digit c \<or> c = CHR ''.''" using d n by auto
  show "is_digit (hd (core_String v))" using d [OF n(1)] by (simp add: hd_append)
  show "core_String v \<noteq> []" by simp
qed

lemma version_String_split:
  "version_String v = core_String v @ (if Prerelease v \<noteq> '''' then ''-'' @ Prerelease v else '''')"
  by (simp add: version_String_def)

lemma version_String_chars:
  assumes "version_ok v" and "list_all suffix_char (Prerelease v)"
  shows "CHR ''-'' \<notin> set (core_String v)" and "CHR ''+'' \<notin> set (version_String v)"
    and "list_all graphic (version_String v)" and "is_digit (hd (version_String v))" "version_String v \<noteq> []"
proof -
  note c = core_String_chars [OF assms(1)]
  have g: "graphic c \<and> c \<noteq> CHR ''+'' \<and> c \<noteq> CHR ''-''" if "is_digit c \<or> c = CHR ''.''" for c
    using that by (auto simp: graphic_def is_digit_def)
  then show "CHR ''-'' \<notin> set (core_String v)" using c(1) by blast
  have all: "graphic c \<and> c \<noteq> CHR ''+''" if "c \<in> set (version_String v)" for c
  proof (cases "c \<in> set (core_String v)")
    case True
    with c(1) g show ?thesis by blast
  next
    case False
    with that have "c \<in> set (if Prerelease v \<noteq> '''' then ''-'' @ Prerelease v else '''')"
      unfolding version_String_split set_append by blast
    then consider "c = CHR ''-''" | "c \<in> set (Prerelease v)" by (auto split: if_splits)
    then show ?thesis
    proof cases
      case 1
      then show ?thesis by (simp add: graphic_def)
    next
      case 2
      with assms(2) have "suffix_char c" by (simp add: list_all_iff)
      then show ?thesis by (rule suffix_char_graphic)
    qed
  qed
  then show "CHR ''+'' \<notin> set (version_String v)" "list_all graphic (version_String v)"
    by (auto simp: list_all_iff)
  show "is_digit (hd (version_String v))" "version_String v \<noteq> []"
    using c(2,3) unfolding version_String_split hd_append [of "core_String v"] if_not_P [OF c(3)] by blast+
qed

text \<open>Parsing what is left after the spaces and the \<open>v\<close> are gone.\<close>

lemma ParseVersion_printed:
  assumes v: "version_ok v" "list_all suffix_char (Prerelease v)"
    and t: "TrimPrefix (TrimSpace t) ''v'' = version_String v @ m" "m = [] \<or> hd m = CHR ''+''"
  shows "ParseVersion t = Inr v"
proof -
  note c = version_String_chars [OF v]
  have plus: "takeWhile (\<lambda>c. c \<noteq> CHR ''+'') (version_String v @ m) = version_String v"
    using c(2) t(2) by (cases m) (auto simp: takeWhile_append)
  show ?thesis
  proof (cases "Prerelease v = ''''")
    case True
    then have s: "version_String v = core_String v" unfolding version_String_split by simp
    have "ParseVersion t = parse_core (core_String v) ''''"
      unfolding ParseVersion_def t(1) Let_def plus using c(1,5) s by simp
    with True show ?thesis by (simp only: parse_core_String [OF v(1)]) simp
  next
    case False
    then have s: "version_String v = core_String v @ CHR ''-'' # Prerelease v"
      unfolding version_String_split by simp
    have "takeWhile (\<lambda>c. c \<noteq> CHR ''-'') (version_String v) = core_String v"
      "dropWhile (\<lambda>c. c \<noteq> CHR ''-'') (version_String v) = CHR ''-'' # Prerelease v"
      unfolding s by (rule cut_at [OF c(1)])+
    moreover have "CHR ''-'' \<in> set (version_String v)" unfolding s by simp
    ultimately have "ParseVersion t = parse_core (core_String v) (Prerelease v)"
      unfolding ParseVersion_def t(1) Let_def plus using c(5) False by simp
    then show ?thesis by (simp only: parse_core_String [OF v(1)]) simp
  qed
qed

lemma ParseVersion_ok:
  assumes w: "ParseVersion s = Inr w"
  shows "version_ok w" "CHR ''+'' \<notin> set (Prerelease w)"
proof -
  let ?raw = "takeWhile (\<lambda>c. c \<noteq> CHR ''+'') (TrimPrefix (TrimSpace s) ''v'')"
  have "version_ok w \<and> (Prerelease w = '''' \<or> Prerelease w = tl (dropWhile (\<lambda>c. c \<noteq> CHR ''-'') ?raw))"
    using w by (auto simp: ParseVersion_def Let_def dest!: parse_core_ok split: if_splits)
  moreover have "set (tl (dropWhile (\<lambda>c. c \<noteq> CHR ''-'') ?raw)) \<subseteq> set ?raw"
    by (metis list.set_sel(2) set_dropWhileD subsetI tl_Nil)
  moreover have "CHR ''+'' \<notin> set ?raw" by (auto dest: set_takeWhileD)
  ultimately show "version_ok w" "CHR ''+'' \<notin> set (Prerelease w)" by auto
qed

text \<open>
  versions print and parse back. A version whose numbers fit an \<open>int64\<close> and whose suffix uses
  the semantic-version characters prints to a string that parses to the same version, alone, after
  a \<open>v\<close>, or followed by build metadata.
\<close>

theorem version_roundtrip:
  assumes "version_ok v" and "list_all suffix_char (Prerelease v)" and "list_all graphic meta"
  shows "ParseVersion (version_String v) = Inr v \<and> ParseVersion (''v'' @ version_String v) = Inr v
         \<and> ParseVersion (version_String v @ ''+'' @ meta) = Inr v"
proof -
  let ?s = "version_String v"
  note c = version_String_chars [OF assms(1,2)]
  have trim: "TrimSpace t = t" if "t \<noteq> []" "list_all graphic t" for t
    using that TrimSpace_graphic [of t] by (cases t) (auto simp: list_all_iff)
  have "hd ?s \<noteq> CHR ''v''" using c(4) digits_no_sign by blast
  then have nov: "TrimPrefix (?s @ m) ''v'' = ?s @ m" for m
    using c(5) by (cases ?s) (auto simp: TrimPrefix_def)
  have g: "graphic (CHR ''v'')" "graphic (CHR ''+'')" by (simp_all add: graphic_def)
  have "TrimSpace ?s = ?s" "TrimSpace (''v'' @ ?s) = ''v'' @ ?s" "TrimSpace (?s @ ''+'' @ meta) = ?s @ ''+'' @ meta"
    using c(3,5) g assms(3) by (auto intro!: trim)
  then show ?thesis
    using ParseVersion_printed [OF assms(1,2), of ?s "[]"] ParseVersion_printed [OF assms(1,2), of "''v'' @ ?s" "[]"]
      ParseVersion_printed [OF assms(1,2), of "?s @ ''+'' @ meta" "''+'' @ meta"] nov [of "[]"] nov
    by (simp add: TrimPrefix_def)
qed

subsection \<open>Examples\<close>

definition v102 :: version where
  "v102 = \<lparr>Major = 1, Minor = 0, Patch = 2, Prerelease = ''''\<rparr>"

lemma v102_ok [simp]: "version_ok v102" "version_ok (v102\<lparr>Prerelease := p\<rparr>)" "Prerelease v102 = ''''"
  by (simp_all add: v102_def version_ok_def)

theorem version_compare_order_witness:
  "Compare (v102\<lparr>Patch := 1\<rparr>) v102 = - Compare v102 (v102\<lparr>Patch := 1\<rparr>)"
proof -
  have "version_ok (v102\<lparr>Patch := 1\<rparr>)" by (simp add: v102_def version_ok_def)
  from version_compare_order [OF v102_ok(1) this v102_ok(1)] show ?thesis by blast
qed

theorem describe_builds_rank_witness:
  "GreaterThan (v102\<lparr>Prerelease := ''3-ga1717c8''\<rparr>) v102
   \<and> GreaterThan (v102\<lparr>Prerelease := ''10-g47b6a7a''\<rparr>) (v102\<lparr>Prerelease := ''3-ga1717c8''\<rparr>)
   \<and> GreaterThan v102 (v102\<lparr>Prerelease := ''rc1''\<rparr>)"
proof -
  have sha: "isAbbrevSHA ''a1717c8''" "isAbbrevSHA ''47b6a7a''"
    by (simp_all add: isAbbrevSHA_def is_hex_def is_digit_def)
  have n: "FormatInt 3 = ''3''" "FormatInt 10 = ''10''"
    by code_simp+
  have "splitDescribe ''rc1'' = (''rc1'', 0)" by (simp add: splitDescribe_def)
  with describe_builds_rank [of v102 3 10 "''a1717c8''" "''47b6a7a''"] sha n show ?thesis by simp
qed

theorem version_roundtrip_witness:
  "ParseVersion (version_String (v102\<lparr>Prerelease := ''3-ga1717c8''\<rparr>) @ ''+'' @ ''linux'')
     = Inr (v102\<lparr>Prerelease := ''3-ga1717c8''\<rparr>)"
  using version_roundtrip [of "v102\<lparr>Prerelease := ''3-ga1717c8''\<rparr>" "''linux''"]
  by (simp add: suffix_char_def is_digit_def graphic_def)

end
