(* ===== verification/Update_Policy.thy ===== *)
theory Update_Policy
  imports Update_Version
begin

section \<open>Update policy, ownership and node preflight (\<open>pkg/updates\<close>)\<close>

text \<open>
  The operator's policy and the ConfigMap it is kept in (\<open>policy.go\<close>), who manages the cluster
  (\<open>managedby.go\<close>) and whether its nodes can run agents (\<open>preflight.go\<close>). Messages are named by
  constructors, not spelled out. A read of the ConfigMap goes through a cache and may be stale, a
  write goes to the API server: reads are answers of the environment, the live object is state.
\<close>

subsection \<open>Channels and policies\<close>

type_synonym channel = string
type_synonym mode = string

definition ChannelStable :: channel where "ChannelStable = ''stable''"
definition ChannelMain :: channel where "ChannelMain = ''main''"
definition ModeManual :: mode where "ModeManual = ''manual''"
definition ModeNotify :: mode where "ModeNotify = ''notify''"
definition ModeAuto :: mode where "ModeAuto = ''auto''"

lemmas policy_names = ChannelStable_def ChannelMain_def ModeManual_def ModeNotify_def ModeAuto_def

definition Accepts :: "channel \<Rightarrow> version \<Rightarrow> bool" where
  "Accepts c v = (if c = ChannelMain then True else \<not> IsPrerelease v)"

record policy =
  p_Channel :: channel
  p_Mode :: mode
  p_PinnedVersion :: string
  p_Window :: string
  p_TimeZone :: string

definition DefaultPolicy :: policy where
  "DefaultPolicy = \<lparr>p_Channel = ChannelStable, p_Mode = ModeNotify, p_PinnedVersion = '''',
     p_Window = '''', p_TimeZone = ''''\<rparr>"

datatype policy_error =
  ChannelRequired | UnknownChannel | ModeUnavailable | ModeRequired | UnknownMode
  | PinnedInvalid version_error | PinnedPrerelease

definition policy_Validate :: "policy \<Rightarrow> policy_error option" where
  "policy_Validate p =
     (if p_Channel p \<noteq> ChannelStable \<and> p_Channel p \<noteq> ChannelMain
      then Some (if p_Channel p = '''' then ChannelRequired else UnknownChannel)
      else if p_Mode p \<noteq> ModeManual \<and> p_Mode p \<noteq> ModeNotify
      then Some (if p_Mode p = ModeAuto then ModeUnavailable
                 else if p_Mode p = '''' then ModeRequired else UnknownMode)
      else if p_PinnedVersion p \<noteq> ''''
      then (case ParseVersion (p_PinnedVersion p) of
              Inl err \<Rightarrow> Some (PinnedInvalid err)
            | Inr pinned \<Rightarrow> (if \<not> Accepts (p_Channel p) pinned then Some PinnedPrerelease else None))
      else None)"

subsection \<open>The policy's ConfigMap\<close>

type_synonym config_data = "(string, string) gomap"

definition KeyChannel :: string where "KeyChannel = ''channel''"
definition KeyMode :: string where "KeyMode = ''mode''"
definition KeyPinned :: string where "KeyPinned = ''pinnedVersion''"
definition KeyWindow :: string where "KeyWindow = ''window''"
definition KeyTimeZone :: string where "KeyTimeZone = ''timeZone''"

lemmas policy_keys = KeyChannel_def KeyMode_def KeyPinned_def KeyWindow_def KeyTimeZone_def

definition policy_from :: "config_data \<Rightarrow> policy" where
  "policy_from d =
     (let c = str_at d KeyChannel; m = str_at d KeyMode in
      DefaultPolicy\<lparr>
        p_Channel := (if c = ChannelStable \<or> c = ChannelMain then c else p_Channel DefaultPolicy),
        p_Mode := (if m = ModeManual \<or> m = ModeNotify \<or> m = ModeAuto then m else p_Mode DefaultPolicy),
        p_PinnedVersion := str_at d KeyPinned, p_Window := str_at d KeyWindow, p_TimeZone := str_at d KeyTimeZone\<rparr>)"

text \<open>\<open>Load\<close>: the policy, and whether the read failed with an error other than not found.\<close>

definition Load :: "config_data read \<Rightarrow> policy \<times> bool" where
  "Load answer =
     (case answer of
        Missing \<Rightarrow> (DefaultPolicy, False)
      | ReadError \<Rightarrow> (DefaultPolicy, True)
      | Found d \<Rightarrow> (policy_from d, False))"

definition policy_data :: "policy \<Rightarrow> config_data" where
  "policy_data p =
     [(KeyChannel, p_Channel p), (KeyMode, p_Mode p), (KeyPinned, p_PinnedVersion p),
      (KeyWindow, p_Window p), (KeyTimeZone, p_TimeZone p)]"

definition set_data :: "config_data \<Rightarrow> config_data \<Rightarrow> config_data" where
  "set_data d existing = foldl (\<lambda>m (k, v). AList.update k v m) existing d"

datatype save_error = SaveReadFailed | SaveReadBackFailed | SaveCreateFailed | SavePatchFailed

text \<open>
  The answers a save meets: the cached read, whether the create call fails for a reason other than
  an existing object, the read back after losing a create race, and whether a patch is accepted.
  \<open>sv_Merge before after live\<close> is the object the API server makes of \<open>live\<close> when it applies the
  patch that \<open>client.MergeFrom\<close> computes from \<open>before\<close> to \<open>after\<close>.
\<close>

record save_env =
  sv_Get :: "config_data read"
  sv_CreateFails :: bool
  sv_GetBack :: "config_data read"
  sv_PatchOk :: bool
  sv_Merge :: "config_data \<Rightarrow> config_data \<Rightarrow> config_data \<Rightarrow> config_data"

type_synonym save_step = "(save_error + unit) \<times> config_data option"

definition patch_policy :: "save_env \<Rightarrow> policy \<Rightarrow> config_data \<Rightarrow> config_data option \<Rightarrow> save_step" where
  "patch_policy env p before live =
     (case live of
        None \<Rightarrow> (Inl SavePatchFailed, None)
      | Some d \<Rightarrow>
          (if sv_PatchOk env then (Inr (), Some (sv_Merge env before (set_data (policy_data p) before) d))
           else (Inl SavePatchFailed, live)))"

definition Save :: "save_env \<Rightarrow> policy \<Rightarrow> config_data option \<Rightarrow> save_step" where
  "Save env p live =
     (case sv_Get env of
        Found before \<Rightarrow> patch_policy env p before live
      | ReadError \<Rightarrow> (Inl SaveReadFailed, live)
      | Missing \<Rightarrow>
          (if sv_CreateFails env then (Inl SaveCreateFailed, live)
           else case live of
                  None \<Rightarrow> (Inr (), Some (policy_data p))
                | Some _ \<Rightarrow>
                    (case sv_GetBack env of
                       Found before \<Rightarrow> patch_policy env p before live
                     | _ \<Rightarrow> (Inl SaveReadBackFailed, live))))"

subsection \<open>Who manages the cluster\<close>

datatype managed_by = ManagedByHelm | ManagedByArgoCD | ManagedByUnknown

datatype refusal = NoReason | ReasonArgoCD | ReasonUnknownOwner | ReasonHeld string

text \<open>The control-plane Deployment's annotations, when there is a client and a name to read it by.\<close>

definition DetectManagedBy :: "bool \<Rightarrow> string \<Rightarrow> string \<Rightarrow> (string, string) gomap read \<Rightarrow> managed_by" where
  "DetectManagedBy has_client namespace deployment answer =
     (if \<not> has_client \<or> namespace = '''' \<or> deployment = '''' then ManagedByUnknown
      else case answer of
             Found anns \<Rightarrow>
               (if map_of anns ''argocd.argoproj.io/tracking-id'' \<noteq> None then ManagedByArgoCD
                else if map_of anns ''meta.helm.sh/release-name'' \<noteq> None then ManagedByHelm
                else ManagedByUnknown)
           | _ \<Rightarrow> ManagedByUnknown)"

definition CanSelfUpgrade :: "managed_by \<Rightarrow> bool" where
  "CanSelfUpgrade m \<longleftrightarrow> m = ManagedByHelm"

fun managed_Reason :: "managed_by \<Rightarrow> refusal" where
  "managed_Reason ManagedByArgoCD = ReasonArgoCD"
| "managed_Reason ManagedByUnknown = ReasonUnknownOwner"
| "managed_Reason ManagedByHelm = NoReason"

subsection \<open>Can the nodes run agents?\<close>

text \<open>
  \<open>strings.ToLower\<close> where it produces ASCII: the ASCII capitals, the dotted capital I (U+0130) and
  the Kelvin sign (U+212A). Other non-ASCII letters stay non-ASCII and are left as they are.
\<close>

definition lower_char :: "char \<Rightarrow> char" where
  "lower_char c = (if 65 \<le> (of_char c :: nat) \<and> (of_char c :: nat) \<le> 90 then char_of ((of_char c :: nat) + 32) else c)"

fun ToLower :: "string \<Rightarrow> string" where
  "ToLower [] = []"
| "ToLower (a # s) =
     (if prefix [byte 196, byte 176] (a # s) then CHR ''i'' # ToLower (drop 1 s)
      else if prefix [byte 226, byte 132, byte 170] (a # s) then CHR ''k'' # ToLower (drop 2 s)
      else lower_char a # ToLower s)"

text \<open>The environment variable's value; \<open>EqualFold\<close> with \<open>true\<close>, whose letters only fold within ASCII.\<close>

definition requireUserNamespace :: "string \<Rightarrow> bool" where
  "requireUserNamespace v = (if v = '''' then True else map lower_char v = ''true'')"

definition drop_suffix :: "string \<Rightarrow> string" where
  "drop_suffix v = takeWhile (\<lambda>c. c \<noteq> CHR ''+'' \<and> c \<noteq> CHR ''-'') v"

definition parseKubeletVersion :: "string \<Rightarrow> (int \<times> int) option" where
  "parseKubeletVersion v =
     (let raw = TrimPrefix (TrimSpace v) ''v'' in
      if raw = '''' then None
      else case split_on CHR ''.'' (drop_suffix raw) of
             a # b # _ \<Rightarrow>
               (case Atoi a of
                  None \<Rightarrow> None
                | Some major \<Rightarrow> (case Atoi b of None \<Rightarrow> None | Some minor \<Rightarrow> Some (major, minor)))
           | _ \<Rightarrow> None)"

text \<open>\<open>strings.Cut\<close>: before and after the first occurrence.\<close>

fun first_cut :: "string \<Rightarrow> string \<Rightarrow> (string \<times> string) option" where
  "first_cut sep [] = None"
| "first_cut sep (x # xs) =
     (if prefix sep (x # xs) then Some ([], drop (length sep) (x # xs))
      else map_option (\<lambda>(a, b). (x # a, b)) (first_cut sep xs))"

definition parseRuntimeVersion :: "string \<Rightarrow> (string \<times> int) option" where
  "parseRuntimeVersion v =
     (case first_cut ''://'' (TrimSpace v) of
        None \<Rightarrow> None
      | Some (name, rest) \<Rightarrow>
          (case Atoi (hd (split_on CHR ''.'' (drop_suffix rest))) of
             None \<Rightarrow> None
           | Some major \<Rightarrow> Some (ToLower name, major)))"

datatype node_problem = KubernetesTooOld int int | ContainerdTooOld int

definition nodeIsTooOld :: "string \<Rightarrow> string \<Rightarrow> node_problem option" where
  "nodeIsTooOld kubelet runtime =
     (case parseKubeletVersion kubelet of
        Some (major, minor) \<Rightarrow>
          if major < 1 \<or> (major = 1 \<and> minor < 33) then Some (KubernetesTooOld major minor)
          else (case parseRuntimeVersion runtime of
                  Some (name, m) \<Rightarrow> if name = ''containerd'' \<and> m < 2 then Some (ContainerdTooOld m) else None
                | None \<Rightarrow> None)
      | None \<Rightarrow>
          (case parseRuntimeVersion runtime of
             Some (name, m) \<Rightarrow> if name = ''containerd'' \<and> m < 2 then Some (ContainerdTooOld m) else None
           | None \<Rightarrow> None))"

record cluster_node =
  nd_Name :: string
  nd_Unschedulable :: bool
  nd_Kubelet :: string
  nd_Runtime :: string

text \<open>The problems in the error, none when the check passes; a failed list of the nodes passes.\<close>

fun node_problems :: "cluster_node list \<Rightarrow> (string \<times> node_problem) list" where
  "node_problems [] = []"
| "node_problems (n # ns) =
     (if nd_Unschedulable n then node_problems ns
      else case nodeIsTooOld (nd_Kubelet n) (nd_Runtime n) of
             Some why \<Rightarrow> (nd_Name n, why) # node_problems ns
           | None \<Rightarrow> node_problems ns)"

definition CheckNodeCapability :: "string \<Rightarrow> bool \<Rightarrow> cluster_node list option \<Rightarrow> (string \<times> node_problem) list" where
  "CheckNodeCapability env_value has_client nodes =
     (if \<not> requireUserNamespace env_value then []
      else if \<not> has_client then []
      else case nodes of None \<Rightarrow> [] | Some ns \<Rightarrow> node_problems ns)"

subsection \<open>Saving and loading\<close>

lemma set_data_lookup:
  "distinct (map fst d) \<Longrightarrow>
     map_of (set_data d m) k = (case map_of d k of Some v \<Rightarrow> Some v | None \<Rightarrow> map_of m k)"
  unfolding set_data_def
proof (induction d arbitrary: m)
  case (Cons e d)
  obtain a b where e: "e = (a, b)" by (cases e)
  have "map_of d a = None" using Cons(2) by (simp add: e map_of_eq_None_iff)
  with Cons(1) [of "AList.update a b m"] Cons(2) show ?case
    by (cases "k = a") (simp_all add: e update_conv' split: option.split)
qed simp

lemma policy_data_distinct: "distinct (map fst (policy_data p))"
  by (simp add: policy_data_def policy_keys)

lemma policy_data_lookup:
  "map_of (policy_data p) KeyChannel = Some (p_Channel p)" "map_of (policy_data p) KeyMode = Some (p_Mode p)"
  "map_of (policy_data p) KeyPinned = Some (p_PinnedVersion p)" "map_of (policy_data p) KeyWindow = Some (p_Window p)"
  "map_of (policy_data p) KeyTimeZone = Some (p_TimeZone p)"
  by (simp_all add: policy_data_def policy_keys)

text \<open>A policy whose channel and mode are spelled as this build knows them.\<close>

definition known_policy :: "policy \<Rightarrow> bool" where
  "known_policy p \<longleftrightarrow> p_Channel p \<in> {ChannelStable, ChannelMain} \<and> p_Mode p \<in> {ModeManual, ModeNotify, ModeAuto}"

lemma policy_from_data:
  assumes "known_policy p" and "\<And>k v. map_of (policy_data p) k = Some v \<Longrightarrow> map_of d k = Some v"
  shows "policy_from d = p"
  using assms(1) assms(2) [OF policy_data_lookup(1)] assms(2) [OF policy_data_lookup(2)]
    assms(2) [OF policy_data_lookup(3)] assms(2) [OF policy_data_lookup(4)] assms(2) [OF policy_data_lookup(5)]
  by (cases p) (auto simp: policy_from_def str_at_def Let_def known_policy_def DefaultPolicy_def)

text \<open>What a JSON merge patch does: the keys that differ take their new value, the others stay.\<close>

definition merge_law :: "(config_data \<Rightarrow> config_data \<Rightarrow> config_data \<Rightarrow> config_data) \<Rightarrow> bool" where
  "merge_law merge \<longleftrightarrow>
     (\<forall>before after live k. map_of (merge before after live) k
        = (if map_of before k = map_of after k then map_of live k else map_of after k))"

lemma patch_policy_fresh:
  assumes "merge_law (sv_Merge env)" and "known_policy p" and "patch_policy env p d (Some d) = (Inr (), live')"
  shows "\<exists>d'. live' = Some d' \<and> policy_from d' = p
           \<and> (\<forall>k. map_of (policy_data p) k = None \<longrightarrow> map_of d' k = map_of d k)"
proof -
  have d': "live' = Some (sv_Merge env d (set_data (policy_data p) d) d)"
    using assms(3) by (simp add: patch_policy_def split: if_splits)
  have look: "map_of (sv_Merge env d (set_data (policy_data p) d) d) k
      = (case map_of (policy_data p) k of Some v \<Rightarrow> Some v | None \<Rightarrow> map_of d k)" for k
    using assms(1) by (auto simp: merge_law_def set_data_lookup [OF policy_data_distinct] split: option.splits)
  then have "policy_from (sv_Merge env d (set_data (policy_data p) d) d) = p"
    by (intro policy_from_data [OF assms(2)]) simp
  with d' look show ?thesis by simp
qed

text \<open>
  a saved policy loads back. When a save succeeds and what it read was the live object (also
  after losing the race to create it), loading gives exactly the saved policy, and every other key
  of the ConfigMap keeps its value.
\<close>

theorem policy_save_load:
  assumes "merge_law (sv_Merge env)" and "known_policy p"
    and "sv_Get env = (case live of None \<Rightarrow> Missing | Some d \<Rightarrow> Found d)
         \<or> (\<exists>d. live = Some d \<and> sv_Get env = Missing \<and> sv_GetBack env = Found d)"
    and "Save env p live = (Inr (), live')"
  shows "\<exists>d. live' = Some d \<and> Load (Found d) = (p, False)
           \<and> (\<forall>k old. live = Some old \<and> map_of (policy_data p) k = None \<longrightarrow> map_of d k = map_of old k)"
proof (cases live)
  case None
  with assms(3,4) have "live' = Some (policy_data p)"
    by (auto simp: Save_def split: if_splits)
  moreover have "policy_from (policy_data p) = p" by (rule policy_from_data [OF assms(2)])
  ultimately show ?thesis using None by (simp add: Load_def)
next
  case (Some d)
  with assms(3,4) have "patch_policy env p d (Some d) = (Inr (), live')"
    by (auto simp: Save_def split: if_splits read.splits)
  from patch_policy_fresh [OF assms(1,2) this] Some show ?thesis by (auto simp: Load_def)
qed

text \<open>
  a stale read loses a write. The operator pins the cluster and clears the pin while the cached
  read still shows the object from before the pin: the patch from that read is empty, the save
  reports success, and the pin stays.
\<close>

theorem stale_read_loses_write:
  assumes "merge_law (sv_Merge env)" and "known_policy p"
    and "sv_Get env = Found stale" and "sv_PatchOk env"
    and "\<And>k v. map_of (policy_data p) k = Some v \<Longrightarrow> map_of stale k = Some v"
  shows "\<exists>d'. Save env p (Some d) = (Inr (), Some d') \<and> policy_from d' = policy_from d"
proof -
  let ?after = "set_data (policy_data p) stale"
  have "map_of ?after k = map_of stale k" for k
    using assms(5) by (simp add: set_data_lookup [OF policy_data_distinct] split: option.split)
  then have same: "map_of (sv_Merge env stale ?after d) k = map_of d k" for k
    using assms(1) by (simp add: merge_law_def)
  then have "policy_from (sv_Merge env stale ?after d) = policy_from d"
    by (simp add: policy_from_def str_at_def)
  then show ?thesis using assms(3,4) by (simp add: Save_def patch_policy_def)
qed

subsection \<open>Examples\<close>

text \<open>A merge patch on association lists.\<close>

definition example_merge :: "config_data \<Rightarrow> config_data \<Rightarrow> config_data \<Rightarrow> config_data" where
  "example_merge before after live =
     filter (\<lambda>e. map_of before (fst e) \<noteq> map_of after (fst e)) after
     @ filter (\<lambda>e. map_of before (fst e) = map_of after (fst e)) live"

definition example_policy :: "string \<Rightarrow> policy" where
  "example_policy pin = DefaultPolicy\<lparr>p_PinnedVersion := pin\<rparr>"

lemma map_of_filter_keys: "map_of (filter (\<lambda>e. P (fst e)) m) k = (if P k then map_of m k else None)"
  by (induction m) auto

lemma example_merge_law: "merge_law example_merge"
  unfolding merge_law_def example_merge_def
  by (simp add: map_add_def map_of_filter_keys [of "\<lambda>k. map_of b k \<noteq> map_of a k" for a b]
      map_of_filter_keys [of "\<lambda>k. map_of b k = map_of a k" for a b] split: option.split)

definition example_save_env :: "config_data \<Rightarrow> save_env" where
  "example_save_env cached = \<lparr>sv_Get = Found cached, sv_CreateFails = False, sv_GetBack = ReadError,
     sv_PatchOk = True, sv_Merge = example_merge\<rparr>"

lemma example_policy_known: "known_policy (example_policy pin)"
  by (simp add: known_policy_def example_policy_def DefaultPolicy_def)

theorem policy_save_load_witness:
  "\<exists>d. snd (Save (example_save_env (policy_data (example_policy ''1.0.1''))) (example_policy '''')
           (Some (policy_data (example_policy ''1.0.1'')))) = Some d
       \<and> Load (Found d) = (example_policy '''', False)"
proof -
  let ?env = "example_save_env (policy_data (example_policy ''1.0.1''))"
  let ?live = "Some (policy_data (example_policy ''1.0.1''))"
  have "sv_Get ?env = (case ?live of None \<Rightarrow> Missing | Some d \<Rightarrow> Found d)" "merge_law (sv_Merge ?env)"
    by (simp_all add: example_save_env_def example_merge_law)
  moreover obtain live' where "Save ?env (example_policy '''') ?live = (Inr (), live')"
    by (simp add: Save_def patch_policy_def example_save_env_def)
  ultimately show ?thesis
    using policy_save_load [of ?env "example_policy ''''" ?live live'] example_policy_known by auto
qed

theorem stale_read_loses_write_witness:
  "\<exists>d'. Save (example_save_env (policy_data (example_policy ''''))) (example_policy '''')
            (Some (policy_data (example_policy ''1.0.1''))) = (Inr (), Some d')
        \<and> p_PinnedVersion (policy_from d') = ''1.0.1''"
proof -
  have "policy_from (policy_data (example_policy ''1.0.1'')) = example_policy ''1.0.1''"
    by (rule policy_from_data [OF example_policy_known])
  with stale_read_loses_write [of "example_save_env (policy_data (example_policy ''''))" "example_policy ''''"
      "policy_data (example_policy '''')" "policy_data (example_policy ''1.0.1'')"]
  show ?thesis
    by (auto simp: example_save_env_def example_merge_law example_policy_known) (simp add: example_policy_def)
qed

end
