(* ===== verification/Update_Checker.thy ===== *)
theory Update_Checker
  imports Update_Policy
begin

section \<open>Checking for and applying updates (\<open>pkg/updates\<close>, \<open>pkg/api/routes_updates.go\<close>)\<close>

text \<open>
  The two feeds (\<open>feed.go\<close>, \<open>chartfeed.go\<close>), the upgrade jobs (\<open>apply.go\<close>), the checker that
  caches the last answer (\<open>checker.go\<close>) and the API's handlers. The answers of GitHub, of the chart
  registry and of the API server are inputs; the state is the checker's cache, the live ConfigMap
  and the live upgrade jobs. Error messages are named by constructors.
\<close>

subsection \<open>The release feed\<close>

record release =
  rel_Version :: version
  rel_Tag :: string
  rel_PublishedAt :: time
  rel_URL :: string

text \<open>A payload: tag, URL, the publish date when there is one that parses, draft, prerelease.\<close>

datatype feed_answer =
  RequestFails | HttpStatus int | BadPayload | Payload string string "time option" bool bool

datatype feed_error =
    FeedRequest | FeedNotFound | FeedRateLimited int | FeedHttp int | FeedResponse
  | FeedTag version_error | NoChartRegistry
  | TokenRequest | TokenHttp int | TokenResponse | TokenEmpty | TagsRequest | TagsHttp int | TagsResponse

definition FeedLatest :: "feed_answer \<Rightarrow> feed_error + release option" where
  "FeedLatest answer =
     (case answer of
        RequestFails \<Rightarrow> Inl FeedRequest
      | BadPayload \<Rightarrow> Inl FeedResponse
      | HttpStatus n \<Rightarrow>
          (if n = 404 then Inl FeedNotFound
           else if n = 403 \<or> n = 429 then Inl (FeedRateLimited n)
           else Inl (FeedHttp n))
      | Payload tag url published draft prerelease \<Rightarrow>
          (if draft \<or> prerelease then Inr None
           else case ParseVersion tag of
                  Inl err \<Rightarrow> Inl (FeedTag err)
                | Inr v \<Rightarrow> Inr (Some \<lparr>rel_Version = v, rel_Tag = tag,
                     rel_PublishedAt = (case published of None \<Rightarrow> 0 | Some ts \<Rightarrow> ts), rel_URL = url\<rparr>)))"

subsection \<open>The chart registry\<close>

record chart_client =
  cf_Registry :: string
  cf_Repository :: string
  cf_Token :: string

definition TrimSuffix :: "string \<Rightarrow> string \<Rightarrow> string" where
  "TrimSuffix s p = (if suffix p s then take (length s - length p) s else s)"

definition trim_slashes :: "string \<Rightarrow> string" where
  "trim_slashes s = rev (dropWhile (\<lambda>c. c = CHR ''/'') (rev (dropWhile (\<lambda>c. c = CHR ''/'') s)))"

definition chart_registry :: "chart_client \<Rightarrow> string" where
  "chart_registry c =
     (if cf_Registry c \<noteq> ''''
      then TrimPrefix (TrimPrefix (TrimSuffix (cf_Registry c) ''/'') ''https://'') ''http://''
      else ''ghcr.io'')"

definition chart_scheme :: "chart_client \<Rightarrow> string" where
  "chart_scheme c = (if HasPrefix (cf_Registry c) ''http://'' then ''http'' else ''https'')"

definition chart_repository :: "chart_client \<Rightarrow> string" where
  "chart_repository c = (if cf_Repository c \<noteq> '''' then trim_slashes (cf_Repository c) else ''matty-v/charts/kyber'')"

definition chart_Ref :: "chart_client \<Rightarrow> string" where
  "chart_Ref c = ''oci://'' @ chart_registry c @ ''/'' @ chart_repository c"

datatype token_answer = TokenFails | TokenStatus int | TokenBadPayload | TokenPayload string
datatype tags_answer = TagsFail | TagsStatus int | TagsBadPayload | TagsPayload "string list"

definition anonymousToken :: "token_answer \<Rightarrow> feed_error + string" where
  "anonymousToken answer =
     (case answer of
        TokenFails \<Rightarrow> Inl TokenRequest
      | TokenStatus n \<Rightarrow> Inl (TokenHttp n)
      | TokenBadPayload \<Rightarrow> Inl TokenResponse
      | TokenPayload t \<Rightarrow> (if t = '''' then Inl TokenEmpty else Inr t))"

definition chart_tags :: "chart_client \<Rightarrow> token_answer \<Rightarrow> tags_answer \<Rightarrow> feed_error + string list" where
  "chart_tags c token answer =
     (case (if cf_Token c = '''' then anonymousToken token else Inr (cf_Token c)) of
        Inl err \<Rightarrow> Inl err
      | Inr _ \<Rightarrow>
          (case answer of
             TagsFail \<Rightarrow> Inl TagsRequest
           | TagsStatus n \<Rightarrow> (if n = 404 then Inr [] else Inl (TagsHttp n))
           | TagsBadPayload \<Rightarrow> Inl TagsResponse
           | TagsPayload tags \<Rightarrow> Inr tags))"

text \<open>The loop of \<open>Latest\<close> over the tags.\<close>

fun chart_scan :: "chart_client \<Rightarrow> channel \<Rightarrow> release option \<Rightarrow> string list \<Rightarrow> release option" where
  "chart_scan c ch best [] = best"
| "chart_scan c ch best (tag # tags) =
     (case ParseVersion tag of
        Inl _ \<Rightarrow> chart_scan c ch best tags
      | Inr v \<Rightarrow>
          (if \<not> Accepts ch v then chart_scan c ch best tags
           else if (case best of None \<Rightarrow> True | Some b \<Rightarrow> GreaterThan v (rel_Version b))
           then chart_scan c ch (Some \<lparr>rel_Version = v, rel_Tag = tag, rel_PublishedAt = 0,
                  rel_URL = chart_scheme c @ ''://'' @ chart_registry c @ ''/'' @ chart_repository c\<rparr>) tags
           else chart_scan c ch best tags))"

definition ChartLatest ::
  "chart_client \<Rightarrow> token_answer \<Rightarrow> tags_answer \<Rightarrow> channel \<Rightarrow> feed_error + release option" where
  "ChartLatest c token answer ch =
     (case chart_tags c token answer of Inl err \<Rightarrow> Inl err | Inr tags \<Rightarrow> Inr (chart_scan c ch None tags))"

text \<open>\<open>None\<close> in the sum: not configured.\<close>

definition ChartFeedFromRef :: "string \<Rightarrow> string \<Rightarrow> unit + chart_client option" where
  "ChartFeedFromRef ref0 token =
     (let ref = TrimSpace ref0 in
      if ref = '''' then Inr None
      else case first_cut ''/'' (TrimSuffix (TrimPrefix ref ''oci://'') ''/'') of
             None \<Rightarrow> Inl ()
           | Some (host, repo) \<Rightarrow>
               (if host = '''' \<or> repo = '''' then Inl ()
                else Inr (Some \<lparr>cf_Registry = host, cf_Repository = repo, cf_Token = token\<rparr>)))"

subsection \<open>Upgrade jobs\<close>

datatype run_phase = RunPending | RunRunning | RunSucceeded | RunFailed
datatype run_message = NoMessage | MessageRolledBack | MessageCondition string

record update_run =
  run_JobName :: string
  run_TargetVersion :: string
  run_Phase :: run_phase
  run_StartedAt :: "time option"
  run_FinishedAt :: "time option"
  run_Message :: run_message

text \<open>A condition of a job: whether it is \<open>Failed\<close> and true, and its message.\<close>

record upgrade_job =
  jb_Name :: string
  jb_Target :: string
  jb_Created :: time
  jb_StartTime :: "time option"
  jb_Succeeded :: int
  jb_Failed :: int
  jb_CompletionTime :: "time option"
  jb_Conditions :: "(bool \<times> string) list"

definition fail_condition :: "update_run \<Rightarrow> bool \<times> string \<Rightarrow> update_run" where
  "fail_condition r c =
     (if fst c
      then r\<lparr>run_Phase := RunFailed,
             run_Message := (if snd c \<noteq> '''' then MessageCondition (snd c) else run_Message r)\<rparr>
      else r)"

definition runFromJob :: "upgrade_job \<Rightarrow> update_run" where
  "runFromJob j =
     (let r0 = \<lparr>run_JobName = jb_Name j, run_TargetVersion = jb_Target j,
                run_Phase = (if jb_StartTime j \<noteq> None then RunRunning else RunPending),
                run_StartedAt = jb_StartTime j, run_FinishedAt = None, run_Message = NoMessage\<rparr>;
          r1 = (if jb_Succeeded j > 0 then r0\<lparr>run_Phase := RunSucceeded\<rparr>
                else if jb_Failed j > 0 then r0\<lparr>run_Phase := RunFailed, run_Message := MessageRolledBack\<rparr>
                else r0);
          r2 = r1\<lparr>run_FinishedAt := jb_CompletionTime j\<rparr>
      in foldl fail_condition r2 (jb_Conditions j))"

text \<open>Newest first; the code's sort leaves the order of jobs created at one time open.\<close>

definition list_runs :: "upgrade_job list \<Rightarrow> update_run list" where
  "list_runs jobs = map runFromJob (sort_key (\<lambda>j. - jb_Created j) jobs)"

definition unfinished :: "update_run \<Rightarrow> bool" where
  "unfinished r \<longleftrightarrow> run_Phase r = RunPending \<or> run_Phase r = RunRunning"

definition inFlight :: "upgrade_job list \<Rightarrow> update_run option" where
  "inFlight jobs = List.find unfinished (list_runs jobs)"

record applier =
  ap_HasClient :: bool
  ap_Namespace :: string
  ap_Deployment :: string
  ap_ReleaseName :: string
  ap_ChartRef :: string
  ap_ServiceAccount :: string

definition Configured :: "applier \<Rightarrow> bool" where
  "Configured a \<longleftrightarrow> ap_HasClient a \<and> ap_Namespace a \<noteq> '''' \<and> ap_Deployment a \<noteq> ''''
     \<and> ap_ReleaseName a \<noteq> '''' \<and> ap_ChartRef a \<noteq> '''' \<and> ap_ServiceAccount a \<noteq> ''''"

text \<open>\<open>Latest\<close>: \<open>None\<close> for the listing means it failed.\<close>

definition applier_Latest :: "applier \<Rightarrow> upgrade_job list option \<Rightarrow> unit + update_run option" where
  "applier_Latest a jobs =
     (if \<not> Configured a then Inr None
      else case jobs of
             None \<Rightarrow> Inl ()
           | Some js \<Rightarrow> (case list_runs js of [] \<Rightarrow> Inr None | r # _ \<Rightarrow> Inr (Some r)))"

definition jobName :: "string \<Rightarrow> string \<Rightarrow> string" where
  "jobName release_name target =
     (let safe = map (\<lambda>c. if c = CHR ''.'' \<or> c = CHR ''+'' then CHR ''-'' else c) target;
          name = release_name @ ''-upgrade-'' @ safe
      in if length name > 63
         then rev (dropWhile (\<lambda>c. c = CHR ''-'') (rev (take 63 name)))
         else name)"

definition buildJob :: "applier \<Rightarrow> time \<Rightarrow> string \<Rightarrow> upgrade_job" where
  "buildJob a now target =
     \<lparr>jb_Name = jobName (ap_ReleaseName a) target, jb_Target = target, jb_Created = now, jb_StartTime = None,
      jb_Succeeded = 0, jb_Failed = 0, jb_CompletionTime = None, jb_Conditions = []\<rparr>"

datatype start_error =
    NotConfigured | NotOwner refusal | PinnedElsewhere string | BadTarget version_error | WrongChannel
  | NodesTooOld "(string \<times> node_problem) list" | ListFailed | InFlight update_run | ImageUnreadable
  | NoContainers | JobExists string | CreateFailed

text \<open>What a start reads: the Deployment's annotations and its containers' images, the nodes, the
  jobs as the client lists them, and whether a create fails for a reason other than an existing job.\<close>

record start_env =
  se_now :: time
  se_Annotations :: "(string, string) gomap read"
  se_UserNamespace :: string
  se_Nodes :: "cluster_node list option"
  se_Jobs :: "upgrade_job list option"
  se_Images :: "string list read"
  se_CreateFails :: bool

definition create_job :: "applier \<Rightarrow> start_env \<Rightarrow> string \<Rightarrow> upgrade_job list \<Rightarrow> (start_error + update_run) \<times> upgrade_job list" where
  "create_job a env target live =
     (let job = buildJob a (se_now env) target in
      if jb_Name job \<in> jb_Name ` set live then (Inl (JobExists (jb_Name job)), live)
      else if se_CreateFails env then (Inl CreateFailed, live)
      else (Inr \<lparr>run_JobName = jb_Name job, run_TargetVersion = target, run_Phase = RunPending,
                 run_StartedAt = None, run_FinishedAt = None, run_Message = NoMessage\<rparr>, live @ [job]))"

definition Start ::
  "applier \<Rightarrow> start_env \<Rightarrow> string \<Rightarrow> policy \<Rightarrow> upgrade_job list \<Rightarrow> (start_error + update_run) \<times> upgrade_job list" where
  "Start a env targetVersion p live =
     (if \<not> Configured a then (Inl NotConfigured, live)
      else
        (let owner = DetectManagedBy (ap_HasClient a) (ap_Namespace a) (ap_Deployment a) (se_Annotations env) in
         if \<not> CanSelfUpgrade owner then (Inl (NotOwner (managed_Reason owner)), live)
         else if p_PinnedVersion p \<noteq> '''' \<and> p_PinnedVersion p \<noteq> targetVersion
         then (Inl (PinnedElsewhere (p_PinnedVersion p)), live)
         else case ParseVersion targetVersion of
                Inl err \<Rightarrow> (Inl (BadTarget err), live)
              | Inr v \<Rightarrow>
                  (if \<not> Accepts (p_Channel p) v then (Inl WrongChannel, live)
                   else if CheckNodeCapability (se_UserNamespace env) (ap_HasClient a) (se_Nodes env) \<noteq> []
                   then (Inl (NodesTooOld (CheckNodeCapability (se_UserNamespace env) (ap_HasClient a) (se_Nodes env))), live)
                   else case se_Jobs env of
                          None \<Rightarrow> (Inl ListFailed, live)
                        | Some jobs \<Rightarrow>
                            (case inFlight jobs of
                               Some r \<Rightarrow> (Inl (InFlight r), live)
                             | None \<Rightarrow>
                                 (case se_Images env of
                                    Found [] \<Rightarrow> (Inl NoContainers, live)
                                  | Found (_ # _) \<Rightarrow> create_job a env (version_String v) live
                                  | _ \<Rightarrow> (Inl ImageUnreadable, live))))))"

subsection \<open>The checker\<close>

record update_status =
  us_CurrentVersion :: string
  us_LatestVersion :: string
  us_LatestURL :: string
  us_LatestPublishedAt :: "time option"
  us_UpdateAvailable :: bool
  us_Policy :: policy
  us_ManagedBy :: managed_by
  us_CanSelfUpgrade :: bool
  us_Reason :: refusal
  us_LastChecked :: time
  us_LastError :: "feed_error option"
  us_ApplySupported :: bool
  us_LastRun :: "update_run option"

record checker =
  ck_CurrentVersion :: string
  ck_status :: update_status
  ck_seeded :: bool

text \<open>The zero value of a status, and a checker before its first poll.\<close>

definition zero_status :: update_status where
  "zero_status = \<lparr>us_CurrentVersion = '''', us_LatestVersion = '''', us_LatestURL = '''',
     us_LatestPublishedAt = None, us_UpdateAvailable = False,
     us_Policy = \<lparr>p_Channel = '''', p_Mode = '''', p_PinnedVersion = '''', p_Window = '''', p_TimeZone = ''''\<rparr>,
     us_ManagedBy = ManagedByUnknown, us_CanSelfUpgrade = False, us_Reason = NoReason, us_LastChecked = 0,
     us_LastError = None, us_ApplySupported = False, us_LastRun = None\<rparr>"

definition NewChecker :: "string \<Rightarrow> checker" where
  "NewChecker current = \<lparr>ck_CurrentVersion = current, ck_status = zero_status, ck_seeded = False\<rparr>"

text \<open>
  What one call meets: the policy read (\<open>None\<close>: no store), the owner, the applier and the listing of
  its jobs, the chart client, the answers of the feeds, whether the caller went away, the clock.
\<close>

record check_env =
  ce_Policy :: "config_data read option"
  ce_Owner :: managed_by
  ce_Applier :: "applier option"
  ce_Jobs :: "upgrade_job list option"
  ce_Chart :: "chart_client option"
  ce_Token :: token_answer
  ce_Tags :: tags_answer
  ce_Feed :: feed_answer
  ce_Canceled :: bool
  ce_now :: time

definition loadPolicy :: "check_env \<Rightarrow> policy \<Rightarrow> policy" where
  "loadPolicy env fallback =
     (case ce_Policy env of
        None \<Rightarrow> fallback
      | Some answer \<Rightarrow> (case Load answer of (p, err) \<Rightarrow> if err then fallback else p))"

definition latestFor :: "check_env \<Rightarrow> channel \<Rightarrow> feed_error + release option" where
  "latestFor env ch =
     (if ch = ChannelMain
      then (case ce_Chart env of
              None \<Rightarrow> Inl NoChartRegistry
            | Some c \<Rightarrow> ChartLatest c (ce_Token env) (ce_Tags env) ch)
      else FeedLatest (ce_Feed env))"

definition applyState :: "check_env \<Rightarrow> bool \<times> update_run option" where
  "applyState env =
     (case ce_Applier env of
        None \<Rightarrow> (False, None)
      | Some a \<Rightarrow>
          (if \<not> Configured a then (False, None)
           else case applier_Latest a (ce_Jobs env) of Inl _ \<Rightarrow> (True, None) | Inr r \<Rightarrow> (True, r)))"

definition reasonFor :: "managed_by \<Rightarrow> policy \<Rightarrow> refusal" where
  "reasonFor m p = (if p_PinnedVersion p \<noteq> '''' then ReasonHeld (p_PinnedVersion p) else managed_Reason m)"

definition isNewer :: "string \<Rightarrow> version \<Rightarrow> policy \<Rightarrow> bool" where
  "isNewer current latest p =
     (if p_PinnedVersion p \<noteq> '''' then False
      else case ParseVersion current of Inl _ \<Rightarrow> False | Inr v \<Rightarrow> GreaterThan latest v)"

definition availableUnder :: "string \<Rightarrow> string \<Rightarrow> policy \<Rightarrow> bool" where
  "availableUnder current latestVersion p =
     (if latestVersion = '''' then False
      else case ParseVersion latestVersion of Inl _ \<Rightarrow> False | Inr latest \<Rightarrow> isNewer current latest p)"

definition checker_Status :: "check_env \<Rightarrow> checker \<Rightarrow> update_status" where
  "checker_Status env c =
     (let s = ck_status c; (supported, last_run) = applyState env in
      if ck_seeded c
      then (let p = loadPolicy env (us_Policy s) in
            s\<lparr>us_Policy := p, us_ManagedBy := ce_Owner env, us_CanSelfUpgrade := CanSelfUpgrade (ce_Owner env),
              us_Reason := reasonFor (ce_Owner env) p,
              us_UpdateAvailable := availableUnder (ck_CurrentVersion c) (us_LatestVersion s) p,
              us_ApplySupported := supported, us_LastRun := last_run\<rparr>)
      else (let p = loadPolicy env DefaultPolicy in
            zero_status\<lparr>us_CurrentVersion := ck_CurrentVersion c, us_Policy := p,
              us_ApplySupported := supported, us_LastRun := last_run,
              us_ManagedBy := ce_Owner env, us_CanSelfUpgrade := CanSelfUpgrade (ce_Owner env),
              us_Reason := reasonFor (ce_Owner env) p\<rparr>))"

definition publishedAt :: "release \<Rightarrow> time option" where
  "publishedAt r = (if rel_PublishedAt r = 0 then None else Some (rel_PublishedAt r))"

text \<open>The status before the feed is read, and the three ways the feed answers.\<close>

definition next_status :: "check_env \<Rightarrow> checker \<Rightarrow> policy \<Rightarrow> update_status" where
  "next_status env c p =
     (let (supported, last_run) = applyState env in
      (ck_status c)\<lparr>us_CurrentVersion := ck_CurrentVersion c, us_Policy := p, us_ManagedBy := ce_Owner env,
         us_CanSelfUpgrade := CanSelfUpgrade (ce_Owner env), us_Reason := reasonFor (ce_Owner env) p,
         us_ApplySupported := supported, us_LastRun := last_run\<rparr>)"

definition polled_status :: "check_env \<Rightarrow> checker \<Rightarrow> policy \<Rightarrow> release option \<Rightarrow> update_status" where
  "polled_status env c p rel =
     (let s = (next_status env c p)\<lparr>us_LastError := None, us_LastChecked := ce_now env\<rparr> in
      case rel of
        None \<Rightarrow> s\<lparr>us_UpdateAvailable := False\<rparr>
      | Some r \<Rightarrow> s\<lparr>us_LatestVersion := version_String (rel_Version r), us_LatestURL := rel_URL r,
                   us_LatestPublishedAt := publishedAt r,
                   us_UpdateAvailable := isNewer (ck_CurrentVersion c) (rel_Version r) p\<rparr>)"

definition checker_Check :: "check_env \<Rightarrow> checker \<Rightarrow> update_status \<times> checker" where
  "checker_Check env c =
     (let p = loadPolicy env DefaultPolicy; s = next_status env c p in
      case latestFor env (p_Channel p) of
        Inl err \<Rightarrow>
          (if ce_Canceled env then (s, c)
           else (let s' = s\<lparr>us_LastError := Some err\<rparr> in (s', c\<lparr>ck_status := s', ck_seeded := True\<rparr>)))
      | Inr rel \<Rightarrow> (let s' = polled_status env c p rel in (s', c\<lparr>ck_status := s', ck_seeded := True\<rparr>)))"

definition StatusWithPolicy :: "check_env \<Rightarrow> checker \<Rightarrow> policy \<Rightarrow> update_status" where
  "StatusWithPolicy env c p =
     (let s = checker_Status env c in
      s\<lparr>us_Policy := p, us_ManagedBy := ce_Owner env, us_CanSelfUpgrade := CanSelfUpgrade (ce_Owner env),
        us_Reason := reasonFor (ce_Owner env) p,
        us_UpdateAvailable := availableUnder (ck_CurrentVersion c) (us_LatestVersion s) p\<rparr>)"

subsection \<open>The API's handlers\<close>

text \<open>A field of the request body: absent, null, a string, or something else.\<close>

datatype json_field = FieldAbsent | FieldNull | FieldString string | FieldOther

definition overlayString :: "json_field \<Rightarrow> string \<Rightarrow> string option" where
  "overlayString f old =
     (case f of FieldAbsent \<Rightarrow> Some old | FieldNull \<Rightarrow> Some '''' | FieldString v \<Rightarrow> Some (TrimSpace v)
      | FieldOther \<Rightarrow> None)"

record policy_body =
  bd_channel :: json_field
  bd_mode :: json_field
  bd_pinnedVersion :: json_field
  bd_window :: json_field
  bd_timeZone :: json_field

definition overlay_policy :: "policy_body \<Rightarrow> policy \<Rightarrow> policy option" where
  "overlay_policy b p =
     (case overlayString (bd_channel b) (p_Channel p) of None \<Rightarrow> None | Some c \<Rightarrow>
      (case overlayString (bd_mode b) (p_Mode p) of None \<Rightarrow> None | Some m \<Rightarrow>
       (case overlayString (bd_pinnedVersion b) (p_PinnedVersion p) of None \<Rightarrow> None | Some v \<Rightarrow>
        (case overlayString (bd_window b) (p_Window p) of None \<Rightarrow> None | Some w \<Rightarrow>
         (case overlayString (bd_timeZone b) (p_TimeZone p) of None \<Rightarrow> None | Some z \<Rightarrow>
           Some \<lparr>p_Channel = c, p_Mode = m, p_PinnedVersion = v, p_Window = w, p_TimeZone = z\<rparr>)))))"

datatype api_error =
    UpdatesNotConfigured | PolicyReadError | InvalidBody | InvalidPolicy policy_error | PolicyWriteError save_error
  | ApplyNotConfigured | NoTargetVersion | ApplyRefused start_error

text \<open>\<open>load_answer\<close> is the handler's own read of the policy; the body is \<open>None\<close> when it is no JSON object.\<close>

definition handleUpdatePolicyPut ::
  "bool \<Rightarrow> config_data read \<Rightarrow> policy_body option \<Rightarrow> save_env \<Rightarrow> check_env \<Rightarrow> checker \<Rightarrow> config_data option
     \<Rightarrow> (api_error + update_status) \<times> config_data option" where
  "handleUpdatePolicyPut has_store load_answer body sv env c live =
     (if \<not> has_store then (Inl UpdatesNotConfigured, live)
      else case Load load_answer of (current, err) \<Rightarrow>
        (if err then (Inl PolicyReadError, live)
         else case body of
                None \<Rightarrow> (Inl InvalidBody, live)
              | Some b \<Rightarrow>
                  (case overlay_policy b current of
                     None \<Rightarrow> (Inl InvalidBody, live)
                   | Some p \<Rightarrow>
                       (case policy_Validate p of
                          Some e \<Rightarrow> (Inl (InvalidPolicy e), live)
                        | None \<Rightarrow>
                            (case Save sv p live of
                               (Inl e, live') \<Rightarrow> (Inl (PolicyWriteError e), live')
                             | (Inr _, live') \<Rightarrow> (Inr (StatusWithPolicy env c p), live'))))))"

text \<open>The body's version, empty when the body is; \<open>None\<close> is a body that does not decode.\<close>

definition handleUpdateApply ::
  "applier option \<Rightarrow> string option \<Rightarrow> check_env \<Rightarrow> checker \<Rightarrow> start_env \<Rightarrow> upgrade_job list
     \<Rightarrow> (api_error + update_run) \<times> upgrade_job list" where
  "handleUpdateApply ap body env c sv live =
     (case ap of
        None \<Rightarrow> (Inl ApplyNotConfigured, live)
      | Some a \<Rightarrow>
          (if \<not> Configured a then (Inl ApplyNotConfigured, live)
           else case body of
                  None \<Rightarrow> (Inl InvalidBody, live)
                | Some requested \<Rightarrow>
                    (let status = checker_Status env c;
                         version = (if TrimSpace requested = '''' then us_LatestVersion status else TrimSpace requested)
                     in if version = '''' then (Inl NoTargetVersion, live)
                        else case Start a sv version (us_Policy status) live of
                               (Inl e, live') \<Rightarrow> (Inl (ApplyRefused e), live')
                             | (Inr r, live') \<Rightarrow> (Inr r, live'))))"

subsection \<open>The newest chart\<close>

text \<open>The releases the loop over the tags considers.\<close>

definition candidates :: "chart_client \<Rightarrow> channel \<Rightarrow> string list \<Rightarrow> release list" where
  "candidates c ch tags = concat (map (\<lambda>tag.
     case ParseVersion tag of
       Inl _ \<Rightarrow> []
     | Inr v \<Rightarrow> if Accepts ch v
                then [\<lparr>rel_Version = v, rel_Tag = tag, rel_PublishedAt = 0,
                       rel_URL = chart_scheme c @ ''://'' @ chart_registry c @ ''/'' @ chart_repository c\<rparr>]
                else []) tags)"

lemma chart_scan_foldl:
  "chart_scan c ch best tags =
     foldl (\<lambda>best x. case best of None \<Rightarrow> Some x
              | Some b \<Rightarrow> if Compare (rel_Version x) (rel_Version b) > 0 then Some x else best)
       best (candidates c ch tags)"
  by (induction c ch best tags rule: chart_scan.induct)
    (auto simp: candidates_def GreaterThan_def split: sum.split option.split)

lemma candidates_member:
  "m \<in> set (candidates c ch tags) \<longleftrightarrow>
     rel_Tag m \<in> set tags \<and> ParseVersion (rel_Tag m) = Inr (rel_Version m) \<and> Accepts ch (rel_Version m)
     \<and> m = \<lparr>rel_Version = rel_Version m, rel_Tag = rel_Tag m, rel_PublishedAt = 0,
            rel_URL = chart_scheme c @ ''://'' @ chart_registry c @ ''/'' @ chart_repository c\<rparr>"
  by (cases m) (force simp: candidates_def split: sum.splits if_splits)

lemma candidates_ok: "m \<in> set (candidates c ch tags) \<Longrightarrow> version_ok (rel_Version m)"
  unfolding candidates_member using ParseVersion_ok(1) by blast

text \<open>
  the chart feed offers the newest build the channel takes. When the tags were read, the answer
  is nothing exactly if no tag parses to a version the channel accepts; otherwise it is one of the
  tags, parsed, accepted by the channel, and no accepted tag is newer. On the stable channel it is
  therefore never a pre-release, however new.
\<close>

theorem chart_latest_newest:
  assumes "chart_tags c token answer = Inr tags"
  shows "\<exists>r. ChartLatest c token answer ch = Inr r
     \<and> (r = None \<longleftrightarrow> (\<forall>tag\<in>set tags. \<forall>v. ParseVersion tag = Inr v \<longrightarrow> \<not> Accepts ch v))
     \<and> (\<forall>m. r = Some m \<longrightarrow>
          rel_Tag m \<in> set tags \<and> ParseVersion (rel_Tag m) = Inr (rel_Version m) \<and> Accepts ch (rel_Version m)
          \<and> (\<forall>tag\<in>set tags. \<forall>v. ParseVersion tag = Inr v \<and> Accepts ch v \<longrightarrow> \<not> GreaterThan v (rel_Version m))
          \<and> (ch = ChannelStable \<longrightarrow> \<not> IsPrerelease (rel_Version m)))"
proof -
  let ?r = "chart_scan c ch None tags" and ?cs = "candidates c ch tags"
  have mem: "\<exists>x\<in>set ?cs. rel_Version x = v" if "tag \<in> set tags" "ParseVersion tag = Inr v" "Accepts ch v" for tag v
    using that candidates_member [of "\<lparr>rel_Version = v, rel_Tag = tag, rel_PublishedAt = 0,
            rel_URL = chart_scheme c @ ''://'' @ chart_registry c @ ''/'' @ chart_repository c\<rparr>"] by force
  have ok: "\<forall>x\<in>set ?cs. version_ok (rel_Version x)" by (simp add: candidates_ok)
  note scan = vo.scan_newest [OF ok, of None ?r, folded chart_scan_foldl, simplified]
  have none: "?r = None \<longleftrightarrow> ?cs = []" using scan by (auto simp: chart_scan_foldl)
  have empty: "?cs = [] \<longleftrightarrow> (\<forall>tag\<in>set tags. \<forall>v. ParseVersion tag = Inr v \<longrightarrow> \<not> Accepts ch v)"
    using mem by (fastforce simp: candidates_def split: sum.splits if_splits)
  have best: "rel_Tag m \<in> set tags \<and> ParseVersion (rel_Tag m) = Inr (rel_Version m) \<and> Accepts ch (rel_Version m)
      \<and> (\<forall>tag\<in>set tags. \<forall>v. ParseVersion tag = Inr v \<and> Accepts ch v \<longrightarrow> \<not> GreaterThan v (rel_Version m))
      \<and> (ch = ChannelStable \<longrightarrow> \<not> IsPrerelease (rel_Version m))" if m: "?r = Some m" for m
  proof -
    have "m \<in> set ?cs" and newest: "\<forall>x\<in>set ?cs. Compare (rel_Version x) (rel_Version m) \<le> 0"
      using scan m by auto
    then show ?thesis
      using mem unfolding candidates_member GreaterThan_def
      by (auto simp: Accepts_def policy_names) (fastforce simp: Accepts_def policy_names)+
  qed
  show ?thesis
  proof (intro exI conjI allI impI)
    show "ChartLatest c token answer ch = Inr ?r" using assms by (simp add: ChartLatest_def)
    show "?r = None \<longleftrightarrow> (\<forall>tag\<in>set tags. \<forall>v. ParseVersion tag = Inr v \<longrightarrow> \<not> Accepts ch v)"
      using none empty by (rule trans)
  qed (use best in blast)+
qed

subsection \<open>What the status says\<close>

text \<open>
  a status never invents an update. When the status flags one, the cluster has been polled, is
  not pinned by the policy shown, both the shown latest version and the running one parse, and the
  latest is newer; the cluster may install it exactly when it is a Helm release, and the reason shown
  is the owner's.
\<close>

theorem status_never_invents:
  assumes "us_UpdateAvailable (checker_Status env c)"
  shows "ck_seeded c \<and> p_PinnedVersion (us_Policy (checker_Status env c)) = ''''
         \<and> (\<exists>latest current. ParseVersion (us_LatestVersion (checker_Status env c)) = Inr latest
              \<and> ParseVersion (ck_CurrentVersion c) = Inr current \<and> GreaterThan latest current)
         \<and> us_CanSelfUpgrade (checker_Status env c) = (ce_Owner env = ManagedByHelm)
         \<and> us_Reason (checker_Status env c) = managed_Reason (ce_Owner env)"
proof -
  obtain supported last_run where a: "applyState env = (supported, last_run)" by (cases "applyState env")
  let ?p = "loadPolicy env (us_Policy (ck_status c))"
  have seeded: "ck_seeded c"
    using assms a by (cases "ck_seeded c") (simp_all add: checker_Status_def Let_def zero_status_def)
  have fields: "us_Policy (checker_Status env c) = ?p"
    "us_LatestVersion (checker_Status env c) = us_LatestVersion (ck_status c)"
    "us_CanSelfUpgrade (checker_Status env c) = CanSelfUpgrade (ce_Owner env)"
    "us_Reason (checker_Status env c) = reasonFor (ce_Owner env) ?p"
    "us_UpdateAvailable (checker_Status env c)
       = availableUnder (ck_CurrentVersion c) (us_LatestVersion (ck_status c)) ?p"
    using seeded a by (simp_all add: checker_Status_def Let_def)
  with assms have "availableUnder (ck_CurrentVersion c) (us_LatestVersion (ck_status c)) ?p" by simp
  then have "p_PinnedVersion ?p = ''''"
    "\<exists>latest current. ParseVersion (us_LatestVersion (ck_status c)) = Inr latest
        \<and> ParseVersion (ck_CurrentVersion c) = Inr current \<and> GreaterThan latest current"
    by (auto simp: availableUnder_def isNewer_def split: if_splits sum.splits)
  with fields seeded show ?thesis by (simp add: reasonFor_def CanSelfUpgrade_def)
qed

text \<open>
  a failed check loses nothing. When the feed fails, the latest version, its URL and date, the
  update flag and the time of the last good check stay as they were, and the error is recorded,
  unless the caller went away, when the cache is not touched at all; a later good check clears it.
\<close>

theorem failed_check_keeps_answer:
  assumes "latestFor env (p_Channel (loadPolicy env DefaultPolicy)) = Inl err"
  shows "let (s, c') = checker_Check env c in
           us_LatestVersion s = us_LatestVersion (ck_status c) \<and> us_LatestURL s = us_LatestURL (ck_status c)
           \<and> us_LatestPublishedAt s = us_LatestPublishedAt (ck_status c)
           \<and> us_UpdateAvailable s = us_UpdateAvailable (ck_status c) \<and> us_LastChecked s = us_LastChecked (ck_status c)
           \<and> (if ce_Canceled env then c' = c else ck_status c' = s \<and> us_LastError s = Some err)
           \<and> (latestFor env' (p_Channel (loadPolicy env' DefaultPolicy)) = Inr rel \<longrightarrow>
                us_LastError (fst (checker_Check env' c')) = None)"
proof -
  obtain x y where a: "applyState env = (x, y)" by (cases "applyState env")
  obtain x' y' where a': "applyState env' = (x', y')" by (cases "applyState env'")
  show ?thesis
    using assms a a'
    by (auto simp: checker_Check_def next_status_def polled_status_def Let_def split: option.splits)
qed

subsection \<open>Applying\<close>

lemma inFlight_None: "inFlight jobs = None \<longleftrightarrow> (\<forall>j\<in>set jobs. \<not> unfinished (runFromJob j))"
  by (auto simp: inFlight_def list_runs_def find_None_iff)

lemma built_unfinished: "unfinished (runFromJob (buildJob a now target))"
  by (simp add: unfinished_def runFromJob_def buildJob_def Let_def)

lemma Start_refused: "Start a env tv p live = (Inl e, live') \<Longrightarrow> live' = live"
  by (auto simp: Start_def create_job_def Let_def split: if_splits sum.splits option.splits read.splits list.splits)

lemma Start_created:
  assumes "Start a env tv p live = (Inr r, live')"
  shows "\<exists>v jobs. Configured a \<and> CanSelfUpgrade (DetectManagedBy (ap_HasClient a) (ap_Namespace a) (ap_Deployment a) (se_Annotations env))
     \<and> (p_PinnedVersion p = '''' \<or> p_PinnedVersion p = tv) \<and> ParseVersion tv = Inr v \<and> Accepts (p_Channel p) v
     \<and> CheckNodeCapability (se_UserNamespace env) (ap_HasClient a) (se_Nodes env) = []
     \<and> se_Jobs env = Some jobs \<and> inFlight jobs = None
     \<and> run_TargetVersion r = version_String v \<and> run_Phase r = RunPending
     \<and> live' = live @ [buildJob a (se_now env) (version_String v)]
     \<and> run_JobName r = jb_Name (buildJob a (se_now env) (version_String v)) \<and> run_JobName r \<notin> jb_Name ` set live"
  using assms
  by (auto simp: Start_def create_job_def Let_def split: if_splits sum.splits option.splits read.splits list.splits)


text \<open>
  a build of another channel stays on offer. The status recomputes whether an update is available
  from the cached latest version without asking the channel: after the operator leaves the main
  channel for stable, a main build already seen is still flagged as an update, and applying it is
  refused.
\<close>

theorem main_build_offered_on_stable:
  assumes "ck_seeded c" and "p_Channel (loadPolicy env (us_Policy (ck_status c))) = ChannelStable"
    and "p_PinnedVersion (loadPolicy env (us_Policy (ck_status c))) = ''''"
    and "us_LatestVersion (ck_status c) \<noteq> ''''" and "ParseVersion (us_LatestVersion (ck_status c)) = Inr v"
    and "IsPrerelease v" and "ParseVersion (ck_CurrentVersion c) = Inr w" and "GreaterThan v w"
  shows "us_UpdateAvailable (checker_Status env c)
     \<and> \<not> Accepts (p_Channel (us_Policy (checker_Status env c))) v
     \<and> (\<exists>e. handleUpdateApply ap (Some '''') env c sv live = (Inl e, live))"
proof -
  obtain x y where a: "applyState env = (x, y)" by (cases "applyState env")
  let ?st = "checker_Status env c"
  have st: "us_Policy ?st = loadPolicy env (us_Policy (ck_status c))"
    "us_LatestVersion ?st = us_LatestVersion (ck_status c)"
    "us_UpdateAvailable ?st = availableUnder (ck_CurrentVersion c) (us_LatestVersion (ck_status c)) (us_Policy ?st)"
    using assms(1) a by (simp_all add: checker_Status_def Let_def)
  have na: "\<not> Accepts (p_Channel (us_Policy ?st)) v"
    using assms(2,6) by (simp add: st Accepts_def policy_names)
  have "us_UpdateAvailable ?st"
    using assms(3-5,7,8) by (simp add: st availableUnder_def isNewer_def)
  moreover obtain res live' where h: "handleUpdateApply ap (Some '''') env c sv live = (res, live')"
    by (cases "handleUpdateApply ap (Some '''') env c sv live")
  moreover have "\<exists>e. res = Inl e \<and> live' = live"
  proof (cases res)
    case (Inl e)
    with h show ?thesis
      by (auto simp: handleUpdateApply_def Let_def dest: Start_refused split: if_splits option.splits prod.splits sum.splits)
  next
    case (Inr r)
    have blank: "TrimSpace '''' = ''''"
    proof -
      have "strip_left ws '''' = ''''" for ws
        by (subst strip_left.simps) (auto simp: find_Some_iff split: option.split)
      then show ?thesis by (simp add: TrimSpace_def)
    qed
    with h Inr obtain a' where "Start a' sv (us_LatestVersion ?st) (us_Policy ?st) live = (Inr r, live')"
      by (auto simp: handleUpdateApply_def Let_def split: if_splits option.splits prod.splits sum.splits)
    from Start_created [OF this] na assms(5) show ?thesis by (auto simp: st)
  qed
  ultimately show ?thesis using na by auto
qed

subsection \<open>Examples\<close>

definition v102_main :: version where "v102_main = v102\<lparr>Prerelease := ''3-ga1717c8''\<rparr>"

lemma example_strings: "version_String v102 = ''1.0.2''" "version_String v102_main = ''1.0.2-3-ga1717c8''"
  by code_simp+

lemma example_parses: "ParseVersion ''1.0.2'' = Inr v102" "ParseVersion ''1.0.2-3-ga1717c8'' = Inr v102_main"
  "ParseVersion ''latest'' \<noteq> Inr w"
proof -
  have "version_ok v102" "list_all suffix_char (Prerelease v102)" by simp_all
  from ParseVersion_printed [OF this, of "''1.0.2''" "''''"] TrimSpace_graphic [of "''1.0.2''"]
  show "ParseVersion ''1.0.2'' = Inr v102"
    by (simp add: example_strings TrimPrefix_def graphic_def)
  have "version_ok v102_main" "list_all suffix_char (Prerelease v102_main)"
    by (simp_all add: v102_main_def suffix_char_def is_digit_def)
  from ParseVersion_printed [OF this, of "''1.0.2-3-ga1717c8''" "''''"]
    TrimSpace_graphic [of "''1.0.2-3-ga1717c8''"]
  show "ParseVersion ''1.0.2-3-ga1717c8'' = Inr v102_main"
    by (simp add: example_strings TrimPrefix_def graphic_def)
  show "ParseVersion ''latest'' \<noteq> Inr w"
    using TrimSpace_graphic [of "''latest''"]
    by (simp add: ParseVersion_def parse_core_def Let_def TrimPrefix_def graphic_def)
qed

definition example_chart :: chart_client where
  "example_chart = \<lparr>cf_Registry = '''', cf_Repository = '''', cf_Token = ''t''\<rparr>"

definition example_check_env :: "channel \<Rightarrow> check_env" where
  "example_check_env ch = \<lparr>ce_Policy = Some (Found [(KeyChannel, ch)]), ce_Owner = ManagedByHelm,
     ce_Applier = None, ce_Jobs = None, ce_Chart = Some example_chart, ce_Token = TokenFails,
     ce_Tags = TagsPayload [''1.0.2'', ''latest'', ''1.0.2-3-ga1717c8''], ce_Feed = HttpStatus 500,
     ce_Canceled = False, ce_now = 7\<rparr>"

definition example_polled :: checker where
  "example_polled = snd (checker_Check (example_check_env ChannelMain) (NewChecker ''1.0.2''))"

lemma example_newer: "GreaterThan v102_main v102"
proof -
  have sha: "isAbbrevSHA ''a1717c8''" by (simp add: isAbbrevSHA_def is_hex_def is_digit_def)
  have "FormatInt 3 = ''3''" by code_simp
  with splitDescribe_describe(1) [of 3 "''a1717c8''"] sha
  have "splitDescribe ''3-ga1717c8'' = ('''', 3)" by simp
  moreover have "splitDescribe '''' = ('''', 0)" by (simp add: splitDescribe_def)
  ultimately show ?thesis
    by (simp add: GreaterThan_def Compare_key v102_main_def version_key_def pre_key_def base_key_def)
qed

lemma example_scan:
  "chart_scan example_chart ch None [''1.0.2'', ''latest'', ''1.0.2-3-ga1717c8'']
     = Some \<lparr>rel_Version = (if ch = ChannelMain then v102_main else v102),
             rel_Tag = (if ch = ChannelMain then ''1.0.2-3-ga1717c8'' else ''1.0.2''), rel_PublishedAt = 0,
             rel_URL = chart_scheme example_chart @ ''://'' @ chart_registry example_chart @ ''/''
                         @ chart_repository example_chart\<rparr>"
proof -
  have "\<exists>e. ParseVersion ''latest'' = Inl e" using example_parses(3) by (cases "ParseVersion ''latest''") auto
  then show ?thesis
    using example_newer by (auto simp: example_parses Accepts_def IsPrerelease_def v102_main_def)
qed

lemma example_policy_read [simp]:
  "ch = ChannelMain \<or> ch = ChannelStable \<Longrightarrow> p_Channel (loadPolicy (example_check_env ch) fallback) = ch"
  "p_PinnedVersion (loadPolicy (example_check_env ch) fallback) = ''''"
  by (auto simp: loadPolicy_def example_check_env_def Load_def policy_from_def str_at_def policy_keys
      policy_names DefaultPolicy_def Let_def)

lemma example_polled_values:
  "ck_seeded example_polled" "ck_CurrentVersion example_polled = ''1.0.2''"
  "us_LatestVersion (ck_status example_polled) = ''1.0.2-3-ga1717c8''"
proof -
  have "latestFor (example_check_env ChannelMain) ChannelMain
      = Inr (chart_scan example_chart ChannelMain None [''1.0.2'', ''latest'', ''1.0.2-3-ga1717c8''])"
    by (simp add: latestFor_def ChartLatest_def chart_tags_def example_check_env_def example_chart_def)
  from this [unfolded example_scan]
  show "ck_seeded example_polled" "ck_CurrentVersion example_polled = ''1.0.2''"
    "us_LatestVersion (ck_status example_polled) = ''1.0.2-3-ga1717c8''"
    by (simp_all add: example_polled_def checker_Check_def polled_status_def NewChecker_def
        example_strings Let_def)
qed

theorem status_never_invents_witness:
  "GreaterThan v102_main v102
   \<and> p_PinnedVersion (us_Policy (checker_Status (example_check_env ChannelMain) example_polled)) = ''''"
proof -
  obtain x y where "applyState (example_check_env ChannelMain) = (x, y)"
    by (cases "applyState (example_check_env ChannelMain)")
  then have "us_UpdateAvailable (checker_Status (example_check_env ChannelMain) example_polled)"
    using example_polled_values example_newer
    by (simp add: checker_Status_def Let_def availableUnder_def isNewer_def example_parses)
  from status_never_invents [OF this] example_newer show ?thesis by simp
qed

theorem failed_check_keeps_answer_witness:
  "us_LatestVersion (fst (checker_Check (example_check_env ChannelStable) example_polled)) = ''1.0.2-3-ga1717c8''"
proof -
  have "latestFor (example_check_env ChannelStable)
      (p_Channel (loadPolicy (example_check_env ChannelStable) DefaultPolicy)) = Inl (FeedHttp 500)"
    by (simp add: latestFor_def FeedLatest_def policy_names [symmetric])
      (simp add: policy_names example_check_env_def)
  from failed_check_keeps_answer [OF this, of example_polled] show ?thesis
    by (simp add: example_polled_values split_beta Let_def)
qed

theorem chart_latest_newest_witness:
  "\<exists>m. chart_scan example_chart ChannelStable None [''1.0.2'', ''latest'', ''1.0.2-3-ga1717c8''] = Some m
     \<and> \<not> IsPrerelease (rel_Version m)"
proof -
  have tags: "chart_tags example_chart TokenFails (TagsPayload [''1.0.2'', ''latest'', ''1.0.2-3-ga1717c8''])
      = Inr [''1.0.2'', ''latest'', ''1.0.2-3-ga1717c8'']"
    by (simp add: chart_tags_def example_chart_def)
  from chart_latest_newest [OF tags, of ChannelStable] show ?thesis
    unfolding ChartLatest_def tags sum.case example_scan by auto
qed

definition example_applier :: applier where
  "example_applier = \<lparr>ap_HasClient = True, ap_Namespace = ''kyber'', ap_Deployment = ''cp'', ap_ReleaseName = ''kyber'',
     ap_ChartRef = ''oci://c'', ap_ServiceAccount = ''up''\<rparr>"

definition example_start_env :: start_env where
  "example_start_env = \<lparr>se_now = 9, se_Annotations = Found [(''meta.helm.sh/release-name'', ''kyber'')],
     se_UserNamespace = '''', se_Nodes = Some [], se_Jobs = Some [], se_Images = Found [''img''], se_CreateFails = False\<rparr>"

theorem main_build_offered_on_stable_witness:
  "us_UpdateAvailable (checker_Status (example_check_env ChannelStable) example_polled)
   \<and> (\<exists>e. handleUpdateApply None (Some '''') (example_check_env ChannelStable) example_polled example_start_env [] = (Inl e, []))"
proof -
  have "IsPrerelease v102_main" by (simp add: IsPrerelease_def v102_main_def)
  with main_build_offered_on_stable [of example_polled "example_check_env ChannelStable" v102_main v102 None example_start_env "[]"]
    example_polled_values example_parses(1,2) example_newer
  show ?thesis by simp
qed


end
