(* ===== verification/Inbound_Dispatch.thy ===== *)
theory Inbound_Dispatch
  imports Go_Prelude
begin

section \<open>Deciding and rendering inbound prompts (\<open>pkg/inbound/dispatcher.go\<close>, \<open>verifier.go\<close>)\<close>

text \<open>
  What the receiver does with one authenticated webhook body: resolve the event, match it, run the
  filters, extract fields and render the prompt. JSON decoding and the JSONPath engine of
  client-go are the parameter \<open>jsonlib\<close>; the adaptation of the path dialect, the choice of the
  first result and its coercion are modelled. The second half relates \<open>DecideDebug\<close> to \<open>Decide\<close>
  and shows that a payload cannot write outside the indented data block of the prompt.
\<close>

subsection \<open>Bindings\<close>

record inbound_filter =
  if_JsonPath :: string
  if_In :: "string list"
  if_Equals :: string

record inbound_field =
  fd_Label :: string
  fd_JsonPath :: string
  fd_Truncate :: int
  fd_Prefix :: string

record inbound_binding =
  ib_Name :: string
  ib_ExistingSecret :: string
  ib_SignatureHeader :: string
  ib_SignaturePrefix :: string
  ib_EventHeader :: string
  ib_EventPath :: string
  ib_MatchEvents :: "string list"
  ib_Filters :: "inbound_filter list"
  ib_Fields :: "inbound_field list"
  ib_Action :: string
  ib_Limits :: "int option"
  ib_Disabled :: bool

subsection \<open>Request headers\<close>

text \<open>
  \<open>http.Header\<close> maps canonical names to values. \<open>Get\<close> canonicalises its argument: a name of token
  characters gets upper case at its start and after each hyphen and lower case elsewhere; a name
  with any other byte is used as it is.
\<close>

type_synonym header = "(string, string list) gomap"

definition is_upper :: "char \<Rightarrow> bool" where
  "is_upper c \<longleftrightarrow> 65 \<le> (of_char c :: nat) \<and> (of_char c :: nat) \<le> 90"

definition is_lower :: "char \<Rightarrow> bool" where
  "is_lower c \<longleftrightarrow> 97 \<le> (of_char c :: nat) \<and> (of_char c :: nat) \<le> 122"

definition is_token_char :: "char \<Rightarrow> bool" where
  "is_token_char c \<longleftrightarrow> is_upper c \<or> is_lower c \<or> is_digit c \<or> c \<in> set (''!#$%&*+-.^_`|~'' @ [byte 39])"

fun canonical_from :: "bool \<Rightarrow> string \<Rightarrow> string" where
  "canonical_from up [] = []"
| "canonical_from up (c # s) =
     (if up \<and> is_lower c then char_of ((of_char c :: nat) - 32)
      else if \<not> up \<and> is_upper c then char_of ((of_char c :: nat) + 32)
      else c) # canonical_from (c = CHR ''-'') s"

definition canonical_header :: "string \<Rightarrow> string" where
  "canonical_header s = (if list_all is_token_char s then canonical_from True s else s)"

definition header_Get :: "header \<Rightarrow> string \<Rightarrow> string" where
  "header_Get h k =
     (case map_of h (canonical_header k) of
        Some (v # _) \<Rightarrow> v
      | _ \<Rightarrow> '''')"

subsection \<open>JSONPath values\<close>

text \<open>
  \<open>normalizeJSONPath\<close> rewrites the conventional dialect into the template syntax of client-go.
\<close>

definition normalizeJSONPath :: "string \<Rightarrow> string" where
  "normalizeJSONPath path =
     (let p = TrimSpace path in
      if p = '''' then ''{$}''
      else if HasPrefix p ''{'' \<and> suffix ''}'' p then p
      else if p = ''$'' then ''{$}''
      else if HasPrefix p ''$.'' then ''{.'' @ drop 2 p @ ''}''
      else if HasPrefix p ''$['' then ''{'' @ p @ ''}''
      else if HasPrefix p ''.'' then ''{'' @ p @ ''}''
      else ''{.'' @ p @ ''}'')"

text \<open>
  A \<open>reflect.Value\<close> the engine returns: invalid, an interface that may be nil, or a plain value.
  The library: \<open>json.Unmarshal\<close>, \<open>jsonpath.Parse\<close> with \<open>FindResults\<close> (missing keys allowed), and
  \<open>fmt.Sprint\<close> of a value. A document is \<open>None\<close> where the code has the nil document.
\<close>

datatype 'v rvalue = InvalidValue | InterfaceValue "'v option" | PlainValue 'v

record ('d, 'v) jsonlib =
  jl_unmarshal :: "string \<Rightarrow> 'd option"
  jl_find :: "string \<Rightarrow> 'd option \<Rightarrow> 'v rvalue list list option"
  jl_sprint :: "'v \<Rightarrow> string"

fun coerceJSONPathValue :: "('d, 'v) jsonlib \<Rightarrow> 'v rvalue \<Rightarrow> string" where
  "coerceJSONPathValue lib InvalidValue = ''''"
| "coerceJSONPathValue lib (InterfaceValue None) = ''''"
| "coerceJSONPathValue lib (InterfaceValue (Some v)) = jl_sprint lib v"
| "coerceJSONPathValue lib (PlainValue v) = jl_sprint lib v"

text \<open>\<open>None\<close> is the error, whose accompanying value is always the empty string.\<close>

definition evalJSONPath :: "('d, 'v) jsonlib \<Rightarrow> string \<Rightarrow> string \<Rightarrow> string option" where
  "evalJSONPath lib body path =
     (let find = (\<lambda>doc.
            case jl_find lib (normalizeJSONPath path) doc of
              None \<Rightarrow> None
            | Some groups \<Rightarrow>
                (case concat groups of
                   [] \<Rightarrow> Some ''''
                 | v # _ \<Rightarrow> Some (coerceJSONPathValue lib v)))
      in if body = '''' then find None
         else case jl_unmarshal lib body of None \<Rightarrow> None | Some d \<Rightarrow> find (Some d))"

text \<open>\<open>val, _ := evalJSONPath(...)\<close>: the error is dropped, the value is then empty.\<close>

definition value_of :: "string option \<Rightarrow> string" where
  "value_of r = (case r of None \<Rightarrow> '''' | Some v \<Rightarrow> v)"

subsection \<open>Event, fields and rendering\<close>

definition resolve_event :: "('d, 'v) jsonlib \<Rightarrow> string \<Rightarrow> header \<Rightarrow> inbound_binding \<Rightarrow> string" where
  "resolve_event lib body headers b =
     (let event = (if ib_EventHeader b \<noteq> '''' then header_Get headers (ib_EventHeader b) else '''') in
      if ib_EventPath b \<noteq> ''''
      then (case evalJSONPath lib body (ib_EventPath b) of
              None \<Rightarrow> event
            | Some extracted \<Rightarrow>
                if extracted = '''' then event
                else if event = '''' then extracted
                else event @ ''.'' @ extracted)
      else event)"

fun contains_str :: "string list \<Rightarrow> string \<Rightarrow> bool" where
  "contains_str [] needle = False"
| "contains_str (h # hs) needle = (if h = needle then True else contains_str hs needle)"

definition truncateRunes :: "string \<Rightarrow> int \<Rightarrow> string" where
  "truncateRunes s n =
     (if int (length (runes s)) \<le> n then s else concat (take (nat n) (runes s)))"

abbreviation newline :: char where "newline \<equiv> CHR 0x0A"

text \<open>Writing to the \<open>strings.Builder\<close> appends; each writer returns what it appends.\<close>

definition writeKV :: "string \<Rightarrow> string \<Rightarrow> string" where
  "writeKV label v =
     (if newline \<notin> set v then ''  '' @ label @ '': '' @ v @ [newline]
      else let ls = split_on newline v in
           ''  '' @ label @ '': '' @ hd ls @ [newline]
           @ concat (map (\<lambda>l. ''    '' @ l @ [newline]) (tl ls)))"

definition render_envelope :: "string \<Rightarrow> string \<Rightarrow> inbound_binding \<Rightarrow> (string \<times> string) list \<Rightarrow> string" where
  "render_envelope requestID agent b rendered =
     ''[inbound:'' @ requestID @ ''] binding='' @ ib_Name b @ '' agent='' @ agent @ [newline]
     @ ''data:'' @ [newline]
     @ concat (map (\<lambda>(l, v). writeKV l v) rendered)
     @ ''action:'' @ [newline]
     @ concat (map (\<lambda>l. ''  '' @ l @ [newline]) (split_on newline (ib_Action b)))"

subsection \<open>Decide\<close>

record decision =
  d_Match :: bool
  d_DropReason :: string
  d_Envelope :: string

definition DropReasonUnmatchedEvent :: "string" where "DropReasonUnmatchedEvent = ''unmatched-event''"
definition DropReasonFilterRejected :: "string" where "DropReasonFilterRejected = ''filter-rejected''"

definition dropped :: "string \<Rightarrow> decision" where
  "dropped reason = \<lparr>d_Match = False, d_DropReason = reason, d_Envelope = ''''\<rparr>"

fun filters_pass :: "('d, 'v) jsonlib \<Rightarrow> string \<Rightarrow> inbound_filter list \<Rightarrow> bool" where
  "filters_pass lib body [] = True"
| "filters_pass lib body (f # fs) =
     (if if_In f = [] \<and> if_Equals f = '''' then filters_pass lib body fs
      else case evalJSONPath lib body (if_JsonPath f) of
             None \<Rightarrow> False
           | Some val \<Rightarrow>
               if if_In f \<noteq> [] \<and> \<not> contains_str (if_In f) val then False
               else if if_Equals f \<noteq> '''' \<and> val \<noteq> if_Equals f then False
               else filters_pass lib body fs)"

definition rendered_field :: "('d, 'v) jsonlib \<Rightarrow> string \<Rightarrow> inbound_field \<Rightarrow> string \<times> string" where
  "rendered_field lib body fld =
     (let raw = value_of (evalJSONPath lib body (fd_JsonPath fld));
          val = (if 0 < fd_Truncate fld then truncateRunes raw (fd_Truncate fld) else raw);
          val2 = (if fd_Prefix fld \<noteq> '''' then fd_Prefix fld @ val else val)
      in (fd_Label fld, val2))"

definition Decide ::
  "('d, 'v) jsonlib \<Rightarrow> string \<Rightarrow> header \<Rightarrow> string \<Rightarrow> string \<Rightarrow> inbound_binding \<Rightarrow> decision" where
  "Decide lib body headers requestID agent b =
     (let event = resolve_event lib body headers b in
      if ib_MatchEvents b \<noteq> [] \<and> \<not> contains_str (ib_MatchEvents b) event
      then dropped DropReasonUnmatchedEvent
      else if \<not> filters_pass lib body (ib_Filters b) then dropped DropReasonFilterRejected
      else \<lparr>d_Match = True, d_DropReason = '''',
            d_Envelope = render_envelope requestID agent b (map (rendered_field lib body) (ib_Fields b))\<rparr>)"

subsection \<open>DecideDebug\<close>

record filter_result =
  fr_JsonPath :: string
  fr_Passed :: bool
  fr_ExtractedValue :: string
  fr_Reason :: string

record field_result =
  fl_Label :: string
  fl_JsonPath :: string
  fl_ExtractedValue :: string
  fl_Truncated :: bool

record decision_debug =
  dd_Decision :: decision
  dd_ResolvedEvent :: string
  dd_FilterResults :: "filter_result list"
  dd_FieldResults :: "field_result list"

text \<open>The body of the filter loop: the trace entry, whose \<open>Passed\<close> decides the first failure.\<close>

definition debug_filter :: "('d, 'v) jsonlib \<Rightarrow> string \<Rightarrow> inbound_filter \<Rightarrow> filter_result" where
  "debug_filter lib body f =
     (let r = evalJSONPath lib body (if_JsonPath f);
          val = value_of r;
          fr = \<lparr>fr_JsonPath = if_JsonPath f, fr_Passed = True, fr_ExtractedValue = val, fr_Reason = ''''\<rparr>
      in if if_In f = [] \<and> if_Equals f = '''' then fr
         else if r = None then fr\<lparr>fr_Passed := False, fr_Reason := ''extraction-error''\<rparr>
         else (let in_fails = if_In f \<noteq> [] \<and> \<not> contains_str (if_In f) val;
                   eq_fails = \<not> in_fails \<and> if_Equals f \<noteq> '''' \<and> val \<noteq> if_Equals f;
                   mismatch = (if in_fails then ''not-in-list'' else ''not-equals'')
               in if in_fails \<or> eq_fails
                  then fr\<lparr>fr_Passed := False, fr_Reason := (if val = '''' then ''missing-key'' else mismatch)\<rparr>
                  else fr))"

fun debug_filters :: "('d, 'v) jsonlib \<Rightarrow> string \<Rightarrow> inbound_filter list \<Rightarrow> string
    \<Rightarrow> filter_result list \<times> string" where
  "debug_filters lib body [] firstFailure = ([], firstFailure)"
| "debug_filters lib body (f # fs) firstFailure =
     (let fr = debug_filter lib body f;
          failure = (if \<not> fr_Passed fr \<and> firstFailure = '''' then DropReasonFilterRejected else firstFailure);
          (rest, final) = debug_filters lib body fs failure
      in (fr # rest, final))"

definition debug_field :: "('d, 'v) jsonlib \<Rightarrow> string \<Rightarrow> inbound_field \<Rightarrow> field_result \<times> (string \<times> string)" where
  "debug_field lib body fld =
     (let raw = value_of (evalJSONPath lib body (fd_JsonPath fld));
          cut = truncateRunes raw (fd_Truncate fld);
          truncated = (0 < fd_Truncate fld \<and> cut \<noteq> raw);
          val = (if 0 < fd_Truncate fld then cut else raw);
          shown = (if fd_Prefix fld \<noteq> '''' then fd_Prefix fld @ val else val)
      in (\<lparr>fl_Label = fd_Label fld, fl_JsonPath = fd_JsonPath fld, fl_ExtractedValue = raw,
           fl_Truncated = truncated\<rparr>, (fd_Label fld, shown)))"

definition DecideDebug ::
  "('d, 'v) jsonlib \<Rightarrow> string \<Rightarrow> header \<Rightarrow> string \<Rightarrow> string \<Rightarrow> inbound_binding \<Rightarrow> decision_debug" where
  "DecideDebug lib body headers requestID agent b =
     (let event = resolve_event lib body headers b;
          dbg = \<lparr>dd_Decision = dropped '''', dd_ResolvedEvent = event,
                 dd_FilterResults = [], dd_FieldResults = []\<rparr>
      in if ib_MatchEvents b \<noteq> [] \<and> \<not> contains_str (ib_MatchEvents b) event
         then dbg\<lparr>dd_Decision := dropped DropReasonUnmatchedEvent\<rparr>
         else (let (trace, firstFailure) = debug_filters lib body (ib_Filters b) '''' in
               if firstFailure \<noteq> ''''
               then dbg\<lparr>dd_FilterResults := trace, dd_Decision := dropped firstFailure\<rparr>
               else (let rows = map (debug_field lib body) (ib_Fields b) in
                     dbg\<lparr>dd_FilterResults := trace, dd_FieldResults := map fst rows,
                         dd_Decision := \<lparr>d_Match = True, d_DropReason = '''',
                           d_Envelope = render_envelope requestID agent b (map snd rows)\<rparr>\<rparr>)))"

subsection \<open>Verifying a signature\<close>

text \<open>
  The MAC (HMAC with SHA-256, keyed by the secret) is a parameter; the constant-time comparison
  answers equality.
\<close>

definition Verify ::
  "(string \<Rightarrow> string \<Rightarrow> string) \<Rightarrow> string \<Rightarrow> string \<Rightarrow> string \<Rightarrow> string \<Rightarrow> bool" where
  "Verify hmac secret body sig pre =
     (if sig = '''' then False
      else if pre \<noteq> '''' \<and> \<not> HasPrefix sig pre then False
      else case hex_DecodeString (if pre \<noteq> '''' then drop (length pre) sig else sig) of
             None \<Rightarrow> False
           | Some got \<Rightarrow> got = hmac secret body)"

subsection \<open>The two pipelines agree\<close>

lemma debug_field_rendered: "snd (debug_field lib body fld) = rendered_field lib body fld"
  by (simp add: debug_field_def rendered_field_def Let_def)

lemma debug_filter_passed:
  "filters_pass lib body (f # fs) \<longleftrightarrow> fr_Passed (debug_filter lib body f) \<and> filters_pass lib body fs"
  by (cases "evalJSONPath lib body (if_JsonPath f)") (auto simp: debug_filter_def value_of_def Let_def)

lemma debug_filters_final:
  "snd (debug_filters lib body fs failure)
     = (if failure = '''' \<and> \<not> filters_pass lib body fs then DropReasonFilterRejected else failure)"
proof (induction fs arbitrary: failure)
  case (Cons f fs)
  have "DropReasonFilterRejected \<noteq> ''''" by (simp add: DropReasonFilterRejected_def)
  then show ?case
    by (simp add: debug_filter_passed Cons Let_def case_prod_unfold del: filters_pass.simps)
qed simp

lemma debug_filters_trace:
  "fst (debug_filters lib body fs failure) = map (debug_filter lib body) fs"
  by (induction fs arbitrary: failure) (simp_all add: Let_def case_prod_unfold)

text \<open>
  The debugger never disagrees with the receiver: the decision inside the answer of
  \<open>DecideDebug\<close> is exactly what \<open>Decide\<close> answers on the same request. Once the event is matched the
  trace holds one entry per filter, in order, and \<open>Decide\<close> matches exactly when every entry passed.
\<close>

theorem decide_debug_agrees:
  "dd_Decision (DecideDebug lib body headers rid agent b) = Decide lib body headers rid agent b
   \<and> dd_ResolvedEvent (DecideDebug lib body headers rid agent b) = resolve_event lib body headers b
   \<and> (d_DropReason (Decide lib body headers rid agent b) = DropReasonUnmatchedEvent
      \<or> map fr_JsonPath (dd_FilterResults (DecideDebug lib body headers rid agent b))
           = map if_JsonPath (ib_Filters b)
        \<and> (d_Match (Decide lib body headers rid agent b)
            \<longleftrightarrow> list_all fr_Passed (dd_FilterResults (DecideDebug lib body headers rid agent b))))"
proof -
  have path: "fr_JsonPath (debug_filter lib body f) = if_JsonPath f" for f
    by (simp add: debug_filter_def Let_def)
  have pass: "filters_pass lib body fs \<longleftrightarrow> list_all fr_Passed (map (debug_filter lib body) fs)" for fs
    by (induction fs) (simp_all add: debug_filter_passed del: filters_pass.simps(2))
  have ne: "DropReasonFilterRejected \<noteq> ''''" "DropReasonFilterRejected \<noteq> DropReasonUnmatchedEvent"
    by (simp_all add: DropReasonFilterRejected_def DropReasonUnmatchedEvent_def)
  show ?thesis
    by (cases "filters_pass lib body (ib_Filters b)")
       (simp_all add: Decide_def DecideDebug_def Let_def case_prod_unfold debug_filters_final
          debug_filters_trace debug_field_rendered dropped_def path o_def ne pass [symmetric])
qed

subsection \<open>The payload stays inside its block\<close>

text \<open>What \<open>writeKV\<close> writes are whole lines, each of them indented.\<close>

definition indented :: "string \<Rightarrow> bool" where
  "indented l \<longleftrightarrow> newline \<notin> set l \<and> prefix ''  '' l"

lemma writeKV_lines:
  assumes "newline \<notin> set label"
  obtains ls where "writeKV label v = concat (map (\<lambda>l. l @ [newline]) ls)" and "list_all indented ls"
proof
  let ?ws = "split_on newline v"
  let ?ls = "(''  '' @ label @ '': '' @ hd ?ws) # map (\<lambda>l. ''    '' @ l) (tl ?ws)"
  have ws: "?ws = hd ?ws # tl ?ws" by simp
  have free: "list_all (\<lambda>w. newline \<notin> set w) ?ws"
    by (auto simp: list_all_iff dest: split_on_pieces)
  show "writeKV label v = concat (map (\<lambda>l. l @ [newline]) ?ls)"
    by (cases "newline \<in> set v") (simp_all add: writeKV_def Let_def split_on_no_sep o_def)
  have "newline \<notin> set (hd ?ws)" "list_all (\<lambda>w. newline \<notin> set w) (tl ?ws)"
    using free ws by (metis list.pred_inject(2))+
  with assms show "list_all indented ?ls" by (auto simp: indented_def list_all_iff)
qed

lemma rendered_lines:
  assumes "list_all (\<lambda>(l, v). newline \<notin> set l) rs"
  obtains ls where "concat (map (\<lambda>(l, v). writeKV l v) rs) = concat (map (\<lambda>l. l @ [newline]) ls)"
    and "list_all indented ls"
proof -
  have "\<exists>ls. concat (map (\<lambda>(l, v). writeKV l v) rs) = concat (map (\<lambda>l. l @ [newline]) ls) \<and> list_all indented ls"
    using assms
  proof (induction rs)
    case (Cons r rs)
    obtain l v where r: "r = (l, v)" by (cases r)
    obtain as where as: "writeKV l v = concat (map (\<lambda>l. l @ [newline]) as)" "list_all indented as"
      using Cons.prems r writeKV_lines by auto
    obtain bs where bs: "concat (map (\<lambda>(l, v). writeKV l v) rs) = concat (map (\<lambda>l. l @ [newline]) bs)"
      "list_all indented bs" using Cons by auto
    show ?case using as bs r by (intro exI [of _ "as @ bs"]) simp
  qed (rule exI [of _ "[]"], simp)
  then show thesis using that by blast
qed

text \<open>
  C19: The prompt of a matched request has a fixed frame: its first line, the line \<open>data:\<close>, the data
  block, the line \<open>action:\<close> and the operator's action indented by two spaces, ending in a newline.
  Every line of the data block is indented by two spaces, whatever the body, its values, prefixes
  and headers are: a payload can forge neither the action block nor a line outside its block.
\<close>

theorem envelope_fenced:
  assumes "d_Match (Decide lib body headers rid agent b)"
    and "newline \<notin> set rid" and "newline \<notin> set agent" and "newline \<notin> set (ib_Name b)"
    and "list_all (\<lambda>f. newline \<notin> set (fd_Label f)) (ib_Fields b)"
  shows "\<exists>block. list_all (prefix ''  '') block
     \<and> split_on newline (d_Envelope (Decide lib body headers rid agent b))
         = [''[inbound:'' @ rid @ ''] binding='' @ ib_Name b @ '' agent='' @ agent, ''data:''] @ block
           @ [''action:''] @ map (\<lambda>l. ''  '' @ l) (split_on newline (ib_Action b)) @ ['''']"
proof -
  let ?rs = "map (rendered_field lib body) (ib_Fields b)"
  let ?head = "''[inbound:'' @ rid @ ''] binding='' @ ib_Name b @ '' agent='' @ agent"
  let ?acts = "map (\<lambda>l. ''  '' @ l) (split_on newline (ib_Action b))"
  have "list_all (\<lambda>(l, v). newline \<notin> set l) ?rs"
    using assms(5) by (simp add: list_all_iff rendered_field_def Let_def)
  then obtain block where block: "concat (map (\<lambda>(l, v). writeKV l v) ?rs) = concat (map (\<lambda>l. l @ [newline]) block)"
    and ind: "list_all indented block" by (rule rendered_lines)
  let ?ls = "?head # ''data:'' # block @ ''action:'' # ?acts"
  have env: "d_Envelope (Decide lib body headers rid agent b) = concat (map (\<lambda>l. l @ [newline]) ?ls) @ ''''"
    using assms(1) block
    by (simp add: Decide_def Let_def dropped_def render_envelope_def o_def split: if_splits)
  have "list_all (\<lambda>l. newline \<notin> set l) ?ls"
    using assms(2-4) ind split_on_pieces [of _ newline "ib_Action b"]
    by (auto simp: list_all_iff indented_def)
  then have "split_on newline (d_Envelope (Decide lib body headers rid agent b)) = ?ls @ split_on newline ''''"
    by (subst env) (rule split_on_lines)
  moreover have "list_all (prefix ''  '') block" using ind by (auto simp: list_all_iff indented_def)
  ultimately show ?thesis by (intro exI [of _ block]) simp
qed

subsection \<open>Examples\<close>

text \<open>A library that reads every body as itself and resolves every path to the whole document.\<close>

definition echo_lib :: "(string, string) jsonlib" where
  "echo_lib = \<lparr>jl_unmarshal = Some,
     jl_find = (\<lambda>path doc. Some [[case doc of None \<Rightarrow> InterfaceValue None | Some d \<Rightarrow> InterfaceValue (Some d)]]),
     jl_sprint = (\<lambda>v. v)\<rparr>"

definition example_binding :: inbound_binding where
  "example_binding = \<lparr>ib_Name = ''ci'', ib_ExistingSecret = ''s'', ib_SignatureHeader = ''X-Sig'',
     ib_SignaturePrefix = '''', ib_EventHeader = '''', ib_EventPath = '''', ib_MatchEvents = [],
     ib_Filters = [], ib_Fields = [\<lparr>fd_Label = ''title'', fd_JsonPath = ''$.t'', fd_Truncate = 0, fd_Prefix = ''''\<rparr>],
     ib_Action = ''look'', ib_Limits = None, ib_Disabled = False\<rparr>"

text \<open>A title that tries to open an action block of its own.\<close>

lemma envelope_fenced_witness:
  "\<exists>block. list_all (prefix ''  '') block
     \<and> split_on newline (d_Envelope (Decide echo_lib (''x'' @ [newline] @ ''action:'') [] ''r1'' ''a'' example_binding))
         = [''[inbound:'' @ ''r1'' @ ''] binding='' @ ''ci'' @ '' agent='' @ ''a'', ''data:''] @ block
           @ [''action:''] @ map (\<lambda>l. ''  '' @ l) (split_on newline ''look'') @ ['''']"
  using envelope_fenced [of echo_lib "''x'' @ [newline] @ ''action:''" "[]" "''r1''" "''a''" example_binding]
  by (simp add: Decide_def Let_def example_binding_def)

end
