(* ===== verification/Inbound_Queue.thy ===== *)
theory Inbound_Queue
  imports Go_Prelude
begin

section \<open>Queues, delivery and the expiring stores (\<open>pkg/inbound\<close>: queue, delivery, dedup, envelope cache, rate limit)\<close>

text \<open>
  The per-agent bounded queue is a step relation in which \<open>Enqueue\<close> is two steps, the part under
  the mutex and the send after it, and \<open>Stop\<close> is one step under the mutex and one per closed
  channel, so that every interleaving of the code is a run. The delivery handler is a function from
  the clock readings and the answers of its callbacks to the effects it has, in order. The
  in-memory deduper and envelope cache are two instances of one interface, an expiring map.
\<close>

subsection \<open>Jobs\<close>

definition DispatchJobName :: "string \<Rightarrow> string" where
  "DispatchJobName requestID = ''inbound-'' @ map (\<lambda>c. if c = CHR ''_'' then CHR ''-'' else c) requestID"

datatype job_kind = JobKindWebhook | JobKindRequest | JobKindTask

text \<open>The callbacks of a job are present or nil; what they answer is part of the delivery's environment.\<close>

record job =
  jb_Agent :: string
  jb_Binding :: string
  jb_RequestID :: string
  jb_Envelope :: string
  jb_EnqueuedAt :: time
  jb_Kind :: job_kind
  jb_DeliverBefore :: time
  jb_OnDelivery :: bool
  jb_BeforeDelivery :: bool

definition QueueDepth :: nat where "QueueDepth = 5"

subsection \<open>The queue\<close>

text \<open>
  A channel with its worker: the buffered jobs, whether the channel is closed, the job the worker
  is handling and whether it has returned.
\<close>

record agent_channel =
  ch_buffer :: "job list"
  ch_closed :: bool
  ch_working :: "job option"
  ch_returned :: bool

text \<open>
  \<open>q_sending\<close> are the jobs of \<open>Enqueue\<close> calls that have left the mutex and not yet sent;
  \<open>q_closing\<close> the agents whose channels the running \<open>Stop\<close> has still to close.
\<close>

record queue =
  q_channels :: "(string, agent_channel) gomap"
  q_stopped :: bool
  q_sending :: "job list"
  q_closing :: "string list"
  q_panicked :: bool

definition NewQueue :: queue where
  "NewQueue = \<lparr>q_channels = [], q_stopped = False, q_sending = [], q_closing = [], q_panicked = False\<rparr>"

definition new_channel :: agent_channel where
  "new_channel = \<lparr>ch_buffer = [], ch_closed = False, ch_working = None, ch_returned = False\<rparr>"

definition set_channel :: "string \<Rightarrow> agent_channel \<Rightarrow> queue \<Rightarrow> queue" where
  "set_channel a c q = q\<lparr>q_channels := AList.update a c (q_channels q)\<rparr>"

text \<open>
  What a step shows: \<open>Enqueue\<close> answers \<open>ErrQueueFull\<close> or nil, the handler has returned for a job,
  the send panics because the channel is closed, or nothing.
\<close>

datatype queue_event =
    Refused job
  | Accepted job
  | Handled job
  | Panicked job
  | Silent

text \<open>The first half of \<open>Enqueue\<close>, under the mutex; \<open>None\<close> when it goes on to the send.\<close>

definition enqueue_locked :: "job \<Rightarrow> queue \<Rightarrow> queue_event \<times> queue" where
  "enqueue_locked j q =
     (if q_stopped q then (Refused j, q)
      else let q1 = (case map_of (q_channels q) (jb_Agent j) of
                       Some _ \<Rightarrow> q
                     | None \<Rightarrow> set_channel (jb_Agent j) new_channel q)
           in (Silent, q1\<lparr>q_sending := q_sending q1 @ [j]\<rparr>))"

text \<open>
  The \<open>select\<close> after the mutex is released. A send on a closed channel panics, also in a
  \<open>select\<close> with a default branch; a full buffer takes the default branch.
\<close>

definition enqueue_send :: "job \<Rightarrow> queue \<Rightarrow> (queue_event \<times> queue) option" where
  "enqueue_send j q =
     (if j \<notin> set (q_sending q) then None
      else let q1 = q\<lparr>q_sending := remove1 j (q_sending q)\<rparr> in
           case map_of (q_channels q) (jb_Agent j) of
             None \<Rightarrow> None
           | Some c \<Rightarrow>
               if ch_closed c then Some (Panicked j, q1\<lparr>q_panicked := True\<rparr>)
               else if length (ch_buffer c) < QueueDepth
                 then Some (Accepted j, set_channel (jb_Agent j) (c\<lparr>ch_buffer := ch_buffer c @ [j]\<rparr>) q1)
               else Some (Refused j, q1))"

text \<open>The worker's loop: take a job, call the handler, and return once the closed channel is empty.\<close>

definition worker_take :: "string \<Rightarrow> queue \<Rightarrow> queue option" where
  "worker_take a q =
     (case map_of (q_channels q) a of
        None \<Rightarrow> None
      | Some c \<Rightarrow>
          (case (ch_working c, ch_buffer c) of
             (None, j # js) \<Rightarrow> Some (set_channel a (c\<lparr>ch_working := Some j, ch_buffer := js\<rparr>) q)
           | _ \<Rightarrow> None))"

definition worker_handled :: "string \<Rightarrow> queue \<Rightarrow> (queue_event \<times> queue) option" where
  "worker_handled a q =
     (case map_of (q_channels q) a of
        None \<Rightarrow> None
      | Some c \<Rightarrow>
          (case ch_working c of
             None \<Rightarrow> None
           | Some j \<Rightarrow> Some (Handled j, set_channel a (c\<lparr>ch_working := None\<rparr>) q)))"

definition worker_return :: "string \<Rightarrow> queue \<Rightarrow> queue option" where
  "worker_return a q =
     (case map_of (q_channels q) a of
        None \<Rightarrow> None
      | Some c \<Rightarrow>
          if ch_closed c \<and> ch_buffer c = [] \<and> ch_working c = None \<and> \<not> ch_returned c
          then Some (set_channel a (c\<lparr>ch_returned := True\<rparr>) q) else None)"

text \<open>\<open>Stop\<close>: the locked part, the loop that closes the channels, and the wait for the workers.\<close>

definition stop_locked :: "queue \<Rightarrow> queue" where
  "stop_locked q =
     (if q_stopped q then q else q\<lparr>q_stopped := True, q_closing := map fst (q_channels q)\<rparr>)"

definition stop_close :: "queue \<Rightarrow> queue option" where
  "stop_close q =
     (case q_closing q of
        [] \<Rightarrow> None
      | a # as \<Rightarrow>
          (case map_of (q_channels q) a of
             None \<Rightarrow> None
           | Some c \<Rightarrow> Some ((set_channel a (c\<lparr>ch_closed := True\<rparr>) q)\<lparr>q_closing := as\<rparr>)))"

definition stop_returns :: "queue \<Rightarrow> bool" where
  "stop_returns q \<longleftrightarrow>
     q_stopped q \<and> q_closing q = [] \<and> list_all (\<lambda>(a, c). ch_returned c) (q_channels q)"

text \<open>One step of the program: any goroutine that can move does. A panic unwinds the goroutine that sends;
  the servers the callers run in recover it, so the others go on.\<close>

inductive queue_step :: "queue \<Rightarrow> queue_event \<Rightarrow> queue \<Rightarrow> bool" where
  Step_lock: "enqueue_locked j q = (e, q') \<Longrightarrow> queue_step q e q'"
| Step_send: "enqueue_send j q = Some (e, q') \<Longrightarrow> queue_step q e q'"
| Step_take: "worker_take a q = Some q' \<Longrightarrow> queue_step q Silent q'"
| Step_handled: "worker_handled a q = Some (e, q') \<Longrightarrow> queue_step q e q'"
| Step_return: "worker_return a q = Some q' \<Longrightarrow> queue_step q Silent q'"
| Step_stop: "stop_locked q = q' \<Longrightarrow> queue_step q Silent q'"
| Step_close: "stop_close q = Some q' \<Longrightarrow> queue_step q Silent q'"

inductive queue_run :: "queue \<Rightarrow> queue_event list \<Rightarrow> queue \<Rightarrow> bool" where
  Run_nil: "queue_run q [] q"
| Run_step: "queue_run q es q' \<Longrightarrow> queue_step q' e q'' \<Longrightarrow> queue_run q (es @ [e]) q''"

text \<open>The jobs of an agent a trace accepted, and those its handler was called for to the end.\<close>

fun accepted_job :: "string \<Rightarrow> queue_event \<Rightarrow> job list" where
  "accepted_job a (Accepted j) = (if jb_Agent j = a then [j] else [])"
| "accepted_job a _ = []"

fun handled_job :: "string \<Rightarrow> queue_event \<Rightarrow> job list" where
  "handled_job a (Handled j) = (if jb_Agent j = a then [j] else [])"
| "handled_job a _ = []"

abbreviation accepted :: "string \<Rightarrow> queue_event list \<Rightarrow> job list" where
  "accepted a es \<equiv> concat (map (accepted_job a) es)"

abbreviation handled :: "string \<Rightarrow> queue_event list \<Rightarrow> job list" where
  "handled a es \<equiv> concat (map (handled_job a) es)"

text \<open>The jobs the queue holds for an agent, oldest first.\<close>

definition held :: "string \<Rightarrow> queue \<Rightarrow> job list" where
  "held a q =
     (case map_of (q_channels q) a of
        None \<Rightarrow> []
      | Some c \<Rightarrow> (case ch_working c of None \<Rightarrow> [] | Some j \<Rightarrow> [j]) @ ch_buffer c)"

subsection \<open>Order, bound and draining\<close>

definition channel_ok :: "bool \<Rightarrow> string \<Rightarrow> agent_channel \<Rightarrow> bool" where
  "channel_ok stopped a c \<longleftrightarrow>
     length (ch_buffer c) \<le> QueueDepth
     \<and> (\<forall>j\<in>set (ch_buffer c). jb_Agent j = a)
     \<and> (\<forall>j. ch_working c = Some j \<longrightarrow> jb_Agent j = a)
     \<and> (ch_returned c \<longrightarrow> ch_closed c \<and> ch_buffer c = [] \<and> ch_working c = None)
     \<and> (ch_closed c \<longrightarrow> stopped)"

definition queue_ok :: "queue_event list \<Rightarrow> queue \<Rightarrow> bool" where
  "queue_ok es q \<longleftrightarrow>
     (\<forall>a c. map_of (q_channels q) a = Some c \<longrightarrow> channel_ok (q_stopped q) a c)
     \<and> (\<forall>a. accepted a es = handled a es @ held a q)
     \<and> (q_panicked q \<longrightarrow> q_stopped q)"

lemma set_channel_simps [simp]:
  "map_of (q_channels (set_channel a c q)) = (map_of (q_channels q))(a \<mapsto> c)"
  "q_stopped (set_channel a c q) = q_stopped q" "q_panicked (set_channel a c q) = q_panicked q"
  "q_sending (set_channel a c q) = q_sending q" "q_closing (set_channel a c q) = q_closing q"
  by (simp_all add: set_channel_def alist_lookup_update)

text \<open>A step replaces one channel by another that holds what the event says.\<close>

lemma queue_ok_set:
  assumes ok: "queue_ok es q"
    and chan: "map_of (q_channels q') = (map_of (q_channels q))(a \<mapsto> c)"
    and flags: "q_stopped q' = q_stopped q" "q_panicked q' = q_panicked q"
    and new: "channel_ok (q_stopped q) a c"
    and others: "\<And>b. b \<noteq> a \<Longrightarrow> accepted_job b e = [] \<and> handled_job b e = []"
    and own: "held a q @ accepted_job a e = handled_job a e @ held a q'"
  shows "queue_ok (es @ [e]) q'"
proof -
  have "held b q @ accepted_job b e = handled_job b e @ held b q'" for b
  proof (cases "b = a")
    case False
    with chan have "held b q' = held b q" by (simp add: held_def)
    with others [OF False] show ?thesis by simp
  qed (use own in simp)
  then have "\<forall>b. accepted b (es @ [e]) = handled b (es @ [e]) @ held b q'"
    using ok by (simp add: queue_ok_def)
  with ok chan flags new show ?thesis by (simp add: queue_ok_def)
qed

text \<open>Steps that leave every channel as it is and accept and handle nothing.\<close>

lemma queue_ok_same:
  assumes "queue_ok es q" and "q_channels q' = q_channels q"
    and "q_stopped q \<longrightarrow> q_stopped q'" and "q_panicked q' \<longrightarrow> q_stopped q'"
    and "\<And>b. accepted_job b e = [] \<and> handled_job b e = []"
  shows "queue_ok (es @ [e]) q'"
proof -
  have mono: "channel_ok (q_stopped q) a c \<Longrightarrow> channel_ok (q_stopped q') a c" for a c
    using assms(3) by (simp add: channel_ok_def)
  have "held b q' = held b q" for b using assms(2) by (simp add: held_def)
  with assms(1,2,4,5) mono show ?thesis by (simp add: queue_ok_def)
qed

lemma queue_ok_channel:
  "queue_ok es q \<Longrightarrow> map_of (q_channels q) a = Some c \<Longrightarrow> channel_ok (q_stopped q) a c"
  by (simp add: queue_ok_def)

lemma channel_ok_send:
  "channel_ok s a c \<Longrightarrow> \<not> ch_closed c \<Longrightarrow> length (ch_buffer c) < QueueDepth \<Longrightarrow> jb_Agent j = a
     \<Longrightarrow> channel_ok s a (c\<lparr>ch_buffer := ch_buffer c @ [j]\<rparr>)"
  by (simp add: channel_ok_def)

lemma lock_ok:
  assumes ok: "queue_ok es q" and lock: "enqueue_locked j q = (e, q')"
  shows "queue_ok (es @ [e]) q'"
proof (cases "\<not> q_stopped q \<and> map_of (q_channels q) (jb_Agent j) = None")
  case True
  then have e: "e = Silent" "q' = (set_channel (jb_Agent j) new_channel q)\<lparr>q_sending := q_sending q @ [j]\<rparr>"
    using lock by (simp_all add: enqueue_locked_def Let_def)
  have "held (jb_Agent j) q = []" "channel_ok (q_stopped q) (jb_Agent j) new_channel"
    using True by (simp_all add: held_def channel_ok_def new_channel_def)
  with ok e show ?thesis
    by (intro queue_ok_set [where a = "jb_Agent j" and c = new_channel and q = q])
       (simp_all add: held_def new_channel_def)
next
  case False
  with ok lock show ?thesis
    by (intro queue_ok_same [of es q]) (auto simp: enqueue_locked_def Let_def queue_ok_def split: if_splits)
qed

lemma send_ok:
  assumes ok: "queue_ok es q" and send: "enqueue_send j q = Some (e, q')"
  shows "queue_ok (es @ [e]) q'"
proof -
  obtain c where c: "map_of (q_channels q) (jb_Agent j) = Some c"
    using send by (auto simp: enqueue_send_def Let_def split: if_splits option.splits)
  let ?q1 = "q\<lparr>q_sending := remove1 j (q_sending q)\<rparr>"
  let ?c' = "c\<lparr>ch_buffer := ch_buffer c @ [j]\<rparr>"
  from ok c have cok: "channel_ok (q_stopped q) (jb_Agent j) c" by (rule queue_ok_channel)
  consider (closed) "ch_closed c" "e = Panicked j" "q' = ?q1\<lparr>q_panicked := True\<rparr>"
    | (room) "\<not> ch_closed c" "length (ch_buffer c) < QueueDepth" "e = Accepted j"
        "q' = set_channel (jb_Agent j) ?c' ?q1"
    | (full) "\<not> ch_closed c" "e = Refused j" "q' = ?q1"
    using send c by (auto simp: enqueue_send_def Let_def split: if_splits)
  then show ?thesis
  proof cases
    case closed
    with cok have "q_stopped q" by (simp add: channel_ok_def)
    with ok closed show ?thesis by (intro queue_ok_same [of es q]) simp_all
  next
    case room
    have new: "channel_ok (q_stopped q) (jb_Agent j) ?c'" by (rule channel_ok_send [OF cok room(1,2) refl])
    show ?thesis
    proof (rule queue_ok_set [OF ok _ _ _ new])
      show "held (jb_Agent j) q @ accepted_job (jb_Agent j) e = handled_job (jb_Agent j) e @ held (jb_Agent j) q'"
        using room c by (simp add: held_def)
    qed (use room in simp_all)
  next
    case full
    with ok show ?thesis by (intro queue_ok_same [of es q]) (simp_all add: queue_ok_def)
  qed
qed

lemma take_ok:
  assumes ok: "queue_ok es q" and tk: "worker_take a q = Some q'"
  shows "queue_ok (es @ [Silent]) q'"
proof -
  obtain c j js where c: "map_of (q_channels q) a = Some c" "ch_working c = None" "ch_buffer c = j # js"
    "q' = set_channel a (c\<lparr>ch_working := Some j, ch_buffer := js\<rparr>) q"
    using tk by (auto simp: worker_take_def split: option.splits list.splits)
  from ok c(1) have "channel_ok (q_stopped q) a c" by (rule queue_ok_channel)
  with c have new: "channel_ok (q_stopped q) a (c\<lparr>ch_working := Some j, ch_buffer := js\<rparr>)"
    by (auto simp: channel_ok_def)
  show ?thesis by (rule queue_ok_set [OF ok _ _ _ new]) (use c in \<open>simp_all add: held_def\<close>)
qed

lemma handled_ok:
  assumes ok: "queue_ok es q" and h: "worker_handled a q = Some (e, q')"
  shows "queue_ok (es @ [e]) q'"
proof -
  obtain c j where c: "map_of (q_channels q) a = Some c" "ch_working c = Some j" "e = Handled j"
    "q' = set_channel a (c\<lparr>ch_working := None\<rparr>) q"
    using h by (auto simp: worker_handled_def split: option.splits)
  from ok c(1) have cok: "channel_ok (q_stopped q) a c" by (rule queue_ok_channel)
  with c have a: "jb_Agent j = a" and new: "channel_ok (q_stopped q) a (c\<lparr>ch_working := None\<rparr>)"
    by (auto simp: channel_ok_def)
  show ?thesis by (rule queue_ok_set [OF ok _ _ _ new]) (use c a in \<open>simp_all add: held_def\<close>)
qed

lemma return_ok:
  assumes ok: "queue_ok es q" and r: "worker_return a q = Some q'"
  shows "queue_ok (es @ [Silent]) q'"
proof -
  obtain c where c: "map_of (q_channels q) a = Some c" "ch_closed c" "ch_buffer c = []" "ch_working c = None"
    "q' = set_channel a (c\<lparr>ch_returned := True\<rparr>) q"
    using r by (auto simp: worker_return_def split: option.splits if_splits)
  from ok c(1) have "channel_ok (q_stopped q) a c" by (rule queue_ok_channel)
  with c have new: "channel_ok (q_stopped q) a (c\<lparr>ch_returned := True\<rparr>)" by (simp add: channel_ok_def)
  show ?thesis by (rule queue_ok_set [OF ok _ _ _ new]) (use c in \<open>simp_all add: held_def\<close>)
qed

lemma step_closing:
  assumes "queue_step q e q'" and "q_closing q = [] \<or> q_stopped q"
  shows "q_closing q' = [] \<or> q_stopped q'"
  using assms
proof (induction rule: queue_step.induct)
  case (Step_lock q j e q')
  then show ?case by (auto simp: enqueue_locked_def Let_def split: if_splits option.splits)
next
  case (Step_send q j e q')
  then show ?case by (auto simp: enqueue_send_def Let_def split: if_splits option.splits)
next
  case (Step_take q a q')
  then show ?case by (auto simp: worker_take_def split: option.splits list.splits)
next
  case (Step_handled q a e q')
  then show ?case by (auto simp: worker_handled_def split: option.splits)
next
  case (Step_return q a q')
  then show ?case by (auto simp: worker_return_def split: option.splits if_splits)
next
  case (Step_stop q q')
  then show ?case by (auto simp: stop_locked_def split: if_splits)
next
  case (Step_close q q')
  then show ?case by (auto simp: stop_close_def split: option.splits list.splits)
qed

lemma step_ok:
  assumes "queue_step q e q'" and "q_closing q = [] \<or> q_stopped q" and "queue_ok es q"
  shows "queue_ok (es @ [e]) q'"
  using assms
proof (induction rule: queue_step.induct)
  case (Step_stop q q')
  then show ?case
    by (intro queue_ok_same [of es q]) (auto simp: stop_locked_def queue_ok_def split: if_splits)
next
  case (Step_close q q')
  then obtain a as c where c: "map_of (q_channels q) a = Some c"
      "q' = (set_channel a (c\<lparr>ch_closed := True\<rparr>) q)\<lparr>q_closing := as\<rparr>" "q_closing q = a # as"
    by (auto simp: stop_close_def split: list.splits option.splits)
  with Step_close.prems have "q_stopped q" by simp
  moreover have "channel_ok (q_stopped q) a c" using Step_close.prems(2) c(1) by (rule queue_ok_channel)
  ultimately have new: "channel_ok (q_stopped q) a (c\<lparr>ch_closed := True\<rparr>)" by (simp add: channel_ok_def)
  show ?case
    by (rule queue_ok_set [OF Step_close.prems(2) _ _ _ new]) (use c in \<open>simp_all add: held_def\<close>)
qed (blast intro: lock_ok send_ok take_ok handled_ok return_ok)+

lemma run_ok:
  "queue_run q es q' \<Longrightarrow> q = NewQueue \<Longrightarrow> queue_ok es q' \<and> (q_closing q' = [] \<or> q_stopped q')"
proof (induction rule: queue_run.induct)
  case (Run_nil q)
  then show ?case by (simp add: NewQueue_def queue_ok_def held_def)
next
  case (Run_step q es q' e q'')
  then show ?case using step_ok step_closing by blast
qed

text \<open>
  C18: Whatever the interleaving of callers, workers and \<open>Stop\<close>: for every agent the jobs
  \<open>Enqueue\<close> accepted are, in the order of acceptance, those the handler has finished, then the one
  being handled, then the buffered ones, so nothing is lost, repeated or reordered; at most five are
  buffered; once \<open>Stop\<close> returns every accepted job has been handled; and a queue that is not
  stopped never panics.
\<close>

theorem queue_fifo_bounded:
  assumes "queue_run NewQueue es q"
  shows "accepted a es = handled a es @ held a q
     \<and> (\<forall>c. map_of (q_channels q) a = Some c \<longrightarrow> length (ch_buffer c) \<le> QueueDepth)
     \<and> (stop_returns q \<longrightarrow> handled a es = accepted a es)
     \<and> (q_panicked q \<longrightarrow> q_stopped q)"
proof -
  have ok: "queue_ok es q" using run_ok [OF assms refl] by (rule conjunct1)
  then have eq: "accepted a es = handled a es @ held a q" by (simp add: queue_ok_def)
  have "held a q = []" if "stop_returns q"
  proof (cases "map_of (q_channels q) a")
    case (Some c)
    with that have "ch_returned c" by (auto simp: stop_returns_def list_all_iff dest: map_of_SomeD)
    with queue_ok_channel [OF ok Some] Some show ?thesis by (simp add: channel_ok_def held_def)
  qed (simp add: held_def)
  with eq ok show ?thesis by (auto simp: queue_ok_def channel_ok_def)
qed

text \<open>
  \<open>Enqueue\<close> sends after it has released the mutex, and \<open>Stop\<close> closes the channel under no lock
  either: for any job there is a run in which the queue is stopped between the two halves of
  \<open>Enqueue\<close> and the send hits the closed channel, which panics instead of answering
  \<open>ErrQueueFull\<close> as the comment on \<open>Stop\<close> promises.
\<close>

theorem enqueue_races_stop:
  "\<exists>es q. queue_run NewQueue (es @ [Panicked j]) q \<and> q_panicked q \<and> accepted (jb_Agent j) es = []"
proof -
  let ?a = "jb_Agent j"
  let ?closed = "new_channel\<lparr>ch_closed := True\<rparr>"
  let ?q1 = "NewQueue\<lparr>q_channels := [(?a, new_channel)], q_sending := [j]\<rparr>"
  let ?q2 = "?q1\<lparr>q_stopped := True, q_closing := [?a]\<rparr>"
  let ?q3 = "?q1\<lparr>q_stopped := True, q_channels := [(?a, ?closed)]\<rparr>"
  let ?q4 = "?q3\<lparr>q_sending := [], q_panicked := True\<rparr>"
  have "queue_step NewQueue Silent ?q1"
    by (rule Step_lock [where j = j]) (simp_all add: NewQueue_def enqueue_locked_def set_channel_def)
  moreover have "queue_step ?q1 Silent ?q2"
    by (rule Step_stop) (simp_all add: NewQueue_def stop_locked_def)
  moreover have "queue_step ?q2 Silent ?q3"
    by (rule Step_close) (simp_all add: NewQueue_def stop_close_def set_channel_def)
  moreover have "queue_step ?q3 (Panicked j) ?q4"
    by (rule Step_send [where j = j]) (simp_all add: NewQueue_def enqueue_send_def)
  ultimately have "queue_run NewQueue (([] @ [Silent]) @ [Silent]) ?q2"
    and "queue_step ?q2 Silent ?q3" and "queue_step ?q3 (Panicked j) ?q4"
    by (blast intro: queue_run.intros)+
  then have "queue_run NewQueue (((([] @ [Silent]) @ [Silent]) @ [Silent]) @ [Panicked j]) ?q4"
    by (blast intro: queue_run.intros)
  then show ?thesis
    by (intro exI [of _ "[Silent, Silent, Silent]"] exI [of _ ?q4]) simp
qed

text \<open>One job through the queue: accepted, then in the hands of the worker.\<close>

definition example_job :: job where
  "example_job = \<lparr>jb_Agent = ''a'', jb_Binding = ''b'', jb_RequestID = ''r1'', jb_Envelope = ''hello'',
     jb_EnqueuedAt = 0, jb_Kind = JobKindRequest, jb_DeliverBefore = 60 * second, jb_OnDelivery = True,
     jb_BeforeDelivery = False\<rparr>"

definition example_queue :: queue where
  "example_queue = NewQueue\<lparr>q_channels := [(''a'', new_channel\<lparr>ch_working := Some example_job\<rparr>)]\<rparr>"

lemma example_run: "queue_run NewQueue ((([] @ [Silent]) @ [Accepted example_job]) @ [Silent]) example_queue"
proof (rule Run_step [OF Run_step [OF Run_step [OF Run_nil]]])
  let ?q1 = "NewQueue\<lparr>q_channels := [(''a'', new_channel)], q_sending := [example_job]\<rparr>"
  let ?q2 = "NewQueue\<lparr>q_channels := [(''a'', new_channel\<lparr>ch_buffer := [example_job]\<rparr>)]\<rparr>"
  show "queue_step NewQueue Silent ?q1"
    by (rule Step_lock [where j = example_job])
       (simp_all add: NewQueue_def enqueue_locked_def set_channel_def example_job_def)
  show "queue_step ?q1 (Accepted example_job) ?q2"
    by (rule Step_send [where j = example_job])
       (simp_all add: NewQueue_def enqueue_send_def set_channel_def example_job_def new_channel_def QueueDepth_def)
  show "queue_step ?q2 Silent example_queue"
    by (rule Step_take [where a = "''a''"])
       (simp_all add: NewQueue_def worker_take_def set_channel_def example_queue_def new_channel_def)
qed

lemma queue_fifo_bounded_witness: "held ''a'' example_queue = [example_job]"
proof -
  have "accepted ''a'' [Silent, Accepted example_job, Silent]
      = handled ''a'' [Silent, Accepted example_job, Silent] @ held ''a'' example_queue"
    using queue_fifo_bounded [OF example_run, of "''a''"] by simp
  then show ?thesis by (simp add: example_job_def)
qed

subsection \<open>Delivering a job\<close>

text \<open>
  The handler's surroundings: its three clock readings, and what the wait for the agent, the job's
  \<open>BeforeDelivery\<close> and the runtime adapter answer (\<open>True\<close> is an error). \<open>time.Until\<close> saturates at
  the ends of the 64-bit range, and durations divide by truncation.
\<close>

record delivery_env =
  de_now1 :: time
  de_now2 :: time
  de_now3 :: time
  de_wait_fails :: bool
  de_before_fails :: bool
  de_deliver_fails :: bool

datatype delivery_outcome = DeliveryDispatched | DeliveryAgentUnavailable | DeliveryFailed

datatype delivery_effect =
    WaitAgent duration
  | BeforeDelivery
  | DeliverJob duration
  | Notify delivery_outcome

definition time_until :: "time \<Rightarrow> time \<Rightarrow> duration" where
  "time_until t now = max (- (2 ^ 63)) (min (2 ^ 63 - 1) (t - now))"

definition maxOutcomePersistenceReserve :: duration where "maxOutcomePersistenceReserve = 5 * second"

definition owned_kind :: "job \<Rightarrow> bool" where
  "owned_kind j \<longleftrightarrow> jb_Kind j = JobKindRequest \<or> jb_Kind j = JobKindTask"

definition notifyDelivery :: "job \<Rightarrow> delivery_outcome \<Rightarrow> delivery_effect list" where
  "notifyDelivery j outcome = (if owned_kind j \<and> jb_OnDelivery j then [Notify outcome] else [])"

text \<open>The part from the runtime gate on; \<open>deadline\<close> is \<open>processingDeadline\<close>.\<close>

definition deliver_part :: "delivery_env \<Rightarrow> job \<Rightarrow> duration \<Rightarrow> delivery_effect list" where
  "deliver_part env j deliverFor =
     (if jb_BeforeDelivery j \<and> de_before_fails env
      then BeforeDelivery # notifyDelivery j DeliveryFailed
      else (if jb_BeforeDelivery j then [BeforeDelivery] else []) @ DeliverJob deliverFor
           # notifyDelivery j (if de_deliver_fails env then DeliveryFailed else DeliveryDispatched))"

definition process_job :: "duration \<Rightarrow> delivery_env \<Rightarrow> job \<Rightarrow> duration \<Rightarrow> time \<Rightarrow> delivery_effect list" where
  "process_job deliveryTimeout env j waitFor deadline =
     WaitAgent waitFor #
     (if de_wait_fails env \<and> owned_kind j then notifyDelivery j DeliveryAgentUnavailable
      else if owned_kind j
        then (let remaining = time_until deadline (de_now3 env) in
              if remaining \<le> 0 then notifyDelivery j DeliveryAgentUnavailable
              else deliver_part env j (min remaining deliveryTimeout))
      else deliver_part env j deliveryTimeout)"

definition delivery_handler :: "duration \<Rightarrow> duration \<Rightarrow> delivery_env \<Rightarrow> job \<Rightarrow> delivery_effect list" where
  "delivery_handler webhookWait deliveryTimeout env j =
     (if owned_kind j
      then (let waitFor = time_until (jb_DeliverBefore j) (de_now1 env) in
            if waitFor \<le> 0 then notifyDelivery j DeliveryAgentUnavailable
            else (let reserve = min (waitFor div 2) maxOutcomePersistenceReserve;
                      deadline = jb_DeliverBefore j - reserve;
                      waitFor2 = time_until deadline (de_now2 env)
                  in if waitFor2 \<le> 0 then notifyDelivery j DeliveryAgentUnavailable
                     else process_job deliveryTimeout env j waitFor2 deadline))
      else process_job deliveryTimeout env j webhookWait (jb_DeliverBefore j))"

definition is_notify :: "delivery_effect \<Rightarrow> bool" where
  "is_notify e = (case e of Notify _ \<Rightarrow> True | _ \<Rightarrow> False)"

lemma notify_simps [simp]: "is_notify (Notify oc)" "\<not> is_notify (WaitAgent d)" "\<not> is_notify BeforeDelivery"
    "\<not> is_notify (DeliverJob d)"
  by (simp_all add: is_notify_def)

lemma notifyDelivery_owned: "owned_kind j \<Longrightarrow> jb_OnDelivery j \<Longrightarrow> notifyDelivery j oc = [Notify oc]"
  by (simp add: notifyDelivery_def)

lemma time_until_pos: "0 < time_until t now \<Longrightarrow> time_until t now \<le> t - now"
  by (auto simp: time_until_def)

lemma reserve_exact:
  "0 < time_until t now \<Longrightarrow>
     min (time_until t now div 2) maxOutcomePersistenceReserve = min ((t - now) div 2) maxOutcomePersistenceReserve"
  by (auto simp: time_until_def maxOutcomePersistenceReserve_def second_def)

text \<open>What the part from the gate on reports, and when it delivers.\<close>

definition reports_once :: "delivery_env \<Rightarrow> (duration \<Rightarrow> bool) \<Rightarrow> delivery_effect list \<Rightarrow> bool" where
  "reports_once env in_time es \<longleftrightarrow>
     (\<exists>fx oc. es = fx @ [Notify oc] \<and> (\<forall>e\<in>set fx. \<not> is_notify e)
        \<and> (oc = DeliveryDispatched \<longleftrightarrow> (\<exists>d. DeliverJob d \<in> set fx) \<and> \<not> de_deliver_fails env)
        \<and> (\<forall>d. DeliverJob d \<in> set fx \<longrightarrow> in_time d \<and> \<not> de_wait_fails env))"

lemma reports_onceI:
  "es = fx @ [Notify oc] \<Longrightarrow> \<forall>e\<in>set fx. \<not> is_notify e
     \<Longrightarrow> (oc = DeliveryDispatched \<longleftrightarrow> (\<exists>d. DeliverJob d \<in> set fx) \<and> \<not> de_deliver_fails env)
     \<Longrightarrow> \<forall>d. DeliverJob d \<in> set fx \<longrightarrow> in_time d \<and> \<not> de_wait_fails env \<Longrightarrow> reports_once env in_time es"
  unfolding reports_once_def by blast

lemma reports_wait:
  assumes "reports_once env P es"
  shows "reports_once env P (WaitAgent d # es)"
proof -
  obtain fx oc where "es = fx @ [Notify oc]" "\<forall>e\<in>set fx. \<not> is_notify e"
    "oc = DeliveryDispatched \<longleftrightarrow> (\<exists>d. DeliverJob d \<in> set fx) \<and> \<not> de_deliver_fails env"
    "\<forall>d. DeliverJob d \<in> set fx \<longrightarrow> P d \<and> \<not> de_wait_fails env"
    using assms unfolding reports_once_def by blast
  then show ?thesis by (intro reports_onceI [where fx = "WaitAgent d # fx" and oc = oc]) simp_all
qed

lemma reports_unavailable: "reports_once env P [Notify DeliveryAgentUnavailable]"
  by (rule reports_onceI [where fx = "[]" and oc = DeliveryAgentUnavailable]) simp_all

lemma deliver_part_reports:
  assumes "owned_kind j" "jb_OnDelivery j" "\<not> de_wait_fails env" "in_time d"
  shows "reports_once env in_time (deliver_part env j d)"
proof (cases "jb_BeforeDelivery j \<and> de_before_fails env")
  case True
  then show ?thesis
    by (intro reports_onceI [where fx = "[BeforeDelivery]" and oc = DeliveryFailed])
       (simp_all add: deliver_part_def notifyDelivery_owned assms)
next
  case False
  then show ?thesis
    by (intro reports_onceI [where fx = "(if jb_BeforeDelivery j then [BeforeDelivery] else []) @ [DeliverJob d]"
          and oc = "if de_deliver_fails env then DeliveryFailed else DeliveryDispatched"])
       (auto simp: deliver_part_def notifyDelivery_owned assms split: if_splits)
qed



subsection \<open>Stores whose entries expire\<close>

text \<open>
  The deduper and the envelope cache promise the same: an entry written with an expiry is live
  before it and not from then on, other keys are untouched, and sweeping a key drops only what is no
  longer live.
\<close>

locale expiring_store =
  fixes live :: "'s \<Rightarrow> 'k \<Rightarrow> time \<Rightarrow> 'v option"
    and put :: "'k \<Rightarrow> 'v \<Rightarrow> time \<Rightarrow> 's \<Rightarrow> 's"
    and sweep :: "'k \<Rightarrow> time \<Rightarrow> 's \<Rightarrow> 's"
  assumes live_put: "live (put k v expiry s) k' t
      = (if k' = k then (if t < expiry then Some v else None) else live s k' t)"
    and live_sweep: "now \<le> t \<Longrightarrow> live (sweep k now s) k' t = live s k' t"
    and live_earlier: "t \<le> t' \<Longrightarrow> live s k t' = Some v \<Longrightarrow> live s k t = Some v"
begin

lemma live_after_put: "t < expiry \<Longrightarrow> live (put k v expiry s) k t = Some v"
  by (simp add: live_put)

lemma dead_from_expiry: "expiry \<le> t \<Longrightarrow> live (put k v expiry s) k t = None"
  by (simp add: live_put)

lemma dead_stays: "t \<le> t' \<Longrightarrow> live s k t = None \<Longrightarrow> live s k t' = None"
  using live_earlier [of t t' s k] by (cases "live s k t'") auto

end

text \<open>First write wins: a call answers whether the key is live, and writes it exactly when it is not.\<close>

locale first_write = expiring_store +
  fixes seen :: "'b \<Rightarrow> time \<Rightarrow> time \<Rightarrow> 'a \<Rightarrow> bool \<times> 'a"
    and mark :: 'c
  assumes seen_step: "seen k now expiry s =
      (if live s k now \<noteq> None then (True, s) else (False, put k mark expiry s))"
begin

lemma seen_keeps_live:
  assumes "live s k t \<noteq> None" and "t' \<le> t"
  shows "live (snd (seen k' t' expiry s)) k t \<noteq> None"
proof (cases "k' = k")
  case True
  have "live s k t' \<noteq> None"
  proof
    assume "live s k t' = None"
    from dead_stays [OF assms(2) this] assms(1) show False by simp
  qed
  with True assms(1) show ?thesis by (simp add: seen_step)
next
  case False
  with assms(1) show ?thesis by (auto simp: seen_step live_put)
qed

lemma calls_keep_live:
  "live s k t \<noteq> None \<Longrightarrow> \<forall>(k', t', e)\<in>set calls. t' \<le> t
     \<Longrightarrow> live (fold (\<lambda>(k', t', e) s. snd (seen k' t' e s)) calls s) k t \<noteq> None"
proof (induction calls arbitrary: s)
  case (Cons c calls)
  obtain k' t' e where c: "c = (k', t', e)" by (cases c)
  with Cons.prems have "live (snd (seen k' t' e s)) k t \<noteq> None" by (intro seen_keeps_live) simp_all
  from Cons.IH [OF this] Cons.prems(2) c show ?case by simp
qed simp

lemma seen_until_expiry:
  assumes "seen k now expiry s = (False, s1)" and "t < expiry"
    and "\<forall>(k', t', e)\<in>set calls. t' \<le> t"
  shows "fst (seen k t e' (fold (\<lambda>(k', t', e) s. snd (seen k' t' e s)) calls s1))"
proof -
  have "s1 = put k mark expiry s" using assms(1) by (auto simp: seen_step split: if_splits)
  with assms(2) have "live s1 k t \<noteq> None" by (simp add: live_after_put)
  from calls_keep_live [OF this assms(3)] show ?thesis by (simp add: seen_step)
qed

lemma unseen_by_others:
  assumes "live s k t = None" and "\<forall>(k', t', e)\<in>set calls. k' \<noteq> k"
  shows "\<not> fst (seen k t e' (fold (\<lambda>(k', t', e) s. snd (seen k' t' e s)) calls s))"
proof -
  have "live (fold (\<lambda>(k', t', e) s. snd (seen k' t' e s)) calls s) k t = None"
    using assms by (induction calls arbitrary: s) (auto simp: seen_step live_put)
  then show ?thesis by (simp add: seen_step)
qed

end

subsection \<open>The in-memory deduper\<close>

text \<open>\<open>entries\<close> maps a body hash to its expiry; \<open>hashBody\<close> is a parameter.\<close>

type_synonym memory_deduper = "(string, time) gomap"

definition SeenWithin :: "(string \<Rightarrow> string) \<Rightarrow> string \<Rightarrow> duration \<Rightarrow> time \<Rightarrow> memory_deduper \<Rightarrow> bool \<times> memory_deduper" where
  "SeenWithin hashBody body ttl now d =
     (let key = hashBody body in
      case map_of d key of
        Some due \<Rightarrow> if due > now then (True, d) else (False, AList.update key (now + ttl) d)
      | None \<Rightarrow> (False, AList.update key (now + ttl) d))"

definition entry_live :: "memory_deduper \<Rightarrow> string \<Rightarrow> time \<Rightarrow> unit option" where
  "entry_live d k t = (case map_of d k of Some due \<Rightarrow> if t < due then Some () else None | None \<Rightarrow> None)"

interpretation dd: first_write entry_live "\<lambda>k v due d. AList.update k due d" "\<lambda>k now d. d"
    "\<lambda>k now due d. SeenWithin (\<lambda>b. b) k (due - now) now d" "()"
  by unfold_locales
     (auto simp: entry_live_def SeenWithin_def Let_def alist_lookup_update split: option.splits if_splits)

lemma SeenWithin_hashed: "SeenWithin h b ttl now d = SeenWithin (\<lambda>b. b) (h b) ((now + ttl) - now) now d"
  by (simp add: SeenWithin_def)

subsection \<open>The in-memory envelope cache\<close>

record memory_cache =
  ec_entries :: "(string, string \<times> time) gomap"
  ec_ttl :: duration

definition NewMemoryEnvelopeCache :: memory_cache where
  "NewMemoryEnvelopeCache = \<lparr>ec_entries = [], ec_ttl = 7 * 24 * hour\<rparr>"

definition Put :: "string \<Rightarrow> string \<Rightarrow> time \<Rightarrow> memory_cache \<Rightarrow> memory_cache" where
  "Put requestID envelope now c =
     c\<lparr>ec_entries := AList.update requestID (envelope, now + ec_ttl c) (ec_entries c)\<rparr>"

definition Get :: "string \<Rightarrow> time \<Rightarrow> memory_cache \<Rightarrow> string \<times> memory_cache" where
  "Get requestID now c =
     (case map_of (ec_entries c) requestID of
        None \<Rightarrow> ('''', c)
      | Some (envelope, expiry) \<Rightarrow>
          if \<not> expiry > now then ('''', c\<lparr>ec_entries := AList.delete requestID (ec_entries c)\<rparr>)
          else (envelope, c))"

definition envelope_live :: "memory_cache \<Rightarrow> string \<Rightarrow> time \<Rightarrow> string option" where
  "envelope_live c k t =
     (case map_of (ec_entries c) k of Some (e, due) \<Rightarrow> if t < due then Some e else None | None \<Rightarrow> None)"

lemma Get_live: "fst (Get k now c) = (case envelope_live c k now of None \<Rightarrow> '''' | Some e \<Rightarrow> e)"
  by (auto simp: Get_def envelope_live_def split: option.splits)

interpretation ec: expiring_store envelope_live
    "\<lambda>k v due c. Put k v (due - ec_ttl c) c" "\<lambda>k now c. snd (Get k now c)"
  by unfold_locales
     (auto simp: envelope_live_def Put_def Get_def alist_lookup_update alist_lookup_delete
        split: option.splits if_splits)

text \<open>
  The deduper over any calls: a body it answered as new is answered as seen by every call before
  its expiry, whatever other bodies were looked up in between, and a body none of the calls had the
  hash of is still answered as new.
\<close>

theorem dedup_window:
  assumes "SeenWithin hashBody body ttl now d = (False, d1)" and "t < now + ttl"
    and "\<forall>(b, ttl', t')\<in>set calls. t' \<le> t"
    and "entry_live d1 (hashBody other) u = None" and "\<forall>(b, ttl', t')\<in>set calls. hashBody b \<noteq> hashBody other"
  shows "fst (SeenWithin hashBody body ttl'' t
             (fold (\<lambda>(b, ttl', t') d. snd (SeenWithin hashBody b ttl' t' d)) calls d1))
     \<and> \<not> fst (SeenWithin hashBody other ttl'' u
             (fold (\<lambda>(b, ttl', t') d. snd (SeenWithin hashBody b ttl' t' d)) calls d1))"
proof -
  let ?calls = "map (\<lambda>(b, ttl', t'). (hashBody b, t', t' + ttl')) calls"
  have fold: "fold (\<lambda>(b, ttl', t') d. snd (SeenWithin hashBody b ttl' t' d)) calls d1
      = fold (\<lambda>(k, t', e) d. snd (SeenWithin (\<lambda>b. b) k (e - t') t' d)) ?calls d1"
    by (simp add: fold_map o_def case_prod_unfold SeenWithin_hashed [of hashBody])
  have "SeenWithin (\<lambda>b. b) (hashBody body) (now + ttl - now) now d = (False, d1)"
    using assms(1) by (simp add: SeenWithin_def)
  moreover have "\<forall>(k, t', e)\<in>set ?calls. t' \<le> t" using assms(3) by auto
  ultimately have "fst (SeenWithin (\<lambda>b. b) (hashBody body) (t + ttl'' - t) t
      (fold (\<lambda>(k, t', e) d. snd (SeenWithin (\<lambda>b. b) k (e - t') t' d)) ?calls d1))"
    using assms(2) by (intro dd.seen_until_expiry)
  moreover have "\<forall>(k, t', e)\<in>set ?calls. k \<noteq> hashBody other" using assms(5) by auto
  with assms(4) have "\<not> fst (SeenWithin (\<lambda>b. b) (hashBody other) (u + ttl'' - u) u
      (fold (\<lambda>(k, t', e) d. snd (SeenWithin (\<lambda>b. b) k (e - t') t' d)) ?calls d1))"
    by (rule dd.unseen_by_others)
  ultimately show ?thesis unfolding fold by (simp add: SeenWithin_hashed [of hashBody])
qed

lemma dedup_window_witness:
  "fst (SeenWithin (\<lambda>b. b) ''x'' 10 5 (snd (SeenWithin (\<lambda>b. b) ''x'' 10 0 [])))
     \<and> \<not> fst (SeenWithin (\<lambda>b. b) ''y'' 10 5 (snd (SeenWithin (\<lambda>b. b) ''x'' 10 0 [])))"
  using dedup_window [of "\<lambda>b. b" "''x''" 10 0 "[]" "[(''x'', 10)]" 5 "[]" "''y''" 5 10]
  by (simp add: SeenWithin_def entry_live_def Let_def)

subsection \<open>The rate limiter\<close>

text \<open>
  Buckets are created lazily and rebuilt when the operator edits the limit. The token bucket itself
  is \<open>golang.org/x/time/rate\<close>: \<open>new_bucket n\<close> is a limiter of \<open>n / 60\<close> tokens a second and burst \<open>n\<close>,
  \<open>take_token\<close> its \<open>Allow\<close>.
\<close>

type_synonym 'l rate_limiter = "(string \<times> string, 'l \<times> int) gomap"

definition defaultMaxPerMinute :: int where "defaultMaxPerMinute = 10"

definition Allow ::
  "(int \<Rightarrow> 'l) \<Rightarrow> ('l \<Rightarrow> time \<Rightarrow> bool \<times> 'l) \<Rightarrow> string \<Rightarrow> string \<Rightarrow> int \<Rightarrow> time \<Rightarrow> 'l rate_limiter
     \<Rightarrow> bool \<times> 'l rate_limiter" where
  "Allow new_bucket take_token agent binding maxPerMinute now r =
     (let n = (if maxPerMinute \<le> 0 then defaultMaxPerMinute else maxPerMinute);
          lim = (case map_of r (agent, binding) of
                   None \<Rightarrow> new_bucket n
                 | Some (l, m) \<Rightarrow> if m \<noteq> n then new_bucket n else l);
          (ok, lim2) = take_token lim now
      in (ok, AList.update (agent, binding) (lim2, n) r))"

lemma Allow_other_bucket:
  "k \<noteq> (agent, binding) \<Longrightarrow> map_of (snd (Allow nb tk agent binding m now r)) k = map_of r k"
  by (simp add: Allow_def Let_def case_prod_unfold alist_lookup_update)

end
