(* ===== verification/Inbound_Receive.thy ===== *)
theory Inbound_Receive
  imports Agent_Lifecycle Inbound_Dispatch Inbound_Queue
begin

section \<open>Receiving, replaying and rotating (\<open>pkg/api/routes_inbound*.go\<close>, \<open>inbound_gate.go\<close>)\<close>

text \<open>
  The handler of \<open>POST /webhooks/inbound/{agent}/{binding}\<close>, which composes the components of
  \<open>pkg/inbound\<close>; the replay of a stored prompt; the rotation of a binding's secret; the audit ring
  buffer on the Agent; the aggregated events; and the gate that holds a job until its agent runs.
  The deduper and the envelope cache are Go interfaces, given here by their operations, so that the
  in-memory ones and failing ones are both instances.
\<close>

subsection \<open>The audit ring buffer\<close>

record inbound_run =
  ir_BindingName :: string
  ir_RequestID :: string
  ir_StartedAt :: time
  ir_FinishedAt :: time
  ir_Outcome :: string
  ir_DropReason :: string
  ir_Error :: string

definition MaxInboundRunsPerBinding :: nat where "MaxInboundRunsPerBinding = 50"

text \<open>The inner loop removes the first entry of the binding, the outer one repeats it.\<close>

fun drop_oldest :: "string \<Rightarrow> inbound_run list \<Rightarrow> inbound_run list" where
  "drop_oldest b [] = []"
| "drop_oldest b (e # es) = (if ir_BindingName e = b then es else e # drop_oldest b es)"

function trim_runs :: "string \<Rightarrow> nat \<Rightarrow> nat \<Rightarrow> inbound_run list \<Rightarrow> inbound_run list" where
  "trim_runs b limit cnt es =
     (if limit < cnt then trim_runs b limit (cnt - 1) (drop_oldest b es) else es)"
  by pat_completeness auto
termination by (relation "measure (\<lambda>(b, limit, cnt, es). cnt)") auto

declare trim_runs.simps [simp del]

definition appendInboundRunCapped :: "inbound_run list \<Rightarrow> inbound_run \<Rightarrow> nat \<Rightarrow> inbound_run list" where
  "appendInboundRunCapped existing run limit =
     (let es = existing @ [run];
          cnt = length (filter (\<lambda>e. ir_BindingName e = ir_BindingName run) es)
      in if cnt \<le> limit then es else trim_runs (ir_BindingName run) limit cnt es)"

lemma drop_oldest_own:
  "filter (\<lambda>e. ir_BindingName e = b) (drop_oldest b es) = tl (filter (\<lambda>e. ir_BindingName e = b) es)"
  by (induction es) auto

lemma drop_oldest_other:
  "c \<noteq> b \<Longrightarrow> filter (\<lambda>e. ir_BindingName e = c) (drop_oldest b es) = filter (\<lambda>e. ir_BindingName e = c) es"
  by (induction es) auto

lemma trim_runs_own:
  "cnt = length (filter (\<lambda>e. ir_BindingName e = b) es) \<Longrightarrow>
     filter (\<lambda>e. ir_BindingName e = b) (trim_runs b limit cnt es)
       = drop (cnt - limit) (filter (\<lambda>e. ir_BindingName e = b) es)"
proof (induction b limit cnt es rule: trim_runs.induct)
  case (1 b limit cnt es)
  show ?case
  proof (cases "limit < cnt")
    case True
    have "cnt - limit = Suc (cnt - 1 - limit)" using True by simp
    with 1 True show ?thesis
      by (subst trim_runs.simps) (simp add: drop_oldest_own drop_Suc)
  next
    case False
    then show ?thesis by (subst trim_runs.simps) simp
  qed
qed

lemma trim_runs_other:
  "c \<noteq> b \<Longrightarrow> filter (\<lambda>e. ir_BindingName e = c) (trim_runs b limit cnt es) = filter (\<lambda>e. ir_BindingName e = c) es"
  by (induction b limit cnt es rule: trim_runs.induct) (subst trim_runs.simps, simp add: drop_oldest_other)

text \<open>
  Recording a run keeps, for its binding, exactly the newest entries up to the limit in their
  order, the new one last, and every entry of every other binding.
\<close>

theorem audit_ring_capped:
  "filter (\<lambda>e. ir_BindingName e = b) (appendInboundRunCapped existing run limit)
     = (let own = filter (\<lambda>e. ir_BindingName e = b) (existing @ [run]) in
        if b = ir_BindingName run then drop (length own - limit) own else own)"
  by (simp add: appendInboundRunCapped_def Let_def trim_runs_own trim_runs_other del: filter_append)

subsection \<open>Aggregated events\<close>

record event_aggregator =
  ag_counts :: "(string \<times> string \<times> string, nat) gomap"
  ag_stopped :: bool

definition Increment :: "string \<Rightarrow> string \<Rightarrow> string \<Rightarrow> event_aggregator \<Rightarrow> event_aggregator" where
  "Increment agent eventType reason a =
     (if ag_stopped a then a
      else a\<lparr>ag_counts := AList.update (agent, eventType, reason)
               (case map_of (ag_counts a) (agent, eventType, reason) of None \<Rightarrow> 1 | Some n \<Rightarrow> n + 1)
               (ag_counts a)\<rparr>)"

text \<open>
  A flush takes the whole map and emits one event per counter whose Agent can still be read;
  \<open>stopping\<close> says that the stop channel is closed.
\<close>

definition flushNow :: "bool \<Rightarrow> (string \<Rightarrow> bool) \<Rightarrow> event_aggregator
    \<Rightarrow> (string \<times> string \<times> string \<times> nat) list \<times> event_aggregator" where
  "flushNow stopping agent_readable a =
     (let a1 = (if stopping then a\<lparr>ag_stopped := True\<rparr> else a) in
      (map (\<lambda>((ag, ty, re), n). (ag, ty, re, n))
         (filter (\<lambda>((ag, ty, re), n). 0 < n \<and> agent_readable ag) (ag_counts a1)),
       a1\<lparr>ag_counts := []\<rparr>))"

subsection \<open>The server\<close>

record ('dd, 'ec, 'l, 'd, 'v) inbound_server =
  sv_mac :: "string \<Rightarrow> string \<Rightarrow> string"
  sv_json :: "('d, 'v) jsonlib"
  sv_parse_time :: "string \<Rightarrow> time option"
  sv_deduper :: "(string \<Rightarrow> duration \<Rightarrow> time \<Rightarrow> 'dd \<Rightarrow> bool option \<times> 'dd) option"
  sv_cache :: "((string \<Rightarrow> string \<Rightarrow> time \<Rightarrow> 'ec \<Rightarrow> 'ec) \<times> (string \<Rightarrow> time \<Rightarrow> 'ec \<Rightarrow> string option \<times> 'ec)) option"
  sv_limiter :: "((int \<Rightarrow> 'l) \<times> ('l \<Rightarrow> time \<Rightarrow> bool \<times> 'l)) option"
  sv_queue :: bool
  sv_recorder :: bool
  sv_aggregator :: bool

text \<open>An event on the Agent: is it a warning, its reason and the arguments of its message.\<close>

type_synonym k8s_event = "string \<times> bool \<times> string \<times> string list"

record ('dd, 'ec, 'l) inbound_state =
  is_dedup :: 'dd
  is_cache :: 'ec
  is_limits :: "'l rate_limiter"
  is_queue :: queue
  is_runs :: "(string, inbound_run list) gomap"
  is_events :: "k8s_event list"
  is_aggregator :: event_aggregator

text \<open>
  One request: what the reads of the API server answer, the clock, the fresh UUID, and whether the
  patch of the audit entry succeeds.
\<close>

record request_env =
  rx_post :: bool
  rx_path :: string
  rx_body :: "string option"
  rx_headers :: header
  rx_request_id :: string
  rx_uuid :: string
  rx_agent :: "inbound_binding list read"
  rx_secret :: "(string, string) gomap read"
  rx_now :: time
  rx_append_ok :: bool

datatype response =
    MethodNotAllowed | Unauthorized | BodyTooLarge | BindingDisabled
  | Deduped string | DroppedWith string string | RateLimited | NotConfigured
  | QueueFull | EnqueueFailed | Dispatched string
  | AgentMissing | BindingMissing | SecretMissing | InternalError | CacheUnavailable | EnvelopeExpired
  | Queued string string | RotationInProgress | Rotated string string | HandlerPanic

text \<open>The HTTP status; a panic sends none.\<close>

definition status_of :: "response \<Rightarrow> nat" where
  "status_of r = (case r of
     MethodNotAllowed \<Rightarrow> 405 | Unauthorized \<Rightarrow> 401 | BodyTooLarge \<Rightarrow> 413 | BindingDisabled \<Rightarrow> 409
   | Deduped _ \<Rightarrow> 200 | DroppedWith _ _ \<Rightarrow> 200 | RateLimited \<Rightarrow> 429 | NotConfigured \<Rightarrow> 503
   | QueueFull \<Rightarrow> 429 | EnqueueFailed \<Rightarrow> 500 | Dispatched _ \<Rightarrow> 200
   | AgentMissing \<Rightarrow> 404 | BindingMissing \<Rightarrow> 404 | SecretMissing \<Rightarrow> 404 | InternalError \<Rightarrow> 500
   | CacheUnavailable \<Rightarrow> 503 | EnvelopeExpired \<Rightarrow> 410 | Queued _ _ \<Rightarrow> 202
   | RotationInProgress \<Rightarrow> 409 | Rotated _ _ \<Rightarrow> 200 | HandlerPanic \<Rightarrow> 0)"

subsection \<open>Receiving\<close>

definition inboundBodyLimit :: nat where "inboundBodyLimit = 1048576"
definition inboundDedupTTL :: duration where "inboundDedupTTL = 24 * hour"
definition inboundRotationGrace :: duration where "inboundRotationGrace = 24 * hour"

definition time_since :: "time \<Rightarrow> time \<Rightarrow> duration" where
  "time_since now t = max (- (2 ^ 63)) (min (2 ^ 63 - 1) (now - t))"

definition recordInboundRun ::
  "request_env \<Rightarrow> string \<Rightarrow> string \<Rightarrow> string \<Rightarrow> string \<Rightarrow> string \<Rightarrow> string
     \<Rightarrow> ('dd, 'ec, 'l) inbound_state \<Rightarrow> ('dd, 'ec, 'l) inbound_state" where
  "recordInboundRun env agent binding rid outcome reason err st =
     (if rx_append_ok env
      then (let run = \<lparr>ir_BindingName = binding, ir_RequestID = rid, ir_StartedAt = rx_now env,
                       ir_FinishedAt = rx_now env, ir_Outcome = outcome, ir_DropReason = reason, ir_Error = err\<rparr>;
                old = (case map_of (is_runs st) agent of None \<Rightarrow> [] | Some rs \<Rightarrow> rs)
            in st\<lparr>is_runs := AList.update agent (appendInboundRunCapped old run MaxInboundRunsPerBinding) (is_runs st)\<rparr>)
      else st)"

definition emitInboundEvent ::
  "('dd, 'ec, 'l, 'd, 'v) inbound_server \<Rightarrow> string \<Rightarrow> bool \<Rightarrow> string \<Rightarrow> string list
     \<Rightarrow> ('dd, 'ec, 'l) inbound_state \<Rightarrow> ('dd, 'ec, 'l) inbound_state" where
  "emitInboundEvent sv agent warning reason args st =
     (if sv_recorder sv then st\<lparr>is_events := is_events st @ [(agent, warning, reason, args)]\<rparr> else st)"

definition aggregate ::
  "('dd, 'ec, 'l, 'd, 'v) inbound_server \<Rightarrow> string \<Rightarrow> string \<Rightarrow> string
     \<Rightarrow> ('dd, 'ec, 'l) inbound_state \<Rightarrow> ('dd, 'ec, 'l) inbound_state" where
  "aggregate sv agent eventType reason st =
     (if sv_aggregator sv \<and> sv_recorder sv
      then st\<lparr>is_aggregator := Increment agent eventType reason (is_aggregator st)\<rparr> else st)"

text \<open>\<open>/webhooks/inbound/{agent}/{binding}\<close>: two nonempty segments after an optional extra slash.\<close>

definition parse_inbound_path :: "string \<Rightarrow> (string \<times> string) option" where
  "parse_inbound_path path =
     (if \<not> HasPrefix path ''/webhooks/inbound/'' then None
      else (let s = TrimPrefix path ''/webhooks/inbound/'';
                s2 = (if s \<noteq> [] \<and> hd s = CHR ''/'' then tl s else s)
            in case split_on CHR ''/'' s2 of
                 [a, b] \<Rightarrow> if a = '''' \<or> b = '''' then None else Some (a, b)
               | _ \<Rightarrow> None))"

definition find_binding :: "string \<Rightarrow> inbound_binding list \<Rightarrow> inbound_binding option" where
  "find_binding name bs = List.find (\<lambda>b. ib_Name b = name) bs"

definition webhookSecretKey :: "string" where "webhookSecretKey = ''webhook-secret''"
definition webhookSecretPrevKey :: "string" where "webhookSecretPrevKey = ''webhook-secret-prev''"
definition webhookSecretPrevRotatedAtKey :: "string" where
  "webhookSecretPrevRotatedAtKey = ''webhook-secret-prev-rotated-at''"

lemmas secret_keys = webhookSecretKey_def webhookSecretPrevKey_def webhookSecretPrevRotatedAtKey_def

text \<open>The previous secret, while the grace of the last rotation lasts.\<close>

definition grace_secret :: "(string \<Rightarrow> time option) \<Rightarrow> time \<Rightarrow> (string, string) gomap \<Rightarrow> string option" where
  "grace_secret parse_time now data =
     (let prev = str_at data webhookSecretPrevKey; stamp = str_at data webhookSecretPrevRotatedAtKey in
      if prev = '''' \<or> stamp = '''' then None
      else case parse_time stamp of
             None \<Rightarrow> None
           | Some t \<Rightarrow> if time_since now t < inboundRotationGrace then Some prev else None)"

text \<open>The signature is accepted under the current secret or under the previous one in its grace.\<close>

definition signature_ok ::
  "('dd, 'ec, 'l, 'd, 'v) inbound_server \<Rightarrow> time \<Rightarrow> inbound_binding \<Rightarrow> (string, string) gomap
     \<Rightarrow> string \<Rightarrow> string \<Rightarrow> bool" where
  "signature_ok sv now b data body sig =
     (if Verify (sv_mac sv) (str_at data webhookSecretKey) body sig (ib_SignaturePrefix b) then True
      else case grace_secret (sv_parse_time sv) now data of
             None \<Rightarrow> False
           | Some prev \<Rightarrow> Verify (sv_mac sv) prev body sig (ib_SignaturePrefix b))"

text \<open>\<open>Enqueue\<close> as one call: both halves with nothing in between.\<close>

definition Enqueue :: "job \<Rightarrow> queue \<Rightarrow> queue_event \<times> queue" where
  "Enqueue j q =
     (case enqueue_locked j q of
        (Silent, q1) \<Rightarrow> (case enqueue_send j q1 of None \<Rightarrow> (Silent, q1) | Some r \<Rightarrow> r)
      | r \<Rightarrow> r)"

definition inbound_job :: "string \<Rightarrow> string \<Rightarrow> string \<Rightarrow> string \<Rightarrow> time \<Rightarrow> job" where
  "inbound_job agent binding rid envelope now =
     \<lparr>jb_Agent = agent, jb_Binding = binding, jb_RequestID = rid, jb_Envelope = envelope, jb_EnqueuedAt = now,
      jb_Kind = JobKindWebhook, jb_DeliverBefore = 0, jb_OnDelivery = False, jb_BeforeDelivery = False\<rparr>"

text \<open>From the queue check on.\<close>

definition enqueue_prompt ::
  "('dd, 'ec, 'l, 'd, 'v) inbound_server \<Rightarrow> request_env \<Rightarrow> string \<Rightarrow> string \<Rightarrow> string \<Rightarrow> string
     \<Rightarrow> ('dd, 'ec, 'l) inbound_state \<Rightarrow> response \<times> ('dd, 'ec, 'l) inbound_state" where
  "enqueue_prompt sv env agent binding rid envelope st =
     (if \<not> sv_queue sv then (NotConfigured, st)
      else (let (e, q) = Enqueue (inbound_job agent binding rid envelope (rx_now env)) (is_queue st);
                st1 = st\<lparr>is_queue := q\<rparr>
            in case e of
                 Accepted _ \<Rightarrow>
                   (Dispatched rid,
                    emitInboundEvent sv agent False ''InboundDispatched'' [binding, rid]
                      (recordInboundRun env agent binding rid ''dispatched'' '''' '''' st1))
               | Refused _ \<Rightarrow>
                   (QueueFull,
                    aggregate sv agent ''QueueFull'' (''inbound queue saturated on binding='' @ binding)
                      (recordInboundRun env agent binding rid ''dropped'' ''queue-full'' '''' st1))
               | _ \<Rightarrow> (HandlerPanic, st1)))"

text \<open>The envelope is cached before the rate limit is asked, so that a refused prompt can be replayed.\<close>

definition cache_envelope ::
  "('dd, 'ec, 'l, 'd, 'v) inbound_server \<Rightarrow> time \<Rightarrow> string \<Rightarrow> string
     \<Rightarrow> ('dd, 'ec, 'l) inbound_state \<Rightarrow> ('dd, 'ec, 'l) inbound_state" where
  "cache_envelope sv now rid envelope st =
     (case sv_cache sv of
        None \<Rightarrow> st
      | Some (put, _) \<Rightarrow> st\<lparr>is_cache := put rid envelope now (is_cache st)\<rparr>)"

definition take_permit ::
  "('dd, 'ec, 'l, 'd, 'v) inbound_server \<Rightarrow> time \<Rightarrow> string \<Rightarrow> string \<Rightarrow> inbound_binding
     \<Rightarrow> ('dd, 'ec, 'l) inbound_state \<Rightarrow> bool \<times> ('dd, 'ec, 'l) inbound_state" where
  "take_permit sv now agent binding b st =
     (let maxPerMinute = (case ib_Limits b of None \<Rightarrow> 0 | Some m \<Rightarrow> m) in
      case sv_limiter sv of
        None \<Rightarrow> (True, st)
      | Some (new_bucket, take_token) \<Rightarrow>
          (let (ok, lims) = Allow new_bucket take_token agent binding maxPerMinute now (is_limits st)
           in (ok, st\<lparr>is_limits := lims\<rparr>)))"

definition dispatch_prompt ::
  "('dd, 'ec, 'l, 'd, 'v) inbound_server \<Rightarrow> request_env \<Rightarrow> string \<Rightarrow> string \<Rightarrow> inbound_binding \<Rightarrow> string
     \<Rightarrow> string \<Rightarrow> ('dd, 'ec, 'l) inbound_state \<Rightarrow> response \<times> ('dd, 'ec, 'l) inbound_state" where
  "dispatch_prompt sv env agent binding b rid envelope st =
     (let st1 = cache_envelope sv (rx_now env) rid envelope st;
          (allowed, st2) = take_permit sv (rx_now env) agent binding b st1
      in if \<not> allowed
         then (RateLimited,
               aggregate sv agent ''RateLimitTripped'' (''rate limit exceeded on binding='' @ binding)
                 (recordInboundRun env agent binding rid ''dropped'' ''rate-limited'' '''' st2))
         else enqueue_prompt sv env agent binding rid envelope st2)"

text \<open>From \<open>Decide\<close> on.\<close>

definition decide_prompt ::
  "('dd, 'ec, 'l, 'd, 'v) inbound_server \<Rightarrow> request_env \<Rightarrow> string \<Rightarrow> string \<Rightarrow> inbound_binding \<Rightarrow> string
     \<Rightarrow> string \<Rightarrow> ('dd, 'ec, 'l) inbound_state \<Rightarrow> response \<times> ('dd, 'ec, 'l) inbound_state" where
  "decide_prompt sv env agent binding b rid body st =
     (let d = Decide (sv_json sv) body (rx_headers env) rid agent b in
      if \<not> d_Match d
      then (DroppedWith (d_DropReason d) rid,
            (let st1 = recordInboundRun env agent binding rid ''dropped'' (d_DropReason d) '''' st in
             if d_DropReason d = DropReasonUnmatchedEvent
             then emitInboundEvent sv agent False ''InboundUnmatched'' [binding, rid] st1
             else if d_DropReason d = DropReasonFilterRejected
             then emitInboundEvent sv agent False ''InboundFilterRejected'' [binding, rid] st1
             else st1))
      else dispatch_prompt sv env agent binding b rid (d_Envelope d) st)"

text \<open>The deduper fails open: an error (\<open>None\<close>) counts as not seen.\<close>

definition consult_deduper ::
  "('dd, 'ec, 'l, 'd, 'v) inbound_server \<Rightarrow> time \<Rightarrow> string \<Rightarrow> ('dd, 'ec, 'l) inbound_state
     \<Rightarrow> bool \<times> ('dd, 'ec, 'l) inbound_state" where
  "consult_deduper sv now body st =
     (case sv_deduper sv of
        None \<Rightarrow> (False, st)
      | Some seen_within \<Rightarrow>
          (let (seen, dd) = seen_within body inboundDedupTTL now (is_dedup st)
           in (seen = Some True, st\<lparr>is_dedup := dd\<rparr>)))"

text \<open>What an authentic request goes through: the disabled check, the deduper, then the decision.\<close>

definition receive_authentic ::
  "('dd, 'ec, 'l, 'd, 'v) inbound_server \<Rightarrow> request_env \<Rightarrow> string \<Rightarrow> string \<Rightarrow> inbound_binding \<Rightarrow> string
     \<Rightarrow> string \<Rightarrow> ('dd, 'ec, 'l) inbound_state \<Rightarrow> response \<times> ('dd, 'ec, 'l) inbound_state" where
  "receive_authentic sv env agent binding b rid body st =
     (if ib_Disabled b
      then (BindingDisabled, recordInboundRun env agent binding rid ''dropped'' ''disabled'' '''' st)
      else (let (seen, st1) = consult_deduper sv (rx_now env) body st in
            if seen then (Deduped rid, recordInboundRun env agent binding rid ''dropped'' ''dedup'' '''' st1)
            else decide_prompt sv env agent binding b rid body st1))"

text \<open>From the binding's Secret on.\<close>

definition authenticate_inbound ::
  "('dd, 'ec, 'l, 'd, 'v) inbound_server \<Rightarrow> request_env \<Rightarrow> string \<Rightarrow> string \<Rightarrow> inbound_binding \<Rightarrow> string
     \<Rightarrow> string \<Rightarrow> ('dd, 'ec, 'l) inbound_state \<Rightarrow> response \<times> ('dd, 'ec, 'l) inbound_state" where
  "authenticate_inbound sv env agent binding b rid body st =
     (let misconfigured = (\<lambda>err.
            (Unauthorized,
             emitInboundEvent sv agent True ''InboundConfigError'' [ib_ExistingSecret b, binding, err, rid]
               (recordInboundRun env agent binding rid ''dropped'' ''missing-secret'' err st)))
      in case rx_secret env of
           Found data \<Rightarrow>
             if str_at data webhookSecretKey = '''' then misconfigured ''missing key''
             else (let sig = header_Get (rx_headers env) (ib_SignatureHeader b) in
                   if sig = '''' then (Unauthorized, st)
                   else if \<not> signature_ok sv (rx_now env) b data body sig
                   then (Unauthorized,
                         emitInboundEvent sv agent True ''InboundAuthFailure'' [binding, rid]
                           (recordInboundRun env agent binding rid ''dropped'' ''sig-mismatch'' '''' st))
                   else receive_authentic sv env agent binding b rid body st)
         | _ \<Rightarrow> misconfigured ''lookup failed'')"

definition handleInbound ::
  "('dd, 'ec, 'l, 'd, 'v) inbound_server \<Rightarrow> request_env \<Rightarrow> ('dd, 'ec, 'l) inbound_state
     \<Rightarrow> response \<times> ('dd, 'ec, 'l) inbound_state" where
  "handleInbound sv env st =
     (if \<not> rx_post env then (MethodNotAllowed, st)
      else (let rid = (if rx_request_id env = '''' then rx_uuid env else rx_request_id env) in
            case parse_inbound_path (rx_path env) of
              None \<Rightarrow> (Unauthorized, st)
            | Some (agent, binding) \<Rightarrow>
                (case rx_body env of
                   None \<Rightarrow> (Unauthorized, st)
                 | Some raw \<Rightarrow>
                     (let body = take (inboundBodyLimit + 1) raw in
                      if inboundBodyLimit < length body then (BodyTooLarge, st)
                      else case rx_agent env of
                             Found bs \<Rightarrow>
                               (case find_binding binding bs of
                                  None \<Rightarrow> (Unauthorized, st)
                                | Some b \<Rightarrow> authenticate_inbound sv env agent binding b rid body st)
                           | _ \<Rightarrow> (Unauthorized, st)))))"

subsection \<open>Replaying\<close>

definition replayInboundRun ::
  "('dd, 'ec, 'l, 'd, 'v) inbound_server \<Rightarrow> request_env \<Rightarrow> string \<Rightarrow> string \<Rightarrow> string
     \<Rightarrow> ('dd, 'ec, 'l) inbound_state \<Rightarrow> response \<times> ('dd, 'ec, 'l) inbound_state" where
  "replayInboundRun sv env agent binding original st =
     (case sv_cache sv of
        None \<Rightarrow> (NotConfigured, st)
      | Some (_, cache_get) \<Rightarrow>
          if \<not> sv_queue sv then (NotConfigured, st)
          else (case rx_agent env of
                  Missing \<Rightarrow> (AgentMissing, st)
                | ReadError \<Rightarrow> (InternalError, st)
                | Found bs \<Rightarrow>
                    if find_binding binding bs = None then (BindingMissing, st)
                    else (let (answer, ec) = cache_get original (rx_now env) (is_cache st);
                              st1 = st\<lparr>is_cache := ec\<rparr>
                          in case answer of
                               None \<Rightarrow> (CacheUnavailable, st1)
                             | Some envelope \<Rightarrow>
                                 if envelope = '''' then (EnvelopeExpired, st1)
                                 else (let rid = rx_uuid env;
                                           (e, q) = Enqueue (inbound_job agent binding rid envelope (rx_now env)) (is_queue st1);
                                           st2 = st1\<lparr>is_queue := q\<rparr>
                                       in case e of
                                            Accepted _ \<Rightarrow>
                                              (Queued original rid,
                                               emitInboundEvent sv agent False ''InboundReplayed'' [binding, original, rid]
                                                 (recordInboundRun env agent binding rid ''dispatched'' ''''
                                                    (''replay of '' @ original) st2))
                                          | Refused _ \<Rightarrow> (QueueFull, st2)
                                          | _ \<Rightarrow> (HandlerPanic, st2)))))"

subsection \<open>Rotating a secret\<close>

text \<open>
  \<open>format_time\<close> is \<open>Format(time.RFC3339)\<close>, \<open>random_hex\<close> the fresh secret (\<open>None\<close> when the random
  source fails), \<open>patch_ok\<close> whether the API server takes the patch.
\<close>

definition rotateInboundBindingSecret ::
  "(string \<Rightarrow> time option) \<Rightarrow> (time \<Rightarrow> string) \<Rightarrow> inbound_binding list read \<Rightarrow> string \<Rightarrow> (string, string) gomap read
     \<Rightarrow> string option \<Rightarrow> time \<Rightarrow> bool \<Rightarrow> response \<times> (string, string) gomap option" where
  "rotateInboundBindingSecret parse_time format_time agent binding secret random_hex now patch_ok =
     (case agent of
        Missing \<Rightarrow> (AgentMissing, None)
      | ReadError \<Rightarrow> (InternalError, None)
      | Found bs \<Rightarrow>
          (let existingSecret = (case find_binding binding bs of None \<Rightarrow> '''' | Some b \<Rightarrow> ib_ExistingSecret b) in
           if existingSecret = '''' then (BindingMissing, None)
           else case secret of
                  Missing \<Rightarrow> (SecretMissing, None)
                | ReadError \<Rightarrow> (InternalError, None)
                | Found data \<Rightarrow>
                    (let stamp = str_at data webhookSecretPrevRotatedAtKey;
                         busy = (stamp \<noteq> '''' \<and> (case parse_time stamp of
                                   None \<Rightarrow> False | Some t \<Rightarrow> time_since now t < inboundRotationGrace))
                     in if busy then (RotationInProgress, None)
                        else case random_hex of
                               None \<Rightarrow> (InternalError, None)
                             | Some new \<Rightarrow>
                                 (let prev = str_at data webhookSecretKey;
                                      data1 = AList.update webhookSecretKey new data;
                                      data2 = AList.update webhookSecretPrevKey prev data1;
                                      data3 = AList.update webhookSecretPrevRotatedAtKey (format_time now) data2
                                  in if patch_ok then (Rotated new (format_time now), Some data3)
                                     else (InternalError, None)))))"

subsection \<open>The gate in front of delivery\<close>

text \<open>
  One poll of \<open>WaitAgentCapabilities\<close>: the Agent read with its phase, for every required feature
  whether the runtime supports it and whether it is available now, whether the readiness evidence
  belongs to the live pod, the clock, and whether the context ends during the pause.
\<close>

record gate_poll =
  gp_phase :: "agent_phase read"
  gp_features :: "(bool \<times> bool) list"
  gp_evidence :: bool
  gp_now :: time
  gp_cancelled :: bool

datatype gate_result = GateReady | GateLookupFailed | GateUnsupported | GateTerminal | GateTimeout | GateCancelled

definition gate_terminal :: "agent_phase \<Rightarrow> bool" where
  "gate_terminal p \<longleftrightarrow> p \<in> set [PhaseStopped, PhaseFailed, PhaseNeedsAuth, PhaseMemoryExhausted, PhaseDiskExhausted, PhaseDeleted]"

text \<open>What one poll decides; \<open>None\<close> goes round the loop again.\<close>

definition gate_decide :: "time \<Rightarrow> gate_poll \<Rightarrow> gate_result option" where
  "gate_decide deadline p =
     (let later = (if gp_now p > deadline then Some GateTimeout
                   else if gp_cancelled p then Some GateCancelled else None)
      in case gp_phase p of
           Found ph \<Rightarrow>
             if ph = PhaseRunning
             then (if list_ex (\<lambda>f. \<not> fst f) (gp_features p) then Some GateUnsupported
                   else if list_all snd (gp_features p) \<and> (gp_features p = [] \<or> gp_evidence p)
                     then Some GateReady
                   else later)
             else if gate_terminal ph then Some GateTerminal
             else later
         | _ \<Rightarrow> Some GateLookupFailed)"

text \<open>The loop over the polls that happen; \<open>None\<close> while every poll so far went round.\<close>

fun WaitAgentCapabilities :: "time \<Rightarrow> gate_poll list \<Rightarrow> gate_result option" where
  "WaitAgentCapabilities deadline [] = None"
| "WaitAgentCapabilities deadline (p # ps) =
     (case gate_decide deadline p of Some r \<Rightarrow> Some r | None \<Rightarrow> WaitAgentCapabilities deadline ps)"

subsection \<open>Only an authentic request touches the delivery state\<close>

text \<open>The request as the handler resolves it: the agent, the binding by name and as configured, its body.\<close>

definition resolved_request :: "request_env \<Rightarrow> (string \<times> string \<times> inbound_binding \<times> string) option" where
  "resolved_request env =
     (case (rx_post env, parse_inbound_path (rx_path env), rx_body env, rx_agent env) of
        (True, Some (agent, binding), Some body, Found bs) \<Rightarrow>
          (case find_binding binding bs of
             Some b \<Rightarrow> if length body \<le> inboundBodyLimit then Some (agent, binding, b, body) else None
           | None \<Rightarrow> None)
      | _ \<Rightarrow> None)"

definition authentic ::
  "('dd, 'ec, 'l, 'd, 'v) inbound_server \<Rightarrow> request_env \<Rightarrow> (string \<times> string \<times> inbound_binding \<times> string) option" where
  "authentic sv env =
     (case (resolved_request env, rx_secret env) of
        (Some (agent, binding, b, body), Found data) \<Rightarrow>
          (let sig = header_Get (rx_headers env) (ib_SignatureHeader b) in
           if str_at data webhookSecretKey \<noteq> '''' \<and> sig \<noteq> '''' \<and> signature_ok sv (rx_now env) b data body sig
           then Some (agent, binding, b, body) else None)
      | _ \<Rightarrow> None)"

definition request_id :: "request_env \<Rightarrow> string" where
  "request_id env = (if rx_request_id env = '''' then rx_uuid env else rx_request_id env)"

text \<open>The part of the state that decides what is delivered; the audit trail is the rest.\<close>

definition delivery_state :: "('dd, 'ec, 'l) inbound_state \<Rightarrow> 'dd \<times> 'ec \<times> 'l rate_limiter \<times> queue" where
  "delivery_state st = (is_dedup st, is_cache st, is_limits st, is_queue st)"

lemma audit_frame [simp]:
  "is_dedup (recordInboundRun env a b i oc re er st) = is_dedup st"
  "is_cache (recordInboundRun env a b i oc re er st) = is_cache st"
  "is_limits (recordInboundRun env a b i oc re er st) = is_limits st"
  "is_queue (recordInboundRun env a b i oc re er st) = is_queue st"
  "is_dedup (emitInboundEvent sv a w re args st) = is_dedup st"
  "is_cache (emitInboundEvent sv a w re args st) = is_cache st"
  "is_limits (emitInboundEvent sv a w re args st) = is_limits st"
  "is_queue (emitInboundEvent sv a w re args st) = is_queue st"
  "is_dedup (aggregate sv a ty re st) = is_dedup st" "is_cache (aggregate sv a ty re st) = is_cache st"
  "is_limits (aggregate sv a ty re st) = is_limits st" "is_queue (aggregate sv a ty re st) = is_queue st"
  by (simp_all add: recordInboundRun_def emitInboundEvent_def aggregate_def Let_def)

lemma take_body:
  "length body \<le> inboundBodyLimit \<Longrightarrow> take (inboundBodyLimit + 1) body = body"
  "inboundBodyLimit < length (take (inboundBodyLimit + 1) body) \<longleftrightarrow> inboundBodyLimit < length body"
  by auto

lemma handle_authentic:
  "authentic sv env = Some (agent, binding, b, body) \<Longrightarrow>
     handleInbound sv env st = receive_authentic sv env agent binding b (request_id env) body st"
  by (auto simp: authentic_def resolved_request_def handleInbound_def authenticate_inbound_def request_id_def
        Let_def take_body split: option.splits read.splits prod.splits if_splits bool.splits)

lemma unauthenticated_refused:
  assumes "authentic sv env = None"
  shows "delivery_state (snd (handleInbound sv env st)) = delivery_state st
     \<and> fst (handleInbound sv env st)
         = (if \<not> rx_post env then MethodNotAllowed
            else if parse_inbound_path (rx_path env) \<noteq> None
                    \<and> (\<exists>body. rx_body env = Some body \<and> inboundBodyLimit < length body) then BodyTooLarge
            else Unauthorized)"
proof -
  have refused: "delivery_state (snd (authenticate_inbound sv env agent binding b rid body st)) = delivery_state st
      \<and> fst (authenticate_inbound sv env agent binding b rid body st) = Unauthorized"
    if "resolved_request env = Some (agent, binding, b, body)" for agent binding b rid body
    using assms that
    by (cases "rx_secret env")
       (auto simp: authentic_def authenticate_inbound_def delivery_state_def Let_def split: if_splits)
  show ?thesis
  proof (cases "rx_post env \<and> rx_body env \<noteq> None \<and> parse_inbound_path (rx_path env) \<noteq> None")
    case False
    then show ?thesis
      by (auto simp: handleInbound_def Let_def delivery_state_def split: option.splits)
  next
    case True
    then obtain agent binding body where path: "parse_inbound_path (rx_path env) = Some (agent, binding)"
      and body: "rx_body env = Some body" by auto
    show ?thesis
    proof (cases "inboundBodyLimit < length body")
      case True
      with path body \<open>rx_post env \<and> _\<close> show ?thesis
        by (simp add: handleInbound_def Let_def take_body delivery_state_def del: take_append)
    next
      case small: False
      show ?thesis
      proof (cases "\<exists>bs b. rx_agent env = Found bs \<and> find_binding binding bs = Some b")
        case True
        then obtain bs b where b: "rx_agent env = Found bs" "find_binding binding bs = Some b" by blast
        with path body small \<open>rx_post env \<and> _\<close>
        have "resolved_request env = Some (agent, binding, b, body)"
          by (simp add: resolved_request_def)
        from refused [OF this, of "request_id env"] path body small b \<open>rx_post env \<and> _\<close> show ?thesis
          by (simp add: handleInbound_def Let_def take_body request_id_def)
      next
        case False
        with path body small \<open>rx_post env \<and> _\<close> show ?thesis
          by (cases "rx_agent env")
             (auto simp: handleInbound_def Let_def take_body delivery_state_def split: option.splits)
      qed
    qed
  qed
qed

text \<open>
  C16: A request that is not a well-formed POST to an existing binding with a signature valid under
  the binding's secret, or under the previous one within its grace, changes neither the deduper, the
  envelope cache, the rate limiter nor any queue; and whichever of these checks it fails, the
  answer is the same 401 (405 for another method, 413 for an oversized body).
\<close>

theorem unauthenticated_request_inert:
  assumes "authentic sv env = None"
  shows "delivery_state (snd (handleInbound sv env st)) = delivery_state st
     \<and> status_of (fst (handleInbound sv env st))
         = (if \<not> rx_post env then 405
            else if parse_inbound_path (rx_path env) \<noteq> None
                    \<and> (\<exists>body. rx_body env = Some body \<and> inboundBodyLimit < length body) then 413
            else 401)"
proof -
  have status: "status_of MethodNotAllowed = 405" "status_of BodyTooLarge = 413" "status_of Unauthorized = 401"
    by (simp_all add: status_of_def)
  from unauthenticated_refused [OF assms, of st] show ?thesis by (simp only: if_distrib [of status_of] status)
qed

subsection \<open>What is delivered\<close>

lemma held_set:
  "map_of (q_channels q') = (map_of (q_channels q))(a \<mapsto> c) \<Longrightarrow> b \<noteq> a \<Longrightarrow> held b q' = held b q"
  by (simp add: held_def)

lemma Enqueue_result:
  "(fst (Enqueue j q) = Accepted j
      \<and> held (jb_Agent j) (snd (Enqueue j q)) = held (jb_Agent j) q @ [j]
      \<and> (\<forall>a. a \<noteq> jb_Agent j \<longrightarrow> held a (snd (Enqueue j q)) = held a q))
   \<or> (fst (Enqueue j q) \<in> {Refused j, Panicked j} \<and> (\<forall>a. held a (snd (Enqueue j q)) = held a q))"
proof (cases "q_stopped q")
  case True
  then show ?thesis by (simp add: Enqueue_def enqueue_locked_def)
next
  case False
  let ?a = "jb_Agent j"
  define q1 where "q1 = snd (enqueue_locked j q)"
  have l: "enqueue_locked j q = (Silent, q1)" and j: "j \<in> set (q_sending q1)"
    using False by (simp_all add: q1_def enqueue_locked_def Let_def)
  obtain c where c: "map_of (q_channels q1) ?a = Some c"
    using False by (cases "map_of (q_channels q) ?a") (simp_all add: q1_def enqueue_locked_def Let_def)
  have same: "held a q1 = held a q" for a
    using False by (cases "map_of (q_channels q) ?a")
      (simp_all add: q1_def enqueue_locked_def Let_def held_def new_channel_def)
  show ?thesis
  proof (cases "ch_closed c \<or> \<not> length (ch_buffer c) < QueueDepth")
    case True
    with l j c same show ?thesis by (auto simp: Enqueue_def enqueue_send_def Let_def held_def)
  next
    case False
    then have "Enqueue j q = (Accepted j, set_channel ?a (c\<lparr>ch_buffer := ch_buffer c @ [j]\<rparr>)
        (q1\<lparr>q_sending := remove1 j (q_sending q1)\<rparr>))"
      using l j c by (simp add: Enqueue_def enqueue_send_def Let_def)
    moreover have "held ?a (set_channel ?a (c\<lparr>ch_buffer := ch_buffer c @ [j]\<rparr>)
        (q1\<lparr>q_sending := remove1 j (q_sending q1)\<rparr>)) = held ?a q1 @ [j]"
      using c by (simp add: held_def)
    moreover have "held a (set_channel ?a (c\<lparr>ch_buffer := ch_buffer c @ [j]\<rparr>)
        (q1\<lparr>q_sending := remove1 j (q_sending q1)\<rparr>)) = held a q1" if "a \<noteq> ?a" for a
      using that by (simp add: held_def)
    ultimately show ?thesis by (simp add: same)
  qed
qed

lemma enqueue_prompt_dispatched:
  assumes "fst (enqueue_prompt sv env agent binding rid envelope st) = Dispatched r"
  shows "r = rid
     \<and> held agent (is_queue (snd (enqueue_prompt sv env agent binding rid envelope st)))
         = held agent (is_queue st) @ [inbound_job agent binding rid envelope (rx_now env)]
     \<and> (\<forall>a. a \<noteq> agent \<longrightarrow>
          held a (is_queue (snd (enqueue_prompt sv env agent binding rid envelope st))) = held a (is_queue st))"
proof -
  let ?j = "inbound_job agent binding rid envelope (rx_now env)"
  have agent: "jb_Agent ?j = agent" by (simp add: inbound_job_def)
  obtain e q where e: "Enqueue ?j (is_queue st) = (e, q)" by (cases "Enqueue ?j (is_queue st)")
  from assms e obtain x where acc: "e = Accepted x" and r: "r = rid"
    by (cases e) (simp_all add: enqueue_prompt_def split: if_splits)
  with assms e have snd: "is_queue (snd (enqueue_prompt sv env agent binding rid envelope st)) = q"
    by (simp add: enqueue_prompt_def split: if_splits)
  from Enqueue_result [of ?j "is_queue st"] e acc agent r snd show ?thesis by simp
qed

lemma stage_queue [simp]:
  "is_queue (cache_envelope sv now rid envelope st) = is_queue st"
  "is_queue (snd (take_permit sv now agent binding b st)) = is_queue st"
  "is_queue (snd (consult_deduper sv now body st)) = is_queue st"
  by (simp_all add: cache_envelope_def take_permit_def consult_deduper_def Let_def case_prod_unfold
        split: option.splits)

lemma dispatch_prompt_passes:
  assumes "fst (dispatch_prompt sv env agent binding b rid envelope st) = Dispatched r"
  obtains st2 where "is_queue st2 = is_queue st"
    and "dispatch_prompt sv env agent binding b rid envelope st = enqueue_prompt sv env agent binding rid envelope st2"
  using assms that [of "snd (take_permit sv (rx_now env) agent binding b
      (cache_envelope sv (rx_now env) rid envelope st))"]
  by (auto simp: dispatch_prompt_def Let_def case_prod_unfold split: if_splits)

lemma decide_prompt_passes:
  assumes "fst (decide_prompt sv env agent binding b rid body st) = Dispatched r"
  obtains st2 where "is_queue st2 = is_queue st"
    and "d_Match (Decide (sv_json sv) body (rx_headers env) rid agent b)"
    and "decide_prompt sv env agent binding b rid body st = enqueue_prompt sv env agent binding rid
           (d_Envelope (Decide (sv_json sv) body (rx_headers env) rid agent b)) st2"
proof -
  let ?d = "Decide (sv_json sv) body (rx_headers env) rid agent b"
  have m: "d_Match ?d" using assms by (auto simp: decide_prompt_def Let_def split: if_splits)
  then have eq: "decide_prompt sv env agent binding b rid body st
      = dispatch_prompt sv env agent binding b rid (d_Envelope ?d) st"
    by (simp add: decide_prompt_def Let_def)
  from assms [unfolded eq] obtain st2 where "is_queue st2 = is_queue st"
    "dispatch_prompt sv env agent binding b rid (d_Envelope ?d) st
       = enqueue_prompt sv env agent binding rid (d_Envelope ?d) st2" by (rule dispatch_prompt_passes)
  with m eq that show thesis by metis
qed

text \<open>
  C17: When the receiver answers \<open>dispatched\<close>, the request was authentic, its binding enabled and its
  decision a match, and exactly one job was added: the rendered prompt, at the end of what is held
  for the addressed agent, with nothing changed for any other agent.
\<close>

theorem dispatched_once:
  assumes "fst (handleInbound sv env st) = Dispatched rid"
  shows "\<exists>agent binding b body.
     authentic sv env = Some (agent, binding, b, body) \<and> \<not> ib_Disabled b \<and> rid = request_id env
     \<and> d_Match (Decide (sv_json sv) body (rx_headers env) rid agent b)
     \<and> held agent (is_queue (snd (handleInbound sv env st)))
         = held agent (is_queue st)
           @ [inbound_job agent binding rid (d_Envelope (Decide (sv_json sv) body (rx_headers env) rid agent b)) (rx_now env)]
     \<and> (\<forall>a. a \<noteq> agent \<longrightarrow> held a (is_queue (snd (handleInbound sv env st))) = held a (is_queue st))"
proof -
  obtain agent binding b body where auth: "authentic sv env = Some (agent, binding, b, body)"
    using assms unauthenticated_refused [of sv env st]
    by (cases "authentic sv env") (auto split: if_splits)
  let ?rid = "request_id env"
  let ?env = "d_Envelope (Decide (sv_json sv) body (rx_headers env) ?rid agent b)"
  note handle = handle_authentic [OF auth, of st]
  have "\<not> ib_Disabled b" using assms handle by (auto simp: receive_authentic_def)
  moreover define st1 where "st1 = snd (consult_deduper sv (rx_now env) body st)"
  then have q1: "is_queue st1 = is_queue st" by simp
  moreover have d1: "handleInbound sv env st = decide_prompt sv env agent binding b ?rid body st1"
    using assms \<open>\<not> ib_Disabled b\<close> unfolding handle
    by (auto simp: receive_authentic_def st1_def Let_def case_prod_unfold split: if_splits)
  moreover from assms [unfolded d1] obtain st2 where q2: "is_queue st2 = is_queue st1"
    and m: "d_Match (Decide (sv_json sv) body (rx_headers env) ?rid agent b)"
    and d2: "decide_prompt sv env agent binding b ?rid body st1
        = enqueue_prompt sv env agent binding ?rid ?env st2" by (rule decide_prompt_passes)
  ultimately show ?thesis
    using enqueue_prompt_dispatched [of sv env agent binding ?rid ?env st2 rid] assms auth by auto
qed

subsection \<open>The in-memory server\<close>

text \<open>The deduper and cache a control plane without Redis uses; they never answer an error.\<close>

definition memory_seen :: "(string \<Rightarrow> string) \<Rightarrow> string \<Rightarrow> duration \<Rightarrow> time \<Rightarrow> memory_deduper \<Rightarrow> bool option \<times> memory_deduper" where
  "memory_seen hashBody body ttl now d = (let (seen, d1) = SeenWithin hashBody body ttl now d in (Some seen, d1))"

definition memory_get :: "string \<Rightarrow> time \<Rightarrow> memory_cache \<Rightarrow> string option \<times> memory_cache" where
  "memory_get rid now c = (let (e, c1) = Get rid now c in (Some e, c1))"

text \<open>The prompt a request was rendered to.\<close>

abbreviation rendered_prompt ::
  "('dd, 'ec, 'l, 'd, 'v) inbound_server \<Rightarrow> request_env \<Rightarrow> string \<Rightarrow> inbound_binding \<Rightarrow> string \<Rightarrow> string" where
  "rendered_prompt sv env agent b body \<equiv>
     d_Envelope (Decide (sv_json sv) body (rx_headers env) (request_id env) agent b)"

lemma take_permit_cache [simp]: "is_cache (snd (take_permit sv now agent binding b st)) = is_cache st"
  by (simp add: take_permit_def Let_def case_prod_unfold split: option.splits)

lemma enqueue_prompt_cache [simp]: "is_cache (snd (enqueue_prompt sv env agent binding rid e st)) = is_cache st"
  by (simp add: enqueue_prompt_def Let_def case_prod_unfold split: queue_event.splits)

text \<open>Every request whose decision matched has its prompt in the cache, whatever stopped it after that.\<close>

lemma matched_is_cached:
  assumes auth: "authentic sv env = Some (agent, binding, b, body)"
    and resp: "fst (handleInbound sv env st) \<in> {Dispatched (request_id env), RateLimited, QueueFull}"
    and cache: "sv_cache sv = Some (\<lambda>rid e now c. Put rid e now c, memory_get)"
  shows "rendered_prompt sv env agent b body \<noteq> ''''
     \<and> is_cache (snd (handleInbound sv env st))
         = Put (request_id env) (rendered_prompt sv env agent b body) (rx_now env) (is_cache st)"
proof -
  define st1 where "st1 = snd (consult_deduper sv (rx_now env) body st)"
  have c1: "is_cache st1 = is_cache st"
    by (simp add: st1_def consult_deduper_def Let_def case_prod_unfold split: option.splits)
  have eq: "handleInbound sv env st = decide_prompt sv env agent binding b (request_id env) body st1"
    using resp unfolding handle_authentic [OF auth]
    by (auto simp: receive_authentic_def st1_def Let_def case_prod_unfold split: if_splits)
  have m: "d_Match (Decide (sv_json sv) body (rx_headers env) (request_id env) agent b)"
    using resp unfolding eq by (auto simp: decide_prompt_def Let_def split: if_splits)
  then have "rendered_prompt sv env agent b body \<noteq> ''''"
    by (auto simp: Decide_def dropped_def render_envelope_def Let_def split: if_splits)
  moreover have eq2: "handleInbound sv env st
      = dispatch_prompt sv env agent binding b (request_id env) (rendered_prompt sv env agent b body) st1"
    unfolding eq using m by (simp add: decide_prompt_def Let_def)
  ultimately show ?thesis unfolding eq2
    by (simp add: dispatch_prompt_def cache_envelope_def cache Let_def case_prod_unfold c1)
qed

lemma replay_outcome:
  fixes agent :: string
  assumes "sv_cache sv = Some (put, memory_get)" and "sv_queue sv" and "rx_agent env = Found bs"
    and "find_binding binding bs = Some b" and "fst (Get original (rx_now env) (is_cache st)) = e"
  defines "r \<equiv> replayInboundRun sv env agent binding original st"
    and "answer \<equiv> Enqueue (inbound_job agent binding (rx_uuid env) e (rx_now env)) (is_queue st)"
  shows "e = '''' \<Longrightarrow> fst r = EnvelopeExpired"
    and "e \<noteq> '''' \<Longrightarrow> fst r = (case fst answer of
           Accepted _ \<Rightarrow> Queued original (rx_uuid env) | Refused _ \<Rightarrow> QueueFull | _ \<Rightarrow> HandlerPanic)
         \<and> is_queue (snd r) = snd answer"
  using assms(1-5)
  by (simp_all add: r_def answer_def replayInboundRun_def memory_get_def Let_def case_prod_unfold
        split: queue_event.splits)

text \<open>
  C22: A prompt that was rendered can be replayed for as long as the cache keeps it, also when the
  rate limit or a full queue refused it: a replay of its request id before the expiry queues
  exactly the same prompt under the new id, or is refused by the queue with nothing queued; and from
  the expiry on every replay answers that it is gone.
\<close>

theorem refused_prompt_replayable:
  assumes "authentic sv env = Some (agent, binding, b, body)"
    and "fst (handleInbound sv env st) \<in> {Dispatched (request_id env), RateLimited, QueueFull}"
    and "sv_cache sv = Some (\<lambda>rid e now c. Put rid e now c, memory_get)" and "sv_queue sv"
    and "rx_agent env2 = Found bs" and "find_binding binding bs = Some b2"
    and "st1 = snd (handleInbound sv env st)"
    and "replayInboundRun sv env2 agent binding (request_id env) st1 = (answer, st2)"
  shows "(rx_now env2 < rx_now env + ec_ttl (is_cache st) \<longrightarrow>
       answer = Queued (request_id env) (rx_uuid env2)
         \<and> held agent (is_queue st2) = held agent (is_queue st1)
             @ [inbound_job agent binding (rx_uuid env2) (rendered_prompt sv env agent b body) (rx_now env2)]
       \<or> answer \<in> {QueueFull, HandlerPanic} \<and> held agent (is_queue st2) = held agent (is_queue st1))
     \<and> (rx_now env + ec_ttl (is_cache st) \<le> rx_now env2 \<longrightarrow> answer = EnvelopeExpired)"
proof -
  let ?p = "rendered_prompt sv env agent b body"
  let ?j = "inbound_job agent binding (rx_uuid env2) ?p (rx_now env2)"
  have ne: "?p \<noteq> ''''" and cached: "is_cache st1 = Put (request_id env) ?p (rx_now env) (is_cache st)"
    using matched_is_cached [OF assms(1-3)] assms(7) by simp_all
  have get: "fst (Get (request_id env) (rx_now env2) (is_cache st1))
      = (if rx_now env2 < rx_now env + ec_ttl (is_cache st) then ?p else '''')"
    by (simp add: Get_def cached Put_def alist_lookup_update)
  have agent: "jb_Agent ?j = agent" by (simp add: inbound_job_def)
  note r = replay_outcome [OF assms(3-6) get, of agent, unfolded assms(8)]
  show ?thesis
  proof (cases "rx_now env2 < rx_now env + ec_ttl (is_cache st)")
    case True
    with r(2) ne have "answer = (case fst (Enqueue ?j (is_queue st1)) of
          Accepted _ \<Rightarrow> Queued (request_id env) (rx_uuid env2) | Refused _ \<Rightarrow> QueueFull | _ \<Rightarrow> HandlerPanic)"
      and "is_queue st2 = snd (Enqueue ?j (is_queue st1))" by simp_all
    with Enqueue_result [of ?j "is_queue st1"] True agent show ?thesis by auto
  qed (use r(1) in simp)
qed

subsection \<open>One body, two agents\<close>

text \<open>
  The deduper knows bodies, not bindings: once a body has been dispatched to one agent, the same
  body posted within 24 hours to any other enabled binding, of any agent and with a valid signature
  of its own, is answered 200 \<open>deduped\<close> and reaches no queue.
\<close>

theorem same_body_other_agent_dropped:
  assumes "sv_deduper sv = Some (memory_seen hashBody)"
    and "authentic sv env1 = Some (agent1, binding1, b1, body)"
    and "fst (handleInbound sv env1 st) = Dispatched rid"
    and "authentic sv env2 = Some (agent2, binding2, b2, body)" and "\<not> ib_Disabled b2"
    and "rx_now env2 < rx_now env1 + 24 * hour"
    and "st1 = snd (handleInbound sv env1 st)"
  shows "fst (handleInbound sv env2 st1) = Deduped (request_id env2)
     \<and> is_queue (snd (handleInbound sv env2 st1)) = is_queue st1"
proof -
  let ?d = "SeenWithin hashBody body inboundDedupTTL (rx_now env1) (is_dedup st)"
  have consult: "consult_deduper sv now body s
      = (fst (SeenWithin hashBody body inboundDedupTTL now (is_dedup s)),
         s\<lparr>is_dedup := snd (SeenWithin hashBody body inboundDedupTTL now (is_dedup s))\<rparr>)" for now s
    by (simp add: consult_deduper_def assms(1) memory_seen_def Let_def case_prod_unfold)
  have frame: "is_dedup (snd (decide_prompt sv env agent binding b i body s)) = is_dedup s" for env agent binding b i s
    by (simp add: decide_prompt_def dispatch_prompt_def enqueue_prompt_def cache_envelope_def take_permit_def
          Let_def case_prod_unfold split: option.splits queue_event.splits)
  have new: "\<not> fst ?d" and st1: "is_dedup st1 = snd ?d"
    using assms(3) unfolding assms(7) handle_authentic [OF assms(2)]
    by (auto simp: receive_authentic_def consult frame split: if_splits)
  have "fst (SeenWithin hashBody body inboundDedupTTL (rx_now env2) (is_dedup st1))"
  proof (cases "rx_now env2 < rx_now env1 + inboundDedupTTL")
    case True
    have "SeenWithin (\<lambda>b. b) (hashBody body) (rx_now env1 + inboundDedupTTL - rx_now env1) (rx_now env1) (is_dedup st)
        = (False, is_dedup st1)"
      using new st1 by (simp add: SeenWithin_hashed [of hashBody] prod_eq_iff)
    from dd.seen_until_expiry [OF this True, of "[]" "rx_now env2 + inboundDedupTTL"]
    show ?thesis by (simp add: SeenWithin_hashed [of hashBody])
  qed (use assms(6) in \<open>simp add: inboundDedupTTL_def\<close>)
  then show ?thesis
    unfolding handle_authentic [OF assms(4)] using assms(5)
    by (simp add: receive_authentic_def consult)
qed

subsection \<open>Rotation keeps the old secret alive for its grace\<close>

text \<open>
  C21: After a rotation the new secret and, while the day of grace lasts, the old one are the
  accepted signing keys, and a second rotation within it is refused and changes nothing, so it cannot
  retire a secret early. \<open>RFC 3339\<close> keeps whole seconds: what is parsed back from the stamp is
  the time of rotation rounded down to a second.
\<close>

theorem rotation_grace:
  assumes "rotateInboundBindingSecret parse_time format_time (Found bs) binding (Found data) (Some new) now True
      = (Rotated answer stamp, Some data')"
    and "parse_time (format_time now) = Some (now - now mod second)" and "format_time now \<noteq> ''''"
    and "sv_parse_time sv = parse_time" and "str_at data webhookSecretKey \<noteq> ''''"
    and "now \<le> later" and "later < now - now mod second + 24 * hour"
    and "find_binding binding bs = Some b"
  shows "(signature_ok sv later b data' body sig
       \<longleftrightarrow> Verify (sv_mac sv) new body sig (ib_SignaturePrefix b)
         \<or> Verify (sv_mac sv) (str_at data webhookSecretKey) body sig (ib_SignaturePrefix b))
     \<and> rotateInboundBindingSecret parse_time format_time (Found bs) binding (Found data') rnd later ok
         = (RotationInProgress, None)"
proof -
  let ?t = "now - now mod second"
  have data': "data' = AList.update webhookSecretPrevRotatedAtKey (format_time now)
      (AList.update webhookSecretPrevKey (str_at data webhookSecretKey) (AList.update webhookSecretKey new data))"
    using assms(1) by (auto simp: rotateInboundBindingSecret_def Let_def split: option.splits if_splits)
  have ex: "ib_ExistingSecret b \<noteq> ''''"
    using assms(1,8) by (auto simp: rotateInboundBindingSecret_def Let_def split: if_splits)
  have at: "str_at data' webhookSecretKey = new" "str_at data' webhookSecretPrevKey = str_at data webhookSecretKey"
    "str_at data' webhookSecretPrevRotatedAtKey = format_time now"
    by (simp_all add: data' str_at_def alist_lookup_update secret_keys)
  have young: "time_since later ?t < inboundRotationGrace"
    using assms(6,7) by (simp add: time_since_def inboundRotationGrace_def hour_def second_def)
  then have "grace_secret parse_time later data' = Some (str_at data webhookSecretKey)"
    using assms(2,3,5) by (simp add: grace_secret_def at Let_def)
  moreover have "rotateInboundBindingSecret parse_time format_time (Found bs) binding (Found data') rnd later ok
      = (RotationInProgress, None)"
    using assms(2,3,8) ex young by (simp add: rotateInboundBindingSecret_def at Let_def)
  ultimately show ?thesis using assms(4) by (simp add: signature_ok_def at)
qed

subsection \<open>Examples\<close>

text \<open>A server whose MAC is the secret itself, with the in-memory stores, and a signed request.\<close>

definition example_server :: "(memory_deduper, memory_cache, nat, string, string) inbound_server" where
  "example_server = \<lparr>sv_mac = (\<lambda>s b. s), sv_json = echo_lib, sv_parse_time = (\<lambda>s. if s = ''t'' then Some 0 else None),
     sv_deduper = Some (memory_seen (\<lambda>b. b)), sv_cache = Some (\<lambda>rid e now c. Put rid e now c, memory_get),
     sv_limiter = None, sv_queue = True, sv_recorder = False, sv_aggregator = False\<rparr>"

definition example_request :: "string \<Rightarrow> request_env" where
  "example_request sig = \<lparr>rx_post = True, rx_path = ''/webhooks/inbound/a/ci'', rx_body = Some ''x'',
     rx_headers = [(''X-Sig'', [sig])], rx_request_id = ''r1'', rx_uuid = ''u1'',
     rx_agent = Found [example_binding], rx_secret = Found [(''webhook-secret'', ''s'')], rx_now = 0,
     rx_append_ok = False\<rparr>"

definition example_state :: "(memory_deduper, memory_cache, nat) inbound_state" where
  "example_state = \<lparr>is_dedup = [], is_cache = NewMemoryEnvelopeCache, is_limits = [], is_queue = NewQueue,
     is_runs = [], is_events = [], is_aggregator = \<lparr>ag_counts = [], ag_stopped = False\<rparr>\<rparr>"

lemma example_values:
  "parse_inbound_path ''/webhooks/inbound/a/ci'' = Some (''a'', ''ci'')"
  "header_Get [(''X-Sig'', [sig])] ''X-Sig'' = sig"
  "Verify (\<lambda>s b. s) ''s'' ''x'' ''73'' ''''" "\<not> Verify (\<lambda>s b. s) ''s'' ''x'' ''74'' ''''"
  "str_at [(''webhook-secret'', ''s'')] webhookSecretKey = ''s''"
  "str_at [(''webhook-secret'', ''s'')] webhookSecretPrevKey = ''''"
proof -
  show "parse_inbound_path ''/webhooks/inbound/a/ci'' = Some (''a'', ''ci'')" by code_simp
  have "canonical_header ''X-Sig'' = ''X-Sig''" by code_simp
  then show "header_Get [(''X-Sig'', [sig])] ''X-Sig'' = sig" by (simp add: header_Get_def)
  show "Verify (\<lambda>s b. s) ''s'' ''x'' ''73'' ''''" by code_simp
  show "\<not> Verify (\<lambda>s b. s) ''s'' ''x'' ''74'' ''''" by code_simp
  show "str_at [(''webhook-secret'', ''s'')] webhookSecretKey = ''s''" by code_simp
  show "str_at [(''webhook-secret'', ''s'')] webhookSecretPrevKey = ''''" by code_simp
qed

lemma example_resolved:
  "resolved_request (example_request sig) = Some (''a'', ''ci'', example_binding, ''x'')"
  by (simp add: resolved_request_def example_request_def example_values find_binding_def inboundBodyLimit_def)
     (simp add: example_binding_def)

lemma example_binding_fields:
  "ib_Name example_binding = ''ci''" "ib_SignatureHeader example_binding = ''X-Sig''"
  "ib_SignaturePrefix example_binding = ''''" "ib_ExistingSecret example_binding = ''s''"
  "\<not> ib_Disabled example_binding" "ib_MatchEvents example_binding = []" "ib_Filters example_binding = []"
  "ib_Limits example_binding = None"
  by (simp_all add: example_binding_def)

lemma example_authentic: "authentic example_server (example_request ''73'') = Some (''a'', ''ci'', example_binding, ''x'')"
  by (simp add: authentic_def example_resolved)
     (simp add: example_request_def example_values example_binding_fields signature_ok_def example_server_def)

lemma example_forged: "authentic example_server (example_request ''74'') = None"
  by (simp add: authentic_def example_resolved)
     (simp add: example_request_def example_values example_binding_fields signature_ok_def example_server_def
        grace_secret_def)

lemma Enqueue_new: "fst (Enqueue j NewQueue) = Accepted j"
  by (simp add: Enqueue_def enqueue_locked_def enqueue_send_def Let_def NewQueue_def set_channel_def
        new_channel_def QueueDepth_def)

lemma example_match: "d_Match (Decide lib body h rid agent example_binding)"
  by (simp add: Decide_def example_binding_fields Let_def)

lemma example_server_fields:
  "sv_queue example_server" "sv_limiter example_server = None" "sv_recorder example_server = False"
  "sv_deduper example_server = Some (memory_seen (\<lambda>b. b))"
  "sv_cache example_server = Some (\<lambda>rid e now c. Put rid e now c, memory_get)"
  "sv_parse_time example_server = (\<lambda>s. if s = ''t'' then Some 0 else None)"
  by (simp_all add: example_server_def)

lemma example_enqueued:
  assumes "is_queue st = NewQueue"
  shows "fst (enqueue_prompt example_server env agent binding rid e st) = Dispatched rid"
  using assms Enqueue_new [of "inbound_job agent binding rid e (rx_now env)"]
  by (simp add: enqueue_prompt_def example_server_fields Let_def case_prod_unfold)

lemma example_decided:
  assumes "is_queue st = NewQueue"
  shows "fst (decide_prompt example_server env agent binding example_binding rid body st) = Dispatched rid"
  by (simp add: decide_prompt_def example_match dispatch_prompt_def take_permit_def example_server_fields Let_def
        example_enqueued assms)

lemma example_unseen: "\<not> fst (consult_deduper example_server 0 ''x'' example_state)"
  by (simp add: consult_deduper_def example_server_fields memory_seen_def SeenWithin_def example_state_def Let_def)

lemma example_dispatched: "fst (handleInbound example_server (example_request ''73'') example_state) = Dispatched ''r1''"
proof -
  have "rx_now (example_request ''73'') = 0" "request_id (example_request ''73'') = ''r1''"
    by (simp_all add: example_request_def request_id_def)
  moreover have "is_queue (snd (consult_deduper example_server 0 ''x'' example_state)) = NewQueue"
    by (simp add: example_state_def)
  ultimately show ?thesis
    by (simp add: handle_authentic [OF example_authentic] receive_authentic_def example_binding_fields
          example_unseen example_decided case_prod_unfold Let_def)
qed

lemma unauthenticated_request_inert_witness:
  "delivery_state (snd (handleInbound example_server (example_request ''74'') example_state))
     = delivery_state example_state
   \<and> status_of (fst (handleInbound example_server (example_request ''74'') example_state)) = 401"
  using unauthenticated_request_inert [OF example_forged, of example_state]
  by (simp add: example_request_def inboundBodyLimit_def)

lemma dispatched_once_witness:
  "\<exists>j. held ''a'' (is_queue (snd (handleInbound example_server (example_request ''73'') example_state))) = [j]"
  using dispatched_once [OF example_dispatched]
  by (auto simp: example_authentic example_state_def NewQueue_def held_def)

lemma refused_prompt_replayable_witness:
  "\<exists>answer. replayInboundRun example_server (example_request ''73'') ''a'' ''ci'' ''r1''
       (snd (handleInbound example_server (example_request ''73'') example_state)) = answer
     \<and> fst answer \<in> {Queued ''r1'' ''u1'', QueueFull, HandlerPanic}"
proof -
  let ?st1 = "snd (handleInbound example_server (example_request ''73'') example_state)"
  let ?r = "replayInboundRun example_server (example_request ''73'') ''a'' ''ci'' ''r1'' ?st1"
  have id: "request_id (example_request ''73'') = ''r1''" "rx_uuid (example_request ''73'') = ''u1''"
    "rx_agent (example_request ''73'') = Found [example_binding]"
    by (simp_all add: example_request_def request_id_def)
  have bound: "find_binding ''ci'' [example_binding] = Some example_binding"
    by (simp add: find_binding_def example_binding_fields)
  have young: "rx_now (example_request ''73'') < rx_now (example_request ''73'') + ec_ttl (is_cache example_state)"
    by (simp add: example_state_def NewMemoryEnvelopeCache_def hour_def)
  have sent: "fst (handleInbound example_server (example_request ''73'') example_state)
      \<in> {Dispatched (request_id (example_request ''73'')), RateLimited, QueueFull}"
    by (simp add: example_dispatched id)
  have r: "replayInboundRun example_server (example_request ''73'') ''a'' ''ci'' (request_id (example_request ''73'')) ?st1
      = (fst ?r, snd ?r)" by (simp add: id)
  show ?thesis
    using refused_prompt_replayable [OF example_authentic sent example_server_fields(5,1) id(3) bound refl r] young
    by (auto simp: id)
qed

text \<open>The same body, signed for a binding of another agent.\<close>

definition example_request2 :: request_env where
  "example_request2 = (example_request ''73'')\<lparr>rx_path := ''/webhooks/inbound/b/ci'', rx_request_id := ''r2''\<rparr>"

lemma example_authentic2: "authentic example_server example_request2 = Some (''b'', ''ci'', example_binding, ''x'')"
proof -
  have "parse_inbound_path ''/webhooks/inbound/b/ci'' = Some (''b'', ''ci'')" by code_simp
  then have "resolved_request example_request2 = Some (''b'', ''ci'', example_binding, ''x'')"
    by (simp add: resolved_request_def example_request2_def example_request_def find_binding_def
          inboundBodyLimit_def example_binding_fields)
  then show ?thesis
    by (simp add: authentic_def)
       (simp add: example_request2_def example_request_def example_values example_binding_fields signature_ok_def
          example_server_def)
qed

lemma same_body_other_agent_dropped_witness:
  "fst (handleInbound example_server example_request2
      (snd (handleInbound example_server (example_request ''73'') example_state))) = Deduped ''r2''"
proof -
  have "rx_now example_request2 < rx_now (example_request ''73'') + 24 * hour" "request_id example_request2 = ''r2''"
    by (simp_all add: example_request2_def example_request_def hour_def request_id_def)
  with same_body_other_agent_dropped [OF example_server_fields(4) example_authentic example_dispatched
      example_authentic2 _ _ refl] show ?thesis
    by (simp add: example_binding_fields)
qed

lemma rotation_grace_witness:
  "signature_ok example_server 5 example_binding
     (the (snd (rotateInboundBindingSecret (sv_parse_time example_server) (\<lambda>t. ''t'') (Found [example_binding]) ''ci''
        (Found [(''webhook-secret'', ''s'')]) (Some ''n'') 0 True))) ''x'' ''73''"
proof -
  let ?r = "rotateInboundBindingSecret (sv_parse_time example_server) (\<lambda>t. ''t'') (Found [example_binding]) ''ci''
      (Found [(''webhook-secret'', ''s'')]) (Some ''n'') 0 True"
  have bound: "find_binding ''ci'' [example_binding] = Some example_binding"
    by (simp add: find_binding_def example_binding_fields)
  have r: "?r = (Rotated ''n'' ''t'', Some (the (snd ?r)))"
    by (simp add: rotateInboundBindingSecret_def bound example_binding_fields Let_def)
       (simp add: str_at_def secret_keys)
  have verified: "Verify (sv_mac example_server) (str_at [(''webhook-secret'', ''s'')] webhookSecretKey) ''x'' ''73''
      (ib_SignaturePrefix example_binding)"
    using example_values(3) by (simp add: example_values(5) example_binding_fields example_server_def)
  show ?thesis
    by (rule iffD2 [OF conjunct1 [OF rotation_grace [OF r _ _ refl _ _ _ bound]]])
       (use verified in \<open>simp_all add: example_server_fields example_values hour_def\<close>)
qed

end
