(* ===== verification/Credential_Registry.thy ===== *)
theory Credential_Registry
  imports Go_Prelude
begin

section \<open>The operator credential document (\<open>pkg/operatorcredentials\<close>: model, transition, codec)\<close>

text \<open>
  The registry of operator keys is one document, written as a whole. \<open>validate\<close> says which documents
  may be stored, \<open>transition\<close> which document may replace which, and \<open>encode\<close> and \<open>decode\<close> pass every
  document through both. Counters are 64-bit words. Slices and absent byte strings are lists: nil
  and empty are not told apart. Parameters (\<open>cred_lib\<close>) are the Unicode tables, the Kubernetes
  name rules, UUID parsing and JSON.
\<close>

subsection \<open>The data model\<close>

datatype cred_error =
    ErrInvalid | ErrUnsupported | ErrConflict | ErrUnavailable | ErrUninitialized | ErrCapacity
  | ErrLastAdministrator

definition SchemaVersion :: int where "SchemaVersion = 1"
definition MaxDocumentBytes :: nat where "MaxDocumentBytes = 512 * 1024"
definition MaxCredentials :: nat where "MaxCredentials = 256"
definition MaxOperations :: nat where "MaxOperations = 128"

definition RoleAdministrator :: "string" where "RoleAdministrator = ''administrator''"
definition RoleRestricted :: "string" where "RoleRestricted = ''restricted''"
definition StateActive :: "string" where "StateActive = ''active''"
definition StateRevoked :: "string" where "StateRevoked = ''revoked''"

lemmas registry_words = RoleAdministrator_def RoleRestricted_def StateActive_def StateRevoked_def

record secret_reference =
  sr_Name :: string
  sr_Key :: string

record caller_reference =
  cr_Secret :: secret_reference
  cr_CredentialID :: string
  cr_CallerName :: string

record source =
  so_Kind :: string
  so_MaterialRef :: "secret_reference option"
  so_ConfigurationRef :: "caller_reference option"

record credential =
  c_ID :: string
  c_PrincipalID :: string
  c_TenantID :: string
  c_Kind :: string
  c_Issuer :: string
  c_Subject :: string
  c_Name :: string
  c_Role :: string
  c_State :: string
  c_Generation :: "64 word"
  c_PermissionRevision :: "64 word"
  c_Scopes :: "string list"
  c_AgentResources :: "string list"
  c_MachineResources :: "string list"
  c_Source :: source
  c_CreatedAt :: "time option"
  c_ExpiresAt :: "time option"
  c_material :: string
  c_legacyBrowserGeneration :: "64 word"

record operation =
  op_ID :: string
  op_AdmissionEventID :: string
  op_CompletionEventID :: string
  op_RequestID :: string
  op_Action :: string
  op_ActorPrincipalID :: string
  op_ActorCredentialID :: string
  op_ActorGeneration :: "64 word"
  op_Authority :: string
  op_TargetCredentialID :: string
  op_At :: time
  op_Status :: string

record document =
  d_SchemaVersion :: int
  d_Namespace :: string
  d_Credentials :: "credential list"
  d_Operations :: "operation list"
  d_legacyKey :: string
  d_legacyGeneration :: "64 word"
  d_legacyIssuedBefore :: time
  d_legacyExpiresBefore :: time

text \<open>
  The code the document relies on: \<open>unicode.IsPrint\<close> of a rune given by its bytes, \<open>strings.ToLower\<close>,
  the three name rules of \<open>k8s.io/apimachinery\<close>, canonical UUIDs, \<open>json.Marshal\<close> of the wire form and
  the strict JSON decoding of \<open>decode\<close> (inspection, schema header, known fields).
\<close>

record cred_lib =
  cl_is_print :: "string \<Rightarrow> bool"
  cl_to_lower :: "string \<Rightarrow> string"
  cl_dns_label :: "string \<Rightarrow> bool"
  cl_dns_subdomain :: "string \<Rightarrow> bool"
  cl_config_key :: "string \<Rightarrow> bool"
  cl_canonical_uuid :: "string \<Rightarrow> bool"
  cl_marshal :: "document \<Rightarrow> string option"
  cl_inspect :: "string \<Rightarrow> bool"
  cl_header :: "string \<Rightarrow> int option"
  cl_unmarshal :: "string \<Rightarrow> document option"

subsection \<open>Names\<close>

definition is_control :: "string \<Rightarrow> bool" where
  "is_control r =
     (case r of
        [c] \<Rightarrow> (of_char c :: nat) < 32 \<or> (of_char c :: nat) = 127
      | [b, c] \<Rightarrow> (of_char b :: nat) = 194 \<and> (of_char c :: nat) \<le> 159
      | _ \<Rightarrow> False)"

definition opaque :: "string \<Rightarrow> bool" where
  "opaque s \<longleftrightarrow>
     s \<noteq> '''' \<and> length s \<le> 512 \<and> ValidString s \<and> TrimSpace s \<noteq> ''''
     \<and> list_all (\<lambda>r. \<not> is_control r) (runes s)"

text \<open>No letter of \<open>legacy\<close> folds to anything outside ASCII, so folding is ASCII case.\<close>

definition displayName :: "cred_lib \<Rightarrow> string \<Rightarrow> bool" where
  "displayName lib s \<longleftrightarrow>
     opaque s \<and> length s \<le> 256 \<and> map ascii_lower (TrimSpace s) \<noteq> ''legacy''
     \<and> list_all (cl_is_print lib) (runes s)"

text \<open>The years 2000 to 9999: days since year 1 times the length of a day.\<close>

definition validTime :: "time \<Rightarrow> bool" where
  "validTime t \<longleftrightarrow> t \<noteq> 0 \<and> 730119 * (24 * hour) \<le> t \<and> t < 3652059 * (24 * hour)"

definition validReference :: "cred_lib \<Rightarrow> secret_reference \<Rightarrow> bool" where
  "validReference lib r \<longleftrightarrow> cl_dns_subdomain lib (sr_Name r) \<and> cl_config_key lib (sr_Key r)"

definition lower_alnum_dash :: "char \<Rightarrow> bool" where
  "lower_alnum_dash c \<longleftrightarrow> (97 \<le> (of_char c :: nat) \<and> (of_char c :: nat) \<le> 122) \<or> is_digit c \<or> c = CHR ''-''"

definition scope_segment :: "string \<Rightarrow> bool" where
  "scope_segment s \<longleftrightarrow> s \<noteq> '''' \<and> 97 \<le> (of_char (hd s) :: nat) \<and> (of_char (hd s) :: nat) \<le> 122 \<and> list_all lower_alnum_dash (tl s)"

text \<open>The two regular expressions.\<close>

definition scopeName :: "string \<Rightarrow> bool" where
  "scopeName s \<longleftrightarrow> 2 \<le> length (split_on CHR '':'' s) \<and> list_all scope_segment (split_on CHR '':'' s)"

definition alnum :: "char \<Rightarrow> bool" where
  "alnum c \<longleftrightarrow> (97 \<le> (of_char c :: nat) \<and> (of_char c :: nat) \<le> 122)
     \<or> (65 \<le> (of_char c :: nat) \<and> (of_char c :: nat) \<le> 90) \<or> is_digit c"

definition requestID :: "string \<Rightarrow> bool" where
  "requestID s \<longleftrightarrow>
     s \<noteq> '''' \<and> length s \<le> 128 \<and> alnum (hd s) \<and> list_all (\<lambda>c. alnum c \<or> c \<in> set ''_.:-'') (tl s)"

subsection \<open>Normal form\<close>

definition ordered :: "string list \<Rightarrow> string list" where
  "ordered vs = sort vs"

fun distinct_adjacent :: "string list \<Rightarrow> bool" where
  "distinct_adjacent (a # b # vs) = (a \<noteq> b \<and> distinct_adjacent (b # vs))"
| "distinct_adjacent _ = True"

definition to_micros :: "time \<Rightarrow> time" where
  "to_micros t = t - t mod 1000"

definition normal_credential :: "credential \<Rightarrow> credential" where
  "normal_credential c =
     c\<lparr>c_Scopes := ordered (c_Scopes c), c_AgentResources := ordered (c_AgentResources c),
       c_MachineResources := ordered (c_MachineResources c),
       c_CreatedAt := map_option to_micros (c_CreatedAt c), c_ExpiresAt := map_option to_micros (c_ExpiresAt c)\<rparr>"

definition normal_operation :: "operation \<Rightarrow> operation" where
  "normal_operation p = p\<lparr>op_At := to_micros (op_At p)\<rparr>"

definition normalized :: "document \<Rightarrow> document" where
  "normalized d =
     d\<lparr>d_legacyIssuedBefore := to_micros (d_legacyIssuedBefore d),
       d_legacyExpiresBefore := to_micros (d_legacyExpiresBefore d),
       d_Credentials := sort_key c_ID (map normal_credential (d_Credentials d)),
       d_Operations := sort_key op_ID (map normal_operation (d_Operations d))\<rparr>"

subsection \<open>Which documents may be stored\<close>

definition legacy_key_ok :: "document \<Rightarrow> bool" where
  "legacy_key_ok d =
     (if d_legacyKey d = ''''
      then d_legacyGeneration d = 0 \<and> d_legacyIssuedBefore d = 0 \<and> d_legacyExpiresBefore d = 0
      else length (d_legacyKey d) = 32 \<and> d_legacyGeneration d \<noteq> 0 \<and> validTime (d_legacyIssuedBefore d)
           \<and> validTime (d_legacyExpiresBefore d) \<and> d_legacyIssuedBefore d < d_legacyExpiresBefore d)"

definition times_ok :: "credential \<Rightarrow> bool" where
  "times_ok c \<longleftrightarrow>
     (case c_CreatedAt c of None \<Rightarrow> True | Some t \<Rightarrow> validTime t)
     \<and> (case c_ExpiresAt c of None \<Rightarrow> True | Some t \<Rightarrow> validTime t)
     \<and> (case (c_CreatedAt c, c_ExpiresAt c) of (Some a, Some b) \<Rightarrow> a < b | _ \<Rightarrow> True)"

definition source_ok :: "cred_lib \<Rightarrow> source \<Rightarrow> bool" where
  "source_ok lib s =
     (if so_Kind s = ''installation'' \<or> so_Kind s = ''managed''
      then so_MaterialRef s = None \<and> so_ConfigurationRef s = None
      else if so_Kind s = ''external''
      then (so_MaterialRef s \<noteq> None \<or> so_ConfigurationRef s \<noteq> None)
           \<and> (case so_MaterialRef s of None \<Rightarrow> True | Some r \<Rightarrow> validReference lib r)
           \<and> (case so_ConfigurationRef s of
                None \<Rightarrow> True
              | Some r \<Rightarrow> validReference lib (cr_Secret r)
                  \<and> (cr_CredentialID r \<noteq> '''' \<or> cr_CallerName r \<noteq> '''')
                  \<and> (cr_CredentialID r = '''' \<or> opaque (cr_CredentialID r))
                  \<and> (cr_CallerName r = '''' \<or> opaque (cr_CallerName r)))
      else False)"

definition target_ok :: "cred_lib \<Rightarrow> string \<Rightarrow> string \<Rightarrow> bool" where
  "target_ok lib namespace target =
     (case split_on CHR ''/'' target of
        [ns, name] \<Rightarrow> ns = namespace \<and> cl_dns_subdomain lib name
      | _ \<Rightarrow> False)"

definition role_ok :: "cred_lib \<Rightarrow> string \<Rightarrow> credential \<Rightarrow> bool" where
  "role_ok lib namespace c =
     (if c_Role c = RoleAdministrator
      then c_Scopes c = []
           \<and> list_all (\<lambda>ts. ts = [] \<or> ts = [''*'']) [c_AgentResources c, c_MachineResources c]
      else if c_Role c = RoleRestricted
      then list_all (\<lambda>s. length s \<le> 64 \<and> scopeName s) (c_Scopes c)
           \<and> list_all (list_all (target_ok lib namespace)) [c_AgentResources c, c_MachineResources c]
      else False)"

definition material_ok :: "credential \<Rightarrow> bool" where
  "material_ok c =
     (if c_State c = StateRevoked then c_material c = ''''
      else length (c_material c) \<le> 4096 \<and> TrimSpace (c_material c) \<noteq> '''')"

text \<open>The checks of the loop body that look at one credential.\<close>

definition credential_ok :: "cred_lib \<Rightarrow> document \<Rightarrow> credential \<Rightarrow> bool" where
  "credential_ok lib d c \<longleftrightarrow>
     c_legacyBrowserGeneration c \<le> c_Generation c
     \<and> (0 < c_legacyBrowserGeneration c \<longrightarrow> d_legacyKey d \<noteq> '''')
     \<and> opaque (c_ID c) \<and> opaque (c_PrincipalID c) \<and> opaque (c_TenantID c) \<and> displayName lib (c_Name c)
     \<and> c_Generation c \<noteq> 0 \<and> c_PermissionRevision c \<noteq> 0
     \<and> list_all (\<lambda>v. v = '''' \<or> opaque v) [c_Kind c, c_Issuer c, c_Subject c]
     \<and> times_ok c
     \<and> (c_State c = StateActive \<or> c_State c = StateRevoked) \<and> material_ok c
     \<and> source_ok lib (c_Source c)
     \<and> distinct_adjacent (c_Scopes c) \<and> distinct_adjacent (c_AgentResources c)
     \<and> distinct_adjacent (c_MachineResources c)
     \<and> length (c_Scopes c) \<le> 64 \<and> length (c_AgentResources c) \<le> 256 \<and> length (c_MachineResources c) \<le> 256
     \<and> role_ok lib (d_Namespace d) c"

text \<open>The loop itself, with the ids and folded names it has seen.\<close>

fun credentials_ok :: "cred_lib \<Rightarrow> document \<Rightarrow> string list \<Rightarrow> string list \<Rightarrow> credential list \<Rightarrow> bool" where
  "credentials_ok lib d ids names [] = True"
| "credentials_ok lib d ids names (c # cs) =
     (let name = cl_to_lower lib (TrimSpace (c_Name c)) in
      credential_ok lib d c \<and> c_ID c \<notin> set ids \<and> name \<notin> set names
      \<and> credentials_ok lib d (c_ID c # ids) (name # names) cs)"

text \<open>An administrator the installation itself manages, active and without an expiry.\<close>

definition lasting_administrator :: "credential \<Rightarrow> bool" where
  "lasting_administrator c \<longleftrightarrow>
     c_Role c = RoleAdministrator \<and> c_State c = StateActive \<and> c_ExpiresAt c = None
     \<and> so_Kind (c_Source c) \<noteq> ''external''"

definition active_materials :: "document \<Rightarrow> string list" where
  "active_materials d = map c_material (filter (\<lambda>c. c_State c = StateActive) (d_Credentials d))"

definition credential_by_id :: "string \<Rightarrow> credential list \<Rightarrow> credential option" where
  "credential_by_id i cs = List.find (\<lambda>c. c_ID c = i) cs"

definition action_ok :: "operation \<Rightarrow> bool" where
  "action_ok p =
     (if op_Action p \<in> set [''create'', ''update'', ''rotate'', ''revoke''] then opaque (op_TargetCredentialID p)
      else if op_Action p = ''adopt'' then op_TargetCredentialID p = '''' \<or> opaque (op_TargetCredentialID p)
      else False)"

text \<open>
  A missing actor reads as the zero value of the map \<open>principals\<close>, which no opaque principal equals.
\<close>

definition operation_ok :: "cred_lib \<Rightarrow> document \<Rightarrow> operation \<Rightarrow> bool" where
  "operation_ok lib d p \<longleftrightarrow>
     cl_canonical_uuid lib (op_ID p) \<and> requestID (op_RequestID p) \<and> opaque (op_ActorPrincipalID p)
     \<and> opaque (op_ActorCredentialID p) \<and> op_ActorGeneration p \<noteq> 0 \<and> validTime (op_At p)
     \<and> (case credential_by_id (op_ActorCredentialID p) (d_Credentials d) of
          None \<Rightarrow> op_ActorPrincipalID p = '''' \<and> op_ActorGeneration p \<le> 0
        | Some c \<Rightarrow> c_PrincipalID c = op_ActorPrincipalID p \<and> op_ActorGeneration p \<le> c_Generation c)
     \<and> (op_TargetCredentialID p \<noteq> '''' \<longrightarrow> op_TargetCredentialID p \<in> c_ID ` set (d_Credentials d))
     \<and> cl_canonical_uuid lib (op_AdmissionEventID p) \<and> cl_canonical_uuid lib (op_CompletionEventID p)
     \<and> op_AdmissionEventID p \<noteq> op_CompletionEventID p
     \<and> (op_Authority p = ''configuration'' \<or> op_Authority p = ''registry'')
     \<and> (op_Status p = ''pending'' \<or> op_Status p = ''delivered'')
     \<and> action_ok p"

fun operations_ok :: "cred_lib \<Rightarrow> document \<Rightarrow> string list \<Rightarrow> string list \<Rightarrow> operation list \<Rightarrow> bool" where
  "operations_ok lib d ids events [] = True"
| "operations_ok lib d ids events (p # ps) =
     (operation_ok lib d p \<and> op_ID p \<notin> set ids
      \<and> op_AdmissionEventID p \<notin> set events \<and> op_CompletionEventID p \<notin> set events
      \<and> operations_ok lib d (op_ID p # ids) (op_CompletionEventID p # op_AdmissionEventID p # events) ps)"

definition validate :: "cred_lib \<Rightarrow> document \<Rightarrow> cred_error option" where
  "validate lib d =
     (if \<not> legacy_key_ok d then Some ErrInvalid
      else if d_SchemaVersion d \<noteq> SchemaVersion then Some ErrUnsupported
      else if \<not> cl_dns_label lib (d_Namespace d) then Some ErrInvalid
      else if MaxCredentials < length (d_Credentials d) \<or> MaxOperations < length (d_Operations d) then Some ErrCapacity
      else if \<not> credentials_ok lib d [] [] (d_Credentials d) then Some ErrInvalid
      else if \<not> distinct_adjacent (sort (active_materials d)) then Some ErrInvalid
      else if \<not> list_ex lasting_administrator (d_Credentials d) then Some ErrLastAdministrator
      else if \<not> operations_ok lib d [] [] (d_Operations d) then Some ErrInvalid
      else None)"

definition encode :: "cred_lib \<Rightarrow> document \<Rightarrow> cred_error + (string \<times> document)" where
  "encode lib d =
     (if MaxCredentials < length (d_Credentials d) \<or> MaxOperations < length (d_Operations d) then Inl ErrCapacity
      else if list_ex (\<lambda>c. 64 < length (c_Scopes c) \<or> 256 < length (c_AgentResources c)
                           \<or> 256 < length (c_MachineResources c) \<or> 4096 < length (c_material c)) (d_Credentials d)
      then Inl ErrCapacity
      else (let n = normalized d in
            case validate lib n of
              Some e \<Rightarrow> Inl e
            | None \<Rightarrow>
                (case cl_marshal lib n of
                   None \<Rightarrow> Inl ErrInvalid
                 | Some raw \<Rightarrow> if MaxDocumentBytes < length raw then Inl ErrCapacity else Inr (raw, n))))"

definition Validate :: "cred_lib \<Rightarrow> document \<Rightarrow> cred_error option" where
  "Validate lib d = (case encode lib d of Inl e \<Rightarrow> Some e | Inr _ \<Rightarrow> None)"

definition decode :: "cred_lib \<Rightarrow> string \<Rightarrow> cred_error + document" where
  "decode lib raw =
     (if MaxDocumentBytes < length raw then Inl ErrCapacity
      else if \<not> cl_inspect lib raw then Inl ErrInvalid
      else case cl_header lib raw of
             None \<Rightarrow> Inl ErrInvalid
           | Some v \<Rightarrow>
               if v \<noteq> SchemaVersion then Inl ErrUnsupported
               else (case cl_unmarshal lib raw of
                       None \<Rightarrow> Inl ErrInvalid
                     | Some d \<Rightarrow> (case encode lib d of Inl e \<Rightarrow> Inl e | Inr (_, n) \<Rightarrow> Inr n)))"

subsection \<open>Which document may replace which\<close>

text \<open>
  \<open>sameCreation\<close> and \<open>samePolicy\<close>: the policy of a credential is everything but its name, creation
  time, material and counters.
\<close>

definition sameCreation :: "credential \<Rightarrow> credential \<Rightarrow> bool" where
  "sameCreation a b \<longleftrightarrow> c_CreatedAt a = c_CreatedAt b"

definition policy_of :: "credential \<Rightarrow> credential" where
  "policy_of c = c\<lparr>c_Name := '''', c_CreatedAt := None, c_material := '''', c_Generation := 0, c_PermissionRevision := 0\<rparr>"

definition samePolicy :: "credential \<Rightarrow> credential \<Rightarrow> bool" where
  "samePolicy a b \<longleftrightarrow> policy_of a = policy_of b"

text \<open>The checks of the loop body on a credential that existed before.\<close>

definition succeeds :: "credential \<Rightarrow> credential \<Rightarrow> bool" where
  "succeeds prior c \<longleftrightarrow>
     c_PrincipalID prior = c_PrincipalID c \<and> c_TenantID prior = c_TenantID c \<and> c_Kind prior = c_Kind c
     \<and> c_Issuer prior = c_Issuer c \<and> c_Subject prior = c_Subject c
     \<and> c_legacyBrowserGeneration prior = c_legacyBrowserGeneration c \<and> sameCreation prior c
     \<and> (let materialChanged = (c_material prior \<noteq> c_material c);
            policyChanged = (\<not> samePolicy prior c)
        in if c_State prior = StateRevoked
           then c_State c = StateRevoked \<and> \<not> materialChanged \<and> \<not> policyChanged
                \<and> c_Generation c = c_Generation prior \<and> c_PermissionRevision c = c_PermissionRevision prior
           else (if c_State c = StateRevoked then c_Generation c = c_Generation prior
                 else if materialChanged then c_Generation c = c_Generation prior + 1
                 else c_Generation c = c_Generation prior)
                \<and> (if policyChanged then c_PermissionRevision c = c_PermissionRevision prior + 1
                   else c_PermissionRevision c = c_PermissionRevision prior))"

text \<open>A Go map built from a slice: the last entry of a key wins.\<close>

definition index_by :: "('a \<Rightarrow> string) \<Rightarrow> 'a list \<Rightarrow> (string, 'a) gomap" where
  "index_by f xs = fold (\<lambda>x m. AList.update (f x) x m) xs []"

definition new_operation_ok :: "(string, credential) gomap \<Rightarrow> operation \<Rightarrow> bool" where
  "new_operation_ok actors p \<longleftrightarrow>
     op_Status p = ''pending''
     \<and> (case map_of actors (op_ActorCredentialID p) of
          None \<Rightarrow> False
        | Some a \<Rightarrow> c_State a = StateActive \<and> c_Role a = RoleAdministrator
            \<and> c_PrincipalID a = op_ActorPrincipalID p \<and> c_Generation a = op_ActorGeneration p)"

definition kept_operation_ok :: "operation \<Rightarrow> operation \<Rightarrow> bool" where
  "kept_operation_ok prior p \<longleftrightarrow>
     prior\<lparr>op_Status := ''''\<rparr> = p\<lparr>op_Status := ''''\<rparr>
     \<and> (op_Status prior = ''delivered'' \<longrightarrow> op_Status p = ''delivered'')"

definition operation_step_ok :: "(string, operation) gomap \<Rightarrow> (string, credential) gomap \<Rightarrow> operation \<Rightarrow> bool" where
  "operation_step_ok operations actors p =
     (case map_of operations (op_ID p) of
        Some prior \<Rightarrow> kept_operation_ok prior p
      | None \<Rightarrow> new_operation_ok actors p)"

text \<open>The targets of the new operations; an adoption without a target is the empty string.\<close>

definition new_references :: "(string, operation) gomap \<Rightarrow> document \<Rightarrow> string list" where
  "new_references operations next =
     map op_TargetCredentialID (filter (\<lambda>p. map_of operations (op_ID p) = None) (d_Operations next))"

text \<open>
  The loop over the next credentials; \<open>previous\<close> shrinks, the result is what is left of it, and
  \<open>None\<close> is \<open>ErrInvalid\<close>.
\<close>

fun transition_credentials ::
  "bool \<Rightarrow> string list \<Rightarrow> (string, credential) gomap \<Rightarrow> credential list \<Rightarrow> (string, credential) gomap option" where
  "transition_credentials initial refs previous [] = Some previous"
| "transition_credentials initial refs previous (c # cs) =
     (let referenced = (c_ID c \<in> set refs \<or> '''' \<in> set refs) in
      case map_of previous (c_ID c) of
        Some prior \<Rightarrow>
          if \<not> succeeds prior c then None
          else if prior = c \<or> referenced
            then transition_credentials initial refs (AList.delete (c_ID c) previous) cs
          else None
      | None \<Rightarrow>
          if \<not> initial \<and> c_legacyBrowserGeneration c \<noteq> 0 then None
          else if referenced then transition_credentials initial refs previous cs
          else None)"

definition same_frame :: "document \<Rightarrow> document \<Rightarrow> bool" where
  "same_frame old next \<longleftrightarrow>
     d_Namespace old = d_Namespace next \<and> d_SchemaVersion old = d_SchemaVersion next
     \<and> d_legacyKey old = d_legacyKey next \<and> d_legacyGeneration old = d_legacyGeneration next
     \<and> d_legacyIssuedBefore old = d_legacyIssuedBefore next
     \<and> d_legacyExpiresBefore old = d_legacyExpiresBefore next"

definition transition :: "document option \<Rightarrow> document \<Rightarrow> cred_error option" where
  "transition old next =
     (let previous = (case old of None \<Rightarrow> [] | Some d \<Rightarrow> index_by c_ID (d_Credentials d));
          operations = (case old of None \<Rightarrow> [] | Some d \<Rightarrow> index_by op_ID (d_Operations d));
          actors = (case old of None \<Rightarrow> index_by c_ID (d_Credentials next) | Some d \<Rightarrow> previous);
          kept = set (map op_ID (d_Operations next))
      in if (case old of None \<Rightarrow> False | Some d \<Rightarrow> \<not> same_frame d next) then Some ErrInvalid
         else if \<not> list_all (operation_step_ok operations actors) (d_Operations next) then Some ErrInvalid
         else if list_ex (\<lambda>(i, p). i \<notin> kept \<and> op_Status p = ''pending'') operations then Some ErrInvalid
         else case transition_credentials (old = None) (new_references operations next) previous (d_Credentials next) of
                None \<Rightarrow> Some ErrInvalid
              | Some left \<Rightarrow> if left \<noteq> [] then Some ErrInvalid else None)"

subsection \<open>Normal documents\<close>

lemma distinct_adjacent_sorted: "sorted vs \<Longrightarrow> distinct_adjacent vs \<longleftrightarrow> distinct vs"
proof (induction vs rule: distinct_adjacent.induct)
  case (1 a b vs)
  then have "\<forall>v\<in>set vs. b \<le> v" "a \<le> b" by simp_all
  with 1 show ?case by (auto dest: order_antisym)
qed simp_all

lemma materials_distinct: "distinct_adjacent (sort (active_materials d)) \<longleftrightarrow> distinct (active_materials d)"
  by (simp add: distinct_adjacent_sorted)

lemma sort_key_map: "(\<And>x. f (g x) = f x) \<Longrightarrow> map g (sort_key f xs) = sort_key f (map g xs)"
proof (induction xs)
  case (Cons x xs)
  have "map g (insort_key f x ys) = insort_key f (g x) (map g ys)" for ys
    by (induction ys) (simp_all add: Cons.prems)
  with Cons show ?case by simp
qed simp

lemma sort_key_again: "sort_key f (sort_key f xs) = sort_key f xs"
  by (simp add: sort_key_id_if_sorted)

lemma to_micros_again: "to_micros (to_micros t) = to_micros t"
proof -
  have "(t - t mod 1000) mod 1000 = 0" by (simp add: minus_mod_eq_mult_div)
  then show ?thesis by (simp add: to_micros_def)
qed

lemma normal_credential_again: "normal_credential (normal_credential c) = normal_credential c"
  by (simp add: normal_credential_def ordered_def option.map_comp o_def to_micros_again sort_key_again)

lemma normal_credential_id: "c_ID (normal_credential c) = c_ID c"
  by (simp add: normal_credential_def)

lemma normal_operation_again: "normal_operation (normal_operation p) = normal_operation p"
  and normal_operation_id: "op_ID (normal_operation p) = op_ID p"
  by (simp_all add: normal_operation_def to_micros_again)

lemma normalized_again: "normalized (normalized d) = normalized d"
proof -
  have "map normal_credential (sort_key c_ID (map normal_credential cs)) = sort_key c_ID (map normal_credential cs)" for cs
    by (subst sort_key_map) (simp_all add: normal_credential_id o_def normal_credential_again)
  moreover have "map normal_operation (sort_key op_ID (map normal_operation ps)) = sort_key op_ID (map normal_operation ps)" for ps
    by (subst sort_key_map) (simp_all add: normal_operation_id normal_operation_again o_def)
  ultimately show ?thesis
    by (simp add: normalized_def to_micros_again sort_key_again)
qed

lemma encode_normal: "encode lib d = Inr (raw, n) \<Longrightarrow> n = normalized d \<and> validate lib n = None
    \<and> cl_marshal lib n = Some raw \<and> length raw \<le> MaxDocumentBytes"
  by (auto simp: encode_def Let_def split: if_splits option.splits)

lemma normalized_sizes:
  "length (d_Credentials (normalized d)) = length (d_Credentials d)"
  "length (d_Operations (normalized d)) = length (d_Operations d)"
  "list_ex (\<lambda>c. 64 < length (c_Scopes c) \<or> 256 < length (c_AgentResources c)
      \<or> 256 < length (c_MachineResources c) \<or> 4096 < length (c_material c)) (d_Credentials (normalized d))
   = list_ex (\<lambda>c. 64 < length (c_Scopes c) \<or> 256 < length (c_AgentResources c)
      \<or> 256 < length (c_MachineResources c) \<or> 4096 < length (c_material c)) (d_Credentials d)"
  by (simp_all add: normalized_def list_ex_iff normal_credential_def ordered_def)

lemma encode_again:
  assumes "encode lib d = Inr (raw, n)"
  shows "encode lib n = Inr (raw, n)"
  using assms encode_normal [OF assms] normalized_again [of d] normalized_sizes [of d]
  by (simp add: encode_def Let_def split: if_splits)

lemma decode_encoded:
  assumes "encode lib d = Inr (raw, n)"
    and "cl_inspect lib raw" and "cl_header lib raw = Some (d_SchemaVersion n)" and "cl_unmarshal lib raw = Some n"
  shows "decode lib raw = Inr n"
proof -
  note n = encode_normal [OF assms(1)]
  then have "d_SchemaVersion n = SchemaVersion" by (auto simp: validate_def split: if_splits)
  with assms n encode_again [OF assms(1)] show ?thesis by (simp add: decode_def)
qed

text \<open>
  What is written to the Secret reads back: whenever a document is accepted by \<open>encode\<close>, decoding
  the bytes gives exactly the normalised document, and encoding that gives the same bytes again.
\<close>

theorem registry_roundtrip:
  assumes "encode lib d = Inr (raw, n)"
    and "cl_inspect lib raw" and "cl_header lib raw = Some (d_SchemaVersion n)" and "cl_unmarshal lib raw = Some n"
  shows "decode lib raw = Inr n \<and> encode lib n = Inr (raw, n) \<and> n = normalized d"
  using decode_encoded [OF assms] encode_again [OF assms(1)] encode_normal [OF assms(1)] by simp

subsection \<open>What a valid document holds\<close>

lemma credentials_ok_distinct:
  "credentials_ok lib d ids names cs \<Longrightarrow> distinct (map c_ID cs) \<and> (\<forall>c\<in>set cs. credential_ok lib d c \<and> c_ID c \<notin> set ids)"
  by (induction cs arbitrary: ids names) (fastforce simp: Let_def)+

lemma operations_ok_distinct:
  "operations_ok lib d ids events ps \<Longrightarrow> distinct (map op_ID ps) \<and> (\<forall>p\<in>set ps. operation_ok lib d p \<and> op_ID p \<notin> set ids)"
  by (induction ps arbitrary: ids events) fastforce+

lemma valid_document:
  assumes "validate lib d = None"
  shows "distinct (map c_ID (d_Credentials d))" and "distinct (map op_ID (d_Operations d))"
    and "\<And>c. c \<in> set (d_Credentials d) \<Longrightarrow> credential_ok lib d c"
    and "\<And>p. p \<in> set (d_Operations d) \<Longrightarrow> operation_ok lib d p"
    and "distinct (active_materials d)" and "\<exists>c\<in>set (d_Credentials d). lasting_administrator c"
    and "length (d_Credentials d) \<le> MaxCredentials" and "length (d_Operations d) \<le> MaxOperations"
  using assms credentials_ok_distinct [of lib d "[]" "[]" "d_Credentials d"]
    operations_ok_distinct [of lib d "[]" "[]" "d_Operations d"]
  by (auto simp: validate_def materials_distinct list_ex_iff split: if_splits)

subsection \<open>What a transition allows\<close>

lemma index_by_lookup:
  assumes "distinct (map f xs)"
  shows "map_of (index_by f xs) k = Some x \<longleftrightarrow> x \<in> set xs \<and> f x = k"
proof -
  have "map_of (fold (\<lambda>x m. AList.update (f x) x m) xs m) k
      = (case List.find (\<lambda>x. f x = k) xs of None \<Rightarrow> map_of m k | Some x \<Rightarrow> Some x)" for m
    using assms
  proof (induction xs arbitrary: m)
    case (Cons x xs)
    have "f x \<notin> f ` set xs" using Cons.prems by simp
    have absent: "List.find (\<lambda>x. f x = k) xs = None" if "f x = k"
      unfolding find_None_iff
    proof
      assume "\<exists>y. y \<in> set xs \<and> f y = k"
      then obtain y where y: "y \<in> set xs" "f y = k" by blast
      from y(1) have "f y \<in> f ` set xs" by (rule imageI)
      with y(2) that \<open>f x \<notin> f ` set xs\<close> show False by simp
    qed
    have "distinct (map f xs)" using Cons.prems by simp
    note ih = Cons.IH [OF this, of "AList.update (f x) x m"]
    show ?case
    proof (cases "f x = k")
      case True
      then have "List.find (\<lambda>x. f x = k) (x # xs) = Some x" by simp
      with True ih absent show ?thesis by (simp add: alist_lookup_update)
    next
      case False
      then have "List.find (\<lambda>x. f x = k) (x # xs) = List.find (\<lambda>x. f x = k) xs" by simp
      moreover have "map_of (AList.update (f x) x m) k = map_of m k"
        using False by (simp add: alist_lookup_update)
      ultimately show ?thesis by (simp only: fold_simps ih)
    qed
  qed simp
  from this [of "[]"] have "map_of (index_by f xs) k = List.find (\<lambda>x. f x = k) xs"
    by (cases "List.find (\<lambda>x. f x = k) xs") (simp_all add: index_by_def)
  moreover have "List.find (\<lambda>x. f x = k) xs = Some x \<longleftrightarrow> x \<in> set xs \<and> f x = k"
    using assms
  proof (induction xs)
    case (Cons y ys)
    then have "f y \<notin> f ` set ys" by simp
    with Cons show ?case by auto
  qed simp
  ultimately show ?thesis by simp
qed

lemma index_by_missing:
  "distinct (map f xs) \<Longrightarrow> map_of (index_by f xs) k = None \<longleftrightarrow> (\<forall>x\<in>set xs. f x \<noteq> k)"
  using index_by_lookup [of f xs k] by (cases "map_of (index_by f xs) k") auto

lemma transition_loop:
  assumes "transition_credentials initial refs previous cs = Some left" and "distinct (map c_ID cs)"
  shows "(\<forall>c\<in>set cs. (case map_of previous (c_ID c) of
              Some prior \<Rightarrow> succeeds prior c \<and> (prior = c \<or> c_ID c \<in> set refs \<or> '''' \<in> set refs)
            | None \<Rightarrow> (c_legacyBrowserGeneration c = 0 \<or> initial) \<and> (c_ID c \<in> set refs \<or> '''' \<in> set refs)))
     \<and> (\<forall>k. map_of left k = (if k \<in> c_ID ` set cs then None else map_of previous k))"
  using assms
proof (induction cs arbitrary: previous)
  case (Cons c cs)
  let ?p = "if map_of previous (c_ID c) = None then previous else AList.delete (c_ID c) previous"
  have step: "transition_credentials initial refs ?p cs = Some left"
    using Cons.prems(1) by (auto simp: Let_def split: option.splits if_splits)
  have look: "map_of ?p k = (if k = c_ID c then None else map_of previous k)" for k
    by (simp add: alist_lookup_delete)
  have "c_ID c \<notin> c_ID ` set cs" using Cons.prems(2) by simp
  then have other: "\<forall>c'\<in>set cs. c_ID c' \<noteq> c_ID c" by (metis imageI)
  have here: "case map_of previous (c_ID c) of
              Some prior \<Rightarrow> succeeds prior c \<and> (prior = c \<or> c_ID c \<in> set refs \<or> '''' \<in> set refs)
            | None \<Rightarrow> (c_legacyBrowserGeneration c = 0 \<or> initial) \<and> (c_ID c \<in> set refs \<or> '''' \<in> set refs)"
    using Cons.prems(1) by (auto simp: Let_def split: option.splits if_splits)
  have "distinct (map c_ID cs)" using Cons.prems(2) by simp
  note ih = Cons.IH [OF step this, unfolded look]
  with here other show ?case by (simp cong: option.case_cong)
qed simp

text \<open>A transition between two valid documents, credential by credential and operation by operation.\<close>

lemma transition_documents:
  assumes "validate lib old = None" and "validate lib next = None" and "transition (Some old) next = None"
  shows "same_frame old next"
    and "\<And>c. c \<in> set (d_Credentials old) \<Longrightarrow>
           \<exists>c'\<in>set (d_Credentials next). c_ID c' = c_ID c \<and> succeeds c c'"
    and "\<And>c. c \<in> set (d_Credentials next) \<Longrightarrow> c \<notin> set (d_Credentials old) \<Longrightarrow>
           c_ID c \<in> set (new_references (index_by op_ID (d_Operations old)) next)
           \<or> '''' \<in> set (new_references (index_by op_ID (d_Operations old)) next)"
    and "\<And>p. p \<in> set (d_Operations next) \<Longrightarrow>
           operation_step_ok (index_by op_ID (d_Operations old)) (index_by c_ID (d_Credentials old)) p"
    and "\<And>p. p \<in> set (d_Operations old) \<Longrightarrow> op_Status p = ''pending'' \<Longrightarrow> op_ID p \<in> op_ID ` set (d_Operations next)"
proof -
  let ?prev = "index_by c_ID (d_Credentials old)"
  let ?ops = "index_by op_ID (d_Operations old)"
  let ?refs = "new_references ?ops next"
  note dold = valid_document(1,2) [OF assms(1)] and dnext = valid_document(1) [OF assms(2)]
  have "transition_credentials False ?refs ?prev (d_Credentials next) = Some []"
    using assms(3) by (auto simp: transition_def Let_def split: if_splits option.splits)
  note loop = transition_loop [OF this dnext]
  show "same_frame old next"
    using assms(3) by (auto simp: transition_def Let_def split: if_splits)
  show "operation_step_ok ?ops ?prev p" if "p \<in> set (d_Operations next)" for p
    using assms(3) that by (auto simp: transition_def Let_def list_all_iff split: if_splits)
  show "op_ID p \<in> op_ID ` set (d_Operations next)"
    if "p \<in> set (d_Operations old)" "op_Status p = ''pending''" for p
  proof -
    have "(op_ID p, p) \<in> set ?ops"
      using that index_by_lookup [OF dold(2), of "op_ID p" p] by (intro map_of_SomeD) simp
    then show ?thesis
      using assms(3) that(2) by (auto simp: transition_def Let_def list_ex_iff split: if_splits)
  qed
  show "\<exists>c'\<in>set (d_Credentials next). c_ID c' = c_ID c \<and> succeeds c c'" if c: "c \<in> set (d_Credentials old)" for c
  proof -
    have look: "map_of ?prev (c_ID c) = Some c" using index_by_lookup [OF dold(1), of "c_ID c" c] c by simp
    moreover have "c_ID c \<in> c_ID ` set (d_Credentials next)"
      using loop look by (metis map_of.simps(1) option.distinct(1))
    then obtain c' where "c' \<in> set (d_Credentials next)" "c_ID c' = c_ID c" by auto
    with loop look show ?thesis by (intro bexI [of _ c']) fastforce+
  qed
  show "c_ID c \<in> set ?refs \<or> '''' \<in> set ?refs"
    if "c \<in> set (d_Credentials next)" "c \<notin> set (d_Credentials old)" for c
  proof (cases "map_of ?prev (c_ID c)")
    case (Some prior)
    then have "prior \<noteq> c" using index_by_lookup [OF dold(1), of "c_ID c" prior] that(2) by auto
    with loop that(1) Some show ?thesis by fastforce
  qed (use loop that(1) in fastforce)
qed

text \<open>The documents that replace one another in the store: each valid, each an allowed transition.\<close>

definition replaces :: "cred_lib \<Rightarrow> document \<Rightarrow> document \<Rightarrow> bool" where
  "replaces lib old next \<longleftrightarrow>
     validate lib old = None \<and> validate lib next = None \<and> transition (Some old) next = None"

text \<open>
  C24: Every change of the registry is attributed: a credential that is new or differs in the next
  document is the target of an operation that appears in it for the first time, pending, and whose
  actor is an active administrator of the previous document at its current generation (an adoption
  may name no target). No pending operation disappears.
\<close>

theorem registry_changes_attributed:
  assumes "validate lib old = None" and "validate lib next = None" and "transition (Some old) next = None"
    and "c \<in> set (d_Credentials next)" and "c \<notin> set (d_Credentials old)"
  shows "(\<exists>p\<in>set (d_Operations next). op_Status p = ''pending''
       \<and> (op_TargetCredentialID p = c_ID c \<or> op_Action p = ''adopt'')
       \<and> (\<forall>q\<in>set (d_Operations old). op_ID q \<noteq> op_ID p)
       \<and> (\<exists>a\<in>set (d_Credentials old). c_ID a = op_ActorCredentialID p \<and> c_PrincipalID a = op_ActorPrincipalID p
            \<and> c_Generation a = op_ActorGeneration p \<and> c_State a = StateActive \<and> c_Role a = RoleAdministrator))
     \<and> (\<forall>q\<in>set (d_Operations old). op_Status q = ''pending'' \<longrightarrow> op_ID q \<in> op_ID ` set (d_Operations next))"
proof -
  let ?ops = "index_by op_ID (d_Operations old)"
  note t = transition_documents [OF assms(1-3)] and dold = valid_document(1,2) [OF assms(1)]
  obtain p where p: "p \<in> set (d_Operations next)" "map_of ?ops (op_ID p) = None"
    and target: "op_TargetCredentialID p = c_ID c \<or> op_TargetCredentialID p = ''''"
    using t(3) [OF assms(4,5)] by (auto simp: new_references_def)
  have new: "new_operation_ok (index_by c_ID (d_Credentials old)) p"
    using t(4) [OF p(1)] p(2) by (simp add: operation_step_ok_def)
  then obtain a where a: "map_of (index_by c_ID (d_Credentials old)) (op_ActorCredentialID p) = Some a"
    and actor: "c_State a = StateActive" "c_Role a = RoleAdministrator" "c_PrincipalID a = op_ActorPrincipalID p"
      "c_Generation a = op_ActorGeneration p"
    by (auto simp: new_operation_ok_def split: option.splits)
  have "op_Action p = ''adopt''" if "op_TargetCredentialID p = ''''"
    using valid_document(4) [OF assms(2) p(1)] that
    by (auto simp: operation_ok_def action_ok_def opaque_def split: if_splits)
  moreover have "op_ID q \<noteq> op_ID p" if "q \<in> set (d_Operations old)" for q
    using p(2) that index_by_missing [OF dold(2), of "op_ID p"] by auto
  moreover have "a \<in> set (d_Credentials old)" "c_ID a = op_ActorCredentialID p"
    using a index_by_lookup [OF dold(1)] by auto
  ultimately have "\<exists>p\<in>set (d_Operations next). op_Status p = ''pending''
       \<and> (op_TargetCredentialID p = c_ID c \<or> op_Action p = ''adopt'')
       \<and> (\<forall>q\<in>set (d_Operations old). op_ID q \<noteq> op_ID p)
       \<and> (\<exists>a\<in>set (d_Credentials old). c_ID a = op_ActorCredentialID p \<and> c_PrincipalID a = op_ActorPrincipalID p
            \<and> c_Generation a = op_ActorGeneration p \<and> c_State a = StateActive \<and> c_Role a = RoleAdministrator)"
    using p(1) target new actor by (intro bexI [of _ p]) (auto simp: new_operation_ok_def)
  with t(5) show ?thesis by blast
qed

text \<open>How a credential may have changed over any number of accepted writes.\<close>

definition evolved :: "credential \<Rightarrow> credential \<Rightarrow> bool" where
  "evolved c c' \<longleftrightarrow>
     c_ID c' = c_ID c \<and> c_PrincipalID c' = c_PrincipalID c \<and> c_TenantID c' = c_TenantID c \<and> c_CreatedAt c' = c_CreatedAt c
     \<and> c_Generation c \<le> c_Generation c' \<and> c_PermissionRevision c \<le> c_PermissionRevision c'
     \<and> (c_State c = StateRevoked \<longrightarrow> c_State c' = StateRevoked \<and> c_material c' = ''''
          \<and> c_Generation c' = c_Generation c \<and> c_PermissionRevision c' = c_PermissionRevision c)
     \<and> (c_Generation c' = c_Generation c \<and> c_State c' \<noteq> StateRevoked \<longrightarrow> c_material c' = c_material c)
     \<and> (c_PermissionRevision c' = c_PermissionRevision c \<longrightarrow> policy_of c' = policy_of c)"

lemma word_next: "(x :: 64 word) + 1 \<noteq> 0 \<Longrightarrow> x < x + 1"
  using unatSuc [of x] by (simp add: word_less_nat_alt add.commute)

lemma evolved_refl:
  "credential_ok lib d c \<Longrightarrow> evolved c c"
  by (auto simp: evolved_def credential_ok_def material_ok_def)

lemma policy_state: "policy_of a = policy_of b \<Longrightarrow> c_State a = c_State b"
proof -
  assume "policy_of a = policy_of b"
  then have "c_State (policy_of a) = c_State (policy_of b)" by simp
  then show ?thesis by (simp add: policy_of_def)
qed

lemma succeeds_evolved:
  assumes s: "succeeds c c'" and id: "c_ID c' = c_ID c" and ok: "credential_ok lib d c'"
  shows "evolved c c'"
proof -
  have states: "c_State c' = StateActive \<or> c_State c' = StateRevoked" "StateActive \<noteq> StateRevoked"
    "c_Generation c' \<noteq> 0" "c_PermissionRevision c' \<noteq> 0" "c_State c' = StateRevoked \<longrightarrow> c_material c' = ''''"
    using ok by (auto simp: credential_ok_def material_ok_def registry_words)
  have same: "c_PrincipalID c' = c_PrincipalID c" "c_TenantID c' = c_TenantID c" "c_CreatedAt c' = c_CreatedAt c"
    using s by (simp_all add: succeeds_def sameCreation_def)
  show ?thesis
  proof (cases "c_State c = StateRevoked")
    case True
    then have "c_State c' = StateRevoked" "c_material c' = c_material c" "samePolicy c c'"
      "c_Generation c' = c_Generation c" "c_PermissionRevision c' = c_PermissionRevision c"
      using s by (simp_all add: succeeds_def Let_def)
    with same id states show ?thesis by (simp add: evolved_def samePolicy_def)
  next
    case active: False
    have gen: "c_Generation c' = c_Generation c \<and> (c_State c' = StateRevoked \<or> c_material c' = c_material c)
        \<or> c_Generation c' = c_Generation c + 1 \<and> c_Generation c < c_Generation c'"
      using s active states word_next [of "c_Generation c"]
      by (cases "c_material c' = c_material c"; cases "c_State c' = StateRevoked") (auto simp: succeeds_def Let_def)
    have rev: "c_PermissionRevision c' = c_PermissionRevision c \<and> policy_of c' = policy_of c
        \<or> c_PermissionRevision c' = c_PermissionRevision c + 1 \<and> c_PermissionRevision c < c_PermissionRevision c'"
      using s active states word_next [of "c_PermissionRevision c"]
      by (cases "samePolicy c c'") (auto simp: succeeds_def Let_def samePolicy_def)
    have g: "c_Generation c \<le> c_Generation c'" "c_PermissionRevision c \<le> c_PermissionRevision c'"
      using gen rev by auto
    have m: "c_material c' = c_material c" if "c_Generation c' = c_Generation c" "c_State c' \<noteq> StateRevoked"
      using gen that states by auto
    have p: "policy_of c' = policy_of c" if "c_PermissionRevision c' = c_PermissionRevision c"
      using rev that by auto
    show ?thesis unfolding evolved_def using same id active g m p by blast
  qed
qed

lemma evolved_trans:
  assumes "evolved a b" and "evolved b c"
  shows "evolved a c"
proof -
  have mono: "c_Generation a \<le> c_Generation b" "c_Generation b \<le> c_Generation c"
    "c_PermissionRevision a \<le> c_PermissionRevision b" "c_PermissionRevision b \<le> c_PermissionRevision c"
    using assms by (simp_all add: evolved_def)
  have m: "c_material c = c_material a" if "c_Generation c = c_Generation a" "c_State c \<noteq> StateRevoked"
  proof -
    have "c_Generation b = c_Generation a" "c_Generation c = c_Generation b" using mono that by auto
    moreover have "c_State b \<noteq> StateRevoked" using assms(2) that(2) by (auto simp: evolved_def)
    ultimately have "c_material b = c_material a" "c_material c = c_material b"
      using assms that(2) by (simp_all add: evolved_def)
    then show ?thesis by simp
  qed
  have p: "policy_of c = policy_of a" if "c_PermissionRevision c = c_PermissionRevision a"
  proof -
    have "c_PermissionRevision b = c_PermissionRevision a" "c_PermissionRevision c = c_PermissionRevision b"
      using mono that by auto
    with assms show ?thesis by (simp add: evolved_def)
  qed
  have r: "c_State c = StateRevoked \<and> c_material c = '''' \<and> c_Generation c = c_Generation a
      \<and> c_PermissionRevision c = c_PermissionRevision a" if "c_State a = StateRevoked"
    using assms that by (simp add: evolved_def)
  have i: "c_ID c = c_ID a" "c_PrincipalID c = c_PrincipalID a" "c_TenantID c = c_TenantID a"
    "c_CreatedAt c = c_CreatedAt a"
    using assms by (simp_all add: evolved_def)
  have g: "c_Generation a \<le> c_Generation c" "c_PermissionRevision a \<le> c_PermissionRevision c"
    using mono by auto
  show ?thesis unfolding evolved_def using i g m p r by blast
qed

text \<open>By induction over the accepted writes: every credential lives on, evolved.\<close>

lemma history_evolves:
  assumes "(replaces lib)\<^sup>*\<^sup>* d0 d1" and "validate lib d0 = None"
  shows "validate lib d1 = None \<and> (\<forall>c\<in>set (d_Credentials d0). \<exists>c'\<in>set (d_Credentials d1). evolved c c')"
  using assms
proof (induction rule: rtranclp_induct)
  case base
  then show ?case using valid_document(3) [of lib d0] evolved_refl by blast
next
  case (step mid d1)
  then have r: "validate lib mid = None" "validate lib d1 = None" "transition (Some mid) d1 = None"
    by (simp_all add: replaces_def)
  have "\<exists>c''\<in>set (d_Credentials d1). evolved c c''" if c: "c \<in> set (d_Credentials d0)" for c
  proof -
    obtain c' where c': "c' \<in> set (d_Credentials mid)" "evolved c c'" using step.IH step.prems c by blast
    obtain c'' where c'': "c'' \<in> set (d_Credentials d1)" "c_ID c'' = c_ID c'" "succeeds c' c''"
      using transition_documents(2) [OF r c'(1)] by blast
    have "evolved c' c''" by (rule succeeds_evolved [OF c''(3,2) valid_document(3) [OF r(2) c''(1)]])
    then have "evolved c c''" by (rule evolved_trans [OF c'(2)])
    with c''(1) show ?thesis by blast
  qed
  with r(2) show ?case by blast
qed

text \<open>
  A document in memory need not be in normal form; what \<open>Validate\<close> says of it holds of its normal form.
\<close>

lemma Validate_normal: "Validate lib d = None \<Longrightarrow> validate lib (normalized d) = None"
  by (auto simp: Validate_def dest!: encode_normal split: sum.splits)

lemma normal_credential_fields [simp]:
  "c_ID (normal_credential c) = c_ID c" "c_Role (normal_credential c) = c_Role c"
  "c_State (normal_credential c) = c_State c" "c_material (normal_credential c) = c_material c"
  "c_Source (normal_credential c) = c_Source c"
  by (simp_all add: normal_credential_def)

lemma normal_set: "set (d_Credentials (normalized d)) = normal_credential ` set (d_Credentials d)"
  by (simp add: normalized_def)

lemma validated_document:
  assumes "Validate lib d = None"
  shows "distinct (map c_ID (d_Credentials d))" and "distinct (active_materials d)"
    and "\<And>c. c \<in> set (d_Credentials d) \<Longrightarrow> material_ok c"
proof -
  note v = valid_document [OF Validate_normal [OF assms]]
  let ?n = "d_Credentials (normalized d)" and ?m = "map normal_credential (d_Credentials d)"
  have mset: "mset ?n = mset ?m" by (simp add: normalized_def)
  have "mset (map c_ID ?n) = mset (map c_ID (d_Credentials d))"
    using arg_cong [OF mset, of "image_mset c_ID"] by (simp add: image_mset.compositionality o_def)
  with v(1) show "distinct (map c_ID (d_Credentials d))" using mset_eq_imp_distinct_iff by metis
  have "active_materials d = map c_material (filter (\<lambda>c. c_State c = StateActive) ?m)"
    by (simp add: active_materials_def filter_map o_def)
  moreover have "mset (filter (\<lambda>c. c_State c = StateActive) ?n) = mset (filter (\<lambda>c. c_State c = StateActive) ?m)"
    using mset by simp
  ultimately have "mset (active_materials (normalized d)) = mset (active_materials d)"
    by (simp only: active_materials_def [of "normalized d"] mset_map)
  with v(5) show "distinct (active_materials d)" using mset_eq_imp_distinct_iff by metis
  show "material_ok c" if "c \<in> set (d_Credentials d)" for c
  proof -
    have "credential_ok lib (normalized d) (normal_credential c)" using v(3) that by (simp add: normal_set)
    then have "material_ok (normal_credential c)" by (simp only: credential_ok_def)
    then show ?thesis by (simp add: material_ok_def split: if_split_asm)
  qed
qed

lemma validated_evolves:
  assumes "(replaces lib)\<^sup>*\<^sup>* d d'" and "Validate lib d = None" and "c \<in> set (d_Credentials d)"
  obtains c' where "c' \<in> set (d_Credentials d')" and "evolved c c'"
  using assms(1)
proof (cases rule: converse_rtranclpE)
  case base
  have "evolved c c" using validated_document(3) [OF assms(2,3)] by (auto simp: evolved_def material_ok_def)
  with base assms(3) that show thesis by blast
next
  case (step mid)
  then have "validate lib d = None" by (simp add: replaces_def)
  from history_evolves [OF assms(1) this] assms(3) that show thesis by blast
qed

text \<open>
  C23: Over any number of accepted writes no credential disappears or changes its identity; its
  generation and permission revision never decrease, and they identify what they version: with the
  same generation an unrevoked credential has the same key material, with the same permission
  revision the same policy. A revoked credential stays revoked, frozen and without material, and
  the last document keeps a lasting administrator and pairwise
  different active keys.
\<close>

theorem registry_history:
  assumes "(replaces lib)\<^sup>*\<^sup>* d0 d1" and "validate lib d0 = None"
  shows "(\<forall>c\<in>set (d_Credentials d0). \<exists>c'\<in>set (d_Credentials d1). evolved c c')
     \<and> (\<exists>a\<in>set (d_Credentials d1). lasting_administrator a)
     \<and> distinct (active_materials d1)"
  using history_evolves [OF assms] valid_document(5,6) [of lib d1] by blast

subsection \<open>Examples\<close>

text \<open>One administrator that rotates its own key.\<close>

definition example_admin :: "64 word \<Rightarrow> string \<Rightarrow> credential" where
  "example_admin gen material =
     \<lparr>c_ID = ''admin'', c_PrincipalID = ''ops'', c_TenantID = ''t'', c_Kind = '''', c_Issuer = '''', c_Subject = '''',
      c_Name = ''Admin'', c_Role = ''administrator'', c_State = ''active'', c_Generation = gen,
      c_PermissionRevision = 1, c_Scopes = [], c_AgentResources = [], c_MachineResources = [],
      c_Source = \<lparr>so_Kind = ''managed'', so_MaterialRef = None, so_ConfigurationRef = None\<rparr>,
      c_CreatedAt = None, c_ExpiresAt = None, c_material = material, c_legacyBrowserGeneration = 0\<rparr>"

definition example_operation :: operation where
  "example_operation =
     \<lparr>op_ID = ''o1'', op_AdmissionEventID = ''e1'', op_CompletionEventID = ''e2'', op_RequestID = ''r1'',
      op_Action = ''rotate'', op_ActorPrincipalID = ''ops'', op_ActorCredentialID = ''admin'', op_ActorGeneration = 1,
      op_Authority = ''registry'', op_TargetCredentialID = ''admin'', op_At = 63082281600 * second, op_Status = ''pending''\<rparr>"

definition example_document :: "64 word \<Rightarrow> string \<Rightarrow> operation list \<Rightarrow> document" where
  "example_document gen material ops =
     \<lparr>d_SchemaVersion = 1, d_Namespace = ''kyber'', d_Credentials = [example_admin gen material], d_Operations = ops,
      d_legacyKey = '''', d_legacyGeneration = 0, d_legacyIssuedBefore = 0, d_legacyExpiresBefore = 0\<rparr>"

definition example_before :: document where "example_before = example_document 1 ''k1'' []"
definition example_after :: document where "example_after = example_document 2 ''k2'' [example_operation]"

definition example_cred_lib :: cred_lib where
  "example_cred_lib =
     \<lparr>cl_is_print = (\<lambda>r. True), cl_to_lower = (\<lambda>s. s), cl_dns_label = (\<lambda>s. True), cl_dns_subdomain = (\<lambda>s. True),
      cl_config_key = (\<lambda>s. True), cl_canonical_uuid = (\<lambda>s. True),
      cl_marshal = (\<lambda>d. if d = example_before then Some ''1'' else if d = example_after then Some ''2'' else None),
      cl_inspect = (\<lambda>s. True), cl_header = (\<lambda>s. Some 1),
      cl_unmarshal = (\<lambda>s. if s = ''1'' then Some example_before else if s = ''2'' then Some example_after else None)\<rparr>"

lemma opaque_graphic:
  assumes "s \<noteq> ''''" and "length s \<le> 512" and "list_all graphic s"
  shows "opaque s" and "TrimSpace s = s"
proof -
  have ascii: "list_all (\<lambda>c. (of_char c :: nat) < 128) s"
    using assms(3) by (auto simp: list_all_iff graphic_def)
  have "graphic (hd s)" "graphic (last s)" using assms(1,3) by (simp_all add: list_all_iff)
  then show "TrimSpace s = s" using assms(1) by (intro TrimSpace_graphic)
  with assms ascii show "opaque s"
    by (auto simp: opaque_def ValidString_def runes_ascii is_control_def list_all_iff graphic_def o_def)
qed

lemma example_names:
  "opaque ''admin''" "opaque ''ops''" "opaque ''t''" "opaque ''Admin''" "requestID ''r1''"
  "map ascii_lower (TrimSpace ''Admin'') \<noteq> ''legacy''" "TrimSpace ''k1'' = ''k1''" "TrimSpace ''k2'' = ''k2''"
  using opaque_graphic(2) [of "''Admin''"]
  by (simp_all add: opaque_graphic graphic_def ascii_lower_def requestID_def alnum_def is_digit_def)

lemmas example_docs = example_before_def example_after_def example_document_def example_admin_def example_operation_def

lemma example_credential_ok: "credential_ok example_cred_lib (example_document g m ops) (example_admin g' m')"
  if "g' \<noteq> 0" "length m' \<le> 4096" "TrimSpace m' \<noteq> ''''"
  using that example_names
  by (simp add: credential_ok_def example_document_def example_admin_def displayName_def times_ok_def material_ok_def
        source_ok_def role_ok_def registry_words example_cred_lib_def list_all_iff)

lemma example_valid:
  assumes "operations_ok example_cred_lib (example_document g m ops) [] [] ops" and "length ops \<le> MaxOperations"
    and "g \<noteq> 0" "length m \<le> 4096" "TrimSpace m \<noteq> ''''"
  shows "validate example_cred_lib (example_document g m ops) = None"
proof -
  have "credential_ok example_cred_lib (example_document g m ops) (example_admin g m)"
    by (rule example_credential_ok [OF assms(3-5)])
  moreover have "lasting_administrator (example_admin g m)" "c_State (example_admin g m) = StateActive"
    by (simp_all add: lasting_administrator_def example_admin_def registry_words)
  moreover have "d_Credentials (example_document g m ops) = [example_admin g m]"
    "d_Operations (example_document g m ops) = ops" "d_SchemaVersion (example_document g m ops) = 1"
    "cl_dns_label example_cred_lib x" "legacy_key_ok (example_document g m ops)" for x
    by (simp_all add: example_document_def example_cred_lib_def legacy_key_ok_def)
  ultimately show ?thesis
    using assms(1,2) by (simp add: validate_def SchemaVersion_def MaxCredentials_def active_materials_def Let_def)
qed

lemma example_valid_before: "validate example_cred_lib example_before = None"
  using example_names unfolding example_before_def by (intro example_valid) (simp_all add: MaxOperations_def)

lemma example_operation_ok: "operation_ok example_cred_lib example_after example_operation"
proof -
  have fields: "cl_canonical_uuid example_cred_lib x" "op_RequestID example_operation = ''r1''"
    "op_ActorPrincipalID example_operation = ''ops''" "op_ActorCredentialID example_operation = ''admin''"
    "op_ActorGeneration example_operation = 1" "op_At example_operation = 63082281600 * second"
    "op_TargetCredentialID example_operation = ''admin''" "op_Action example_operation = ''rotate''"
    "op_AdmissionEventID example_operation = ''e1''" "op_CompletionEventID example_operation = ''e2''"
    "op_Authority example_operation = ''registry''" "op_Status example_operation = ''pending''"
    "d_Credentials example_after = [example_admin 2 ''k2'']" for x
    by (simp_all add: example_docs example_cred_lib_def)
  moreover have "validTime (63082281600 * second)" by (simp add: validTime_def hour_def second_def)
  moreover have "c_ID (example_admin 2 ''k2'') = ''admin''" "c_PrincipalID (example_admin 2 ''k2'') = ''ops''"
    "c_Generation (example_admin 2 ''k2'') = 2"
    by (simp_all add: example_admin_def)
  ultimately show ?thesis
    using example_names by (simp add: operation_ok_def credential_by_id_def action_ok_def)
qed

lemma example_valid_after: "validate example_cred_lib example_after = None"
  using example_names example_operation_ok unfolding example_after_def
  by (intro example_valid) (simp_all add: MaxOperations_def)

lemma example_succeeds: "succeeds (example_admin 1 ''k1'') (example_admin 2 ''k2'')"
proof -
  have "samePolicy (example_admin 1 ''k1'') (example_admin 2 ''k2'')"
    by (simp add: samePolicy_def policy_of_def example_admin_def)
  then show ?thesis
    by (simp add: succeeds_def Let_def sameCreation_def) (simp add: example_admin_def registry_words)
qed

lemma example_fields:
  "d_Credentials example_before = [example_admin 1 ''k1'']" "d_Operations example_before = []"
  "d_Credentials example_after = [example_admin 2 ''k2'']" "d_Operations example_after = [example_operation]"
  "c_ID (example_admin g m) = ''admin''" "op_ID example_operation = ''o1''"
  "op_TargetCredentialID example_operation = ''admin''"
  by (simp_all add: example_docs)

lemma example_transition: "transition (Some example_before) example_after = None"
proof -
  have "index_by c_ID (d_Credentials example_before) = [(''admin'', example_admin 1 ''k1'')]"
    "index_by op_ID (d_Operations example_before) = []"
    by (simp_all add: index_by_def example_fields)
  moreover have "same_frame example_before example_after"
    by (simp add: same_frame_def example_before_def example_after_def example_document_def)
  moreover have "new_operation_ok [(''admin'', example_admin 1 ''k1'')] example_operation"
    by (simp add: new_operation_ok_def example_operation_def) (simp add: example_admin_def registry_words)
  ultimately show ?thesis
    by (simp add: transition_def Let_def operation_step_ok_def new_references_def example_fields example_succeeds)
qed

lemma example_marshal:
  "cl_marshal example_cred_lib example_before = Some ''1''" "cl_marshal example_cred_lib example_after = Some ''2''"
  "cl_inspect example_cred_lib x" "cl_header example_cred_lib x = Some 1"
  "cl_unmarshal example_cred_lib ''1'' = Some example_before" "cl_unmarshal example_cred_lib ''2'' = Some example_after"
proof -
  have "example_before \<noteq> example_after"
    using example_fields(2,4) by (metis not_Cons_self2)
  then show "cl_marshal example_cred_lib example_before = Some ''1''" "cl_marshal example_cred_lib example_after = Some ''2''"
    "cl_inspect example_cred_lib x" "cl_header example_cred_lib x = Some 1"
    "cl_unmarshal example_cred_lib ''1'' = Some example_before" "cl_unmarshal example_cred_lib ''2'' = Some example_after"
    by (simp_all add: example_cred_lib_def)
qed

lemma example_encoded: "encode example_cred_lib example_before = Inr (''1'', example_before)"
  and example_encoded_after: "encode example_cred_lib example_after = Inr (''2'', example_after)"
proof -
  have "normalized example_before = example_before" "normalized example_after = example_after"
    by (simp_all add: normalized_def example_docs to_micros_def normal_credential_def normal_operation_def ordered_def second_def)
  moreover have "\<not> list_ex (\<lambda>c. 64 < length (c_Scopes c) \<or> 256 < length (c_AgentResources c)
      \<or> 256 < length (c_MachineResources c) \<or> 4096 < length (c_material c)) [example_admin g m]" if "length m \<le> 4096" for g m
    using that by (simp add: example_admin_def)
  ultimately show "encode example_cred_lib example_before = Inr (''1'', example_before)"
    "encode example_cred_lib example_after = Inr (''2'', example_after)"
    using example_valid_before example_valid_after
    by (simp_all add: encode_def Let_def example_fields example_marshal MaxDocumentBytes_def MaxCredentials_def MaxOperations_def)
qed

lemma example_validated: "Validate example_cred_lib example_before = None" "Validate example_cred_lib example_after = None"
  by (simp_all add: Validate_def example_encoded example_encoded_after)

lemma example_schema: "d_SchemaVersion example_before = 1" "d_SchemaVersion example_after = 1"
  by (simp_all add: example_docs)

lemma registry_roundtrip_witness: "decode example_cred_lib ''1'' = Inr example_before"
  using registry_roundtrip [OF example_encoded] by (simp add: example_marshal example_schema)

lemma example_replaces: "replaces example_cred_lib example_before example_after"
  by (simp add: replaces_def example_valid_before example_valid_after example_transition)

lemma registry_changes_attributed_witness:
  "\<exists>p\<in>set (d_Operations example_after). op_Status p = ''pending''"
proof -
  have "example_admin 2 ''k2'' \<in> set (d_Credentials example_after)" "example_admin 2 ''k2'' \<notin> set (d_Credentials example_before)"
    by (simp_all add: example_docs)
  from registry_changes_attributed [OF example_valid_before example_valid_after example_transition this]
  show ?thesis by blast
qed

lemma registry_history_witness:
  "\<exists>c'\<in>set (d_Credentials example_after). evolved (example_admin 1 ''k1'') c'"
proof -
  have "(replaces example_cred_lib)\<^sup>*\<^sup>* example_before example_after" using example_replaces by blast
  from registry_history [OF this example_valid_before] show ?thesis by (simp add: example_docs)
qed

end
