(* ===== verification/Security_Journal.thy ===== *)
theory Security_Journal
  imports Credential_Registry
begin

section \<open>The security journal (\<open>pkg/securityaudit\<close>)\<close>

text \<open>
  Every change of an operator credential is admitted, and later decided, in a journal outside the
  cluster: one row per operation and a table of security events, in PostgreSQL. All calls that write
  run in one transaction under one advisory lock, so a call is one step on the tables: it commits,
  rolls back, or commits without the caller learning of it. A column holds the value its JSON
  encodes, or something the code cannot read. UUID parsing and the Kubernetes name rules
  (\<open>journal_lib\<close>) are parameters.
\<close>

subsection \<open>Events\<close>

record security_event =
  se_LogComponent :: string
  se_LogWorkload :: string
  se_Container :: string
  se_CredentialAuthority :: string
  se_Method :: string
  se_ID :: string
  se_OperationID :: string
  se_ObservedAt :: time
  se_Namespace :: string
  se_PrincipalID :: string
  se_CredentialID :: string
  se_Generation :: "64 word"
  se_RequestID :: string
  se_Action :: string
  se_ResourceKind :: string
  se_ResourceName :: string
  se_Phase :: string
  se_Outcome :: string

datatype journal_error = JInvalid | JConflict | JUnavailable | JNotFound | JEventNotFound | JEnded

text \<open>\<open>jl_uuid\<close> parses a UUID and prints it in canonical form.\<close>

record journal_lib =
  jl_uuid :: "string \<Rightarrow> string option"
  jl_dns_subdomain :: "string \<Rightarrow> bool"

definition lower_alnum :: "char \<Rightarrow> bool" where
  "lower_alnum c \<longleftrightarrow> (97 \<le> (of_char c :: nat) \<and> (of_char c :: nat) \<le> 122) \<or> is_digit c"

definition dns_word :: "string \<Rightarrow> bool" where
  "dns_word s \<longleftrightarrow> s \<noteq> '''' \<and> length s \<le> 63 \<and> list_all lower_alnum_dash s \<and> lower_alnum (last s)"

definition namespaceName :: "string \<Rightarrow> bool" where
  "namespaceName s \<longleftrightarrow> dns_word s \<and> lower_alnum (hd s)"

definition resourceName :: "string \<Rightarrow> bool" where
  "resourceName s \<longleftrightarrow> dns_word s \<and> 97 \<le> (of_char (hd s) :: nat) \<and> (of_char (hd s) :: nat) \<le> 122"

text \<open>\<open>identifier\<close> is the same expression as the request ids of the registry.\<close>

definition audit_identifier :: "string \<Rightarrow> bool" where "audit_identifier s = requestID s"

definition audit_actions :: "string list" where
  "audit_actions =
     [''authenticate'', ''agents:exec'', ''machines:exec'',
      ''secrets:list'', ''secrets:read'', ''secrets:write'',
      ''logs:read'', ''transcripts:read'', ''machines:logs:read'',
      ''credential:create'', ''credential:update'', ''credential:rotate'',
      ''credential:revoke'', ''credential:adopt'', ''credential:recover'', ''credential:recover-maintenance'',
      ''lifecycle:write'', ''lifecycle:delete'',
      ''archives:read'', ''archives:export'', ''archives:import'', ''archives:download'', ''archives:link'',
      ''archives:upload'', ''archives:cancel'', ''archives:delete'', ''audit:read'',
      ''operator:unclassified'']"

definition validActorID :: "string \<Rightarrow> bool" where
  "validActorID s \<longleftrightarrow>
     s \<noteq> '''' \<and> length s \<le> 512 \<and> ValidString s \<and> list_all (\<lambda>r. \<not> is_control r) (runes s)"

definition validMaintenanceUID :: "journal_lib \<Rightarrow> string \<Rightarrow> bool" where
  "validMaintenanceUID lib v \<longleftrightarrow> jl_uuid lib v = Some v \<and> v \<noteq> ''00000000-0000-0000-0000-000000000000''"

definition event_normalized :: "security_event \<Rightarrow> security_event" where
  "event_normalized e = e\<lparr>se_ObservedAt := to_micros (se_ObservedAt e)\<rparr>"

definition phase_ok :: "security_event \<Rightarrow> bool" where
  "phase_ok e \<longleftrightarrow>
     (if se_Phase e = ''authentication'' \<or> se_Phase e = ''authorization''
      then se_Outcome e = ''allow'' \<or> se_Outcome e = ''deny''
      else if se_Phase e = ''completion''
      then se_Outcome e = ''success'' \<or> se_Outcome e = ''failure'' \<or> se_Outcome e = ''unknown''
      else False)
     \<and> (se_Phase e = ''authentication'' \<longleftrightarrow> se_Action e = ''authenticate'')"

definition actor_ok :: "security_event \<Rightarrow> bool" where
  "actor_ok e \<longleftrightarrow>
     ((se_Phase e = ''authentication'' \<or> se_Phase e = ''authorization'') \<and> se_Outcome e = ''deny''
      \<and> se_PrincipalID e = '''' \<and> se_CredentialID e = '''' \<and> se_Generation e = 0)
     \<or> (validActorID (se_PrincipalID e) \<and> validActorID (se_CredentialID e) \<and> se_Generation e \<noteq> 0)"

definition resource_ok :: "journal_lib \<Rightarrow> security_event \<Rightarrow> bool" where
  "resource_ok lib e \<longleftrightarrow>
     (let kind = se_ResourceKind e; name = se_ResourceName e in
      (kind \<noteq> ''log-container'' \<longrightarrow> se_LogComponent e = '''' \<and> se_LogWorkload e = '''' \<and> se_Container e = '''')
      \<and> (if kind = ''installation'' then name = ''''
         else if kind = ''agent'' \<or> kind = ''machine'' then resourceName name
         else if kind = ''log-container''
         then validActorID name \<and> namespaceName (se_Container e)
              \<and> (se_LogComponent e = '''' \<or> validActorID (se_LogComponent e))
              \<and> (se_LogWorkload e = '''' \<or> validActorID (se_LogWorkload e))
         else if kind = ''credential-maintenance'' \<or> kind = ''credential-adoption'' then validMaintenanceUID lib name
         else if kind = ''credential'' then validActorID name
         else False))"

definition event_valid :: "journal_lib \<Rightarrow> security_event \<Rightarrow> bool" where
  "event_valid lib e \<longleftrightarrow>
     se_CredentialAuthority e \<in> set ['''', ''configuration'', ''registry'']
     \<and> se_Method e \<in> set ['''', ''GET'', ''POST'', ''PUT'', ''PATCH'', ''DELETE'', ''HEAD'', ''OPTIONS'', ''OTHER'']
     \<and> jl_uuid lib (se_ID e) \<noteq> None \<and> jl_uuid lib (se_OperationID e) \<noteq> None
     \<and> validTime (se_ObservedAt e) \<and> namespaceName (se_Namespace e) \<and> audit_identifier (se_RequestID e)
     \<and> se_Action e \<in> set audit_actions
     \<and> phase_ok e \<and> actor_ok e \<and> resource_ok lib e"

subsection \<open>Intents and effects\<close>

record adoption_source =
  as_Name :: string
  as_UID :: string
  as_Version :: string

record adoption_admission =
  ad_DeploymentName :: string
  ad_DeploymentUID :: string
  ad_ReleaseName :: string
  ad_ControlPlaneImage :: string
  ad_RootSourceName :: string
  ad_Sources :: "adoption_source list"

record credential_intent =
  ci_Admission :: security_event
  ci_CompletionEventID :: string
  ci_ExpectedVersion :: string
  ci_RegistryUID :: string
  ci_MaintenanceUID :: string
  ci_Adoption :: "adoption_admission option"

text \<open>
  The loop over the pinned sources: names strictly increasing, UIDs different; whether the root was
  among them, at the version the intent expects.
\<close>

fun adoption_sources_ok ::
  "journal_lib \<Rightarrow> string \<Rightarrow> string \<Rightarrow> string \<Rightarrow> string list \<Rightarrow> bool \<Rightarrow> adoption_source list \<Rightarrow> bool" where
  "adoption_sources_ok lib main version previous uids seen [] = seen"
| "adoption_sources_ok lib main version previous uids seen (s # ss) =
     (if \<not> jl_dns_subdomain lib (as_Name s) \<or> as_Name s \<le> previous \<or> \<not> validMaintenanceUID lib (as_UID s)
         \<or> \<not> validActorID (as_Version s) \<or> as_UID s \<in> set uids then False
      else if as_Name s = main \<and> version \<noteq> as_Version s then False
      else adoption_sources_ok lib main version (as_Name s) (as_UID s # uids) (seen \<or> as_Name s = main) ss)"

definition image_prefix :: string where "image_prefix = ''ghcr.io/matty-v/kyber-control-plane:''"

definition adoptionImageTag :: "string \<Rightarrow> bool" where
  "adoptionImageTag s \<longleftrightarrow>
     s \<noteq> '''' \<and> length s \<le> 128 \<and> alnum (hd s) \<and> list_all (\<lambda>c. alnum c \<or> c \<in> set ''_.-'') (tl s)"

definition validateAdoption :: "journal_lib \<Rightarrow> credential_intent \<Rightarrow> bool" where
  "validateAdoption lib i =
     (let e = ci_Admission i in
      case ci_Adoption i of
        None \<Rightarrow> False
      | Some a \<Rightarrow>
          se_Action e = ''credential:adopt'' \<and> se_CredentialAuthority e = ''configuration''
          \<and> ci_RegistryUID i = '''' \<and> ci_MaintenanceUID i = '''' \<and> se_ResourceName e = se_OperationID e
          \<and> validMaintenanceUID lib (se_ID e) \<and> validMaintenanceUID lib (se_OperationID e)
          \<and> validMaintenanceUID lib (ci_CompletionEventID i)
          \<and> jl_dns_subdomain lib (ad_DeploymentName a) \<and> validMaintenanceUID lib (ad_DeploymentUID a)
          \<and> jl_dns_subdomain lib (ad_ReleaseName a) \<and> HasPrefix (ad_ControlPlaneImage a) image_prefix
          \<and> length (ad_ControlPlaneImage a) \<le> 256
          \<and> adoptionImageTag (drop (length image_prefix) (ad_ControlPlaneImage a))
          \<and> jl_dns_subdomain lib (ad_RootSourceName a)
          \<and> 1 \<le> length (ad_Sources a) \<and> length (ad_Sources a) \<le> 1025
          \<and> adoption_sources_ok lib (ad_RootSourceName a) (ci_ExpectedVersion i) '''' [] False (ad_Sources a))"

definition intent_valid :: "journal_lib \<Rightarrow> credential_intent \<Rightarrow> bool" where
  "intent_valid lib i =
     (let e = ci_Admission i in
      event_valid lib e \<and> se_Phase e = ''authorization'' \<and> se_Outcome e = ''allow''
      \<and> validActorID (ci_ExpectedVersion i)
      \<and> jl_uuid lib (ci_CompletionEventID i) \<noteq> None \<and> ci_CompletionEventID i \<noteq> se_ID e
      \<and> (if se_ResourceKind e = ''credential''
         then se_CredentialAuthority e = ''registry'' \<and> validActorID (ci_RegistryUID i)
              \<and> ci_MaintenanceUID i = '''' \<and> ci_Adoption i = None
              \<and> se_Action e \<in> set [''credential:create'', ''credential:update'', ''credential:rotate'', ''credential:revoke'']
         else if se_ResourceKind e = ''credential-maintenance''
         then validMaintenanceUID lib (se_ID e) \<and> validMaintenanceUID lib (se_OperationID e)
              \<and> validMaintenanceUID lib (ci_CompletionEventID i) \<and> se_Action e = ''credential:recover-maintenance''
              \<and> (se_CredentialAuthority e = ''registry'' \<or> se_CredentialAuthority e = ''configuration'')
              \<and> ci_RegistryUID i = '''' \<and> validMaintenanceUID lib (ci_MaintenanceUID i) \<and> ci_Adoption i = None
         else if se_ResourceKind e = ''credential-adoption'' then validateAdoption lib i
         else False))"

record maintenance_effect =
  me_ResourceUID :: string
  me_ResourceVersion :: string
  me_ProofID :: string

record adoption_effect =
  ae_MaintenanceUID :: string
  ae_AdmissionVersion :: string
  ae_Stage :: string
  ae_RegistryUID :: string
  ae_AuthorityUID :: string

definition maintenance_effect_valid :: "journal_lib \<Rightarrow> maintenance_effect \<Rightarrow> bool" where
  "maintenance_effect_valid lib e \<longleftrightarrow>
     validMaintenanceUID lib (me_ResourceUID e) \<and> validActorID (me_ResourceVersion e) \<and> validMaintenanceUID lib (me_ProofID e)"

definition adoption_effect_valid :: "journal_lib \<Rightarrow> adoption_effect \<Rightarrow> bool" where
  "adoption_effect_valid lib e \<longleftrightarrow>
     validMaintenanceUID lib (ae_MaintenanceUID e) \<and> validActorID (ae_AdmissionVersion e)
     \<and> (if ae_Stage e = ''reserved'' \<or> ae_Stage e = ''candidate''
        then ae_RegistryUID e = '''' \<and> ae_AuthorityUID e = ''''
        else if ae_Stage e = ''registry'' \<or> ae_Stage e = ''selection''
        then validMaintenanceUID lib (ae_RegistryUID e) \<and> ae_AuthorityUID e = ''''
        else if ae_Stage e = ''selected''
        then validMaintenanceUID lib (ae_RegistryUID e) \<and> validMaintenanceUID lib (ae_AuthorityUID e)
        else False)"

definition validAdoptionTransition :: "journal_lib \<Rightarrow> adoption_effect option \<Rightarrow> adoption_effect \<Rightarrow> bool" where
  "validAdoptionTransition lib previous next =
     (if \<not> adoption_effect_valid lib next then False
      else case previous of
        None \<Rightarrow> ae_Stage next = ''reserved''
      | Some p \<Rightarrow>
          if ae_MaintenanceUID p \<noteq> ae_MaintenanceUID next \<or> ae_AdmissionVersion p \<noteq> ae_AdmissionVersion next then False
          else if p = next then True
          else if ae_Stage p = ''reserved'' then ae_Stage next = ''candidate''
          else if ae_Stage p = ''candidate'' then ae_Stage next = ''registry''
          else if ae_Stage p = ''registry'' then ae_Stage next = ''selection'' \<and> ae_RegistryUID p = ae_RegistryUID next
          else if ae_Stage p = ''selection'' then ae_Stage next = ''selected'' \<and> ae_RegistryUID p = ae_RegistryUID next
          else False)"

subsection \<open>The tables\<close>

datatype 'a column = NoValue | Unreadable | Holds 'a

datatype effect_value = MaintenanceEffect maintenance_effect | AdoptionEffect adoption_effect

text \<open>An intent is never absent; \<open>None\<close> is one that does not parse.\<close>

record journal_row =
  jr_Intent :: "credential_intent option"
  jr_Completion :: "security_event column"
  jr_Effect :: "effect_value column"

record journal =
  jn_Rows :: "(string \<times> string, journal_row) gomap"
  jn_Events :: "(string, security_event) gomap"

text \<open>\<open>CredentialOperation\<close>, what a call answers about an operation.\<close>

record journaled =
  jd_NewlyAdmitted :: bool
  jd_Intent :: credential_intent
  jd_Completion :: "security_event option"
  jd_Effect :: "maintenance_effect option"
  jd_AdoptionEffect :: "adoption_effect option"

text \<open>How a transaction of the database ends.\<close>

datatype ending = Committed | RolledBack journal_error | Unacknowledged journal_error

definition transact ::
  "ending \<Rightarrow> journal \<Rightarrow> journal_error + ('a \<times> journal) \<Rightarrow> (journal_error + 'a) \<times> journal" where
  "transact outcome j body =
     (case outcome of
        RolledBack e \<Rightarrow> (Inl e, j)
      | Committed \<Rightarrow> (case body of Inl e \<Rightarrow> (Inl e, j) | Inr (a, j') \<Rightarrow> (Inr a, j'))
      | Unacknowledged lost \<Rightarrow> (case body of Inl e \<Rightarrow> (Inl e, j) | Inr (a, j') \<Rightarrow> (Inl lost, j')))"

definition appendEventInTransaction :: "journal_lib \<Rightarrow> security_event \<Rightarrow> journal \<Rightarrow> journal_error + journal" where
  "appendEventInTransaction lib e j =
     (case jl_uuid lib (se_ID e) of
        None \<Rightarrow> Inl JUnavailable
      | Some k \<Rightarrow>
          (case map_of (jn_Events j) k of
             None \<Rightarrow> Inr (j\<lparr>jn_Events := AList.update k e (jn_Events j)\<rparr>)
           | Some stored \<Rightarrow> if stored = e then Inr j else Inl JConflict))"

definition Append_event :: "journal_lib \<Rightarrow> ending \<Rightarrow> security_event \<Rightarrow> journal \<Rightarrow> (journal_error + security_event) \<times> journal" where
  "Append_event lib outcome given j =
     (let e = event_normalized given in
      if \<not> event_valid lib e then (Inl JInvalid, j)
      else transact outcome j
        (case appendEventInTransaction lib e j of Inl err \<Rightarrow> Inl err | Inr j' \<Rightarrow> Inr (e, j')))"

definition LookupEvent :: "journal_lib \<Rightarrow> journal_error option \<Rightarrow> string \<Rightarrow> string \<Rightarrow> journal \<Rightarrow> journal_error + security_event" where
  "LookupEvent lib fault ns i j =
     (if \<not> namespaceName ns \<or> \<not> validMaintenanceUID lib i then Inl JInvalid
      else case fault of
        Some e \<Rightarrow> Inl e
      | None \<Rightarrow>
          (case map_of (jn_Events j) i of
             None \<Rightarrow> Inl JEventNotFound
           | Some e \<Rightarrow>
               if se_Namespace e \<noteq> ns then Inl JEventNotFound
               else if \<not> event_valid lib e \<or> se_ID e \<noteq> i then Inl JUnavailable
               else Inr (event_normalized e)))"

subsection \<open>Reading a row\<close>

text \<open>The completion an intent and an outcome determine, but for the time.\<close>

definition completion_event :: "credential_intent \<Rightarrow> string \<Rightarrow> time \<Rightarrow> security_event" where
  "completion_event i outcome at_time =
     event_normalized ((ci_Admission i)\<lparr>se_ID := ci_CompletionEventID i, se_Phase := ''completion'', se_Outcome := outcome,
       se_ObservedAt := at_time\<rparr>)"

definition decodeCredentialCompletion ::
  "journal_lib \<Rightarrow> credential_intent \<Rightarrow> security_event column \<Rightarrow> journal_error + security_event option" where
  "decodeCredentialCompletion lib i col =
     (case col of
        NoValue \<Rightarrow> Inr None
      | Unreadable \<Rightarrow> Inl JUnavailable
      | Holds e \<Rightarrow>
          if \<not> event_valid lib e \<or> (se_Outcome e \<noteq> ''success'' \<and> se_Outcome e \<noteq> ''failure'') then Inl JUnavailable
          else if event_normalized e \<noteq> completion_event i (se_Outcome e) (se_ObservedAt e) then Inl JUnavailable
          else Inr (Some (event_normalized e)))"

definition decodeCredentialMaintenanceEffect ::
  "journal_lib \<Rightarrow> credential_intent \<Rightarrow> effect_value column \<Rightarrow> journal_error + maintenance_effect option" where
  "decodeCredentialMaintenanceEffect lib i col =
     (case col of
        NoValue \<Rightarrow> Inr None
      | Unreadable \<Rightarrow> Inl JUnavailable
      | Holds (AdoptionEffect a) \<Rightarrow> Inl JUnavailable
      | Holds (MaintenanceEffect m) \<Rightarrow>
          if se_ResourceKind (ci_Admission i) \<noteq> ''credential-maintenance'' \<or> \<not> maintenance_effect_valid lib m
             \<or> me_ResourceUID m \<noteq> ci_MaintenanceUID i \<or> me_ResourceVersion m = ci_ExpectedVersion i
          then Inl JUnavailable else Inr (Some m))"

definition decodeCredentialEffects ::
  "journal_lib \<Rightarrow> credential_intent \<Rightarrow> effect_value column
     \<Rightarrow> journal_error + (maintenance_effect option \<times> adoption_effect option)" where
  "decodeCredentialEffects lib i col =
     (if se_ResourceKind (ci_Admission i) \<noteq> ''credential-adoption''
      then (case decodeCredentialMaintenanceEffect lib i col of Inl e \<Rightarrow> Inl e | Inr m \<Rightarrow> Inr (m, None))
      else case col of
        NoValue \<Rightarrow> Inr (None, None)
      | Holds (AdoptionEffect a) \<Rightarrow> if adoption_effect_valid lib a then Inr (None, Some a) else Inl JUnavailable
      | _ \<Rightarrow> Inl JUnavailable)"

definition read_row ::
  "journal_lib \<Rightarrow> bool \<Rightarrow> credential_intent \<Rightarrow> journal_row \<Rightarrow> journal_error + journaled" where
  "read_row lib newly i row =
     (case decodeCredentialCompletion lib i (jr_Completion row) of
        Inl e \<Rightarrow> Inl e
      | Inr completion \<Rightarrow>
          (case decodeCredentialEffects lib i (jr_Effect row) of
             Inl e \<Rightarrow> Inl e
           | Inr (m, a) \<Rightarrow>
               Inr \<lparr>jd_NewlyAdmitted = newly, jd_Intent = i, jd_Completion = completion, jd_Effect = m, jd_AdoptionEffect = a\<rparr>))"

text \<open>The intent of a row read for an operation must be valid and name it.\<close>

definition intent_names :: "journal_lib \<Rightarrow> string \<Rightarrow> string \<Rightarrow> credential_intent option \<Rightarrow> bool" where
  "intent_names lib ns i stored =
     (case stored of
        None \<Rightarrow> False
      | Some t \<Rightarrow> intent_valid lib t \<and> se_Namespace (ci_Admission t) = ns \<and> se_OperationID (ci_Admission t) = i)"

definition row_at :: "journal_lib \<Rightarrow> string \<Rightarrow> string \<Rightarrow> journal \<Rightarrow> journal_row option" where
  "row_at lib ns i j = (case jl_uuid lib i of None \<Rightarrow> None | Some k \<Rightarrow> map_of (jn_Rows j) (ns, k))"

definition put_row :: "journal_lib \<Rightarrow> string \<Rightarrow> string \<Rightarrow> journal_row \<Rightarrow> journal \<Rightarrow> journal" where
  "put_row lib ns i row j =
     (case jl_uuid lib i of None \<Rightarrow> j | Some k \<Rightarrow> j\<lparr>jn_Rows := AList.update (ns, k) row (jn_Rows j)\<rparr>)"

subsection \<open>The operations of the journal\<close>

definition intent_normalized :: "credential_intent \<Rightarrow> credential_intent" where
  "intent_normalized i = i\<lparr>ci_Admission := event_normalized (ci_Admission i)\<rparr>"

definition admit_row :: "journal_lib \<Rightarrow> credential_intent \<Rightarrow> journal \<Rightarrow> journal_error + (journaled \<times> journal)" where
  "admit_row lib i j =
     (let e = ci_Admission i; ns = se_Namespace e; opid = se_OperationID e in
      case row_at lib ns opid j of
        None \<Rightarrow>
          (case appendEventInTransaction lib e j of
             Inl err \<Rightarrow> Inl err
           | Inr j1 \<Rightarrow>
               let row = \<lparr>jr_Intent = Some i, jr_Completion = NoValue, jr_Effect = NoValue\<rparr> in
               (case read_row lib True i row of Inl err \<Rightarrow> Inl err | Inr d \<Rightarrow> Inr (d, put_row lib ns opid row j1)))
      | Some row \<Rightarrow>
          if jr_Intent row \<noteq> Some i then Inl JConflict
          else (case read_row lib False i row of Inl err \<Rightarrow> Inl err | Inr d \<Rightarrow> Inr (d, j)))"

definition AdmitCredentialOperation ::
  "journal_lib \<Rightarrow> ending \<Rightarrow> credential_intent \<Rightarrow> journal \<Rightarrow> (journal_error + journaled) \<times> journal" where
  "AdmitCredentialOperation lib outcome given j =
     (let i = intent_normalized given in
      if \<not> intent_valid lib i then (Inl JInvalid, j) else transact outcome j (admit_row lib i j))"

definition GetCredentialOperation ::
  "journal_lib \<Rightarrow> journal_error option \<Rightarrow> string \<Rightarrow> string \<Rightarrow> journal \<Rightarrow> journal_error + journaled" where
  "GetCredentialOperation lib fault ns i j =
     (if \<not> namespaceName ns \<or> jl_uuid lib i = None then Inl JInvalid
      else case fault of
        Some e \<Rightarrow> Inl e
      | None \<Rightarrow>
          (case row_at lib ns i j of
             None \<Rightarrow> Inl JNotFound
           | Some row \<Rightarrow>
               if \<not> intent_names lib ns i (jr_Intent row) then Inl JUnavailable
               else read_row lib False (the (jr_Intent row)) row))"

definition finish_row ::
  "journal_lib \<Rightarrow> string \<Rightarrow> string \<Rightarrow> string \<Rightarrow> time \<Rightarrow> string \<Rightarrow> maintenance_effect option \<Rightarrow> adoption_effect option
     \<Rightarrow> journal \<Rightarrow> journal_error + (security_event \<times> journal)" where
  "finish_row lib ns i outcome at_time kind expectedEffect expectedAdoption j =
     (case row_at lib ns i j of
        None \<Rightarrow> Inl JConflict
      | Some row \<Rightarrow>
          if \<not> intent_names lib ns i (jr_Intent row) then Inl JUnavailable
          else let t = the (jr_Intent row) in
            if kind \<noteq> se_ResourceKind (ci_Admission t) then Inl JInvalid
            else (case decodeCredentialEffects lib t (jr_Effect row) of
                    Inl e \<Rightarrow> Inl e
                  | Inr (actualEffect, actualAdoption) \<Rightarrow>
                      if kind = ''credential-maintenance'' \<and> actualEffect \<noteq> expectedEffect then Inl JConflict
                      else if kind = ''credential-adoption''
                        \<and> (actualAdoption \<noteq> expectedAdoption
                           \<or> outcome = ''failure'' \<and> (case actualAdoption of None \<Rightarrow> False | Some a \<Rightarrow> ae_Stage a \<noteq> ''reserved'')
                           \<or> outcome = ''success'' \<and> (case actualAdoption of None \<Rightarrow> True | Some a \<Rightarrow> ae_Stage a \<noteq> ''selected''))
                      then Inl JConflict
                      else (case jr_Completion row of
                              NoValue \<Rightarrow>
                                let e = completion_event t outcome at_time in
                                if \<not> event_valid lib e then Inl JInvalid
                                else (case appendEventInTransaction lib e j of
                                        Inl err \<Rightarrow> Inl err
                                      | Inr j1 \<Rightarrow> Inr (e, put_row lib ns i (row\<lparr>jr_Completion := Holds e\<rparr>) j1))
                            | final \<Rightarrow>
                                (case decodeCredentialCompletion lib t final of
                                   Inl e \<Rightarrow> Inl e
                                 | Inr None \<Rightarrow> Inl JUnavailable
                                 | Inr (Some previous) \<Rightarrow>
                                     if se_Outcome previous \<noteq> outcome then Inl JConflict else Inr (previous, j)))))"

definition finishCredentialOperation ::
  "journal_lib \<Rightarrow> ending \<Rightarrow> string \<Rightarrow> string \<Rightarrow> string \<Rightarrow> time \<Rightarrow> string \<Rightarrow> maintenance_effect option \<Rightarrow> adoption_effect option
     \<Rightarrow> journal \<Rightarrow> (journal_error + security_event) \<times> journal" where
  "finishCredentialOperation lib ended ns i outcome at_time kind expectedEffect expectedAdoption j =
     (if \<not> namespaceName ns \<or> (outcome \<noteq> ''success'' \<and> outcome \<noteq> ''failure'') \<or> at_time = 0 \<or> jl_uuid lib i = None
      then (Inl JInvalid, j)
      else transact ended j (finish_row lib ns i outcome at_time kind expectedEffect expectedAdoption j))"

definition FinishCredentialOperation ::
  "journal_lib \<Rightarrow> ending \<Rightarrow> string \<Rightarrow> string \<Rightarrow> string \<Rightarrow> time \<Rightarrow> journal \<Rightarrow> (journal_error + security_event) \<times> journal" where
  "FinishCredentialOperation lib ended ns i outcome at_time j =
     finishCredentialOperation lib ended ns i outcome at_time ''credential'' None None j"

definition FinishCredentialMaintenanceOperation ::
  "journal_lib \<Rightarrow> ending \<Rightarrow> string \<Rightarrow> string \<Rightarrow> string \<Rightarrow> time \<Rightarrow> maintenance_effect option \<Rightarrow> journal
     \<Rightarrow> (journal_error + security_event) \<times> journal" where
  "FinishCredentialMaintenanceOperation lib ended ns i outcome at_time expectedEffect j =
     finishCredentialOperation lib ended ns i outcome at_time ''credential-maintenance'' expectedEffect None j"

definition FinishCredentialAdoptionOperation ::
  "journal_lib \<Rightarrow> ending \<Rightarrow> string \<Rightarrow> string \<Rightarrow> string \<Rightarrow> time \<Rightarrow> adoption_effect option \<Rightarrow> journal
     \<Rightarrow> (journal_error + security_event) \<times> journal" where
  "FinishCredentialAdoptionOperation lib ended ns i outcome at_time expected j =
     finishCredentialOperation lib ended ns i outcome at_time ''credential-adoption'' None expected j"

definition record_maintenance_row ::
  "journal_lib \<Rightarrow> string \<Rightarrow> string \<Rightarrow> maintenance_effect \<Rightarrow> journal \<Rightarrow> journal_error + (journaled \<times> journal)" where
  "record_maintenance_row lib ns i effect j =
     (case row_at lib ns i j of
        None \<Rightarrow> Inl JNotFound
      | Some row \<Rightarrow>
          if \<not> intent_names lib ns i (jr_Intent row) then Inl JInvalid
          else let t = the (jr_Intent row) in
            if se_ResourceKind (ci_Admission t) \<noteq> ''credential-maintenance'' \<or> me_ResourceUID effect \<noteq> ci_MaintenanceUID t
               \<or> me_ResourceVersion effect = ci_ExpectedVersion t then Inl JInvalid
            else (case decodeCredentialMaintenanceEffect lib t (jr_Effect row) of
                    Inl e \<Rightarrow> Inl e
                  | Inr old \<Rightarrow>
                      (case (case old of
                               Some m \<Rightarrow> if m \<noteq> effect then Inl JConflict else Inr j
                             | None \<Rightarrow> if jr_Completion row \<noteq> NoValue then Inl JConflict
                                 else Inr (put_row lib ns i (row\<lparr>jr_Effect := Holds (MaintenanceEffect effect)\<rparr>) j)) of
                         Inl e \<Rightarrow> Inl e
                       | Inr j' \<Rightarrow>
                           (case decodeCredentialCompletion lib t (jr_Completion row) of
                              Inl e \<Rightarrow> Inl e
                            | Inr final \<Rightarrow>
                                Inr (\<lparr>jd_NewlyAdmitted = False, jd_Intent = t, jd_Completion = final,
                                      jd_Effect = Some effect, jd_AdoptionEffect = None\<rparr>, j')))))"

definition RecordCredentialMaintenanceEffect ::
  "journal_lib \<Rightarrow> ending \<Rightarrow> string \<Rightarrow> string \<Rightarrow> maintenance_effect \<Rightarrow> journal \<Rightarrow> (journal_error + journaled) \<times> journal" where
  "RecordCredentialMaintenanceEffect lib ended ns i effect j =
     (if \<not> namespaceName ns \<or> \<not> validMaintenanceUID lib i \<or> \<not> maintenance_effect_valid lib effect then (Inl JInvalid, j)
      else transact ended j (record_maintenance_row lib ns i effect j))"

definition record_adoption_row ::
  "journal_lib \<Rightarrow> string \<Rightarrow> string \<Rightarrow> adoption_effect \<Rightarrow> journal \<Rightarrow> journal_error + (journaled \<times> journal)" where
  "record_adoption_row lib ns i effect j =
     (case row_at lib ns i j of
        None \<Rightarrow> Inl JNotFound
      | Some row \<Rightarrow>
          if \<not> intent_names lib ns i (jr_Intent row) then Inl JInvalid
          else let t = the (jr_Intent row) in
            if se_ResourceKind (ci_Admission t) \<noteq> ''credential-adoption'' then Inl JInvalid
            else (case decodeCredentialEffects lib t (jr_Effect row) of
                    Inl e \<Rightarrow> Inl e
                  | Inr (_, old) \<Rightarrow>
                      if \<not> validAdoptionTransition lib old effect \<or> (jr_Completion row \<noteq> NoValue \<and> old \<noteq> Some effect)
                      then Inl JConflict
                      else let j' = (if old \<noteq> Some effect
                                     then put_row lib ns i (row\<lparr>jr_Effect := Holds (AdoptionEffect effect)\<rparr>) j else j) in
                        (case decodeCredentialCompletion lib t (jr_Completion row) of
                           Inl e \<Rightarrow> Inl e
                         | Inr final \<Rightarrow>
                             Inr (\<lparr>jd_NewlyAdmitted = False, jd_Intent = t, jd_Completion = final,
                                   jd_Effect = None, jd_AdoptionEffect = Some effect\<rparr>, j'))))"

definition RecordCredentialAdoptionEffect ::
  "journal_lib \<Rightarrow> ending \<Rightarrow> string \<Rightarrow> string \<Rightarrow> adoption_effect \<Rightarrow> journal \<Rightarrow> (journal_error + journaled) \<times> journal" where
  "RecordCredentialAdoptionEffect lib ended ns i effect j =
     (if \<not> namespaceName ns \<or> \<not> validMaintenanceUID lib i \<or> \<not> adoption_effect_valid lib effect then (Inl JInvalid, j)
      else transact ended j (record_adoption_row lib ns i effect j))"

subsection \<open>Rows only move forward\<close>

definition stage_rank :: "string \<Rightarrow> nat" where
  "stage_rank s =
     (if s = ''reserved'' then 1 else if s = ''candidate'' then 2 else if s = ''registry'' then 3
      else if s = ''selection'' then 4 else if s = ''selected'' then 5 else 0)"

definition effect_continues :: "effect_value column \<Rightarrow> effect_value column \<Rightarrow> bool" where
  "effect_continues e e' \<longleftrightarrow>
     (case e of
        NoValue \<Rightarrow> True
      | Unreadable \<Rightarrow> e' = Unreadable
      | Holds (MaintenanceEffect m) \<Rightarrow> e' = e
      | Holds (AdoptionEffect a) \<Rightarrow>
          (case e' of
             Holds (AdoptionEffect b) \<Rightarrow>
               ae_MaintenanceUID b = ae_MaintenanceUID a \<and> ae_AdmissionVersion b = ae_AdmissionVersion a
               \<and> stage_rank (ae_Stage a) \<le> stage_rank (ae_Stage b)
           | _ \<Rightarrow> False))"

definition row_continues :: "journal_row \<Rightarrow> journal_row \<Rightarrow> bool" where
  "row_continues r r' \<longleftrightarrow>
     jr_Intent r' = jr_Intent r \<and> (jr_Completion r \<noteq> NoValue \<longrightarrow> jr_Completion r' = jr_Completion r)
     \<and> effect_continues (jr_Effect r) (jr_Effect r')"

definition journal_continues :: "journal \<Rightarrow> journal \<Rightarrow> bool" where
  "journal_continues j j' \<longleftrightarrow>
     (\<forall>k r. map_of (jn_Rows j) k = Some r \<longrightarrow> (\<exists>r'. map_of (jn_Rows j') k = Some r' \<and> row_continues r r'))"

lemma effect_continues_refl: "effect_continues e e"
  by (auto simp: effect_continues_def split: column.splits effect_value.splits)

lemma effect_continues_cases:
  "effect_continues NoValue e'"
  "effect_continues Unreadable e' \<longleftrightarrow> e' = Unreadable"
  "effect_continues (Holds (MaintenanceEffect m)) e' \<longleftrightarrow> e' = Holds (MaintenanceEffect m)"
  "effect_continues (Holds (AdoptionEffect a)) e' \<longleftrightarrow>
     (\<exists>b. e' = Holds (AdoptionEffect b) \<and> ae_MaintenanceUID b = ae_MaintenanceUID a
        \<and> ae_AdmissionVersion b = ae_AdmissionVersion a \<and> stage_rank (ae_Stage a) \<le> stage_rank (ae_Stage b))"
  by (auto simp: effect_continues_def split: column.splits effect_value.splits)

lemma effect_continues_trans:
  assumes "effect_continues a b" and "effect_continues b c"
  shows "effect_continues a c"
proof (cases a)
  case (Holds x)
  with assms show ?thesis by (cases x) (auto simp: effect_continues_cases)
qed (use assms in \<open>simp_all add: effect_continues_cases\<close>)

lemma row_continues_refl: "row_continues r r"
  by (simp add: row_continues_def effect_continues_refl)

lemma row_continues_trans: "row_continues a b \<Longrightarrow> row_continues b c \<Longrightarrow> row_continues a c"
  unfolding row_continues_def by (auto intro: effect_continues_trans)

lemma journal_continues_refl: "journal_continues j j"
  unfolding journal_continues_def using row_continues_refl by blast

lemma journal_continues_trans: "journal_continues a b \<Longrightarrow> journal_continues b c \<Longrightarrow> journal_continues a c"
  unfolding journal_continues_def by (blast intro: row_continues_trans)

lemma adoption_advances:
  assumes "validAdoptionTransition lib (Some a) b"
  shows "effect_continues (Holds (AdoptionEffect a)) (Holds (AdoptionEffect b))"
proof (cases "a = b")
  case False
  then have "ae_MaintenanceUID a = ae_MaintenanceUID b" "ae_AdmissionVersion a = ae_AdmissionVersion b"
    "ae_Stage a = ''reserved'' \<and> ae_Stage b = ''candidate'' \<or> ae_Stage a = ''candidate'' \<and> ae_Stage b = ''registry''
     \<or> ae_Stage a = ''registry'' \<and> ae_Stage b = ''selection'' \<or> ae_Stage a = ''selection'' \<and> ae_Stage b = ''selected''"
    using assms unfolding validAdoptionTransition_def by (simp_all split: if_split_asm)
  then show ?thesis by (auto simp: effect_continues_def stage_rank_def)
qed (simp add: effect_continues_refl)

lemma transact_cases:
  assumes "transact c j body = (r, j')"
  shows "j' = j \<or> (\<exists>a. body = Inr (a, j'))" and "r = Inr a \<Longrightarrow> body = Inr (a, j')"
  using assms by (auto simp: transact_def split: ending.splits sum.splits prod.splits)

lemma row_at_put:
  assumes "row_at lib ns i j = Some row"
  shows "row_at lib ns i (put_row lib ns i row' j) = Some row'"
  using assms by (simp add: row_at_def put_row_def alist_lookup_update split: option.splits)

lemma put_row_continues:
  assumes "row_at lib ns i j = Some row" and "row_continues row row'"
  shows "journal_continues j (put_row lib ns i row' j)"
  using assms row_continues_refl
  by (auto simp: row_at_def put_row_def journal_continues_def alist_lookup_update split: option.splits)

lemma appended_rows: "appendEventInTransaction lib e j = Inr j' \<Longrightarrow> jn_Rows j' = jn_Rows j"
  by (auto simp: appendEventInTransaction_def split: option.splits if_splits)

lemma appended_row_at: "appendEventInTransaction lib e j = Inr j' \<Longrightarrow> row_at lib ns i j' = row_at lib ns i j"
  using appended_rows [of lib e j j'] by (simp add: row_at_def split: option.split)

lemma same_rows_continue: "jn_Rows j' = jn_Rows j \<Longrightarrow> journal_continues j j'"
  unfolding journal_continues_def using row_continues_refl by simp

lemma admitted_row:
  assumes "admit_row lib i j = Inr (d, j')"
  shows "journal_continues j j'"
    and "jd_NewlyAdmitted d \<longleftrightarrow> row_at lib (se_Namespace (ci_Admission i)) (se_OperationID (ci_Admission i)) j = None"
    and "jd_Intent d = i" and "jd_NewlyAdmitted d \<Longrightarrow> jd_Completion d = None"
proof -
  let ?ns = "se_Namespace (ci_Admission i)" and ?op = "se_OperationID (ci_Admission i)"
  have all: "journal_continues j j' \<and> (jd_NewlyAdmitted d \<longleftrightarrow> row_at lib ?ns ?op j = None) \<and> jd_Intent d = i
      \<and> (jd_NewlyAdmitted d \<longrightarrow> jd_Completion d = None)"
  proof (cases "row_at lib ?ns ?op j")
    case None
    then obtain j1 where j1: "appendEventInTransaction lib (ci_Admission i) j = Inr j1"
      and d: "read_row lib True i \<lparr>jr_Intent = Some i, jr_Completion = NoValue, jr_Effect = NoValue\<rparr> = Inr d"
      and j': "j' = put_row lib ?ns ?op \<lparr>jr_Intent = Some i, jr_Completion = NoValue, jr_Effect = NoValue\<rparr> j1"
      using assms by (auto simp: admit_row_def Let_def split: sum.splits)
    have "journal_continues j j'"
      using None appended_rows [OF j1] row_continues_refl unfolding j'
      by (auto simp: row_at_def put_row_def journal_continues_def alist_lookup_update split: option.splits)
    with None d show ?thesis
      by (auto simp: read_row_def decodeCredentialCompletion_def split: sum.splits)
  next
    case (Some row)
    then have "j' = j" "read_row lib False i row = Inr d"
      using assms by (auto simp: admit_row_def Let_def split: sum.splits if_splits)
    with Some show ?thesis
      by (auto simp: read_row_def journal_continues_refl split: sum.splits)
  qed
  then show "journal_continues j j'" "jd_NewlyAdmitted d \<longleftrightarrow> row_at lib ?ns ?op j = None" "jd_Intent d = i"
    "jd_NewlyAdmitted d \<Longrightarrow> jd_Completion d = None" by blast+
qed

text \<open>An event the journal writes as completion reads back as itself.\<close>

lemma completion_again:
  "completion_event t (se_Outcome (completion_event t out at_time)) (se_ObservedAt (completion_event t out at_time))
     = completion_event t out at_time"
  "event_normalized (completion_event t out at_time) = completion_event t out at_time"
  "se_Outcome (completion_event t out at_time) = out"
  by (simp_all add: completion_event_def event_normalized_def to_micros_again)

lemma finished_row:
  assumes "finish_row lib ns i out at_time kind m a j = Inr (e, j')" and "out = ''success'' \<or> out = ''failure''"
  obtains row t where "row_at lib ns i j' = Some row" "jr_Intent row = Some t" "intent_names lib ns i (jr_Intent row)"
    "decodeCredentialCompletion lib t (jr_Completion row) = Inr (Some e)" "se_Outcome e = out" "jr_Completion row \<noteq> NoValue"
    "journal_continues j j'" "se_ResourceKind (ci_Admission t) = kind"
    "\<exists>row0. row_at lib ns i j = Some row0 \<and> (row0 = row \<or> jr_Completion row0 = NoValue \<and> jr_Intent row0 = jr_Intent row)"
proof -
  from assms(1) obtain row where row: "row_at lib ns i j = Some row" "intent_names lib ns i (jr_Intent row)"
    by (auto simp: finish_row_def split: option.splits if_splits)
  then obtain t where t: "jr_Intent row = Some t" by (auto simp: intent_names_def split: option.splits)
  have kind: "se_ResourceKind (ci_Admission t) = kind"
    using assms(1) row t by (auto simp: finish_row_def Let_def split: if_splits)
  show thesis
  proof (cases "jr_Completion row")
    case NoValue
    then have e: "e = completion_event t out at_time" "event_valid lib e"
      and j': "\<exists>j1. appendEventInTransaction lib e j = Inr j1 \<and> j' = put_row lib ns i (row\<lparr>jr_Completion := Holds e\<rparr>) j1"
      using assms(1) row t by (auto simp: finish_row_def Let_def split: if_splits sum.splits)
    from j' obtain j1 where j1: "appendEventInTransaction lib e j = Inr j1"
      "j' = put_row lib ns i (row\<lparr>jr_Completion := Holds e\<rparr>) j1" by blast
    have at1: "row_at lib ns i j1 = Some row" using row(1) appended_row_at [OF j1(1)] by simp
    have "row_continues row (row\<lparr>jr_Completion := Holds e\<rparr>)"
      by (simp add: row_continues_def NoValue effect_continues_refl)
    then have "journal_continues j1 j'" unfolding j1(2) by (rule put_row_continues [OF at1])
    then have cont: "journal_continues j j'"
      by (rule journal_continues_trans [OF same_rows_continue [OF appended_rows [OF j1(1)]]])
    have "decodeCredentialCompletion lib t (Holds e) = Inr (Some e)"
      using e assms(2) completion_again [of t out at_time] by (simp add: decodeCredentialCompletion_def)
    then show ?thesis
      using that [of "row\<lparr>jr_Completion := Holds e\<rparr>" t] row t kind cont row_at_put [OF at1] completion_again(3) NoValue
      by (simp add: j1(2) e(1))
  next
    case Unreadable
    then show ?thesis
      using assms(1) row t by (auto simp: finish_row_def Let_def decodeCredentialCompletion_def split: if_splits sum.splits)
  next
    case (Holds x)
    then have "decodeCredentialCompletion lib t (jr_Completion row) = Inr (Some e) \<and> se_Outcome e = out \<and> j' = j"
      using assms(1) row t by (auto simp: finish_row_def Let_def split: if_splits sum.splits option.splits)
    then show ?thesis using that [of row t] row t kind Holds by (simp add: journal_continues_refl)
  qed
qed

lemma recorded_continues:
  "record_maintenance_row lib ns i me j = Inr (d, j') \<Longrightarrow> journal_continues j j'"
  "record_adoption_row lib ns i ae j = Inr (d, j') \<Longrightarrow> journal_continues j j'"
proof -
  assume rec: "record_maintenance_row lib ns i me j = Inr (d, j')"
  then obtain row where row: "row_at lib ns i j = Some row" "intent_names lib ns i (jr_Intent row)"
    by (auto simp: record_maintenance_row_def split: option.splits if_splits)
  from rec row obtain old where old: "decodeCredentialMaintenanceEffect lib (the (jr_Intent row)) (jr_Effect row) = Inr old"
    "j' = j \<or> old = None \<and> jr_Completion row = NoValue
       \<and> j' = put_row lib ns i (row\<lparr>jr_Effect := Holds (MaintenanceEffect me)\<rparr>) j"
    by (auto simp: record_maintenance_row_def Let_def split: if_splits sum.splits option.splits)
  show "journal_continues j j'"
  proof (cases "j' = j")
    case False
    then have "jr_Effect row = NoValue"
      using old by (auto simp: decodeCredentialMaintenanceEffect_def split: column.splits effect_value.splits if_splits)
    then have "row_continues row (row\<lparr>jr_Effect := Holds (MaintenanceEffect me)\<rparr>)"
      by (simp add: row_continues_def effect_continues_cases)
    with False old(2) row(1) show ?thesis by (auto intro: put_row_continues)
  qed (simp add: journal_continues_refl)
next
  assume rec: "record_adoption_row lib ns i ae j = Inr (d, j')"
  then obtain row where row: "row_at lib ns i j = Some row" "intent_names lib ns i (jr_Intent row)"
    by (auto simp: record_adoption_row_def split: option.splits if_splits)
  let ?t = "the (jr_Intent row)"
  from rec row obtain m old where old: "decodeCredentialEffects lib ?t (jr_Effect row) = Inr (m, old)"
    "validAdoptionTransition lib old ae" "se_ResourceKind (ci_Admission ?t) = ''credential-adoption''"
    "j' = j \<or> j' = put_row lib ns i (row\<lparr>jr_Effect := Holds (AdoptionEffect ae)\<rparr>) j"
    by (auto simp: record_adoption_row_def Let_def split: if_splits sum.splits)
  have "effect_continues (jr_Effect row) (Holds (AdoptionEffect ae))"
  proof (cases "jr_Effect row")
    case NoValue
    then show ?thesis by (simp add: effect_continues_cases)
  next
    case Unreadable
    then show ?thesis using old(1,3) by (simp add: decodeCredentialEffects_def)
  next
    case (Holds x)
    then obtain a where "x = AdoptionEffect a" "old = Some a"
      using old(1,3) by (auto simp: decodeCredentialEffects_def split: effect_value.splits if_splits)
    with Holds adoption_advances old(2) show ?thesis by simp
  qed
  then have "row_continues row (row\<lparr>jr_Effect := Holds (AdoptionEffect ae)\<rparr>)"
    by (simp add: row_continues_def)
  with old(4) row(1) show "journal_continues j j'" using journal_continues_refl put_row_continues by metis
qed

text \<open>Everything that writes the journal, from any replica, with any ending.\<close>

datatype journal_call =
    CallAppend security_event
  | CallAdmit credential_intent
  | CallFinish string string string time string "maintenance_effect option" "adoption_effect option"
  | CallRecordMaintenance string string maintenance_effect
  | CallRecordAdoption string string adoption_effect

fun journal_step :: "journal_lib \<Rightarrow> journal_call \<times> ending \<Rightarrow> journal \<Rightarrow> journal" where
  "journal_step lib (CallAppend e, c) j = snd (Append_event lib c e j)"
| "journal_step lib (CallAdmit i, c) j = snd (AdmitCredentialOperation lib c i j)"
| "journal_step lib (CallFinish ns i out at_time kind m a, c) j = snd (finishCredentialOperation lib c ns i out at_time kind m a j)"
| "journal_step lib (CallRecordMaintenance ns i e, c) j = snd (RecordCredentialMaintenanceEffect lib c ns i e j)"
| "journal_step lib (CallRecordAdoption ns i e, c) j = snd (RecordCredentialAdoptionEffect lib c ns i e j)"

lemma transact_continues:
  assumes "\<And>a j'. body = Inr (a, j') \<Longrightarrow> journal_continues j j'"
  shows "journal_continues j (snd (transact c j body))"
  using transact_cases(1) [of c j body] assms journal_continues_refl by (metis prod.collapse)

lemma append_continues: "journal_continues j (snd (Append_event lib c e j))"
proof -
  have "journal_continues j (snd (transact c j
      (case appendEventInTransaction lib (event_normalized e) j of Inl err \<Rightarrow> Inl err | Inr j' \<Rightarrow> Inr (event_normalized e, j'))))"
    by (rule transact_continues) (auto dest: appended_rows intro: same_rows_continue split: sum.splits)
  then show ?thesis by (simp add: Append_event_def Let_def journal_continues_refl)
qed

lemma admit_continues: "journal_continues j (snd (AdmitCredentialOperation lib c i j))"
proof -
  have "journal_continues j (snd (transact c j (admit_row lib (intent_normalized i) j)))"
    by (rule transact_continues) (rule admitted_row(1))
  then show ?thesis by (simp add: AdmitCredentialOperation_def Let_def journal_continues_refl)
qed

lemma finish_continues: "journal_continues j (snd (finishCredentialOperation lib c ns i out at_time kind m a j))"
proof (cases "out = ''success'' \<or> out = ''failure''")
  case True
  have "journal_continues j (snd (transact c j (finish_row lib ns i out at_time kind m a j)))"
    by (rule transact_continues) (erule finished_row [OF _ True])
  then show ?thesis by (simp add: finishCredentialOperation_def journal_continues_refl)
qed (simp add: finishCredentialOperation_def journal_continues_refl)

lemma journal_step_continues: "journal_continues j (journal_step lib cc j)"
proof -
  obtain call c where cc: "cc = (call, c)" by (cases cc)
  have "journal_continues j (snd (RecordCredentialMaintenanceEffect lib c ns i e j))" for ns i e
  proof -
    have "journal_continues j (snd (transact c j (record_maintenance_row lib ns i e j)))"
      by (rule transact_continues) (rule recorded_continues(1))
    then show ?thesis by (simp add: RecordCredentialMaintenanceEffect_def journal_continues_refl)
  qed
  moreover have "journal_continues j (snd (RecordCredentialAdoptionEffect lib c ns i e j))" for ns i e
  proof -
    have "journal_continues j (snd (transact c j (record_adoption_row lib ns i e j)))"
      by (rule transact_continues) (rule recorded_continues(2))
    then show ?thesis by (simp add: RecordCredentialAdoptionEffect_def journal_continues_refl)
  qed
  ultimately show ?thesis
    unfolding cc by (cases call) (simp_all add: append_continues admit_continues finish_continues)
qed

lemma journal_run_continues: "journal_continues j (fold (journal_step lib) calls j)"
proof (induction calls arbitrary: j)
  case (Cons cc calls)
  from journal_continues_trans [OF journal_step_continues [of j lib cc] Cons.IH] show ?case by simp
qed (simp add: journal_continues_refl)

lemma row_at_continues:
  assumes "journal_continues j j'" and "row_at lib ns i j = Some row"
  obtains row' where "row_at lib ns i j' = Some row'" and "row_continues row row'"
proof -
  from assms(2) obtain k where k: "jl_uuid lib i = Some k" "map_of (jn_Rows j) (ns, k) = Some row"
    by (auto simp: row_at_def split: option.splits)
  with assms(1) obtain r' where "map_of (jn_Rows j') (ns, k) = Some r'" "row_continues row r'"
    unfolding journal_continues_def by blast
  with k(1) that show thesis by (simp add: row_at_def)
qed

text \<open>What an acknowledged outcome leaves, now and after any further calls.\<close>

lemma decided_row:
  assumes "finishCredentialOperation lib c ns i out at_time kind m a j = (Inr e, j1)" and "journal_continues j1 j2"
  obtains row t where "row_at lib ns i j2 = Some row" "jr_Intent row = Some t" "jr_Completion row \<noteq> NoValue"
    "decodeCredentialCompletion lib t (jr_Completion row) = Inr (Some e)" "se_Outcome e = out"
    "se_ResourceKind (ci_Admission t) = kind"
proof -
  have out: "out = ''success'' \<or> out = ''failure''" and body: "finish_row lib ns i out at_time kind m a j = Inr (e, j1)"
    using assms(1) transact_cases(2) [of c j "finish_row lib ns i out at_time kind m a j" "Inr e" j1 e]
    by (auto simp: finishCredentialOperation_def split: if_split_asm)
  from finished_row [OF body out] obtain row t where row: "row_at lib ns i j1 = Some row" "jr_Intent row = Some t"
    "decodeCredentialCompletion lib t (jr_Completion row) = Inr (Some e)" "se_Outcome e = out" "jr_Completion row \<noteq> NoValue"
    "se_ResourceKind (ci_Admission t) = kind" by metis
  obtain row' where row': "row_at lib ns i j2 = Some row'" "row_continues row row'"
    by (rule row_at_continues [OF assms(2) row(1)])
  with row that show thesis by (simp add: row_continues_def)
qed

text \<open>
  C33: An operation is decided once. When any replica's call to finish an operation was acknowledged with an
  event, then after any further calls on the journal, by any replica and whether they commit, roll
  back or lose their acknowledgement, reading the operation gives that very event as its
  completion, every acknowledged attempt to finish it again gives the same event with its first
  outcome and time, and admitting it never makes it a new operation again.
\<close>

theorem journal_decides_once:
  assumes "finishCredentialOperation lib c ns i out at_time kind m a j = (Inr e, j1)"
    and "j2 = fold (journal_step lib) calls j1"
  shows "se_Outcome e = out
    \<and> (\<forall>fault d. GetCredentialOperation lib fault ns i j2 = Inr d \<longrightarrow> jd_Completion d = Some e)
    \<and> (\<forall>c' out' at' kind' m' a' e' j3.
         finishCredentialOperation lib c' ns i out' at' kind' m' a' j2 = (Inr e', j3) \<longrightarrow> e' = e)
    \<and> (\<forall>c' t d j3. AdmitCredentialOperation lib c' t j2 = (Inr d, j3) \<and> se_Namespace (ci_Admission t) = ns
         \<and> jl_uuid lib (se_OperationID (ci_Admission t)) = jl_uuid lib i \<longrightarrow> \<not> jd_NewlyAdmitted d)"
proof (intro conjI allI impI)
  have cont: "journal_continues j1 j2" unfolding assms(2) by (rule journal_run_continues)
  obtain row t where row: "row_at lib ns i j2 = Some row" "jr_Intent row = Some t" "jr_Completion row \<noteq> NoValue"
    "decodeCredentialCompletion lib t (jr_Completion row) = Inr (Some e)" "se_Outcome e = out"
    using decided_row [OF assms(1) cont] by metis
  show "se_Outcome e = out" by (rule row(5))
  show "jd_Completion d = Some e" if "GetCredentialOperation lib fault ns i j2 = Inr d" for fault d
    using that row by (auto simp: GetCredentialOperation_def read_row_def split: if_splits option.splits sum.splits)
  show "e' = e" if again: "finishCredentialOperation lib c' ns i out' at' kind' m' a' j2 = (Inr e', j3)" for c' out' at' kind' m' a' e' j3
  proof -
    obtain row' t' where "row_at lib ns i j3 = Some row'" "jr_Intent row' = Some t'"
      "decodeCredentialCompletion lib t' (jr_Completion row') = Inr (Some e')"
      using decided_row [OF again journal_continues_refl] by metis
    moreover have "journal_continues j2 j3" using finish_continues [of j2 lib c' ns i out' at' kind' m' a'] again by simp
    from row_at_continues [OF this row(1)] obtain row'' where "row_at lib ns i j3 = Some row''" "row_continues row row''" .
    ultimately show ?thesis using row by (auto simp: row_continues_def)
  qed
  show "\<not> jd_NewlyAdmitted d"
    if "AdmitCredentialOperation lib c' u j2 = (Inr d, j3) \<and> se_Namespace (ci_Admission u) = ns
         \<and> jl_uuid lib (se_OperationID (ci_Admission u)) = jl_uuid lib i" for c' u d j3
  proof -
    have "admit_row lib (intent_normalized u) j2 = Inr (d, j3)"
      using that transact_cases(2) [of c' j2 "admit_row lib (intent_normalized u) j2" "Inr d" j3 d]
      by (auto simp: AdmitCredentialOperation_def Let_def split: if_split_asm)
    from admitted_row(2) [OF this] row(1) that show ?thesis
      by (simp add: row_at_def intent_normalized_def event_normalized_def split: option.splits)
  qed
qed

subsection \<open>Examples\<close>

text \<open>The rotation of the registry's example, admitted and then decided.\<close>

definition example_journal_lib :: journal_lib where
  "example_journal_lib = \<lparr>jl_uuid = (\<lambda>s. Some s), jl_dns_subdomain = (\<lambda>s. True)\<rparr>"

definition example_admission :: security_event where
  "example_admission =
     \<lparr>se_LogComponent = '''', se_LogWorkload = '''', se_Container = '''', se_CredentialAuthority = ''registry'',
      se_Method = ''POST'', se_ID = ''e1'', se_OperationID = ''o1'', se_ObservedAt = 63082281600 * second,
      se_Namespace = ''kyber'', se_PrincipalID = ''ops'', se_CredentialID = ''admin'', se_Generation = 1,
      se_RequestID = ''r1'', se_Action = ''credential:rotate'', se_ResourceKind = ''credential'',
      se_ResourceName = ''admin'', se_Phase = ''authorization'', se_Outcome = ''allow''\<rparr>"

definition example_intent :: credential_intent where
  "example_intent =
     \<lparr>ci_Admission = example_admission, ci_CompletionEventID = ''e2'', ci_ExpectedVersion = ''7'', ci_RegistryUID = ''u1'',
      ci_MaintenanceUID = '''', ci_Adoption = None\<rparr>"

definition example_journal :: journal where
  "example_journal =
     snd (AdmitCredentialOperation example_journal_lib Committed example_intent \<lparr>jn_Rows = [], jn_Events = []\<rparr>)"

definition example_decided :: journal where
  "example_decided =
     snd (FinishCredentialOperation example_journal_lib Committed ''kyber'' ''o1'' ''success'' (63082281601 * second) example_journal)"

definition example_contradicted :: journal where
  "example_contradicted =
     journal_step example_journal_lib
       (CallFinish ''kyber'' ''o1'' ''failure'' (63082281602 * second) ''credential'' None None, Committed) example_decided"

lemma example_intent_valid: "intent_valid example_journal_lib example_intent"
  by code_simp

lemma example_finished:
  "fst (finishCredentialOperation example_journal_lib Committed ''kyber'' ''o1'' ''success'' (63082281601 * second)
     ''credential'' None None example_journal)
   = Inr (completion_event example_intent ''success'' (63082281601 * second))"
  by code_simp

lemma example_readable:
  "case GetCredentialOperation example_journal_lib None ''kyber'' ''o1'' example_contradicted of Inl _ \<Rightarrow> False | Inr _ \<Rightarrow> True"
  by code_simp

theorem journal_decides_once_witness:
  "\<exists>d. GetCredentialOperation example_journal_lib None ''kyber'' ''o1'' example_contradicted = Inr d
     \<and> jd_Completion d = Some (completion_event example_intent ''success'' (63082281601 * second))"
proof -
  obtain d where d: "GetCredentialOperation example_journal_lib None ''kyber'' ''o1'' example_contradicted = Inr d"
    using example_readable by (cases "GetCredentialOperation example_journal_lib None ''kyber'' ''o1'' example_contradicted") auto
  have fin: "finishCredentialOperation example_journal_lib Committed ''kyber'' ''o1'' ''success'' (63082281601 * second)
      ''credential'' None None example_journal
    = (Inr (completion_event example_intent ''success'' (63082281601 * second)), example_decided)"
    using example_finished by (metis FinishCredentialOperation_def example_decided_def prod.collapse)
  have "example_contradicted = fold (journal_step example_journal_lib)
      [(CallFinish ''kyber'' ''o1'' ''failure'' (63082281602 * second) ''credential'' None None, Committed)] example_decided"
    by (simp add: example_contradicted_def)
  from journal_decides_once [OF fin this] d show ?thesis by blast
qed

end
