(* ===== verification/Operator_Access.thy ===== *)
theory Operator_Access
  imports Credential_Registry Agent_Lifecycle
begin

section \<open>Scopes, callers and the operator boundary (\<open>pkg/api\<close>: auth, authz, operator_boundary, sensitive_routes, routing, callers_resolve)\<close>

text \<open>
  Who may do what. A caller holds scopes and resources; the boundary in front of every operator route
  admits a restricted caller only on routes with a policy of their own; the gates behind it check a
  scope, a resource or both. The effect of a decision is the response or the next handler; log lines
  are not modelled.
\<close>

subsection \<open>Scopes and resources\<close>

definition ScopeLifecycleWrite :: string where "ScopeLifecycleWrite = ''lifecycle:write''"
definition ScopeLifecycleAdmin :: string where "ScopeLifecycleAdmin = ''lifecycle:admin''"
definition ScopeRequestsWrite :: string where "ScopeRequestsWrite = ''requests:write''"
definition ScopeRequestsRead :: string where "ScopeRequestsRead = ''requests:read''"
definition ScopeTasksCreate :: string where "ScopeTasksCreate = ''tasks:create''"
definition ScopeTasksRead :: string where "ScopeTasksRead = ''tasks:read''"
definition ScopeTasksList :: string where "ScopeTasksList = ''tasks:list''"
definition ScopeTasksContinue :: string where "ScopeTasksContinue = ''tasks:continue''"
definition ScopeTasksCancel :: string where "ScopeTasksCancel = ''tasks:cancel''"
definition ScopeTaskResultsRead :: string where "ScopeTaskResultsRead = ''task-results:read''"
definition ScopeTaskEventsRead :: string where "ScopeTaskEventsRead = ''task-events:read''"
definition ScopeTasksAdmin :: string where "ScopeTasksAdmin = ''tasks:admin''"
definition ScopeTasksPlatformAdmin :: string where "ScopeTasksPlatformAdmin = ''tasks:platform-admin''"
definition ScopeCapabilitiesRead :: string where "ScopeCapabilitiesRead = ''capabilities:read''"
definition ScopeCapabilitiesWrite :: string where "ScopeCapabilitiesWrite = ''capabilities:write''"
definition ScopeUsageRead :: string where "ScopeUsageRead = ''usage:read''"
definition ScopeMetricsRead :: string where "ScopeMetricsRead = ''metrics:read''"
definition ScopeAgentExec :: string where "ScopeAgentExec = ''agents:exec''"
definition ScopeMachineExec :: string where "ScopeMachineExec = ''machines:exec''"
definition ScopeSecretsList :: string where "ScopeSecretsList = ''secrets:list''"
definition ScopeSecretsRead :: string where "ScopeSecretsRead = ''secrets:read''"
definition ScopeSecretsWrite :: string where "ScopeSecretsWrite = ''secrets:write''"
definition ScopeLogsRead :: string where "ScopeLogsRead = ''logs:read''"
definition ScopeTranscriptsRead :: string where "ScopeTranscriptsRead = ''transcripts:read''"
definition ScopeMachineLogsRead :: string where "ScopeMachineLogsRead = ''machines:logs:read''"
definition ScopeArchivesAdmin :: string where "ScopeArchivesAdmin = ''archives:admin''"

lemmas scope_words =
  ScopeLifecycleWrite_def ScopeLifecycleAdmin_def ScopeRequestsWrite_def ScopeRequestsRead_def ScopeTasksCreate_def
  ScopeTasksRead_def ScopeTasksList_def ScopeTasksContinue_def ScopeTasksCancel_def ScopeTaskResultsRead_def
  ScopeTaskEventsRead_def ScopeTasksAdmin_def ScopeTasksPlatformAdmin_def ScopeCapabilitiesRead_def
  ScopeCapabilitiesWrite_def ScopeUsageRead_def ScopeMetricsRead_def ScopeAgentExec_def ScopeMachineExec_def
  ScopeSecretsList_def ScopeSecretsRead_def ScopeSecretsWrite_def ScopeLogsRead_def ScopeTranscriptsRead_def
  ScopeMachineLogsRead_def ScopeArchivesAdmin_def

definition validScope :: "string \<Rightarrow> bool" where
  "validScope sc \<longleftrightarrow> sc \<in> set [
     ScopeLifecycleWrite, ScopeLifecycleAdmin, ScopeRequestsWrite, ScopeRequestsRead,
     ScopeTasksCreate, ScopeTasksRead, ScopeTasksList, ScopeTasksContinue, ScopeTasksCancel,
     ScopeTaskResultsRead, ScopeTaskEventsRead, ScopeTasksAdmin, ScopeTasksPlatformAdmin,
     ScopeCapabilitiesRead, ScopeCapabilitiesWrite, ScopeUsageRead, ScopeMetricsRead, ScopeArchivesAdmin,
     ScopeAgentExec, ScopeMachineExec, ScopeSecretsList, ScopeSecretsRead, ScopeSecretsWrite, ScopeLogsRead,
     ScopeTranscriptsRead, ScopeMachineLogsRead]"

record scope_set =
  ss_full :: bool
  ss_scopes :: "string list"

definition newFullScopeSet :: scope_set where "newFullScopeSet = \<lparr>ss_full = True, ss_scopes = []\<rparr>"

definition newScopeSet :: "string list \<Rightarrow> scope_set" where "newScopeSet scopes = \<lparr>ss_full = False, ss_scopes = scopes\<rparr>"

definition scope_Has :: "scope_set \<Rightarrow> string \<Rightarrow> bool" where
  "scope_Has s required \<longleftrightarrow>
     ss_full s \<or> required \<in> set (ss_scopes s)
     \<or> (required = ScopeLifecycleWrite \<and> ScopeLifecycleAdmin \<in> set (ss_scopes s))"

record resource_set =
  rs_all :: bool
  rs_resources :: "string list"

definition newResourceSet :: "string list \<Rightarrow> resource_set" where
  "newResourceSet resources =
     \<lparr>rs_all = (''*'' \<in> set resources), rs_resources = filter (\<lambda>r. r \<noteq> ''*'') resources\<rparr>"

definition resource_Has :: "resource_set \<Rightarrow> string \<Rightarrow> bool" where
  "resource_Has r resource \<longleftrightarrow> rs_all r \<or> resource \<in> set (rs_resources r)"

record caller =
  ca_Name :: string
  ca_PrincipalID :: string
  ca_TenantID :: string
  ca_Kind :: string
  ca_Issuer :: string
  ca_Subject :: string
  ca_CredentialID :: string
  ca_CredentialGeneration :: "64 word"
  ca_CredentialAuthority :: string
  ca_Scopes :: scope_set
  ca_AgentResources :: resource_set
  ca_MachineResources :: resource_set

subsection \<open>Configured callers\<close>

record secret_key_ref =
  kr_Secret :: string
  kr_Key :: string

record scoped_caller =
  sc_Name :: string
  sc_PrincipalID :: string
  sc_TenantID :: string
  sc_Kind :: string
  sc_Issuer :: string
  sc_Subject :: string
  sc_CredentialID :: string
  sc_CredentialGeneration :: "64 word"
  sc_AgentResources :: "string list"
  sc_MachineResources :: "string list"
  sc_Key :: string
  sc_KeyFrom :: "secret_key_ref option"
  sc_Scopes :: "string list"

datatype callers_error =
    CallersJSON
  | CallerNameRequired nat
  | CallerNoKey string
  | CallerTwoKeys string
  | CallerKeyFromIncomplete string
  | CallerSensitiveIdentity string
  | CallerSensitiveResource string
  | CallerBlankKey string
  | CallerUnknownScope string string
  | CallerTaskIdentity string
  | CallerTaskResource string string

text \<open>\<open>validNameRe\<close>.\<close>

definition isValidName :: "string \<Rightarrow> bool" where
  "isValidName s \<longleftrightarrow> s \<noteq> '''' \<and> length s \<le> 63 \<and> 97 \<le> (of_char (hd s) :: nat) \<and> (of_char (hd s) :: nat) \<le> 122
     \<and> list_all lower_alnum_dash (tl s)"

definition exact_resource :: "cred_lib \<Rightarrow> string \<Rightarrow> bool" where
  "exact_resource lib resource =
     (case split_on CHR ''/'' resource of
        [a, b] \<Rightarrow> cl_dns_label lib a \<and> cl_dns_subdomain lib b
      | _ \<Rightarrow> False)"

definition sensitive_resource :: "cred_lib \<Rightarrow> string \<Rightarrow> bool" where
  "sensitive_resource lib resource =
     (case split_on CHR ''/'' resource of
        [a, b] \<Rightarrow> cl_dns_label lib a \<and> cl_dns_subdomain lib b \<and> isValidName b
      | _ \<Rightarrow> False)"

definition stable_identity :: "scoped_caller \<Rightarrow> bool" where
  "stable_identity c \<longleftrightarrow>
     sc_PrincipalID c \<noteq> '''' \<and> sc_TenantID c \<noteq> '''' \<and> sc_CredentialID c \<noteq> '''' \<and> sc_CredentialGeneration c \<noteq> 0"

definition sensitive_grants :: "scoped_caller \<Rightarrow> (string \<times> string list) list" where
  "sensitive_grants c =
     [(ScopeAgentExec, sc_AgentResources c), (ScopeMachineExec, sc_MachineResources c),
      (ScopeSecretsList, sc_AgentResources c), (ScopeSecretsRead, sc_AgentResources c),
      (ScopeSecretsWrite, sc_AgentResources c), (ScopeLogsRead, sc_AgentResources c),
      (ScopeTranscriptsRead, sc_AgentResources c), (ScopeMachineLogsRead, sc_MachineResources c)]"

definition grant_error :: "cred_lib \<Rightarrow> scoped_caller \<Rightarrow> string \<times> string list \<Rightarrow> callers_error option" where
  "grant_error lib c grant =
     (if fst grant \<notin> set (sc_Scopes c) then None
      else if \<not> stable_identity c \<or> snd grant = [] then Some (CallerSensitiveIdentity (sc_Name c))
      else if \<not> list_all (sensitive_resource lib) (snd grant) then Some (CallerSensitiveResource (sc_Name c))
      else None)"

definition task_scope :: "string \<Rightarrow> bool" where
  "task_scope sc \<longleftrightarrow>
     HasPrefix sc ''tasks:'' \<or> HasPrefix sc ''task-results:'' \<or> HasPrefix sc ''task-events:''
     \<or> HasPrefix sc ''capabilities:'' \<or> sc = ScopeUsageRead"

definition caller_error :: "cred_lib \<Rightarrow> nat \<Rightarrow> scoped_caller \<Rightarrow> callers_error option" where
  "caller_error lib i c =
     (if sc_Name c = '''' then Some (CallerNameRequired i)
      else if sc_Key c = '''' \<and> sc_KeyFrom c = None then Some (CallerNoKey (sc_Name c))
      else if sc_Key c \<noteq> '''' \<and> sc_KeyFrom c \<noteq> None then Some (CallerTwoKeys (sc_Name c))
      else if (case sc_KeyFrom c of None \<Rightarrow> False | Some r \<Rightarrow> kr_Secret r = '''' \<or> kr_Key r = '''')
      then Some (CallerKeyFromIncomplete (sc_Name c))
      else case first_error (grant_error lib c) (sensitive_grants c) of
        Some e \<Rightarrow> Some e
      | None \<Rightarrow>
          (if sc_Key c \<noteq> '''' \<and> blank (sc_Key c) then Some (CallerBlankKey (sc_Name c))
           else case List.find (\<lambda>sc. \<not> validScope sc) (sc_Scopes c) of
             Some sc \<Rightarrow> Some (CallerUnknownScope (sc_Name c) sc)
           | None \<Rightarrow>
               (if list_ex task_scope (sc_Scopes c)
                then if \<not> stable_identity c \<or> sc_AgentResources c = [] then Some (CallerTaskIdentity (sc_Name c))
                     else map_option (CallerTaskResource (sc_Name c))
                            (List.find (\<lambda>r. \<not> exact_resource lib r) (sc_AgentResources c))
                else None)))"

fun callers_error_from :: "cred_lib \<Rightarrow> nat \<Rightarrow> scoped_caller list \<Rightarrow> callers_error option" where
  "callers_error_from lib i [] = None"
| "callers_error_from lib i (c # cs) =
     (case caller_error lib i c of Some e \<Rightarrow> Some e | None \<Rightarrow> callers_error_from lib (Suc i) cs)"

text \<open>\<open>json.Unmarshal\<close> of the document is the parameter \<open>parse\<close>.\<close>

definition ParseScopedCallers ::
  "cred_lib \<Rightarrow> (string \<Rightarrow> scoped_caller list option) \<Rightarrow> string \<Rightarrow> callers_error + scoped_caller list" where
  "ParseScopedCallers lib parse text =
     (let raw = TrimSpace text in
      if raw = '''' then Inr []
      else case parse raw of
             None \<Rightarrow> Inl CallersJSON
           | Some cs \<Rightarrow> (case callers_error_from lib 0 cs of Some e \<Rightarrow> Inl e | None \<Rightarrow> Inr cs))"

text \<open>\<open>readSecretKey\<close> and \<open>ResolveScopedCallers\<close>; \<open>secrets\<close> reads a Secret's data in the own namespace.\<close>

definition readSecretKey :: "(string \<Rightarrow> (string, string) gomap option) \<Rightarrow> secret_key_ref \<Rightarrow> string option" where
  "readSecretKey secrets ref =
     (case secrets (kr_Secret ref) of
        None \<Rightarrow> None
      | Some data \<Rightarrow>
          (case map_of data (kr_Key ref) of
             None \<Rightarrow> None
           | Some raw \<Rightarrow> (let v = TrimSpace raw in if v = '''' then None else Some v)))"

fun ResolveScopedCallers ::
  "(string \<Rightarrow> (string, string) gomap option) \<Rightarrow> scoped_caller list
     \<Rightarrow> scoped_caller list \<times> (string \<times> secret_key_ref) list" where
  "ResolveScopedCallers secrets [] = ([], [])"
| "ResolveScopedCallers secrets (c # cs) =
     (case ResolveScopedCallers secrets cs of (resolved, rejected) \<Rightarrow>
        (case sc_KeyFrom c of
           None \<Rightarrow> (c # resolved, rejected)
         | Some ref \<Rightarrow>
             (case readSecretKey secrets ref of
                None \<Rightarrow> (resolved, (sc_Name c, ref) # rejected)
              | Some v \<Rightarrow> (c\<lparr>sc_Key := v\<rparr> # resolved, rejected))))"

subsection \<open>Routes\<close>

definition splitAction :: "string \<Rightarrow> (string \<times> string) option" where
  "splitAction rest =
     (let s = TrimPrefix rest ''/'' in
      if s = '''' then None
      else case cut_at CHR ''/'' s of
             None \<Rightarrow> Some (s, '''')
           | Some (name, action) \<Rightarrow> if name = '''' then None else Some (name, action))"

subsection \<open>The boundary\<close>

record operator_request =
  hr_Method :: string
  hr_Path :: string
  hr_Source :: string
  hr_Authorization :: string
  hr_Cookie :: "string option"
  hr_WebSocket :: bool
  hr_Token :: string

text \<open>\<open>hr_Source\<close> is the query parameter \<open>source\<close>. A result \<open>None\<close> is an unknown operation.\<close>

definition requiredAgentLogScope :: "operator_request \<Rightarrow> string" where
  "requiredAgentLogScope r =
     (if hr_Source r \<in> set ['''', ''kubelet'', ''archive''] then ScopeLogsRead
      else if hr_Source r = ''transcript'' then ScopeTranscriptsRead else '''')"

definition agentSensitiveScope :: "operator_request \<Rightarrow> string \<Rightarrow> string option" where
  "agentSensitiveScope r action =
     (if hr_Method r = ''GET'' \<and> action = ''exec'' then Some ScopeAgentExec
      else if hr_Method r = ''GET'' \<and> action = ''logs''
      then (let scope = requiredAgentLogScope r in if scope \<noteq> '''' then Some scope else None)
      else if hr_Method r = ''GET'' \<and> (action = ''secrets'' \<or> action = ''secrets/'') then Some ScopeSecretsList
      else if \<not> HasPrefix action ''secrets/'' then None
      else let key = TrimPrefix action ''secrets/'' in
           if key = '''' \<or> CHR ''/'' \<in> set key then None
           else if hr_Method r = ''GET'' then Some ScopeSecretsRead
           else if hr_Method r = ''PUT'' \<or> hr_Method r = ''DELETE'' then Some ScopeSecretsWrite
           else None)"

definition machineSensitiveScope :: "operator_request \<Rightarrow> string \<Rightarrow> string option" where
  "machineSensitiveScope r action =
     (if hr_Method r \<noteq> ''GET'' then None
      else if action = ''exec'' then Some ScopeMachineExec
      else if action = ''logs'' then
        if hr_Source r \<noteq> '''' \<and> hr_Source r \<noteq> ''kubelet'' then None else Some ScopeMachineLogsRead
      else None)"

definition metrics_views :: "string list" where
  "metrics_views = [''summary'', ''activity'', ''working-time'', ''last-active'', ''nodes'', ''state-changes'']"

definition archive_prefixes :: "string list" where
  "archive_prefixes = [''/api/v1/archives'', ''/api/v1/archive-uploads'', ''/api/v1/agent-imports'']"

definition under :: "string \<Rightarrow> string \<Rightarrow> bool" where
  "under p dir \<longleftrightarrow> p = dir \<or> HasPrefix p (dir @ ''/'')"

definition write_actions :: "string list" where
  "write_actions = [''start'', ''stop'', ''restart'', ''set-model'', ''set-effort'', ''set-runtime-version'', ''set-resources'',
     ''increase-disk'', ''restart-session'', ''compact-session'', ''repair-runtime'']"

definition restricted_machine_route :: "string \<Rightarrow> operator_request \<Rightarrow> caller \<Rightarrow> string \<Rightarrow> bool" where
  "restricted_machine_route ns r c rest =
     (case splitAction rest of
        None \<Rightarrow> False
      | Some (name, action) \<Rightarrow>
          if \<not> isValidName name \<or> \<not> resource_Has (ca_MachineResources c) (ns @ ''/'' @ name) then False
          else (case machineSensitiveScope r action of None \<Rightarrow> False | Some scope \<Rightarrow> scope_Has (ca_Scopes c) scope))"

text \<open>What happens to an action on an agent the caller may reach.\<close>

definition restricted_agent_action :: "operator_request \<Rightarrow> caller \<Rightarrow> string \<Rightarrow> bool" where
  "restricted_agent_action r c action =
     (if action = '''' then
        if hr_Method r = ''DELETE'' then scope_Has (ca_Scopes c) ScopeLifecycleAdmin
        else if hr_Method r = ''PATCH'' then scope_Has (ca_Scopes c) ScopeCapabilitiesWrite
        else False
      else case agentSensitiveScope r action of
        Some scope \<Rightarrow> scope_Has (ca_Scopes c) scope
      | None \<Rightarrow>
          if under action ''requests'' then True
          else if hr_Method r = ''GET'' \<and> action = ''effort-options'' then scope_Has (ca_Scopes c) ScopeLifecycleWrite
          else if hr_Method r \<noteq> ''POST'' then False
          else if action \<in> set write_actions then scope_Has (ca_Scopes c) ScopeLifecycleWrite
          else if action = ''force-needs-auth'' then scope_Has (ca_Scopes c) ScopeLifecycleAdmin
          else False)"

definition restricted_agent_route :: "string \<Rightarrow> operator_request \<Rightarrow> caller \<Rightarrow> string \<Rightarrow> bool" where
  "restricted_agent_route ns r c rest =
     (case splitAction rest of
        None \<Rightarrow> False
      | Some (name, action) \<Rightarrow>
          if \<not> isValidName name then False
          else if under action ''tasks'' \<or> under action ''exports'' then True
          else if action = ''capabilities'' then True
          else if \<not> resource_Has (ca_AgentResources c) (ns @ ''/'' @ name) then False
          else restricted_agent_action r c action)"

definition restrictedOperatorRoute :: "string \<Rightarrow> operator_request \<Rightarrow> caller \<Rightarrow> bool" where
  "restrictedOperatorRoute ns r c =
     (let p = hr_Path r in
      if path_Clean p \<noteq> TrimSuffix p ''/'' then False
      else if p = ''/api/v1/operator-credentials/current'' then hr_Method r = ''GET''
      else if p = ''/api/v1/version'' then hr_Method r = ''GET''
      else if p = ''/api/v1/usage/events'' \<or> p = ''/api/v1/usage/aggregates'' then True
      else if HasPrefix p ''/api/v1/metrics/'' then
        hr_Method r = ''GET'' \<and> scope_Has (ca_Scopes c) ScopeMetricsRead
        \<and> TrimPrefix p ''/api/v1/metrics/'' \<in> set metrics_views
      else if list_ex (under p) archive_prefixes then scope_Has (ca_Scopes c) ScopeArchivesAdmin
      else if HasPrefix p ''/a2a/v1/agents/'' then True
      else if HasPrefix p ''/api/v1/machines/'' then
        restricted_machine_route ns r c (TrimPrefix p ''/api/v1/machines/'')
      else if \<not> HasPrefix p ''/api/v1/agents/'' then False
      else restricted_agent_route ns r c (TrimPrefix p ''/api/v1/agents/''))"

text \<open>
  A refused request is recorded with a classification: action, kind and name, taken from known
  operations and valid names only.
\<close>

definition audit_class :: "operator_request \<Rightarrow> string \<times> string \<times> string" where
  "audit_class r =
     (let p = hr_Path r; m = hr_Method r;
          installation = (\<lambda>a. (a, ''installation'', '''')) in
      if p = ''/api/v1/archive-uploads'' \<and> m = ''POST'' then installation ''archives:upload''
      else if p = ''/api/v1/archives'' \<and> m = ''GET'' then installation ''archives:read''
      else if p = ''/api/v1/agent-imports'' \<and> m = ''POST'' then installation ''archives:import''
      else if m = ''POST'' \<and> p = ''/api/v1/rotate-api-key''
      then (''credential:rotate'', ''credential'', ''credential_installation_admin'')
      else if m = ''GET'' \<and> (p = ''/api/v1/logging/logs'' \<or> p = ''/api/v1/logging/export'') then installation ScopeLogsRead
      else if m = ''GET'' \<and> p = ''/api/v1/security-events'' then installation ''audit:read''
      else installation ''operator:unclassified'')"

definition denied_mutation :: "operator_request \<Rightarrow> bool \<Rightarrow> string \<Rightarrow> string option" where
  "denied_mutation r agents operation =
     (if hr_Method r = ''POST'' \<and> agents
         \<and> operation \<in> set (write_actions @ [''force-needs-auth'', ''switch-runtime'']) then Some ''lifecycle:write''
      else if hr_Method r = ''POST'' \<and> \<not> agents
         \<and> operation \<in> set [''retry-cost-optimized'', ''restart-agents'', ''start'', ''stop'', ''restart''] then Some ''lifecycle:write''
      else if hr_Method r = ''DELETE'' \<and> operation = '''' then Some ''lifecycle:delete'' else None)"

definition audit_resource :: "operator_request \<Rightarrow> bool \<Rightarrow> (string \<times> string \<times> string) option" where
  "audit_resource r agents =
     (let pre = (if agents then ''/api/v1/agents/'' else ''/api/v1/machines/'') in
      if \<not> HasPrefix (hr_Path r) pre then None
      else case splitAction (TrimPrefix (hr_Path r) pre) of
        None \<Rightarrow> None
      | Some (target, operation) \<Rightarrow>
          if \<not> isValidName target then None
          else map_option (\<lambda>a. (a, if agents then ''agent'' else ''machine'', target))
            (case (if agents then agentSensitiveScope r operation else machineSensitiveScope r operation) of
               Some scope \<Rightarrow> Some scope
             | None \<Rightarrow> denied_mutation r agents operation))"

datatype boundary_outcome = Admitted | Forbidden "string \<times> string \<times> string"

definition operatorBoundary :: "string \<Rightarrow> operator_request \<Rightarrow> caller option \<Rightarrow> boundary_outcome" where
  "operatorBoundary ns r c =
     (if (case c of None \<Rightarrow> False | Some c \<Rightarrow> ss_full (ca_Scopes c) \<or> restrictedOperatorRoute ns r c) then Admitted
      else Forbidden (case audit_resource r False of
             Some a \<Rightarrow> a
           | None \<Rightarrow> (case audit_resource r True of Some a \<Rightarrow> a | None \<Rightarrow> audit_class r)))"

subsection \<open>The gates behind it\<close>

definition requireInstallationAdmin :: "caller option \<Rightarrow> bool" where
  "requireInstallationAdmin c = (case c of None \<Rightarrow> False | Some c \<Rightarrow> ss_full (ca_Scopes c))"

definition requiredScopeForPhase :: "agent_phase \<Rightarrow> string" where
  "requiredScopeForPhase phase = (if phase = PhaseNeedsAuth then ScopeLifecycleAdmin else ScopeLifecycleWrite)"

definition authorizeAction :: "bool \<Rightarrow> caller option \<Rightarrow> string \<Rightarrow> bool" where
  "authorizeAction enforce c required =
     (let allowed = (case c of None \<Rightarrow> False | Some c \<Rightarrow> scope_Has (ca_Scopes c) required) in
      if allowed then True else if \<not> enforce then True else False)"

definition authorizePhase :: "bool \<Rightarrow> caller option \<Rightarrow> agent_phase \<Rightarrow> bool" where
  "authorizePhase enforce c phase = authorizeAction enforce c (requiredScopeForPhase phase)"

definition requireScope :: "caller option \<Rightarrow> string \<Rightarrow> bool" where
  "requireScope c required = (case c of None \<Rightarrow> False | Some c \<Rightarrow> scope_Has (ca_Scopes c) required)"

text \<open>
  \<open>requireSensitiveResource\<close>: \<open>audited\<close> says whether the audit store accepted the decision; without
  it nothing is allowed.
\<close>

definition sensitive_allowed :: "string \<Rightarrow> caller option \<Rightarrow> string \<Rightarrow> string \<Rightarrow> bool" where
  "sensitive_allowed ns c name scope =
     (case c of
        None \<Rightarrow> False
      | Some c \<Rightarrow>
          let resources = (if scope = ScopeMachineExec \<or> scope = ScopeMachineLogsRead
                           then ca_MachineResources c else ca_AgentResources c)
          in ss_full (ca_Scopes c)
             \<or> (scope \<noteq> '''' \<and> scope_Has (ca_Scopes c) scope \<and> resource_Has resources (ns @ ''/'' @ name)))"

definition requireSensitiveResource :: "string \<Rightarrow> bool \<Rightarrow> caller option \<Rightarrow> string \<Rightarrow> string \<Rightarrow> bool" where
  "requireSensitiveResource ns audited c name scope =
     (if \<not> audited then False else sensitive_allowed ns c name scope)"


subsection \<open>Canonical paths\<close>

lemma HasPrefix_rooted:
  assumes "HasPrefix p (CHR ''/'' # q)"
  shows "p \<noteq> ''''" and "hd p = CHR ''/''"
  using assms by (auto simp: HasPrefix_def prefix_def)

lemma under_rooted:
  assumes "under p (CHR ''/'' # q)"
  shows "p \<noteq> ''''" and "hd p = CHR ''/''"
  using assms HasPrefix_rooted [of p "q @ ''/''"] by (auto simp: under_def)

lemma restricted_route_rooted:
  assumes "restrictedOperatorRoute ns r c"
  shows "hr_Path r \<noteq> ''''" and "hd (hr_Path r) = CHR ''/''"
proof -
  let ?p = "hr_Path r"
  have "?p \<in> set [''/api/v1/operator-credentials/current'', ''/api/v1/version'', ''/api/v1/usage/events'',
               ''/api/v1/usage/aggregates'']
      \<or> list_ex (HasPrefix ?p) [''/api/v1/metrics/'', ''/a2a/v1/agents/'', ''/api/v1/machines/'', ''/api/v1/agents/'']
      \<or> list_ex (under ?p) archive_prefixes"
    using assms unfolding restrictedOperatorRoute_def Let_def
    by (simp split: if_split_asm) blast
  then have "?p \<noteq> '''' \<and> hd ?p = CHR ''/''"
    by (auto simp: archive_prefixes_def dest: HasPrefix_rooted under_rooted)
  then show "?p \<noteq> ''''" and "hd ?p = CHR ''/''" by simp_all
qed

text \<open>What the boundary admits for a restricted caller has one reading only.\<close>

lemma restricted_route_canonical:
  assumes "restrictedOperatorRoute ns r c"
  obtains segs where "list_all plain_segment segs"
    and "hr_Path r = CHR ''/'' # join_with ''/'' segs \<or> hr_Path r = (CHR ''/'' # join_with ''/'' segs) @ ''/''"
proof -
  have clean: "path_Clean (hr_Path r) = TrimSuffix (hr_Path r) ''/''"
    using assms unfolding restrictedOperatorRoute_def Let_def by (simp split: if_split_asm)
  obtain segs where segs: "list_all plain_segment segs" "path_Clean (hr_Path r) = CHR ''/'' # join_with ''/'' segs"
    using path_Clean_rooted [OF restricted_route_rooted [OF assms]] .
  show thesis
    using that [OF segs(1)] TrimSuffix_cases [of "hr_Path r" "''/''"] unfolding clean [symmetric] segs(2)
    by metis
qed

subsection \<open>What a restricted caller reaches\<close>

lemma under_empty: "\<not> under '''' (x # d)"
  by (simp add: under_def HasPrefix_def)

lemma isValidName_plain:
  assumes "isValidName name"
  shows "name \<noteq> ''''" and "CHR ''/'' \<notin> set name"
proof -
  show "name \<noteq> ''''" using assms by (simp add: isValidName_def)
  have no: "\<not> lower_alnum_dash CHR ''/''" by code_simp
  have "hd name \<noteq> CHR ''/''" using assms by (auto simp: isValidName_def)
  moreover have "CHR ''/'' \<notin> set (tl name)"
    using assms no by (auto simp: isValidName_def list_all_iff)
  ultimately show "CHR ''/'' \<notin> set name" by (cases name) auto
qed

lemma splitAction_name:
  assumes "isValidName name"
  shows "splitAction (name @ ''/'' @ action) = Some (name, action)" and "splitAction name = Some (name, '''')"
proof -
  note plain = isValidName_plain [OF assms]
  then obtain x xs where name: "name = x # xs" "x \<noteq> CHR ''/''" by (cases name) auto
  show "splitAction (name @ ''/'' @ action) = Some (name, action)"
    using cut_at_first [OF plain(2), of action] plain(1) name
    by (simp add: splitAction_def TrimPrefix_def Let_def)
  have "cut_at CHR ''/'' name = None" using plain(2) by (induction name) auto
  then show "splitAction name = Some (name, '''')"
    using name by (simp add: splitAction_def TrimPrefix_def Let_def)
qed

text \<open>The three subtrees of an agent whose handlers carry a resource policy of their own.\<close>

definition self_policed :: "string \<Rightarrow> bool" where
  "self_policed action \<longleftrightarrow> under action ''tasks'' \<or> under action ''exports'' \<or> action = ''capabilities''"

text \<open>
  The policy as a table: method, action, scope. Logs and secrets, whose scope depends on more than
  the action, and the request subtree, whose handler checks the scope, are apart.
\<close>

definition agent_policy :: "(string \<times> string \<times> string) list" where
  "agent_policy =
     [(''DELETE'', '''', ScopeLifecycleAdmin), (''PATCH'', '''', ScopeCapabilitiesWrite),
      (''GET'', ''effort-options'', ScopeLifecycleWrite), (''POST'', ''force-needs-auth'', ScopeLifecycleAdmin)]
     @ map (\<lambda>a. (''POST'', a, ScopeLifecycleWrite)) write_actions"

definition policy_scope :: "operator_request \<Rightarrow> string \<Rightarrow> string option" where
  "policy_scope r action =
     (case agentSensitiveScope r action of
        Some scope \<Rightarrow> Some scope
      | None \<Rightarrow> map_option (\<lambda>(m, a, sc). sc) (List.find (\<lambda>(m, a, sc). m = hr_Method r \<and> a = action) agent_policy))"

lemma agentSensitiveScope_empty: "agentSensitiveScope r '''' = None"
  by (simp add: agentSensitiveScope_def HasPrefix_def)

lemma requests_apart:
  assumes "under action ''requests''"
  shows "action \<notin> set ['''', ''effort-options'', ''force-needs-auth'']" and "action \<notin> set write_actions"
  using assms by (auto simp: under_def HasPrefix_def prefix_def write_actions_def)

lemma agent_policy_find:
  "List.find (\<lambda>(m, a, sc). m = meth \<and> a = action) agent_policy =
     (if meth = ''DELETE'' \<and> action = '''' then Some (''DELETE'', '''', ScopeLifecycleAdmin)
      else if meth = ''PATCH'' \<and> action = '''' then Some (''PATCH'', '''', ScopeCapabilitiesWrite)
      else if meth = ''GET'' \<and> action = ''effort-options'' then Some (''GET'', action, ScopeLifecycleWrite)
      else if meth = ''POST'' \<and> action = ''force-needs-auth'' then Some (''POST'', action, ScopeLifecycleAdmin)
      else if meth = ''POST'' \<and> action \<in> set write_actions then Some (''POST'', action, ScopeLifecycleWrite)
      else None)"
proof -
  have tail: "List.find (\<lambda>(m, a, sc). m = meth \<and> a = action) (map (\<lambda>a. (''POST'', a, ScopeLifecycleWrite)) xs) =
    (if meth = ''POST'' \<and> action \<in> set xs then Some (''POST'', action, ScopeLifecycleWrite) else None)" for xs
    by (induction xs) auto
  show ?thesis unfolding agent_policy_def append.simps List.find.simps tail by simp
qed

lemma restricted_agent_action_iff:
  assumes "\<not> under action ''requests''"
  shows "restricted_agent_action r c action \<longleftrightarrow>
    (\<exists>sc. policy_scope r action = Some sc \<and> scope_Has (ca_Scopes c) sc)"
proof (cases "agentSensitiveScope r action")
  case None
  have we: "'''' \<notin> set write_actions" "''effort-options'' \<notin> set write_actions" "''force-needs-auth'' \<notin> set write_actions"
    by (simp_all add: write_actions_def)
  show ?thesis
    unfolding restricted_agent_action_def policy_scope_def None agent_policy_find
    using assms we by (cases "action = ''''") auto
next
  case (Some sc)
  then have "action \<noteq> ''''" by (auto simp: agentSensitiveScope_empty)
  with Some show ?thesis by (simp add: restricted_agent_action_def policy_scope_def)
qed

lemma machine_scope_not_agent: "agentSensitiveScope r action = Some sc \<Longrightarrow> sc \<noteq> ScopeMachineExec \<and> sc \<noteq> ScopeMachineLogsRead \<and> sc \<noteq> ''''"
  by (auto simp: agentSensitiveScope_def requiredAgentLogScope_def scope_words Let_def split: if_split_asm)

lemma machine_scope_kind: "machineSensitiveScope r action = Some sc \<Longrightarrow> sc = ScopeMachineExec \<or> sc = ScopeMachineLogsRead"
  by (auto simp: machineSensitiveScope_def split: if_split_asm)

lemma sensitive_not_self_policed:
  assumes "agentSensitiveScope r action = Some sc"
  shows "\<not> self_policed action" and "\<not> under action ''requests''"
proof -
  have "action \<in> set [''exec'', ''logs'', ''secrets''] \<or> prefix ''secrets/'' action"
    using assms by (auto simp: agentSensitiveScope_def HasPrefix_def Let_def split: if_split_asm)
  then show "\<not> self_policed action" and "\<not> under action ''requests''"
    by (auto simp: self_policed_def under_def HasPrefix_def prefix_def)
qed

definition canonical :: "string \<Rightarrow> bool" where
  "canonical p \<longleftrightarrow> path_Clean p = TrimSuffix p ''/''"

definition agent_path :: "string \<Rightarrow> string \<Rightarrow> string" where
  "agent_path name action = ''/api/v1/agents/'' @ name @ ''/'' @ action"

definition machine_path :: "string \<Rightarrow> string \<Rightarrow> string" where
  "machine_path name action = ''/api/v1/machines/'' @ name @ ''/'' @ action"

lemma boundary_on_agent_path:
  assumes "hr_Path r = agent_path name action" and "isValidName name"
  shows "restrictedOperatorRoute ns r c \<longleftrightarrow> canonical (hr_Path r)
    \<and> (self_policed action
       \<or> resource_Has (ca_AgentResources c) (ns @ ''/'' @ name) \<and> restricted_agent_action r c action)"
proof -
  have route: "restrictedOperatorRoute ns r c \<longleftrightarrow> canonical (hr_Path r) \<and> restricted_agent_route ns r c (name @ ''/'' @ action)"
    using assms(1) unfolding restrictedOperatorRoute_def canonical_def Let_def
    by (simp add: agent_path_def HasPrefix_def TrimPrefix_def under_def archive_prefixes_def)
  show ?thesis
    unfolding route restricted_agent_route_def splitAction_name(1) [OF assms(2)]
    using assms(2) by (auto simp: self_policed_def)
qed

lemma boundary_on_machine_path:
  assumes "hr_Path r = machine_path name action" and "isValidName name"
  shows "restrictedOperatorRoute ns r c \<longleftrightarrow> canonical (hr_Path r)
    \<and> resource_Has (ca_MachineResources c) (ns @ ''/'' @ name)
    \<and> (\<exists>sc. machineSensitiveScope r action = Some sc \<and> scope_Has (ca_Scopes c) sc)"
proof -
  have route: "restrictedOperatorRoute ns r c \<longleftrightarrow> canonical (hr_Path r) \<and> restricted_machine_route ns r c (name @ ''/'' @ action)"
    using assms(1) unfolding restrictedOperatorRoute_def canonical_def Let_def
    by (simp add: machine_path_def HasPrefix_def TrimPrefix_def under_def archive_prefixes_def)
  show ?thesis
    unfolding route restricted_machine_route_def splitAction_name(1) [OF assms(2)]
    using assms(2) by (auto split: option.split)
qed

lemma operatorBoundary_admits:
  "operatorBoundary ns r (Some c) = Admitted \<longleftrightarrow> ss_full (ca_Scopes c) \<or> restrictedOperatorRoute ns r c"
  by (simp add: operatorBoundary_def)


definition example_caller :: caller where
  "example_caller =
     \<lparr>ca_Name = ''ci'', ca_PrincipalID = ''ci'', ca_TenantID = ''t'', ca_Kind = ''operator'', ca_Issuer = ''i'',
      ca_Subject = ''s'', ca_CredentialID = ''c1'', ca_CredentialGeneration = 1, ca_CredentialAuthority = '''',
      ca_Scopes = newScopeSet [ScopeLifecycleWrite, ScopeLogsRead], ca_AgentResources = newResourceSet [''kyber/dev''],
      ca_MachineResources = newResourceSet []\<rparr>"

definition example_stop :: operator_request where
  "example_stop =
     \<lparr>hr_Method = ''POST'', hr_Path = agent_path ''dev'' ''stop'', hr_Source = '''', hr_Authorization = '''',
      hr_Cookie = None, hr_WebSocket = False, hr_Token = ''''\<rparr>"

lemma example_stop_path: "hr_Path example_stop = agent_path ''dev'' ''stop''"
  by (simp add: example_stop_def)

lemma example_stop_facts:
  "isValidName ''dev''" "\<not> ss_full (ca_Scopes example_caller)" "canonical (hr_Path example_stop)"
  "resource_Has (ca_AgentResources example_caller) (''kyber'' @ ''/'' @ ''dev'')"
  "policy_scope example_stop ''stop'' = Some ScopeLifecycleWrite"
  "scope_Has (ca_Scopes example_caller) ScopeLifecycleWrite"
  by code_simp+


text \<open>
  The boundary and the gate in front of terminals, secrets and logs agree: for a canonical
  path of an agent or a machine whose action is sensitive, a request passes the boundary exactly when
  requireSensitiveResource, asked by the handler for that name and scope with a working audit
  store, would let it through. So neither check is weaker than the other.
\<close>

theorem boundary_agrees_with_gate:
  assumes "isValidName name" and "canonical (hr_Path r)"
    and "hr_Path r = agent_path name action \<and> agentSensitiveScope r action = Some sc
         \<or> hr_Path r = machine_path name action \<and> machineSensitiveScope r action = Some sc"
  shows "operatorBoundary ns r (Some c) = Admitted \<longleftrightarrow> requireSensitiveResource ns True (Some c) name sc"
  using assms(3)
proof
  assume "hr_Path r = agent_path name action \<and> agentSensitiveScope r action = Some sc"
  then have path: "hr_Path r = agent_path name action" and sc: "agentSensitiveScope r action = Some sc" by simp_all
  note kind = machine_scope_not_agent [OF sc] and apart = sensitive_not_self_policed [OF sc]
  have "policy_scope r action = Some sc" by (simp add: policy_scope_def sc)
  then show ?thesis
    unfolding operatorBoundary_admits boundary_on_agent_path [OF path assms(1)]
    using assms(2) kind apart restricted_agent_action_iff [OF apart(2), of r c]
    by (auto simp: requireSensitiveResource_def sensitive_allowed_def)
next
  assume "hr_Path r = machine_path name action \<and> machineSensitiveScope r action = Some sc"
  then have path: "hr_Path r = machine_path name action" and sc: "machineSensitiveScope r action = Some sc" by simp_all
  from machine_scope_kind [OF sc] have "sc \<noteq> ''''" by (auto simp: scope_words)
  then show ?thesis
    unfolding operatorBoundary_admits boundary_on_machine_path [OF path assms(1)]
    using assms(2) sc machine_scope_kind [OF sc]
    by (auto simp: requireSensitiveResource_def sensitive_allowed_def)
qed

definition example_exec :: operator_request where
  "example_exec =
     \<lparr>hr_Method = ''GET'', hr_Path = machine_path ''m1'' ''exec'', hr_Source = '''', hr_Authorization = '''',
      hr_Cookie = None, hr_WebSocket = True, hr_Token = ''''\<rparr>"

lemma example_exec_facts:
  "isValidName ''m1''" "canonical (hr_Path example_exec)"
  "hr_Path example_exec = machine_path ''m1'' ''exec''" "machineSensitiveScope example_exec ''exec'' = Some ScopeMachineExec"
  "\<not> requireSensitiveResource ''kyber'' True (Some example_caller) ''m1'' ScopeMachineExec"
  by code_simp+

theorem boundary_agrees_with_gate_witness:
  "operatorBoundary ''kyber'' example_exec (Some example_caller) \<noteq> Admitted"
  using boundary_agrees_with_gate [OF example_exec_facts(1,2), of "''exec''" ScopeMachineExec "''kyber''" example_caller]
    example_exec_facts by blast

text \<open>
  The lifecycle gate has a permissive mode (\<open>enforce\<close> off), which lets a caller without the scope
  through. Behind the boundary it makes no difference: whoever gets that far holds the scope.
\<close>

lemma permissive_mode_closed:
  assumes "hr_Path r = agent_path name action" and "isValidName name"
    and "policy_scope r action = Some required" and "\<not> self_policed action" and "\<not> under action ''requests''"
    and "operatorBoundary ns r (Some c) = Admitted"
  shows "authorizeAction enforce (Some c) required"
proof (cases "ss_full (ca_Scopes c)")
  case False
  then have "restricted_agent_action r c action"
    using assms(6) boundary_on_agent_path [OF assms(1,2), of ns c] assms(4) by (simp add: operatorBoundary_admits)
  with restricted_agent_action_iff [OF assms(5), of r c] assms(3) show ?thesis by (simp add: authorizeAction_def)
qed (simp add: authorizeAction_def scope_Has_def)

text \<open>An anonymous caller passes nothing but the permissive lifecycle gate.\<close>

lemma anonymous_denied:
  "operatorBoundary ns r None \<noteq> Admitted" "\<not> requireScope None sc" "\<not> requireInstallationAdmin None"
  "\<not> requireSensitiveResource ns audited None name sc" "authorizeAction enforce None sc \<longleftrightarrow> \<not> enforce"
  by (simp_all add: operatorBoundary_def requireScope_def requireInstallationAdmin_def requireSensitiveResource_def
      sensitive_allowed_def authorizeAction_def)

text \<open>More scopes and more resources never take access away.\<close>

definition grants_more :: "caller \<Rightarrow> caller \<Rightarrow> bool" where
  "grants_more c d \<longleftrightarrow>
     (ss_full (ca_Scopes c) \<longrightarrow> ss_full (ca_Scopes d)) \<and> set (ss_scopes (ca_Scopes c)) \<subseteq> set (ss_scopes (ca_Scopes d))
     \<and> (rs_all (ca_AgentResources c) \<longrightarrow> rs_all (ca_AgentResources d))
     \<and> set (rs_resources (ca_AgentResources c)) \<subseteq> set (rs_resources (ca_AgentResources d))
     \<and> (rs_all (ca_MachineResources c) \<longrightarrow> rs_all (ca_MachineResources d))
     \<and> set (rs_resources (ca_MachineResources c)) \<subseteq> set (rs_resources (ca_MachineResources d))"

lemma grants_more_has:
  assumes "grants_more c d"
  shows "scope_Has (ca_Scopes c) sc \<Longrightarrow> scope_Has (ca_Scopes d) sc"
    and "resource_Has (ca_AgentResources c) x \<Longrightarrow> resource_Has (ca_AgentResources d) x"
    and "resource_Has (ca_MachineResources c) x \<Longrightarrow> resource_Has (ca_MachineResources d) x"
  using assms by (auto simp: grants_more_def scope_Has_def resource_Has_def)

lemma machine_route_mono:
  assumes "grants_more c d" and "restricted_machine_route ns r c s"
  shows "restricted_machine_route ns r d s"
  using assms(2) grants_more_has [OF assms(1)]
  by (auto simp: restricted_machine_route_def split: option.splits if_split_asm)

lemma agent_action_mono:
  assumes "grants_more c d" and "restricted_agent_action r c a"
  shows "restricted_agent_action r d a"
  using assms(2) grants_more_has(1) [OF assms(1)] unfolding restricted_agent_action_def
  by (auto split: option.splits if_split_asm)

lemma agent_route_mono:
  assumes "grants_more c d" and "restricted_agent_route ns r c s"
  shows "restricted_agent_route ns r d s"
  using assms(2) grants_more_has(2) [OF assms(1)] agent_action_mono [OF assms(1)]
  by (auto simp: restricted_agent_route_def split: option.splits if_split_asm)

lemma boundary_monotone:
  assumes "grants_more c d" and "operatorBoundary ns r (Some c) = Admitted"
  shows "operatorBoundary ns r (Some d) = Admitted"
proof (cases "ss_full (ca_Scopes d)")
  case False
  then have "\<not> ss_full (ca_Scopes c)" using assms(1) by (auto simp: grants_more_def)
  then have "restrictedOperatorRoute ns r c" using assms(2) by (simp add: operatorBoundary_admits)
  then have "restrictedOperatorRoute ns r d"
    unfolding restrictedOperatorRoute_def Let_def
    using grants_more_has(1) [OF assms(1)] machine_route_mono [OF assms(1)] agent_route_mono [OF assms(1)]
    by (simp split: if_split_asm) auto
  then show ?thesis by (simp add: operatorBoundary_admits)
qed (simp add: operatorBoundary_admits)

text \<open>The scopes of the phase gate: the operator's harshest request needs the higher scope.\<close>

lemma phase_scope:
  "authorizePhase True (Some c) phase \<longleftrightarrow>
     ss_full (ca_Scopes c) \<or> ScopeLifecycleAdmin \<in> set (ss_scopes (ca_Scopes c))
     \<or> (phase \<noteq> PhaseNeedsAuth \<and> ScopeLifecycleWrite \<in> set (ss_scopes (ca_Scopes c)))"
  by (auto simp: authorizePhase_def authorizeAction_def requiredScopeForPhase_def scope_Has_def scope_words)

end
