(* ===== verification/Browser_Session.thy ===== *)
theory Browser_Session
  imports Operator_Access
begin

section \<open>Browser session tokens (\<open>pkg/api/browser_session_token.go\<close>) and the \<open>encoding/base64\<close> they are written in\<close>

text \<open>
  A cookie is \<open>version.claims.mac\<close>, the last two in unpadded URL-safe base64. Parameters
  (\<open>session_lib\<close>) are HKDF and HMAC with SHA-256 and the JSON of the two kinds of claims; what a theorem
  needs of them is a hypothesis on the values at hand.
\<close>

subsection \<open>\<open>base64.RawURLEncoding\<close>\<close>

text \<open>The digits are A-Z, a-z, 0-9, the hyphen and the underscore.\<close>

definition b64_char :: "nat \<Rightarrow> char" where
  "b64_char n =
     char_of (if n < 26 then n + 65 else if n < 52 then n + 71 else if n < 62 then n - 4 else if n = 62 then 45 else 95)"

definition b64_value :: "char \<Rightarrow> nat option" where
  "b64_value c =
     (let n = of_char c :: nat in
      if 65 \<le> n \<and> n \<le> 90 then Some (n - 65)
      else if 97 \<le> n \<and> n \<le> 122 then Some (n - 71)
      else if 48 \<le> n \<and> n \<le> 57 then Some (n + 4)
      else if n = 45 then Some 62
      else if n = 95 then Some 63
      else None)"

fun b64_enc :: "nat list \<Rightarrow> nat list" where
  "b64_enc [] = []"
| "b64_enc [a] = [a div 4, (a mod 4) * 16]"
| "b64_enc [a, b] = [a div 4, (a mod 4) * 16 + b div 16, (b mod 16) * 4]"
| "b64_enc (a # b # d # xs) =
     a div 4 # ((a mod 4) * 16 + b div 16) # ((b mod 16) * 4 + d div 64) # (d mod 64) # b64_enc xs"

text \<open>Go's decoder is not strict: the spare bits of the last digit are dropped, not checked.\<close>

fun b64_dec :: "nat list \<Rightarrow> nat list option" where
  "b64_dec [] = Some []"
| "b64_dec [x] = None"
| "b64_dec [x, y] = Some [x * 4 + y div 16]"
| "b64_dec [x, y, z] = Some [x * 4 + y div 16, (y mod 16) * 16 + z div 4]"
| "b64_dec (x # y # z # w # ds) =
     map_option (\<lambda>r. (x * 4 + y div 16) # ((y mod 16) * 16 + z div 4) # ((z mod 4) * 64 + w) # r) (b64_dec ds)"

definition EncodeToString :: "string \<Rightarrow> string" where
  "EncodeToString s = map b64_char (b64_enc (map of_char s))"

text \<open>Newlines are skipped wherever they stand.\<close>

definition DecodeString :: "string \<Rightarrow> string option" where
  "DecodeString s =
     (let digits = map b64_value (filter (\<lambda>c. c \<noteq> CHR 0x0A \<and> c \<noteq> CHR 0x0D) s) in
      if None \<in> set digits then None else map_option (map char_of) (b64_dec (map the digits)))"

lemma b64_code: "n < 64 \<Longrightarrow> of_char (b64_char n) =
    (if n < 26 then n + 65 else if n < 52 then n + 71 else if n < 62 then n - 4 else if n = 62 then 45 else 95)"
  by (simp add: b64_char_def)

lemma b64_value_char: "n < 64 \<Longrightarrow> b64_value (b64_char n) = Some n"
  by (simp add: b64_value_def b64_code Let_def) arith

lemma b64_char_plain:
  assumes "n < 64"
  shows "b64_char n \<noteq> CHR 0x0A" and "b64_char n \<noteq> CHR 0x0D" and "b64_char n \<noteq> CHR ''.''"
proof -
  have "of_char (b64_char n) \<notin> {10 :: nat, 13, 46}" using assms by (simp add: b64_code) arith
  then show "b64_char n \<noteq> CHR 0x0A" and "b64_char n \<noteq> CHR 0x0D" and "b64_char n \<noteq> CHR ''.''" by auto
qed

lemma div_small: "a < k * m \<Longrightarrow> a div m < (k :: nat)"
  by (simp add: less_mult_imp_div_less)

lemma b64_enc_digits: "\<forall>x\<in>set xs. x < 256 \<Longrightarrow> \<forall>d\<in>set (b64_enc xs). d < 64"
proof (induction xs rule: b64_enc.induct)
  case (4 a b d xs)
  then have "\<forall>d\<in>set (b64_enc xs). d < 64" and "a < 256" "b < 256" "d < 256" by simp_all
  moreover from this have "a div 4 < 64" "(a mod 4) * 16 + b div 16 < 64" "(b mod 16) * 4 + d div 64 < 64" "d mod 64 < 64"
    using div_small [of a 64 4] div_small [of b 16 16] div_small [of d 4 64]
      mod_less_divisor [of 4 a] mod_less_divisor [of 16 b] by linarith+
  ultimately show ?case by simp
next
  case (3 a b)
  then have "a < 256" "b < 256" by simp_all
  then have "a div 4 < 64" "(a mod 4) * 16 + b div 16 < 64" "(b mod 16) * 4 < 64"
    using div_small [of a 64 4] div_small [of b 16 16] mod_less_divisor [of 4 a] mod_less_divisor [of 16 b] by linarith+
  then show ?case by simp
next
  case (2 a)
  then have "a < 256" by simp
  then have "a div 4 < 64" "(a mod 4) * 16 < 64" using div_small [of a 64 4] mod_less_divisor [of 4 a] by linarith+
  then show ?case by simp
qed simp

lemma pack: "q < k \<Longrightarrow> (x * k + q) div k = x \<and> (x * k + q) mod k = (q :: nat)"
  by simp

lemma b64_bits:
  fixes a b d :: nat
  assumes "b < 256" and "d < 256"
  shows "a div 4 * 4 + (a mod 4 * 16 + b div 16) div 16 = a"
    and "(a mod 4 * 16 + b div 16) mod 16 * 16 + (b mod 16 * 4 + d div 64) div 4 = b"
    and "(b mod 16 * 4 + d div 64) mod 4 * 64 + d mod 64 = d"
proof -
  have b: "b div 16 < 16" and d: "d div 64 < 4" using assms by (simp_all add: div_small)
  show "a div 4 * 4 + (a mod 4 * 16 + b div 16) div 16 = a"
    using pack [OF b, of "a mod 4"] by simp
  show "(a mod 4 * 16 + b div 16) mod 16 * 16 + (b mod 16 * 4 + d div 64) div 4 = b"
    using pack [OF b, of "a mod 4"] pack [OF d, of "b mod 16"] by simp
  show "(b mod 16 * 4 + d div 64) mod 4 * 64 + d mod 64 = d"
    using pack [OF d, of "b mod 16"] by simp
qed

lemma b64_roundtrip: "\<forall>x\<in>set xs. x < 256 \<Longrightarrow> b64_dec (b64_enc xs) = Some xs"
proof (induction xs rule: b64_enc.induct)
  case (4 a b d xs)
  then have "b64_dec (b64_enc xs) = Some xs" and "b < 256" "d < 256" by simp_all
  then show ?case using b64_bits [of b d] by simp
next
  case (3 a b)
  then show ?case using b64_bits(1,2) [of b 0] by simp
next
  case (2 a)
  then show ?case using b64_bits(1) [of 0 0] by simp
qed simp

lemma bytes_small: "\<forall>x\<in>set (map of_char s :: nat list). x < 256"
  by auto

lemma Encode_plain: "c \<in> set (EncodeToString s) \<Longrightarrow> c \<noteq> CHR 0x0A \<and> c \<noteq> CHR 0x0D \<and> c \<noteq> CHR ''.''"
  using b64_char_plain b64_enc_digits [OF bytes_small] by (auto simp: EncodeToString_def)

lemma Decode_Encode: "DecodeString (EncodeToString s) = Some s"
proof -
  let ?ds = "b64_enc (map of_char s)"
  have keep: "filter (\<lambda>c. c \<noteq> CHR 0x0A \<and> c \<noteq> CHR 0x0D) (EncodeToString s) = EncodeToString s"
    using Encode_plain by (auto simp: filter_id_conv)
  have "map b64_value (EncodeToString s) = map Some ?ds"
    using b64_value_char b64_enc_digits [OF bytes_small] by (auto simp: EncodeToString_def)
  then show ?thesis
    using b64_roundtrip [OF bytes_small, of s] unfolding DecodeString_def Let_def keep
    by (simp add: comp_def)
qed

subsection \<open>Unix seconds\<close>

text \<open>
  \<open>Time.Unix\<close> and \<open>time.Unix\<close>: seconds since 1970 against nanoseconds since year 1. The sum of the
  second is an \<open>int64\<close> and wraps.
\<close>

definition unix_epoch :: int where "unix_epoch = 62135596800"

definition to_unix :: "time \<Rightarrow> int" where
  "to_unix t = t div second - unix_epoch"

definition from_unix :: "int \<Rightarrow> time" where
  "from_unix n = wrap64 (n + unix_epoch) * second"

lemma from_to_unix: "fits_int64 (t div second) \<Longrightarrow> from_unix (to_unix t) = t - t mod second"
  by (simp add: from_unix_def to_unix_def wrap64_id minus_mod_eq_div_mult)

subsection \<open>Tokens\<close>

definition browserSessionTTL :: duration where "browserSessionTTL = 30 * 24 * hour"
definition browserSessionRenewAfter :: duration where "browserSessionRenewAfter = browserSessionTTL div 2"

record browser_claims =
  bc_Name :: string
  bc_PrincipalID :: string
  bc_CredentialID :: string
  bc_CredentialGeneration :: "64 word"
  bc_FullScope :: bool
  bc_KeyBinding :: string
  bc_IssuedAt :: int
  bc_ExpiresAt :: int

record registry_claims =
  rc_CredentialID :: string
  rc_PrincipalID :: string
  rc_TenantID :: string
  rc_Generation :: "64 word"
  rc_IssuedAt :: int
  rc_ExpiresAt :: int

text \<open>
  \<open>sl_hkdf secret info\<close> is \<open>hkdf.Key\<close> without salt and 32 bytes long; \<open>sl_mac key message\<close> is HMAC-SHA256.
  \<open>json.Marshal\<close> of claims never fails.
\<close>

record session_lib =
  sl_hkdf :: "string \<Rightarrow> string \<Rightarrow> string"
  sl_mac :: "string \<Rightarrow> string \<Rightarrow> string"
  sl_claims_json :: "browser_claims \<Rightarrow> string"
  sl_json_claims :: "string \<Rightarrow> browser_claims option"
  sl_registry_json :: "registry_claims \<Rightarrow> string"
  sl_json_registry :: "string \<Rightarrow> registry_claims option"

datatype session_error =
    NoBrowserSessionKey | MalformedBrowserSession | BadSignature | SessionOver
  | SharedKeyGone | AmbiguousIdentity | KeyReplaced | CallerGone | CredentialGone | AuthorityUnavailable

definition browserSessionSigningKey :: "session_lib \<Rightarrow> string \<Rightarrow> session_error + string" where
  "browserSessionSigningKey sl apiKey =
     (if apiKey = '''' then Inl NoBrowserSessionKey else Inr (sl_hkdf sl apiKey ''kyber-browser-session-v1''))"

definition binding_of :: "session_lib \<Rightarrow> string \<Rightarrow> string \<Rightarrow> string" where
  "binding_of sl key callerKey = EncodeToString (take 16 (sl_mac sl key (''caller-key:'' @ callerKey)))"

definition browserSessionKeyBinding :: "session_lib \<Rightarrow> string \<Rightarrow> string \<Rightarrow> session_error + string" where
  "browserSessionKeyBinding sl apiKey callerKey =
     (case browserSessionSigningKey sl apiKey of Inl e \<Rightarrow> Inl e | Inr key \<Rightarrow> Inr (binding_of sl key callerKey))"

definition sealed_token :: "session_lib \<Rightarrow> string \<Rightarrow> string \<Rightarrow> string" where
  "sealed_token sl key msg = msg @ ''.'' @ EncodeToString (sl_mac sl key msg)"

definition claims_of :: "caller \<Rightarrow> string \<Rightarrow> time \<Rightarrow> duration \<Rightarrow> browser_claims" where
  "claims_of c keyBinding issuedAt ttl =
     \<lparr>bc_Name = ca_Name c, bc_PrincipalID = ca_PrincipalID c, bc_CredentialID = ca_CredentialID c,
      bc_CredentialGeneration = ca_CredentialGeneration c, bc_FullScope = ss_full (ca_Scopes c),
      bc_KeyBinding = keyBinding, bc_IssuedAt = to_unix issuedAt, bc_ExpiresAt = to_unix (issuedAt + ttl)\<rparr>"

definition signBrowserSession ::
  "session_lib \<Rightarrow> string \<Rightarrow> caller \<Rightarrow> string \<Rightarrow> time \<Rightarrow> duration \<Rightarrow> session_error + string" where
  "signBrowserSession sl apiKey c keyBinding issuedAt ttl =
     (case browserSessionSigningKey sl apiKey of
        Inl e \<Rightarrow> Inl e
      | Inr key \<Rightarrow> Inr (sealed_token sl key
          (''v1.'' @ EncodeToString (sl_claims_json sl (claims_of c keyBinding issuedAt ttl)))))"

definition verifyBrowserSessionWithSigningKey ::
  "session_lib \<Rightarrow> string \<Rightarrow> string \<Rightarrow> time \<Rightarrow> session_error + browser_claims" where
  "verifyBrowserSessionWithSigningKey sl key token now =
     (if length key \<noteq> 32 then Inl NoBrowserSessionKey
      else case cut_at CHR ''.'' token of
        None \<Rightarrow> Inl MalformedBrowserSession
      | Some (version, body) \<Rightarrow>
          if version \<noteq> ''v1'' then Inl MalformedBrowserSession
          else (case cut_at CHR ''.'' body of
            None \<Rightarrow> Inl MalformedBrowserSession
          | Some (encodedClaims, encodedMAC) \<Rightarrow>
              if CHR ''.'' \<in> set encodedMAC then Inl MalformedBrowserSession
              else (case DecodeString encodedMAC of
                None \<Rightarrow> Inl MalformedBrowserSession
              | Some presented \<Rightarrow>
                  if presented \<noteq> sl_mac sl key (version @ ''.'' @ encodedClaims) then Inl BadSignature
                  else (case DecodeString encodedClaims of
                    None \<Rightarrow> Inl MalformedBrowserSession
                  | Some raw \<Rightarrow>
                      (case sl_json_claims sl raw of
                        None \<Rightarrow> Inl MalformedBrowserSession
                      | Some claims \<Rightarrow>
                          if \<not> now < from_unix (bc_ExpiresAt claims) then Inl SessionOver else Inr claims)))))"

definition verifyBrowserSession :: "session_lib \<Rightarrow> string \<Rightarrow> string \<Rightarrow> time \<Rightarrow> session_error + browser_claims" where
  "verifyBrowserSession sl apiKey token now =
     (case browserSessionSigningKey sl apiKey of
        Inl e \<Rightarrow> Inl e
      | Inr key \<Rightarrow> verifyBrowserSessionWithSigningKey sl key token now)"

subsection \<open>What a token proves\<close>

lemma Encode_no_dot: "CHR ''.'' \<notin> set (EncodeToString s)"
  using Encode_plain by blast

lemma verify_sealed:
  assumes "length key = 32" and "sl_json_claims sl (sl_claims_json sl claims) = Some claims"
    and "now < from_unix (bc_ExpiresAt claims)"
  shows "verifyBrowserSessionWithSigningKey sl key (sealed_token sl key (''v1.'' @ EncodeToString (sl_claims_json sl claims))) now
    = Inr claims"
proof -
  let ?c = "EncodeToString (sl_claims_json sl claims)" and ?signed = "''v1.'' @ EncodeToString (sl_claims_json sl claims)"
  have outer: "cut_at CHR ''.'' (sealed_token sl key ?signed) = Some (''v1'', ?c @ ''.'' @ EncodeToString (sl_mac sl key ?signed))"
    by (simp add: sealed_token_def)
  have inner: "cut_at CHR ''.'' (?c @ ''.'' @ EncodeToString (sl_mac sl key ?signed)) = Some (?c, EncodeToString (sl_mac sl key ?signed))"
    using cut_at_first [OF Encode_no_dot] by simp
  show ?thesis
    unfolding verifyBrowserSessionWithSigningKey_def outer
    using assms Encode_no_dot by (simp add: inner [simplified] Decode_Encode)
qed

text \<open>An accepted token carries the MAC of its own version and claims under the key.\<close>

lemma verify_sound:
  assumes "verifyBrowserSessionWithSigningKey sl key token now = Inr claims"
  obtains enc tag where "token = ''v1.'' @ enc @ ''.'' @ tag" and "CHR ''.'' \<notin> set enc" and "CHR ''.'' \<notin> set tag"
    and "DecodeString tag = Some (sl_mac sl key (''v1.'' @ enc))"
    and "\<exists>raw. DecodeString enc = Some raw \<and> sl_json_claims sl raw = Some claims"
    and "now < from_unix (bc_ExpiresAt claims)" and "length key = 32"
proof -
  have split: "s = a @ c # b \<and> c \<notin> set a" if "cut_at c s = Some (a, b)" for c s a b
    using that by (induction s arbitrary: a) (auto split: if_split_asm)
  from assms obtain body where body: "cut_at CHR ''.'' token = Some (''v1'', body)"
    by (auto simp: verifyBrowserSessionWithSigningKey_def split: if_split_asm option.split_asm prod.split_asm)
  from assms body obtain enc tag where parts: "cut_at CHR ''.'' body = Some (enc, tag)"
    by (auto simp: verifyBrowserSessionWithSigningKey_def split: if_split_asm option.split_asm prod.split_asm)
  show thesis
  proof (rule that [of enc tag])
    show "token = ''v1.'' @ enc @ ''.'' @ tag" using split [OF body] split [OF parts] by simp
    show "CHR ''.'' \<notin> set enc" using split [OF parts] by simp
  qed (use assms body parts in \<open>auto simp: verifyBrowserSessionWithSigningKey_def split: if_split_asm option.split_asm\<close>)
qed

end
