(* ===== verification/Credential_Secret.thy ===== *)
theory Credential_Secret
  imports Credential_Registry
begin

section \<open>The Secret behind the registry (\<open>pkg/operatorcredentials/secret_store.go\<close>)\<close>

text \<open>
  The registry lives in one Kubernetes Secret. The records keep the fields of an object the code
  reads or writes. The API server is outside: a method takes its answers as arguments and returns, with
  its own result, the requests it sends. An answer pairs whether the request's context had ended
  (\<open>ctx.Err()\<close>) with the error or the object. Errors joined to \<open>ErrUnavailable\<close> are not kept.
\<close>

subsection \<open>Objects, answers, errors\<close>

record secret =
  s_Namespace :: string
  s_Name :: string
  s_UID :: string
  s_ResourceVersion :: string
  s_Type :: string
  s_Immutable :: "bool option"
  s_Labels :: "(string, string) gomap"
  s_Annotations :: "(string, string) gomap"
  s_OwnerReferences :: "string list"
  s_Finalizers :: "string list"
  s_Deleting :: bool
  s_Data :: "(string, string) gomap"

datatype api_error = ApiNotFound | ApiConflict | ApiAlreadyExists | ApiCanceled | ApiOther

text \<open>An error the code converts is one of the API client's or one of its own.\<close>

datatype failure = Api api_error | Own cred_error

type_synonym 'a answer = "bool \<times> (api_error + 'a)"

definition authorityError :: "bool \<Rightarrow> failure \<Rightarrow> cred_error" where
  "authorityError ended e =
     (if ended then ErrUnavailable
      else case e of
        Api ApiCanceled \<Rightarrow> ErrUnavailable
      | Api ApiNotFound \<Rightarrow> ErrUninitialized
      | Api ApiConflict \<Rightarrow> ErrConflict
      | Api ApiAlreadyExists \<Rightarrow> ErrConflict
      | _ \<Rightarrow> ErrUnavailable)"

definition authorityUnavailable :: "bool \<Rightarrow> failure \<Rightarrow> cred_error" where
  "authorityUnavailable ended e =
     (let safe = authorityError ended e in
      if safe = ErrUninitialized \<or> safe = ErrConflict then ErrUnavailable else safe)"

lemma authorityUnavailable_eq [simp]: "authorityUnavailable ended e = ErrUnavailable"
  by (simp add: authorityUnavailable_def authorityError_def split: failure.splits api_error.splits)

subsection \<open>The store\<close>

definition DefaultSecretName :: string where "DefaultSecretName = ''kyber-operator-credentials''"
definition dataKey :: string where "dataKey = ''registry.json''"
definition ownerLabel :: string where "ownerLabel = ''kyber.io/operator-credential-registry''"
definition writeFenceAnnotation :: string where
  "writeFenceAnnotation = ''kyber.io/operator-credential-write-fence''"
definition managedByLabel :: string where "managedByLabel = ''app.kubernetes.io/managed-by''"
definition SecretTypeOpaque :: string where "SecretTypeOpaque = ''Opaque''"

lemmas secret_words = dataKey_def ownerLabel_def writeFenceAnnotation_def managedByLabel_def SecretTypeOpaque_def

record secret_store =
  st_Namespace :: string
  st_Name :: string

record snapshot =
  sn_UID :: string
  sn_Version :: string
  sn_Document :: document

definition newSecretStore :: "cred_lib \<Rightarrow> string \<Rightarrow> string \<Rightarrow> cred_error + secret_store" where
  "newSecretStore lib namespace name =
     (if \<not> cl_dns_label lib namespace \<or> \<not> cl_dns_subdomain lib name then Inl ErrInvalid
      else Inr \<lparr>st_Namespace = namespace, st_Name = name\<rparr>)"

text \<open>What a stored Secret must look like, and the read every method starts with.\<close>

definition read_secret :: "cred_lib \<Rightarrow> secret_store \<Rightarrow> secret \<Rightarrow> cred_error + snapshot" where
  "read_secret lib st s =
     (if s_Namespace s \<noteq> st_Namespace st \<or> s_Name s \<noteq> st_Name st then Inl ErrInvalid
      else if s_Type s \<noteq> SecretTypeOpaque \<or> str_at (s_Labels s) ownerLabel \<noteq> ''v1''
              \<or> str_at (s_Labels s) managedByLabel \<noteq> ''kyber'' \<or> s_OwnerReferences s \<noteq> []
              \<or> s_ResourceVersion s = '''' then Inl ErrUnsupported
      else case decode lib (str_at (s_Data s) dataKey) of
             Inl e \<Rightarrow> Inl e
           | Inr d \<Rightarrow> if d_Namespace d \<noteq> st_Namespace st then Inl ErrInvalid
               else Inr \<lparr>sn_UID = s_UID s, sn_Version = s_ResourceVersion s, sn_Document = d\<rparr>)"

definition read_registry :: "cred_lib \<Rightarrow> secret_store \<Rightarrow> secret answer \<Rightarrow> cred_error + (secret \<times> snapshot)" where
  "read_registry lib st got =
     (case got of
        (ended, Inl e) \<Rightarrow> Inl (authorityError ended (Api e))
      | (_, Inr s) \<Rightarrow> (case read_secret lib st s of Inl e \<Rightarrow> Inl e | Inr sn \<Rightarrow> Inr (s, sn)))"

definition Load_registry :: "cred_lib \<Rightarrow> secret_store \<Rightarrow> secret answer \<Rightarrow> cred_error + snapshot" where
  "Load_registry lib st got = (case read_registry lib st got of Inl e \<Rightarrow> Inl e | Inr (_, sn) \<Rightarrow> Inr sn)"

text \<open>
  \<open>Create\<close>, \<open>Replace\<close> and \<open>Fence\<close>, each as the request it sends and its result. A request carries the
  UID and resource version of the object read.
\<close>

definition create_request :: "cred_lib \<Rightarrow> secret_store \<Rightarrow> document \<Rightarrow> cred_error + (secret \<times> document)" where
  "create_request lib st d =
     (if d_Namespace d \<noteq> st_Namespace st then Inl ErrInvalid
      else case encode lib d of
             Inl e \<Rightarrow> Inl e
           | Inr (raw, n) \<Rightarrow>
               (case transition None n of
                  Some e \<Rightarrow> Inl e
                | None \<Rightarrow>
                    Inr (\<lparr>s_Namespace = st_Namespace st, s_Name = st_Name st, s_UID = '''', s_ResourceVersion = '''',
                          s_Type = SecretTypeOpaque, s_Immutable = None,
                          s_Labels = [(ownerLabel, ''v1''), (managedByLabel, ''kyber'')], s_Annotations = [],
                          s_OwnerReferences = [], s_Finalizers = [], s_Deleting = False,
                          s_Data = [(dataKey, raw)]\<rparr>, n)))"

text \<open>
  The answer to a write is the object as the server stored it; the snapshot takes its UID and version.
\<close>

definition written :: "document \<Rightarrow> secret answer \<Rightarrow> cred_error + snapshot" where
  "written d answer =
     (case answer of
        (ended, Inl e) \<Rightarrow> Inl (authorityError ended (Api e))
      | (_, Inr s) \<Rightarrow> Inr \<lparr>sn_UID = s_UID s, sn_Version = s_ResourceVersion s, sn_Document = d\<rparr>)"

definition Create_registry ::
  "cred_lib \<Rightarrow> secret_store \<Rightarrow> document \<Rightarrow> secret answer \<Rightarrow> (cred_error + snapshot) \<times> secret option" where
  "Create_registry lib st d created =
     (case create_request lib st d of
        Inl e \<Rightarrow> (Inl e, None)
      | Inr (req, n) \<Rightarrow> (written n created, Some req))"

definition replace_request ::
  "cred_lib \<Rightarrow> secret_store \<Rightarrow> string \<Rightarrow> document \<Rightarrow> secret answer \<Rightarrow> cred_error + (secret \<times> document)" where
  "replace_request lib st version next got =
     (if version = '''' then Inl ErrConflict
      else case read_registry lib st got of
             Inl e \<Rightarrow> Inl e
           | Inr (s, previous) \<Rightarrow>
               if version \<noteq> sn_Version previous then Inl ErrConflict
               else if s_Immutable s = Some True then Inl ErrUnsupported
               else if d_Namespace next \<noteq> st_Namespace st then Inl ErrInvalid
               else (case encode lib next of
                       Inl e \<Rightarrow> Inl e
                     | Inr (raw, n) \<Rightarrow>
                         (case transition (Some (sn_Document previous)) n of
                            Some e \<Rightarrow> Inl e
                          | None \<Rightarrow> Inr (s\<lparr>s_Data := AList.update dataKey raw (s_Data s)\<rparr>, n))))"

definition Replace_registry ::
  "cred_lib \<Rightarrow> secret_store \<Rightarrow> string \<Rightarrow> document \<Rightarrow> secret answer \<Rightarrow> secret answer
     \<Rightarrow> (cred_error + snapshot) \<times> secret option" where
  "Replace_registry lib st version next got updated =
     (case replace_request lib st version next got of
        Inl e \<Rightarrow> (Inl e, None)
      | Inr (req, n) \<Rightarrow> (written n updated, Some req))"

definition fence_request ::
  "cred_lib \<Rightarrow> secret_store \<Rightarrow> string \<Rightarrow> string \<Rightarrow> secret answer \<Rightarrow> cred_error + (secret \<times> document)" where
  "fence_request lib st nonce version got =
     (if version = '''' then Inl ErrConflict
      else case read_registry lib st got of
             Inl e \<Rightarrow> Inl (if e = ErrUninitialized then ErrUnavailable else e)
           | Inr (s, previous) \<Rightarrow>
               if sn_Version previous \<noteq> version then Inl ErrConflict
               else if s_UID s = '''' then Inl ErrUnavailable
               else Inr (s\<lparr>s_Annotations := AList.update writeFenceAnnotation nonce (s_Annotations s)\<rparr>,
                         normalized (sn_Document previous)))"

definition Fence_registry ::
  "cred_lib \<Rightarrow> secret_store \<Rightarrow> string \<Rightarrow> string \<Rightarrow> secret answer \<Rightarrow> secret answer
     \<Rightarrow> (cred_error + snapshot) \<times> secret option" where
  "Fence_registry lib st nonce version got updated =
     (case fence_request lib st nonce version got of
        Inl e \<Rightarrow> (Inl e, None)
      | Inr (req, n) \<Rightarrow>
          (case updated of
             (ended, Inl e) \<Rightarrow> (Inl (authorityError ended (Api e)), Some req)
           | (_, Inr s) \<Rightarrow>
               if s_ResourceVersion s = '''' \<or> s_ResourceVersion s = version then (Inl ErrUnavailable, Some req)
               else (Inr \<lparr>sn_UID = s_UID s, sn_Version = s_ResourceVersion s, sn_Document = n\<rparr>, Some req)))"

end
