(* ===== verification/Credential_Maintenance.thy ===== *)
theory Credential_Maintenance
  imports Credential_Secret
begin

section \<open>The maintenance reservation (\<open>pkg/operatorcredentials/maintenance*.go\<close>, \<open>writer_quiescence.go\<close>)\<close>

text \<open>
  Adoption and upgrade exclude one another by an immutable Secret with a fixed name: whoever creates
  it holds the reservation until it is released. It never expires. A later execution takes it over
  only by changing its metadata at the resource version it inspected, after proof that the writer
  has stopped. Fresh UUIDs, the clock and the API server's answers are inputs.
\<close>

subsection \<open>Writers and records\<close>

record maintenance_writer =
  w_PodName :: string
  w_PodUID :: string
  w_JobName :: string
  w_JobUID :: string
  w_Container :: string

record recovery_record =
  rr_OperationID :: string
  rr_Nonce :: string

record upgrade_checkpoint =
  uc_Release :: string
  uc_InitialRevision :: int
  uc_TargetVersion :: string
  uc_ControlPlaneDeployment :: string
  uc_Authority :: string
  uc_RegistryUID :: string

record effects_record =
  er_Nonce :: string
  er_Checkpoint :: upgrade_checkpoint

record adoption_record =
  ar_AdmissionVersion :: string
  ar_OperationID :: string
  ar_ExecutionID :: string
  ar_Writer :: maintenance_writer

text \<open>
  The libraries used here: those of the registry, \<open>json.Marshal\<close> and \<open>json.Unmarshal\<close> at four record
  types, the regular expression of a checkpoint's version and RFC 3339 parsing.
\<close>

record maint_lib =
  ml_cred :: cred_lib
  ml_writer_bytes :: "maintenance_writer \<Rightarrow> string"
  ml_writer_parse :: "string \<Rightarrow> maintenance_writer option"
  ml_recovery_bytes :: "recovery_record \<Rightarrow> string"
  ml_recovery_parse :: "string \<Rightarrow> recovery_record option"
  ml_effects_bytes :: "effects_record \<Rightarrow> string"
  ml_effects_parse :: "string \<Rightarrow> effects_record option"
  ml_adoption_bytes :: "adoption_record \<Rightarrow> string"
  ml_adoption_parse :: "string \<Rightarrow> adoption_record option"
  ml_checkpoint_version :: "string \<Rightarrow> bool"
  ml_time_parse :: "string \<Rightarrow> time option"

definition nil_uuid :: string where "nil_uuid = ''00000000-0000-0000-0000-000000000000''"

definition canonicalWriterUID :: "maint_lib \<Rightarrow> string \<Rightarrow> bool" where
  "canonicalWriterUID lib v \<longleftrightarrow> cl_canonical_uuid (ml_cred lib) v \<and> v \<noteq> nil_uuid"

definition writer_valid :: "maint_lib \<Rightarrow> maintenance_writer \<Rightarrow> bool" where
  "writer_valid lib w \<longleftrightarrow>
     cl_dns_subdomain (ml_cred lib) (w_PodName w) \<and> cl_dns_subdomain (ml_cred lib) (w_JobName w)
     \<and> canonicalWriterUID lib (w_PodUID w) \<and> canonicalWriterUID lib (w_JobUID w)
     \<and> (w_Container w = ''upgrade'' \<or> w_Container w = ''adopt-credentials'')"

definition encodeMaintenanceWriter :: "maint_lib \<Rightarrow> maintenance_writer \<Rightarrow> cred_error + string" where
  "encodeMaintenanceWriter lib w = (if writer_valid lib w then Inr (ml_writer_bytes lib w) else Inl ErrInvalid)"

definition decodeMaintenanceWriter :: "maint_lib \<Rightarrow> string \<Rightarrow> cred_error + maintenance_writer" where
  "decodeMaintenanceWriter lib raw =
     (if raw = '''' \<or> 1024 < length raw then Inl ErrUnsupported
      else case ml_writer_parse lib raw of
             None \<Rightarrow> Inl ErrUnsupported
           | Some w \<Rightarrow> if encodeMaintenanceWriter lib w = Inr raw then Inr w else Inl ErrUnsupported)"

definition decodeMaintenanceRecovery :: "maint_lib \<Rightarrow> string \<Rightarrow> cred_error + recovery_record" where
  "decodeMaintenanceRecovery lib raw =
     (if raw = '''' \<or> 256 < length raw then Inl ErrUnsupported
      else case ml_recovery_parse lib raw of
             None \<Rightarrow> Inl ErrUnsupported
           | Some r \<Rightarrow>
               if canonicalWriterUID lib (rr_OperationID r) \<and> canonicalWriterUID lib (rr_Nonce r)
                  \<and> ml_recovery_bytes lib r = raw then Inr r else Inl ErrUnsupported)"

definition checkpoint_valid :: "maint_lib \<Rightarrow> upgrade_checkpoint \<Rightarrow> bool" where
  "checkpoint_valid lib c =
     (if 53 < length (uc_Release c) \<or> \<not> cl_dns_label (ml_cred lib) (uc_Release c)
         \<or> uc_InitialRevision c < 1 \<or> 2147483647 < uc_InitialRevision c
         \<or> 128 < length (uc_TargetVersion c) \<or> \<not> ml_checkpoint_version lib (uc_TargetVersion c)
         \<or> \<not> cl_dns_subdomain (ml_cred lib) (uc_ControlPlaneDeployment c) then False
      else (uc_Authority c = ''registry'' \<and> canonicalWriterUID lib (uc_RegistryUID c))
           \<or> (uc_Authority c = ''unselected'' \<and> uc_RegistryUID c = ''''))"

definition decodeUpgradeEffects :: "maint_lib \<Rightarrow> string \<Rightarrow> cred_error + effects_record" where
  "decodeUpgradeEffects lib raw =
     (if raw = '''' \<or> 2048 < length raw then Inl ErrUnsupported
      else case ml_effects_parse lib raw of
             None \<Rightarrow> Inl ErrUnsupported
           | Some r \<Rightarrow>
               if canonicalWriterUID lib (er_Nonce r) \<and> checkpoint_valid lib (er_Checkpoint r)
                  \<and> ml_effects_bytes lib r = raw then Inr r else Inl ErrUnsupported)"

definition decodeAdoptionWriter :: "maint_lib \<Rightarrow> string \<Rightarrow> cred_error + adoption_record" where
  "decodeAdoptionWriter lib raw =
     (if raw = '''' \<or> 2048 < length raw then Inl ErrUnsupported
      else case ml_adoption_parse lib raw of
             None \<Rightarrow> Inl ErrUnsupported
           | Some r \<Rightarrow>
               if opaque (ar_AdmissionVersion r) \<and> canonicalWriterUID lib (ar_OperationID r)
                  \<and> canonicalWriterUID lib (ar_ExecutionID r) \<and> writer_valid lib (ar_Writer r)
                  \<and> w_Container (ar_Writer r) = ''adopt-credentials'' \<and> ml_adoption_bytes lib r = raw
               then Inr r else Inl ErrUnsupported)"

definition MaintenanceAdoption :: string where "MaintenanceAdoption = ''adoption''"
definition MaintenanceUpgrade :: string where "MaintenanceUpgrade = ''upgrade''"
definition DefaultMaintenanceSecretName :: string where
  "DefaultMaintenanceSecretName = DefaultSecretName @ ''-maintenance''"
definition maintenanceLabel :: string where
  "maintenanceLabel = ''kyber.io/operator-credential-maintenance''"
definition maintenanceRecoveryAnnotation :: string where
  "maintenanceRecoveryAnnotation = ''kyber.io/operator-credential-maintenance-recovery''"
definition upgradeEffectsAnnotation :: string where
  "upgradeEffectsAnnotation = ''kyber.io/operator-credential-upgrade-effects''"
definition adoptionWriterAnnotation :: string where
  "adoptionWriterAnnotation = ''kyber.io/operator-credential-adoption-writer''"
definition maintenanceExecutionAnnotation :: string where
  "maintenanceExecutionAnnotation = ''kyber.io/operator-credential-execution''"
definition AdoptionOperationLabel :: string where
  "AdoptionOperationLabel = ''kyber.io/operator-credential-adoption''"

lemmas maintenance_words = MaintenanceAdoption_def MaintenanceUpgrade_def

definition maintenanceWriterContainer :: "string \<Rightarrow> string" where
  "maintenanceWriterContainer kind =
     (if kind = MaintenanceUpgrade then ''upgrade''
      else if kind = MaintenanceAdoption then ''adopt-credentials'' else '''')"

subsection \<open>The reservation object\<close>

record maintenance_store =
  ms_Namespace :: string
  ms_Name :: string

definition newMaintenanceStore :: "cred_lib \<Rightarrow> secret_store \<Rightarrow> string \<Rightarrow> cred_error + maintenance_store" where
  "newMaintenanceStore lib direct name =
     (if \<not> cl_dns_subdomain lib name \<or> name = st_Name direct then Inl ErrInvalid
      else Inr \<lparr>ms_Namespace = st_Namespace direct, ms_Name = name\<rparr>)"

record reservation =
  r_cleanupOwner :: string
  r_originalWriter :: "maintenance_writer option"
  r_writer :: "maintenance_writer option"
  r_store :: maintenance_store
  r_owner :: string
  r_kind :: string
  r_uid :: string
  r_version :: string

text \<open>\<open>MaintenanceStore.validate\<close>; the length of \<open>s_Data\<close> counts the keys of the map.\<close>

definition annotation_allowed ::
  "maint_lib \<Rightarrow> secret \<Rightarrow> string \<Rightarrow> string \<Rightarrow> (string \<Rightarrow> cred_error + 'a) \<Rightarrow> bool" where
  "annotation_allowed lib s name kind decode_record =
     (case map_of (s_Annotations s) name of
        None \<Rightarrow> True
      | Some raw \<Rightarrow>
          str_at (s_Data s) ''kind'' = kind
          \<and> (case decodeMaintenanceWriter lib (str_at (s_Data s) ''writer'') of Inl _ \<Rightarrow> False | Inr _ \<Rightarrow> True)
          \<and> (case decode_record raw of Inl _ \<Rightarrow> False | Inr _ \<Rightarrow> True))"

definition reservation_shape :: "maintenance_store \<Rightarrow> secret \<Rightarrow> bool" where
  "reservation_shape st s \<longleftrightarrow>
     s_Namespace s = ms_Namespace st \<and> s_Name s = ms_Name st \<and> s_UID s \<noteq> '''' \<and> s_ResourceVersion s \<noteq> ''''
     \<and> s_Type s = SecretTypeOpaque \<and> s_Immutable s = Some True \<and> s_OwnerReferences s = [] \<and> s_Finalizers s = []
     \<and> str_at (s_Labels s) maintenanceLabel = ''v1'' \<and> str_at (s_Labels s) managedByLabel = ''kyber''
     \<and> (length (s_Data s) = 4 \<or> length (s_Data s) = 5) \<and> str_at (s_Data s) ''protocol'' = ''1''"

definition validate_reservation :: "maint_lib \<Rightarrow> maintenance_store \<Rightarrow> secret \<Rightarrow> cred_error option" where
  "validate_reservation lib st s =
     (let kind = str_at (s_Data s) ''kind'' in
      if s_Deleting s then Some ErrUnavailable
      else if \<not> reservation_shape st s then Some ErrUnsupported
      else if length (s_Data s) = 5
              \<and> (case decodeMaintenanceWriter lib (str_at (s_Data s) ''writer'') of Inl _ \<Rightarrow> True | Inr _ \<Rightarrow> False)
      then Some ErrUnsupported
      else if \<not> canonicalWriterUID lib (str_at (s_Data s) ''owner'') then Some ErrUnsupported
      else if kind \<noteq> MaintenanceAdoption \<and> kind \<noteq> MaintenanceUpgrade then Some ErrUnsupported
      else if (case map_of (s_Data s) ''writer'' of
                 None \<Rightarrow> False
               | Some raw \<Rightarrow> (case decodeMaintenanceWriter lib raw of
                               Inl _ \<Rightarrow> True
                             | Inr w \<Rightarrow> w_Container w \<noteq> maintenanceWriterContainer kind))
      then Some ErrUnsupported
      else if \<not> annotation_allowed lib s upgradeEffectsAnnotation MaintenanceUpgrade (decodeUpgradeEffects lib)
      then Some ErrUnsupported
      else if \<not> annotation_allowed lib s maintenanceRecoveryAnnotation MaintenanceUpgrade (decodeMaintenanceRecovery lib)
      then Some ErrUnsupported
      else if (case map_of (s_Annotations s) adoptionWriterAnnotation of
                 None \<Rightarrow> False
               | Some raw \<Rightarrow> kind \<noteq> MaintenanceAdoption
                   \<or> (case decodeAdoptionWriter lib raw of Inl _ \<Rightarrow> True | Inr _ \<Rightarrow> False))
      then Some ErrUnsupported
      else if ml_time_parse lib (str_at (s_Data s) ''startedAt'') = None then Some ErrUnsupported
      else None)"

subsection \<open>Acquire, Check, Release\<close>

text \<open>
  \<open>acquireOwned\<close>: the object it creates and what it makes of the read that follows. Whether the
  create succeeded does not matter: only the object read back confers ownership.
\<close>

definition reservation_object ::
  "maint_lib \<Rightarrow> maintenance_store \<Rightarrow> string \<Rightarrow> maintenance_writer option \<Rightarrow> string \<Rightarrow> string \<Rightarrow> cred_error + secret" where
  "reservation_object lib st kind writer owner startedAt =
     (let s = \<lparr>s_Namespace = ms_Namespace st, s_Name = ms_Name st, s_UID = '''', s_ResourceVersion = '''',
               s_Type = SecretTypeOpaque, s_Immutable = Some True,
               s_Labels = [(maintenanceLabel, ''v1''), (managedByLabel, ''kyber'')], s_Annotations = [],
               s_OwnerReferences = [], s_Finalizers = [], s_Deleting = False,
               s_Data = [(''protocol'', ''1''), (''owner'', owner), (''kind'', kind), (''startedAt'', startedAt)]\<rparr>
      in case writer of
           None \<Rightarrow> Inr s
         | Some w \<Rightarrow> (case encodeMaintenanceWriter lib w of
                        Inl e \<Rightarrow> Inl e
                      | Inr raw \<Rightarrow> Inr (s\<lparr>s_Data := s_Data s @ [(''writer'', raw)]\<rparr>)))"

definition acquireOwned ::
  "maint_lib \<Rightarrow> maintenance_store \<Rightarrow> string \<Rightarrow> maintenance_writer option \<Rightarrow> string \<Rightarrow> string \<Rightarrow> secret answer
     \<Rightarrow> (cred_error + reservation) \<times> secret option" where
  "acquireOwned lib st kind writer owner startedAt got =
     (if \<not> canonicalWriterUID lib owner then (Inl ErrInvalid, None)
      else case reservation_object lib st kind writer owner startedAt of
             Inl e \<Rightarrow> (Inl e, None)
           | Inr req \<Rightarrow>
               (case got of
                  (ended, Inl e) \<Rightarrow> (Inl (authorityUnavailable ended (Api e)), Some req)
                | (_, Inr current) \<Rightarrow>
                    (case validate_reservation lib st current of
                       Some e \<Rightarrow> (Inl e, Some req)
                     | None \<Rightarrow>
                         if str_at (s_Data current) ''owner'' \<noteq> owner \<or> str_at (s_Data current) ''kind'' \<noteq> kind
                         then (Inl ErrConflict, Some req)
                         else (Inr \<lparr>r_cleanupOwner = '''', r_originalWriter = None, r_writer = writer, r_store = st,
                                    r_owner = owner, r_kind = kind, r_uid = s_UID current,
                                    r_version = s_ResourceVersion current\<rparr>, Some req))))"

definition Acquire ::
  "maint_lib \<Rightarrow> maintenance_store \<Rightarrow> string \<Rightarrow> string \<Rightarrow> string \<Rightarrow> secret answer
     \<Rightarrow> (cred_error + reservation) \<times> secret option" where
  "Acquire lib st kind uuid startedAt got =
     (if kind \<noteq> MaintenanceAdoption \<and> kind \<noteq> MaintenanceUpgrade then (Inl ErrInvalid, None)
      else acquireOwned lib st kind None uuid startedAt got)"

definition Check_reservation :: "maint_lib \<Rightarrow> reservation \<Rightarrow> string \<Rightarrow> secret answer \<Rightarrow> cred_error option" where
  "Check_reservation lib r kind got =
     (if r_kind r \<noteq> kind \<or> r_uid r = '''' \<or> r_version r = '''' then Some ErrInvalid
      else case got of
             (ended, Inl e) \<Rightarrow> Some (authorityUnavailable ended (Api e))
           | (_, Inr current) \<Rightarrow>
               (case validate_reservation lib (r_store r) current of
                  Some e \<Rightarrow> Some e
                | None \<Rightarrow>
                    if s_UID current \<noteq> r_uid r \<or> s_ResourceVersion current \<noteq> r_version r
                       \<or> str_at (s_Data current) ''owner'' \<noteq> r_owner r \<or> str_at (s_Data current) ''kind'' \<noteq> r_kind r
                    then Some ErrConflict else None))"

text \<open>A delete with its preconditions, and the answer to it.\<close>

record delete_request =
  dr_Name :: string
  dr_UID :: string
  dr_ResourceVersion :: string

definition delete_result :: "bool \<times> (api_error + unit) \<Rightarrow> cred_error option" where
  "delete_result deleted =
     (case deleted of
        (_, Inr _) \<Rightarrow> None
      | (ended, Inl e) \<Rightarrow> if e = ApiNotFound \<and> \<not> ended then None else Some (authorityError ended (Api e)))"

definition Release_reservation ::
  "maint_lib \<Rightarrow> reservation \<Rightarrow> secret answer \<Rightarrow> bool \<times> (api_error + unit) \<Rightarrow> cred_error option \<times> delete_request option" where
  "Release_reservation lib r got deleted =
     (if r_uid r = '''' \<or> r_version r = '''' then (Some ErrInvalid, None)
      else case Check_reservation lib r (r_kind r) got of
             Some e \<Rightarrow> (Some e, None)
           | None \<Rightarrow> (delete_result deleted,
               Some \<lparr>dr_Name = ms_Name (r_store r), dr_UID = r_uid r, dr_ResourceVersion = r_version r\<rparr>))"

record maintenance_status =
  mt_AdmissionVersion :: string
  mt_RecoveryOperationID :: string
  mt_Upgrade :: "upgrade_checkpoint option"
  mt_Writer :: "maintenance_writer option"
  mt_Present :: bool
  mt_Kind :: string
  mt_ExecutionID :: string
  mt_StartedAt :: time
  mt_UID :: string
  mt_Version :: string

definition idle_status :: maintenance_status where
  "idle_status = \<lparr>mt_AdmissionVersion = '''', mt_RecoveryOperationID = '''', mt_Upgrade = None, mt_Writer = None,
     mt_Present = False, mt_Kind = '''', mt_ExecutionID = '''', mt_StartedAt = 0, mt_UID = '''', mt_Version = ''''\<rparr>"

text \<open>An optional record: absent, decoded, or \<open>ErrUnsupported\<close>.\<close>

definition optional :: "('a \<Rightarrow> cred_error + 'b) \<Rightarrow> 'a option \<Rightarrow> cred_error + 'b option" where
  "optional decode_record raw =
     (case raw of
        None \<Rightarrow> Inr None
      | Some x \<Rightarrow> (case decode_record x of Inl _ \<Rightarrow> Inl ErrUnsupported | Inr r \<Rightarrow> Inr (Some r)))"

definition inspect_object :: "maint_lib \<Rightarrow> secret \<Rightarrow> cred_error + maintenance_status" where
  "inspect_object lib s =
     (case (optional (decodeMaintenanceWriter lib) (map_of (s_Data s) ''writer''),
            optional (decodeUpgradeEffects lib) (map_of (s_Annotations s) upgradeEffectsAnnotation),
            optional (decodeMaintenanceRecovery lib) (map_of (s_Annotations s) maintenanceRecoveryAnnotation),
            optional (decodeAdoptionWriter lib) (map_of (s_Annotations s) adoptionWriterAnnotation)) of
        (Inr writer, Inr effects, Inr recovery, Inr adoption) \<Rightarrow>
          let kind = str_at (s_Data s) ''kind'';
              status = \<lparr>mt_AdmissionVersion = (if kind = MaintenanceAdoption then s_ResourceVersion s else ''''),
                 mt_RecoveryOperationID = (case recovery of None \<Rightarrow> '''' | Some r \<Rightarrow> rr_OperationID r),
                 mt_Upgrade = map_option er_Checkpoint effects, mt_Writer = writer, mt_Present = True, mt_Kind = kind,
                 mt_ExecutionID = str_at (s_Data s) ''owner'',
                 mt_StartedAt = (case ml_time_parse lib (str_at (s_Data s) ''startedAt'') of None \<Rightarrow> 0 | Some t \<Rightarrow> t),
                 mt_UID = s_UID s, mt_Version = s_ResourceVersion s\<rparr>
          in Inr (case adoption of
                None \<Rightarrow> status
              | Some r \<Rightarrow> status\<lparr>mt_Writer := Some (ar_Writer r), mt_AdmissionVersion := ar_AdmissionVersion r,
                  mt_ExecutionID := ar_ExecutionID r, mt_RecoveryOperationID := ar_OperationID r\<rparr>)
      | _ \<Rightarrow> Inl ErrUnsupported)"

definition Inspect :: "maint_lib \<Rightarrow> maintenance_store \<Rightarrow> secret answer \<Rightarrow> cred_error + maintenance_status" where
  "Inspect lib st got =
     (case got of
        (ended, Inl e) \<Rightarrow>
          if e = ApiNotFound \<and> \<not> ended then Inr idle_status else Inl (authorityUnavailable ended (Api e))
      | (_, Inr s) \<Rightarrow>
          (case validate_reservation lib st s of Some e \<Rightarrow> Inl e | None \<Rightarrow> inspect_object lib s))"

end
