(* ===== verification/Credential_Recovery.thy ===== *)
theory Credential_Recovery
  imports Credential_Maintenance
begin

section \<open>Writers and their recovery (\<open>maintenance_writer.go\<close>, \<open>_recovery.go\<close>, \<open>_checkpoint.go\<close>, \<open>_adoption.go\<close>, \<open>_retention.go\<close>)\<close>

text \<open>
  A reservation names the pod and job that write under it. A job claims its one execution by an
  annotation on itself. Evidence that the writer stopped is read from pod, job and all pods of the
  job; with it, a new execution changes the reservation's metadata and so its resource version. Pods
  and jobs keep the fields the code reads.
\<close>

subsection \<open>Pods and jobs\<close>

record owner_reference =
  ow_APIVersion :: string
  ow_Kind :: string
  ow_Controller :: "bool option"
  ow_UID :: string
  ow_Name :: string

record container =
  k_Name :: string
  k_Image :: string
  k_RestartPolicy :: "string option"
  k_RestartPolicyRules :: nat
  k_Command :: "string list"
  k_Args :: "string list"

record pod_spec =
  ps_RestartPolicy :: string
  ps_NodeName :: string
  ps_Containers :: "container list"
  ps_InitContainers :: nat
  ps_EphemeralContainers :: nat

record terminated =
  te_FinishedAt :: time
  te_ContainerID :: string
  te_Reason :: string

record container_status =
  cs_Name :: string
  cs_RestartCount :: int
  cs_Terminated :: "terminated option"
  cs_ContainerID :: string

record writer_pod =
  p_Name :: string
  p_Namespace :: string
  p_UID :: string
  p_Deleting :: bool
  p_Labels :: "(string, string) gomap"
  p_OwnerReferences :: "owner_reference list"
  p_Spec :: pod_spec
  p_Phase :: string
  p_Reason :: string
  p_ContainerStatuses :: "container_status list"

record job_condition =
  jc_Type :: string
  jc_Status :: string

record label_selector =
  ls_MatchLabels :: "(string, string) gomap"
  ls_MatchExpressions :: nat

record writer_job =
  j_Name :: string
  j_Namespace :: string
  j_UID :: string
  j_ResourceVersion :: string
  j_Deleting :: bool
  j_Labels :: "(string, string) gomap"
  j_Annotations :: "(string, string) gomap"
  j_BackoffLimit :: "int option"
  j_BackoffLimitPerIndex :: "int option"
  j_PodFailurePolicy :: bool
  j_SuccessPolicy :: bool
  j_ManagedBy :: "string option"
  j_CompletionMode :: "string option"
  j_Parallelism :: "int option"
  j_Completions :: "int option"
  j_Suspend :: "bool option"
  j_TTLSecondsAfterFinished :: "int option"
  j_Selector :: "label_selector option"
  j_Template :: pod_spec
  j_Active :: int
  j_Conditions :: "job_condition list"

definition controllerUIDLabel :: string where "controllerUIDLabel = ''batch.kubernetes.io/controller-uid''"

definition singleRunJob :: "writer_job \<Rightarrow> bool" where
  "singleRunJob j \<longleftrightarrow>
     j_BackoffLimit j = Some 0 \<and> j_BackoffLimitPerIndex j = None \<and> \<not> j_PodFailurePolicy j \<and> \<not> j_SuccessPolicy j
     \<and> (j_ManagedBy j = None \<or> j_ManagedBy j = Some ''kubernetes.io/job-controller'')
     \<and> (j_CompletionMode j = None \<or> j_CompletionMode j = Some ''NonIndexed'')
     \<and> (j_Parallelism j = None \<or> j_Parallelism j = Some 1) \<and> (j_Completions j = None \<or> j_Completions j = Some 1)
     \<and> (j_Suspend j = None \<or> j_Suspend j = Some False) \<and> ps_RestartPolicy (j_Template j) = ''Never''"

definition writer_command :: "string \<Rightarrow> string option" where
  "writer_command container =
     (if container = ''upgrade'' then Some ''/usr/local/bin/kyber-upgrade''
      else if container = ''adopt-credentials'' then Some ''/usr/local/bin/kyber-credential-adopt''
      else None)"

definition writerPodSpec :: "pod_spec \<Rightarrow> string \<Rightarrow> bool" where
  "writerPodSpec spec container =
     (if ps_RestartPolicy spec \<noteq> ''Never'' \<or> ps_InitContainers spec \<noteq> 0 \<or> ps_EphemeralContainers spec \<noteq> 0 then False
      else case (ps_Containers spec, writer_command container) of
             ([c], Some command) \<Rightarrow>
               k_Name c = container \<and> k_RestartPolicy c = None \<and> k_RestartPolicyRules c = 0
               \<and> k_Command c = [command] \<and> k_Args c = []
           | _ \<Rightarrow> False)"

definition writerJobOwner :: "maint_lib \<Rightarrow> writer_pod \<Rightarrow> owner_reference option" where
  "writerJobOwner lib p =
     (case p_OwnerReferences p of
        [w] \<Rightarrow>
          if ow_APIVersion w \<noteq> ''batch/v1'' \<or> ow_Kind w \<noteq> ''Job'' \<or> ow_Controller w \<noteq> Some True
             \<or> \<not> canonicalWriterUID lib (ow_UID w) \<or> \<not> cl_dns_subdomain (ml_cred lib) (ow_Name w)
          then None else Some w
      | _ \<Rightarrow> None)"

definition knownTerminatedWriterPod :: "writer_pod \<Rightarrow> string \<Rightarrow> bool" where
  "knownTerminatedWriterPod p container =
     (if p_Reason p \<in> set [''NodeLost'', ''NodeShutdown'', ''Shutdown''] then False
      else if p_Phase p \<noteq> ''Succeeded'' \<and> p_Phase p \<noteq> ''Failed'' then False
      else if \<not> writerPodSpec (p_Spec p) container then False
      else case p_ContainerStatuses p of
             [cs] \<Rightarrow>
               (case cs_Terminated cs of
                  None \<Rightarrow> False
                | Some t \<Rightarrow>
                    cs_Name cs = container \<and> cs_RestartCount cs = 0 \<and> te_FinishedAt t \<noteq> 0 \<and> te_ContainerID t \<noteq> ''''
                    \<and> te_ContainerID t = cs_ContainerID cs \<and> te_Reason t \<in> set [''Completed'', ''Error'', ''OOMKilled''])
           | _ \<Rightarrow> False)"

definition job_terminal :: "writer_job \<Rightarrow> bool" where
  "job_terminal j \<longleftrightarrow>
     list_ex (\<lambda>c. jc_Status c = ''True'' \<and> (jc_Type c = ''Complete'' \<or> jc_Type c = ''Failed'')) (j_Conditions j)"

definition selects_own_pods :: "writer_job \<Rightarrow> string \<Rightarrow> bool" where
  "selects_own_pods j uid =
     (case j_Selector j of
        None \<Rightarrow> False
      | Some s \<Rightarrow> ls_MatchExpressions s = 0 \<and> str_at (ls_MatchLabels s) controllerUIDLabel = uid)"

subsection \<open>Claiming a job's one execution\<close>

definition claimable_pod :: "maint_lib \<Rightarrow> maintenance_store \<Rightarrow> string \<Rightarrow> string \<Rightarrow> writer_pod \<Rightarrow> bool" where
  "claimable_pod lib st container podUID p \<longleftrightarrow>
     p_UID p = podUID \<and> p_Namespace p = ms_Namespace st \<and> ps_NodeName (p_Spec p) \<noteq> '''' \<and> \<not> p_Deleting p
     \<and> writerJobOwner lib p \<noteq> None \<and> writerPodSpec (p_Spec p) container
     \<and> p_Phase p \<noteq> ''Succeeded'' \<and> p_Phase p \<noteq> ''Failed''"

definition claimable_job ::
  "maintenance_store \<Rightarrow> string \<Rightarrow> writer_pod \<Rightarrow> owner_reference \<Rightarrow> writer_job \<Rightarrow> bool" where
  "claimable_job st container p owner j \<longleftrightarrow>
     j_TTLSecondsAfterFinished j = None \<and> j_UID j = ow_UID owner \<and> j_Namespace j = ms_Namespace st \<and> \<not> j_Deleting j
     \<and> selects_own_pods j (j_UID j) \<and> str_at (p_Labels p) controllerUIDLabel = j_UID j
     \<and> singleRunJob j \<and> writerPodSpec (j_Template j) container
     \<and> map k_Image (ps_Containers (j_Template j)) = map k_Image (ps_Containers (p_Spec p))"

text \<open>
  The answers of \<open>claimWriterForPod\<close>: pod, job, the update of the job (only whether it failed matters)
  and the job read again; \<open>wc_uuid\<close> is the fresh execution.
\<close>

record claim_env =
  wc_pod :: "writer_pod answer"
  wc_job :: "writer_job answer"
  wc_uuid :: string
  wc_update :: "bool \<times> api_error option"
  wc_confirmed :: "writer_job answer"

definition claim_confirmed :: "writer_job \<Rightarrow> string \<Rightarrow> writer_job \<Rightarrow> bool" where
  "claim_confirmed j owner c \<longleftrightarrow>
     j_UID c = j_UID j \<and> str_at (j_Annotations c) maintenanceExecutionAnnotation = owner
     \<and> j_TTLSecondsAfterFinished c = None \<and> \<not> j_Deleting c"

definition write_conflict :: "bool \<times> api_error option \<Rightarrow> cred_error" where
  "write_conflict w = (case w of (ended, Some e) \<Rightarrow> authorityError ended (Api e) | (_, None) \<Rightarrow> ErrConflict)"

definition claim_job ::
  "claim_env \<Rightarrow> string \<Rightarrow> string \<Rightarrow> writer_pod \<Rightarrow> writer_job
     \<Rightarrow> (cred_error + maintenance_writer \<times> string) \<times> writer_job option" where
  "claim_job env podUID container p j =
     (if map_of (j_Annotations j) maintenanceExecutionAnnotation \<noteq> None then (Inl ErrConflict, None)
      else let owner = wc_uuid env;
               req = j\<lparr>j_Annotations := AList.update maintenanceExecutionAnnotation owner (j_Annotations j)\<rparr>
           in (case wc_confirmed env of
                 (ended, Inl e) \<Rightarrow> Inl (authorityUnavailable ended (Api e))
               | (_, Inr c) \<Rightarrow>
                   if \<not> claim_confirmed j owner c then Inl (write_conflict (wc_update env))
                   else Inr (\<lparr>w_PodName = p_Name p, w_PodUID = podUID, w_JobName = j_Name j, w_JobUID = j_UID j,
                              w_Container = container\<rparr>, owner),
               Some req))"

definition claimWriterForPod ::
  "maint_lib \<Rightarrow> maintenance_store \<Rightarrow> claim_env \<Rightarrow> string \<Rightarrow> string \<Rightarrow> string \<Rightarrow> string
     \<Rightarrow> (cred_error + maintenance_writer \<times> string) \<times> writer_job option" where
  "claimWriterForPod lib st env kind podName podUID adoptionOperation =
     (let container = maintenanceWriterContainer kind in
      if adoptionOperation \<noteq> '''' \<and> (kind \<noteq> MaintenanceAdoption \<or> \<not> canonicalWriterUID lib adoptionOperation)
      then (Inl ErrInvalid, None)
      else if container = '''' \<or> \<not> cl_dns_subdomain (ml_cred lib) podName \<or> \<not> canonicalWriterUID lib podUID
      then (Inl ErrInvalid, None)
      else case wc_pod env of
        (ended, Inl e) \<Rightarrow> (Inl (authorityUnavailable ended (Api e)), None)
      | (_, Inr p) \<Rightarrow>
          (if \<not> claimable_pod lib st container podUID p then (Inl ErrUnsupported, None)
           else case wc_job env of
             (ended, Inl e) \<Rightarrow> (Inl (authorityUnavailable ended (Api e)), None)
           | (_, Inr j) \<Rightarrow>
               (case writerJobOwner lib p of
                  None \<Rightarrow> (Inl ErrUnsupported, None)
                | Some owner \<Rightarrow>
                    if \<not> claimable_job st container p owner j then (Inl ErrUnsupported, None)
                    else if job_terminal j then (Inl ErrUnsupported, None)
                    else if adoptionOperation \<noteq> '''' \<and> str_at (j_Labels j) AdoptionOperationLabel \<noteq> adoptionOperation
                    then (Inl ErrUnsupported, None)
                    else claim_job env podUID container p j)))"

definition AcquireForPod ::
  "maint_lib \<Rightarrow> maintenance_store \<Rightarrow> claim_env \<Rightarrow> string \<Rightarrow> string \<Rightarrow> string \<Rightarrow> string \<Rightarrow> secret answer
     \<Rightarrow> cred_error + reservation" where
  "AcquireForPod lib st env kind podName podUID startedAt got =
     (case fst (claimWriterForPod lib st env kind podName podUID '''') of
        Inl e \<Rightarrow> Inl e
      | Inr (w, owner) \<Rightarrow> fst (acquireOwned lib st kind (Some w) owner startedAt got))"

definition AcquireAdoptionForPod ::
  "maint_lib \<Rightarrow> maintenance_store \<Rightarrow> claim_env \<Rightarrow> string \<Rightarrow> string \<Rightarrow> string \<Rightarrow> string \<Rightarrow> secret answer
     \<Rightarrow> cred_error + reservation" where
  "AcquireAdoptionForPod lib st env operation podName podUID startedAt got =
     (if \<not> canonicalWriterUID lib operation then Inl ErrInvalid
      else case fst (claimWriterForPod lib st env MaintenanceAdoption podName podUID operation) of
        Inl e \<Rightarrow> Inl e
      | Inr (w, owner) \<Rightarrow> fst (acquireOwned lib st MaintenanceAdoption (Some w) owner startedAt got))"

subsection \<open>Has the writer stopped?\<close>

datatype writer_state = WriterUnverified | WriterRunning | WriterStopped

text \<open>
  The answers \<open>WriterState\<close> sees, in order: the reservation, pod, job and the list of the job's pods
  (with whether the list was cut off), and the reservation again.
\<close>

record state_env =
  we_inspect :: "secret answer"
  we_pod :: "writer_pod answer"
  we_job :: "writer_job answer"
  we_pods :: "(writer_pod list \<times> bool) answer"
  we_latest :: "secret answer"

definition pod_of_writer :: "maint_lib \<Rightarrow> maintenance_writer \<Rightarrow> writer_pod \<Rightarrow> bool" where
  "pod_of_writer lib w p \<longleftrightarrow>
     p_UID p = w_PodUID w
     \<and> (case writerJobOwner lib p of None \<Rightarrow> False | Some ow \<Rightarrow> ow_Name ow = w_JobName w \<and> ow_UID ow = w_JobUID w)"

definition stopped_pod :: "maint_lib \<Rightarrow> maintenance_writer \<Rightarrow> writer_pod \<Rightarrow> bool" where
  "stopped_pod lib w p \<longleftrightarrow>
     (case writerJobOwner lib p of None \<Rightarrow> False | Some ow \<Rightarrow> ow_UID ow = w_JobUID w)
     \<and> knownTerminatedWriterPod p (w_Container w)"

definition stopped_job :: "maintenance_status \<Rightarrow> maintenance_writer \<Rightarrow> writer_job \<Rightarrow> bool" where
  "stopped_job current w j \<longleftrightarrow>
     str_at (j_Annotations j) maintenanceExecutionAnnotation = mt_ExecutionID current \<and> j_UID j = w_JobUID w
     \<and> singleRunJob j \<and> j_Active j = 0 \<and> job_terminal j \<and> selects_own_pods j (w_JobUID w)"

definition writer_list_state ::
  "maint_lib \<Rightarrow> maintenance_store \<Rightarrow> state_env \<Rightarrow> string \<Rightarrow> string \<Rightarrow> maintenance_writer \<Rightarrow> cred_error + writer_state" where
  "writer_list_state lib st env uid version w =
     (case we_pods env of
        (ended, Inl e) \<Rightarrow> Inl (authorityUnavailable ended (Api e))
      | (_, Inr (pods, partial)) \<Rightarrow>
          if 256 < length pods \<or> partial then Inr WriterUnverified
          else if \<not> list_all (stopped_pod lib w) pods then Inr WriterUnverified
          else if \<not> list_ex (\<lambda>p. p_UID p = w_PodUID w) pods then Inr WriterUnverified
          else (case Inspect lib st (we_latest env) of
                  Inl e \<Rightarrow> Inl e
                | Inr latest \<Rightarrow>
                    if \<not> mt_Present latest \<or> mt_UID latest \<noteq> uid \<or> mt_Version latest \<noteq> version then Inl ErrConflict
                    else Inr WriterStopped))"

definition writer_evidence ::
  "maint_lib \<Rightarrow> maintenance_store \<Rightarrow> state_env \<Rightarrow> string \<Rightarrow> string \<Rightarrow> maintenance_status \<Rightarrow> maintenance_writer
     \<Rightarrow> cred_error + writer_state" where
  "writer_evidence lib st env uid version current w =
     (case we_pod env of
        (ended, Inl e) \<Rightarrow> Inl (authorityUnavailable ended (Api e))
      | (_, Inr p) \<Rightarrow>
          if \<not> pod_of_writer lib w p then Inr WriterUnverified
          else if \<not> knownTerminatedWriterPod p (w_Container w)
          then Inr (if p_Phase p = ''Running'' \<or> p_Phase p = ''Pending'' then WriterRunning else WriterUnverified)
          else (case we_job env of
                  (ended, Inl e) \<Rightarrow> Inl (authorityUnavailable ended (Api e))
                | (_, Inr j) \<Rightarrow>
                    if \<not> stopped_job current w j then Inr WriterUnverified
                    else writer_list_state lib st env uid version w))"

definition WriterState ::
  "maint_lib \<Rightarrow> maintenance_store \<Rightarrow> state_env \<Rightarrow> string \<Rightarrow> string \<Rightarrow> cred_error + writer_state" where
  "WriterState lib st env uid version =
     (if uid = '''' \<or> version = '''' then Inl ErrInvalid
      else case Inspect lib st (we_inspect env) of
             Inl e \<Rightarrow> Inl e
           | Inr current \<Rightarrow>
               if \<not> mt_Present current \<or> mt_UID current \<noteq> uid \<or> mt_Version current \<noteq> version then Inl ErrConflict
               else (case mt_Writer current of
                       None \<Rightarrow> Inr WriterUnverified
                     | Some w \<Rightarrow> writer_evidence lib st env uid version current w))"

text \<open>
  \<open>SupervisedJobStopped\<close>, the same evidence without a reservation. \<open>metav1.GetControllerOf\<close> is the first
  owner reference marked as controller.
\<close>

definition GetControllerOf :: "writer_pod \<Rightarrow> owner_reference option" where
  "GetControllerOf p = List.find (\<lambda>ow. ow_Controller ow = Some True) (p_OwnerReferences p)"

definition supervised_pod_stopped :: "maint_lib \<Rightarrow> writer_job \<Rightarrow> string \<Rightarrow> writer_pod \<Rightarrow> bool" where
  "supervised_pod_stopped lib j container p \<longleftrightarrow>
     (case GetControllerOf p of
        None \<Rightarrow> False
      | Some ow \<Rightarrow> ow_APIVersion ow = ''batch/v1'' \<and> ow_Kind ow = ''Job'' \<and> ow_UID ow = j_UID j \<and> ow_Name ow = j_Name j)
     \<and> p_Namespace p = j_Namespace j \<and> canonicalWriterUID lib (p_UID p) \<and> ps_NodeName (p_Spec p) \<noteq> ''''
     \<and> knownTerminatedWriterPod p container
     \<and> map k_Image (ps_Containers (p_Spec p)) = map k_Image (ps_Containers (j_Template j))"

definition SupervisedJobStopped ::
  "maint_lib \<Rightarrow> writer_job \<Rightarrow> string \<Rightarrow> (writer_pod list \<times> bool) answer \<Rightarrow> writer_job answer \<Rightarrow> cred_error + bool" where
  "SupervisedJobStopped lib j container listed again =
     (if j_Namespace j = '''' \<or> j_Name j = '''' \<or> \<not> canonicalWriterUID lib (j_UID j) \<or> j_ResourceVersion j = ''''
         \<or> j_Deleting j \<or> \<not> singleRunJob j \<or> \<not> writerPodSpec (j_Template j) container \<or> j_Active j \<noteq> 0
         \<or> \<not> selects_own_pods j (j_UID j) then Inr False
      else if \<not> job_terminal j then Inr False
      else case listed of
             (_, Inl _) \<Rightarrow> Inl ErrUnavailable
           | (_, Inr (pods, partial)) \<Rightarrow>
               if pods = [] \<or> 256 < length pods \<or> partial then Inr False
               else if \<not> list_all (supervised_pod_stopped lib j container) pods then Inr False
               else (case again of
                       (_, Inl _) \<Rightarrow> Inl ErrUnavailable
                     | (ended, Inr latest) \<Rightarrow>
                         Inr (\<not> ended \<and> j_UID latest = j_UID j \<and> j_ResourceVersion latest = j_ResourceVersion j)))"

subsection \<open>Recovering an upgrade\<close>

text \<open>
  Every takeover has one shape: change one annotation of the object read at the inspected version,
  read it back, and accept only the changed object at a new version.
\<close>

definition annotate :: "string \<Rightarrow> string \<Rightarrow> secret \<Rightarrow> secret" where
  "annotate name raw s = s\<lparr>s_Annotations := AList.update name raw (s_Annotations s)\<rparr>"

record takeover_env =
  te_current :: "secret answer"
  te_update :: "bool \<times> api_error option"
  te_confirmed :: "secret answer"

record recovery_handle =
  rh_reservation :: reservation
  rh_operationID :: string
  rh_nonce :: string

record release_proof =
  rp_ResourceUID :: string
  rp_ResourceVersion :: string
  rp_ProofID :: string

definition Proof :: "recovery_handle \<Rightarrow> release_proof" where
  "Proof h = \<lparr>rp_ResourceUID = r_uid (rh_reservation h), rp_ResourceVersion = r_version (rh_reservation h),
     rp_ProofID = rh_nonce h\<rparr>"

definition upgrade_capability :: "maintenance_store \<Rightarrow> maintenance_writer option \<Rightarrow> secret \<Rightarrow> reservation" where
  "upgrade_capability st w s =
     \<lparr>r_cleanupOwner = '''', r_originalWriter = None, r_writer = w, r_store = st, r_owner = str_at (s_Data s) ''owner'',
      r_kind = MaintenanceUpgrade, r_uid = s_UID s, r_version = s_ResourceVersion s\<rparr>"

text \<open>What both recovery entries check first: the inspected upgrade reservation and its stopped writer.\<close>

definition stopped_upgrade ::
  "maint_lib \<Rightarrow> maintenance_store \<Rightarrow> secret answer \<Rightarrow> state_env \<Rightarrow> string \<Rightarrow> string \<Rightarrow> cred_error + maintenance_status" where
  "stopped_upgrade lib st inspected env uid version =
     (case Inspect lib st inspected of
        Inl e \<Rightarrow> Inl e
      | Inr status \<Rightarrow>
          if \<not> mt_Present status \<or> mt_UID status \<noteq> uid \<or> mt_Version status \<noteq> version then Inl ErrConflict
          else if mt_Kind status \<noteq> MaintenanceUpgrade \<or> mt_Writer status = None then Inl ErrUnsupported
          else (case WriterState lib st env uid version of
                  Inl e \<Rightarrow> Inl e
                | Inr state \<Rightarrow> if state \<noteq> WriterStopped then Inl ErrUnavailable else Inr status))"

definition may_replace_recovery :: "maint_lib \<Rightarrow> secret \<Rightarrow> string \<Rightarrow> string \<Rightarrow> cred_error option" where
  "may_replace_recovery lib s operation failed =
     (case map_of (s_Annotations s) maintenanceRecoveryAnnotation of
        None \<Rightarrow> None
      | Some raw \<Rightarrow>
          (case decodeMaintenanceRecovery lib raw of
             Inl e \<Rightarrow> Some e
           | Inr previous \<Rightarrow>
               if rr_OperationID previous \<noteq> operation \<and> (failed = '''' \<or> rr_OperationID previous \<noteq> failed)
               then Some ErrConflict else None))"

definition recovery_fence ::
  "maint_lib \<Rightarrow> maintenance_store \<Rightarrow> takeover_env \<Rightarrow> maintenance_status \<Rightarrow> string \<Rightarrow> string \<Rightarrow> string \<Rightarrow> secret
     \<Rightarrow> (cred_error + recovery_handle) \<times> secret option" where
  "recovery_fence lib st env status version operation nonce current =
     (let raw = ml_recovery_bytes lib \<lparr>rr_OperationID = operation, rr_Nonce = nonce\<rparr>;
          req = annotate maintenanceRecoveryAnnotation raw current
      in (case te_confirmed env of
            (ended, Inl e) \<Rightarrow> Inl (authorityUnavailable ended (Api e))
          | (_, Inr c) \<Rightarrow>
              (case validate_reservation lib st c of
                 Some e \<Rightarrow> Inl e
               | None \<Rightarrow>
                   if s_UID c \<noteq> s_UID current \<or> s_ResourceVersion c = version
                      \<or> str_at (s_Annotations c) maintenanceRecoveryAnnotation \<noteq> raw
                   then Inl (write_conflict (te_update env))
                   else Inr \<lparr>rh_reservation = upgrade_capability st (mt_Writer status) c,
                             rh_operationID = operation, rh_nonce = nonce\<rparr>),
          Some req))"

definition PrepareRecovery ::
  "maint_lib \<Rightarrow> maintenance_store \<Rightarrow> secret answer \<Rightarrow> state_env \<Rightarrow> takeover_env \<Rightarrow> string
     \<Rightarrow> string \<Rightarrow> string \<Rightarrow> string \<Rightarrow> string \<Rightarrow> (cred_error + recovery_handle) \<times> secret option" where
  "PrepareRecovery lib st inspected env tenv nonce uid version operation failed =
     (if \<not> canonicalWriterUID lib uid \<or> version = '''' \<or> \<not> canonicalWriterUID lib operation
         \<or> (failed \<noteq> '''' \<and> \<not> canonicalWriterUID lib failed) then (Inl ErrInvalid, None)
      else case stopped_upgrade lib st inspected env uid version of
        Inl e \<Rightarrow> (Inl e, None)
      | Inr status \<Rightarrow>
          (case te_current tenv of
             (ended, Inl e) \<Rightarrow> (Inl (authorityUnavailable ended (Api e)), None)
           | (_, Inr current) \<Rightarrow>
               (case validate_reservation lib st current of
                  Some e \<Rightarrow> (Inl e, None)
                | None \<Rightarrow>
                    if s_UID current \<noteq> uid \<or> s_ResourceVersion current \<noteq> version then (Inl ErrConflict, None)
                    else (case may_replace_recovery lib current operation failed of
                            Some e \<Rightarrow> (Inl e, None)
                          | None \<Rightarrow> recovery_fence lib st tenv status version operation nonce current))))"

definition ResumeRecovery ::
  "maint_lib \<Rightarrow> maintenance_store \<Rightarrow> secret answer \<Rightarrow> state_env \<Rightarrow> secret answer \<Rightarrow> string \<Rightarrow> release_proof
     \<Rightarrow> cred_error + recovery_handle" where
  "ResumeRecovery lib st inspected env got operation proof =
     (if \<not> canonicalWriterUID lib operation \<or> \<not> canonicalWriterUID lib (rp_ResourceUID proof)
         \<or> rp_ResourceVersion proof = '''' \<or> \<not> canonicalWriterUID lib (rp_ProofID proof) then Inl ErrInvalid
      else case stopped_upgrade lib st inspected env (rp_ResourceUID proof) (rp_ResourceVersion proof) of
        Inl e \<Rightarrow> Inl e
      | Inr status \<Rightarrow>
          (case got of
             (ended, Inl e) \<Rightarrow> Inl (authorityUnavailable ended (Api e))
           | (_, Inr current) \<Rightarrow>
               (case validate_reservation lib st current of
                  Some e \<Rightarrow> Inl e
                | None \<Rightarrow>
                    (case decodeMaintenanceRecovery lib (str_at (s_Annotations current) maintenanceRecoveryAnnotation) of
                       Inl e \<Rightarrow> Inl e
                     | Inr rec \<Rightarrow>
                         if s_UID current \<noteq> rp_ResourceUID proof \<or> s_ResourceVersion current \<noteq> rp_ResourceVersion proof
                            \<or> rr_OperationID rec \<noteq> operation \<or> rr_Nonce rec \<noteq> rp_ProofID proof then Inl ErrConflict
                         else Inr \<lparr>rh_reservation = upgrade_capability st (mt_Writer status) current,
                                   rh_operationID = operation, rh_nonce = rp_ProofID proof\<rparr>))))"

definition Release_recovery ::
  "maint_lib \<Rightarrow> recovery_handle \<Rightarrow> secret answer \<Rightarrow> secret answer \<Rightarrow> bool \<times> (api_error + unit)
     \<Rightarrow> cred_error option \<times> delete_request option" where
  "Release_recovery lib h checked got deleted =
     (let r = rh_reservation h in
      case Check_reservation lib r MaintenanceUpgrade checked of
        Some e \<Rightarrow> (Some e, None)
      | None \<Rightarrow>
          (case got of
             (ended, Inl e) \<Rightarrow> (Some (authorityUnavailable ended (Api e)), None)
           | (_, Inr current) \<Rightarrow>
               (case decodeMaintenanceRecovery lib (str_at (s_Annotations current) maintenanceRecoveryAnnotation) of
                  Inl e \<Rightarrow> (Some e, None)
                | Inr rec \<Rightarrow>
                    if s_UID current \<noteq> r_uid r \<or> s_ResourceVersion current \<noteq> r_version r
                       \<or> rr_OperationID rec \<noteq> rh_operationID h \<or> rr_Nonce rec \<noteq> rh_nonce h
                    then (Some ErrConflict, None)
                    else (delete_result deleted,
                          Some \<lparr>dr_Name = ms_Name (r_store r), dr_UID = r_uid r, dr_ResourceVersion = r_version r\<rparr>))))"

subsection \<open>Admitting an upgrade's effects\<close>

definition RecordUpgradeEffects ::
  "maint_lib \<Rightarrow> reservation \<Rightarrow> secret answer \<Rightarrow> takeover_env \<Rightarrow> string \<Rightarrow> upgrade_checkpoint
     \<Rightarrow> (cred_error + reservation) \<times> secret option" where
  "RecordUpgradeEffects lib r checked env nonce checkpoint =
     (if r_kind r \<noteq> MaintenanceUpgrade \<or> \<not> checkpoint_valid lib checkpoint then (Inl ErrInvalid, None)
      else case Check_reservation lib r MaintenanceUpgrade checked of
        Some e \<Rightarrow> (Inl e, None)
      | None \<Rightarrow>
          (case te_current env of
             (ended, Inl e) \<Rightarrow> (Inl (authorityUnavailable ended (Api e)), None)
           | (_, Inr current) \<Rightarrow>
               (case validate_reservation lib (r_store r) current of
                  Some e \<Rightarrow> (Inl e, None)
                | None \<Rightarrow>
                    if s_UID current \<noteq> r_uid r \<or> s_ResourceVersion current \<noteq> r_version r
                       \<or> str_at (s_Data current) ''owner'' \<noteq> r_owner r \<or> str_at (s_Data current) ''kind'' \<noteq> r_kind r
                    then (Inl ErrConflict, None)
                    else if (case decodeMaintenanceWriter lib (str_at (s_Data current) ''writer'') of
                               Inl _ \<Rightarrow> True | Inr _ \<Rightarrow> False) then (Inl ErrUnsupported, None)
                    else if map_of (s_Annotations current) upgradeEffectsAnnotation \<noteq> None then (Inl ErrConflict, None)
                    else (let raw = ml_effects_bytes lib \<lparr>er_Nonce = nonce, er_Checkpoint = checkpoint\<rparr>
                          in (case te_confirmed env of
                                (ended, Inl e) \<Rightarrow> Inl (authorityUnavailable ended (Api e))
                              | (_, Inr c) \<Rightarrow>
                                  (case validate_reservation lib (r_store r) c of
                                     Some e \<Rightarrow> Inl e
                                   | None \<Rightarrow>
                                       if s_UID c \<noteq> r_uid r \<or> s_ResourceVersion c = r_version r
                                          \<or> str_at (s_Data c) ''owner'' \<noteq> r_owner r \<or> str_at (s_Data c) ''kind'' \<noteq> r_kind r
                                          \<or> str_at (s_Annotations c) upgradeEffectsAnnotation \<noteq> raw
                                       then Inl (write_conflict (te_update env))
                                       else Inr \<lparr>r_cleanupOwner = '''', r_originalWriter = None, r_writer = r_writer r,
                                                 r_store = r_store r, r_owner = r_owner r, r_kind = r_kind r,
                                                 r_uid = r_uid r, r_version = s_ResourceVersion c\<rparr>),
                              Some (annotate upgradeEffectsAnnotation raw current))))))"

subsection \<open>Resuming an adoption\<close>

record resume_env =
  ra_inspect :: "secret answer"
  ra_state :: state_env
  ra_priorJob :: "writer_job answer"
  ra_claim :: claim_env
  ra_takeover :: takeover_env

definition adoption_takeover ::
  "maint_lib \<Rightarrow> maintenance_store \<Rightarrow> takeover_env \<Rightarrow> maintenance_status \<Rightarrow> string \<Rightarrow> maintenance_writer \<Rightarrow> string \<Rightarrow> secret
     \<Rightarrow> (cred_error + reservation) \<times> secret option" where
  "adoption_takeover lib st env status operation w execution current =
     (case decodeMaintenanceWriter lib (str_at (s_Data current) ''writer'') of
        Inl e \<Rightarrow> (Inl e, None)
      | Inr original \<Rightarrow>
          let raw = ml_adoption_bytes lib \<lparr>ar_AdmissionVersion = mt_AdmissionVersion status, ar_OperationID = operation,
                      ar_ExecutionID = execution, ar_Writer = w\<rparr>
          in (case te_confirmed env of
                (ended, Inl e) \<Rightarrow> Inl (authorityUnavailable ended (Api e))
              | (_, Inr c) \<Rightarrow>
                  if validate_reservation lib st c \<noteq> None \<or> s_UID c \<noteq> s_UID current \<or> s_ResourceVersion c = ''''
                     \<or> s_ResourceVersion c = s_ResourceVersion current
                     \<or> str_at (s_Annotations c) adoptionWriterAnnotation \<noteq> raw
                     \<or> str_at (s_Data c) ''owner'' \<noteq> str_at (s_Data current) ''owner''
                  then Inl (write_conflict (te_update env))
                  else Inr \<lparr>r_cleanupOwner = execution, r_originalWriter = Some original, r_writer = Some w, r_store = st,
                            r_owner = str_at (s_Data c) ''owner'', r_kind = MaintenanceAdoption, r_uid = s_UID c,
                            r_version = s_ResourceVersion c\<rparr>,
              Some (annotate adoptionWriterAnnotation raw current)))"

definition ResumeAdoptionForPod ::
  "maint_lib \<Rightarrow> maintenance_store \<Rightarrow> resume_env \<Rightarrow> string \<Rightarrow> string \<Rightarrow> string \<Rightarrow> string \<Rightarrow> string
     \<Rightarrow> (cred_error + reservation) \<times> secret option" where
  "ResumeAdoptionForPod lib st env uid version operation podName podUID =
     (if \<not> canonicalWriterUID lib uid \<or> version = '''' \<or> \<not> canonicalWriterUID lib operation then (Inl ErrInvalid, None)
      else case Inspect lib st (ra_inspect env) of
        Inl e \<Rightarrow> (Inl e, None)
      | Inr status \<Rightarrow>
          (case mt_Writer status of
             None \<Rightarrow> (Inl ErrConflict, None)
           | Some prior \<Rightarrow>
               if \<not> mt_Present status \<or> mt_Kind status \<noteq> MaintenanceAdoption \<or> mt_UID status \<noteq> uid
                  \<or> mt_Version status \<noteq> version then (Inl ErrConflict, None)
               else if mt_RecoveryOperationID status \<noteq> '''' \<and> mt_RecoveryOperationID status \<noteq> operation
               then (Inl ErrConflict, None)
               else (case WriterState lib st (ra_state env) uid version of
                  Inl e \<Rightarrow> (Inl e, None)
                | Inr state \<Rightarrow>
                    if state \<noteq> WriterStopped then (Inl ErrConflict, None)
                    else (case ra_priorJob env of
                       (ended, Inl e) \<Rightarrow> (Inl (authorityUnavailable ended (Api e)), None)
                     | (_, Inr job) \<Rightarrow>
                         if j_UID job \<noteq> w_JobUID prior \<or> str_at (j_Labels job) AdoptionOperationLabel \<noteq> operation
                         then (Inl ErrConflict, None)
                         else (case fst (claimWriterForPod lib st (ra_claim env) MaintenanceAdoption podName podUID operation) of
                            Inl e \<Rightarrow> (Inl e, None)
                          | Inr (w, execution) \<Rightarrow>
                              if w_JobUID w = w_JobUID prior then (Inl ErrConflict, None)
                              else (case te_current (ra_takeover env) of
                                 (ended, Inl e) \<Rightarrow> (Inl (authorityUnavailable ended (Api e)), None)
                               | (_, Inr current) \<Rightarrow>
                                   if validate_reservation lib st current \<noteq> None \<or> s_UID current \<noteq> uid
                                      \<or> s_ResourceVersion current \<noteq> version then (Inl ErrConflict, None)
                                   else adoption_takeover lib st (ra_takeover env) status operation w execution current))))))"

subsection \<open>Cleaning up a released writer\<close>

definition maintenanceWriterCleanupTTL :: int where "maintenanceWriterCleanupTTL = 7 * 24 * 60 * 60"

record cleanup_env =
  cu_inspect :: "secret answer"
  cu_job :: "writer_job answer"
  cu_update :: "bool \<times> api_error option"
  cu_confirmed :: "writer_job answer"

definition cleanup_job_ok :: "reservation \<Rightarrow> maintenance_writer \<Rightarrow> writer_job \<Rightarrow> bool" where
  "cleanup_job_ok r w j \<longleftrightarrow>
     str_at (j_Annotations j) maintenanceExecutionAnnotation = (if r_cleanupOwner r \<noteq> '''' then r_cleanupOwner r else r_owner r)
     \<and> j_UID j = w_JobUID w \<and> j_Namespace j = ms_Namespace (r_store r) \<and> j_ResourceVersion j \<noteq> '''' \<and> \<not> j_Deleting j
     \<and> singleRunJob j \<and> writerPodSpec (j_Template j) (w_Container w)"

definition ScheduleWriterCleanup ::
  "maint_lib \<Rightarrow> reservation \<Rightarrow> cleanup_env \<Rightarrow> cred_error option \<times> writer_job option" where
  "ScheduleWriterCleanup lib r env =
     (if r_uid r = '''' then (Some ErrInvalid, None)
      else case r_writer r of
        None \<Rightarrow> (None, None)
      | Some w \<Rightarrow>
          (case Inspect lib (r_store r) (cu_inspect env) of
             Inl e \<Rightarrow> (Some e, None)
           | Inr status \<Rightarrow>
               if mt_Present status \<and> (mt_UID status = r_uid r
                    \<or> (case mt_Writer status of None \<Rightarrow> True | Some v \<Rightarrow> w_JobUID v = w_JobUID w))
               then (Some ErrConflict, None)
               else (case cu_job env of
                  (ended, Inl e) \<Rightarrow> (Some (authorityUnavailable ended (Api e)), None)
                | (_, Inr j) \<Rightarrow>
                    if \<not> cleanup_job_ok r w j then (Some ErrConflict, None)
                    else (case j_TTLSecondsAfterFinished j of
                       Some t \<Rightarrow> (if t = maintenanceWriterCleanupTTL then None else Some ErrConflict, None)
                     | None \<Rightarrow>
                         let req = j\<lparr>j_TTLSecondsAfterFinished := Some maintenanceWriterCleanupTTL\<rparr>
                         in (case cu_update env of
                               (ended, Some e) \<Rightarrow> (Some (authorityError ended (Api e)), Some req)
                             | (_, None) \<Rightarrow>
                                 ((case cu_confirmed env of
                                     (ended, Inl e) \<Rightarrow> Some (authorityUnavailable ended (Api e))
                                   | (_, Inr c) \<Rightarrow>
                                       if j_UID c \<noteq> j_UID j \<or> j_TTLSecondsAfterFinished c \<noteq> Some maintenanceWriterCleanupTTL
                                       then Some ErrUnavailable else None), Some req))))))"

text \<open>After a release the jobs of the original and of the current writer are cleaned up; failures only log.\<close>

definition released :: "maint_lib \<Rightarrow> reservation \<Rightarrow> cleanup_env \<Rightarrow> cleanup_env \<Rightarrow> writer_job list" where
  "released lib r original_env env =
     (case r_originalWriter r of
        None \<Rightarrow> []
      | Some w \<Rightarrow> (case snd (ScheduleWriterCleanup lib (r\<lparr>r_writer := Some w, r_cleanupOwner := r_owner r,
                                r_originalWriter := None\<rparr>) original_env) of None \<Rightarrow> [] | Some j \<Rightarrow> [j]))
     @ (case snd (ScheduleWriterCleanup lib r env) of None \<Rightarrow> [] | Some j \<Rightarrow> [j])"

end
