(* ===== verification/Credential_Authority.thy ===== *)
theory Credential_Authority
  imports Credential_Recovery
begin

section \<open>Which document is the authority (\<open>authority.go\<close>, \<open>authority_selection.go\<close>)\<close>

text \<open>
  Operators are read from the configuration until a registry is adopted. Adoption creates an immutable
  marker that names the UID of the registry's Secret; sealing writes the marker's UID back onto the
  registry. A resolver remembers in \<open>observed\<close> that it has seen a marker. Only \<open>ErrUninitialized\<close>
  lets its caller fall back to the configured keys. The second part follows the registry's Secret
  through every interleaving of writers.
\<close>

subsection \<open>The resolver\<close>

definition DefaultAuthoritySecretName :: string where
  "DefaultAuthoritySecretName = ''kyber-operator-credential-authority''"
definition authorityLabel :: string where "authorityLabel = ''kyber.io/operator-credential-authority''"
definition selectedAuthorityAnnotation :: string where
  "selectedAuthorityAnnotation = ''kyber.io/operator-credential-selected-authority''"

record authority_store =
  au_registry :: secret_store
  au_Name :: string
  au_observed :: bool

definition newAuthorityStore :: "cred_lib \<Rightarrow> secret_store \<Rightarrow> string \<Rightarrow> cred_error + authority_store" where
  "newAuthorityStore lib registry name =
     (if \<not> cl_dns_subdomain lib name \<or> name = st_Name registry then Inl ErrInvalid
      else Inr \<lparr>au_registry = registry, au_Name = name, au_observed = False\<rparr>)"

definition validateMarker :: "authority_store \<Rightarrow> secret \<Rightarrow> cred_error option" where
  "validateMarker au m =
     (if s_Namespace m \<noteq> st_Namespace (au_registry au) \<or> s_Name m \<noteq> au_Name au \<or> s_UID m = '''' \<or> s_ResourceVersion m = ''''
         \<or> s_Type m \<noteq> SecretTypeOpaque \<or> s_Immutable m \<noteq> Some True \<or> s_OwnerReferences m \<noteq> []
         \<or> str_at (s_Labels m) authorityLabel \<noteq> ''v1'' \<or> str_at (s_Labels m) managedByLabel \<noteq> ''kyber''
      then Some ErrUnsupported
      else if length (s_Data m) \<noteq> 3 \<or> str_at (s_Data m) ''protocol'' \<noteq> ''1''
              \<or> str_at (s_Data m) ''registryName'' \<noteq> st_Name (au_registry au)
              \<or> \<not> opaque (str_at (s_Data m) ''registryUID'')
      then Some ErrUnsupported else None)"

text \<open>
  The answers of one resolution: the marker, then the registry's Secret. \<open>le_observed_meanwhile\<close>: another
  request of the process saw the marker between the two reads of \<open>observed\<close>.
\<close>

record load_env =
  le_marker :: "secret answer"
  le_registry :: "secret answer"
  le_observed_meanwhile :: bool

definition bootstrapState :: "bool \<Rightarrow> secret answer \<Rightarrow> cred_error" where
  "bootstrapState observed got =
     (if observed then ErrUnavailable
      else case got of
        (ended, Inl e) \<Rightarrow>
          if e = ApiNotFound \<and> \<not> ended then ErrUninitialized else authorityUnavailable ended (Api e)
      | (ended, Inr s) \<Rightarrow>
          if ended then ErrUnavailable
          else if map_of (s_Annotations s) selectedAuthorityAnnotation \<noteq> None then ErrUnavailable
          else ErrUninitialized)"

definition Load_authority ::
  "cred_lib \<Rightarrow> authority_store \<Rightarrow> load_env \<Rightarrow> (cred_error + snapshot) \<times> authority_store" where
  "Load_authority lib au env =
     (case le_marker env of
        (ended, Inl e) \<Rightarrow>
          (Inl (if e = ApiNotFound \<and> \<not> au_observed au \<and> \<not> ended
                then bootstrapState (au_observed au \<or> le_observed_meanwhile env) (le_registry env)
                else authorityUnavailable ended (Api e)), au)
      | (_, Inr m) \<Rightarrow>
          (case validateMarker au m of
             Some e \<Rightarrow> Inl e
           | None \<Rightarrow>
               (case read_registry lib (au_registry au) (le_registry env) of
                  Inl e \<Rightarrow> Inl (authorityUnavailable (fst (le_registry env)) (Own e))
                | Inr (s, sn) \<Rightarrow>
                    if (case map_of (s_Annotations s) selectedAuthorityAnnotation of
                          None \<Rightarrow> False | Some selected \<Rightarrow> selected \<noteq> s_UID m)
                    then Inl ErrUnavailable
                    else if s_UID s = '''' \<or> s_UID s \<noteq> str_at (s_Data m) ''registryUID'' then Inl ErrUnavailable
                    else Inr sn),
           au\<lparr>au_observed := True\<rparr>))"

record selection =
  sel_UID :: string
  sel_RegistryUID :: string

definition ReadSelection :: "authority_store \<Rightarrow> load_env \<Rightarrow> (cred_error + selection) \<times> authority_store" where
  "ReadSelection au env =
     (case le_marker env of
        (ended, Inl e) \<Rightarrow>
          (Inl (if e = ApiNotFound \<and> \<not> ended
                then bootstrapState (au_observed au \<or> le_observed_meanwhile env) (le_registry env)
                else authorityUnavailable ended (Api e)), au)
      | (_, Inr m) \<Rightarrow>
          (case validateMarker au m of
             Some e \<Rightarrow> Inl e
           | None \<Rightarrow> Inr \<lparr>sel_UID = s_UID m, sel_RegistryUID = str_at (s_Data m) ''registryUID''\<rparr>,
           au\<lparr>au_observed := True\<rparr>))"

definition Replace_authority ::
  "cred_lib \<Rightarrow> authority_store \<Rightarrow> load_env \<Rightarrow> string \<Rightarrow> string \<Rightarrow> document \<Rightarrow> secret answer \<Rightarrow> secret answer
     \<Rightarrow> (cred_error + snapshot) \<times> secret option \<times> authority_store" where
  "Replace_authority lib au env uid version next got updated =
     (case Load_authority lib au env of
        (Inl e, au') \<Rightarrow> (Inl (authorityUnavailable False (Own e)), None, au')
      | (Inr current, au') \<Rightarrow>
          if uid = '''' \<or> version = '''' \<or> sn_UID current \<noteq> uid \<or> sn_Version current \<noteq> version
          then (Inl ErrConflict, None, au')
          else (case Replace_registry lib (au_registry au) version next got updated of (r, req) \<Rightarrow> (r, req, au')))"

definition Fence_authority ::
  "cred_lib \<Rightarrow> authority_store \<Rightarrow> load_env \<Rightarrow> string \<Rightarrow> string \<Rightarrow> string \<Rightarrow> secret answer \<Rightarrow> secret answer
     \<Rightarrow> (cred_error + snapshot) \<times> secret option \<times> authority_store" where
  "Fence_authority lib au env nonce uid version got updated =
     (case Load_authority lib au env of
        (Inl e, au') \<Rightarrow> (Inl (authorityUnavailable False (Own e)), None, au')
      | (Inr current, au') \<Rightarrow>
          if uid = '''' \<or> version = '''' \<or> sn_UID current \<noteq> uid \<or> sn_Version current \<noteq> version
          then (Inl ErrConflict, None, au')
          else (case Fence_registry lib (au_registry au) nonce version got updated of (r, req) \<Rightarrow> (r, req, au')))"

subsection \<open>Adopting\<close>

definition adoption_maintenance :: "cred_lib \<Rightarrow> authority_store \<Rightarrow> cred_error + maintenance_store" where
  "adoption_maintenance lib au = newMaintenanceStore lib (au_registry au) (st_Name (au_registry au) @ ''-maintenance'')"

definition ReserveAdoption ::
  "maint_lib \<Rightarrow> authority_store \<Rightarrow> string \<Rightarrow> string \<Rightarrow> secret answer \<Rightarrow> cred_error + reservation" where
  "ReserveAdoption lib au uuid startedAt got =
     (case adoption_maintenance (ml_cred lib) au of
        Inl e \<Rightarrow> Inl e
      | Inr st \<Rightarrow> fst (Acquire lib st MaintenanceAdoption uuid startedAt got))"

definition ReserveAdoptionForPod ::
  "maint_lib \<Rightarrow> authority_store \<Rightarrow> claim_env \<Rightarrow> string \<Rightarrow> string \<Rightarrow> string \<Rightarrow> secret answer \<Rightarrow> cred_error + reservation" where
  "ReserveAdoptionForPod lib au env podName podUID startedAt got =
     (case adoption_maintenance (ml_cred lib) au of
        Inl e \<Rightarrow> Inl e
      | Inr st \<Rightarrow> AcquireForPod lib st env MaintenanceAdoption podName podUID startedAt got)"

definition own_reservation :: "authority_store \<Rightarrow> reservation option \<Rightarrow> bool" where
  "own_reservation au r =
     (case r of
        None \<Rightarrow> False
      | Some r \<Rightarrow> ms_Namespace (r_store r) = st_Namespace (au_registry au)
          \<and> ms_Name (r_store r) = st_Name (au_registry au) @ ''-maintenance'')"

definition marker_object :: "authority_store \<Rightarrow> string \<Rightarrow> secret" where
  "marker_object au uid =
     \<lparr>s_Namespace = st_Namespace (au_registry au), s_Name = au_Name au, s_UID = '''', s_ResourceVersion = '''',
      s_Type = SecretTypeOpaque, s_Immutable = Some True,
      s_Labels = [(authorityLabel, ''v1''), (managedByLabel, ''kyber'')], s_Annotations = [], s_OwnerReferences = [],
      s_Finalizers = [], s_Deleting = False,
      s_Data = [(''protocol'', ''1''), (''registryName'', st_Name (au_registry au)), (''registryUID'', uid)]\<rparr>"

text \<open>The answers of \<open>Bind\<close>, in order, and what it creates.\<close>

record bind_env =
  be_check1 :: "secret answer"
  be_observed_meanwhile :: bool
  be_registry :: "secret answer"
  be_check2 :: "secret answer"
  be_create :: "bool \<times> api_error option"

definition Bind ::
  "maint_lib \<Rightarrow> authority_store \<Rightarrow> bind_env \<Rightarrow> string \<Rightarrow> reservation option
     \<Rightarrow> cred_error option \<times> secret option \<times> authority_store" where
  "Bind lib au env expected res =
     (case res of
        None \<Rightarrow> (Some ErrInvalid, None, au)
      | Some r \<Rightarrow>
          if \<not> own_reservation au res then (Some ErrInvalid, None, au)
          else (case Check_reservation lib r MaintenanceAdoption (be_check1 env) of
            Some e \<Rightarrow> (Some e, None, au)
          | None \<Rightarrow>
              if expected = '''' \<or> au_observed au \<or> be_observed_meanwhile env then (Some ErrConflict, None, au)
              else (case read_registry (ml_cred lib) (au_registry au) (be_registry env) of
                Inl e \<Rightarrow> (Some e, None, au)
              | Inr (s, sn) \<Rightarrow>
                  if sn_Version sn \<noteq> expected then (Some ErrConflict, None, au)
                  else if s_UID s = '''' then (Some ErrInvalid, None, au)
                  else (case Check_reservation lib r MaintenanceAdoption (be_check2 env) of
                    Some e \<Rightarrow> (Some e, None, au)
                  | None \<Rightarrow>
                      ((case be_create env of
                          (ended, Some e) \<Rightarrow> Some (authorityError ended (Api e))
                        | (_, None) \<Rightarrow> None),
                       Some (marker_object au (s_UID s)), au\<lparr>au_observed := True\<rparr>)))))"

definition seal_request :: "secret \<Rightarrow> string \<Rightarrow> secret" where
  "seal_request s markerUID = annotate selectedAuthorityAnnotation markerUID s"

record seal_env =
  se_check1 :: "secret answer"
  se_select :: load_env
  se_registry :: "secret answer"
  se_check2 :: "secret answer"
  se_update :: "bool \<times> api_error option"
  se_confirmed :: "secret answer"
  se_load :: load_env

definition seal_write ::
  "cred_lib \<Rightarrow> authority_store \<Rightarrow> seal_env \<Rightarrow> string \<Rightarrow> string \<Rightarrow> secret
     \<Rightarrow> (cred_error + snapshot) \<times> secret option \<times> authority_store" where
  "seal_write lib au env markerUID registryUID s =
     (let req = seal_request s markerUID in
      case se_confirmed env of
        (ended, Inl e) \<Rightarrow> (Inl (authorityUnavailable ended (Api e)), Some req, au)
      | (_, Inr c) \<Rightarrow>
          if s_UID c \<noteq> registryUID \<or> str_at (s_Annotations c) selectedAuthorityAnnotation \<noteq> markerUID
          then (Inl (write_conflict (se_update env)), Some req, au)
          else (case Load_authority lib au (se_load env) of (r, au') \<Rightarrow> (r, Some req, au')))"

definition SealSelection ::
  "maint_lib \<Rightarrow> authority_store \<Rightarrow> seal_env \<Rightarrow> string \<Rightarrow> string \<Rightarrow> reservation option
     \<Rightarrow> (cred_error + snapshot) \<times> secret option \<times> authority_store" where
  "SealSelection lib au env markerUID registryUID res =
     (case res of
        None \<Rightarrow> (Inl ErrInvalid, None, au)
      | Some r \<Rightarrow>
          if \<not> opaque markerUID \<or> \<not> opaque registryUID \<or> \<not> own_reservation au res then (Inl ErrInvalid, None, au)
          else (case Check_reservation lib r MaintenanceAdoption (se_check1 env) of
            Some e \<Rightarrow> (Inl e, None, au)
          | None \<Rightarrow>
              (case ReadSelection au (se_select env) of
                 (Inl e, au') \<Rightarrow> (Inl e, None, au')
               | (Inr selected, au') \<Rightarrow>
                   if sel_UID selected \<noteq> markerUID \<or> sel_RegistryUID selected \<noteq> registryUID then (Inl ErrConflict, None, au')
                   else (case read_registry (ml_cred lib) (au_registry au) (se_registry env) of
                     Inl e \<Rightarrow> (Inl e, None, au')
                   | Inr (s, sn) \<Rightarrow>
                       if sn_UID sn \<noteq> registryUID then (Inl ErrConflict, None, au')
                       else (case map_of (s_Annotations s) selectedAuthorityAnnotation of
                         Some previous \<Rightarrow>
                           if previous \<noteq> markerUID then (Inl ErrConflict, None, au')
                           else (case Load_authority (ml_cred lib) au' (se_load env) of (r, au'') \<Rightarrow> (r, None, au''))
                       | None \<Rightarrow>
                           (case Check_reservation lib r MaintenanceAdoption (se_check2 env) of
                              Some e \<Rightarrow> (Inl e, None, au')
                            | None \<Rightarrow> seal_write (ml_cred lib) au' env markerUID registryUID s))))))"

definition VerifyCompletedSelection ::
  "cred_lib \<Rightarrow> authority_store \<Rightarrow> load_env \<Rightarrow> secret answer \<Rightarrow> selection
     \<Rightarrow> (cred_error + snapshot) \<times> authority_store" where
  "VerifyCompletedSelection lib au env got expected =
     (case ReadSelection au env of
        (Inl _, au') \<Rightarrow> (Inl ErrUnavailable, au')
      | (Inr selected, au') \<Rightarrow>
          (if selected \<noteq> expected then Inl ErrUnavailable
           else case read_registry lib (au_registry au) got of
             Inl _ \<Rightarrow> Inl ErrUnavailable
           | Inr (s, sn) \<Rightarrow>
               if sn_UID sn \<noteq> sel_RegistryUID expected
                  \<or> str_at (s_Annotations s) selectedAuthorityAnnotation \<noteq> sel_UID expected
               then Inl ErrUnavailable else Inr sn, au'))"

subsection \<open>The server\<close>

text \<open>
  What the writers rely on of the API server, for one named object: \<open>srv_stored\<close> reads it, \<open>srv_used\<close>
  says whether a resource version was ever handed out, \<open>srv_update\<close> is the world after an update request
  commits, or \<open>None\<close>. Kubernetes documents optimistic concurrency: an update commits only against
  the UID and version it carries, and gives the object a version never used before.
\<close>

record 'w server =
  srv_stored :: "'w \<Rightarrow> secret option"
  srv_used :: "'w \<Rightarrow> string \<Rightarrow> bool"
  srv_update :: "'w \<Rightarrow> secret \<Rightarrow> 'w option"

definition optimistic_concurrency :: "'w server \<Rightarrow> bool" where
  "optimistic_concurrency srv \<longleftrightarrow>
     (\<forall>w s. srv_stored srv w = Some s \<longrightarrow> srv_used srv w (s_ResourceVersion s))
     \<and> (\<forall>w req w'. srv_update srv w req = Some w' \<longrightarrow>
          (\<exists>s v. srv_stored srv w = Some s \<and> s_UID s = s_UID req \<and> s_ResourceVersion s = s_ResourceVersion req
             \<and> v \<noteq> '''' \<and> \<not> srv_used srv w v \<and> srv_stored srv w' = Some (req\<lparr>s_ResourceVersion := v\<rparr>)
             \<and> (\<forall>u. srv_used srv w' u \<longleftrightarrow> u = v \<or> srv_used srv w u)))"

text \<open>
  How the world may change between two observations: the object stays, or is gone, or is stored under
  a version that had not been used.
\<close>

definition server_evolves :: "'w server \<Rightarrow> 'w \<Rightarrow> 'w \<Rightarrow> bool" where
  "server_evolves srv w w' \<longleftrightarrow>
     (\<forall>v. srv_used srv w v \<longrightarrow> srv_used srv w' v)
     \<and> (srv_stored srv w' = srv_stored srv w
        \<or> (case srv_stored srv w' of None \<Rightarrow> True | Some s \<Rightarrow> \<not> srv_used srv w (s_ResourceVersion s)))"

lemma commit_cases:
  assumes "optimistic_concurrency srv" and "srv_update srv w req = Some w'"
  obtains s v where "srv_stored srv w = Some s" "s_UID s = s_UID req" "s_ResourceVersion s = s_ResourceVersion req"
    "v \<noteq> ''''" "\<not> srv_used srv w v" "srv_stored srv w' = Some (req\<lparr>s_ResourceVersion := v\<rparr>)"
    "\<And>u. srv_used srv w' u \<longleftrightarrow> u = v \<or> srv_used srv w u"
  using assms unfolding optimistic_concurrency_def by blast

lemma stored_used:
  "optimistic_concurrency srv \<Longrightarrow> srv_stored srv w = Some s \<Longrightarrow> srv_used srv w (s_ResourceVersion s)"
  unfolding optimistic_concurrency_def by blast

lemma version_never_returns:
  assumes "(server_evolves srv)\<^sup>*\<^sup>* w w'" and "srv_used srv w v"
    and "\<And>s. srv_stored srv w = Some s \<Longrightarrow> s_ResourceVersion s \<noteq> v"
  shows "srv_used srv w' v \<and> (\<forall>s. srv_stored srv w' = Some s \<longrightarrow> s_ResourceVersion s \<noteq> v)"
  using assms(1)
proof (induction rule: rtranclp_induct)
  case base
  with assms(2,3) show ?case by simp
next
  case (step mid w')
  show ?case
  proof (cases "srv_stored srv w' = srv_stored srv mid")
    case True
    with step show ?thesis by (simp add: server_evolves_def)
  next
    case False
    with step show ?thesis by (auto simp: server_evolves_def)
  qed
qed

lemma commit_evolves:
  assumes "optimistic_concurrency srv" and "srv_update srv w req = Some w'"
  shows "server_evolves srv w w'"
  using assms by (rule commit_cases) (simp add: server_evolves_def)

lemma update_needs_version:
  assumes "optimistic_concurrency srv" and "\<And>s. srv_stored srv w = Some s \<Longrightarrow> s_ResourceVersion s \<noteq> s_ResourceVersion req"
  shows "srv_update srv w req = None"
proof (cases "srv_update srv w req")
  case (Some w')
  with assms(1) show ?thesis
  proof (rule commit_cases)
    fix s assume "srv_stored srv w = Some s" "s_ResourceVersion s = s_ResourceVersion req"
    with assms(2) show ?thesis by blast
  qed
qed simp

subsection \<open>All writers of the registry\<close>

text \<open>
  A configuration is the world and the requests in flight. A writer computes its request from the
  object it reads and sends it; a request in flight may commit at any later time, or never, and
  other objects may change at any time.
\<close>

inductive registry_step :: "cred_lib \<Rightarrow> secret_store \<Rightarrow> 'w server \<Rightarrow> 'w \<times> secret list \<Rightarrow> 'w \<times> secret list \<Rightarrow> bool"
  for lib st srv where
  send_replace: "srv_stored srv w = Some s \<Longrightarrow> replace_request lib st v next (ended, Inr s) = Inr (req, d)
     \<Longrightarrow> registry_step lib st srv (w, flight) (w, req # flight)"
| send_fence: "srv_stored srv w = Some s \<Longrightarrow> fence_request lib st nonce v (ended, Inr s) = Inr (req, d)
     \<Longrightarrow> registry_step lib st srv (w, flight) (w, req # flight)"
| send_seal: "srv_stored srv w = Some s \<Longrightarrow> registry_step lib st srv (w, flight) (w, seal_request s marker # flight)"
| commit: "req \<in> set flight \<Longrightarrow> srv_update srv w req = Some w' \<Longrightarrow> registry_step lib st srv (w, flight) (w', flight)"
| elsewhere: "srv_stored srv w' = srv_stored srv w \<Longrightarrow> (\<And>v. srv_used srv w v \<Longrightarrow> srv_used srv w' v)
     \<Longrightarrow> registry_step lib st srv (w, flight) (w', flight)"

inductive_cases registry_stepE: "registry_step lib st srv c c'"

lemma registry_step_evolves:
  assumes "optimistic_concurrency srv" and "registry_step lib st srv (w, fl) (w', fl')"
  shows "server_evolves srv w w'"
  using assms(2)
proof cases
  case commit
  then show ?thesis by (intro commit_evolves [OF assms(1)])
qed (simp_all add: server_evolves_def)

lemma registry_run_evolves:
  assumes "optimistic_concurrency srv" and "(registry_step lib st srv)\<^sup>*\<^sup>* c c'"
  shows "(server_evolves srv)\<^sup>*\<^sup>* (fst c) (fst c')"
  using assms(2)
proof (induction rule: rtranclp_induct)
  case (step c' c'')
  have "server_evolves srv (fst c') (fst c'')"
    using registry_step_evolves [OF assms(1)] step.hyps(2) by (cases c'; cases c'') auto
  with step.IH show ?case by (rule rtranclp.rtrancl_into_rtrancl)
qed simp

text \<open>
  JSON as the code uses it: the bytes of a valid document pass the inspection and decode to it.
\<close>

definition json_laws :: "cred_lib \<Rightarrow> bool" where
  "json_laws lib \<longleftrightarrow>
     (\<forall>d raw. validate lib d = None \<and> cl_marshal lib d = Some raw \<longrightarrow>
        cl_inspect lib raw \<and> cl_header lib raw = Some (d_SchemaVersion d) \<and> cl_unmarshal lib raw = Some d)"

text \<open>What a request in flight would make of the object it was computed from.\<close>

definition same_object :: "secret \<Rightarrow> secret \<Rightarrow> bool" where
  "same_object s req \<longleftrightarrow>
     s_Namespace req = s_Namespace s \<and> s_Name req = s_Name s \<and> s_UID req = s_UID s \<and> s_Type req = s_Type s
     \<and> s_Labels req = s_Labels s \<and> s_OwnerReferences req = s_OwnerReferences s"

definition sound_request :: "cred_lib \<Rightarrow> secret_store \<Rightarrow> secret \<Rightarrow> secret \<Rightarrow> bool" where
  "sound_request lib st s req \<longleftrightarrow>
     same_object s req \<and>
     (\<exists>sn sn'. read_secret lib st s = Inr sn \<and> read_secret lib st req = Inr sn'
        \<and> (sn_Document sn' = sn_Document sn \<or> replaces lib (sn_Document sn) (sn_Document sn')))"

lemma decode_valid: "decode lib raw = Inr d \<Longrightarrow> validate lib d = None"
  by (auto simp: decode_def dest!: encode_normal split: if_splits option.splits sum.splits)

lemma read_secret_Inr:
  "read_secret lib st s = Inr sn \<longleftrightarrow>
     s_Namespace s = st_Namespace st \<and> s_Name s = st_Name st \<and> s_Type s = SecretTypeOpaque
     \<and> str_at (s_Labels s) ownerLabel = ''v1'' \<and> str_at (s_Labels s) managedByLabel = ''kyber''
     \<and> s_OwnerReferences s = [] \<and> s_ResourceVersion s \<noteq> ''''
     \<and> (\<exists>d. decode lib (str_at (s_Data s) dataKey) = Inr d \<and> d_Namespace d = st_Namespace st
          \<and> sn = \<lparr>sn_UID = s_UID s, sn_Version = s_ResourceVersion s, sn_Document = d\<rparr>)"
  by (auto simp: read_secret_def split: if_splits sum.splits)

lemma json_decode:
  assumes "json_laws lib" and "encode lib d = Inr (raw, n)"
  shows "decode lib raw = Inr n" and "validate lib n = None"
proof -
  note n = encode_normal [OF assms(2)]
  with assms(1) have "cl_inspect lib raw" "cl_header lib raw = Some (d_SchemaVersion n)" "cl_unmarshal lib raw = Some n"
    unfolding json_laws_def by blast+
  then show "decode lib raw = Inr n" by (rule decode_encoded [OF assms(2)])
  from n show "validate lib n = None" by blast
qed

lemma str_at_update: "str_at (AList.update k v m) k = v"
  by (simp add: str_at_def alist_lookup_update)

lemma read_registry_Inr:
  "read_registry lib st (ended, Inr s) = Inr (s', sn) \<longleftrightarrow> s' = s \<and> read_secret lib st s = Inr sn"
  by (auto simp: read_registry_def split: sum.splits)

lemma replace_request_Inr:
  assumes "replace_request lib st v next (ended, Inr s) = Inr (req, d)"
  obtains sn raw where "read_secret lib st s = Inr sn" "sn_Version sn = v" "encode lib next = Inr (raw, d)"
    "d_Namespace next = st_Namespace st" "transition (Some (sn_Document sn)) d = None"
    "req = s\<lparr>s_Data := AList.update dataKey raw (s_Data s)\<rparr>"
  using assms by (auto simp: replace_request_def read_registry_Inr split: if_splits sum.splits option.splits)

lemma fence_request_Inr:
  assumes "fence_request lib st nonce v (ended, Inr s) = Inr (req, d)"
  obtains sn where "read_secret lib st s = Inr sn" "sn_Version sn = v" "d = normalized (sn_Document sn)"
    "req = annotate writeFenceAnnotation nonce s"
  using assms by (auto simp: fence_request_def annotate_def read_registry_Inr split: if_splits sum.splits)

lemma annotate_reads: "read_secret lib st s = Inr sn \<Longrightarrow> read_secret lib st (annotate name raw s) = Inr sn"
  unfolding read_secret_Inr by (simp add: annotate_def)

lemma annotate_sound:
  assumes "read_secret lib st s = Inr sn"
  shows "sound_request lib st s (annotate name raw s)"
  using assms annotate_reads [OF assms, of name raw]
  by (simp add: sound_request_def same_object_def) (simp add: annotate_def)

text \<open>A request to replace reads as the document it was computed from.\<close>

lemma replace_reads:
  assumes "json_laws lib" and "replace_request lib st v next (ended, Inr s) = Inr (req, d)"
  shows "read_secret lib st req = Inr \<lparr>sn_UID = s_UID s, sn_Version = s_ResourceVersion s, sn_Document = d\<rparr>"
    and "s_ResourceVersion s = v" and "s_ResourceVersion req = v" and "d = normalized next"
proof -
  obtain sn raw where sn: "read_secret lib st s = Inr sn" "sn_Version sn = v" "encode lib next = Inr (raw, d)"
    "d_Namespace next = st_Namespace st" and req: "req = s\<lparr>s_Data := AList.update dataKey raw (s_Data s)\<rparr>"
    by (rule replace_request_Inr [OF assms(2)])
  note d = json_decode [OF assms(1) sn(3)]
  show "d = normalized next" using encode_normal [OF sn(3)] by blast
  then have "d_Namespace d = st_Namespace st" using sn(4) by (simp add: normalized_def)
  with sn(1) d(1) show "read_secret lib st req = Inr \<lparr>sn_UID = s_UID s, sn_Version = s_ResourceVersion s, sn_Document = d\<rparr>"
    unfolding read_secret_Inr by (simp add: req str_at_update)
  show "s_ResourceVersion s = v" using sn(1,2) unfolding read_secret_Inr by auto
  then show "s_ResourceVersion req = v" by (simp add: req)
qed

lemma replace_sound:
  assumes "json_laws lib" and "replace_request lib st v next (ended, Inr s) = Inr (req, d)"
  shows "sound_request lib st s req"
proof -
  obtain sn raw where sn: "read_secret lib st s = Inr sn" "encode lib next = Inr (raw, d)"
    "transition (Some (sn_Document sn)) d = None" and req: "req = s\<lparr>s_Data := AList.update dataKey raw (s_Data s)\<rparr>"
    by (rule replace_request_Inr [OF assms(2)])
  have "validate lib (sn_Document sn) = None"
    using sn(1) decode_valid unfolding read_secret_Inr by fastforce
  with sn(3) json_decode(2) [OF assms(1) sn(2)] have "replaces lib (sn_Document sn) d" by (simp add: replaces_def)
  with sn(1) replace_reads(1) [OF assms] show ?thesis
    by (simp add: sound_request_def same_object_def) (simp add: req)
qed

lemma annotate_version [simp]: "s_ResourceVersion (annotate name raw s) = s_ResourceVersion s"
  by (simp add: annotate_def)

text \<open>
  The invariant: the stored object reads as a document that replaced, step by step, the first one; a
  request still able to commit is sound for the object as it is stored now.
\<close>

definition registry_inv ::
  "cred_lib \<Rightarrow> secret_store \<Rightarrow> 'w server \<Rightarrow> string \<Rightarrow> document \<Rightarrow> 'w \<times> secret list \<Rightarrow> bool" where
  "registry_inv lib st srv uid d0 c \<longleftrightarrow>
     (\<exists>s sn. srv_stored srv (fst c) = Some s \<and> s_UID s = uid \<and> read_secret lib st s = Inr sn
        \<and> (replaces lib)\<^sup>*\<^sup>* d0 (sn_Document sn)
        \<and> (\<forall>req\<in>set (snd c). srv_used srv (fst c) (s_ResourceVersion req)
             \<and> (s_ResourceVersion req = s_ResourceVersion s \<longrightarrow> sound_request lib st s req)))"

lemma registry_inv_send:
  assumes "optimistic_concurrency srv" and "registry_inv lib st srv uid d0 (w, flight)"
    and "srv_stored srv w = Some s" and "s_ResourceVersion req = s_ResourceVersion s"
    and "\<And>sn. read_secret lib st s = Inr sn \<Longrightarrow> sound_request lib st s req"
  shows "registry_inv lib st srv uid d0 (w, req # flight)"
  using assms(2-5) stored_used [OF assms(1,3)] unfolding registry_inv_def by auto

lemma registry_inv_commit:
  assumes "optimistic_concurrency srv" and inv: "registry_inv lib st srv uid d0 (w, flight)"
    and "req \<in> set flight" and "srv_update srv w req = Some w'"
  shows "registry_inv lib st srv uid d0 (w', flight)"
  using assms(1,4)
proof (rule commit_cases)
  fix s v
  assume s: "srv_stored srv w = Some s" "s_UID s = s_UID req" "s_ResourceVersion s = s_ResourceVersion req"
    and v: "v \<noteq> ''''" "\<not> srv_used srv w v" and s': "srv_stored srv w' = Some (req\<lparr>s_ResourceVersion := v\<rparr>)"
    and used: "\<And>u. srv_used srv w' u \<longleftrightarrow> u = v \<or> srv_used srv w u"
  from inv s(1) obtain sn where sn: "read_secret lib st s = Inr sn" "(replaces lib)\<^sup>*\<^sup>* d0 (sn_Document sn)" "s_UID s = uid"
    and flight: "\<And>r. r \<in> set flight \<Longrightarrow> srv_used srv w (s_ResourceVersion r)"
    and sound: "\<And>r. r \<in> set flight \<Longrightarrow> s_ResourceVersion r = s_ResourceVersion s \<Longrightarrow> sound_request lib st s r"
    unfolding registry_inv_def by auto
  obtain sn' where sn': "read_secret lib st req = Inr sn'"
    "sn_Document sn' = sn_Document sn \<or> replaces lib (sn_Document sn) (sn_Document sn')"
    using sound [OF assms(3)] s(3) sn(1) unfolding sound_request_def by auto
  have "read_secret lib st (req\<lparr>s_ResourceVersion := v\<rparr>) = Inr (sn'\<lparr>sn_Version := v\<rparr>)"
    using sn'(1) v(1) unfolding read_secret_Inr by auto
  moreover have "(replaces lib)\<^sup>*\<^sup>* d0 (sn_Document sn')"
    using sn'(2) sn(2) by (auto intro: rtranclp.rtrancl_into_rtrancl)
  moreover have "s_ResourceVersion r \<noteq> v" if "r \<in> set flight" for r
    using flight [OF that] v(2) by auto
  ultimately show ?thesis
    using s' s(2) sn(3) flight unfolding registry_inv_def
    by (intro exI [of _ "req\<lparr>s_ResourceVersion := v\<rparr>"] exI [of _ "sn'\<lparr>sn_Version := v\<rparr>"]) (auto simp: used)
qed

lemma registry_inv_step:
  assumes "optimistic_concurrency srv" and "json_laws lib" and "registry_inv lib st srv uid d0 c"
    and "registry_step lib st srv c c'"
  shows "registry_inv lib st srv uid d0 c'"
  using assms(4)
proof cases
  case (send_replace w s v "next" ended req d flight)
  have "s_ResourceVersion req = s_ResourceVersion s" using send_replace(4) by (rule replace_request_Inr) simp
  with send_replace assms(1,3) replace_sound [OF assms(2) send_replace(4)] show ?thesis
    by (auto intro: registry_inv_send)
next
  case (send_fence w s nonce v ended req d flight)
  have "req = annotate writeFenceAnnotation nonce s" using send_fence(4) by (rule fence_request_Inr)
  with send_fence assms(1,3) show ?thesis
    by (auto intro!: registry_inv_send annotate_sound)
next
  case (send_seal w s flight marker)
  with assms(1,3) show ?thesis
    by (auto intro!: registry_inv_send annotate_sound simp: seal_request_def)
next
  case (commit req flight w w')
  with assms(1,3) show ?thesis by (auto intro: registry_inv_commit)
next
  case (elsewhere w' w flight)
  with assms(3) show ?thesis by (auto simp: registry_inv_def)
qed

text \<open>
  C25: Under every interleaving of writers, with any requests delayed, lost or delivered late, the Secret
  always reads as a registry of the same incarnation, and its document is reached from the first
  one by accepted replacements only: the stored documents are a serial history.
\<close>

theorem registry_writes_serial:
  assumes "optimistic_concurrency srv" and "json_laws lib"
    and "srv_stored srv w0 = Some s0" and "read_secret lib st s0 = Inr sn0"
    and "(registry_step lib st srv)\<^sup>*\<^sup>* (w0, []) c"
  shows "\<exists>s sn. srv_stored srv (fst c) = Some s \<and> read_secret lib st s = Inr sn \<and> sn_UID sn = sn_UID sn0
     \<and> (replaces lib)\<^sup>*\<^sup>* (sn_Document sn0) (sn_Document sn)"
proof -
  have "registry_inv lib st srv (s_UID s0) (sn_Document sn0) c"
    using assms(5)
  proof (induction rule: rtranclp_induct)
    case base
    with assms(3,4) show ?case by (auto simp: registry_inv_def)
  next
    case (step c c')
    then show ?case by (blast intro: registry_inv_step [OF assms(1,2)])
  qed
  then show ?thesis using assms(4) unfolding registry_inv_def read_secret_Inr by fastforce
qed

lemma replace_request_version:
  "replace_request lib st v next (ended, Inr s) = Inr r \<Longrightarrow> s_ResourceVersion s = v"
  by (cases r) (auto elim!: replace_request_Inr simp: read_secret_Inr)


subsection \<open>No way back to the configuration\<close>

text \<open>The calls one process makes on its resolver, and what each leaves of \<open>observed\<close>.\<close>

datatype resolver_call =
    CallLoad load_env
  | CallSelect load_env
  | CallReplace load_env string string document "secret answer" "secret answer"
  | CallFence load_env string string string "secret answer" "secret answer"
  | CallBind bind_env string "reservation option"
  | CallSeal seal_env string string "reservation option"
  | CallVerify load_env "secret answer" selection

primrec resolver_step :: "maint_lib \<Rightarrow> resolver_call \<Rightarrow> authority_store \<Rightarrow> authority_store" where
  "resolver_step lib (CallLoad env) au = snd (Load_authority (ml_cred lib) au env)"
| "resolver_step lib (CallSelect env) au = snd (ReadSelection au env)"
| "resolver_step lib (CallReplace env uid v d got upd) au = snd (snd (Replace_authority (ml_cred lib) au env uid v d got upd))"
| "resolver_step lib (CallFence env n uid v got upd) au = snd (snd (Fence_authority (ml_cred lib) au env n uid v got upd))"
| "resolver_step lib (CallBind env v r) au = snd (snd (Bind lib au env v r))"
| "resolver_step lib (CallSeal env m uid r) au = snd (snd (SealSelection lib au env m uid r))"
| "resolver_step lib (CallVerify env got sel) au = snd (VerifyCompletedSelection (ml_cred lib) au env got sel)"

lemma observed_kept:
  "snd (Load_authority cl au env) = au \<or> au_observed (snd (Load_authority cl au env))"
  "snd (ReadSelection au env) = au \<or> au_observed (snd (ReadSelection au env))"
  by (auto simp: Load_authority_def ReadSelection_def split: prod.splits sum.splits)

lemma Load_observed: "au_observed au \<Longrightarrow> au_observed (snd (Load_authority cl au env))"
  using observed_kept(1) [of cl au env] by auto

lemma ReadSelection_observes: "ReadSelection au env = (Inr x, au') \<Longrightarrow> au_observed au'"
  by (auto simp: ReadSelection_def split: prod.splits sum.splits)

lemma seal_write_observed: "au_observed au \<Longrightarrow> au_observed (snd (snd (seal_write cl au env m uid s)))"
  using Load_observed [of au cl "se_load env"]
  by (auto simp: seal_write_def Let_def split: prod.splits sum.splits)

lemma observed_kept_seal:
  "snd (snd (SealSelection lib au env m uid res)) = au \<or> au_observed (snd (snd (SealSelection lib au env m uid res)))"
proof (cases "\<exists>r. res = Some r \<and> opaque m \<and> opaque uid \<and> own_reservation au res
    \<and> Check_reservation lib r MaintenanceAdoption (se_check1 env) = None")
  case False
  then show ?thesis by (auto simp: SealSelection_def split: option.splits)
next
  case True
  then obtain r where r: "res = Some r" "opaque m" "opaque uid" "own_reservation au res"
    "Check_reservation lib r MaintenanceAdoption (se_check1 env) = None" by blast
  obtain x au' where sel: "ReadSelection au (se_select env) = (x, au')" by fastforce
  show ?thesis
  proof (cases x)
    case (Inl e)
    with r sel observed_kept(2) [of au "se_select env"] show ?thesis by (simp add: SealSelection_def)
  next
    case (Inr selected)
    with sel have obs: "au_observed au'" by (auto dest: ReadSelection_observes)
    have load: "Load_authority cl au' e = (y, a) \<Longrightarrow> au_observed a" for cl e y a
      using Load_observed [OF obs, of cl e] by simp
    have seals: "au_observed (snd (snd (seal_write cl au' env m uid s)))" for cl s
      by (rule seal_write_observed [OF obs])
    have "au_observed (snd (snd (SealSelection lib au env m uid res)))"
      using r sel Inr obs load seals by (auto simp: SealSelection_def split: prod.splits sum.splits option.splits)
    then show ?thesis ..
  qed
qed

lemma resolver_step_observed: "au_observed au \<Longrightarrow> au_observed (resolver_step lib call au)"
proof (cases call)
  case (CallReplace env uid v d got upd)
  then show "au_observed au \<Longrightarrow> ?thesis" using observed_kept(1) [of "ml_cred lib" au env]
    by (auto simp: Replace_authority_def split: prod.splits sum.splits)
next
  case (CallFence env n uid v got upd)
  then show "au_observed au \<Longrightarrow> ?thesis" using observed_kept(1) [of "ml_cred lib" au env]
    by (auto simp: Fence_authority_def split: prod.splits sum.splits)
next
  case (CallBind env v r)
  then show "au_observed au \<Longrightarrow> ?thesis"
    by (auto simp: Bind_def split: option.splits prod.splits sum.splits)
next
  case (CallSeal env m uid r)
  then show "au_observed au \<Longrightarrow> ?thesis" using observed_kept_seal [of lib au env m uid r] by auto
next
  case (CallVerify env got sel)
  then show "au_observed au \<Longrightarrow> ?thesis" using observed_kept(2) [of au env]
    by (auto simp: VerifyCompletedSelection_def split: prod.splits sum.splits)
next
  case (CallLoad env)
  then show "au_observed au \<Longrightarrow> ?thesis" using observed_kept(1) [of "ml_cred lib" au env] by auto
next
  case (CallSelect env)
  then show "au_observed au \<Longrightarrow> ?thesis" using observed_kept(2) [of au env] by auto
qed

lemma resolver_run_observed: "au_observed au \<Longrightarrow> au_observed (fold (resolver_step lib) calls au)"
  by (induction calls arbitrary: au) (simp_all add: resolver_step_observed)

definition registry_unsealed :: "secret answer \<Rightarrow> bool" where
  "registry_unsealed got \<longleftrightarrow>
     (case got of
        (ended, Inl e) \<Rightarrow> \<not> ended \<and> e = ApiNotFound
      | (ended, Inr s) \<Rightarrow> \<not> ended \<and> map_of (s_Annotations s) selectedAuthorityAnnotation = None)"

lemma bootstrapState_fallback:
  "bootstrapState observed got = ErrUninitialized \<Longrightarrow> \<not> observed \<and> registry_unsealed got"
  by (auto simp: bootstrapState_def registry_unsealed_def split: if_splits sum.splits prod.splits)

lemma validateMarker_error: "validateMarker au m \<noteq> Some ErrUninitialized"
  by (simp add: validateMarker_def)

lemma Load_fallback:
  assumes "fst (Load_authority cl au env) = Inl ErrUninitialized"
  shows "\<not> au_observed au \<and> le_marker env = (False, Inl ApiNotFound) \<and> registry_unsealed (le_registry env)"
proof (cases "le_marker env")
  case (Pair ended got)
  show ?thesis
  proof (cases got)
    case (Inl e)
    with assms Pair have "e = ApiNotFound \<and> \<not> au_observed au \<and> \<not> ended"
      and "bootstrapState (au_observed au \<or> le_observed_meanwhile env) (le_registry env) = ErrUninitialized"
      by (simp_all add: Load_authority_def split: if_splits)
    with Pair Inl show ?thesis by (auto dest!: bootstrapState_fallback)
  next
    case (Inr m)
    with assms Pair validateMarker_error [of au m] show ?thesis
      by (auto simp: Load_authority_def split: option.splits sum.splits if_splits)
  qed
qed

lemma ReadSelection_fallback:
  assumes "fst (ReadSelection au env) = Inl ErrUninitialized"
  shows "\<not> au_observed au \<and> le_marker env = (False, Inl ApiNotFound) \<and> registry_unsealed (le_registry env)"
proof (cases "le_marker env")
  case (Pair ended got)
  show ?thesis
  proof (cases got)
    case (Inl e)
    with assms Pair have "e = ApiNotFound \<and> \<not> ended"
      and "bootstrapState (au_observed au \<or> le_observed_meanwhile env) (le_registry env) = ErrUninitialized"
      by (simp_all add: ReadSelection_def split: if_splits)
    with Pair Inl show ?thesis by (auto dest!: bootstrapState_fallback)
  next
    case (Inr m)
    with assms Pair validateMarker_error [of au m] show ?thesis
      by (auto simp: ReadSelection_def split: option.splits)
  qed
qed

lemma Bind_observes:
  "fst (snd (Bind lib au env v r)) \<noteq> None \<Longrightarrow> au_observed (snd (snd (Bind lib au env v r)))"
  by (auto simp: Bind_def split: option.splits prod.splits sum.splits if_splits)

lemma Load_observes: "le_marker env = (ended, Inr m) \<Longrightarrow> au_observed (snd (Load_authority cl au env))"
  by (simp add: Load_authority_def)

text \<open>
  A process falls back to the configured keys only while adoption is out of sight. A resolution that
  answers \<open>ErrUninitialized\<close> has read that the marker does not exist and that the registry is missing
  or unsealed; a process that has read a marker or tried to create one, even when the answer was an
  error, never gets that answer again, whatever it calls and whatever it is answered.
\<close>

theorem configuration_fallback_closed:
  assumes "fst (Load_authority (ml_cred lib) (fold (resolver_step lib) calls au) env) = Inl ErrUninitialized
         \<or> fst (ReadSelection (fold (resolver_step lib) calls au) env) = Inl ErrUninitialized"
  shows "le_marker env = (False, Inl ApiNotFound) \<and> registry_unsealed (le_registry env)
     \<and> (\<forall>before call after. calls = before @ call # after \<longrightarrow>
          (case call of
             CallLoad e \<Rightarrow> (\<nexists>ended m. le_marker e = (ended, Inr m))
           | CallBind e v r \<Rightarrow> fst (snd (Bind lib (fold (resolver_step lib) before au) e v r)) = None
           | _ \<Rightarrow> True))"
proof -
  let ?run = "\<lambda>calls. fold (resolver_step lib) calls au"
  have now: "\<not> au_observed (?run calls)" "le_marker env = (False, Inl ApiNotFound)" "registry_unsealed (le_registry env)"
    using assms Load_fallback ReadSelection_fallback by blast+
  have step: "\<not> au_observed (resolver_step lib call (?run before))" if "calls = before @ call # after" for before call after
    using now(1) resolver_run_observed [of "resolver_step lib call (?run before)" lib after] that by auto
  have "case call of
             CallLoad e \<Rightarrow> (\<nexists>ended m. le_marker e = (ended, Inr m))
           | CallBind e v r \<Rightarrow> fst (snd (Bind lib (?run before) e v r)) = None
           | _ \<Rightarrow> True" if "calls = before @ call # after" for before call after
    using step [OF that] Load_observes Bind_observes by (cases call) fastforce+
  with now show ?thesis by blast
qed


subsection \<open>Taking a reservation over\<close>

lemma stopped_evidence:
  assumes "WriterState lib st env uid version = Inr WriterStopped"
  obtains w e pods where "we_pods env = (e, Inr (pods, False))" "list_all (stopped_pod lib w) pods"
    "list_ex (\<lambda>p. p_UID p = w_PodUID w) pods"
proof -
  obtain current w where "writer_evidence lib st env uid version current w = Inr WriterStopped"
    using assms by (auto simp: WriterState_def split: if_splits sum.splits option.splits)
  then have "writer_list_state lib st env uid version w = Inr WriterStopped"
    by (auto simp: writer_evidence_def split: if_splits sum.splits prod.splits)
  then show ?thesis
    by (auto simp: writer_list_state_def split: if_splits sum.splits prod.splits intro: that)
qed

text \<open>What the three takeovers have in common once they return a capability.\<close>

definition taken_over :: "maint_lib \<Rightarrow> takeover_env \<Rightarrow> string \<Rightarrow> reservation \<Rightarrow> bool" where
  "taken_over lib env version r \<longleftrightarrow>
     (\<exists>ended c. te_confirmed env = (ended, Inr c) \<and> validate_reservation lib (r_store r) c = None
        \<and> s_ResourceVersion c \<noteq> version \<and> r_version r = s_ResourceVersion c \<and> r_uid r = s_UID c
        \<and> r_owner r = str_at (s_Data c) ''owner'' \<and> r_kind r = str_at (s_Data c) ''kind'')"

lemma str_at_present: "str_at m k = v \<Longrightarrow> v \<noteq> '''' \<Longrightarrow> map_of m k = Some v"
  by (simp add: str_at_def split: option.splits)

lemma validated_kind:
  assumes "validate_reservation lib st c = None"
  shows "map_of (s_Annotations c) maintenanceRecoveryAnnotation = Some raw \<Longrightarrow> str_at (s_Data c) ''kind'' = MaintenanceUpgrade"
    and "map_of (s_Annotations c) adoptionWriterAnnotation = Some raw' \<Longrightarrow> str_at (s_Data c) ''kind'' = MaintenanceAdoption"
    and "s_UID c \<noteq> ''''" and "s_ResourceVersion c \<noteq> ''''"
  using assms by (auto simp: validate_reservation_def Let_def annotation_allowed_def reservation_shape_def split: if_splits)

lemma PrepareRecovery_taken_over:
  assumes "PrepareRecovery lib st inspected env tenv nonce uid version operation failed = (Inr h, q)"
    and "\<And>r. ml_recovery_bytes lib r \<noteq> ''''"
  shows "taken_over lib tenv version (rh_reservation h) \<and> WriterState lib st env uid version = Inr WriterStopped"
proof -
  obtain status current where
    up: "stopped_upgrade lib st inspected env uid version = Inr status"
    and f: "recovery_fence lib st tenv status version operation nonce current = (Inr h, q)"
    using assms(1) by (auto simp: PrepareRecovery_def split: if_splits sum.splits prod.splits option.splits)
  let ?raw = "ml_recovery_bytes lib \<lparr>rr_OperationID = operation, rr_Nonce = nonce\<rparr>"
  obtain ended c where c: "te_confirmed tenv = (ended, Inr c)" "validate_reservation lib st c = None"
    "s_ResourceVersion c \<noteq> version" "str_at (s_Annotations c) maintenanceRecoveryAnnotation = ?raw"
    and h: "rh_reservation h = upgrade_capability st (mt_Writer status) c"
    using f by (auto simp: recovery_fence_def Let_def split: if_splits sum.splits prod.splits option.splits)
  have "str_at (s_Data c) ''kind'' = MaintenanceUpgrade"
    using validated_kind(1) [OF c(2)] str_at_present [OF c(4) assms(2)] by blast
  moreover have "WriterState lib st env uid version = Inr WriterStopped"
    using up by (auto simp: stopped_upgrade_def split: if_splits sum.splits)
  ultimately show ?thesis using c h by (simp add: taken_over_def upgrade_capability_def)
qed

lemma RecordUpgradeEffects_taken_over:
  assumes "RecordUpgradeEffects lib r checked tenv nonce checkpoint = (Inr r', q)"
  shows "taken_over lib tenv (r_version r) r'"
  using assms
  by (auto simp: RecordUpgradeEffects_def taken_over_def Let_def split: if_splits sum.splits prod.splits option.splits)

lemma ResumeAdoption_taken_over:
  assumes "ResumeAdoptionForPod lib st env uid version operation podName podUID = (Inr r, q)"
    and "\<And>r. ml_adoption_bytes lib r \<noteq> ''''"
  shows "taken_over lib (ra_takeover env) version r \<and> WriterState lib st (ra_state env) uid version = Inr WriterStopped"
proof -
  obtain status prior w execution current where
    stopped: "WriterState lib st (ra_state env) uid version = Inr WriterStopped"
    and version: "s_ResourceVersion current = version"
    and f: "adoption_takeover lib st (ra_takeover env) status operation w execution current = (Inr r, q)"
    using assms(1) by (auto simp: ResumeAdoptionForPod_def split: if_splits sum.splits prod.splits option.splits)
  obtain ended c where c: "te_confirmed (ra_takeover env) = (ended, Inr c)" "validate_reservation lib st c = None"
    "s_ResourceVersion c \<noteq> version"
    "str_at (s_Annotations c) adoptionWriterAnnotation
       = ml_adoption_bytes lib \<lparr>ar_AdmissionVersion = mt_AdmissionVersion status, ar_OperationID = operation,
           ar_ExecutionID = execution, ar_Writer = w\<rparr>"
    and r: "r_store r = st" "r_owner r = str_at (s_Data c) ''owner''" "r_kind r = MaintenanceAdoption" "r_uid r = s_UID c"
      "r_version r = s_ResourceVersion c"
    using f version by (auto simp: adoption_takeover_def Let_def split: if_splits sum.splits prod.splits option.splits)
  have "str_at (s_Data c) ''kind'' = MaintenanceAdoption"
    using validated_kind(2) [OF c(2)] str_at_present [OF c(4) assms(2)] by blast
  with c r stopped show ?thesis by (simp add: taken_over_def)
qed

lemma Check_version:
  "Check_reservation lib r kind (e, Inr s) = None \<Longrightarrow> s_ResourceVersion s = r_version r"
  by (auto simp: Check_reservation_def split: if_splits option.splits)

lemma taken_over_checks:
  assumes "taken_over lib env version r" and "te_confirmed env = (ended, Inr c)"
  shows "Check_reservation lib r (r_kind r) (e, Inr c) = None"
  using assms validated_kind(3,4) [of lib "r_store r" c] by (auto simp: taken_over_def Check_reservation_def)

lemma old_capability_dead:
  assumes "taken_over lib tenv version r" and "te_confirmed tenv = (ended, Inr c)"
    and "srv_stored srv w = Some c" and "srv_used srv w version" and "(server_evolves srv)\<^sup>*\<^sup>* w w'"
    and "r_version old = version" and "srv_stored srv w' = Some s"
  shows "Check_reservation lib old kind (e, Inr s) \<noteq> None" and "snd (Release_reservation lib old (e, Inr s) d) = None"
proof -
  have "s_ResourceVersion c \<noteq> version" using assms(1,2) by (auto simp: taken_over_def)
  then have "s_ResourceVersion s \<noteq> version"
    using version_never_returns [OF assms(5,4)] assms(3,7) by auto
  then have dead: "Check_reservation lib old kind (e, Inr s) \<noteq> None" for kind
    using assms(6) Check_version [of lib old kind e s] by auto
  then show "Check_reservation lib old kind (e, Inr s) \<noteq> None" .
  from dead [of "r_kind old"] show "snd (Release_reservation lib old (e, Inr s) d) = None"
    by (auto simp: Release_reservation_def)
qed

text \<open>Recording an upgrade's effects hands out a new capability in the same way.\<close>

lemma effects_fence_holder:
  assumes "RecordUpgradeEffects lib old checked tenv nonce checkpoint = (Inr r, q)" and "te_confirmed tenv = (ended, Inr c)"
    and "srv_stored srv w = Some c" and "srv_used srv w (r_version old)" and "(server_evolves srv)\<^sup>*\<^sup>* w w'"
    and "srv_stored srv w' = Some s"
  shows "Check_reservation lib old kind (e, Inr s) \<noteq> None" and "Check_reservation lib r (r_kind r) (e', Inr c) = None"
  using old_capability_dead(1) [OF RecordUpgradeEffects_taken_over [OF assms(1)] assms(2-5) refl assms(6)]
    taken_over_checks [OF RecordUpgradeEffects_taken_over [OF assms(1)] assms(2)] by blast+


subsection \<open>Examples\<close>

text \<open>A server with one object: what is stored and every version handed out before.\<close>

type_synonym example_world = "secret option \<times> string list"

definition example_fresh :: "example_world \<Rightarrow> string" where
  "example_fresh w = CHR ''x'' # concat (snd w) @ (case fst w of None \<Rightarrow> '''' | Some s \<Rightarrow> s_ResourceVersion s)"

definition example_server :: "example_world server" where
  "example_server =
     \<lparr>srv_stored = fst,
      srv_used = (\<lambda>w v. v \<in> set (snd w) \<or> (case fst w of None \<Rightarrow> False | Some s \<Rightarrow> v = s_ResourceVersion s)),
      srv_update = (\<lambda>w req.
        case fst w of
          None \<Rightarrow> None
        | Some s \<Rightarrow>
            if s_UID s = s_UID req \<and> s_ResourceVersion s = s_ResourceVersion req
            then Some (Some (req\<lparr>s_ResourceVersion := example_fresh w\<rparr>), s_ResourceVersion s # snd w) else None)\<rparr>"

lemma example_fresh_unused: "\<not> srv_used example_server w (example_fresh w)"
proof -
  have "length v < length (example_fresh w)" if "v \<in> set (snd w)" for v
  proof -
    have "length v \<le> length (concat (snd w))"
      using that by (induction "snd w" arbitrary: w) (auto simp: length_concat intro: member_le_sum_list)
    then show ?thesis by (simp add: example_fresh_def)
  qed
  then have "example_fresh w \<notin> set (snd w)" by blast
  then show ?thesis by (simp add: example_server_def split: option.splits) (simp add: example_fresh_def)
qed

lemma example_optimistic: "optimistic_concurrency example_server"
  unfolding optimistic_concurrency_def
proof (intro conjI allI impI)
  fix w s assume "srv_stored example_server w = Some s"
  then show "srv_used example_server w (s_ResourceVersion s)" by (simp add: example_server_def)
next
  fix w req w' assume "srv_update example_server w req = Some w'"
  then obtain s where s: "fst w = Some s" "s_UID s = s_UID req" "s_ResourceVersion s = s_ResourceVersion req"
    and w': "w' = (Some (req\<lparr>s_ResourceVersion := example_fresh w\<rparr>), s_ResourceVersion s # snd w)"
    by (auto simp: example_server_def split: option.splits if_splits)
  then show "\<exists>s v. srv_stored example_server w = Some s \<and> s_UID s = s_UID req \<and> s_ResourceVersion s = s_ResourceVersion req
             \<and> v \<noteq> '''' \<and> \<not> srv_used example_server w v
             \<and> srv_stored example_server w' = Some (req\<lparr>s_ResourceVersion := v\<rparr>)
             \<and> (\<forall>u. srv_used example_server w' u \<longleftrightarrow> u = v \<or> srv_used example_server w u)"
    using example_fresh_unused [of w]
    by (intro exI [of _ s] exI [of _ "example_fresh w"]) (auto simp: example_server_def example_fresh_def)
qed

definition example_registry_store :: secret_store where
  "example_registry_store = \<lparr>st_Namespace = ''kyber'', st_Name = ''ops''\<rparr>"

definition example_secret :: "string \<Rightarrow> secret" where
  "example_secret raw =
     \<lparr>s_Namespace = ''kyber'', s_Name = ''ops'', s_UID = ''u1'', s_ResourceVersion = ''7'', s_Type = SecretTypeOpaque,
      s_Immutable = None, s_Labels = [(ownerLabel, ''v1''), (managedByLabel, ''kyber'')], s_Annotations = [],
      s_OwnerReferences = [], s_Finalizers = [], s_Deleting = False, s_Data = [(dataKey, raw)]\<rparr>"

lemma example_json: "json_laws example_cred_lib"
  by (auto simp: json_laws_def example_cred_lib_def example_schema split: if_splits)

lemma example_read:
  "read_secret example_cred_lib example_registry_store (example_secret ''1'')
     = Inr \<lparr>sn_UID = ''u1'', sn_Version = ''7'', sn_Document = example_before\<rparr>"
proof -
  have "decode example_cred_lib ''1'' = Inr example_before"
    by (rule json_decode(1) [OF example_json example_encoded])
  moreover have "d_Namespace example_before = ''kyber''" by (simp add: example_docs)
  ultimately show ?thesis
    unfolding read_secret_Inr
    by (simp add: example_secret_def example_registry_store_def str_at_def secret_words)
qed

lemma example_replace:
  "replace_request example_cred_lib example_registry_store ''7'' example_after (False, Inr (example_secret ''1''))
     = Inr (example_secret ''2'', example_after)"
proof -
  have "d_Namespace example_after = st_Namespace example_registry_store"
    by (simp add: example_docs example_registry_store_def)
  moreover have "s_Immutable (example_secret ''1'') = None"
    "(example_secret ''1'')\<lparr>s_Data := AList.update dataKey ''2'' (s_Data (example_secret ''1''))\<rparr> = example_secret ''2''"
    by (simp_all add: example_secret_def)
  ultimately show ?thesis
    by (simp add: replace_request_def read_registry_def example_read example_encoded_after example_transition)
qed

definition example_world_start :: example_world where "example_world_start = (Some (example_secret ''1''), [])"

text \<open>Where an update computed from the first object leads.\<close>

lemma example_update:
  assumes "s_UID req = ''u1''" and "s_ResourceVersion req = ''7''"
  shows "srv_update example_server example_world_start req = Some (Some (req\<lparr>s_ResourceVersion := ''x7''\<rparr>), [''7''])"
  using assms by (simp add: example_server_def example_world_start_def example_fresh_def example_secret_def)

lemma example_stored: "srv_stored example_server example_world_start = Some (example_secret ''1'')"
  by (simp add: example_server_def example_world_start_def)

lemma registry_writes_serial_witness:
  "\<exists>s sn. srv_stored example_server (Some ((example_secret ''2'')\<lparr>s_ResourceVersion := ''x7''\<rparr>), [''7'']) = Some s
     \<and> read_secret example_cred_lib example_registry_store s = Inr sn \<and> sn_UID sn = ''u1''
     \<and> (replaces example_cred_lib)\<^sup>*\<^sup>* example_before (sn_Document sn)"
proof -
  let ?step = "registry_step example_cred_lib example_registry_store example_server"
  let ?w = "(Some ((example_secret ''2'')\<lparr>s_ResourceVersion := ''x7''\<rparr>), [''7''])"
  have "?step (example_world_start, []) (example_world_start, [example_secret ''2''])"
    by (rule registry_step.send_replace [OF example_stored example_replace])
  moreover have "?step (example_world_start, [example_secret ''2'']) (?w, [example_secret ''2''])"
    by (rule registry_step.commit [OF _ example_update]) (simp_all add: example_secret_def)
  ultimately have run: "?step\<^sup>*\<^sup>* (example_world_start, []) (?w, [example_secret ''2''])"
    by (intro converse_rtranclp_into_rtranclp [OF _ r_into_rtranclp])
  show ?thesis
    using registry_writes_serial [OF example_optimistic example_json example_stored example_read run] by simp
qed


definition example_authority :: authority_store where
  "example_authority = \<lparr>au_registry = example_registry_store, au_Name = ''authority'', au_observed = False\<rparr>"

definition absent_env :: load_env where
  "absent_env = \<lparr>le_marker = (False, Inl ApiNotFound), le_registry = (False, Inl ApiNotFound), le_observed_meanwhile = False\<rparr>"

definition example_cred_maint :: "maint_lib" where
  "example_cred_maint =
     \<lparr>ml_cred = example_cred_lib, ml_writer_bytes = (\<lambda>w. ''w''),
      ml_writer_parse = (\<lambda>s. Some \<lparr>w_PodName = ''p'', w_PodUID = ''pu'', w_JobName = ''j'', w_JobUID = ''ju'', w_Container = ''upgrade''\<rparr>),
      ml_recovery_bytes = (\<lambda>r. ''r''), ml_recovery_parse = (\<lambda>s. Some \<lparr>rr_OperationID = ''op'', rr_Nonce = ''n''\<rparr>),
      ml_effects_bytes = (\<lambda>r. ''e''), ml_effects_parse = (\<lambda>s. None),
      ml_adoption_bytes = (\<lambda>r. ''a''), ml_adoption_parse = (\<lambda>s. None),
      ml_checkpoint_version = (\<lambda>s. True), ml_time_parse = (\<lambda>s. Some 1)\<rparr>"

lemma configuration_fallback_closed_witness:
  "fst (Load_authority example_cred_lib example_authority absent_env) = Inl ErrUninitialized
     \<and> registry_unsealed (le_registry absent_env)"
proof -
  have l: "Load_authority example_cred_lib example_authority absent_env = (Inl ErrUninitialized, example_authority)"
    by (simp add: Load_authority_def absent_env_def example_authority_def bootstrapState_def)
  then have "fst (Load_authority (ml_cred example_cred_maint)
      (fold (resolver_step example_cred_maint) [CallLoad absent_env] example_authority) absent_env) = Inl ErrUninitialized"
    by (simp add: example_cred_maint_def)
  with l configuration_fallback_closed [OF disjI1, of example_cred_maint "[CallLoad absent_env]" example_authority absent_env]
  show ?thesis by simp
qed

text \<open>An upgrade whose writer has stopped, recovered by an administrator.\<close>

definition example_maint_store :: maintenance_store where
  "example_maint_store = \<lparr>ms_Namespace = ''kyber'', ms_Name = ''m''\<rparr>"

definition example_reservation :: "string \<Rightarrow> (string, string) gomap \<Rightarrow> secret" where
  "example_reservation version annotations =
     \<lparr>s_Namespace = ''kyber'', s_Name = ''m'', s_UID = ''u'', s_ResourceVersion = version, s_Type = SecretTypeOpaque,
      s_Immutable = Some True, s_Labels = [(maintenanceLabel, ''v1''), (managedByLabel, ''kyber'')],
      s_Annotations = annotations, s_OwnerReferences = [], s_Finalizers = [], s_Deleting = False,
      s_Data = [(''protocol'', ''1''), (''owner'', ''o''), (''kind'', ''upgrade''), (''startedAt'', ''t''), (''writer'', ''w'')]\<rparr>"

definition example_pod_spec :: pod_spec where
  "example_pod_spec =
     \<lparr>ps_RestartPolicy = ''Never'', ps_NodeName = ''node'',
      ps_Containers = [\<lparr>k_Name = ''upgrade'', k_Image = ''i'', k_RestartPolicy = None, k_RestartPolicyRules = 0,
        k_Command = [''/usr/local/bin/kyber-upgrade''], k_Args = []\<rparr>],
      ps_InitContainers = 0, ps_EphemeralContainers = 0\<rparr>"

definition example_writer_pod :: writer_pod where
  "example_writer_pod =
     \<lparr>p_Name = ''p'', p_Namespace = ''kyber'', p_UID = ''pu'', p_Deleting = False, p_Labels = [],
      p_OwnerReferences = [\<lparr>ow_APIVersion = ''batch/v1'', ow_Kind = ''Job'', ow_Controller = Some True, ow_UID = ''ju'', ow_Name = ''j''\<rparr>],
      p_Spec = example_pod_spec, p_Phase = ''Succeeded'', p_Reason = '''',
      p_ContainerStatuses = [\<lparr>cs_Name = ''upgrade'', cs_RestartCount = 0,
        cs_Terminated = Some \<lparr>te_FinishedAt = 1, te_ContainerID = ''c'', te_Reason = ''Completed''\<rparr>, cs_ContainerID = ''c''\<rparr>]\<rparr>"

definition example_writer_job :: writer_job where
  "example_writer_job =
     \<lparr>j_Name = ''j'', j_Namespace = ''kyber'', j_UID = ''ju'', j_ResourceVersion = ''5'', j_Deleting = False, j_Labels = [],
      j_Annotations = [(maintenanceExecutionAnnotation, ''o'')], j_BackoffLimit = Some 0, j_BackoffLimitPerIndex = None,
      j_PodFailurePolicy = False, j_SuccessPolicy = False, j_ManagedBy = None, j_CompletionMode = None,
      j_Parallelism = None, j_Completions = None, j_Suspend = None, j_TTLSecondsAfterFinished = None,
      j_Selector = Some \<lparr>ls_MatchLabels = [(controllerUIDLabel, ''ju'')], ls_MatchExpressions = 0\<rparr>,
      j_Template = example_pod_spec, j_Active = 0, j_Conditions = [\<lparr>jc_Type = ''Complete'', jc_Status = ''True''\<rparr>]\<rparr>"

definition example_state_env :: state_env where
  "example_state_env =
     \<lparr>we_inspect = (False, Inr (example_reservation ''7'' [])), we_pod = (False, Inr example_writer_pod),
      we_job = (False, Inr example_writer_job), we_pods = (False, Inr ([example_writer_pod], False)),
      we_latest = (False, Inr (example_reservation ''7'' []))\<rparr>"

definition example_fenced :: secret where
  "example_fenced = example_reservation ''8'' [(maintenanceRecoveryAnnotation, ''r'')]"

definition example_takeover :: takeover_env where
  "example_takeover =
     \<lparr>te_current = (False, Inr (example_reservation ''7'' [])), te_update = (False, None), te_confirmed = (False, Inr example_fenced)\<rparr>"

lemma example_reservation_valid:
  "validate_reservation example_cred_maint example_maint_store (example_reservation ''7'' []) = None"
  "validate_reservation example_cred_maint example_maint_store example_fenced = None"
  by code_simp+

lemma example_prepared:
  "PrepareRecovery example_cred_maint example_maint_store (False, Inr (example_reservation ''7'' [])) example_state_env
     example_takeover ''n'' ''u'' ''7'' ''op'' ''''
   = (Inr \<lparr>rh_reservation = upgrade_capability example_maint_store
             (Some \<lparr>w_PodName = ''p'', w_PodUID = ''pu'', w_JobName = ''j'', w_JobUID = ''ju'', w_Container = ''upgrade''\<rparr>) example_fenced,
           rh_operationID = ''op'', rh_nonce = ''n''\<rparr>, Some (annotate maintenanceRecoveryAnnotation ''r'' (example_reservation ''7'' [])))"
  by code_simp


end
