(* ===== verification/Operator_Auth.thy ===== *)
theory Operator_Auth
  imports Browser_Session Credential_Authority
begin

section \<open>Who is calling (\<open>pkg/api\<close>: auth, auth_registry, browser_session_registry, routes_operator_credentials)\<close>

text \<open>
  An authenticator holds the configured keys; when it is wired to the credential authority, every
  request is resolved against the authority's current document instead, and a compiled document
  (\<open>registry_credentials\<close>) answers it. Constant-time comparisons are equality. The clock is an argument
  wherever the code reads it. Log lines and usage observations are left out.
\<close>

subsection \<open>The authenticator\<close>

text \<open>
  \<open>at_wired\<close>: \<open>authority\<close> is not nil; \<open>at_callers\<close>: \<open>callers\<close>, each a key and the caller it stands for.
\<close>

record authenticator =
  at_wired :: bool
  at_observed :: bool
  at_namespace :: string
  at_key :: string
  at_callers :: "(string \<times> caller) list"

definition installationAdminPrincipalID :: string where "installationAdminPrincipalID = ''principal_installation_admin''"
definition installationTenantID :: string where "installationTenantID = ''tenant_installation''"
definition installationAdminCredentialID :: string where "installationAdminCredentialID = ''credential_installation_admin''"

definition installationAdminCaller :: caller where
  "installationAdminCaller =
     \<lparr>ca_Name = ''installation-admin'', ca_PrincipalID = installationAdminPrincipalID, ca_TenantID = installationTenantID,
      ca_Kind = ''installation-admin'', ca_Issuer = ''kyber'', ca_Subject = ''installation-admin-key'',
      ca_CredentialID = installationAdminCredentialID, ca_CredentialGeneration = 1, ca_CredentialAuthority = '''',
      ca_Scopes = newFullScopeSet, ca_AgentResources = newResourceSet [''*''], ca_MachineResources = newResourceSet [''*'']\<rparr>"

definition configured_caller :: "scoped_caller \<Rightarrow> caller" where
  "configured_caller c =
     \<lparr>ca_Name = sc_Name c, ca_PrincipalID = sc_PrincipalID c, ca_TenantID = sc_TenantID c, ca_Kind = sc_Kind c,
      ca_Issuer = sc_Issuer c, ca_Subject = sc_Subject c, ca_CredentialID = sc_CredentialID c,
      ca_CredentialGeneration = sc_CredentialGeneration c, ca_CredentialAuthority = '''',
      ca_Scopes = newScopeSet (sc_Scopes c), ca_AgentResources = newResourceSet (sc_AgentResources c),
      ca_MachineResources = newResourceSet (sc_MachineResources c)\<rparr>"

definition stored_key :: "string \<Rightarrow> string" where
  "stored_key key = (if blank key then '''' else key)"

definition NewAPIKeyAuthenticator :: "string \<Rightarrow> scoped_caller list \<Rightarrow> authenticator" where
  "NewAPIKeyAuthenticator key callers =
     \<lparr>at_wired = False, at_observed = False, at_namespace = '''', at_key = stored_key key,
      at_callers = map (\<lambda>c. (sc_Key c, configured_caller c)) (filter (\<lambda>c. \<not> blank (sc_Key c)) callers)\<rparr>"

definition SetKey :: "string \<Rightarrow> authenticator \<Rightarrow> authenticator" where
  "SetKey key a = a\<lparr>at_key := stored_key key\<rparr>"

datatype auth_error =
    BearerRequired | HeaderMissing | KeyMissing | KeyInvalid | SessionExpired | OperatorAuthorityUnavailable
  | CallerMissing | CredentialInvalid

text \<open>\<open>strings.EqualFold\<close> with the word Bearer, whose letters fold within ASCII only.\<close>

definition is_bearer :: "string \<Rightarrow> bool" where
  "is_bearer s \<longleftrightarrow> map ascii_lower s = ''bearer''"

definition presentedKey :: "operator_request \<Rightarrow> auth_error + string" where
  "presentedKey r =
     (if hr_Authorization r \<noteq> '''' then
        (case cut_at CHR '' '' (hr_Authorization r) of
           None \<Rightarrow> Inl BearerRequired
         | Some (scheme, key) \<Rightarrow> if is_bearer scheme then Inr key else Inl BearerRequired)
      else if hr_WebSocket r \<and> hr_Token r \<noteq> '''' then Inr (hr_Token r)
      else Inl HeaderMissing)"

text \<open>The cookie that authenticates a request, when no header does.\<close>

definition session_cookie :: "operator_request \<Rightarrow> string option" where
  "session_cookie r =
     (if hr_Authorization r = '''' then (case hr_Cookie r of Some v \<Rightarrow> if v = '''' then None else Some v | None \<Rightarrow> None)
      else None)"

text \<open>The last entry with the presented key, as the loop leaves it.\<close>

definition last_match :: "string \<Rightarrow> (string \<times> caller) list \<Rightarrow> caller option" where
  "last_match k entries = fold (\<lambda>(key, c) matched. if k = key then Some c else matched) entries None"

subsection \<open>Configured keys\<close>

definition scopedCallerKey :: "authenticator \<Rightarrow> string \<Rightarrow> string option" where
  "scopedCallerKey a name =
     (case filter (\<lambda>(key, c). ca_Name c = name) (at_callers a) of [(key, c)] \<Rightarrow> Some key | _ \<Rightarrow> None)"

definition createConfiguredBrowserSession ::
  "session_lib \<Rightarrow> authenticator \<Rightarrow> caller \<Rightarrow> time \<Rightarrow> session_error + string" where
  "createConfiguredBrowserSession sl a c now =
     (if ss_full (ca_Scopes c) then signBrowserSession sl (at_key a) c '''' now browserSessionTTL
      else case scopedCallerKey a (ca_Name c) of
        None \<Rightarrow> Inl CallerGone
      | Some key \<Rightarrow>
          (case browserSessionKeyBinding sl (at_key a) key of
             Inl e \<Rightarrow> Inl e
           | Inr binding \<Rightarrow> signBrowserSession sl (at_key a) c binding now browserSessionTTL))"

definition names_caller :: "browser_claims \<Rightarrow> caller \<Rightarrow> bool" where
  "names_caller claims c \<longleftrightarrow>
     (if bc_PrincipalID claims \<noteq> ''''
      then ca_PrincipalID c = bc_PrincipalID claims \<and> ca_CredentialID c = bc_CredentialID claims
           \<and> ca_CredentialGeneration c = bc_CredentialGeneration claims
      else ca_Name c = bc_Name claims)"

definition callerForSession :: "session_lib \<Rightarrow> authenticator \<Rightarrow> browser_claims \<Rightarrow> session_error + caller" where
  "callerForSession sl a claims =
     (if bc_FullScope claims then (if at_key a = '''' then Inl SharedKeyGone else Inr installationAdminCaller)
      else if 1 < length (filter (\<lambda>(key, c). names_caller claims c) (at_callers a)) then Inl AmbiguousIdentity
      else case List.find (\<lambda>(key, c). names_caller claims c) (rev (at_callers a)) of
        None \<Rightarrow> Inl CallerGone
      | Some (key, c) \<Rightarrow>
          (case browserSessionKeyBinding sl (at_key a) key of
             Inl e \<Rightarrow> Inl e
           | Inr binding \<Rightarrow> if binding \<noteq> bc_KeyBinding claims then Inl KeyReplaced else Inr c))"

definition authenticateConfigured ::
  "session_lib \<Rightarrow> authenticator \<Rightarrow> operator_request \<Rightarrow> time \<Rightarrow> auth_error + caller" where
  "authenticateConfigured sl a r now =
     (case session_cookie r of
        Some cookie \<Rightarrow>
          (case verifyBrowserSession sl (at_key a) cookie now of
             Inl _ \<Rightarrow> Inl SessionExpired
           | Inr claims \<Rightarrow> (case callerForSession sl a claims of Inl _ \<Rightarrow> Inl SessionExpired | Inr c \<Rightarrow> Inr c))
      | None \<Rightarrow>
          (case presentedKey r of
             Inl e \<Rightarrow> Inl e
           | Inr k \<Rightarrow>
               if blank k then Inl KeyMissing
               else let matched = (if k = at_key a then Some installationAdminCaller else last_match k (at_callers a))
                    in case matched of None \<Rightarrow> Inl KeyInvalid | Some c \<Rightarrow> Inr c))"

subsection \<open>The compiled registry\<close>

definition credentialPermissions_of :: "string \<Rightarrow> string list" where
  "credentialPermissions_of sc =
     (if sc = ScopeLifecycleWrite \<or> sc = ScopeLifecycleAdmin then
        [''Start, stop, and restart allowed Agents'',
         ''Change their models, runtime versions, CPU, memory, and disk allocation'',
         ''Restart or compact their sessions'', ''Repair their runtimes'']
        @ (if sc = ScopeLifecycleAdmin then [''Delete allowed Agents or require reauthentication''] else [])
      else if sc = ScopeTasksCreate then [''Submit tasks'']
      else if sc = ScopeTasksRead then [''Read owned tasks'']
      else if sc = ScopeTasksList then [''List owned tasks'']
      else if sc = ScopeTasksContinue then [''Respond to task interactions'']
      else if sc = ScopeTasksCancel then [''Cancel owned tasks'']
      else if sc = ScopeTaskResultsRead then [''Read task results'']
      else if sc = ScopeTaskEventsRead then [''Read task events'']
      else if sc = ScopeRequestsWrite then [''Submit Agent requests and task actions'']
      else if sc = ScopeRequestsRead then [''Read Agent requests and owned task data'']
      else if sc = ScopeCapabilitiesRead then [''Read published Agent capabilities'']
      else if sc = ScopeCapabilitiesWrite then [''Publish or remove Agent capabilities'']
      else if sc = ScopeUsageRead then [''Read observed token usage'']
      else if sc = ScopeAgentExec then [''Open terminals and run commands on allowed Agents'']
      else if sc = ScopeMachineExec then [''Open host terminals and run commands on allowed Machines'']
      else if sc = ScopeSecretsList then [''List user credential names and metadata on allowed Agents'']
      else if sc = ScopeSecretsRead then [''Read user credential values on allowed Agents'']
      else if sc = ScopeSecretsWrite then [''Create, replace, or delete user credentials on allowed Agents'']
      else if sc = ScopeLogsRead then [''Read operational logs on allowed Agents'']
      else if sc = ScopeTranscriptsRead then [''Read conversation transcripts on allowed Agents'']
      else if sc = ScopeMachineLogsRead then [''Read host operational logs on allowed Machines'']
      else if sc = ScopeMetricsRead then [''Read fleet operational metrics'']
      else if sc = ScopeArchivesAdmin
      then [''Export and import allowed Agent disks, including local files and credentials'']
      else if sc = ScopeTasksAdmin \<or> sc = ScopeTasksPlatformAdmin
      then [''Reserved task permission; no additional access'']
      else [''Unknown permission''])"

text \<open>Each permission once, at its first place.\<close>

definition credentialPermissions :: "string list \<Rightarrow> string list" where
  "credentialPermissions scopes = rev (remdups (rev (concat (map credentialPermissions_of scopes))))"

text \<open>One row of the inventory; times are kept as times, not text.\<close>

record credential_view =
  cv_ID :: string
  cv_PrincipalID :: string
  cv_TenantID :: string
  cv_Name :: string
  cv_AccessLevel :: string
  cv_State :: string
  cv_Source :: string
  cv_Scopes :: "string list"
  cv_AgentResources :: "string list"
  cv_MachineResources :: "string list"
  cv_Permissions :: "string list"
  cv_CreatedAt :: "time option"
  cv_ExpiresAt :: "time option"

record registry_credentials =
  rg_adoptionPending :: bool
  rg_version :: string
  rg_uid :: string
  rg_entries :: "(string \<times> caller) list"
  rg_byID :: "(string, string \<times> caller) gomap"
  rg_compatibilityKey :: string
  rg_compatibilityGeneration :: "64 word"
  rg_issuedBefore :: time
  rg_expiresBefore :: time
  rg_legacyGenerations :: "(string, 64 word) gomap"
  rg_inventory :: "credential_view list"

definition credentialAdoptionPending :: "document \<Rightarrow> bool" where
  "credentialAdoptionPending d \<longleftrightarrow> list_ex (\<lambda>p. op_Action p = ''adopt'' \<and> op_Status p = ''pending'') (d_Operations d)"

definition lapsed :: "time \<Rightarrow> credential \<Rightarrow> bool" where
  "lapsed now c \<longleftrightarrow> (case c_ExpiresAt c of None \<Rightarrow> False | Some t \<Rightarrow> \<not> now < t)"

definition validOperatorHTTPKey :: "string \<Rightarrow> bool" where
  "validOperatorHTTPKey key \<longleftrightarrow>
     key \<noteq> '''' \<and> last key \<noteq> CHR '' '' \<and> last key \<noteq> CHR 0x09
     \<and> list_all (\<lambda>c. (of_char c :: nat) \<noteq> 127 \<and> \<not> ((of_char c :: nat) < 32 \<and> c \<noteq> CHR 0x09)) key"

definition view_of :: "time \<Rightarrow> credential \<Rightarrow> credential_view" where
  "view_of now c =
     (let admin = (c_Role c = RoleAdministrator) in
      \<lparr>cv_ID = c_ID c, cv_PrincipalID = c_PrincipalID c, cv_TenantID = c_TenantID c, cv_Name = c_Name c,
       cv_AccessLevel = c_Role c,
       cv_State = (if c_State c = StateRevoked then ''revoked'' else if lapsed now c then ''expired'' else ''accepted''),
       cv_Source = (if so_Kind (c_Source c) = ''installation'' then ''managed'' else so_Kind (c_Source c)),
       cv_Scopes = c_Scopes c,
       cv_AgentResources = (if admin then [''*''] else c_AgentResources c),
       cv_MachineResources = (if admin then [''*''] else c_MachineResources c),
       cv_Permissions = (if admin then [''Full access to this Kyber installation''] else credentialPermissions (c_Scopes c)),
       cv_CreatedAt = c_CreatedAt c, cv_ExpiresAt = c_ExpiresAt c\<rparr>)"

definition registry_caller :: "credential \<Rightarrow> caller" where
  "registry_caller c =
     (let admin = (c_Role c = RoleAdministrator) in
      \<lparr>ca_Name = c_Name c, ca_PrincipalID = c_PrincipalID c, ca_TenantID = c_TenantID c, ca_Kind = c_Kind c,
       ca_Issuer = c_Issuer c, ca_Subject = c_Subject c, ca_CredentialID = c_ID c,
       ca_CredentialGeneration = c_Generation c, ca_CredentialAuthority = ''registry'',
       ca_Scopes = (if admin then newFullScopeSet else newScopeSet (c_Scopes c)),
       ca_AgentResources = newResourceSet (if admin then [''*''] else c_AgentResources c),
       ca_MachineResources = newResourceSet (if admin then [''*''] else c_MachineResources c)\<rparr>)"

text \<open>One pass of the loop; an unsupported grant or an unusable key is the error of the whole.\<close>

definition compile_credential :: "time \<Rightarrow> credential \<Rightarrow> registry_credentials \<Rightarrow> registry_credentials option" where
  "compile_credential now c rg =
     (if \<not> list_all validScope (c_Scopes c) then None
      else let rg1 = rg\<lparr>rg_inventory := rg_inventory rg @ [view_of now c]\<rparr> in
           if c_State c \<noteq> StateActive \<or> lapsed now c then Some rg1
           else if \<not> validOperatorHTTPKey (c_material c) then None
           else Some (rg1\<lparr>rg_entries := rg_entries rg @ [(c_material c, registry_caller c)],
                          rg_byID := AList.update (c_ID c) (c_material c, registry_caller c) (rg_byID rg),
                          rg_legacyGenerations :=
                            AList.update (c_ID c) (c_legacyBrowserGeneration c) (rg_legacyGenerations rg)\<rparr>))"

fun compile_credentials :: "time \<Rightarrow> credential list \<Rightarrow> registry_credentials \<Rightarrow> registry_credentials option" where
  "compile_credentials now [] rg = Some rg"
| "compile_credentials now (c # cs) rg =
     (case compile_credential now c rg of None \<Rightarrow> None | Some rg' \<Rightarrow> compile_credentials now cs rg')"

definition compileRegistryCredentials :: "cred_lib \<Rightarrow> document \<Rightarrow> time \<Rightarrow> registry_credentials option" where
  "compileRegistryCredentials cl d now =
     (if Validate cl d \<noteq> None then None
      else compile_credentials now (d_Credentials d)
        \<lparr>rg_adoptionPending = credentialAdoptionPending d, rg_version = '''', rg_uid = '''', rg_entries = [], rg_byID = [],
         rg_compatibilityKey = d_legacyKey d, rg_compatibilityGeneration = d_legacyGeneration d,
         rg_issuedBefore = d_legacyIssuedBefore d, rg_expiresBefore = d_legacyExpiresBefore d,
         rg_legacyGenerations = [], rg_inventory = []\<rparr>)"

subsection \<open>Resolving the authority of a request\<close>

datatype resolved = Configured authenticator | Registry registry_credentials

text \<open>
  \<open>loaded\<close> is what the authority's \<open>Load\<close> returns. The result is the authority of this one operation
  (\<open>None\<close>: unavailable) and the authenticator with its flag.
\<close>

definition resolve ::
  "cred_lib \<Rightarrow> authenticator \<Rightarrow> cred_error + snapshot \<Rightarrow> time \<Rightarrow> resolved option \<times> authenticator" where
  "resolve cl a loaded now =
     (if \<not> at_wired a then (Some (Configured a), a)
      else case loaded of
        Inl e \<Rightarrow>
          if e = ErrUninitialized then (if at_observed a then None else Some (Configured a), a)
          else (None, a)
      | Inr sn \<Rightarrow>
          let a' = a\<lparr>at_observed := True\<rparr> in
          if sn_Version sn = '''' \<or> d_Namespace (sn_Document sn) \<noteq> at_namespace a then (None, a')
          else case compileRegistryCredentials cl (sn_Document sn) now of
            None \<Rightarrow> (None, a')
          | Some rg \<Rightarrow> (Some (Registry (rg\<lparr>rg_version := sn_Version sn, rg_uid := sn_UID sn\<rparr>)), a'))"

subsection \<open>Sessions of the registry\<close>

definition sameCredentialIdentity :: "caller \<Rightarrow> caller \<Rightarrow> bool" where
  "sameCredentialIdentity current presented \<longleftrightarrow>
     ca_PrincipalID current = ca_PrincipalID presented \<and> ca_TenantID current = ca_TenantID presented
     \<and> ca_CredentialID current = ca_CredentialID presented
     \<and> ca_CredentialGeneration current = ca_CredentialGeneration presented"

definition registrySessionKey :: "session_lib \<Rightarrow> string \<Rightarrow> session_error + string" where
  "registrySessionKey sl material =
     (if material = '''' then Inl NoBrowserSessionKey else Inr (sl_hkdf sl material ''kyber-browser-session-v2''))"

definition registry_claims_of :: "caller \<Rightarrow> time \<Rightarrow> registry_claims" where
  "registry_claims_of c now =
     \<lparr>rc_CredentialID = ca_CredentialID c, rc_PrincipalID = ca_PrincipalID c, rc_TenantID = ca_TenantID c,
      rc_Generation = ca_CredentialGeneration c, rc_IssuedAt = to_unix now, rc_ExpiresAt = to_unix (now + browserSessionTTL)\<rparr>"

definition registry_createBrowserSession ::
  "session_lib \<Rightarrow> registry_credentials \<Rightarrow> caller \<Rightarrow> time \<Rightarrow> session_error + string" where
  "registry_createBrowserSession sl rg c now =
     (case map_of (rg_byID rg) (ca_CredentialID c) of
        None \<Rightarrow> Inl CredentialGone
      | Some (material, current) \<Rightarrow>
          if \<not> sameCredentialIdentity current c then Inl CredentialGone
          else (case registrySessionKey sl material of
                  Inl e \<Rightarrow> Inl e
                | Inr key \<Rightarrow> Inr (sealed_token sl key
                    (''v2.'' @ EncodeToString (sl_registry_json sl (registry_claims_of c now))))))"

text \<open>The bounds on issue and expiry that both kinds of claims must meet; all four are int64.\<close>

definition session_window :: "int \<Rightarrow> int \<Rightarrow> time \<Rightarrow> bool" where
  "session_window issued expires now \<longleftrightarrow>
     946684800 \<le> issued \<and> issued \<le> to_unix (now + minute) \<and> issued < expires
     \<and> wrap64 (expires - issued) \<le> browserSessionTTL div second"

text \<open>
  The two tests of the installation's preserved record: its identity and generation, and that its
  own legacy generation is current.
\<close>

definition installation_entry :: "registry_credentials \<Rightarrow> caller option" where
  "installation_entry rg =
     (case map_of (rg_byID rg) installationAdminCredentialID of
        None \<Rightarrow> None
      | Some (_, c) \<Rightarrow>
          if ca_PrincipalID c = installationAdminPrincipalID \<and> ca_TenantID c = installationTenantID
             \<and> ca_CredentialGeneration c = rg_compatibilityGeneration rg
             \<and> (case map_of (rg_legacyGenerations rg) (ca_CredentialID c) of None \<Rightarrow> 0 | Some g \<Rightarrow> g)
               = ca_CredentialGeneration c
          then Some c else None)"

definition legacy_match :: "session_lib \<Rightarrow> registry_credentials \<Rightarrow> browser_claims \<Rightarrow> string \<times> caller \<Rightarrow> bool" where
  "legacy_match sl rg claims entry \<longleftrightarrow>
     (let c = snd entry;
          g = (case map_of (rg_legacyGenerations rg) (ca_CredentialID c) of None \<Rightarrow> 0 | Some g \<Rightarrow> g) in
      g \<noteq> 0 \<and> g = ca_CredentialGeneration c
      \<and> (bc_PrincipalID claims = ''''
         \<or> (bc_PrincipalID claims = ca_PrincipalID c \<and> bc_CredentialID claims = ca_CredentialID c
            \<and> bc_CredentialGeneration claims = ca_CredentialGeneration c))
      \<and> binding_of sl (rg_compatibilityKey rg) (fst entry) = bc_KeyBinding claims)"

definition compatibleBrowserCaller ::
  "session_lib \<Rightarrow> registry_credentials \<Rightarrow> string \<Rightarrow> time \<Rightarrow> (caller \<times> time) option" where
  "compatibleBrowserCaller sl rg token now =
     (case verifyBrowserSessionWithSigningKey sl (rg_compatibilityKey rg) token now of
        Inl _ \<Rightarrow> None
      | Inr claims \<Rightarrow>
          if rg_issuedBefore rg = 0 \<or> rg_expiresBefore rg = 0 \<or> \<not> now < rg_expiresBefore rg
             \<or> to_unix (rg_expiresBefore rg) < bc_ExpiresAt claims \<or> to_unix (rg_issuedBefore rg) < bc_IssuedAt claims
             \<or> \<not> session_window (bc_IssuedAt claims) (bc_ExpiresAt claims) now
          then None
          else case installation_entry rg of
            None \<Rightarrow> None
          | Some installation \<Rightarrow>
              if bc_FullScope claims then
                if bc_PrincipalID claims \<noteq> '''' \<and> bc_PrincipalID claims \<noteq> installationAdminPrincipalID then None
                else if bc_CredentialID claims \<notin> set ['''', installationAdminCredentialID, ''credential_legacy_shared_key''] then None
                else if (bc_CredentialGeneration claims = 0 \<and> ca_CredentialGeneration installation \<noteq> 1)
                        \<or> (bc_CredentialGeneration claims \<noteq> 0
                           \<and> bc_CredentialGeneration claims \<noteq> ca_CredentialGeneration installation) then None
                else Some (installation, from_unix (bc_ExpiresAt claims))
              else if \<not> ss_full (ca_Scopes installation) then None
              else (case filter (legacy_match sl rg claims) (rg_entries rg) of
                      [(_, c)] \<Rightarrow> Some (c, from_unix (bc_ExpiresAt claims))
                    | _ \<Rightarrow> None))"

definition browserCaller ::
  "session_lib \<Rightarrow> registry_credentials \<Rightarrow> string \<Rightarrow> time \<Rightarrow> (caller \<times> time) option" where
  "browserCaller sl rg token now =
     (if 4096 < length token then None
      else if HasPrefix token ''v1.'' then compatibleBrowserCaller sl rg token now
      else case split_on CHR ''.'' token of
        [version, encoded, mac] \<Rightarrow>
          if version \<noteq> ''v2'' then None
          else (case Option.bind (DecodeString encoded) (sl_json_registry sl) of
            None \<Rightarrow> None
          | Some claims \<Rightarrow>
              (case map_of (rg_byID rg) (rc_CredentialID claims) of
                 None \<Rightarrow> None
               | Some (material, c) \<Rightarrow>
                   (case registrySessionKey sl material of
                      Inl _ \<Rightarrow> None
                    | Inr key \<Rightarrow>
                        if DecodeString mac \<noteq> Some (sl_mac sl key (version @ ''.'' @ encoded)) then None
                        else if rc_PrincipalID claims \<noteq> ca_PrincipalID c \<or> rc_TenantID claims \<noteq> ca_TenantID c
                                \<or> rc_Generation claims \<noteq> ca_CredentialGeneration c
                                \<or> \<not> now < from_unix (rc_ExpiresAt claims)
                                \<or> \<not> session_window (rc_IssuedAt claims) (rc_ExpiresAt claims) now
                        then None
                        else Some (c, from_unix (rc_ExpiresAt claims)))))
      | _ \<Rightarrow> None)"

definition registry_authenticate ::
  "session_lib \<Rightarrow> registry_credentials \<Rightarrow> operator_request \<Rightarrow> time \<Rightarrow> auth_error + caller" where
  "registry_authenticate sl rg r now =
     (case session_cookie r of
        Some cookie \<Rightarrow> (case browserCaller sl rg cookie now of None \<Rightarrow> Inl SessionExpired | Some (c, _) \<Rightarrow> Inr c)
      | None \<Rightarrow>
          (case presentedKey r of
             Inl e \<Rightarrow> Inl e
           | Inr k \<Rightarrow>
               if blank k then Inl KeyMissing
               else (case last_match k (rg_entries rg) of None \<Rightarrow> Inl KeyInvalid | Some c \<Rightarrow> Inr c)))"

subsection \<open>The operations of the authenticator\<close>

text \<open>\<open>now\<close> is the clock when the document is compiled, \<open>later\<close> the clock of the check.\<close>

definition Authenticate ::
  "cred_lib \<Rightarrow> session_lib \<Rightarrow> authenticator \<Rightarrow> cred_error + snapshot \<Rightarrow> operator_request \<Rightarrow> time \<Rightarrow> time
     \<Rightarrow> (auth_error + caller) \<times> authenticator" where
  "Authenticate cl sl a loaded r now later =
     (case resolve cl a loaded now of
        (None, a') \<Rightarrow> (Inl OperatorAuthorityUnavailable, a')
      | (Some (Configured b), a') \<Rightarrow> (authenticateConfigured sl b r later, a')
      | (Some (Registry rg), a') \<Rightarrow> (registry_authenticate sl rg r later, a'))"

definition createBrowserSession ::
  "cred_lib \<Rightarrow> session_lib \<Rightarrow> authenticator \<Rightarrow> cred_error + snapshot \<Rightarrow> caller \<Rightarrow> time \<Rightarrow> time
     \<Rightarrow> (session_error + string) \<times> authenticator" where
  "createBrowserSession cl sl a loaded c now later =
     (case resolve cl a loaded now of
        (None, a') \<Rightarrow> (Inl AuthorityUnavailable, a')
      | (Some (Configured b), a') \<Rightarrow> (createConfiguredBrowserSession sl b c later, a')
      | (Some (Registry rg), a') \<Rightarrow> (registry_createBrowserSession sl rg c later, a'))"

definition credentialKey ::
  "cred_lib \<Rightarrow> authenticator \<Rightarrow> cred_error + snapshot \<Rightarrow> caller option \<Rightarrow> time
     \<Rightarrow> (auth_error + string) \<times> authenticator" where
  "credentialKey cl a loaded c now =
     (case c of
        None \<Rightarrow> (Inl CallerMissing, a)
      | Some c \<Rightarrow>
          (case resolve cl a loaded now of
             (None, a') \<Rightarrow> (Inl OperatorAuthorityUnavailable, a')
           | (Some (Configured b), a') \<Rightarrow>
               (if ss_full (ca_Scopes c) then Inr (at_key b)
                else case scopedCallerKey b (ca_Name c) of None \<Rightarrow> Inl CredentialInvalid | Some key \<Rightarrow> Inr key, a')
           | (Some (Registry rg), a') \<Rightarrow>
               (case map_of (rg_byID rg) (ca_CredentialID c) of
                  None \<Rightarrow> Inl CredentialInvalid
                | Some (material, current) \<Rightarrow>
                    if sameCredentialIdentity current c then Inr material else Inl CredentialInvalid, a')))"

text \<open>Renewal: the cookie to set, if any. \<open>reloaded\<close> is the second \<open>Load\<close>, made by \<open>CreateBrowserSession\<close>.\<close>

definition renewConfiguredBrowserSession ::
  "cred_lib \<Rightarrow> session_lib \<Rightarrow> authenticator \<Rightarrow> cred_error + snapshot \<Rightarrow> operator_request \<Rightarrow> time \<Rightarrow> string option \<times> authenticator" where
  "renewConfiguredBrowserSession cl sl a reloaded r now =
     (if hr_Authorization r \<noteq> '''' \<or> hr_WebSocket r then (None, a)
      else case session_cookie r of
        None \<Rightarrow> (None, a)
      | Some cookie \<Rightarrow>
          (case verifyBrowserSession sl (at_key a) cookie now of
             Inl _ \<Rightarrow> (None, a)
           | Inr claims \<Rightarrow>
               if browserSessionRenewAfter < from_unix (bc_ExpiresAt claims) - now then (None, a)
               else (case callerForSession sl a claims of
                       Inl _ \<Rightarrow> (None, a)
                     | Inr c \<Rightarrow>
                         (case createBrowserSession cl sl a reloaded c now now of
                            (Inl _, a') \<Rightarrow> (None, a')
                          | (Inr token, a') \<Rightarrow> (Some token, a')))))"

definition registry_renewBrowserSession ::
  "session_lib \<Rightarrow> registry_credentials \<Rightarrow> operator_request \<Rightarrow> time \<Rightarrow> string option" where
  "registry_renewBrowserSession sl rg r now =
     (if hr_Authorization r \<noteq> '''' \<or> hr_WebSocket r then None
      else case hr_Cookie r of
        None \<Rightarrow> None
      | Some cookie \<Rightarrow>
          (case browserCaller sl rg cookie now of
             None \<Rightarrow> None
           | Some (c, expiry) \<Rightarrow>
               if \<not> HasPrefix cookie ''v1.'' \<and> browserSessionRenewAfter < expiry - now then None
               else (case registry_createBrowserSession sl rg c now of Inl _ \<Rightarrow> None | Inr token \<Rightarrow> Some token)))"

definition RenewBrowserSession ::
  "cred_lib \<Rightarrow> session_lib \<Rightarrow> authenticator \<Rightarrow> cred_error + snapshot \<Rightarrow> cred_error + snapshot \<Rightarrow> operator_request \<Rightarrow> time
     \<Rightarrow> string option \<times> authenticator" where
  "RenewBrowserSession cl sl a loaded reloaded r now =
     (if hr_Authorization r \<noteq> '''' \<or> hr_WebSocket r then (None, a)
      else case resolve cl a loaded now of
        (None, a') \<Rightarrow> (None, a')
      | (Some (Configured b), a') \<Rightarrow> renewConfiguredBrowserSession cl sl a' reloaded r now
      | (Some (Registry rg), a') \<Rightarrow> (registry_renewBrowserSession sl rg r now, a'))"

subsection \<open>The middleware and the routes that hand out keys and cookies\<close>

text \<open>
  \<open>url.Parse\<close> of an origin and \<open>strings.EqualFold\<close>, whose Unicode tables are not modelled, are the
  parameters \<open>parse\<close> and \<open>fold_eq\<close>.
\<close>

record parsed_url =
  pu_Scheme :: string
  pu_Host :: string
  pu_User :: bool
  pu_RawQuery :: string
  pu_Fragment :: string
  pu_Path :: string

record origin_headers =
  og_Origin :: string
  og_Host :: string
  og_TLS :: bool
  og_ForwardedProto :: string

definition sameOriginRequest ::
  "(string \<Rightarrow> parsed_url option) \<Rightarrow> (string \<Rightarrow> string \<Rightarrow> bool) \<Rightarrow> origin_headers \<Rightarrow> bool" where
  "sameOriginRequest parse fold_eq h =
     (if og_Origin h = '''' then False
      else case parse (og_Origin h) of
        None \<Rightarrow> False
      | Some u \<Rightarrow>
          if pu_User u \<or> pu_RawQuery u \<noteq> '''' \<or> pu_Fragment u \<noteq> '''' \<or> (pu_Path u \<noteq> '''' \<and> pu_Path u \<noteq> ''/'') then False
          else let scheme = (if og_TLS h \<or> fold_eq (og_ForwardedProto h) ''https'' then ''https'' else ''http'')
               in fold_eq (pu_Scheme u) scheme \<and> fold_eq (pu_Host u) (og_Host h))"

definition auth_code :: "auth_error \<Rightarrow> string" where
  "auth_code e = (if e = SessionExpired then ''session_expired'' else ''unauthorized'')"

text \<open>What the middleware answers, or the caller it hands to the next handler and the cookie it sets.\<close>

datatype middleware_outcome = Refused nat string | Handled caller "string option"

record 'a three_loads =
  tl_auth :: 'a
  tl_renew :: 'a
  tl_create :: 'a

definition authMiddleware ::
  "cred_lib \<Rightarrow> session_lib \<Rightarrow> bool \<Rightarrow> authenticator \<Rightarrow> (cred_error + snapshot) three_loads \<Rightarrow> operator_request \<Rightarrow> time \<Rightarrow> time
     \<Rightarrow> middleware_outcome \<times> authenticator" where
  "authMiddleware cl sl same_origin a loads r now later =
     (if hr_Authorization r = '''' \<and> hr_Method r \<notin> set [''GET'', ''HEAD'', ''OPTIONS''] \<and> hr_Cookie r \<noteq> None
         \<and> \<not> same_origin
      then (Refused 403 ''forbidden_origin'', a)
      else case Authenticate cl sl a (tl_auth loads) r now later of
        (Inl e, a') \<Rightarrow>
          (if e = OperatorAuthorityUnavailable then Refused 503 ''authentication_unavailable''
           else Refused 401 (auth_code e), a')
      | (Inr c, a') \<Rightarrow>
          (case RenewBrowserSession cl sl a' (tl_renew loads) (tl_create loads) r later of
             (cookie, a'') \<Rightarrow> (Handled c cookie, a'')))"

datatype session_response = SessionError nat string | SessionCookie string

text \<open>\<open>a = None\<close>: \<open>s.auth\<close> is nil.\<close>

definition handleBrowserSession ::
  "cred_lib \<Rightarrow> session_lib \<Rightarrow> authenticator option \<Rightarrow> (cred_error + snapshot) three_loads \<Rightarrow> operator_request \<Rightarrow> time \<Rightarrow> time
     \<Rightarrow> session_response \<times> authenticator option" where
  "handleBrowserSession cl sl a loads r now later =
     (if hr_Method r \<noteq> ''POST'' then (SessionError 405 ''method_not_allowed'', a)
      else if hr_Authorization r = '''' then (SessionError 401 ''unauthorized'', a)
      else case a of
        None \<Rightarrow> (SessionError 401 ''unauthorized'', a)
      | Some ka \<Rightarrow>
          (case Authenticate cl sl ka (tl_auth loads) r now later of
             (Inl e, ka1) \<Rightarrow>
               (if e = OperatorAuthorityUnavailable then SessionError 503 ''authentication_unavailable''
                else SessionError 401 ''unauthorized'', Some ka1)
           | (Inr c, ka1) \<Rightarrow>
               (case createBrowserSession cl sl ka1 (tl_create loads) c now later of
                  (Inl e, ka2) \<Rightarrow>
                    (if e = AuthorityUnavailable then SessionError 503 ''authentication_unavailable''
                     else if e = NoBrowserSessionKey then SessionError 503 ''session_unavailable''
                     else SessionError 500 ''session_creation_failed'', Some ka2)
                | (Inr token, ka2) \<Rightarrow> (SessionCookie token, Some ka2))))"

text \<open>
  The gate in front of management operations; \<open>audited\<close> says whether the audit store took the decision.
  A decision that cannot be recorded is refused when it was to allow.
\<close>

definition management_check :: "string \<Rightarrow> caller \<Rightarrow> string \<Rightarrow> string \<Rightarrow> string \<Rightarrow> bool \<Rightarrow> bool" where
  "management_check ns c kind name scope installationWide =
     (if scope = '''' then ss_full (ca_Scopes c)
      else if \<not> scope_Has (ca_Scopes c) scope then False
      else let resources = (if kind = ''machine'' then ca_MachineResources c else ca_AgentResources c)
           in if installationWide then rs_all resources else resource_Has resources (ns @ ''/'' @ name))"

definition requireManagementAudit ::
  "string \<Rightarrow> bool \<Rightarrow> caller option \<Rightarrow> string \<Rightarrow> string \<Rightarrow> string \<Rightarrow> bool \<Rightarrow> (nat \<times> string) option" where
  "requireManagementAudit ns audited c kind name scope installationWide =
     (let allowed = (case c of None \<Rightarrow> False | Some c \<Rightarrow> management_check ns c kind name scope installationWide) in
      if allowed \<and> (case c of None \<Rightarrow> False
                     | Some c \<Rightarrow> ca_PrincipalID c = '''' \<or> ca_CredentialID c = '''' \<or> ca_CredentialGeneration c = 0)
      then Some (403, ''credential_identity_required'')
      else if \<not> audited \<and> allowed then Some (503, ''security_audit_unavailable'')
      else if \<not> allowed then Some (403, ''forbidden'') else None)"

definition hex_digit :: "nat \<Rightarrow> char" where
  "hex_digit n = char_of (if n < 10 then n + 48 else n + 87)"

definition hex_EncodeToString :: "string \<Rightarrow> string" where
  "hex_EncodeToString s = concat (map (\<lambda>c. [hex_digit (of_char c div 16), hex_digit (of_char c mod 16)]) s)"

definition generateAPIKey :: "string option \<Rightarrow> string option" where
  "generateAPIKey random = map_option hex_EncodeToString random"

text \<open>
  The world of a rotation: the configured Secret's name, whether a credential authority is wired, the
  answers of the audit store and of the random source (32 bytes), the Secret's data or the error of
  the read, and the error of the patch.
\<close>

record rotate_env =
  ro_secretName :: string
  ro_authority :: bool
  ro_loaded :: "cred_error + snapshot"
  ro_reloaded :: "cred_error + snapshot"
  ro_audited :: bool
  ro_random :: "string option"
  ro_secret :: "api_error + (string, string) gomap"
  ro_patch :: "api_error option"

datatype rotate_response = RotateError nat string | Rotated string "string option"

text \<open>\<open>patchAPIKeySecret\<close>: the data sent, when the read succeeded, and the error.\<close>

definition patchAPIKeySecret ::
  "rotate_env \<Rightarrow> string \<Rightarrow> (string, string) gomap option \<times> api_error option" where
  "patchAPIKeySecret env newKey =
     (case ro_secret env of
        Inl e \<Rightarrow> (None, Some e)
      | Inr data \<Rightarrow> (Some (AList.update ''api-key'' newKey data), ro_patch env))"

text \<open>From the new key on: \<open>ka\<close> is the authenticator after the resolution.\<close>

definition rotate_key ::
  "cred_lib \<Rightarrow> session_lib \<Rightarrow> authenticator \<Rightarrow> rotate_env \<Rightarrow> operator_request \<Rightarrow> caller option \<Rightarrow> time
     \<Rightarrow> rotate_response \<times> authenticator \<times> (string, string) gomap option" where
  "rotate_key cl sl ka env r c now =
     (case generateAPIKey (ro_random env) of
        None \<Rightarrow> (RotateError 500 ''key_generation_failed'', ka, None)
      | Some newKey \<Rightarrow>
          (case patchAPIKeySecret env newKey of
             (sent, Some e) \<Rightarrow>
               (RotateError 500 (if e = ApiNotFound then ''secret_not_found'' else ''secret_update_failed''), ka, sent)
           | (sent, None) \<Rightarrow>
               let ka2 = SetKey newKey ka in
               if hr_Cookie r = None then (Rotated newKey None, ka2, sent)
               else (case createBrowserSession cl sl ka2 (ro_reloaded env) (the c) now now of
                       (Inl _, ka3) \<Rightarrow> (Rotated newKey None, ka3, sent)
                     | (Inr token, ka3) \<Rightarrow> (Rotated newKey (Some token), ka3, sent))))"

definition handleRotateAPIKey ::
  "cred_lib \<Rightarrow> session_lib \<Rightarrow> string \<Rightarrow> authenticator option \<Rightarrow> rotate_env \<Rightarrow> operator_request \<Rightarrow> caller option \<Rightarrow> time
     \<Rightarrow> rotate_response \<times> authenticator option \<times> (string, string) gomap option" where
  "handleRotateAPIKey cl sl ns a env r c now =
     (if hr_Method r \<noteq> ''POST'' then (RotateError 405 ''method_not_allowed'', a, None)
      else if \<not> requireInstallationAdmin c then (RotateError 403 ''forbidden'', a, None)
      else if ro_authority env then (RotateError 409 ''credential_management_required'', a, None)
      else if ro_secretName env = '''' then (RotateError 503 ''rotation_unavailable'', a, None)
      else case a of
        None \<Rightarrow> (RotateError 500 ''rotation_unavailable'', a, None)
      | Some ka \<Rightarrow>
          (case resolve cl ka (ro_loaded env) now of
             (None, ka1) \<Rightarrow> (RotateError 503 ''authentication_unavailable'', Some ka1, None)
           | (Some (Registry rg), ka1) \<Rightarrow> (RotateError 409 ''credential_management_required'', Some ka1, None)
           | (Some (Configured b), ka1) \<Rightarrow>
               (case requireManagementAudit ns (ro_audited env) c ''credential'' installationAdminCredentialID '''' False of
                  Some (status, code) \<Rightarrow> (RotateError status code, Some ka1, None)
                | None \<Rightarrow>
                    (case rotate_key cl sl ka1 env r c now of (resp, ka2, sent) \<Rightarrow> (resp, Some ka2, sent)))))"

end
