(* ===== verification/Operator_Auth_Properties.thy ===== *)
theory Operator_Auth_Properties
  imports Operator_Auth
begin

section \<open>What authentication guarantees\<close>

text \<open>
  First what a compiled document holds, then what each way in proves: a bearer key, a cookie of the
  registry, a preserved cookie. The properties compose these with the history of the registry
  and with the authority's own fallback.
\<close>

subsection \<open>What a compiled document holds\<close>

definition usable :: "time \<Rightarrow> credential \<Rightarrow> bool" where
  "usable now c \<longleftrightarrow> c_State c = StateActive \<and> \<not> lapsed now c"

definition entry_of :: "credential \<Rightarrow> string \<times> caller" where
  "entry_of c = (c_material c, registry_caller c)"

lemma compile_credential_cases:
  assumes "compile_credential now c rg = Some rg'"
  shows "list_all validScope (c_Scopes c)" and "usable now c \<Longrightarrow> validOperatorHTTPKey (c_material c)"
    and "rg_inventory rg' = rg_inventory rg @ [view_of now c]"
    and "rg_entries rg' = rg_entries rg @ (if usable now c then [entry_of c] else [])"
    and "map_of (rg_byID rg') = (if usable now c then (map_of (rg_byID rg))(c_ID c \<mapsto> entry_of c) else map_of (rg_byID rg))"
    and "rg_compatibilityKey rg' = rg_compatibilityKey rg" and "rg_expiresBefore rg' = rg_expiresBefore rg"
  using assms
  by (auto simp: compile_credential_def usable_def entry_of_def Let_def alist_lookup_update split: if_splits)

lemma compile_credentials_content:
  assumes "compile_credentials now cs rg = Some rg'" and "distinct (map c_ID cs)"
  shows "(\<forall>c\<in>set cs. list_all validScope (c_Scopes c) \<and> (usable now c \<longrightarrow> validOperatorHTTPKey (c_material c)))
    \<and> rg_inventory rg' = rg_inventory rg @ map (view_of now) cs
    \<and> rg_entries rg' = rg_entries rg @ map entry_of (filter (usable now) cs)
    \<and> (\<forall>i e. map_of (rg_byID rg') i = Some e \<longleftrightarrow>
          (\<exists>c\<in>set cs. usable now c \<and> c_ID c = i \<and> e = entry_of c)
          \<or> map_of (rg_byID rg) i = Some e \<and> (\<forall>c\<in>set cs. usable now c \<longrightarrow> c_ID c \<noteq> i))
    \<and> rg_compatibilityKey rg' = rg_compatibilityKey rg \<and> rg_expiresBefore rg' = rg_expiresBefore rg"
  using assms
proof (induction cs arbitrary: rg)
  case (Cons c cs)
  obtain rg1 where rg1: "compile_credential now c rg = Some rg1" "compile_credentials now cs rg1 = Some rg'"
    using Cons.prems(1) by (auto split: option.splits)
  note one = compile_credential_cases [OF rg1(1)]
  have rest: "distinct (map c_ID cs)" and no: "c_ID c \<notin> c_ID ` set cs" using Cons.prems(2) by simp_all
  have new: "\<forall>c'\<in>set cs. c_ID c' \<noteq> c_ID c" using no by (metis imageI)
  note more = Cons.IH [OF rg1(2) rest]
  have ids: "map_of (rg_byID rg') i = Some e \<longleftrightarrow>
      (\<exists>c'\<in>set (c # cs). usable now c' \<and> c_ID c' = i \<and> e = entry_of c')
      \<or> map_of (rg_byID rg) i = Some e \<and> (\<forall>c'\<in>set (c # cs). usable now c' \<longrightarrow> c_ID c' \<noteq> i)" for i e
  proof -
    have "map_of (rg_byID rg') i = Some e \<longleftrightarrow>
      (\<exists>c\<in>set cs. usable now c \<and> c_ID c = i \<and> e = entry_of c)
      \<or> map_of (rg_byID rg1) i = Some e \<and> (\<forall>c\<in>set cs. usable now c \<longrightarrow> c_ID c \<noteq> i)" using more by blast
    then show ?thesis using one(5) new by (cases "usable now c"; cases "i = c_ID c") auto
  qed
  show ?case using more one(1-4,6,7) ids by (cases "usable now c") simp_all
qed simp

lemma compiled_document:
  assumes "compileRegistryCredentials cl d now = Some rg"
  shows "Validate cl d = None"
    and "\<And>c. c \<in> set (d_Credentials d) \<Longrightarrow> list_all validScope (c_Scopes c)"
    and "\<And>c. c \<in> set (d_Credentials d) \<Longrightarrow> usable now c \<Longrightarrow> validOperatorHTTPKey (c_material c)"
    and "rg_inventory rg = map (view_of now) (d_Credentials d)"
    and "rg_entries rg = map entry_of (filter (usable now) (d_Credentials d))"
    and "\<And>i e. map_of (rg_byID rg) i = Some e \<longleftrightarrow>
           (\<exists>c\<in>set (d_Credentials d). usable now c \<and> c_ID c = i \<and> e = entry_of c)"
    and "rg_compatibilityKey rg = d_legacyKey d" and "rg_expiresBefore rg = d_legacyExpiresBefore d"
proof -
  show v: "Validate cl d = None" using assms by (simp add: compileRegistryCredentials_def split: if_split_asm)
  note all = compile_credentials_content [OF _ validated_document(1) [OF v]]
  from assms v obtain rg0 where run: "compile_credentials now (d_Credentials d) rg0 = Some rg"
    and rg0: "rg_inventory rg0 = []" "rg_entries rg0 = []" "rg_byID rg0 = []" "rg_compatibilityKey rg0 = d_legacyKey d"
      "rg_expiresBefore rg0 = d_legacyExpiresBefore d"
    by (auto simp: compileRegistryCredentials_def)
  note facts = all [OF run, unfolded rg0]
  show "\<And>c. c \<in> set (d_Credentials d) \<Longrightarrow> list_all validScope (c_Scopes c)"
    and "\<And>c. c \<in> set (d_Credentials d) \<Longrightarrow> usable now c \<Longrightarrow> validOperatorHTTPKey (c_material c)"
    and "rg_inventory rg = map (view_of now) (d_Credentials d)"
    and "rg_entries rg = map entry_of (filter (usable now) (d_Credentials d))"
    and "rg_compatibilityKey rg = d_legacyKey d" and "rg_expiresBefore rg = d_legacyExpiresBefore d"
    using facts by simp_all
  show "\<And>i e. map_of (rg_byID rg) i = Some e \<longleftrightarrow>
      (\<exists>c\<in>set (d_Credentials d). usable now c \<and> c_ID c = i \<and> e = entry_of c)"
    using facts by (simp del: split_paired_All)
qed

subsection \<open>Bearer keys\<close>

lemma last_match_append: "last_match k (es @ [(key, c)]) = (if k = key then Some c else last_match k es)"
  by (simp add: last_match_def)

lemma last_match_in: "last_match k es = Some c \<Longrightarrow> (k, c) \<in> set es"
  by (induction es rule: rev_induct) (auto simp: last_match_append last_match_def split: if_split_asm)

lemma last_match_distinct:
  "distinct (map fst es) \<Longrightarrow> last_match k es = Some c \<longleftrightarrow> (k, c) \<in> set es"
proof (induction es rule: rev_induct)
  case (snoc e es)
  obtain key c' where e: "e = (key, c')" by (cases e)
  then show ?case using snoc by (force simp: last_match_append)
qed (simp add: last_match_def)

lemma last_match_none: "last_match k es = None \<longleftrightarrow> k \<notin> fst ` set es"
proof (induction es rule: rev_induct)
  case (snoc e es)
  then show ?case by (cases e) (simp add: last_match_append)
qed (simp add: last_match_def)

lemma usable_materials:
  assumes "Validate cl d = None"
  shows "distinct (map c_material (filter (usable now) (d_Credentials d)))"
proof -
  have "filter (usable now) (d_Credentials d)
      = filter (\<lambda>c. \<not> lapsed now c) (filter (\<lambda>c. c_State c = StateActive) (d_Credentials d))"
    unfolding filter_filter by (rule filter_cong) (auto simp: usable_def)
  then show ?thesis
    using validated_document(2) [OF assms] distinct_map_filter unfolding active_materials_def by metis
qed

lemma bearer_header:
  assumes "hr_Authorization r = ''Bearer '' @ k"
  shows "session_cookie r = None" and "presentedKey r = Inr k"
proof -
  have "is_bearer ''Bearer''" by code_simp
  then show "session_cookie r = None" and "presentedKey r = Inr k"
    using assms by (simp_all add: session_cookie_def presentedKey_def)
qed

text \<open>
  C29: With the registry in charge a bearer key is accepted exactly when it is the material of a
  credential of the current document that is active and has not expired; that credential is unique, and
  the caller is its identity with the grants the document gives it now. The match never
  depends on the order of the document.
\<close>

theorem bearer_names_one_credential:
  assumes "compileRegistryCredentials cl d now = Some rg" and "hr_Authorization r = ''Bearer '' @ k"
  shows "registry_authenticate sl rg r later = Inr who \<longleftrightarrow>
    (\<exists>c\<in>set (d_Credentials d). usable now c \<and> c_material c = k \<and> who = registry_caller c
       \<and> (\<forall>c'\<in>set (d_Credentials d). usable now c' \<and> c_material c' = k \<longrightarrow> c' = c))"
proof -
  let ?cs = "filter (usable now) (d_Credentials d)"
  note doc = compiled_document [OF assms(1)]
  note distinct = usable_materials [OF doc(1), of now]
  have entries: "map fst (rg_entries rg) = map c_material ?cs" by (simp add: doc(5) entry_of_def)
  have nonblank: "\<not> blank (c_material c)" if "c \<in> set ?cs" for c
    using that validated_document(3) [OF doc(1), of c]
    by (auto simp: material_ok_def usable_def blank_def registry_words)
  have unique: "c' = c" if "c \<in> set ?cs" "c' \<in> set ?cs" "c_material c' = c_material c" for c c'
    using distinct that by (auto simp: distinct_map inj_on_def)
  have "registry_authenticate sl rg r later = Inr who \<longleftrightarrow> \<not> blank k \<and> last_match k (rg_entries rg) = Some who"
    unfolding registry_authenticate_def bearer_header [OF assms(2)] by (simp split: option.split)
  also have "\<dots> \<longleftrightarrow> \<not> blank k \<and> (k, who) \<in> set (rg_entries rg)"
    using last_match_distinct [of "rg_entries rg"] distinct entries by simp
  also have "\<dots> \<longleftrightarrow> (\<exists>c\<in>set ?cs. c_material c = k \<and> who = registry_caller c)"
    using nonblank by (auto simp: doc(5) entry_of_def)
  also have "\<dots> \<longleftrightarrow> (\<exists>c\<in>set (d_Credentials d). usable now c \<and> c_material c = k \<and> who = registry_caller c
       \<and> (\<forall>c'\<in>set (d_Credentials d). usable now c' \<and> c_material c' = k \<longrightarrow> c' = c))"
    using unique by auto
  finally show ?thesis .
qed

subsection \<open>Cookies\<close>

text \<open>What an accepted cookie of the registry's own kind carries.\<close>

definition carries_mac :: "session_lib \<Rightarrow> string \<Rightarrow> string \<Rightarrow> bool" where
  "carries_mac sl key token \<longleftrightarrow>
     (\<exists>msg tag. token = msg @ ''.'' @ tag \<and> CHR ''.'' \<notin> set tag \<and> DecodeString tag = Some (sl_mac sl key msg))"

lemma split_three:
  assumes "split_on c s = [a, b, d]"
  shows "s = a @ c # b @ c # d" and "c \<notin> set a" and "c \<notin> set b" and "c \<notin> set d"
proof -
  show "s = a @ c # b @ c # d" using join_split [of c s] unfolding assms by simp
  show "c \<notin> set a" and "c \<notin> set b" and "c \<notin> set d"
    using split_on_pieces [of _ c s] unfolding assms by simp_all
qed

lemma compatible_sound:
  assumes "compatibleBrowserCaller sl rg token now = Some (who, expiry)"
  shows "now < expiry" and "now < rg_expiresBefore rg" and "carries_mac sl (rg_compatibilityKey rg) token"
    and "(\<exists>i key. map_of (rg_byID rg) i = Some (key, who)) \<or> (\<exists>key. (key, who) \<in> set (rg_entries rg))"
proof -
  from assms obtain claims where v: "verifyBrowserSessionWithSigningKey sl (rg_compatibilityKey rg) token now = Inr claims"
    by (auto simp: compatibleBrowserCaller_def split: sum.splits)
  have expiry: "expiry = from_unix (bc_ExpiresAt claims)" and before: "now < rg_expiresBefore rg"
    using assms v by (auto simp: compatibleBrowserCaller_def split: option.splits if_splits list.splits)
  from verify_sound [OF v] obtain enc tag where t: "token = ''v1.'' @ enc @ ''.'' @ tag" "CHR ''.'' \<notin> set tag"
    "DecodeString tag = Some (sl_mac sl (rg_compatibilityKey rg) (''v1.'' @ enc))" "now < from_unix (bc_ExpiresAt claims)"
    by metis
  show "now < expiry" using expiry t(4) by simp
  show "now < rg_expiresBefore rg" by (rule before)
  show "carries_mac sl (rg_compatibilityKey rg) token"
    unfolding carries_mac_def using t(1,2,3) by (metis append_assoc)
  from assms v obtain installation where inst: "installation_entry rg = Some installation"
    by (auto simp: compatibleBrowserCaller_def split: option.splits if_splits)
  then have held: "\<exists>i key. map_of (rg_byID rg) i = Some (key, installation)"
    by (auto simp: installation_entry_def split: option.splits if_splits) blast+
  show "(\<exists>i key. map_of (rg_byID rg) i = Some (key, who)) \<or> (\<exists>key. (key, who) \<in> set (rg_entries rg))"
  proof (cases "bc_FullScope claims")
    case True
    then have "who = installation"
      using assms v inst by (auto simp: compatibleBrowserCaller_def split: if_splits)
    with held show ?thesis by blast
  next
    case False
    then obtain key where "filter (legacy_match sl rg claims) (rg_entries rg) = [(key, who)]"
      using assms v inst by (auto simp: compatibleBrowserCaller_def split: if_splits list.splits)
    then have "(key, who) \<in> set (filter (legacy_match sl rg claims) (rg_entries rg))" by simp
    then have "(key, who) \<in> set (rg_entries rg)" by simp
    then show ?thesis by blast
  qed
qed

lemma own_cookie_sound:
  assumes "browserCaller sl rg token now = Some (who, expiry)" and "\<not> HasPrefix token ''v1.''"
  obtains material i where "map_of (rg_byID rg) i = Some (material, who)" and "now < expiry"
    and "carries_mac sl (sl_hkdf sl material ''kyber-browser-session-v2'') token"
proof -
  from assms obtain encoded mac where parts: "split_on CHR ''.'' token = [''v2'', encoded, mac]"
    by (auto simp: browserCaller_def split: if_splits list.splits)
  from assms parts obtain claims where claims: "Option.bind (DecodeString encoded) (sl_json_registry sl) = Some claims"
    by (auto simp: browserCaller_def split: if_splits option.splits)
  from assms parts claims obtain material c where entry: "map_of (rg_byID rg) (rc_CredentialID claims) = Some (material, c)"
    by (auto simp: browserCaller_def split: if_splits option.splits)
  from assms parts claims entry obtain key where key: "registrySessionKey sl material = Inr key"
    by (auto simp: browserCaller_def split: if_splits sum.splits)
  have rest: "DecodeString mac = Some (sl_mac sl key (''v2'' @ ''.'' @ encoded))" "now < from_unix (rc_ExpiresAt claims)"
    "who = c" "expiry = from_unix (rc_ExpiresAt claims)"
    using assms parts claims entry key by (auto simp: browserCaller_def split: if_splits)
  have "key = sl_hkdf sl material ''kyber-browser-session-v2''"
    using key by (auto simp: registrySessionKey_def split: if_splits)
  moreover have "carries_mac sl key token"
    unfolding carries_mac_def using split_three(1,4) [OF parts] rest(1) by (metis append.assoc append_Cons append_Nil)
  ultimately show thesis using that entry rest by simp
qed

text \<open>Every cookie names a credential of the document as it is now.\<close>

lemma cookie_names_credential:
  assumes "compileRegistryCredentials cl d compiled = Some rg"
    and "browserCaller sl rg token now = Some (who, expiry)"
  obtains c where "c \<in> set (d_Credentials d)" and "usable compiled c" and "who = registry_caller c" and "now < expiry"
    and "carries_mac sl (sl_hkdf sl (c_material c) ''kyber-browser-session-v2'') token
         \<or> carries_mac sl (d_legacyKey d) token \<and> now < d_legacyExpiresBefore d"
proof (cases "HasPrefix token ''v1.''")
  case True
  note doc = compiled_document [OF assms(1)]
  have "compatibleBrowserCaller sl rg token now = Some (who, expiry)"
    using assms(2) True by (simp add: browserCaller_def split: if_splits)
  note s = compatible_sound [OF this]
  from s(4) have "\<exists>c\<in>set (d_Credentials d). usable compiled c \<and> who = registry_caller c"
    unfolding doc(5) using doc(6) by (auto simp: entry_of_def)
  then show thesis using that s(1,2,3) doc(7,8) by auto
next
  case False
  note doc = compiled_document [OF assms(1)]
  obtain material i where m: "map_of (rg_byID rg) i = Some (material, who)" "now < expiry"
    "carries_mac sl (sl_hkdf sl material ''kyber-browser-session-v2'') token"
    using own_cookie_sound [OF assms(2) False] .
  from m(1) doc(6) obtain c where "c \<in> set (d_Credentials d)" "usable compiled c" "(material, who) = entry_of c" by auto
  then show thesis using that m(2,3) by (simp add: entry_of_def)
qed

subsection \<open>The authenticator\<close>

lemma resolve_flag:
  assumes "resolve cl a loaded now = (res, a')"
  shows "at_wired a' = at_wired a" and "at_observed a \<Longrightarrow> at_observed a'" and "at_key a' = at_key a"
    and "at_callers a' = at_callers a" and "at_namespace a' = at_namespace a"
    and "res = Some (Configured b) \<Longrightarrow> b = a \<and> a' = a \<and> (at_wired a \<longrightarrow> \<not> at_observed a \<and> loaded = Inl ErrUninitialized)"
    and "res = Some (Registry rg) \<Longrightarrow> at_observed a'"
  using assms by (auto simp: resolve_def Let_def split: if_splits sum.splits option.splits)

lemma resolve_registry:
  assumes "resolve cl a loaded now = (Some (Registry rg), a')"
  obtains sn rg0 where "loaded = Inr sn" and "compileRegistryCredentials cl (sn_Document sn) now = Some rg0"
    and "rg = rg0\<lparr>rg_version := sn_Version sn, rg_uid := sn_UID sn\<rparr>" and "d_Namespace (sn_Document sn) = at_namespace a"
    and "sn_Version sn \<noteq> ''''" and "at_wired a"
  using assms by (auto simp: resolve_def Let_def split: if_splits sum.splits option.splits)

text \<open>Stamping the version and uid changes nothing a request is checked against.\<close>

lemma stamped:
  "registry_authenticate sl (rg\<lparr>rg_version := v, rg_uid := u\<rparr>) r now = registry_authenticate sl rg r now"
  "browserCaller sl (rg\<lparr>rg_version := v, rg_uid := u\<rparr>) token now = browserCaller sl rg token now"
proof -
  have fields: "rg_byID (rg\<lparr>rg_version := v, rg_uid := u\<rparr>) = rg_byID rg"
    "rg_entries (rg\<lparr>rg_version := v, rg_uid := u\<rparr>) = rg_entries rg"
    "rg_compatibilityKey (rg\<lparr>rg_version := v, rg_uid := u\<rparr>) = rg_compatibilityKey rg"
    "rg_compatibilityGeneration (rg\<lparr>rg_version := v, rg_uid := u\<rparr>) = rg_compatibilityGeneration rg"
    "rg_issuedBefore (rg\<lparr>rg_version := v, rg_uid := u\<rparr>) = rg_issuedBefore rg"
    "rg_expiresBefore (rg\<lparr>rg_version := v, rg_uid := u\<rparr>) = rg_expiresBefore rg"
    "rg_legacyGenerations (rg\<lparr>rg_version := v, rg_uid := u\<rparr>) = rg_legacyGenerations rg"
    by simp_all
  have inst: "installation_entry (rg\<lparr>rg_version := v, rg_uid := u\<rparr>) = installation_entry rg"
    unfolding installation_entry_def fields ..
  have legacy: "legacy_match sl (rg\<lparr>rg_version := v, rg_uid := u\<rparr>) = legacy_match sl rg"
    by (intro ext) (simp add: legacy_match_def)
  have compat: "compatibleBrowserCaller sl (rg\<lparr>rg_version := v, rg_uid := u\<rparr>) token now = compatibleBrowserCaller sl rg token now"
    for token
    unfolding compatibleBrowserCaller_def inst legacy fields ..
  show cookie: "browserCaller sl (rg\<lparr>rg_version := v, rg_uid := u\<rparr>) token now = browserCaller sl rg token now" for token
    unfolding browserCaller_def compat fields ..
  show "registry_authenticate sl (rg\<lparr>rg_version := v, rg_uid := u\<rparr>) r now = registry_authenticate sl rg r now"
    unfolding registry_authenticate_def cookie fields ..
qed

lemma presentedKey_cases:
  assumes "presentedKey r = Inr k"
  shows "(\<exists>scheme. is_bearer scheme \<and> hr_Authorization r = scheme @ '' '' @ k)
     \<or> (hr_Authorization r = '''' \<and> hr_WebSocket r \<and> hr_Token r = k)"
proof -
  have split: "s = a @ c # b" if "cut_at c s = Some (a, b)" for c s a b
    using that by (induction s arbitrary: a) (auto split: if_split_asm)
  show ?thesis using assms split by (fastforce simp: presentedKey_def split: if_splits option.splits prod.splits)
qed

lemma registry_authenticate_cases:
  assumes "registry_authenticate sl rg r now = Inr who"
  obtains (cookie) token expiry where "session_cookie r = Some token" and "browserCaller sl rg token now = Some (who, expiry)"
  | (key) k where "session_cookie r = None" and "presentedKey r = Inr k" and "\<not> blank k" and "(k, who) \<in> set (rg_entries rg)"
proof (cases "session_cookie r")
  case None
  then obtain k where "presentedKey r = Inr k" "\<not> blank k" "last_match k (rg_entries rg) = Some who"
    using assms by (auto simp: registry_authenticate_def split: sum.splits if_splits option.splits)
  with None key show thesis using last_match_in by blast
next
  case (Some token)
  with assms cookie show thesis by (auto simp: registry_authenticate_def split: option.splits)
qed

text \<open>Where a caller of the registry comes from: a usable credential, and the proof that it was presented.\<close>

lemma registry_caller_proved:
  assumes "compileRegistryCredentials cl d compiled = Some rg" and "registry_authenticate sl rg r now = Inr who"
  obtains c where "c \<in> set (d_Credentials d)" and "usable compiled c" and "who = registry_caller c"
    and "presentedKey r = Inr (c_material c)
         \<or> (\<exists>token. session_cookie r = Some token
              \<and> (carries_mac sl (sl_hkdf sl (c_material c) ''kyber-browser-session-v2'') token
                 \<or> carries_mac sl (d_legacyKey d) token \<and> now < d_legacyExpiresBefore d))"
  using assms(2)
proof (cases rule: registry_authenticate_cases)
  case (cookie token expiry)
  from cookie_names_credential [OF assms(1) cookie(2)] that cookie(1) show thesis by metis
next
  case (key k)
  then obtain c where "c \<in> set (d_Credentials d)" "usable compiled c" "(k, who) = entry_of c"
    unfolding compiled_document(5) [OF assms(1)] by auto
  then show thesis using that key(2) by (simp add: entry_of_def)
qed

text \<open>
  Whoever the authenticator accepts while the registry is in charge is a credential of the document
  the authority returned for this very request: the document is valid and this installation's, the
  credential is active and unexpired, the caller carries its identity and its present grants, and
  the request presented either its key as bearer key or a cookie whose MAC verifies under a key derived
  from that key, or, until the end of the compatibility window, under the preserved
  legacy signing key. A failed load accepts nobody.
\<close>

theorem authenticated_is_current_credential:
  assumes "at_wired a" and "fst (Authenticate cl sl a (Inr sn) r now later) = Inr who"
  shows "Validate cl (sn_Document sn) = None \<and> d_Namespace (sn_Document sn) = at_namespace a
    \<and> (\<exists>c\<in>set (d_Credentials (sn_Document sn)).
         c_State c = StateActive \<and> (\<forall>t. c_ExpiresAt c = Some t \<longrightarrow> now < t) \<and> who = registry_caller c
         \<and> (presentedKey r = Inr (c_material c)
            \<or> (\<exists>token. session_cookie r = Some token
                 \<and> (carries_mac sl (sl_hkdf sl (c_material c) ''kyber-browser-session-v2'') token
                    \<or> carries_mac sl (d_legacyKey (sn_Document sn)) token
                      \<and> later < d_legacyExpiresBefore (sn_Document sn)))))"
proof -
  obtain res a' where res: "resolve cl a (Inr sn) now = (res, a')" by force
  have "\<nexists>b. res = Some (Configured b)" using resolve_flag(6) [OF res] assms(1) by auto
  with assms(2) res obtain rg where rg: "res = Some (Registry rg)" and auth: "registry_authenticate sl rg r later = Inr who"
    by (auto simp: Authenticate_def split: option.splits resolved.splits)
  from resolve_registry [OF res [unfolded rg]] obtain rg0 where rg0:
    "compileRegistryCredentials cl (sn_Document sn) now = Some rg0"
    "rg = rg0\<lparr>rg_version := sn_Version sn, rg_uid := sn_UID sn\<rparr>" "d_Namespace (sn_Document sn) = at_namespace a"
    by (metis sum.inject(2))
  from registry_caller_proved [OF rg0(1) auth [unfolded rg0(2) stamped]] obtain c where c:
    "c \<in> set (d_Credentials (sn_Document sn))" "usable now c" "who = registry_caller c"
    "presentedKey r = Inr (c_material c)
         \<or> (\<exists>token. session_cookie r = Some token
              \<and> (carries_mac sl (sl_hkdf sl (c_material c) ''kyber-browser-session-v2'') token
                 \<or> carries_mac sl (d_legacyKey (sn_Document sn)) token \<and> later < d_legacyExpiresBefore (sn_Document sn)))" .
  from c(2) have "c_State c = StateActive" "\<forall>t. c_ExpiresAt c = Some t \<longrightarrow> now < t"
    by (auto simp: usable_def lapsed_def)
  with c rg0(3) compiled_document(1) [OF rg0(1)] show ?thesis by blast
qed

lemma registry_caller_fields:
  "ca_CredentialID (registry_caller c) = c_ID c" "ca_PrincipalID (registry_caller c) = c_PrincipalID c"
  "ca_TenantID (registry_caller c) = c_TenantID c" "ca_CredentialGeneration (registry_caller c) = c_Generation c"
  "ca_CredentialAuthority (registry_caller c) = ''registry''"
  by (simp_all add: registry_caller_def Let_def)

lemma Authenticate_registry_cases:
  assumes "at_wired a" and "fst (Authenticate cl sl a loaded r now later) = Inr who" and "at_observed a \<or> loaded \<noteq> Inl ErrUninitialized"
  obtains sn c where "loaded = Inr sn" and "Validate cl (sn_Document sn) = None"
    and "c \<in> set (d_Credentials (sn_Document sn))" and "usable now c" and "who = registry_caller c"
proof -
  obtain res a' where res: "resolve cl a loaded now = (res, a')" by force
  have "\<nexists>b. res = Some (Configured b)" using resolve_flag(6) [OF res] assms(1,3) by auto
  with assms(2) res obtain rg where rg: "res = Some (Registry rg)" and auth: "registry_authenticate sl rg r later = Inr who"
    by (auto simp: Authenticate_def split: option.splits resolved.splits)
  from resolve_registry [OF res [unfolded rg]] obtain sn rg0 where rg0: "loaded = Inr sn"
    "compileRegistryCredentials cl (sn_Document sn) now = Some rg0"
    "rg = rg0\<lparr>rg_version := sn_Version sn, rg_uid := sn_UID sn\<rparr>" by metis
  from registry_caller_proved [OF rg0(2) auth [unfolded rg0(3) stamped]] that [OF rg0(1) compiled_document(1) [OF rg0(2)]]
  show thesis by metis
qed

text \<open>
  C30: Access only moves forward. Take any credential of any earlier document of the registry's
  history: a request accepted later under its id has the same principal and tenant, a generation at
  least as high, and, at the same generation, was accepted for a credential with the same key material.
  If the credential was revoked no request is accepted under its id again, by key or by cookie, whatever
  was written since.
\<close>

theorem access_never_goes_back:
  assumes "(replaces cl)\<^sup>*\<^sup>* d0 (sn_Document sn)" and "validate cl d0 = None" and "c \<in> set (d_Credentials d0)"
    and "at_wired a" and "fst (Authenticate cl sl a (Inr sn) r now later) = Inr who" and "ca_CredentialID who = c_ID c"
  shows "c_State c \<noteq> StateRevoked \<and> ca_PrincipalID who = c_PrincipalID c \<and> ca_TenantID who = c_TenantID c
    \<and> c_Generation c \<le> ca_CredentialGeneration who
    \<and> (ca_CredentialGeneration who = c_Generation c \<longrightarrow>
         (\<exists>c'\<in>set (d_Credentials (sn_Document sn)). who = registry_caller c' \<and> c_material c' = c_material c))"
proof -
  obtain sn' c' where "Inr sn = (Inr sn' :: cred_error + snapshot)" and c': "Validate cl (sn_Document sn') = None"
    "c' \<in> set (d_Credentials (sn_Document sn'))" "usable now c'" "who = registry_caller c'"
    using Authenticate_registry_cases [OF assms(4,5)] by blast
  then have sn': "sn' = sn" by simp
  obtain c'' where c'': "c'' \<in> set (d_Credentials (sn_Document sn))" "evolved c c''"
    using history_evolves [OF assms(1,2)] assms(3) by blast
  have "c_ID c'' = c_ID c'" using c''(2) assms(6) c'(4) by (simp add: evolved_def registry_caller_fields)
  with c''(1) c'(1,2) have same: "c'' = c'"
    using validated_document(1) [OF c'(1)] unfolding sn' by (auto simp: distinct_map inj_on_def)
  have active: "c_State c' \<noteq> StateRevoked" using c'(3) by (simp add: usable_def registry_words)
  show ?thesis
    using c''(2) active c'(2,4) unfolding same evolved_def sn' by (auto simp: registry_caller_fields)
qed

subsection \<open>The cutover from configured keys\<close>

text \<open>Everything that changes an authenticator, in any order.\<close>

datatype auth_call =
    CallAuthenticate "cred_error + snapshot" operator_request time time
  | CallSession "cred_error + snapshot" caller time time
  | CallKey "cred_error + snapshot" "caller option" time
  | CallRenew "cred_error + snapshot" "cred_error + snapshot" operator_request time
  | CallSetKey string

fun auth_step :: "cred_lib \<Rightarrow> session_lib \<Rightarrow> auth_call \<Rightarrow> authenticator \<Rightarrow> authenticator" where
  "auth_step cl sl (CallAuthenticate loaded r now later) a = snd (Authenticate cl sl a loaded r now later)"
| "auth_step cl sl (CallSession loaded c now later) a = snd (createBrowserSession cl sl a loaded c now later)"
| "auth_step cl sl (CallKey loaded c now) a = snd (credentialKey cl a loaded c now)"
| "auth_step cl sl (CallRenew loaded reloaded r now) a = snd (RenewBrowserSession cl sl a loaded reloaded r now)"
| "auth_step cl sl (CallSetKey key) a = SetKey key a"

lemma Authenticate_after: "snd (Authenticate cl sl a loaded r now later) = snd (resolve cl a loaded now)"
  by (auto simp: Authenticate_def split: prod.splits option.splits resolved.splits)

lemma createBrowserSession_after: "snd (createBrowserSession cl sl a loaded c now later) = snd (resolve cl a loaded now)"
  by (auto simp: createBrowserSession_def split: prod.splits option.splits resolved.splits)

lemma credentialKey_after: "snd (credentialKey cl a loaded c now) \<in> {a, snd (resolve cl a loaded now)}"
  by (auto simp: credentialKey_def split: prod.splits option.splits resolved.splits)

lemma renewConfigured_after:
  "snd (renewConfiguredBrowserSession cl sl a reloaded r now) \<in> {a, snd (resolve cl a reloaded now)}"
  using createBrowserSession_after [of cl sl a reloaded _ now now]
  by (auto simp: renewConfiguredBrowserSession_def split: prod.splits option.splits sum.splits if_splits) (metis sndI)+

lemma Renew_after:
  "\<exists>b\<in>{a, snd (resolve cl a loaded now)}.
     snd (RenewBrowserSession cl sl a loaded reloaded r now) \<in> {b, snd (resolve cl b reloaded now)}"
proof (cases "hr_Authorization r \<noteq> '''' \<or> hr_WebSocket r")
  case False
  obtain res b where res: "resolve cl a loaded now = (res, b)" by force
  then show ?thesis
    using False renewConfigured_after [of cl sl b reloaded r now]
    by (auto simp: RenewBrowserSession_def split: option.splits resolved.splits)
qed (simp add: RenewBrowserSession_def)

lemma resolve_keeps:
  "at_wired (snd (resolve cl a loaded now)) = at_wired a"
  "at_observed a \<Longrightarrow> at_observed (snd (resolve cl a loaded now))"
  using resolve_flag(1,2) [of cl a loaded now] by (metis prod.collapse)+

lemma auth_step_keeps:
  "at_wired (auth_step cl sl call a) = at_wired a \<and> (at_observed a \<longrightarrow> at_observed (auth_step cl sl call a))"
proof (cases call)
  case (CallKey loaded c now)
  then show ?thesis using credentialKey_after [of cl a loaded c now] resolve_keeps by auto
next
  case (CallRenew loaded reloaded r now)
  then show ?thesis using Renew_after [of a cl loaded now sl reloaded r] resolve_keeps by auto
qed (simp_all add: Authenticate_after createBrowserSession_after resolve_keeps SetKey_def)

lemma auth_run_keeps:
  "at_wired (fold (auth_step cl sl) calls a) = at_wired a
   \<and> (at_observed a \<longrightarrow> at_observed (fold (auth_step cl sl) calls a))"
  by (induction calls arbitrary: a) (simp_all add: auth_step_keeps)

lemma resolve_observes: "at_wired a \<Longrightarrow> at_observed (snd (resolve cl a (Inr sn) now))"
  by (auto simp: resolve_def Let_def split: option.splits)

text \<open>
  C31: The cutover is final. Once one request of a process was resolved against a registry document the
  authority returned, even a document that was then refused, no configured key and no configured
  caller is accepted any more, whatever is called in between, whatever key is set and whatever the
  authority answers: a later request is accepted only against a registry document
  loaded for it, and as a registry caller.
\<close>

theorem configured_keys_retired:
  assumes "at_wired a" and "CallAuthenticate (Inr sn0) r0 now0 later0 \<in> set calls"
    and "fst (Authenticate cl sl (fold (auth_step cl sl) calls a) loaded r now later) = Inr who"
  shows "(\<exists>sn. loaded = Inr sn) \<and> ca_CredentialAuthority who = ''registry''"
proof -
  obtain before after where calls: "calls = before @ CallAuthenticate (Inr sn0) r0 now0 later0 # after"
    using assms(2) by (auto simp: in_set_conv_decomp)
  let ?seen = "auth_step cl sl (CallAuthenticate (Inr sn0) r0 now0 later0) (fold (auth_step cl sl) before a)"
  have "at_wired (fold (auth_step cl sl) before a)" using auth_run_keeps assms(1) by simp
  then have "at_wired ?seen \<and> at_observed ?seen" by (simp add: Authenticate_after resolve_observes resolve_keeps)
  moreover have "fold (auth_step cl sl) calls a = fold (auth_step cl sl) after ?seen" by (simp add: calls)
  ultimately have "at_wired (fold (auth_step cl sl) calls a)" "at_observed (fold (auth_step cl sl) calls a)"
    using auth_run_keeps [of cl sl after ?seen] by simp_all
  then obtain sn c where "loaded = Inr sn" "who = registry_caller c"
    using Authenticate_registry_cases [OF _ assms(3)] by blast
  then show ?thesis by (simp add: registry_caller_fields)
qed

text \<open>
  Before that the answer \<open>ErrUninitialized\<close> decides, and the credential authority gives it only while
  adoption is out of sight (\<open>Credential_Authority\<close>).
\<close>

lemma configured_only_uninitialized:
  assumes "at_wired a" and "fst (resolve cl a loaded now) = Some (Configured b)"
  shows "loaded = Inl ErrUninitialized \<and> \<not> at_observed a \<and> b = a"
proof -
  obtain a' where "resolve cl a loaded now = (Some (Configured b), a')" using assms(2) by (metis prod.collapse)
  from resolve_flag(6) [OF this] assms(1) show ?thesis by auto
qed

lemma configured_only_out_of_sight:
  assumes "at_wired a" and "fst (Authenticate cl sl a (fst (Load_authority cl au env)) r now later) = Inr who"
    and "ca_CredentialAuthority who \<noteq> ''registry''"
  shows "le_marker env = (False, Inl ApiNotFound)" and "registry_unsealed (le_registry env)"
proof -
  have "fst (Load_authority cl au env) = Inl ErrUninitialized"
    using Authenticate_registry_cases [OF assms(1,2)] assms(3) registry_caller_fields(5) by metis
  then show "le_marker env = (False, Inl ApiNotFound)" and "registry_unsealed (le_registry env)"
    using Load_fallback by blast+
qed

subsection \<open>A cookie follows its credential\<close>

lemma session_window_fresh:
  assumes "validTime t0" and "t0 \<le> now"
  shows "session_window (to_unix t0) (to_unix (t0 + browserSessionTTL)) now"
proof -
  have ttl: "to_unix (t0 + browserSessionTTL) = to_unix t0 + 2592000"
    by (simp add: to_unix_def browserSessionTTL_def duration_units)
  have "946684800 \<le> to_unix t0" using assms(1) by (simp add: validTime_def to_unix_def unix_epoch_def duration_units) linarith
  moreover have "to_unix t0 \<le> to_unix (now + minute)"
    using assms(2) unfolding to_unix_def by (simp add: zdiv_mono1 duration_units)
  moreover have "wrap64 (to_unix (t0 + browserSessionTTL) - to_unix t0) \<le> browserSessionTTL div second"
    unfolding ttl by (simp add: wrap64_def browserSessionTTL_def duration_units)
  ultimately show ?thesis unfolding session_window_def ttl by simp
qed

lemma session_expiry:
  assumes "validTime t0" and "now < t0 + browserSessionTTL - second"
  shows "now < from_unix (to_unix (t0 + browserSessionTTL))"
proof -
  have "fits_int64 ((t0 + browserSessionTTL) div second)"
    using assms(1) by (simp add: fits_int64_def validTime_def browserSessionTTL_def duration_units) linarith
  moreover have "(t0 + browserSessionTTL) mod second < second" by (simp add: duration_units)
  ultimately show ?thesis using assms(2) from_to_unix by simp
qed

lemma sealed_split:
  assumes "CHR ''.'' \<notin> set enc"
  shows "split_on CHR ''.'' (sealed_token sl key (''v2.'' @ enc))
    = [''v2'', enc, EncodeToString (sl_mac sl key (''v2.'' @ enc))]"
  using split_on_append [OF assms] split_on_no_sep [OF Encode_no_dot] by (simp add: sealed_token_def)

lemma registry_cookie:
  assumes "registry_createBrowserSession sl rg c t0 = Inr token" and "hr_Authorization r = ''''" and "hr_Cookie r = Some token"
  shows "session_cookie r = Some token" and "\<not> HasPrefix token ''v1.''"
    and "\<exists>material current. map_of (rg_byID rg) (ca_CredentialID c) = Some (material, current)
       \<and> sameCredentialIdentity current c
       \<and> material \<noteq> '''' \<and> token = sealed_token sl (sl_hkdf sl material ''kyber-browser-session-v2'')
            (''v2.'' @ EncodeToString (sl_registry_json sl (registry_claims_of c t0)))"
proof -
  show made: "\<exists>material current. map_of (rg_byID rg) (ca_CredentialID c) = Some (material, current)
       \<and> sameCredentialIdentity current c
       \<and> material \<noteq> '''' \<and> token = sealed_token sl (sl_hkdf sl material ''kyber-browser-session-v2'')
            (''v2.'' @ EncodeToString (sl_registry_json sl (registry_claims_of c t0)))"
    using assms(1) by (auto simp: registry_createBrowserSession_def registrySessionKey_def split: option.splits if_splits)
  then obtain rest where "token = ''v2.'' @ rest" by (auto simp: sealed_token_def)
  then show "session_cookie r = Some token" and "\<not> HasPrefix token ''v1.''"
    using assms(2,3) by (simp_all add: session_cookie_def HasPrefix_def)
qed

text \<open>The outcome of a fresh cookie of the registry, on any compiled document.\<close>

lemma fresh_cookie_checked:
  assumes "token = sealed_token sl (sl_hkdf sl material ''kyber-browser-session-v2'')
       (''v2.'' @ EncodeToString (sl_registry_json sl (registry_claims_of c t0)))"
    and "length token \<le> 4096" and "sl_json_registry sl (sl_registry_json sl (registry_claims_of c t0)) = Some (registry_claims_of c t0)"
    and "validTime t0" and "t0 \<le> now" and "now < t0 + browserSessionTTL - second" and "material \<noteq> ''''"
  shows "map_of (rg_byID rg) (ca_CredentialID c) = None \<Longrightarrow> browserCaller sl rg token now = None"
    and "map_of (rg_byID rg) (ca_CredentialID c) = Some (m, current) \<Longrightarrow>
      ca_CredentialGeneration current \<noteq> ca_CredentialGeneration c \<Longrightarrow> browserCaller sl rg token now = None"
    and "map_of (rg_byID rg) (ca_CredentialID c) = Some (material, current) \<Longrightarrow>
      sameCredentialIdentity current c \<Longrightarrow> \<exists>expiry. browserCaller sl rg token now = Some (current, expiry)"
proof -
  let ?claims = "registry_claims_of c t0" and ?enc = "EncodeToString (sl_registry_json sl (registry_claims_of c t0))"
  let ?key = "sl_hkdf sl material ''kyber-browser-session-v2''"
  have parts: "split_on CHR ''.'' token = [''v2'', ?enc, EncodeToString (sl_mac sl ?key (''v2.'' @ ?enc))]"
    unfolding assms(1) by (rule sealed_split [OF Encode_no_dot])
  have v2: "\<not> HasPrefix token ''v1.''" by (simp add: assms(1) sealed_token_def HasPrefix_def)
  have size: "\<not> 4096 < length token" using assms(2) by simp
  have claims: "Option.bind (DecodeString ?enc) (sl_json_registry sl) = Some ?claims" by (simp add: Decode_Encode assms(3))
  have id: "rc_CredentialID ?claims = ca_CredentialID c" "rc_Generation ?claims = ca_CredentialGeneration c"
    "rc_PrincipalID ?claims = ca_PrincipalID c" "rc_TenantID ?claims = ca_TenantID c"
    by (simp_all add: registry_claims_of_def)
  have window: "now < from_unix (rc_ExpiresAt ?claims)" "session_window (rc_IssuedAt ?claims) (rc_ExpiresAt ?claims) now"
    using session_expiry [OF assms(4,6)] session_window_fresh [OF assms(4,5)] by (simp_all add: registry_claims_of_def)
  show "map_of (rg_byID rg) (ca_CredentialID c) = None \<Longrightarrow> browserCaller sl rg token now = None"
    unfolding browserCaller_def parts by (simp add: size v2 claims [simplified] id)
  show "map_of (rg_byID rg) (ca_CredentialID c) = Some (m, current) \<Longrightarrow>
      ca_CredentialGeneration current \<noteq> ca_CredentialGeneration c \<Longrightarrow> browserCaller sl rg token now = None"
    unfolding browserCaller_def parts by (auto simp: size v2 claims [simplified] id split: sum.split)
  show "map_of (rg_byID rg) (ca_CredentialID c) = Some (material, current) \<Longrightarrow>
      sameCredentialIdentity current c \<Longrightarrow> \<exists>expiry. browserCaller sl rg token now = Some (current, expiry)"
    unfolding browserCaller_def parts
    using assms(7) window by (simp add: size v2 assms(3) id sameCredentialIdentity_def registrySessionKey_def Decode_Encode)
qed

text \<open>
  C32: A browser cookie follows its credential, not the moment it was issued. A cookie the registry
  issued under one document is checked under any later document of the history, within its thirty days:
  if the credential it names is still active, unexpired and at the same generation the request is
  accepted as that credential with the grants it has now; if it has been given a new key,
  was revoked or has expired, the session is over. The cookie itself carries no grant.
\<close>

theorem cookie_follows_credential:
  assumes "compileRegistryCredentials cl d compiled = Some rg" and "registry_createBrowserSession sl rg who t0 = Inr token"
    and "(replaces cl)\<^sup>*\<^sup>* d d'" and "compileRegistryCredentials cl d' compiled' = Some rg'"
    and "c' \<in> set (d_Credentials d')" and "c_ID c' = ca_CredentialID who"
    and "hr_Authorization r = ''''" and "hr_Cookie r = Some token" and "length token \<le> 4096"
    and "sl_json_registry sl (sl_registry_json sl (registry_claims_of who t0)) = Some (registry_claims_of who t0)"
    and "validTime t0" and "t0 \<le> now" and "now < t0 + browserSessionTTL - second"
  shows "registry_authenticate sl rg' r now =
    (if c_State c' = StateActive \<and> \<not> lapsed compiled' c' \<and> c_Generation c' = ca_CredentialGeneration who
     then Inr (registry_caller c') else Inl SessionExpired)"
proof -
  note doc = compiled_document [OF assms(1)] and doc' = compiled_document [OF assms(4)]
  note cookie = registry_cookie [OF assms(2,7,8)]
  from cookie(3) obtain material current where made: "map_of (rg_byID rg) (ca_CredentialID who) = Some (material, current)"
    "sameCredentialIdentity current who" "material \<noteq> ''''"
    "token = sealed_token sl (sl_hkdf sl material ''kyber-browser-session-v2'')
       (''v2.'' @ EncodeToString (sl_registry_json sl (registry_claims_of who t0)))" by blast
  note checked = fresh_cookie_checked [OF made(4) assms(9-13) made(3)]
  from made(1) doc(6) obtain c where c: "c \<in> set (d_Credentials d)" "material = c_material c" "current = registry_caller c"
    "c_ID c = ca_CredentialID who" by (auto simp: entry_of_def)
  obtain c'' where c'': "c'' \<in> set (d_Credentials d')" "evolved c c''"
    using validated_evolves [OF assms(3) doc(1) c(1)] .
  have "c_ID c'' = c_ID c'" using c''(2) c(4) assms(6) by (simp add: evolved_def)
  with c''(1) assms(5) have same: "c'' = c'" using validated_document(1) [OF doc'(1)] by (auto simp: distinct_map inj_on_def)
  have only: "map_of (rg_byID rg') (ca_CredentialID who) = (if usable compiled' c' then Some (entry_of c') else None)"
  proof -
    have "map_of (rg_byID rg') (ca_CredentialID who) = Some e \<longleftrightarrow> usable compiled' c' \<and> e = entry_of c'" for e
      using doc'(6) [of "ca_CredentialID who" e] assms(5,6) validated_document(1) [OF doc'(1)]
      by (auto simp: distinct_map inj_on_def)
    then show ?thesis by (metis (full_types) not_None_eq)
  qed
  have auth: "registry_authenticate sl rg' r now =
      (case browserCaller sl rg' token now of None \<Rightarrow> Inl SessionExpired | Some (c, _) \<Rightarrow> Inr c)"
    by (simp add: registry_authenticate_def cookie(1))
  show ?thesis
  proof (cases "usable compiled' c'")
    case False
    then show ?thesis using auth checked(1) [of rg'] only by (auto simp: usable_def)
  next
    case True
    then have entry: "map_of (rg_byID rg') (ca_CredentialID who) = Some (c_material c', registry_caller c')"
      using only by (simp add: entry_of_def)
    show ?thesis
    proof (cases "c_Generation c' = ca_CredentialGeneration who")
      case True
      have "c_Generation c = ca_CredentialGeneration who"
        using made(2) c(3) by (simp add: sameCredentialIdentity_def registry_caller_fields)
      then have "c_material c' = material" "sameCredentialIdentity (registry_caller c') who"
        using c''(2) \<open>usable compiled' c'\<close> True made(2) c(2,3) unfolding same
        by (auto simp: evolved_def sameCredentialIdentity_def registry_caller_fields usable_def registry_words)
      then show ?thesis using auth checked(3) [of rg' "registry_caller c'"] entry \<open>usable compiled' c'\<close> True
        by (auto simp: usable_def)
    next
      case False
      then have "browserCaller sl rg' token now = None"
        using checked(2) [OF entry] by (simp add: registry_caller_fields)
      with auth False show ?thesis by simp
    qed
  qed
qed

subsection \<open>Configured keys\<close>

lemma configured_cookie:
  assumes "createConfiguredBrowserSession sl a c t0 = Inr token" and "hr_Authorization r = ''''" and "hr_Cookie r = Some token"
    and "length (sl_hkdf sl (at_key a) ''kyber-browser-session-v1'') = 32"
    and "\<And>binding. sl_json_claims sl (sl_claims_json sl (claims_of c binding t0 browserSessionTTL)) = Some (claims_of c binding t0 browserSessionTTL)"
    and "validTime t0" and "now < t0 + browserSessionTTL - second"
  obtains binding where "verifyBrowserSession sl (at_key a) token now = Inr (claims_of c binding t0 browserSessionTTL)"
    and "session_cookie r = Some token" and "at_key a \<noteq> ''''"
    and "\<not> ss_full (ca_Scopes c) \<Longrightarrow> \<exists>key. scopedCallerKey a (ca_Name c) = Some key
           \<and> binding = binding_of sl (sl_hkdf sl (at_key a) ''kyber-browser-session-v1'') key"
proof -
  let ?key = "sl_hkdf sl (at_key a) ''kyber-browser-session-v1''"
  from assms(1) obtain binding where binding:
    "token = sealed_token sl ?key (''v1.'' @ EncodeToString (sl_claims_json sl (claims_of c binding t0 browserSessionTTL)))"
    "at_key a \<noteq> ''''"
    "\<not> ss_full (ca_Scopes c) \<longrightarrow> (\<exists>key. scopedCallerKey a (ca_Name c) = Some key \<and> binding = binding_of sl ?key key)"
    by (auto simp: createConfiguredBrowserSession_def signBrowserSession_def browserSessionKeyBinding_def
        browserSessionSigningKey_def split: if_splits option.splits sum.splits)
  have "now < from_unix (bc_ExpiresAt (claims_of c binding t0 browserSessionTTL))"
    using session_expiry [OF assms(6,7)] by (simp add: claims_of_def)
  from verify_sealed [OF assms(4,5) this] binding(1,2)
  have "verifyBrowserSession sl (at_key a) token now = Inr (claims_of c binding t0 browserSessionTTL)"
    by (simp add: verifyBrowserSession_def browserSessionSigningKey_def)
  moreover have "session_cookie r = Some token"
    using binding(1) assms(2,3) by (simp add: session_cookie_def sealed_token_def)
  ultimately show thesis using that binding(2,3) by blast
qed

text \<open>Signing in with the shared key gives a cookie that stands for the installation administrator.\<close>

lemma configured_admin_cookie:
  assumes "createConfiguredBrowserSession sl a c t0 = Inr token" and "hr_Authorization r = ''''" and "hr_Cookie r = Some token"
    and "length (sl_hkdf sl (at_key a) ''kyber-browser-session-v1'') = 32"
    and "\<And>binding. sl_json_claims sl (sl_claims_json sl (claims_of c binding t0 browserSessionTTL)) = Some (claims_of c binding t0 browserSessionTTL)"
    and "validTime t0" and "now < t0 + browserSessionTTL - second" and "ss_full (ca_Scopes c)"
  shows "authenticateConfigured sl a r now = Inr installationAdminCaller"
proof -
  obtain binding where "verifyBrowserSession sl (at_key a) token now = Inr (claims_of c binding t0 browserSessionTTL)"
    "session_cookie r = Some token" "at_key a \<noteq> ''''"
    using configured_cookie [OF assms(1-7)] by metis
  with assms(8) show ?thesis by (simp add: authenticateConfigured_def callerForSession_def claims_of_def)
qed

text \<open>A cookie accepted after the shared key changed would need the same MAC under both derived keys.\<close>

lemma configured_cookie_bound:
  assumes "verifyBrowserSession sl key1 token now = Inr claims1" and "verifyBrowserSession sl key2 token later = Inr claims2"
  shows "\<exists>msg. sl_mac sl (sl_hkdf sl key1 ''kyber-browser-session-v1'') msg = sl_mac sl (sl_hkdf sl key2 ''kyber-browser-session-v1'') msg"
proof -
  let ?k1 = "sl_hkdf sl key1 ''kyber-browser-session-v1''" and ?k2 = "sl_hkdf sl key2 ''kyber-browser-session-v1''"
  have v: "verifyBrowserSessionWithSigningKey sl ?k1 token now = Inr claims1"
    "verifyBrowserSessionWithSigningKey sl ?k2 token later = Inr claims2"
    using assms by (auto simp: verifyBrowserSession_def browserSessionSigningKey_def split: if_splits)
  from verify_sound [OF v(1)] obtain enc tag where one: "token = ''v1.'' @ enc @ ''.'' @ tag" "CHR ''.'' \<notin> set enc"
    "DecodeString tag = Some (sl_mac sl ?k1 (''v1.'' @ enc))" by metis
  from verify_sound [OF v(2)] obtain enc' tag' where two: "token = ''v1.'' @ enc' @ ''.'' @ tag'" "CHR ''.'' \<notin> set enc'"
    "DecodeString tag' = Some (sl_mac sl ?k2 (''v1.'' @ enc'))" by metis
  have "cut_at CHR ''.'' (enc @ CHR ''.'' # tag) = cut_at CHR ''.'' (enc' @ CHR ''.'' # tag')" using one(1) two(1) by simp
  then have "enc' = enc" "tag' = tag" using cut_at_first [OF one(2)] cut_at_first [OF two(2)] by simp_all
  with one(3) two(3) show ?thesis by auto
qed

lemma bearer_configured:
  assumes "hr_Authorization r = ''Bearer '' @ k" and "\<not> blank k"
  shows "authenticateConfigured sl a r now =
    (if k = at_key a then Inr installationAdminCaller
     else case last_match k (at_callers a) of None \<Rightarrow> Inl KeyInvalid | Some c \<Rightarrow> Inr c)"
  unfolding authenticateConfigured_def bearer_header [OF assms(1)] using assms(2) by simp

lemma hex_digit_graphic: "n < 16 \<Longrightarrow> graphic (hex_digit n)"
  by (simp add: graphic_def hex_digit_def)

lemma hex_not_blank:
  assumes "s \<noteq> ''''"
  shows "\<not> blank (hex_EncodeToString s)"
proof -
  have digits: "list_all graphic (hex_EncodeToString s)"
  proof -
    have "of_char c div 16 < (16 :: nat)" for c :: char using div_small [of "of_char c" 16 16] by simp
    then show ?thesis by (auto simp: hex_EncodeToString_def list_all_iff hex_digit_graphic)
  qed
  have ne: "hex_EncodeToString s \<noteq> ''''" using assms by (cases s) (simp_all add: hex_EncodeToString_def)
  with digits have "graphic (hd (hex_EncodeToString s))" "graphic (last (hex_EncodeToString s))"
    by (simp_all add: list_all_iff)
  from TrimSpace_graphic [OF ne this] ne show ?thesis by (simp add: blank_def)
qed

lemma createBrowserSession_keys:
  "at_key (snd (createBrowserSession cl sl x l y t u)) = at_key x"
  "at_callers (snd (createBrowserSession cl sl x l y t u)) = at_callers x"
  using resolve_flag(3,4) unfolding createBrowserSession_after by (metis prod.collapse)+

lemma rotate_key_outcome:
  assumes "rotate_key cl sl ka env r c now = (resp, b, sent)"
  shows "resp = RotateError status code \<Longrightarrow> b = ka"
    and "resp = Rotated new cookie \<Longrightarrow> ro_patch env = None \<and> at_key b = stored_key new \<and> at_callers b = at_callers ka
      \<and> (\<exists>bytes data. ro_random env = Some bytes \<and> new = hex_EncodeToString bytes
           \<and> ro_secret env = Inr data \<and> sent = Some (AList.update ''api-key'' new data))"
proof -
  note keys = createBrowserSession_keys [of cl sl "SetKey new ka" "ro_reloaded env" "the c" now now]
  show "resp = RotateError status code \<Longrightarrow> b = ka"
    using assms by (auto simp: rotate_key_def generateAPIKey_def Let_def split: option.splits prod.splits sum.splits if_splits)
  show "resp = Rotated new cookie \<Longrightarrow> ro_patch env = None \<and> at_key b = stored_key new \<and> at_callers b = at_callers ka
      \<and> (\<exists>bytes data. ro_random env = Some bytes \<and> new = hex_EncodeToString bytes
           \<and> ro_secret env = Inr data \<and> sent = Some (AList.update ''api-key'' new data))"
    using assms keys
    by (auto simp: rotate_key_def generateAPIKey_def patchAPIKeySecret_def SetKey_def Let_def split: option.splits prod.splits sum.splits if_splits)
qed

text \<open>
  Rotating the installation key switches it exactly once it is stored. When the route answers
  with a new key, an administrator asked, the decision was recorded, the Secret was sent the new
  key and took it, and from then on that key alone authenticates as the administrator: any other key is
  judged by the scoped callers only, so the old key is refused. On every error the keys
  in memory are as they were.
\<close>

theorem rotation_switches_key:
  assumes "handleRotateAPIKey cl sl ns (Some a) env r c now = (resp, after, sent)" and "ro_random env \<noteq> Some ''''"
  shows "case resp of
      RotateError status code \<Rightarrow> (\<exists>b. after = Some b \<and> at_key b = at_key a \<and> at_callers b = at_callers a)
    | Rotated new cookie \<Rightarrow>
        requireInstallationAdmin c \<and> ro_audited env \<and> ro_patch env = None
        \<and> (\<exists>data. ro_secret env = Inr data \<and> sent = Some (AList.update ''api-key'' new data))
        \<and> (\<exists>b. after = Some b \<and>
             (\<forall>k q later. hr_Authorization q = ''Bearer '' @ k \<and> \<not> blank k \<longrightarrow>
                authenticateConfigured sl b q later =
                  (if k = new then Inr installationAdminCaller
                   else case last_match k (at_callers a) of None \<Rightarrow> Inl KeyInvalid | Some c \<Rightarrow> Inr c)))"
proof -
  obtain res a1 where res: "resolve cl a (ro_loaded env) now = (res, a1)" by force
  note kept = resolve_flag(3,4) [OF res]
  show ?thesis
  proof (cases "\<exists>b. res = Some (Configured b) \<and> hr_Method r = ''POST'' \<and> requireInstallationAdmin c
      \<and> \<not> ro_authority env \<and> ro_secretName env \<noteq> ''''
      \<and> requireManagementAudit ns (ro_audited env) c ''credential'' installationAdminCredentialID '''' False = None")
    case False
    then have "\<exists>status code. resp = RotateError status code" "after \<in> {Some a, Some a1}"
      using assms(1) res unfolding handleRotateAPIKey_def
      by (auto split: if_splits option.splits resolved.splits)
    then show ?thesis using kept by auto
  next
    case True
    then obtain b where run: "rotate_key cl sl a1 env r c now = (resp, b, sent)" "after = Some b"
      using assms(1) res unfolding handleRotateAPIKey_def by (auto split: prod.splits)
    show ?thesis
    proof (cases resp)
      case (RotateError status code)
      then show ?thesis using rotate_key_outcome(1) [OF run(1)] run(2) kept by simp
    next
      case (Rotated new cookie)
      note switched = rotate_key_outcome(2) [OF run(1) Rotated]
      have "ro_audited env"
        using True by (auto simp: requireManagementAudit_def requireInstallationAdmin_def management_check_def
            Let_def split: if_splits option.splits)
      have "at_key b = new" using switched hex_not_blank assms(2) by (auto simp: stored_key_def)
      then show ?thesis
        using Rotated True switched run(2) \<open>ro_audited env\<close> bearer_configured kept(2) by auto
    qed
  qed
qed

subsection \<open>Examples\<close>

text \<open>The example registry of \<open>Credential_Registry\<close>, before and after its administrator changed its key.\<close>

definition example_time :: time where "example_time = 63082281600 * second"

definition example_registry_claims :: registry_claims where
  "example_registry_claims = registry_claims_of (registry_caller (example_admin 1 ''k1'')) example_time"

definition example_session_lib :: session_lib where
  "example_session_lib =
     \<lparr>sl_hkdf = (\<lambda>secret info. secret @ info), sl_mac = (\<lambda>key msg. key @ msg), sl_claims_json = (\<lambda>c. ''{}''),
      sl_json_claims = (\<lambda>s. None), sl_registry_json = (\<lambda>c. ''{}''), sl_json_registry = (\<lambda>s. Some example_registry_claims)\<rparr>"

definition bearer_request :: "string \<Rightarrow> operator_request" where
  "bearer_request k =
     \<lparr>hr_Method = ''POST'', hr_Path = ''/api/v1/rotate-api-key'', hr_Source = '''', hr_Authorization = ''Bearer '' @ k,
      hr_Cookie = None, hr_WebSocket = False, hr_Token = ''''\<rparr>"

definition cookie_request :: "string \<Rightarrow> operator_request" where
  "cookie_request token =
     \<lparr>hr_Method = ''GET'', hr_Path = ''/api/v1/version'', hr_Source = '''', hr_Authorization = '''',
      hr_Cookie = Some token, hr_WebSocket = False, hr_Token = ''''\<rparr>"

definition example_authenticator :: authenticator where
  "example_authenticator = \<lparr>at_wired = True, at_observed = False, at_namespace = ''kyber'', at_key = ''k0'', at_callers = []\<rparr>"

definition snapshot_of :: "document \<Rightarrow> snapshot" where
  "snapshot_of d = \<lparr>sn_UID = ''u'', sn_Version = ''7'', sn_Document = d\<rparr>"

lemma example_requests:
  "hr_Authorization (bearer_request k) = ''Bearer '' @ k"
  "hr_Authorization (cookie_request t) = ''''" "hr_Cookie (cookie_request t) = Some t"
  by (simp_all add: bearer_request_def cookie_request_def)

lemma example_usable: "usable now (example_admin g m)"
  by (simp add: usable_def lapsed_def example_admin_def registry_words)

lemma example_keys: "validOperatorHTTPKey ''k1''" "validOperatorHTTPKey ''k2''"
  by code_simp+

lemma example_compile:
  assumes "Validate cl d = None" and "d_Credentials d = [example_admin g m]" and "validOperatorHTTPKey m"
  obtains rg where "compileRegistryCredentials cl d now = Some rg"
    and "rg_byID rg = [(''admin'', m, registry_caller (example_admin g m))]"
proof -
  have "\<exists>rg. compileRegistryCredentials cl d now = Some rg"
    using assms example_usable [of now g m]
    by (simp add: compileRegistryCredentials_def compile_credential_def usable_def Let_def example_admin_def)
  then obtain rg where rg: "compileRegistryCredentials cl d now = Some rg" by blast
  have "rg_byID rg = [(''admin'', m, registry_caller (example_admin g m))]"
    using rg assms example_usable [of now g m]
    by (auto simp: compileRegistryCredentials_def compile_credential_def usable_def Let_def example_admin_def)
  with rg that show thesis by blast
qed

lemma example_namespace: "d_Namespace example_before = ''kyber''" "d_Namespace example_after = ''kyber''"
  by (simp_all add: example_docs)

lemma example_on_registry:
  assumes "compileRegistryCredentials example_cred_lib d now = Some rg" and "d_Namespace d = ''kyber''"
    and "at_wired a" and "at_namespace a = ''kyber''"
  shows "fst (Authenticate example_cred_lib sl a (Inr (snapshot_of d)) r now later) = registry_authenticate sl rg r later"
  using assms by (simp add: Authenticate_def resolve_def snapshot_of_def stamped)

text \<open>An administrator signs in with its key, before and after.\<close>

lemma example_signs_in:
  assumes "Validate example_cred_lib d = None" and "d_Credentials d = [example_admin g m]" and "validOperatorHTTPKey m"
    and "compileRegistryCredentials example_cred_lib d now = Some rg"
  shows "registry_authenticate sl rg (bearer_request m) later = Inr (registry_caller (example_admin g m))"
proof -
  have entries: "rg_entries rg = [(m, registry_caller (example_admin g m))]"
    using compiled_document(5) [OF assms(4)] assms(2) example_usable [of now g m]
    by (simp add: entry_of_def example_admin_def)
  have "\<not> blank m"
    using validated_document(3) [OF assms(1), of "example_admin g m"] assms(2)
    by (simp add: material_ok_def blank_def example_admin_def registry_words)
  then show ?thesis
    unfolding registry_authenticate_def bearer_header [OF example_requests(1)] entries
    by (simp add: last_match_def)
qed

theorem bearer_names_one_credential_witness:
  "\<exists>rg. registry_authenticate example_session_lib rg (bearer_request ''k1'') 0
      = Inr (registry_caller (example_admin 1 ''k1''))"
proof -
  obtain rg where rg: "compileRegistryCredentials example_cred_lib example_before 0 = Some rg"
    using example_compile [OF example_validated(1) example_fields(1) example_keys(1)] by metis
  from bearer_names_one_credential [OF rg example_requests(1), of example_session_lib _ 0] example_usable
  have "registry_authenticate example_session_lib rg (bearer_request ''k1'') 0 = Inr (registry_caller (example_admin 1 ''k1''))"
    by (simp add: example_fields example_admin_def)
  then show ?thesis by blast
qed

lemma example_accepted:
  "fst (Authenticate example_cred_lib example_session_lib example_authenticator (Inr (snapshot_of example_after))
        (bearer_request ''k2'') now later) = Inr (registry_caller (example_admin 2 ''k2''))"
proof -
  obtain rg where rg: "compileRegistryCredentials example_cred_lib example_after now = Some rg"
    using example_compile [OF example_validated(2) example_fields(3) example_keys(2)] by metis
  show ?thesis
    using example_on_registry [OF rg example_namespace(2)] example_signs_in [OF example_validated(2) example_fields(3) example_keys(2) rg]
    by (simp add: example_authenticator_def)
qed

lemma example_wired: "at_wired example_authenticator"
  by (simp add: example_authenticator_def)

theorem authenticated_is_current_credential_witness:
  "Validate example_cred_lib (sn_Document (snapshot_of example_after)) = None"
  using authenticated_is_current_credential [OF example_wired example_accepted] by blast

theorem access_never_goes_back_witness:
  "c_Generation (example_admin 1 ''k1'') \<le> ca_CredentialGeneration (registry_caller (example_admin 2 ''k2''))"
proof -
  have history: "(replaces example_cred_lib)\<^sup>*\<^sup>* example_before (sn_Document (snapshot_of example_after))"
    using example_replaces by (simp add: snapshot_of_def r_into_rtranclp)
  have "example_admin 1 ''k1'' \<in> set (d_Credentials example_before)" by (simp add: example_fields)
  from access_never_goes_back [OF history example_valid_before this example_wired example_accepted]
  show ?thesis by (simp add: registry_caller_fields example_fields)
qed

theorem configured_keys_retired_witness:
  "ca_CredentialAuthority (registry_caller (example_admin 2 ''k2'')) = ''registry''"
proof -
  let ?call = "CallAuthenticate (Inr (snapshot_of example_before)) (bearer_request ''k0'') 0 0"
  have accepted: "fst (Authenticate example_cred_lib example_session_lib
      (fold (auth_step example_cred_lib example_session_lib) [?call] example_authenticator)
      (Inr (snapshot_of example_after)) (bearer_request ''k2'') 0 0) = Inr (registry_caller (example_admin 2 ''k2''))"
  proof -
    obtain rg where rg: "compileRegistryCredentials example_cred_lib example_after 0 = Some rg"
      using example_compile [OF example_validated(2) example_fields(3) example_keys(2)] by metis
    have kept: "at_wired (snd (resolve example_cred_lib example_authenticator l n))"
      "at_namespace (snd (resolve example_cred_lib example_authenticator l n)) = ''kyber''" for l n
      using resolve_flag(1,5) [of example_cred_lib example_authenticator l n]
      by (metis example_wired prod.collapse) (metis example_authenticator_def authenticator.select_convs(3) prod.collapse
        resolve_flag(5))
    show ?thesis
      using example_on_registry [OF rg example_namespace(2) kept]
        example_signs_in [OF example_validated(2) example_fields(3) example_keys(2) rg]
      by (simp add: Authenticate_after)
  qed
  have "?call \<in> set [?call]" by simp
  from configured_keys_retired [OF example_wired this accepted] show ?thesis by blast
qed

lemma example_claims_json:
  "sl_json_registry example_session_lib (sl_registry_json example_session_lib example_registry_claims) = Some example_registry_claims"
  by (simp add: example_session_lib_def)

definition example_token :: string where
  "example_token = sealed_token example_session_lib (sl_hkdf example_session_lib ''k1'' ''kyber-browser-session-v2'')
     (''v2.'' @ EncodeToString ''{}'')"

theorem cookie_follows_credential_witness:
  "\<exists>rg. registry_authenticate example_session_lib rg (cookie_request example_token) (example_time + hour) = Inl SessionExpired"
proof -
  obtain rg where rg: "compileRegistryCredentials example_cred_lib example_before example_time = Some rg"
      "rg_byID rg = [(''admin'', ''k1'', registry_caller (example_admin 1 ''k1''))]"
    using example_compile [OF example_validated(1) example_fields(1) example_keys(1)] by metis
  obtain rg' where rg': "compileRegistryCredentials example_cred_lib example_after (example_time + hour) = Some rg'"
    using example_compile [OF example_validated(2) example_fields(3) example_keys(2)] by metis
  let ?who = "registry_caller (example_admin 1 ''k1'')"
  have made: "registry_createBrowserSession example_session_lib rg ?who example_time = Inr example_token"
    unfolding registry_createBrowserSession_def rg(2)
    by (simp add: registry_caller_fields example_fields sameCredentialIdentity_def registrySessionKey_def example_token_def
        example_session_lib_def)
  have history: "(replaces example_cred_lib)\<^sup>*\<^sup>* example_before example_after" using example_replaces by blast
  have member: "example_admin 2 ''k2'' \<in> set (d_Credentials example_after)" "c_ID (example_admin 2 ''k2'') = ca_CredentialID ?who"
    by (simp_all add: example_fields registry_caller_fields)
  have size: "length example_token \<le> 4096" by code_simp
  have times: "validTime example_time" "example_time \<le> example_time + hour"
    "example_time + hour < example_time + browserSessionTTL - second"
    by (simp_all add: validTime_def example_time_def browserSessionTTL_def duration_units)
  from cookie_follows_credential [OF rg(1) made history rg' member example_requests(2,3) size
      example_claims_json [unfolded example_registry_claims_def] times]
  have "registry_authenticate example_session_lib rg' (cookie_request example_token) (example_time + hour) = Inl SessionExpired"
    by (simp add: registry_caller_fields) (simp add: example_admin_def)
  then show ?thesis by blast
qed

definition example_rotation :: rotate_env where
  "example_rotation =
     \<lparr>ro_secretName = ''kyber-api-credentials'', ro_authority = False, ro_loaded = Inl ErrUninitialized,
      ro_reloaded = Inl ErrUninitialized, ro_audited = True, ro_random = Some ''k'', ro_secret = Inr [], ro_patch = None\<rparr>"

theorem rotation_switches_key_witness:
  "\<exists>b. snd (handleRotateAPIKey example_cred_lib example_session_lib ''kyber'' (Some example_authenticator) example_rotation
          (bearer_request ''k0'') (Some installationAdminCaller) 0) = (Some b, Some [(''api-key'', ''6b'')])
     \<and> authenticateConfigured example_session_lib b (bearer_request ''k0'') 0 = Inl KeyInvalid"
proof -
  let ?run = "handleRotateAPIKey example_cred_lib example_session_lib ''kyber'' (Some example_authenticator) example_rotation
          (bearer_request ''k0'') (Some installationAdminCaller) 0"
  have blank: "\<not> blank ''6b''" "\<not> blank ''k0''" using TrimSpace_graphic [of "''6b''"] TrimSpace_graphic [of "''k0''"]
    by (simp_all add: blank_def graphic_def)
  have hex: "hex_EncodeToString ''k'' = ''6b''" by code_simp
  have run: "?run = (Rotated ''6b'' None, Some (example_authenticator\<lparr>at_key := ''6b''\<rparr>), Some [(''api-key'', ''6b'')])"
    by (simp add: handleRotateAPIKey_def rotate_key_def generateAPIKey_def patchAPIKeySecret_def example_rotation_def example_authenticator_def
        bearer_request_def requireInstallationAdmin_def installationAdminCaller_def newFullScopeSet_def resolve_def
        requireManagementAudit_def management_check_def installationAdminPrincipalID_def installationAdminCredentialID_def
        SetKey_def stored_key_def blank hex Let_def)
  have "ro_random example_rotation \<noteq> Some ''''" by (simp add: example_rotation_def)
  note switched = rotation_switches_key [OF run this]
  have "at_callers example_authenticator = []" by (simp add: example_authenticator_def)
  then show ?thesis using switched example_requests(1) [of "''k0''"] blank(2) unfolding run by (auto simp: last_match_def)
qed

end
