(* ===== verification/Credential_Change.thy ===== *)
theory Credential_Change
  imports Security_Journal Operator_Auth_Properties
begin

section \<open>Changing operator credentials\<close>

text \<open>
  The management routes of the credential registry (\<open>pkg/api\<close>: operator_credential_mutation,
  routes_operator_credential_mutations, operator_credential_delivery). A change is prepared as a pure
  function of the reviewed snapshot, admitted in the journal, written with the reviewed version, and its
  outcome recorded. An administrator may have an interrupted change resolved, and a background pass
  confirms committed changes and prunes their references. A handler is a function of the
  answers it gets and returns, beside its response, the writes it makes, in order.
\<close>

subsection \<open>Preparing a change (\<open>operator_credential_mutation.go\<close>)\<close>

datatype change_error = ChangeInvalid | ChangeLastAdministrator | ChangeForbidden | AuthorityUnavailable

record change_policy =
  cp_Name :: string
  cp_Role :: string
  cp_Scopes :: "string list"
  cp_AgentResources :: "string list"
  cp_MachineResources :: "string list"
  cp_ExpiresAt :: "time option"

record change_request =
  mq_requestID :: string
  mq_OperationID :: string
  mq_Action :: string
  mq_CredentialID :: string
  mq_Policy :: "change_policy option"
  mq_Key :: string

text \<open>
  Outside the code: \<open>uuid.NewSHA1\<close> of an id and a word, and the hash of a registry's UID and version.
\<close>

record change_lib =
  kl_sha1 :: "string \<Rightarrow> string \<Rightarrow> string"
  kl_etag_digest :: "string \<Rightarrow> string \<Rightarrow> string"

definition managedPermissionTarget :: "string \<Rightarrow> string" where
  "managedPermissionTarget sc =
     (if sc \<in> set [ScopeLifecycleWrite, ScopeLifecycleAdmin, ScopeAgentExec, ScopeSecretsList, ScopeSecretsRead,
                    ScopeSecretsWrite, ScopeLogsRead, ScopeTranscriptsRead, ScopeArchivesAdmin, ScopeRequestsWrite,
                    ScopeTasksCreate, ScopeCapabilitiesWrite] then ''agent''
      else if sc \<in> set [ScopeMachineExec, ScopeMachineLogsRead] then ''machine'' else ''none'')"

definition validPreparedOperatorKey :: "string \<Rightarrow> bool" where
  "validPreparedOperatorKey key =
     (case DecodeString key of None \<Rightarrow> False | Some raw \<Rightarrow> length raw = 32 \<and> EncodeToString raw = key)"

definition sameManagedCredentialPolicy :: "credential \<Rightarrow> credential \<Rightarrow> bool" where
  "sameManagedCredentialPolicy given_a given_b =
     (let a = normal_credential given_a; b = normal_credential given_b in
      c_Role a = c_Role b \<and> c_State a = c_State b \<and> c_ExpiresAt a = c_ExpiresAt b
      \<and> c_Scopes a = c_Scopes b \<and> c_AgentResources a = c_AgentResources b \<and> c_MachineResources a = c_MachineResources b)"

definition scope_grantable :: "string \<Rightarrow> credential \<Rightarrow> change_policy \<Rightarrow> string \<Rightarrow> bool" where
  "scope_grantable action c policy sc \<longleftrightarrow>
     validScope sc
     \<and> \<not> ((sc = ScopeTasksAdmin \<or> sc = ScopeTasksPlatformAdmin) \<and> (action \<noteq> ''update'' \<or> sc \<notin> set (c_Scopes c)))
     \<and> (managedPermissionTarget sc = ''agent'' \<longrightarrow> cp_AgentResources policy \<noteq> [])
     \<and> (managedPermissionTarget sc = ''machine'' \<longrightarrow> cp_MachineResources policy \<noteq> [])"

definition exact_resource :: "string \<Rightarrow> string \<Rightarrow> bool" where
  "exact_resource ns r =
     (case cut_at CHR ''/'' r of
        None \<Rightarrow> False
      | Some (namespace, name) \<Rightarrow> namespace = ns \<and> name \<noteq> '''' \<and> CHR ''/'' \<notin> set name \<and> CHR ''*'' \<notin> set r)"

definition policy_acceptable :: "string \<Rightarrow> time \<Rightarrow> string \<Rightarrow> credential \<Rightarrow> change_policy \<Rightarrow> bool" where
  "policy_acceptable ns now action c policy \<longleftrightarrow>
     cp_Name policy = TrimSpace (cp_Name policy) \<and> map ascii_lower (cp_Name policy) \<noteq> ''legacy''
     \<and> (case cp_ExpiresAt policy of None \<Rightarrow> True | Some t \<Rightarrow> now < t)
     \<and> (if cp_Role policy = RoleAdministrator
        then cp_Scopes policy = [] \<and> cp_AgentResources policy = [] \<and> cp_MachineResources policy = []
        else if cp_Role policy = RoleRestricted
        then cp_Scopes policy \<noteq> [] \<and> list_all (scope_grantable action c policy) (cp_Scopes policy)
        else False)
     \<and> list_all (exact_resource ns) (cp_AgentResources policy) \<and> list_all (exact_resource ns) (cp_MachineResources policy)"

definition apply_policy :: "change_policy \<Rightarrow> credential \<Rightarrow> credential" where
  "apply_policy policy c =
     c\<lparr>c_Name := cp_Name policy, c_Role := cp_Role policy, c_Scopes := cp_Scopes policy,
       c_AgentResources := cp_AgentResources policy, c_MachineResources := cp_MachineResources policy,
       c_ExpiresAt := map_option to_micros (cp_ExpiresAt policy)\<rparr>"

text \<open>The largest counter, \<open>^uint64(0)\<close>, never moves.\<close>

definition change_credential :: "string \<Rightarrow> time \<Rightarrow> change_request \<Rightarrow> credential \<Rightarrow> credential option" where
  "change_credential ns now req c =
     (if mq_Action req = ''create'' \<or> mq_Action req = ''update'' then
        (case mq_Policy req of
           None \<Rightarrow> None
         | Some policy \<Rightarrow>
             if mq_Action req = ''update'' \<and> mq_Key req \<noteq> '''' then None
             else if \<not> policy_acceptable ns now (mq_Action req) c policy then None
             else let c' = apply_policy policy c in
               if sameManagedCredentialPolicy c c' then Some c'
               else if c_PermissionRevision c' = - 1 then None
               else Some (c'\<lparr>c_PermissionRevision := c_PermissionRevision c' + 1\<rparr>))
      else if mq_Action req = ''rotate'' then
        (if mq_Policy req \<noteq> None \<or> \<not> validPreparedOperatorKey (mq_Key req) \<or> mq_Key req = c_material c
            \<or> c_Generation c = - 1 then None
         else Some (c\<lparr>c_material := mq_Key req, c_Generation := c_Generation c + 1\<rparr>))
      else if mq_Action req = ''revoke'' then
        (if mq_Policy req \<noteq> None \<or> mq_Key req \<noteq> '''' \<or> c_PermissionRevision c = - 1 then None
         else Some (c\<lparr>c_material := '''', c_State := StateRevoked, c_PermissionRevision := c_PermissionRevision c + 1\<rparr>))
      else None)"

definition created_credential :: "change_lib \<Rightarrow> change_request \<Rightarrow> change_policy \<Rightarrow> time \<Rightarrow> string \<Rightarrow> credential" where
  "created_credential kl req policy now target =
     \<lparr>c_ID = target, c_PrincipalID = ''principal_'' @ kl_sha1 kl (mq_OperationID req) ''principal'',
      c_TenantID = ''tenant_'' @ kl_sha1 kl (mq_OperationID req) ''tenant'', c_Kind = ''integration'', c_Issuer = ''kyber'',
      c_Subject = target, c_Name = cp_Name policy, c_Role = cp_Role policy, c_State = StateActive, c_Generation = 1,
      c_PermissionRevision = 1, c_Scopes = [], c_AgentResources = [], c_MachineResources = [],
      c_Source = \<lparr>so_Kind = ''managed'', so_MaterialRef = None, so_ConfigurationRef = None\<rparr>,
      c_CreatedAt = Some (to_micros now), c_ExpiresAt = None, c_material = mq_Key req, c_legacyBrowserGeneration = 0\<rparr>"

text \<open>The credentials the change starts from and its target.\<close>

definition change_start ::
  "change_lib \<Rightarrow> change_request \<Rightarrow> time \<Rightarrow> credential list \<Rightarrow> (credential list \<times> string) option" where
  "change_start kl req now cs =
     (if mq_Action req = ''create'' then
        (case mq_Policy req of
           None \<Rightarrow> None
         | Some policy \<Rightarrow>
             let target = ''credential_'' @ mq_OperationID req in
             if mq_CredentialID req \<noteq> '''' \<or> \<not> validPreparedOperatorKey (mq_Key req) \<or> list_ex (\<lambda>c. c_ID c = target) cs
             then None else Some (cs @ [created_credential kl req policy now target], target))
      else if mq_CredentialID req = '''' then None else Some (cs, mq_CredentialID req))"

definition managed_source :: "credential \<Rightarrow> bool" where
  "managed_source c \<longleftrightarrow> so_Kind (c_Source c) = ''managed'' \<or> so_Kind (c_Source c) = ''installation''"

definition durable_administrator :: "credential \<Rightarrow> bool" where
  "durable_administrator c \<longleftrightarrow>
     c_Role c = RoleAdministrator \<and> c_State c = StateActive \<and> c_ExpiresAt c = None \<and> managed_source c"

text \<open>The list with its changed target, or \<open>None\<close> when the change is invalid.\<close>

definition change_credentials ::
  "change_lib \<Rightarrow> string \<Rightarrow> time \<Rightarrow> change_request \<Rightarrow> credential list \<Rightarrow> (credential list \<times> string) option" where
  "change_credentials kl ns now req cs =
     (case change_start kl req now cs of
        None \<Rightarrow> None
      | Some (cs1, target) \<Rightarrow>
          let index = length (takeWhile (\<lambda>c. c_ID c \<noteq> target) cs1) in
          if length cs1 \<le> index then None
          else let c = cs1 ! index in
            if c_State c \<noteq> StateActive \<or> \<not> managed_source c then None
            else (case change_credential ns now req c of
                    None \<Rightarrow> None
                  | Some c' \<Rightarrow>
                      Some (cs1[index := (if mq_Action req = ''create'' then c'\<lparr>c_PermissionRevision := 1\<rparr> else c')], target)))"

definition change_operation :: "change_lib \<Rightarrow> caller \<Rightarrow> change_request \<Rightarrow> time \<Rightarrow> string \<Rightarrow> operation" where
  "change_operation kl actor req now target =
     \<lparr>op_ID = mq_OperationID req, op_AdmissionEventID = kl_sha1 kl (mq_OperationID req) ''admission'',
      op_CompletionEventID = kl_sha1 kl (mq_OperationID req) ''completion'',
      op_RequestID = (if mq_requestID req = '''' then mq_OperationID req else mq_requestID req),
      op_Action = mq_Action req, op_ActorPrincipalID = ca_PrincipalID actor, op_ActorCredentialID = ca_CredentialID actor,
      op_ActorGeneration = ca_CredentialGeneration actor, op_Authority = ''registry'', op_TargetCredentialID = target,
      op_At = to_micros now, op_Status = ''pending''\<rparr>"

text \<open>The actor is a credential of this document now, the same one, with full access.\<close>

definition current_administrator :: "registry_credentials \<Rightarrow> caller \<Rightarrow> bool" where
  "current_administrator rg actor =
     (case map_of (rg_byID rg) (ca_CredentialID actor) of
        None \<Rightarrow> False
      | Some (_, current) \<Rightarrow> sameCredentialIdentity actor current \<and> ss_full (ca_Scopes current))"

definition prepareManagedCredentialMutation ::
  "cred_lib \<Rightarrow> journal_lib \<Rightarrow> change_lib \<Rightarrow> snapshot \<Rightarrow> caller \<Rightarrow> change_request \<Rightarrow> time
     \<Rightarrow> change_error + (document \<times> operation)" where
  "prepareManagedCredentialMutation cl jl kl sn actor req now =
     (if jl_uuid jl (mq_OperationID req) \<noteq> Some (mq_OperationID req) \<or> now = 0 \<or> sn_UID sn = '''' \<or> sn_Version sn = ''''
      then Inl ChangeInvalid
      else case compileRegistryCredentials cl (sn_Document sn) now of
        None \<Rightarrow> Inl AuthorityUnavailable
      | Some rg \<Rightarrow>
          if ca_CredentialAuthority actor \<noteq> ''registry'' \<or> \<not> current_administrator rg actor then Inl ChangeForbidden
          else let base = normalized (sn_Document sn) in
            (case change_credentials kl (d_Namespace base) now req (d_Credentials base) of
               None \<Rightarrow> Inl ChangeInvalid
             | Some (cs, target) \<Rightarrow>
                 let operation = change_operation kl actor req now target;
                     next = normalized (base\<lparr>d_Credentials := cs, d_Operations := d_Operations base @ [operation]\<rparr>)
                 in if \<not> list_ex durable_administrator (d_Credentials next) then Inl ChangeLastAdministrator
                    else if compileRegistryCredentials cl next now = None then Inl ChangeInvalid
                    else Inr (next, operation)))"

subsection \<open>Projections and evidence (\<open>routes_operator_credential_mutations.go\<close>)\<close>

record operation_view =
  ov_OperationID :: string
  ov_Action :: string
  ov_CredentialID :: string
  ov_Status :: string
  ov_ObservedAt :: time

definition credentialOperationProjection :: "journaled \<Rightarrow> operation_view" where
  "credentialOperationProjection d =
     (let a = ci_Admission (jd_Intent d) in
      \<lparr>ov_OperationID = se_OperationID a, ov_Action = se_Action a, ov_CredentialID = se_ResourceName a,
       ov_Status = (case jd_Completion d of None \<Rightarrow> ''pending'' | Some e \<Rightarrow> se_Outcome e),
       ov_ObservedAt = (case jd_Completion d of None \<Rightarrow> se_ObservedAt a | Some e \<Rightarrow> se_ObservedAt e)\<rparr>)"

definition credentialRegistryETag :: "change_lib \<Rightarrow> string \<Rightarrow> string \<Rightarrow> string" where
  "credentialRegistryETag kl uid version = [CHR 0x22] @ EncodeToString (kl_etag_digest kl uid version) @ [CHR 0x22]"

definition currentManagedAdministrator :: "cred_lib \<Rightarrow> snapshot \<Rightarrow> caller option \<Rightarrow> time \<Rightarrow> change_error option" where
  "currentManagedAdministrator cl sn actor now =
     (case actor of
        None \<Rightarrow> Some ChangeForbidden
      | Some a \<Rightarrow>
          if ca_CredentialAuthority a \<noteq> ''registry'' then Some ChangeForbidden
          else case compileRegistryCredentials cl (sn_Document sn) now of
            None \<Rightarrow> Some AuthorityUnavailable
          | Some rg \<Rightarrow> if current_administrator rg a then None else Some ChangeForbidden)"

text \<open>Whether a reference of the document is the one the intent admitted.\<close>

definition reference_matches :: "credential_intent \<Rightarrow> operation \<Rightarrow> bool" where
  "reference_matches i p \<longleftrightarrow>
     (let a = ci_Admission i in
      op_AdmissionEventID p = se_ID a \<and> op_CompletionEventID p = ci_CompletionEventID i
      \<and> ''credential:'' @ op_Action p = se_Action a \<and> op_ActorPrincipalID p = se_PrincipalID a
      \<and> op_ActorCredentialID p = se_CredentialID a \<and> op_ActorGeneration p = se_Generation a
      \<and> op_TargetCredentialID p = se_ResourceName a \<and> op_RequestID p = se_RequestID a
      \<and> op_Authority p = ''registry'' \<and> op_At p = se_ObservedAt a)"

definition credentialRecoveryEvidence ::
  "cred_lib \<Rightarrow> credential_intent \<Rightarrow> snapshot option \<Rightarrow> time \<Rightarrow> change_error + string" where
  "credentialRecoveryEvidence cl i loaded now =
     (case loaded of
        None \<Rightarrow> Inl AuthorityUnavailable
      | Some sn \<Rightarrow>
          if sn_UID sn = '''' \<or> sn_Version sn = '''' \<or> sn_UID sn \<noteq> ci_RegistryUID i
             \<or> d_Namespace (sn_Document sn) \<noteq> se_Namespace (ci_Admission i) then Inl AuthorityUnavailable
          else if compileRegistryCredentials cl (sn_Document sn) now = None then Inl AuthorityUnavailable
          else case List.find (\<lambda>p. op_ID p = se_OperationID (ci_Admission i)) (d_Operations (sn_Document sn)) of
            Some p \<Rightarrow> if reference_matches i p then Inr ''success'' else Inl AuthorityUnavailable
          | None \<Rightarrow> Inr (if sn_Version sn \<noteq> ci_ExpectedVersion i then ''failure'' else ''''))"

subsection \<open>The change itself\<close>

text \<open>The writes of a handler.\<close>

datatype change_write =
    WroteAdmission credential_intent
  | WroteRegistry string string document
  | WroteFence string string
  | WroteOutcome string string

datatype change_response = ChangeRefused nat string | ChangeView nat operation_view "string option"

record change_env =
  ch_namespace :: string
  ch_available :: bool
  ch_body :: "change_request option"
  ch_if_match :: string
  ch_request_id :: string
  ch_now :: time
  ch_loaded :: "cred_error + snapshot"
  ch_existing :: "journal_error + journaled"
  ch_admitted :: "journal_error + journaled"
  ch_current :: "cred_error + snapshot"
  ch_replaced :: "cred_error + snapshot"
  ch_finished :: "journal_error + security_event"
  ch_resolved :: "resolved option"

definition change_intent :: "string \<Rightarrow> snapshot \<Rightarrow> operation \<Rightarrow> credential_intent" where
  "change_intent ns sn p =
     \<lparr>ci_Admission =
        \<lparr>se_LogComponent = '''', se_LogWorkload = '''', se_Container = '''', se_CredentialAuthority = ''registry'',
         se_Method = ''POST'', se_ID = op_AdmissionEventID p, se_OperationID = op_ID p, se_ObservedAt = op_At p,
         se_Namespace = ns, se_PrincipalID = op_ActorPrincipalID p, se_CredentialID = op_ActorCredentialID p,
         se_Generation = op_ActorGeneration p, se_RequestID = op_RequestID p, se_Action = ''credential:'' @ op_Action p,
         se_ResourceKind = ''credential'', se_ResourceName = op_TargetCredentialID p, se_Phase = ''authorization'',
         se_Outcome = ''allow''\<rparr>,
      ci_CompletionEventID = op_CompletionEventID p, ci_ExpectedVersion = sn_Version sn, ci_RegistryUID = sn_UID sn,
      ci_MaintenanceUID = '''', ci_Adoption = None\<rparr>"

datatype change_failure = ByChange change_error | ByStore cred_error

text \<open>The outcome the handler may claim; anything else stays pending.\<close>

definition claimed_outcome :: "change_failure option \<Rightarrow> string" where
  "claimed_outcome err =
     (case err of
        None \<Rightarrow> ''success''
      | Some (ByStore ErrConflict) \<Rightarrow> ''failure''
      | Some (ByStore ErrInvalid) \<Rightarrow> ''failure''
      | Some (ByChange ChangeForbidden) \<Rightarrow> ''failure''
      | _ \<Rightarrow> '''')"

text \<open>The write after a new admission: reauthorised against the current document, then by compare and swap.\<close>

definition write_change ::
  "cred_lib \<Rightarrow> journal_lib \<Rightarrow> change_lib \<Rightarrow> change_env \<Rightarrow> snapshot \<Rightarrow> caller \<Rightarrow> change_request \<Rightarrow> document \<Rightarrow> operation
     \<Rightarrow> change_failure option \<times> change_write list" where
  "write_change cl jl kl env sn actor req next p =
     (case ch_current env of
        Inl e \<Rightarrow> (Some (ByStore e), [])
      | Inr current \<Rightarrow>
          if sn_UID current = sn_UID sn \<and> sn_Version current = sn_Version sn
          then (case prepareManagedCredentialMutation cl jl kl current actor req (op_At p) of
                  Inl e \<Rightarrow> (Some (ByChange e), [])
                | Inr _ \<Rightarrow>
                    (case ch_replaced env of Inl e \<Rightarrow> Some (ByStore e) | Inr _ \<Rightarrow> None,
                     [WroteRegistry (sn_UID sn) (sn_Version sn) next]))
          else (Some (ByStore ErrConflict), []))"

definition registryRotationBearer :: "string \<Rightarrow> operator_request" where
  "registryRotationBearer key =
     \<lparr>hr_Method = ''GET'', hr_Path = ''/'', hr_Source = '''', hr_Authorization = ''Bearer '' @ key, hr_Cookie = None,
      hr_WebSocket = False, hr_Token = ''''\<rparr>"

text \<open>An administrator that rotated the key of its own cookie gets a new cookie, at the next generation.\<close>

definition refreshManagedRotationSession ::
  "session_lib \<Rightarrow> operator_request \<Rightarrow> change_request \<Rightarrow> caller \<Rightarrow> resolved option \<Rightarrow> time \<Rightarrow> string option" where
  "refreshManagedRotationSession sl r req actor resolved now =
     (if mq_Action req \<noteq> ''rotate'' \<or> mq_CredentialID req \<noteq> ca_CredentialID actor \<or> hr_Authorization r \<noteq> ''''
         \<or> hr_Cookie r = None then None
      else case resolved of
        Some (Registry rg) \<Rightarrow>
          (case registry_authenticate sl rg (registryRotationBearer (mq_Key req)) now of
             Inl _ \<Rightarrow> None
           | Inr c \<Rightarrow>
               if ca_CredentialID c \<noteq> ca_CredentialID actor \<or> ca_PrincipalID c \<noteq> ca_PrincipalID actor
                  \<or> ca_TenantID c \<noteq> ca_TenantID actor \<or> ca_CredentialGeneration c \<noteq> ca_CredentialGeneration actor + 1
               then None
               else (case registry_createBrowserSession sl rg c now of Inl _ \<Rightarrow> None | Inr token \<Rightarrow> Some token))
      | _ \<Rightarrow> None)"

definition refused_change :: "change_error \<Rightarrow> change_response" where
  "refused_change e =
     (case e of
        ChangeForbidden \<Rightarrow> ChangeRefused 403 ''forbidden''
      | ChangeLastAdministrator \<Rightarrow> ChangeRefused 409 ''last_administrator_required''
      | AuthorityUnavailable \<Rightarrow> ChangeRefused 503 ''credential_management_unavailable''
      | ChangeInvalid \<Rightarrow> ChangeRefused 400 ''invalid_credential_change'')"

text \<open>From the prepared change on.\<close>

definition commit_change ::
  "cred_lib \<Rightarrow> journal_lib \<Rightarrow> change_lib \<Rightarrow> session_lib \<Rightarrow> change_env \<Rightarrow> operator_request \<Rightarrow> snapshot \<Rightarrow> caller \<Rightarrow> change_request
     \<Rightarrow> document \<Rightarrow> operation \<Rightarrow> change_response \<times> change_write list" where
  "commit_change cl jl kl sl env r sn actor req next p =
     (case ch_existing env of
        Inr d \<Rightarrow> (ChangeView 409 (credentialOperationProjection d) None, [])
      | Inl e \<Rightarrow>
          if e \<noteq> JNotFound then (ChangeRefused 503 ''credential_management_unavailable'', [])
          else let intent = change_intent (ch_namespace env) sn p; admission = WroteAdmission intent in
            (case ch_admitted env of
               Inl JConflict \<Rightarrow> (ChangeRefused 409 ''credential_operation_recorded'', [admission])
             | Inl _ \<Rightarrow> (ChangeRefused 503 ''credential_admission_unconfirmed'', [admission])
             | Inr d \<Rightarrow>
                 if \<not> jd_NewlyAdmitted d then (ChangeView 409 (credentialOperationProjection d) None, [admission])
                 else (case write_change cl jl kl env sn actor req next p of
                         (err, writes) \<Rightarrow>
                           let outcome = claimed_outcome err;
                               cookie = (if outcome = ''success''
                                         then refreshManagedRotationSession sl r req actor (ch_resolved env) (ch_now env)
                                         else None)
                           in if outcome = ''''
                              then (ChangeView (if jd_Completion d = None then 202 else 200) (credentialOperationProjection d) cookie,
                                    admission # writes)
                              else let d' = (case ch_finished env of
                                               Inl _ \<Rightarrow> d | Inr e \<Rightarrow> d\<lparr>jd_Completion := Some e\<rparr>)
                                   in (ChangeView (if jd_Completion d' = None then 202 else 200)
                                         (credentialOperationProjection d') cookie,
                                       admission # writes @ [WroteOutcome (op_ID p) outcome]))))"

definition handleOperatorCredentialMutation ::
  "cred_lib \<Rightarrow> journal_lib \<Rightarrow> change_lib \<Rightarrow> session_lib \<Rightarrow> change_env \<Rightarrow> operator_request \<Rightarrow> caller option
     \<Rightarrow> change_response \<times> change_write list" where
  "handleOperatorCredentialMutation cl jl kl sl env r caller =
     (if hr_Method r \<noteq> ''POST'' then (ChangeRefused 405 ''method_not_allowed'', [])
      else if \<not> requireInstallationAdmin caller then (ChangeRefused 403 ''forbidden'', [])
      else if \<not> ch_available env then (ChangeRefused 503 ''credential_management_unavailable'', [])
      else case ch_body env of
        None \<Rightarrow> (ChangeRefused 400 ''invalid_credential_change'', [])
      | Some body \<Rightarrow>
          (case ch_loaded env of
             Inl _ \<Rightarrow> (ChangeRefused 503 ''credential_management_unavailable'', [])
           | Inr sn \<Rightarrow>
               if sn_UID sn = '''' \<or> d_Namespace (sn_Document sn) \<noteq> ch_namespace env
               then (ChangeRefused 503 ''credential_management_unavailable'', [])
               else if credentialAdoptionPending (sn_Document sn) then (ChangeRefused 409 ''credential_setup_pending'', [])
               else if ch_if_match env = '''' then (ChangeRefused 428 ''credential_version_required'', [])
               else if ch_if_match env \<noteq> credentialRegistryETag kl (sn_UID sn) (sn_Version sn)
               then (ChangeRefused 409 ''credential_version_changed'', [])
               else case caller of
                 None \<Rightarrow> (ChangeRefused 403 ''forbidden'', [])
               | Some actor \<Rightarrow>
                   let req = body\<lparr>mq_requestID := ch_request_id env\<rparr> in
                   (case prepareManagedCredentialMutation cl jl kl sn actor req (ch_now env) of
                      Inl e \<Rightarrow> (refused_change e, [])
                    | Inr (next, p) \<Rightarrow> commit_change cl jl kl sl env r sn actor req next p)))"

subsection \<open>Asking for an outcome, and resolving an interrupted change\<close>

record lookup_env =
  lk_namespace :: string
  lk_available :: bool
  lk_id :: string
  lk_got :: "journal_error + journaled"
  lk_loaded :: "cred_error + snapshot"
  lk_now :: time

definition handleOperatorCredentialOperation ::
  "cred_lib \<Rightarrow> journal_lib \<Rightarrow> lookup_env \<Rightarrow> operator_request \<Rightarrow> caller option \<Rightarrow> change_response" where
  "handleOperatorCredentialOperation cl jl env r caller =
     (if hr_Method r \<noteq> ''GET'' then ChangeRefused 405 ''method_not_allowed''
      else if \<not> requireInstallationAdmin caller then ChangeRefused 403 ''forbidden''
      else if \<not> lk_available env then ChangeRefused 503 ''credential_management_unavailable''
      else if jl_uuid jl (lk_id env) \<noteq> Some (lk_id env) then ChangeRefused 400 ''invalid_operation''
      else case lk_got env of
        Inl e \<Rightarrow> (if e = JNotFound then ChangeRefused 404 ''operation_not_found''
                  else ChangeRefused 503 ''credential_operation_unavailable'')
      | Inr d \<Rightarrow>
          (case lk_loaded env of
             Inl _ \<Rightarrow> ChangeRefused 503 ''authentication_unavailable''
           | Inr sn \<Rightarrow>
               if d_Namespace (sn_Document sn) \<noteq> lk_namespace env then ChangeRefused 503 ''authentication_unavailable''
               else (case compileRegistryCredentials cl (sn_Document sn) (lk_now env) of
                       None \<Rightarrow> ChangeRefused 503 ''authentication_unavailable''
                     | Some rg \<Rightarrow>
                         if current_administrator rg (the caller)
                         then ChangeView 200 (credentialOperationProjection d) None else ChangeRefused 403 ''forbidden'')))"

record recover_env =
  rv_namespace :: string
  rv_available :: bool
  rv_id :: "string option"
  rv_got :: "journal_error + journaled"
  rv_audited :: bool
  rv_loaded :: "cred_error + snapshot"
  rv_reloaded :: "cred_error + snapshot"
  rv_finished :: "journal_error + security_event"
  rv_latest :: "journal_error + journaled"
  rv_now :: time

text \<open>A read of the registry by an actor that must be one of its administrators at that time.\<close>

definition observed_by ::
  "cred_lib \<Rightarrow> caller option \<Rightarrow> time \<Rightarrow> cred_error + snapshot \<Rightarrow> change_error + snapshot" where
  "observed_by cl caller now loaded =
     (case loaded of
        Inl _ \<Rightarrow> Inl AuthorityUnavailable
      | Inr sn \<Rightarrow> (case currentManagedAdministrator cl sn caller now of Some e \<Rightarrow> Inl e | None \<Rightarrow> Inr sn))"

definition evidence_of ::
  "cred_lib \<Rightarrow> credential_intent \<Rightarrow> change_error + snapshot \<Rightarrow> time \<Rightarrow> change_error + string" where
  "evidence_of cl i seen now =
     credentialRecoveryEvidence cl i (case seen of Inl _ \<Rightarrow> None | Inr sn \<Rightarrow> Some sn) now"

definition resolved_response ::
  "recover_env \<Rightarrow> journaled \<Rightarrow> change_error + string \<Rightarrow> change_write list \<Rightarrow> change_response \<times> change_write list" where
  "resolved_response env d evidence writes =
     (let finish = (case evidence of Inr out \<Rightarrow> out \<noteq> '''' | Inl _ \<Rightarrow> False);
          d' = (if finish
                then (case rv_finished env of
                        Inr e \<Rightarrow> d\<lparr>jd_Completion := Some e\<rparr>
                      | Inl _ \<Rightarrow>
                          (case rv_latest env of
                             Inr latest \<Rightarrow> if jd_Completion latest \<noteq> None then latest else d
                           | Inl _ \<Rightarrow> d))
                else d)
      in (ChangeView (if jd_Completion d' = None then 202 else 200) (credentialOperationProjection d') None,
          writes @ (if finish then [WroteOutcome (the (rv_id env)) (projr evidence)] else [])))"

definition resolve_change ::
  "cred_lib \<Rightarrow> recover_env \<Rightarrow> caller option \<Rightarrow> journaled \<Rightarrow> change_response \<times> change_write list" where
  "resolve_change cl env caller d =
     (let i = jd_Intent d; seen = observed_by cl caller (rv_now env) (rv_loaded env) in
      if seen = Inl ChangeForbidden then (ChangeRefused 403 ''forbidden'', [])
      else let evidence = evidence_of cl i seen (rv_now env) in
        if evidence \<noteq> Inr '''' then resolved_response env d evidence []
        else let fence = WroteFence (ci_RegistryUID i) (ci_ExpectedVersion i);
                 again = observed_by cl caller (rv_now env) (rv_reloaded env)
             in if again = Inl ChangeForbidden then (ChangeRefused 403 ''forbidden'', [fence])
                else resolved_response env d (evidence_of cl i again (rv_now env)) [fence])"

definition handleReconcileOperatorCredentialOperation ::
  "cred_lib \<Rightarrow> journal_lib \<Rightarrow> recover_env \<Rightarrow> operator_request \<Rightarrow> caller option \<Rightarrow> change_response \<times> change_write list" where
  "handleReconcileOperatorCredentialOperation cl jl env r caller =
     (if hr_Method r \<noteq> ''POST'' then (ChangeRefused 405 ''method_not_allowed'', [])
      else if \<not> requireInstallationAdmin caller then (ChangeRefused 403 ''forbidden'', [])
      else if \<not> rv_available env then (ChangeRefused 503 ''credential_recovery_unavailable'', [])
      else case rv_id env of
        None \<Rightarrow> (ChangeRefused 400 ''invalid_operation'', [])
      | Some i \<Rightarrow>
          if jl_uuid jl i \<noteq> Some i then (ChangeRefused 400 ''invalid_operation'', [])
          else (case rv_got env of
                  Inl e \<Rightarrow> (if e = JNotFound then ChangeRefused 404 ''operation_not_found''
                            else ChangeRefused 503 ''credential_recovery_unavailable'', [])
                | Inr d \<Rightarrow>
                    (case requireManagementAudit (rv_namespace env) (rv_audited env) caller ''credential''
                            (se_ResourceName (ci_Admission (jd_Intent d))) '''' True of
                       Some (status, code) \<Rightarrow> (ChangeRefused status code, [])
                     | None \<Rightarrow>
                         if jd_Completion d \<noteq> None then (ChangeView 200 (credentialOperationProjection d) None, [])
                         else resolve_change cl env caller d)))"

subsection \<open>Delivering references (\<open>operator_credential_delivery.go\<close>)\<close>

definition adoptionOperation :: "credential_intent \<Rightarrow> operation" where
  "adoptionOperation i =
     (let e = ci_Admission i in
      \<lparr>op_ID = se_OperationID e, op_AdmissionEventID = se_ID e, op_CompletionEventID = ci_CompletionEventID i,
       op_RequestID = se_RequestID e, op_Action = ''adopt'', op_ActorPrincipalID = se_PrincipalID e,
       op_ActorCredentialID = se_CredentialID e, op_ActorGeneration = se_Generation e, op_Authority = ''configuration'',
       op_TargetCredentialID = '''', op_At = to_micros (se_ObservedAt e), op_Status = ''pending''\<rparr>)"

definition matchesAdoptionReference :: "operation \<Rightarrow> operation \<Rightarrow> bool" where
  "matchesAdoptionReference actual expected \<longleftrightarrow>
     (op_Status actual = ''pending'' \<or> op_Status actual = ''delivered'') \<and> actual\<lparr>op_Status := ''pending''\<rparr> = expected"

text \<open>
  The answers of one pass: the authority's, the journal's per operation, how many references the
  pass reached before its working time ended, and whether it ended; \<open>dv_verifies\<close> and \<open>dv_records\<close> say
  whether the authority can verify a selection and the journal records adoptions.
\<close>

record delivery_env =
  dv_namespace :: string
  dv_busy :: bool
  dv_available :: bool
  dv_loaded :: "cred_error + snapshot"
  dv_reached :: nat
  dv_expired :: bool
  dv_got :: "string \<Rightarrow> journal_error + journaled"
  dv_finished :: "string \<Rightarrow> journal_error + security_event"
  dv_verifies :: bool
  dv_records :: bool
  dv_verified :: "string \<Rightarrow> selection \<Rightarrow> bool"
  dv_adopted :: "string \<Rightarrow> journal_error + security_event"
  dv_replaced :: "cred_error + snapshot"
  dv_now :: time

text \<open>Whether a reference is confirmed, the writes made to confirm it; \<open>None\<close> is an error.\<close>

definition confirmAdoptionReference ::
  "journal_lib \<Rightarrow> delivery_env \<Rightarrow> snapshot \<Rightarrow> operation \<Rightarrow> bool option \<times> change_write list" where
  "confirmAdoptionReference jl env sn p =
     (if \<not> dv_verifies env \<or> \<not> dv_records env then (Some False, [])
      else case dv_got env (op_ID p) of
        Inl _ \<Rightarrow> (None, [])
      | Inr d \<Rightarrow>
          (case jd_AdoptionEffect d of
             None \<Rightarrow> (None, [])
           | Some effect \<Rightarrow>
               if \<not> intent_valid jl (jd_Intent d) \<or> se_ResourceKind (ci_Admission (jd_Intent d)) \<noteq> ''credential-adoption''
                  \<or> \<not> matchesAdoptionReference p (adoptionOperation (jd_Intent d)) \<or> ae_Stage effect \<noteq> ''selected''
                  \<or> ae_RegistryUID effect \<noteq> sn_UID sn
                  \<or> \<not> dv_verified env (op_ID p) \<lparr>sel_UID = ae_AuthorityUID effect, sel_RegistryUID = sn_UID sn\<rparr>
               then (None, [])
               else (case jd_Completion d of
                       Some e \<Rightarrow> (Some (se_Outcome e = ''success'' \<and> se_ID e = op_CompletionEventID p), [])
                     | None \<Rightarrow>
                         (case dv_adopted env (op_ID p) of
                            Inl _ \<Rightarrow> (None, [WroteOutcome (op_ID p) ''success''])
                          | Inr e \<Rightarrow> (Some (se_Outcome e = ''success'' \<and> se_ID e = op_CompletionEventID p),
                                      [WroteOutcome (op_ID p) ''success''])))))"

definition confirmReference ::
  "cred_lib \<Rightarrow> journal_lib \<Rightarrow> delivery_env \<Rightarrow> snapshot \<Rightarrow> operation \<Rightarrow> bool option \<times> change_write list" where
  "confirmReference cl jl env sn p =
     (if op_Action p = ''adopt'' then confirmAdoptionReference jl env sn p
      else if op_Authority p \<noteq> ''registry'' then (Some False, [])
      else case dv_got env (op_ID p) of
        Inl _ \<Rightarrow> (None, [])
      | Inr d \<Rightarrow>
          if \<not> intent_valid jl (jd_Intent d) \<or> se_OperationID (ci_Admission (jd_Intent d)) \<noteq> op_ID p
             \<or> credentialRecoveryEvidence cl (jd_Intent d) (Some sn) (dv_now env) \<noteq> Inr ''success''
          then (None, [])
          else (case jd_Completion d of
                  Some e \<Rightarrow>
                    (if se_Outcome e \<noteq> ''success'' \<or> se_ID e \<noteq> op_CompletionEventID p then None else Some True, [])
                | None \<Rightarrow>
                    (case dv_finished env (op_ID p) of
                       Inl _ \<Rightarrow> (None, [WroteOutcome (op_ID p) ''success''])
                     | Inr e \<Rightarrow> (if se_Outcome e \<noteq> ''success'' \<or> se_ID e \<noteq> op_CompletionEventID p then None else Some True,
                                 [WroteOutcome (op_ID p) ''success'']))))"

record delivery_result =
  dr_Inspected :: nat
  dr_Confirmed :: nat
  dr_Marked :: nat
  dr_Pruned :: nat

text \<open>The references one pass inspects: at most sixteen, from the cursor on, around the end.\<close>

definition delivery_window :: "string \<Rightarrow> nat \<Rightarrow> operation list \<Rightarrow> operation list" where
  "delivery_window after reached given =
     (let refs = sort_key op_ID given;
          found = length (takeWhile (\<lambda>p. op_ID p \<le> after) refs);
          start = (if found = length refs then 0 else found)
      in take (min 16 reached) (rotate start refs))"

definition delivery_document :: "document \<Rightarrow> string list \<Rightarrow> string list \<Rightarrow> document" where
  "delivery_document d mark prune =
     (normalized d)\<lparr>d_Operations :=
        map (\<lambda>p. if op_ID p \<in> set mark then p\<lparr>op_Status := ''delivered''\<rparr> else p)
          (filter (\<lambda>p. op_ID p \<notin> set prune) (d_Operations d))\<rparr>"

text \<open>One pass: its result, whether it ended with an error, the cursor it leaves and its writes.\<close>

definition RunOnce ::
  "cred_lib \<Rightarrow> journal_lib \<Rightarrow> delivery_env \<Rightarrow> string
     \<Rightarrow> (delivery_result \<times> cred_error option) \<times> string \<times> change_write list" where
  "RunOnce cl jl env after =
     (let none = \<lparr>dr_Inspected = 0, dr_Confirmed = 0, dr_Marked = 0, dr_Pruned = 0\<rparr> in
      if dv_busy env then ((none, Some ErrConflict), after, [])
      else if \<not> dv_available env then ((none, Some ErrUnavailable), after, [])
      else case dv_loaded env of
        Inl _ \<Rightarrow> ((none, Some ErrUnavailable), after, [])
      | Inr sn \<Rightarrow>
          if sn_UID sn = '''' \<or> sn_Version sn = '''' \<or> d_Namespace (sn_Document sn) \<noteq> dv_namespace env
             \<or> Validate cl (sn_Document sn) \<noteq> None
          then ((none, Some ErrUnavailable), after, [])
          else let window = delivery_window after (dv_reached env) (d_Operations (sn_Document sn));
                   answers = map (confirmReference cl jl env sn) window;
                   confirmed = map fst (filter (\<lambda>(p, a). fst a = Some True) (zip window answers));
                   prune = map op_ID (filter (\<lambda>p. op_Status p = ''delivered'') confirmed);
                   mark = map op_ID (filter (\<lambda>p. op_Status p \<noteq> ''delivered'') confirmed);
                   failed = (dv_expired env \<or> list_ex (\<lambda>a. fst a = None) answers);
                   writes = concat (map snd answers);
                   cursor = (if window = [] then after else op_ID (last window));
                   result = \<lparr>dr_Inspected = length window, dr_Confirmed = length confirmed, dr_Marked = 0, dr_Pruned = 0\<rparr>
               in if mark = [] \<and> prune = [] then ((result, if failed then Some ErrUnavailable else None), cursor, writes)
                  else let writes' = writes @ [WroteRegistry (sn_UID sn) (sn_Version sn)
                                                 (delivery_document (sn_Document sn) mark prune)]
                       in (case dv_replaced env of
                             Inl _ \<Rightarrow> ((result, Some ErrUnavailable), cursor, writes')
                           | Inr _ \<Rightarrow> ((result\<lparr>dr_Marked := length mark, dr_Pruned := length prune\<rparr>,
                                       if failed then Some ErrUnavailable else None), cursor, writes')))"

end
