(* ===== verification/Change_Properties.thy ===== *)
theory Change_Properties
  imports Credential_Change
begin

section \<open>What a prepared change is\<close>

text \<open>
  A prepared change is a step the registry accepts: the conditions \<open>prepareManagedCredentialMutation\<close>
  checks imply those of \<open>transition\<close>, checked again by the store. The lemmas go from the changed
  credential to the document, and from there to the request the store sends.
\<close>

subsection \<open>Building a transition\<close>

lemma succeeds_refl: "succeeds c c"
  by (simp add: succeeds_def sameCreation_def samePolicy_def Let_def)

lemma transition_loop_runs:
  assumes "distinct (map c_ID cs)"
    and "\<forall>c\<in>set cs. case map_of previous (c_ID c) of
           Some prior \<Rightarrow> succeeds prior c \<and> (prior = c \<or> c_ID c \<in> set refs)
         | None \<Rightarrow> c_legacyBrowserGeneration c = 0 \<and> c_ID c \<in> set refs"
  shows "\<exists>left. transition_credentials initial refs previous cs = Some left
    \<and> (\<forall>k. map_of left k = (if k \<in> c_ID ` set cs then None else map_of previous k))"
  using assms
proof (induction cs arbitrary: previous)
  case (Cons c cs)
  let ?p = "if map_of previous (c_ID c) = None then previous else AList.delete (c_ID c) previous"
  have other: "\<forall>c'\<in>set cs. c_ID c' \<noteq> c_ID c" using Cons.prems(1) by (metis distinct.simps(2) image_eqI list.map(2) set_map)
  have look: "map_of ?p k = (if k = c_ID c then None else map_of previous k)" for k
    by (simp add: alist_lookup_delete)
  have rest: "\<forall>c'\<in>set cs. case map_of ?p (c_ID c') of
       Some prior \<Rightarrow> succeeds prior c' \<and> (prior = c' \<or> c_ID c' \<in> set refs)
     | None \<Rightarrow> c_legacyBrowserGeneration c' = 0 \<and> c_ID c' \<in> set refs"
    using Cons.prems(2) other unfolding look by auto
  have "distinct (map c_ID cs)" using Cons.prems(1) by simp
  from Cons.IH [OF this rest] obtain left where left: "transition_credentials initial refs ?p cs = Some left"
    "\<forall>k. map_of left k = (if k \<in> c_ID ` set cs then None else map_of ?p k)" by blast
  have "transition_credentials initial refs previous (c # cs) = Some left"
    using Cons.prems(2) left(1) by (auto simp: Let_def split: option.splits)
  moreover have "map_of left k = (if k \<in> c_ID ` set (c # cs) then None else map_of previous k)" for k
    using left(2) look [of k] by auto
  ultimately show ?case by blast
qed simp

lemma transition_holds:
  assumes "validate lib old = None" and "validate lib next = None" and "same_frame old next"
    and "\<forall>p\<in>set (d_Operations next). operation_step_ok (index_by op_ID (d_Operations old)) (index_by c_ID (d_Credentials old)) p"
    and "op_ID ` set (d_Operations old) \<subseteq> op_ID ` set (d_Operations next)"
    and "c_ID ` set (d_Credentials old) \<subseteq> c_ID ` set (d_Credentials next)"
    and "\<forall>c\<in>set (d_Credentials next). c \<in> set (d_Credentials old)
       \<or> c_ID c \<in> set (new_references (index_by op_ID (d_Operations old)) next)
         \<and> (if c_ID c \<in> c_ID ` set (d_Credentials old)
            then \<exists>prior\<in>set (d_Credentials old). c_ID prior = c_ID c \<and> succeeds prior c
            else c_legacyBrowserGeneration c = 0)"
  shows "transition (Some old) next = None"
proof -
  let ?prev = "index_by c_ID (d_Credentials old)" and ?ops = "index_by op_ID (d_Operations old)"
  let ?refs = "new_references ?ops next"
  note dold = valid_document(1,2) [OF assms(1)] and dnext = valid_document(1) [OF assms(2)]
  have prev: "map_of ?prev (c_ID c) = Some c" if "c \<in> set (d_Credentials old)" for c
    using index_by_lookup [OF dold(1)] that by simp
  have step: "case map_of ?prev (c_ID c) of
      Some prior \<Rightarrow> succeeds prior c \<and> (prior = c \<or> c_ID c \<in> set ?refs)
    | None \<Rightarrow> c_legacyBrowserGeneration c = 0 \<and> c_ID c \<in> set ?refs" if c: "c \<in> set (d_Credentials next)" for c
  proof (cases "c \<in> set (d_Credentials old)")
    case True
    then show ?thesis using prev succeeds_refl by simp
  next
    case False
    have at_c: "c_ID c \<in> set ?refs
         \<and> (if c_ID c \<in> c_ID ` set (d_Credentials old)
            then \<exists>prior\<in>set (d_Credentials old). c_ID prior = c_ID c \<and> succeeds prior c
            else c_legacyBrowserGeneration c = 0)" using assms(7) c False by blast
    show ?thesis
    proof (cases "c_ID c \<in> c_ID ` set (d_Credentials old)")
      case True
      with at_c obtain prior where "prior \<in> set (d_Credentials old)" "c_ID prior = c_ID c" "succeeds prior c" by auto
      with prev [of prior] at_c show ?thesis by simp
    next
      case False
      then have "map_of ?prev (c_ID c) = None" by (simp add: index_by_missing [OF dold(1)]) (metis imageI)
      with at_c False show ?thesis by simp
    qed
  qed
  from transition_loop_runs [OF dnext, where previous = ?prev and refs = ?refs and initial = False] step obtain left where
    left: "transition_credentials False ?refs ?prev (d_Credentials next) = Some left"
    "\<forall>k. map_of left k = (if k \<in> c_ID ` set (d_Credentials next) then None else map_of ?prev k)" by blast
  have "map_of left k = None" for k
  proof (cases "map_of ?prev k")
    case (Some c)
    then have "k \<in> c_ID ` set (d_Credentials old)" using index_by_lookup [OF dold(1), of k c] by auto
    with assms(6) left(2) show ?thesis by auto
  qed (use left(2) in simp)
  then have "left = []"
  proof (cases left)
    case (Cons e es)
    then have "map_of left (fst e) \<noteq> None" by simp
    with \<open>\<And>k. map_of left k = None\<close> show ?thesis by simp
  qed simp
  moreover have "\<not> list_ex (\<lambda>(i, p). i \<notin> set (map op_ID (d_Operations next)) \<and> op_Status p = ''pending'') ?ops"
  proof
    assume "list_ex (\<lambda>(i, p). i \<notin> set (map op_ID (d_Operations next)) \<and> op_Status p = ''pending'') ?ops"
    then obtain i p where ip: "(i, p) \<in> set ?ops" "i \<notin> op_ID ` set (d_Operations next)" by (auto simp: list_ex_iff)
    from ip(1) have "i \<in> fst ` set ?ops" by (metis fst_conv imageI)
    then obtain q where "map_of ?ops i = Some q" by (metis map_of_eq_None_iff not_None_eq)
    then have "i \<in> op_ID ` set (d_Operations old)" using index_by_lookup [OF dold(2), of i q] by auto
    with ip(2) assms(5) show False by blast
  qed
  ultimately show ?thesis
    using assms(3,4) left(1) by (simp add: transition_def Let_def list_all_iff)
qed

subsection \<open>The changed credential\<close>

text \<open>What every change keeps of a credential.\<close>

definition same_identity :: "credential \<Rightarrow> credential \<Rightarrow> bool" where
  "same_identity a b \<longleftrightarrow>
     c_ID a = c_ID b \<and> c_PrincipalID a = c_PrincipalID b \<and> c_TenantID a = c_TenantID b \<and> c_Kind a = c_Kind b
     \<and> c_Issuer a = c_Issuer b \<and> c_Subject a = c_Subject b \<and> c_Source a = c_Source b \<and> c_CreatedAt a = c_CreatedAt b
     \<and> c_legacyBrowserGeneration a = c_legacyBrowserGeneration b"

lemma apply_policy_fields:
  "c_ID (apply_policy p c) = c_ID c" "c_PrincipalID (apply_policy p c) = c_PrincipalID c"
  "c_TenantID (apply_policy p c) = c_TenantID c" "c_Kind (apply_policy p c) = c_Kind c"
  "c_Issuer (apply_policy p c) = c_Issuer c" "c_Subject (apply_policy p c) = c_Subject c"
  "c_Source (apply_policy p c) = c_Source c" "c_CreatedAt (apply_policy p c) = c_CreatedAt c"
  "c_legacyBrowserGeneration (apply_policy p c) = c_legacyBrowserGeneration c"
  "c_Generation (apply_policy p c) = c_Generation c" "c_material (apply_policy p c) = c_material c"
  "c_State (apply_policy p c) = c_State c" "c_PermissionRevision (apply_policy p c) = c_PermissionRevision c"
  by (simp_all add: apply_policy_def)

lemma change_credential_cases:
  assumes "change_credential ns now req c = Some c'"
  obtains (policy) policy where "mq_Action req = ''create'' \<or> mq_Action req = ''update''" "mq_Policy req = Some policy"
      "c' = (if sameManagedCredentialPolicy c (apply_policy policy c) then apply_policy policy c
             else (apply_policy policy c)\<lparr>c_PermissionRevision := c_PermissionRevision c + 1\<rparr>)"
  | (rotate) "mq_Action req = ''rotate''" "mq_Key req \<noteq> c_material c"
      "c' = c\<lparr>c_material := mq_Key req, c_Generation := c_Generation c + 1\<rparr>"
  | (revoke) "mq_Action req = ''revoke''"
      "c' = c\<lparr>c_material := '''', c_State := StateRevoked, c_PermissionRevision := c_PermissionRevision c + 1\<rparr>"
  using assms
  by (auto simp: change_credential_def Let_def apply_policy_fields split: if_splits option.splits)

lemma changed_identity:
  assumes "change_credential ns now req c = Some c'"
  shows "same_identity c c'"
  using assms by (cases rule: change_credential_cases) (auto simp: same_identity_def apply_policy_fields)

lemma normal_identity: "same_identity a b \<Longrightarrow> same_identity (normal_credential a) (normal_credential b)"
  by (simp add: same_identity_def normal_credential_def)

lemma normal_counters:
  "c_Generation (normal_credential c) = c_Generation c" "c_PermissionRevision (normal_credential c) = c_PermissionRevision c"
  "c_Name (normal_credential c) = c_Name c"
  by (simp_all add: normal_credential_def)

lemma policy_of_eq:
  "policy_of a = policy_of b \<longleftrightarrow>
     c_ID a = c_ID b \<and> c_PrincipalID a = c_PrincipalID b \<and> c_TenantID a = c_TenantID b \<and> c_Kind a = c_Kind b
     \<and> c_Issuer a = c_Issuer b \<and> c_Subject a = c_Subject b \<and> c_Role a = c_Role b \<and> c_State a = c_State b
     \<and> c_Scopes a = c_Scopes b \<and> c_AgentResources a = c_AgentResources b \<and> c_MachineResources a = c_MachineResources b
     \<and> c_Source a = c_Source b \<and> c_ExpiresAt a = c_ExpiresAt b
     \<and> c_legacyBrowserGeneration a = c_legacyBrowserGeneration b"
  by (cases a; cases b) (auto simp: policy_of_def)

text \<open>\<open>sameManagedCredentialPolicy\<close> is the policy comparison of \<open>transition\<close>.\<close>

lemma policies_agree:
  assumes "same_identity a b"
  shows "samePolicy (normal_credential a) (normal_credential b) \<longleftrightarrow> sameManagedCredentialPolicy a b"
  using normal_identity [OF assms]
  by (auto simp: samePolicy_def policy_of_eq sameManagedCredentialPolicy_def Let_def same_identity_def simp del: normal_credential_fields)

lemma changed_succeeds:
  assumes "change_credential ns now req c = Some c'" and "c_State c = StateActive"
  shows "succeeds (normal_credential c) (normal_credential c')"
proof -
  note i = changed_identity [OF assms(1)]
  note n = normal_identity [OF i] and same = policies_agree [OF i]
  have active: "StateActive \<noteq> StateRevoked" by (simp add: registry_words)
  have head: "c_PrincipalID (normal_credential c) = c_PrincipalID (normal_credential c')"
    "c_TenantID (normal_credential c) = c_TenantID (normal_credential c')"
    "c_Kind (normal_credential c) = c_Kind (normal_credential c')"
    "c_Issuer (normal_credential c) = c_Issuer (normal_credential c')"
    "c_Subject (normal_credential c) = c_Subject (normal_credential c')"
    "c_legacyBrowserGeneration (normal_credential c) = c_legacyBrowserGeneration (normal_credential c')"
    "sameCreation (normal_credential c) (normal_credential c')"
    using n by (simp_all only: same_identity_def sameCreation_def)
  from assms(1) show ?thesis
  proof (cases rule: change_credential_cases)
    case (policy policy)
    have st: "c_State c' = StateActive" "c_material c' = c_material c" "c_Generation c' = c_Generation c"
      using policy(3) assms(2) by (simp_all add: apply_policy_fields)
    have "sameManagedCredentialPolicy c c' \<longleftrightarrow> sameManagedCredentialPolicy c (apply_policy policy c)"
      using policy(3) by (simp add: sameManagedCredentialPolicy_def Let_def normal_credential_def)
    then have "c_PermissionRevision c' = (if sameManagedCredentialPolicy c c' then c_PermissionRevision c else c_PermissionRevision c + 1)"
      using policy(3) by (simp add: apply_policy_fields)
    with st assms(2) active head same show ?thesis
      unfolding succeeds_def Let_def by (simp add: normal_counters)
  next
    case rotate
    have "sameManagedCredentialPolicy c c'" using rotate(3) by (simp add: sameManagedCredentialPolicy_def Let_def normal_credential_def)
    with rotate(2,3) assms(2) active head same show ?thesis
      unfolding succeeds_def Let_def by (simp add: normal_counters)
  next
    case revoke
    have "\<not> sameManagedCredentialPolicy c c'"
      using revoke(2) assms(2) active by (simp add: sameManagedCredentialPolicy_def Let_def)
    with revoke(2) assms(2) active head same show ?thesis
      unfolding succeeds_def Let_def by (simp add: normal_counters)
  qed
qed

subsection \<open>The changed document\<close>

lemma change_start_cases:
  assumes "change_start kl req now cs = Some (cs1, target)"
  obtains (create) policy where "mq_Action req = ''create''" "mq_Policy req = Some policy"
      "\<forall>c\<in>set cs. c_ID c \<noteq> target"
      "cs1 = cs @ [created_credential kl req policy now target]"
  | (existing) "mq_Action req \<noteq> ''create''" "cs1 = cs" "target = mq_CredentialID req" "target \<noteq> ''''"
  using assms by (auto simp: change_start_def Let_def list_ex_iff split: if_splits option.splits)

lemma first_with_id:
  assumes "length (takeWhile (\<lambda>c. c_ID c \<noteq> target) cs) < length cs"
  obtains before c after where "cs = before @ c # after" "c_ID c = target" "target \<notin> c_ID ` set before"
    "cs ! length (takeWhile (\<lambda>c. c_ID c \<noteq> target) cs) = c"
    "\<forall>x. cs[length (takeWhile (\<lambda>c. c_ID c \<noteq> target) cs) := x] = before @ x # after"
    "before = takeWhile (\<lambda>c. c_ID c \<noteq> target) cs"
proof -
  let ?before = "takeWhile (\<lambda>c. c_ID c \<noteq> target) cs" and ?rest = "dropWhile (\<lambda>c. c_ID c \<noteq> target) cs"
  have split: "cs = ?before @ ?rest" by simp
  with assms obtain c after where rest: "?rest = c # after" by (cases ?rest) auto
  have id: "c_ID c = target" using rest hd_dropWhile [of "\<lambda>c. c_ID c \<noteq> target" cs] by simp
  have no: "target \<notin> c_ID ` set ?before" by (auto dest: set_takeWhileD)
  have whole: "cs = ?before @ c # after" using split rest by simp
  have "(?before @ c # after) ! length ?before = c" "(?before @ c # after)[length ?before := x] = ?before @ x # after" for x
    by (simp_all only: nth_append_length list_update_length)
  then show thesis using that [OF whole id no] whole by metis
qed

lemma change_credentials_cases:
  assumes "change_credentials kl ns now req cs = Some (cs', target)"
  obtains (created) c where "cs' = cs @ [c]" "c_ID c = target" "target \<notin> c_ID ` set cs" "c_legacyBrowserGeneration c = 0"
  | (changed) before c after c' where "cs = before @ c # after" "cs' = before @ c' # after" "c_ID c = target"
      "change_credential ns now req c = Some c'" "c_State c = StateActive"
proof -
  from assms obtain cs1 where start: "change_start kl req now cs = Some (cs1, target)"
    and short: "length (takeWhile (\<lambda>c. c_ID c \<noteq> target) cs1) < length cs1"
    by (auto simp: change_credentials_def Let_def split: option.splits if_splits)
  obtain before c after where at_c: "cs1 = before @ c # after" "c_ID c = target" "target \<notin> c_ID ` set before"
    "cs1 ! length (takeWhile (\<lambda>c. c_ID c \<noteq> target) cs1) = c"
    "\<forall>x. cs1[length (takeWhile (\<lambda>c. c_ID c \<noteq> target) cs1) := x] = before @ x # after"
    "before = takeWhile (\<lambda>c. c_ID c \<noteq> target) cs1"
    using first_with_id [OF short] .
  obtain c' where c': "c_State c = StateActive" "change_credential ns now req c = Some c'"
    "cs' = before @ (if mq_Action req = ''create'' then c'\<lparr>c_PermissionRevision := 1\<rparr> else c') # after"
    using assms start short at_c(4,5) by (auto simp: change_credentials_def Let_def split: option.splits if_splits)
  from start show thesis
  proof (cases rule: change_start_cases)
    case (create policy)
    let ?new = "created_credential kl req policy now target"
    have id: "c_ID ?new = target" by (simp add: created_credential_def)
    have "takeWhile (\<lambda>c. c_ID c \<noteq> target) cs1 = cs"
      using create(3,4) id by (simp add: takeWhile_append)
    then have b: "before = cs" using at_c(6) by (rule trans [rotated])
    have "cs @ c # after = cs @ [?new]" using at_c(1) create(4) unfolding b by (rule trans [OF sym])
    then have new: "c = ?new" and rest: "after = []" by simp_all
    have "c_legacyBrowserGeneration ?new = 0" by (simp add: created_credential_def)
    with changed_identity [OF c'(2)] new id have c'_id: "c_ID c' = target" "c_legacyBrowserGeneration c' = 0"
      by (auto simp: same_identity_def)
    have "target \<notin> c_ID ` set cs" using create(3) by blast
    with c'_id c'(3) create(1) b rest show thesis
      using created [of "c'\<lparr>c_PermissionRevision := 1\<rparr>"] by simp
  next
    case existing
    then show thesis using changed [of before c after c'] at_c(1,2) c'(1,2,3) by simp
  qed
qed

lemma normal_members:
  assumes "normalized d = d"
  shows "c \<in> set (d_Credentials d) \<Longrightarrow> normal_credential c = c" and "p \<in> set (d_Operations d) \<Longrightarrow> normal_operation p = p"
proof -
  assume "c \<in> set (d_Credentials d)"
  then have "c \<in> set (d_Credentials (normalized d))" using assms by simp
  then show "normal_credential c = c" by (auto simp: normal_set normal_credential_again)
next
  assume "p \<in> set (d_Operations d)"
  then have "p \<in> set (d_Operations (normalized d))" using assms by simp
  then show "normal_operation p = p" by (auto simp: normalized_def normal_operation_again)
qed

lemma prepared_cases:
  assumes "prepareManagedCredentialMutation cl jl kl sn actor req now = Inr (next, p)"
  obtains rg cs target rg' where "sn_UID sn \<noteq> ''''" "sn_Version sn \<noteq> ''''"
    "compileRegistryCredentials cl (sn_Document sn) now = Some rg" "ca_CredentialAuthority actor = ''registry''"
    "current_administrator rg actor"
    "change_credentials kl (d_Namespace (normalized (sn_Document sn))) now req (d_Credentials (normalized (sn_Document sn)))
       = Some (cs, target)"
    "p = change_operation kl actor req now target"
    "next = normalized ((normalized (sn_Document sn))\<lparr>d_Credentials := cs,
       d_Operations := d_Operations (normalized (sn_Document sn)) @ [p]\<rparr>)"
    "list_ex durable_administrator (d_Credentials next)" "compileRegistryCredentials cl next now = Some rg'"
    "jl_uuid jl (mq_OperationID req) = Some (mq_OperationID req)"
  using assms by (auto simp: prepareManagedCredentialMutation_def Let_def split: if_splits option.splits)

lemma read_secret_document:
  assumes "read_secret cl st s = Inr sn"
  shows "validate cl (sn_Document sn) = None" and "normalized (sn_Document sn) = sn_Document sn"
    and "d_Namespace (sn_Document sn) = st_Namespace st" and "sn_Version sn = s_ResourceVersion s" and "sn_UID sn = s_UID s"
proof -
  from assms obtain raw where raw: "decode cl raw = Inr (sn_Document sn)"
    and "d_Namespace (sn_Document sn) = st_Namespace st" "sn_Version sn = s_ResourceVersion s" "sn_UID sn = s_UID s"
    unfolding read_secret_Inr by auto
  then show "d_Namespace (sn_Document sn) = st_Namespace st" "sn_Version sn = s_ResourceVersion s" "sn_UID sn = s_UID s"
    by blast+
  show "validate cl (sn_Document sn) = None" by (rule decode_valid [OF raw])
  from raw obtain d b where "encode cl d = Inr (b, sn_Document sn)"
    by (auto simp: decode_def split: if_splits option.splits sum.splits)
  from encode_normal [OF this] show "normalized (sn_Document sn) = sn_Document sn" by (simp add: normalized_again)
qed

text \<open>The administrator a registry caller with full access is.\<close>

lemma current_administrator_credential:
  assumes "compileRegistryCredentials cl d now = Some rg" and "current_administrator rg actor"
  obtains a where "a \<in> set (d_Credentials d)" "usable now a" "c_ID a = ca_CredentialID actor" "c_Role a = RoleAdministrator"
    "c_PrincipalID a = ca_PrincipalID actor" "c_Generation a = ca_CredentialGeneration actor"
proof -
  from assms(2) obtain m who where who: "map_of (rg_byID rg) (ca_CredentialID actor) = Some (m, who)"
    "sameCredentialIdentity actor who" "ss_full (ca_Scopes who)"
    by (auto simp: current_administrator_def split: option.splits)
  from who(1) compiled_document(6) [OF assms(1)] obtain a where a: "a \<in> set (d_Credentials d)" "usable now a"
    "c_ID a = ca_CredentialID actor" "(m, who) = entry_of a" by blast
  then have w: "who = registry_caller a" by (simp add: entry_of_def)
  with who(3) have "c_Role a = RoleAdministrator"
    by (simp add: registry_caller_def Let_def newScopeSet_def split: if_splits)
  with a w who(2) that show thesis by (simp add: sameCredentialIdentity_def registry_caller_fields)
qed

text \<open>The credentials and the operations of the document a change prepares, from a document in normal form.\<close>

lemma prepared_document:
  assumes "prepareManagedCredentialMutation cl jl kl sn actor req now = Inr (next, p)"
    and old: "normalized (sn_Document sn) = sn_Document sn"
  shows "set (d_Operations next) = insert p (set (d_Operations (sn_Document sn)))"
    and "same_frame (sn_Document sn) next" and "normalized next = next" and "Validate cl next = None"
    and "c_ID ` set (d_Credentials next) = insert (op_TargetCredentialID p) (c_ID ` set (d_Credentials (sn_Document sn)))"
    and "\<forall>c\<in>set (d_Credentials next). c \<in> set (d_Credentials (sn_Document sn))
       \<or> c_ID c = op_TargetCredentialID p
         \<and> (if c_ID c \<in> c_ID ` set (d_Credentials (sn_Document sn))
            then \<exists>prior\<in>set (d_Credentials (sn_Document sn)). c_ID prior = c_ID c \<and> succeeds prior c
            else c_legacyBrowserGeneration c = 0)"
proof -
  let ?old = "sn_Document sn"
  obtain cs target rg' where
    "change_credentials kl (d_Namespace (normalized ?old)) now req (d_Credentials (normalized ?old)) = Some (cs, target)"
    and p: "p = change_operation kl actor req now target"
    and "next = normalized ((normalized ?old)\<lparr>d_Credentials := cs, d_Operations := d_Operations (normalized ?old) @ [p]\<rparr>)"
    and compiled: "compileRegistryCredentials cl next now = Some rg'"
    by (rule prepared_cases [OF assms(1)]) (rule that; assumption)
  then have change: "change_credentials kl (d_Namespace ?old) now req (d_Credentials ?old) = Some (cs, target)"
    and nx: "next = normalized (?old\<lparr>d_Credentials := cs, d_Operations := d_Operations ?old @ [p]\<rparr>)"
    using old by simp_all
  have target: "op_TargetCredentialID p = target" and np: "normal_operation p = p"
    using p by (simp_all add: change_operation_def normal_operation_def to_micros_again)
  have ops: "d_Operations next = sort_key op_ID (map normal_operation (d_Operations ?old @ [p]))"
    and creds: "d_Credentials next = sort_key c_ID (map normal_credential cs)"
    using nx by (simp_all add: normalized_def)
  show "set (d_Operations next) = insert p (set (d_Operations ?old))"
    using normal_members(2) [OF old] np by (auto simp: ops image_iff)
  show "same_frame ?old next"
    using arg_cong [OF old, of d_legacyIssuedBefore] arg_cong [OF old, of d_legacyExpiresBefore]
    by (simp add: nx same_frame_def normalized_def)
  show "normalized next = next" by (simp add: nx normalized_again)
  show "Validate cl next = None" by (rule compiled_document(1) [OF compiled])
  have set_next: "set (d_Credentials next) = normal_credential ` set cs" by (simp add: creds)
  have kept: "normal_credential c = c" if "c \<in> set (d_Credentials ?old)" for c by (rule normal_members(1) [OF old that])
  from change have both: "c_ID ` set cs = insert target (c_ID ` set (d_Credentials ?old))
    \<and> (\<forall>c\<in>set cs. c \<in> set (d_Credentials ?old)
       \<or> c_ID c = target
         \<and> (if c_ID c \<in> c_ID ` set (d_Credentials ?old)
            then \<exists>prior\<in>set (d_Credentials ?old). c_ID prior = c_ID c \<and> succeeds prior (normal_credential c)
            else c_legacyBrowserGeneration c = 0))"
  proof (cases rule: change_credentials_cases)
    case (created c)
    then show ?thesis by auto
  next
    case (changed before c after c')
    have "same_identity c c'" by (rule changed_identity [OF changed(4)])
    then have id: "c_ID c' = target" using changed(3) by (simp add: same_identity_def)
    have "c \<in> set (d_Credentials ?old)" using changed(1) by simp
    then have "succeeds c (normal_credential c')" using changed_succeeds [OF changed(4,5)] kept by simp
    with \<open>c \<in> set (d_Credentials ?old)\<close> changed(1,2,3) id show ?thesis by auto
  qed
  show "c_ID ` set (d_Credentials next) = insert (op_TargetCredentialID p) (c_ID ` set (d_Credentials ?old))"
    using both by (simp add: set_next target image_image)
  show "\<forall>c\<in>set (d_Credentials next). c \<in> set (d_Credentials ?old)
       \<or> c_ID c = op_TargetCredentialID p
         \<and> (if c_ID c \<in> c_ID ` set (d_Credentials ?old)
            then \<exists>prior\<in>set (d_Credentials ?old). c_ID prior = c_ID c \<and> succeeds prior c
            else c_legacyBrowserGeneration c = 0)"
  proof
    fix c assume "c \<in> set (d_Credentials next)"
    then obtain x where x: "x \<in> set cs" "c = normal_credential x" by (auto simp: set_next)
    from x(2) have fields: "c_ID c = c_ID x" "c_legacyBrowserGeneration c = c_legacyBrowserGeneration x"
      by (simp_all add: normal_credential_def)
    show "c \<in> set (d_Credentials ?old)
       \<or> c_ID c = op_TargetCredentialID p
         \<and> (if c_ID c \<in> c_ID ` set (d_Credentials ?old)
            then \<exists>prior\<in>set (d_Credentials ?old). c_ID prior = c_ID c \<and> succeeds prior c
            else c_legacyBrowserGeneration c = 0)"
    proof (cases "x \<in> set (d_Credentials ?old)")
      case True
      then show ?thesis using kept x(2) by simp
    next
      case False
      with both x(1) have "c_ID x = target
         \<and> (if c_ID x \<in> c_ID ` set (d_Credentials ?old)
            then \<exists>prior\<in>set (d_Credentials ?old). c_ID prior = c_ID x \<and> succeeds prior (normal_credential x)
            else c_legacyBrowserGeneration x = 0)" by blast
      then show ?thesis using x(2) fields target by metis
    qed
  qed
qed

text \<open>A prepared change is a step of the registry's history.\<close>

lemma prepared_replaces:
  assumes "prepareManagedCredentialMutation cl jl kl sn actor req now = Inr (next, p)"
    and "normalized (sn_Document sn) = sn_Document sn" and valid: "validate cl (sn_Document sn) = None"
  shows "replaces cl (sn_Document sn) next" and "op_ID p \<notin> op_ID ` set (d_Operations (sn_Document sn))"
proof -
  let ?old = "sn_Document sn" and ?ops = "index_by op_ID (d_Operations (sn_Document sn))"
  note doc = prepared_document [OF assms(1,2)]
  have vnext: "validate cl next = None" using Validate_normal [OF doc(4)] doc(3) by simp
  show new: "op_ID p \<notin> op_ID ` set (d_Operations ?old)"
    using assms(1)
  proof (rule prepared_cases)
    fix rg cs target rg'
    assume "next = normalized ((normalized ?old)\<lparr>d_Credentials := cs, d_Operations := d_Operations (normalized ?old) @ [p]\<rparr>)"
    then have "mset (map op_ID (d_Operations next)) = mset (map op_ID (d_Operations ?old @ [p]))"
      using assms(2) by (simp add: normalized_def normal_operation_id image_mset.compositionality o_def)
    with valid_document(2) [OF vnext] have "distinct (map op_ID (d_Operations ?old @ [p]))"
      using mset_eq_imp_distinct_iff by metis
    then show ?thesis by simp
  qed
  have actor: "new_operation_ok (index_by c_ID (d_Credentials ?old)) p"
    using assms(1)
  proof (rule prepared_cases)
    fix rg cs target rg'
    assume rg: "compileRegistryCredentials cl ?old now = Some rg" "current_administrator rg actor"
      and p: "p = change_operation kl actor req now target"
    from current_administrator_credential [OF rg] obtain a where a: "a \<in> set (d_Credentials ?old)" "usable now a"
      "c_ID a = ca_CredentialID actor" "c_Role a = RoleAdministrator" "c_PrincipalID a = ca_PrincipalID actor"
      "c_Generation a = ca_CredentialGeneration actor" .
    then have "map_of (index_by c_ID (d_Credentials ?old)) (ca_CredentialID actor) = Some a"
      by (simp add: index_by_lookup [OF valid_document(1) [OF valid]])
    with a show ?thesis by (simp add: new_operation_ok_def p change_operation_def usable_def)
  qed
  have fresh: "map_of ?ops (op_ID p) = None"
    using new by (simp add: index_by_missing [OF valid_document(2) [OF valid]]) (metis imageI)
  have step: "operation_step_ok ?ops (index_by c_ID (d_Credentials ?old)) q" if "q \<in> set (d_Operations next)" for q
  proof (cases "q = p")
    case True
    with actor fresh show ?thesis by (simp add: operation_step_ok_def)
  next
    case False
    then have "map_of ?ops (op_ID q) = Some q"
      using that doc(1) by (simp add: index_by_lookup [OF valid_document(2) [OF valid]])
    then show ?thesis by (simp add: operation_step_ok_def kept_operation_ok_def)
  qed
  from fresh have ref: "op_TargetCredentialID p \<in> set (new_references ?ops next)"
    using doc(1) by (auto simp: new_references_def)
  have "transition (Some ?old) next = None"
  proof (rule transition_holds [OF valid vnext doc(2)])
    show "\<forall>q\<in>set (d_Operations next). operation_step_ok ?ops (index_by c_ID (d_Credentials ?old)) q" using step by blast
    show "op_ID ` set (d_Operations ?old) \<subseteq> op_ID ` set (d_Operations next)" using doc(1) by auto
    show "c_ID ` set (d_Credentials ?old) \<subseteq> c_ID ` set (d_Credentials next)" using doc(5) by auto
    show "\<forall>c\<in>set (d_Credentials next). c \<in> set (d_Credentials ?old)
       \<or> c_ID c \<in> set (new_references ?ops next)
         \<and> (if c_ID c \<in> c_ID ` set (d_Credentials ?old)
            then \<exists>prior\<in>set (d_Credentials ?old). c_ID prior = c_ID c \<and> succeeds prior c
            else c_legacyBrowserGeneration c = 0)"
      using doc(6) ref by metis
  qed
  then show "replaces cl ?old next" using valid vnext by (simp add: replaces_def)
qed

text \<open>
  C34: A prepared change is never refused by the store at the version it was reviewed at: as long as the
  Secret is the one the snapshot was read from, \<open>Replace\<close> sends the prepared document, and it is a
  step of the registry's history. The step adds exactly one operation, under a fresh id, and changes or
  creates exactly the credential that operation names; every other credential is kept as it is. The
  actor is an active, unexpired administrator of the reviewed document at its current generation.
\<close>

theorem prepared_change_stored:
  assumes "read_secret cl st s = Inr sn" and "s_Immutable s \<noteq> Some True"
    and "prepareManagedCredentialMutation cl jl kl sn actor req now = Inr (next, p)"
  shows "(\<exists>raw. replace_request cl st (sn_Version sn) next (ended, Inr s)
            = Inr (s\<lparr>s_Data := AList.update dataKey raw (s_Data s)\<rparr>, next))
    \<and> replaces cl (sn_Document sn) next
    \<and> op_ID p \<notin> op_ID ` set (d_Operations (sn_Document sn))
    \<and> set (d_Operations next) = insert p (set (d_Operations (sn_Document sn)))
    \<and> c_ID ` set (d_Credentials next) = insert (op_TargetCredentialID p) (c_ID ` set (d_Credentials (sn_Document sn)))
    \<and> (\<forall>c\<in>set (d_Credentials next). c_ID c \<noteq> op_TargetCredentialID p \<longrightarrow> c \<in> set (d_Credentials (sn_Document sn)))
    \<and> (\<exists>a\<in>set (d_Credentials (sn_Document sn)). usable now a \<and> c_ID a = ca_CredentialID actor
         \<and> c_Role a = RoleAdministrator \<and> c_Generation a = ca_CredentialGeneration actor)"
proof -
  note sn = read_secret_document [OF assms(1)]
  note doc = prepared_document [OF assms(3) sn(2)] and step = prepared_replaces [OF assms(3) sn(2,1)]
  obtain rg where rg: "compileRegistryCredentials cl (sn_Document sn) now = Some rg" "current_administrator rg actor"
    and version: "sn_Version sn \<noteq> ''''"
    by (rule prepared_cases [OF assms(3)]) (rule that; assumption)
  obtain raw where raw: "encode cl next = Inr (raw, next)"
    using doc(3,4) by (auto simp: Validate_def dest: encode_normal split: sum.splits)
  have "d_Namespace next = st_Namespace st" using doc(2) sn(3) by (simp add: same_frame_def)
  then have "replace_request cl st (sn_Version sn) next (ended, Inr s)
      = Inr (s\<lparr>s_Data := AList.update dataKey raw (s_Data s)\<rparr>, next)"
    using assms(1,2) version raw step(1) by (simp add: replace_request_def read_registry_def replaces_def)
  moreover obtain a where "a \<in> set (d_Credentials (sn_Document sn))" "usable now a" "c_ID a = ca_CredentialID actor"
    "c_Role a = RoleAdministrator" "c_Generation a = ca_CredentialGeneration actor"
    by (rule current_administrator_credential [OF rg]) (rule that)
  ultimately show ?thesis using step doc(1,5,6) by blast
qed

subsection \<open>Examples\<close>

text \<open>The administrator of the registry's example rotates its own key.\<close>

lemma validate_same:
  assumes "cl_is_print a = cl_is_print b" "cl_to_lower a = cl_to_lower b" "cl_dns_label a = cl_dns_label b"
    "cl_dns_subdomain a = cl_dns_subdomain b" "cl_config_key a = cl_config_key b" "cl_canonical_uuid a = cl_canonical_uuid b"
  shows "validate a d = validate b d"
proof -
  have "displayName a = displayName b" by (intro ext) (simp add: displayName_def assms)
  moreover have "validReference a = validReference b" by (intro ext) (simp add: validReference_def assms)
  then have "source_ok a = source_ok b" by (intro ext) (simp add: source_ok_def split: option.split)
  moreover have "target_ok a = target_ok b" by (intro ext) (unfold target_ok_def assms, rule refl)
  then have "role_ok a = role_ok b" by (intro ext) (simp add: role_ok_def)
  ultimately have "credential_ok a d c = credential_ok b d c" for c by (simp add: credential_ok_def)
  then have "credentials_ok a d ids names cs = credentials_ok b d ids names cs" for ids names cs
    by (induction cs arbitrary: ids names) (simp_all add: Let_def assms(2))
  moreover have "operation_ok a d p = operation_ok b d p" for p
    by (simp add: operation_ok_def assms)
  then have "operations_ok a d ids events ps = operations_ok b d ids events ps" for ids events ps
    by (induction ps arbitrary: ids events) simp_all
  ultimately show ?thesis by (simp add: validate_def assms(3))
qed

definition example_key :: string where "example_key = replicate 43 CHR ''A''"

definition example_change :: change_request where
  "example_change =
     \<lparr>mq_requestID = ''r1'', mq_OperationID = ''o1'', mq_Action = ''rotate'', mq_CredentialID = ''admin'', mq_Policy = None,
      mq_Key = example_key\<rparr>"

definition example_change_lib :: change_lib where
  "example_change_lib = \<lparr>kl_sha1 = (\<lambda>i n. n), kl_etag_digest = (\<lambda>u v. u @ v)\<rparr>"

definition example_actor :: caller where "example_actor = registry_caller (example_admin 1 ''k1'')"

definition example_change_time :: time where "example_change_time = 63082281600 * second"

definition example_rotation_operation :: operation where
  "example_rotation_operation = change_operation example_change_lib example_actor example_change example_change_time ''admin''"

definition example_rotated :: document where
  "example_rotated = example_document 2 example_key [example_rotation_operation]"

definition example_change_cred :: cred_lib where
  "example_change_cred =
     example_cred_lib\<lparr>cl_marshal := (\<lambda>d. if d = example_before then Some ''1'' else if d = example_rotated then Some ''2'' else None),
       cl_unmarshal := (\<lambda>s. if s = ''1'' then Some example_before else if s = ''2'' then Some example_rotated else None)\<rparr>"

lemma example_change_validates: "validate example_change_cred d = validate example_cred_lib d"
  by (rule validate_same) (simp_all add: example_change_cred_def)

lemma example_key_ok: "validPreparedOperatorKey example_key" "validOperatorHTTPKey example_key" "length example_key = 43"
  by code_simp+

lemma example_key_trimmed: "TrimSpace example_key = example_key"
proof (rule opaque_graphic(2))
  show "list_all graphic example_key" "example_key \<noteq> ''''" "length example_key \<le> 512" by code_simp+
qed

lemma example_rotation_fields:
  "op_ID example_rotation_operation = ''o1''" "op_AdmissionEventID example_rotation_operation = ''admission''"
  "op_CompletionEventID example_rotation_operation = ''completion''" "op_RequestID example_rotation_operation = ''r1''"
  "op_Action example_rotation_operation = ''rotate''" "op_ActorPrincipalID example_rotation_operation = ''ops''"
  "op_ActorCredentialID example_rotation_operation = ''admin''" "op_ActorGeneration example_rotation_operation = 1"
  "op_Authority example_rotation_operation = ''registry''" "op_TargetCredentialID example_rotation_operation = ''admin''"
  "op_At example_rotation_operation = 63082281600 * second" "op_Status example_rotation_operation = ''pending''"
  by (simp_all add: example_rotation_operation_def change_operation_def example_change_def example_change_lib_def
      example_actor_def example_change_time_def registry_caller_fields to_micros_def second_def) (simp_all add: example_admin_def)

lemma example_rotated_valid: "validate example_cred_lib example_rotated = None"
proof -
  have "validTime (63082281600 * second)" by (simp add: validTime_def hour_def second_def)
  moreover have "c_ID (example_admin 2 k) = ''admin''" "c_PrincipalID (example_admin 2 k) = ''ops''"
    "c_Generation (example_admin 2 k) = 2" for k by (simp_all add: example_admin_def)
  moreover have "d_Credentials example_rotated = [example_admin 2 example_key]" "cl_canonical_uuid example_cred_lib x" for x
    by (simp_all add: example_rotated_def example_document_def example_cred_lib_def)
  ultimately have "operation_ok example_cred_lib example_rotated example_rotation_operation"
    using example_names by (simp add: operation_ok_def example_rotation_fields credential_by_id_def action_ok_def)
  then show ?thesis
    using example_key_ok(3) example_key_trimmed unfolding example_rotated_def
    by (intro example_valid) (auto simp: MaxOperations_def example_rotated_def)
qed

lemma example_docs_differ: "example_before \<noteq> example_rotated"
proof
  assume "example_before = example_rotated"
  then have "d_Operations example_before = d_Operations example_rotated" by simp
  then show False by (simp add: example_fields example_rotated_def) (simp add: example_document_def)
qed

lemma example_change_marshal:
  "cl_marshal example_change_cred example_before = Some ''1''" "cl_marshal example_change_cred example_rotated = Some ''2''"
  "cl_inspect example_change_cred x" "cl_header example_change_cred x = Some 1"
  "cl_unmarshal example_change_cred ''1'' = Some example_before" "cl_unmarshal example_change_cred ''2'' = Some example_rotated"
  using example_docs_differ by (simp_all add: example_change_cred_def) (simp_all add: example_cred_lib_def)

lemma example_rotated_normal: "normalized example_before = example_before" "normalized example_rotated = example_rotated"
proof -
  have "normal_operation example_rotation_operation = example_rotation_operation"
    by (simp add: normal_operation_def example_rotation_fields)
      (simp add: example_rotation_operation_def change_operation_def example_change_time_def to_micros_def second_def)
  then show "normalized example_before = example_before" "normalized example_rotated = example_rotated"
    by (simp_all add: normalized_def example_docs example_rotated_def to_micros_def normal_credential_def ordered_def)
qed

lemma example_change_encoded:
  "encode example_change_cred example_before = Inr (''1'', example_before)"
  "encode example_change_cred example_rotated = Inr (''2'', example_rotated)"
proof -
  have small: "\<not> list_ex (\<lambda>c. 64 < length (c_Scopes c) \<or> 256 < length (c_AgentResources c)
      \<or> 256 < length (c_MachineResources c) \<or> 4096 < length (c_material c)) [example_admin g m]" if "length m \<le> 4096" for g m
    using that by (simp add: example_admin_def)
  have lists: "d_Credentials example_rotated = [example_admin 2 example_key]" "d_Operations example_rotated = [example_rotation_operation]"
    by (simp_all add: example_rotated_def example_document_def)
  show "encode example_change_cred example_before = Inr (''1'', example_before)"
    using small example_rotated_normal(1) example_valid_before
    by (simp add: encode_def Let_def example_fields example_change_marshal example_change_validates
        MaxDocumentBytes_def MaxCredentials_def MaxOperations_def)
  show "encode example_change_cred example_rotated = Inr (''2'', example_rotated)"
    using small example_rotated_normal(2) example_rotated_valid example_key_ok(3)
    by (simp add: encode_def Let_def lists example_change_marshal example_change_validates
        MaxDocumentBytes_def MaxCredentials_def MaxOperations_def)
qed

lemma example_change_validated:
  "Validate example_change_cred example_before = None" "Validate example_change_cred example_rotated = None"
  by (simp_all add: Validate_def example_change_encoded)

lemma example_change_read:
  "read_secret example_change_cred example_registry_store (example_secret ''1'')
     = Inr \<lparr>sn_UID = ''u1'', sn_Version = ''7'', sn_Document = example_before\<rparr>"
proof -
  have "decode example_change_cred ''1'' = Inr example_before"
    by (rule decode_encoded [OF example_change_encoded(1)])
      (simp_all add: example_change_marshal example_before_def example_document_def)
  moreover have "d_Namespace example_before = ''kyber''" by (simp add: example_docs)
  ultimately show ?thesis
    unfolding read_secret_Inr
    by (simp add: example_secret_def example_registry_store_def str_at_def secret_words)
qed

definition example_reviewed :: snapshot where
  "example_reviewed = \<lparr>sn_UID = ''u1'', sn_Version = ''7'', sn_Document = example_before\<rparr>"

lemma example_rotated_credential:
  "change_credentials kl ''kyber'' now example_change [example_admin 1 ''k1''] = Some ([example_admin 2 example_key], ''admin'')"
proof -
  have "example_key \<noteq> ''k1''" "(1 :: 64 word) \<noteq> - 1" by code_simp+
  then show ?thesis
    using example_key_ok(1)
    by (simp add: change_credentials_def change_start_def change_credential_def example_change_def Let_def)
      (simp add: example_admin_def managed_source_def registry_words)
qed

lemma example_prepared_change:
  "prepareManagedCredentialMutation example_change_cred example_journal_lib example_change_lib example_reviewed
     example_actor example_change example_change_time = Inr (example_rotated, example_rotation_operation)"
proof -
  obtain rg where rg: "compileRegistryCredentials example_change_cred example_before example_change_time = Some rg"
    "rg_byID rg = [(''admin'', ''k1'', registry_caller (example_admin 1 ''k1''))]"
    using example_compile [OF example_change_validated(1) example_fields(1) example_keys(1)] .
  have "d_Credentials example_rotated = [example_admin 2 example_key]" by (simp add: example_rotated_def example_document_def)
  from example_compile [OF example_change_validated(2) this example_key_ok(2)] obtain rg' where
    rg': "compileRegistryCredentials example_change_cred example_rotated example_change_time = Some rg'" .
  have actor: "ca_CredentialID example_actor = ''admin''" "ca_CredentialAuthority example_actor = ''registry''"
    "sameCredentialIdentity example_actor example_actor" "ss_full (ca_Scopes example_actor)"
    by (simp_all add: example_actor_def registry_caller_fields sameCredentialIdentity_def)
      (simp_all add: registry_caller_def example_admin_def registry_words newFullScopeSet_def)
  then have "current_administrator rg example_actor"
    using rg(2) by (simp add: current_administrator_def example_actor_def)
  moreover have "normalized (example_before\<lparr>d_Credentials := [example_admin 2 example_key],
      d_Operations := d_Operations example_before @ [example_rotation_operation]\<rparr>) = example_rotated"
    using example_rotated_normal(2) by (simp add: example_rotated_def example_before_def example_document_def)
  moreover have "durable_administrator (example_admin 2 example_key)"
    by (simp add: durable_administrator_def managed_source_def example_admin_def registry_words)
  moreover have "example_change_time \<noteq> 0" by (simp add: example_change_time_def second_def)
  moreover have "jl_uuid example_journal_lib x = Some x" for x by (simp add: example_journal_lib_def)
  ultimately show ?thesis
    using rg(1) rg' actor(2) \<open>d_Credentials example_rotated = _\<close>
    by (simp add: prepareManagedCredentialMutation_def Let_def example_reviewed_def example_rotated_normal(1) example_fields
        example_namespace example_rotated_credential flip: example_rotation_operation_def)
qed

theorem prepared_change_stored_witness:
  "replaces example_change_cred example_before example_rotated
   \<and> (\<exists>raw. replace_request example_change_cred example_registry_store ''7'' example_rotated (False, Inr (example_secret ''1''))
        = Inr ((example_secret ''1'')\<lparr>s_Data := AList.update dataKey raw (s_Data (example_secret ''1''))\<rparr>, example_rotated))"
proof -
  have "s_Immutable (example_secret ''1'') \<noteq> Some True" by (simp add: example_secret_def)
  from prepared_change_stored [OF example_change_read [folded example_reviewed_def] this example_prepared_change]
  show ?thesis by (simp add: example_reviewed_def)
qed

end
