(* ===== verification/Archive_Format.thy ===== *)
theory Archive_Format
  imports Go_Prelude
begin

section \<open>The agent-disk archive (\<open>pkg/diskarchive\<close>: manifest, image, pkgconfig, verify)\<close>

text \<open>
  An archive is a ZIP of an agent's volume and a manifest that describes every entry. What
  \<open>archive/zip\<close> makes of a file is a list of entries: name, method, declared sizes, type bits and what
  reading it gives, \<open>None\<close> when opening or reading fails (its own checks of size and CRC included).
  Decoding the manifest's JSON is a parameter, as is SHA-256 (in hexadecimal). Sizes are Go's int64:
  the sums wrap.
\<close>

subsection \<open>The manifest\<close>

datatype arch_error =
    UnsupportedVersion | InvalidArchive | UnsafePath | LimitExceeded | Changed
  | Canceled | DestinationError | NotEmpty | SkipNeedsMap | ThroughLink

definition FormatVersion :: string where "FormatVersion = ''kyber.io/agent-disk-archive/v1''"
definition SupportedFormatVersions :: "string list" where "SupportedFormatVersions = [FormatVersion]"
definition PayloadPrefix :: string where "PayloadPrefix = ''persist/''"
definition ManifestName :: string where "ManifestName = ''kyber-export/manifest.json''"
definition maxManifestBytes :: nat where "maxManifestBytes = 512 * 2 ^ 20"

definition EntryDir :: string where "EntryDir = ''dir''"
definition EntryFile :: string where "EntryFile = ''file''"
definition EntrySymlink :: string where "EntrySymlink = ''symlink''"

lemmas entry_types = EntryDir_def EntryFile_def EntrySymlink_def

record entry =
  en_Path :: string
  en_Type :: string
  en_Size :: int
  en_Mode :: nat
  en_UID :: int
  en_GID :: int
  en_ModTime :: time
  en_Target :: string
  en_SHA256 :: string
  en_Image :: bool
  en_NoCredentials :: bool

record totals =
  to_Entries :: int
  to_Files :: int
  to_Dirs :: int
  to_Symlinks :: int
  to_Bytes :: int

record mount =
  mo_Path :: string
  mo_Kind :: string
  mo_Archived :: bool
  mo_Reason :: string

record exclusion =
  ex_Path :: string
  ex_Reason :: string

record disk =
  dk_PVC :: string
  dk_StorageClass :: string
  dk_CapacityBytes :: int
  dk_RequestBytes :: int
  dk_AccessModes :: "string list"
  dk_VolumeMode :: string

record config_job =
  cj_Name :: string
  cj_Schedule :: string
  cj_Prompt :: string
  cj_Exclusive :: bool
  cj_ClearContextAfter :: bool
  cj_Paused :: bool

record config_profile =
  cp_Alias :: string
  cp_Description :: string
  cp_AvatarContentType :: string
  cp_Avatar :: string
  cp_HasAvatar :: bool

record config_secret =
  cs_Key :: string
  cs_Kind :: string
  cs_Size :: int
  cs_SHA256Prefix :: string

text \<open>Raw JSON is kept as text.\<close>

record config =
  cf_Version :: int
  cf_Runtime :: string
  cf_RuntimeVersion :: string
  cf_Model :: string
  cf_Machine :: string
  cf_CPU :: string
  cf_Memory :: string
  cf_Disk :: string
  cf_StartupPrompt :: string
  cf_SessionResume :: bool
  cf_RequestReplyEnabled :: bool
  cf_IdentityRepo :: string
  cf_AuthType :: string
  cf_Channels :: "(string, bool) gomap"
  cf_Jobs :: "config_job list"
  cf_InboundBindings :: "string list"
  cf_SoulDescription :: string
  cf_Profile :: "config_profile option"
  cf_PublicCapabilities :: string
  cf_A2APeers :: string
  cf_InboundBindingSpecs :: string
  cf_UserSecrets :: "config_secret list"

record archive_source =
  as_Agent :: string
  as_UID :: string
  as_Runtime :: string
  as_RuntimeVersion :: string
  as_Model :: string
  as_Machine :: string
  as_KyberVersion :: string
  as_PersistenceMode :: string
  as_Disk :: disk
  as_LoginFiles :: "string list"
  as_Config :: "config option"

record manifest =
  mf_FormatVersion :: string
  mf_ExportedAt :: time
  mf_Source :: archive_source
  mf_Mounts :: "mount list"
  mf_Excluded :: "exclusion list"
  mf_Totals :: totals
  mf_Entries :: "entry list"

definition ZipName :: "entry \<Rightarrow> string" where
  "ZipName e =
     (if en_Path e = ''.'' then PayloadPrefix
      else if en_Type e = EntryDir then PayloadPrefix @ en_Path e @ ''/''
      else PayloadPrefix @ en_Path e)"

subsection \<open>Paths\<close>

text \<open>\<open>strings.FieldsFunc\<close> at both separators: the maximal runs of other characters.\<close>

definition fields_any :: "string \<Rightarrow> string list" where
  "fields_any p =
     filter (\<lambda>w. w \<noteq> '''') (split_on CHR ''/'' (map (\<lambda>c. if c = CHR 0x5C then CHR ''/'' else c) p))"

definition CleanRelPath :: "string \<Rightarrow> arch_error + string" where
  "CleanRelPath p =
     (if p = ''.'' then Inr p
      else if p = '''' \<or> \<not> ValidString p \<or> CHR 0x00 \<in> set p \<or> HasPrefix p ''/'' \<or> HasPrefix p [CHR 0x5C]
      then Inl UnsafePath
      else if list_ex (\<lambda>w. w = ''.'' \<or> w = ''..'') (fields_any p) then Inl UnsafePath
      else if list_ex (\<lambda>w. w = '''' \<or> w = ''.'' \<or> w = ''..'' \<or> contains [CHR 0x5C, CHR 0x5C] w \<or> HasSuffix w [CHR 0x5C])
                (split_on CHR ''/'' p) then Inl UnsafePath
      else if path_Clean p \<noteq> p then Inl UnsafePath
      else Inr p)"

definition CheckVersion :: "string \<Rightarrow> arch_error option" where
  "CheckVersion version = (if version \<in> set SupportedFormatVersions then None else Some UnsupportedVersion)"

definition parentOf :: "string \<Rightarrow> string" where
  "parentOf p = (let d = path_Dir p in if d = '''' then ''.'' else d)"

subsection \<open>What a restore leaves out\<close>

definition sensitiveSuffixes :: "string list" where
  "sensitiveSuffixes =
     [''/.claude/.credentials.json'', ''/.codex/auth.json'', ''/.git-credentials'', ''/.netrc'', ''/.aws/credentials'',
      ''/.config/gh/hosts.yml'', ''/.docker/config.json'', ''/.kube/config'', ''/.npmrc'', ''/.pypirc'']"

definition IsSensitive :: "entry \<Rightarrow> bool" where
  "IsSensitive e =
     (if en_Type e \<noteq> EntryFile \<or> en_Image e \<or> en_NoCredentials e then False
      else let p = CHR ''/'' # en_Path e; base = path_Base p in
           if HasSuffix base ''.pem'' \<or> HasSuffix base ''.key''
              \<or> (contains ''/.ssh/'' p \<and> HasPrefix base ''id_'' \<and> \<not> HasSuffix base ''.pub'') then True
           else list_ex (HasSuffix p) sensitiveSuffixes)"

definition IsLoginPath :: "string \<Rightarrow> string list \<Rightarrow> bool" where
  "IsLoginPath path loginFiles \<longleftrightarrow>
     (let p = CHR ''/'' # path in
      list_ex (\<lambda>f. let lf = CHR ''/'' # TrimPrefix f ''/'' in
                   if lf = ''/'' then False
                   else if HasSuffix lf ''/'' then contains lf p
                   else HasSuffix p lf) loginFiles)"

definition IsAgentCrontab :: "entry \<Rightarrow> bool" where
  "IsAgentCrontab e =
     (if en_Type e \<noteq> EntryFile \<or> en_Size e = 0 \<or> en_Image e then False
      else let p = CHR ''/'' # en_Path e in
           if contains ''/var/spool/cron/crontabs/'' p \<or> contains ''/cron/crontabs/'' p then True
           else (contains ''/etc/cron.d/'' p \<or> HasPrefix p ''/cron/cron.d/'') \<and> path_Base p \<noteq> ''kyber-jobs'')"

definition LoginPaths :: "manifest \<Rightarrow> string list" where
  "LoginPaths m =
     map en_Path (filter (\<lambda>e. en_Type e = EntryFile \<and> IsLoginPath (en_Path e) (as_LoginFiles (mf_Source m))) (mf_Entries m))"

definition SensitivePaths :: "manifest \<Rightarrow> string list" where
  "SensitivePaths m =
     map en_Path (filter (\<lambda>e. IsSensitive e \<and> \<not> IsLoginPath (en_Path e) (as_LoginFiles (mf_Source m))) (mf_Entries m))"

definition CronPaths :: "manifest \<Rightarrow> string list" where
  "CronPaths m = map en_Path (filter IsAgentCrontab (mf_Entries m))"

record summary =
  su_FormatVersion :: string
  su_ExportedAt :: time
  su_Source :: archive_source
  su_Mounts :: "mount list"
  su_Excluded :: "exclusion list"
  su_Totals :: totals
  su_Sensitive :: "string list"
  su_Login :: "string list"
  su_Cron :: "string list"

definition SummaryOf :: "manifest \<Rightarrow> summary" where
  "SummaryOf m =
     \<lparr>su_FormatVersion = mf_FormatVersion m, su_ExportedAt = mf_ExportedAt m, su_Source = mf_Source m,
      su_Mounts = mf_Mounts m, su_Excluded = mf_Excluded m, su_Totals = mf_Totals m,
      su_Sensitive = SensitivePaths m, su_Login = LoginPaths m, su_Cron = CronPaths m\<rparr>"

subsection \<open>What the base image provided, and package-manager configuration\<close>

text \<open>
  \<open>bufio.Scanner\<close> by lines: a piece that does not fit the buffer ends the scan with an error; a carriage
  return at the end of a line is dropped, as is an empty piece after the last newline.
\<close>

fun scan_pieces :: "nat \<Rightarrow> string list \<Rightarrow> string list \<times> bool" where
  "scan_pieces buffer [] = ([], False)"
| "scan_pieces buffer (p # ps) =
     (if buffer \<le> length p then ([], True)
      else if ps = [] \<and> p = '''' then ([], False)
      else map_prod ((#) (TrimSuffix p [CHR 0x0D])) id (scan_pieces buffer ps))"

definition scan_lines :: "nat \<Rightarrow> string \<Rightarrow> string list \<times> bool" where
  "scan_lines buffer text = scan_pieces buffer (split_on CHR 0x0A text)"

record image_file =
  if_Size :: int
  if_ModTime :: time

text \<open>\<open>None\<close> is the zero \<open>ImageFile\<close> of a missing key.\<close>

definition Matches :: "image_file option \<Rightarrow> entry \<Rightarrow> bool" where
  "Matches f e \<longleftrightarrow>
     (case f of None \<Rightarrow> False
      | Some f \<Rightarrow> if_ModTime f \<noteq> 0 \<and> en_Type e = EntryFile \<and> en_Size e = if_Size f \<and> en_ModTime e \<le> if_ModTime f)"

definition unix_time :: "int \<Rightarrow> int \<Rightarrow> time" where
  "unix_time sec nsec = wrap64 (sec + nsec div second + 62135596800) * second + nsec mod second"

definition parseEpoch :: "string \<Rightarrow> time option" where
  "parseEpoch s =
     (let (secs, rest) = (case cut_at CHR ''.'' s of None \<Rightarrow> (s, '''') | Some parts \<Rightarrow> parts) in
      case Atoi secs of
        None \<Rightarrow> None
      | Some sec \<Rightarrow>
          let frac = take 9 rest; digits = frac @ replicate (9 - length frac) CHR ''0'' in
          map_option (unix_time sec) (Atoi digits))"

text \<open>\<open>strings.SplitN(line, "\t", 5)\<close>: the last piece keeps its tabs.\<close>

fun split_n :: "nat \<Rightarrow> char \<Rightarrow> string \<Rightarrow> string list" where
  "split_n 0 c s = []"
| "split_n (Suc 0) c s = [s]"
| "split_n (Suc n) c s = (case cut_at c s of None \<Rightarrow> [s] | Some (a, b) \<Rightarrow> a # split_n n c b)"

definition image_line :: "string \<Rightarrow> string \<Rightarrow> (string \<times> image_file) option" where
  "image_line pre line =
     (if HasPrefix line ''#'' then None
      else case split_n 5 CHR 0x09 line of
        [kd, sz, mt, md, path] \<Rightarrow>
          if kd \<noteq> ''f'' \<or> \<not> HasPrefix path ''./'' then None
          else (case (Atoi sz, parseEpoch mt) of
                  (Some n, Some t) \<Rightarrow> Some (pre @ TrimPrefix path ''./'', \<lparr>if_Size = n, if_ModTime = t\<rparr>)
                | _ \<Rightarrow> None)
      | _ \<Rightarrow> None)"

text \<open>The map and whether the scan ended with an error.\<close>

definition ParseImageManifest :: "string \<Rightarrow> string \<Rightarrow> (string, image_file) gomap \<times> bool" where
  "ParseImageManifest text pre =
     (case scan_lines (2 ^ 20) text of
        (ls, bad) \<Rightarrow>
          (fold (\<lambda>line m. case image_line pre line of None \<Rightarrow> m | Some (k, f) \<Rightarrow> AList.update k f m) ls [], bad))"

definition maxPackageConfigBytes :: int where "maxPackageConfigBytes = 65536"

definition isPackageConfig :: "string \<Rightarrow> bool" where
  "isPackageConfig p \<longleftrightarrow> path_Base p \<in> set [''.npmrc'', ''.pypirc'']"

text \<open>\<open>lower\<close> is \<open>strings.ToLower\<close>, whose Unicode tables are not modelled.\<close>

definition auth_key :: "(string \<Rightarrow> string) \<Rightarrow> string \<Rightarrow> bool" where
  "auth_key lower line =
     (let key = lower (TrimSpace line) in
      last (split_on CHR '':'' key) \<in> set [''_auth'', ''_authtoken'', ''_password'', ''username'', ''password''])"

definition credential_line :: "(string \<Rightarrow> string) \<Rightarrow> string \<Rightarrow> bool" where
  "credential_line lower text =
     (let line = TrimSpace text in
      if line = '''' \<or> hd line \<in> set [CHR ''#'', CHR 0x3B, CHR ''[''] then False
      else case cut_at CHR ''='' line of
        Some (key, _) \<Rightarrow> auth_key lower key
      | None \<Rightarrow> (case cut_at CHR '':'' line of Some (key, _) \<Rightarrow> auth_key lower key | None \<Rightarrow> False))"

definition packageConfigHasCredentials :: "(string \<Rightarrow> string) \<Rightarrow> string \<Rightarrow> bool" where
  "packageConfigHasCredentials lower b =
     (case scan_lines 65536 b of (ls, bad) \<Rightarrow> list_ex (credential_line lower) ls \<or> bad)"

subsection \<open>Inspecting an untrusted archive\<close>

record zip_file =
  zf_Name :: string
  zf_Method :: nat
  zf_CompressedSize :: nat
  zf_UncompressedSize :: nat
  zf_IsDir :: bool
  zf_IsRegular :: bool
  zf_IsSymlink :: bool
  zf_Data :: "string option"

record limits =
  lm_MaxEntries :: int
  lm_MaxBytes :: int
  lm_MaxCompressionRatio :: nat

record arch_lib =
  al_decode :: "string \<Rightarrow> manifest option"
  al_sha256 :: "string \<Rightarrow> string"
  al_lower :: "string \<Rightarrow> string"

definition effective_ratio :: "limits \<Rightarrow> nat" where
  "effective_ratio lmt = (if lm_MaxCompressionRatio lmt = 0 then 1000 else lm_MaxCompressionRatio lmt)"

fun index_zip ::
  "nat \<Rightarrow> zip_file list \<Rightarrow> (string, zip_file) gomap \<Rightarrow> zip_file option
     \<Rightarrow> arch_error + ((string, zip_file) gomap \<times> zip_file option)" where
  "index_zip ratio [] files found = Inr (files, found)"
| "index_zip ratio (f # fs) files found =
     (if map_of files (zf_Name f) \<noteq> None \<or> (zf_Name f = ManifestName \<and> found \<noteq> None) then Inl InvalidArchive
      else if zf_Method f \<noteq> 0 \<and> zf_Method f \<noteq> 8 then Inl InvalidArchive
      else if 2 ^ 20 < zf_UncompressedSize f
              \<and> (zf_CompressedSize f = 0 \<or> ratio < zf_UncompressedSize f div zf_CompressedSize f) then Inl LimitExceeded
      else if zf_Name f = ManifestName then index_zip ratio fs files (Some f)
      else index_zip ratio fs (AList.update (zf_Name f) f files) found)"

definition isSHA256 :: "string \<Rightarrow> bool" where
  "isSHA256 s \<longleftrightarrow> length s = 64 \<and> hex_DecodeString s \<noteq> None \<and> map ascii_lower s = s"

text \<open>The switch on the entry's type: the totals with it counted, or \<open>None\<close> for a mismatch.\<close>

definition count_entry :: "entry \<Rightarrow> zip_file \<Rightarrow> totals \<Rightarrow> totals option" where
  "count_entry e f t =
     (if en_Type e = EntryDir then
        (if \<not> zf_IsDir f \<or> en_Size e \<noteq> 0 then None else Some (t\<lparr>to_Dirs := to_Dirs t + 1\<rparr>))
      else if en_Type e = EntryFile then
        (if \<not> zf_IsRegular f \<or> int (zf_UncompressedSize f) \<noteq> en_Size e \<or> \<not> isSHA256 (en_SHA256 e) then None
         else Some (t\<lparr>to_Files := to_Files t + 1, to_Bytes := wrap64 (to_Bytes t + en_Size e)\<rparr>))
      else if en_Type e = EntrySymlink then
        (if \<not> zf_IsSymlink f \<or> en_Target e = '''' \<or> CHR 0x00 \<in> set (en_Target e)
            \<or> zf_UncompressedSize f \<noteq> length (en_Target e) then None
         else Some (t\<lparr>to_Symlinks := to_Symlinks t + 1\<rparr>))
      else None)"

fun check_entries ::
  "limits \<Rightarrow> (string, zip_file) gomap \<Rightarrow> bool \<Rightarrow> (string, string) gomap \<Rightarrow> totals \<Rightarrow> entry list \<Rightarrow> arch_error + totals" where
  "check_entries lmt files first types t [] = Inr t"
| "check_entries lmt files first types t (e # es) =
     (case CleanRelPath (en_Path e) of
        Inl err \<Rightarrow> Inl err
      | Inr p \<Rightarrow>
          if first \<noteq> (p = ''.'') then Inl InvalidArchive
          else if map_of types p \<noteq> None then Inl InvalidArchive
          else if p \<noteq> ''.'' \<and> map_of types (parentOf p) \<noteq> Some EntryDir then Inl InvalidArchive
          else if 4096 \<le> en_Mode e \<or> en_Size e < 0 \<or> en_UID e < 0 \<or> en_GID e < 0 then Inl InvalidArchive
          else (case map_of files (ZipName e) of
                  None \<Rightarrow> Inl InvalidArchive
                | Some f \<Rightarrow>
                    (case count_entry e f t of
                       None \<Rightarrow> Inl InvalidArchive
                     | Some t' \<Rightarrow>
                         if 0 < lm_MaxBytes lmt \<and> lm_MaxBytes lmt < to_Bytes t' then Inl LimitExceeded
                         else check_entries lmt files False (AList.update p (en_Type e) types) t' es)))"

record inspected =
  in_Manifest :: manifest
  in_files :: "(string, zip_file) gomap"

definition no_totals :: totals where
  "no_totals = \<lparr>to_Entries = 0, to_Files = 0, to_Dirs = 0, to_Symlinks = 0, to_Bytes = 0\<rparr>"

text \<open>\<open>zs = None\<close>: the ZIP directory cannot be read.\<close>

definition Inspect :: "arch_lib \<Rightarrow> zip_file list option \<Rightarrow> limits \<Rightarrow> arch_error + inspected" where
  "Inspect al zs lmt =
     (case zs of
        None \<Rightarrow> Inl InvalidArchive
      | Some fs \<Rightarrow>
          (case index_zip (effective_ratio lmt) fs [] None of
             Inl err \<Rightarrow> Inl err
           | Inr (files, None) \<Rightarrow> Inl InvalidArchive
           | Inr (files, Some mf) \<Rightarrow>
               if maxManifestBytes < zf_UncompressedSize mf then Inl LimitExceeded
               else (case Option.bind (zf_Data mf) (\<lambda>data. al_decode al (take maxManifestBytes data)) of
                  None \<Rightarrow> Inl InvalidArchive
                | Some m \<Rightarrow>
                    (case CheckVersion (mf_FormatVersion m) of
                       Some err \<Rightarrow> Inl err
                     | None \<Rightarrow>
                         if mf_Entries m = [] then Inl InvalidArchive
                         else if 0 < lm_MaxEntries lmt \<and> lm_MaxEntries lmt < int (length (mf_Entries m)) then Inl LimitExceeded
                         else if length (mf_Entries m) \<noteq> length files then Inl InvalidArchive
                         else (case check_entries lmt files True [] no_totals (mf_Entries m) of
                                 Inl err \<Rightarrow> Inl err
                               | Inr t \<Rightarrow>
                                   if t\<lparr>to_Entries := int (length (mf_Entries m))\<rparr> \<noteq> mf_Totals m then Inl InvalidArchive
                                   else Inr \<lparr>in_Manifest = m, in_files = files\<rparr>)))))"

text \<open>\<open>copyFile\<close>: the bytes written, or the error. \<open>io.LimitReader\<close> reads nothing when the limit is not positive.\<close>

definition limited :: "int \<Rightarrow> string \<Rightarrow> string" where
  "limited n data = take (nat n) data"

definition copyFile :: "arch_lib \<Rightarrow> inspected \<Rightarrow> entry \<Rightarrow> arch_error + string" where
  "copyFile al ins e =
     (case Option.bind (map_of (in_files ins) (ZipName e)) zf_Data of
        None \<Rightarrow> Inl InvalidArchive
      | Some data \<Rightarrow>
          let read = limited (wrap64 (en_Size e + 1)) data in
          if int (length read) \<noteq> en_Size e \<or> al_sha256 al read \<noteq> en_SHA256 e then Inl InvalidArchive
          else Inr read)"

definition readTarget :: "inspected \<Rightarrow> entry \<Rightarrow> arch_error + string" where
  "readTarget ins e =
     (case Option.bind (map_of (in_files ins) (ZipName e)) zf_Data of
        None \<Rightarrow> Inl InvalidArchive
      | Some data \<Rightarrow>
          if limited (int (length (en_Target e)) + 1) data \<noteq> en_Target e then Inl InvalidArchive
          else Inr (en_Target e))"

fun verify_entries :: "arch_lib \<Rightarrow> inspected \<Rightarrow> entry list \<Rightarrow> arch_error option" where
  "verify_entries al ins [] = None"
| "verify_entries al ins (e # es) =
     (if en_Type e = EntryFile then (case copyFile al ins e of Inl err \<Rightarrow> Some err | Inr _ \<Rightarrow> verify_entries al ins es)
      else if en_Type e = EntrySymlink then (case readTarget ins e of Inl err \<Rightarrow> Some err | Inr _ \<Rightarrow> verify_entries al ins es)
      else verify_entries al ins es)"

definition Verify_archive :: "arch_lib \<Rightarrow> zip_file list option \<Rightarrow> limits \<Rightarrow> arch_error + manifest" where
  "Verify_archive al zs lmt =
     (case Inspect al zs lmt of
        Inl err \<Rightarrow> Inl err
      | Inr ins \<Rightarrow>
          (case verify_entries al ins (mf_Entries (in_Manifest ins)) of
             Some err \<Rightarrow> Inl err
           | None \<Rightarrow> Inr (in_Manifest ins)))"

subsection \<open>Safe paths\<close>

definition path_segs :: "string \<Rightarrow> string list" where
  "path_segs p = (if p = ''.'' then [] else split_on CHR ''/'' p)"

definition of_segs :: "string list \<Rightarrow> string" where
  "of_segs segs = (if segs = [] then ''.'' else join_with ''/'' segs)"

lemma CleanRelPath_same: "CleanRelPath p = Inr q \<Longrightarrow> q = p"
  by (auto simp: CleanRelPath_def split: if_split_asm)

lemma CleanRelPath_plain:
  assumes "CleanRelPath p = Inr q"
  shows "list_all plain_segment (path_segs p)" and "of_segs (path_segs p) = p"
proof -
  show "list_all plain_segment (path_segs p)"
  proof (cases "p = ''.''")
    case False
    then have "\<not> list_ex (\<lambda>w. w = '''' \<or> w = ''.'' \<or> w = ''..'' \<or> contains [CHR 0x5C, CHR 0x5C] w \<or> HasSuffix w [CHR 0x5C])
                 (split_on CHR ''/'' p)"
      using assms by (auto simp: CleanRelPath_def split: if_split_asm)
    then show ?thesis using False split_on_pieces
      by (auto simp: path_segs_def list_all_iff list_ex_iff plain_segment_def)
  qed (simp add: path_segs_def)
  show "of_segs (path_segs p) = p"
    by (simp add: of_segs_def path_segs_def join_split)
qed

text \<open>
  A path the archive accepts cannot leave the directory it is joined to, however it is read. If
  CleanRelPath accepts a path it returns it unchanged, it is valid UTF-8 without a NUL byte, and cut at
  slashes, or at slashes and backslashes alike, no component of it is empty, a dot or a double dot, nor is
  it rooted at either separator; the root of the archive is the only path written as a dot.
\<close>

theorem clean_path_confined:
  assumes "CleanRelPath p = Inr q" and "p \<noteq> ''.''"
  shows "q = p \<and> ValidString p \<and> CHR 0x00 \<notin> set p \<and> list_all plain_segment (split_on CHR ''/'' p) \<and> path_Clean p = p
    \<and> (\<forall>w\<in>set (split_on CHR ''/'' (map (\<lambda>c. if c = CHR 0x5C then CHR ''/'' else c) p)). w \<noteq> ''.'' \<and> w \<noteq> ''..'')
    \<and> hd p \<noteq> CHR ''/'' \<and> hd p \<noteq> CHR 0x5C"
proof -
  note accepted = assms [unfolded CleanRelPath_def]
  have facts: "p \<noteq> ''''" "ValidString p" "CHR 0x00 \<notin> set p" "\<not> HasPrefix p ''/''" "\<not> HasPrefix p [CHR 0x5C]"
    "\<not> list_ex (\<lambda>w. w = ''.'' \<or> w = ''..'') (fields_any p)" "path_Clean p = p"
    using accepted by (simp_all split: if_split_asm)
  have "list_all plain_segment (split_on CHR ''/'' p)"
    using CleanRelPath_plain(1) [OF assms(1)] assms(2) by (simp add: path_segs_def)
  moreover have "\<forall>w\<in>set (split_on CHR ''/'' (map (\<lambda>c. if c = CHR 0x5C then CHR ''/'' else c) p)). w \<noteq> ''.'' \<and> w \<noteq> ''..''"
    using facts(6) by (auto simp: fields_any_def list_ex_iff)
  moreover have "hd p \<noteq> CHR ''/'' \<and> hd p \<noteq> CHR 0x5C"
    using facts(1,4,5) by (cases p) (simp_all add: HasPrefix_def)
  ultimately show ?thesis using CleanRelPath_same [OF assms(1)] facts(2,3,7) by simp
qed

theorem clean_path_confined_witness:
  "path_Clean ''home/agent/notes.md'' = ''home/agent/notes.md''"
proof -
  have "CleanRelPath ''home/agent/notes.md'' = Inr ''home/agent/notes.md''" by code_simp
  from clean_path_confined [OF this] show ?thesis by simp
qed

lemma path_segs_inj:
  "CleanRelPath p = Inr p' \<Longrightarrow> CleanRelPath q = Inr q' \<Longrightarrow> path_segs p = path_segs q \<Longrightarrow> p = q"
  using CleanRelPath_plain(2) by metis

lemma path_segs_of: "list_all plain_segment segs \<Longrightarrow> path_segs (of_segs segs) = segs"
proof (cases "segs = []")
  case False
  assume plain: "list_all plain_segment segs"
  have "join_with ''/'' segs \<noteq> ''.''"
  proof
    assume "join_with ''/'' segs = ''.''"
    then have "segs = [''.'']" using split_join [OF False plain] by simp
    then show False using plain by (simp add: plain_segment_def)
  qed
  then show ?thesis using split_join [OF False plain] False by (simp add: of_segs_def path_segs_def)
qed (simp add: of_segs_def path_segs_def)

lemma parentOf_segs:
  assumes "CleanRelPath p = Inr q" and "p \<noteq> ''.''"
  shows "parentOf p = of_segs (butlast (path_segs p))" and "path_segs (parentOf p) = butlast (path_segs p)"
proof -
  have ne: "path_segs p \<noteq> []" using assms(2) by (simp add: path_segs_def)
  note plain = CleanRelPath_plain [OF assms(1)]
  have dir: "path_Dir p = of_segs (butlast (path_segs p))"
    using path_Dir_plain [OF plain(1) ne] plain(2) ne by (simp add: of_segs_def)
  have pl: "list_all plain_segment (butlast (path_segs p))"
    using plain(1) by (auto simp: list_all_iff dest: in_set_butlastD)
  have "of_segs (butlast (path_segs p)) \<noteq> ''''" using join_nonempty [OF pl] by (auto simp: of_segs_def)
  then show "parentOf p = of_segs (butlast (path_segs p))" using dir by (simp add: parentOf_def Let_def)
  then show "path_segs (parentOf p) = butlast (path_segs p)" using path_segs_of [OF pl] by simp
qed

text \<open>Different paths have different entries in the ZIP.\<close>

lemma last_plain:
  assumes "CleanRelPath p = Inr q" and "p \<noteq> ''.''"
  shows "p \<noteq> ''''" and "last p \<noteq> CHR ''/''"
proof -
  have ne: "path_segs p \<noteq> []" using assms(2) by (simp add: path_segs_def)
  note plain = CleanRelPath_plain [OF assms(1)]
  have p: "p = join_with ''/'' (path_segs p)" using plain(2) ne by (simp add: of_segs_def)
  show "p \<noteq> ''''" using join_nonempty [OF plain(1) ne] p by simp
  obtain ds w where segs: "path_segs p = ds @ [w]" using ne by (cases "path_segs p" rule: rev_cases) auto
  then have w: "w \<noteq> ''''" "CHR ''/'' \<notin> set w" using plain(1) by (simp_all add: plain_segment_def)
  then have "last w \<noteq> CHR ''/''" using last_in_set by metis
  moreover have "last p = last w"
    using p w(1) unfolding segs by (cases "ds = []") (simp_all add: join_snoc)
  ultimately show "last p \<noteq> CHR ''/''" by simp
qed

lemma ZipName_inj:
  assumes "CleanRelPath (en_Path d) = Inr p" and "CleanRelPath (en_Path e) = Inr q" and "ZipName d = ZipName e"
  shows "en_Path d = en_Path e"
proof -
  have dot: "en_Path x = ''.'' \<longleftrightarrow> ZipName x = PayloadPrefix" if "CleanRelPath (en_Path x) = Inr y" for x y
    using last_plain(1) [OF that] by (auto simp: ZipName_def)
  show ?thesis
  proof (cases "en_Path d = ''.''")
    case True
    then show ?thesis using dot [OF assms(1)] dot [OF assms(2)] assms(3) by simp
  next
    case False
    then have e: "en_Path e \<noteq> ''.''" using dot [OF assms(1)] dot [OF assms(2)] assms(3) by simp
    have "last (en_Path d) \<noteq> CHR ''/''" "last (en_Path e) \<noteq> CHR ''/''" "en_Path d \<noteq> ''''" "en_Path e \<noteq> ''''"
      using last_plain [OF assms(1) False] last_plain [OF assms(2) e] by simp_all
    moreover have "en_Path d @ (if en_Type d = EntryDir then ''/'' else '''') = en_Path e @ (if en_Type e = EntryDir then ''/'' else '''')"
      using assms(3) False e by (auto simp: ZipName_def)
    ultimately show ?thesis
      by (cases "en_Type d = EntryDir"; cases "en_Type e = EntryDir") (auto dest!: arg_cong [of _ _ last])
  qed
qed

subsection \<open>What an inspected archive is\<close>

text \<open>One manifest record against the ZIP entry it names.\<close>

definition entry_matches :: "(string, zip_file) gomap \<Rightarrow> entry \<Rightarrow> bool" where
  "entry_matches files e \<longleftrightarrow>
     CleanRelPath (en_Path e) = Inr (en_Path e)
     \<and> en_Mode e < 4096 \<and> 0 \<le> en_Size e \<and> 0 \<le> en_UID e \<and> 0 \<le> en_GID e
     \<and> (\<exists>f. map_of files (ZipName e) = Some f
          \<and> (en_Type e = EntryDir \<and> zf_IsDir f \<and> en_Size e = 0
             \<or> en_Type e = EntryFile \<and> zf_IsRegular f \<and> int (zf_UncompressedSize f) = en_Size e \<and> isSHA256 (en_SHA256 e)
             \<or> en_Type e = EntrySymlink \<and> zf_IsSymlink f \<and> en_Target e \<noteq> '''' \<and> CHR 0x00 \<notin> set (en_Target e)
               \<and> zf_UncompressedSize f = length (en_Target e)))"

text \<open>A list of entries is a tree: the root first, then nothing without a directory before it, no path twice.\<close>

definition forms_tree :: "entry list \<Rightarrow> bool" where
  "forms_tree es \<longleftrightarrow>
     distinct (map en_Path es) \<and> (\<exists>r rest. es = r # rest \<and> en_Path r = ''.'')
     \<and> (\<forall>xs e ys. es = xs @ e # ys \<and> en_Path e \<noteq> ''.'' \<longrightarrow>
          (\<exists>d\<in>set xs. en_Path d = parentOf (en_Path e) \<and> en_Type d = EntryDir))"

definition bytes_from :: "int \<Rightarrow> entry list \<Rightarrow> int" where
  "bytes_from b es = fold (\<lambda>e b. if en_Type e = EntryFile then wrap64 (b + en_Size e) else b) es b"

lemma count_entry_cases:
  assumes "count_entry e f t = Some t'"
  shows "en_Type e = EntryDir \<and> zf_IsDir f \<and> en_Size e = 0
      \<or> en_Type e = EntryFile \<and> zf_IsRegular f \<and> int (zf_UncompressedSize f) = en_Size e \<and> isSHA256 (en_SHA256 e)
      \<or> en_Type e = EntrySymlink \<and> zf_IsSymlink f \<and> en_Target e \<noteq> '''' \<and> CHR 0x00 \<notin> set (en_Target e)
        \<and> zf_UncompressedSize f = length (en_Target e)"
    and "to_Bytes t' = (if en_Type e = EntryFile then wrap64 (to_Bytes t + en_Size e) else to_Bytes t)"
  using assms by (auto simp: count_entry_def entry_types split: if_split_asm)

lemma check_entries_step:
  assumes "check_entries lmt files first types t (e # es) = Inr u"
  obtains f t' where "CleanRelPath (en_Path e) = Inr (en_Path e)" and "first = (en_Path e = ''.'')"
    and "map_of types (en_Path e) = None" and "en_Path e \<noteq> ''.'' \<Longrightarrow> map_of types (parentOf (en_Path e)) = Some EntryDir"
    and "entry_matches files e" and "count_entry e f t = Some t'"
    and "0 < lm_MaxBytes lmt \<Longrightarrow> to_Bytes t' \<le> lm_MaxBytes lmt"
    and "check_entries lmt files False (AList.update (en_Path e) (en_Type e) types) t' es = Inr u"
proof -
  obtain p where p: "CleanRelPath (en_Path e) = Inr p" using assms by (auto split: sum.splits)
  then have same: "p = en_Path e" using CleanRelPath_same by blast
  obtain f where f: "map_of files (ZipName e) = Some f" using assms p by (auto split: if_splits option.splits)
  obtain t' where t': "count_entry e f t = Some t'" using assms p f by (auto split: if_splits option.splits)
  have meta: "en_Mode e < 4096" "0 \<le> en_Size e" "0 \<le> en_UID e" "0 \<le> en_GID e"
    using assms p by (auto split: if_splits)
  have match: "entry_matches files e"
    using p [unfolded same] meta f count_entry_cases(1) [OF t'] by (auto simp: entry_matches_def)
  have "first = (en_Path e = ''.'')" "map_of types (en_Path e) = None"
    "en_Path e \<noteq> ''.'' \<Longrightarrow> map_of types (parentOf (en_Path e)) = Some EntryDir"
    using assms p same by (auto split: if_splits)
  moreover have "check_entries lmt files False (AList.update (en_Path e) (en_Type e) types) t' es = Inr u"
    "0 < lm_MaxBytes lmt \<Longrightarrow> to_Bytes t' \<le> lm_MaxBytes lmt"
    using assms p f t' same by (auto split: if_splits)
  ultimately show thesis using that p [unfolded same] match t' by blast
qed

lemma check_entries_sound:
  assumes "check_entries lmt files first types t es = Inr u"
  shows "(\<forall>e\<in>set es. entry_matches files e \<and> map_of types (en_Path e) = None) \<and> distinct (map en_Path es)
    \<and> (\<forall>xs e ys. es = xs @ e # ys \<and> en_Path e \<noteq> ''.'' \<longrightarrow>
          map_of types (parentOf (en_Path e)) = Some EntryDir
          \<or> (\<exists>d\<in>set xs. en_Path d = parentOf (en_Path e) \<and> en_Type d = EntryDir))
    \<and> (es \<noteq> [] \<longrightarrow> first = (en_Path (hd es) = ''.'')) \<and> to_Bytes u = bytes_from (to_Bytes t) es"
  using assms
proof (induction es arbitrary: first types t)
  case (Cons e es)
  obtain f t' where step: "map_of types (en_Path e) = None" "first = (en_Path e = ''.'')"
    "en_Path e \<noteq> ''.'' \<Longrightarrow> map_of types (parentOf (en_Path e)) = Some EntryDir" "entry_matches files e"
    "count_entry e f t = Some t'"
    "check_entries lmt files False (AList.update (en_Path e) (en_Type e) types) t' es = Inr u"
    using check_entries_step [OF Cons.prems] by metis
  note rest = Cons.IH [OF step(6)]
  have others: "map_of types (en_Path x) = None" "en_Path x \<noteq> en_Path e" if "x \<in> set es" for x
    using rest that by (auto simp: alist_lookup_update split: if_splits)
  have parents: "map_of types (parentOf (en_Path x)) = Some EntryDir
      \<or> (\<exists>d\<in>set xs. en_Path d = parentOf (en_Path x) \<and> en_Type d = EntryDir)"
    if split: "e # es = xs @ x # ys" and x: "en_Path x \<noteq> ''.''" for xs x ys
  proof (cases xs)
    case Nil
    then show ?thesis using split x step(3) by simp
  next
    case (Cons y zs)
    then have "es = zs @ x # ys" "y = e" using split by simp_all
    then have "map_of (AList.update (en_Path e) (en_Type e) types) (parentOf (en_Path x)) = Some EntryDir
      \<or> (\<exists>d\<in>set zs. en_Path d = parentOf (en_Path x) \<and> en_Type d = EntryDir)" using rest x by blast
    then show ?thesis using Cons \<open>y = e\<close> by (auto simp: alist_lookup_update split: if_splits)
  qed
  have "to_Bytes u = bytes_from (to_Bytes t) (e # es)"
    using rest count_entry_cases(2) [OF step(5)] by (simp add: bytes_from_def)
  moreover have "en_Path e \<notin> en_Path ` set es" using others(2) by (metis imageE)
  then have "distinct (map en_Path (e # es))" using rest by simp
  ultimately show ?case using step(1,2,4) rest others(1) parents by auto
qed (simp add: bytes_from_def)

lemma index_zip_step:
  assumes "index_zip ratio (g # fs) files found = Inr r"
  shows "map_of files (zf_Name g) = None"
    and "zf_Name g = ManifestName \<and> found = None \<and> index_zip ratio fs files (Some g) = Inr r
      \<or> zf_Name g \<noteq> ManifestName \<and> index_zip ratio fs (AList.update (zf_Name g) g files) found = Inr r"
  using assms by (simp_all split: if_split_asm)

lemma index_zip_lookup:
  assumes "index_zip ratio fs files found = Inr (files', found')"
  shows "map_of files' n = Some f \<Longrightarrow> map_of files n = Some f \<or> f \<in> set fs \<and> zf_Name f = n \<and> n \<noteq> ManifestName"
  using assms
proof (induction fs arbitrary: files found)
  case (Cons g fs)
  show ?case
    using index_zip_step(2) [OF Cons.prems(2)]
  proof
    assume "zf_Name g = ManifestName \<and> found = None \<and> index_zip ratio fs files (Some g) = Inr (files', found')"
    then show ?thesis using Cons.IH [OF Cons.prems(1)] by auto
  next
    assume g: "zf_Name g \<noteq> ManifestName \<and> index_zip ratio fs (AList.update (zf_Name g) g files) found = Inr (files', found')"
    then have "map_of (AList.update (zf_Name g) g files) n = Some f \<or> f \<in> set fs \<and> zf_Name f = n \<and> n \<noteq> ManifestName"
      using Cons.IH [OF Cons.prems(1)] by blast
    then show ?thesis using g by (auto simp: alist_lookup_update split: if_splits)
  qed
qed simp

lemma index_zip_names:
  assumes "index_zip ratio fs files found = Inr (files', found')" and "distinct (map fst files)"
  shows "distinct (map fst files') \<and> dom (map_of files') = dom (map_of files) \<union> (set (map zf_Name fs) - {ManifestName})
    \<and> distinct (map zf_Name fs) \<and> set (map zf_Name fs) \<inter> dom (map_of files) = {}
    \<and> (found \<noteq> None \<longrightarrow> ManifestName \<notin> set (map zf_Name fs))"
  using assms
proof (induction fs arbitrary: files found)
  case (Cons g fs)
  note new = index_zip_step(1) [OF Cons.prems(1)]
  show ?case
    using index_zip_step(2) [OF Cons.prems(1)]
  proof
    assume g: "zf_Name g = ManifestName \<and> found = None \<and> index_zip ratio fs files (Some g) = Inr (files', found')"
    then have "index_zip ratio fs files (Some g) = Inr (files', found')" by simp
    note ih = Cons.IH [OF this Cons.prems(2)]
    then have "ManifestName \<notin> set (map zf_Name fs)" by simp
    with ih g new show ?thesis by auto
  next
    assume g: "zf_Name g \<noteq> ManifestName \<and> index_zip ratio fs (AList.update (zf_Name g) g files) found = Inr (files', found')"
    then have run: "index_zip ratio fs (AList.update (zf_Name g) g files) found = Inr (files', found')" by simp
    have "distinct (map fst (AList.update (zf_Name g) g files))" using Cons.prems(2) by (rule distinct_update)
    note ih = Cons.IH [OF run this]
    have dom: "dom (map_of (AList.update (zf_Name g) g files)) = insert (zf_Name g) (dom (map_of files))"
      by (simp add: alist_lookup_update)
    have "zf_Name g \<notin> set (map zf_Name fs)" using ih unfolding dom by blast
    with ih g new show ?thesis unfolding dom by auto
  qed
qed simp

lemma index_zip_manifest:
  assumes "index_zip ratio fs files found = Inr (files', Some mf)"
  shows "found = Some mf \<or> mf \<in> set fs \<and> zf_Name mf = ManifestName"
  using assms
proof (induction fs arbitrary: files found)
  case (Cons g fs)
  from index_zip_step(2) [OF Cons.prems] Cons.IH show ?case by fastforce
qed simp

lemma Inspect_cases:
  assumes "Inspect al (Some zs) lmt = Inr ins"
  obtains mf t where "index_zip (effective_ratio lmt) zs [] None = Inr (in_files ins, Some mf)"
    and "CheckVersion (mf_FormatVersion (in_Manifest ins)) = None" and "mf_Entries (in_Manifest ins) \<noteq> []"
    and "0 < lm_MaxEntries lmt \<Longrightarrow> int (length (mf_Entries (in_Manifest ins))) \<le> lm_MaxEntries lmt"
    and "length (mf_Entries (in_Manifest ins)) = length (in_files ins)"
    and "check_entries lmt (in_files ins) True [] no_totals (mf_Entries (in_Manifest ins)) = Inr t"
    and "mf_Totals (in_Manifest ins) = t\<lparr>to_Entries := int (length (mf_Entries (in_Manifest ins)))\<rparr>"
    and "Option.bind (zf_Data mf) (\<lambda>data. al_decode al (take maxManifestBytes data)) = Some (in_Manifest ins)"
proof -
  obtain files mf where ix: "index_zip (effective_ratio lmt) zs [] None = Inr (files, Some mf)"
    using assms by (auto simp: Inspect_def split: sum.splits prod.splits option.splits)
  obtain m where m: "Option.bind (zf_Data mf) (\<lambda>data. al_decode al (take maxManifestBytes data)) = Some m"
    using assms ix by (auto simp: Inspect_def split: option.splits if_splits)
  have v: "CheckVersion (mf_FormatVersion m) = None"
    using assms ix m by (auto simp: Inspect_def split: option.splits if_splits)
  have rest: "mf_Entries m \<noteq> []" "length (mf_Entries m) = length files"
    "0 < lm_MaxEntries lmt \<Longrightarrow> int (length (mf_Entries m)) \<le> lm_MaxEntries lmt"
    using assms ix m v by (auto simp: Inspect_def split: if_splits)
  obtain t where t: "check_entries lmt files True [] no_totals (mf_Entries m) = Inr t"
    using assms ix m v rest by (auto simp: Inspect_def split: sum.splits if_splits)
  have "t\<lparr>to_Entries := int (length (mf_Entries m))\<rparr> = mf_Totals m" "ins = \<lparr>in_Manifest = m, in_files = files\<rparr>"
    using assms ix m v rest t by (auto simp: Inspect_def split: if_splits)
  with ix m v rest t that show thesis by simp
qed

lemma inspected_facts:
  assumes "Inspect al (Some zs) lmt = Inr ins"
  shows "mf_FormatVersion (in_Manifest ins) \<in> set SupportedFormatVersions
    \<and> forms_tree (mf_Entries (in_Manifest ins))
    \<and> (\<forall>e\<in>set (mf_Entries (in_Manifest ins)). entry_matches (in_files ins) e
         \<and> (\<exists>f\<in>set zs. zf_Name f = ZipName e \<and> map_of (in_files ins) (ZipName e) = Some f))
    \<and> distinct (map zf_Name zs)
    \<and> set (map zf_Name zs) = insert ManifestName (ZipName ` set (mf_Entries (in_Manifest ins)))"
proof -
  let ?es = "mf_Entries (in_Manifest ins)" and ?files = "in_files ins"
  obtain mf t where ix: "index_zip (effective_ratio lmt) zs [] None = Inr (?files, Some mf)"
    and v: "CheckVersion (mf_FormatVersion (in_Manifest ins)) = None" and ne: "?es \<noteq> []"
    and len: "length ?es = length ?files" and ch: "check_entries lmt ?files True [] no_totals ?es = Inr t"
    using Inspect_cases [OF assms] by metis
  note checked = check_entries_sound [OF ch]
  have names: "distinct (map fst ?files)" "dom (map_of ?files) = set (map zf_Name zs) - {ManifestName}" "distinct (map zf_Name zs)"
    using index_zip_names [OF ix] by simp_all
  have tree: "forms_tree ?es"
  proof -
    obtain r rest where es: "?es = r # rest" using ne by (cases ?es) auto
    then have "en_Path r = ''.''" using checked by simp
    then show ?thesis using checked es unfolding forms_tree_def by simp
  qed
  have found: "\<exists>f\<in>set zs. zf_Name f = ZipName e \<and> map_of ?files (ZipName e) = Some f" if "e \<in> set ?es" for e
  proof -
    have "entry_matches ?files e" using checked that by blast
    then obtain f where "map_of ?files (ZipName e) = Some f" unfolding entry_matches_def by blast
    with index_zip_lookup [OF ix this] show ?thesis by auto
  qed
  have clean: "CleanRelPath (en_Path e) = Inr (en_Path e)" if "e \<in> set ?es" for e
    using checked that unfolding entry_matches_def by blast
  have paths: "distinct (map en_Path ?es)" using checked by blast
  have "inj_on ZipName (set ?es)"
  proof (rule inj_onI)
    fix x y assume xy: "x \<in> set ?es" "y \<in> set ?es" "ZipName x = ZipName y"
    have "en_Path x = en_Path y" by (rule ZipName_inj [OF clean [OF xy(1)] clean [OF xy(2)] xy(3)])
    then show "x = y" using paths xy(1,2) by (simp add: distinct_map inj_on_def)
  qed
  then have "card (ZipName ` set ?es) = length ?es"
    using paths by (simp add: card_image distinct_card distinct_map)
  also have "\<dots> = card (dom (map_of ?files))"
    using len names(1) by (metis dom_map_of_conv_image_fst distinct_card length_map list.set_map)
  finally have "card (ZipName ` set ?es) = card (dom (map_of ?files))" .
  moreover have "ZipName ` set ?es \<subseteq> dom (map_of ?files)" using found by auto
  ultimately have "ZipName ` set ?es = dom (map_of ?files)" by (simp add: card_subset_eq finite_dom_map_of)
  moreover have "ManifestName \<in> set (map zf_Name zs)" using index_zip_manifest [OF ix] by force
  ultimately have "set (map zf_Name zs) = insert ManifestName (ZipName ` set ?es)" using names(2) by auto
  moreover have "mf_FormatVersion (in_Manifest ins) \<in> set SupportedFormatVersions"
    using v by (simp add: CheckVersion_def split: if_split_asm)
  ultimately show ?thesis using tree checked found names(3) by blast
qed


subsection \<open>Limits\<close>

definition file_bytes :: "entry list \<Rightarrow> int" where
  "file_bytes es = sum_list (map en_Size (filter (\<lambda>e. en_Type e = EntryFile) es))"

lemma check_entries_bytes:
  assumes "check_entries lmt files first types t es = Inr u" and "0 < lm_MaxBytes lmt" and "lm_MaxBytes lmt < 2 ^ 63"
    and "0 \<le> to_Bytes t" and "to_Bytes t \<le> lm_MaxBytes lmt"
    and "\<forall>e\<in>set es. en_Type e = EntryFile \<longrightarrow> en_Size e < 2 ^ 63 - lm_MaxBytes lmt"
  shows "to_Bytes t + file_bytes es \<le> lm_MaxBytes lmt"
  using assms
proof (induction es arbitrary: first types t)
  case (Cons e es)
  obtain f t' where step: "entry_matches files e" "count_entry e f t = Some t'" "to_Bytes t' \<le> lm_MaxBytes lmt"
    "check_entries lmt files False (AList.update (en_Path e) (en_Type e) types) t' es = Inr u"
    using check_entries_step [OF Cons.prems(1)] Cons.prems(2) by metis
  have size: "0 \<le> en_Size e" using step(1) by (simp add: entry_matches_def)
  show ?case
  proof (cases "en_Type e = EntryFile")
    case True
    then have "en_Size e < 2 ^ 63 - lm_MaxBytes lmt" using Cons.prems(6) by simp
    then have "wrap64 (to_Bytes t + en_Size e) = to_Bytes t + en_Size e"
      using Cons.prems(4,5) size by (intro wrap64_id) (simp add: fits_int64_def)
    then have "to_Bytes t' = to_Bytes t + en_Size e" using count_entry_cases(2) [OF step(2)] True by simp
    with Cons.IH [OF step(4) Cons.prems(2,3) _ step(3)] Cons.prems(4,6) size True show ?thesis
      by (simp add: file_bytes_def)
  next
    case False
    then have "to_Bytes t' = to_Bytes t" using count_entry_cases(2) [OF step(2)] by simp
    with Cons.IH [OF step(4) Cons.prems(2,3) _ step(3)] Cons.prems(4,6) False show ?thesis
      by (simp add: file_bytes_def)
  qed
qed (simp add: file_bytes_def)

text \<open>
  The limits of an inspected archive hold with one exception. The number of entries is within MaxEntries,
  and the declared sizes of all files together are within MaxBytes, unless a single file declares a size within
  MaxBytes of the largest 64-bit number, for which the running total wraps around.
\<close>

theorem inspect_within_limits:
  assumes "Inspect al (Some zs) lmt = Inr ins" and "lm_MaxBytes lmt < 2 ^ 63"
  shows "(0 < lm_MaxEntries lmt \<longrightarrow> int (length (mf_Entries (in_Manifest ins))) \<le> lm_MaxEntries lmt)
    \<and> (0 < lm_MaxBytes lmt \<longrightarrow>
         file_bytes (mf_Entries (in_Manifest ins)) \<le> lm_MaxBytes lmt
         \<or> (\<exists>e\<in>set (mf_Entries (in_Manifest ins)). en_Type e = EntryFile \<and> 2 ^ 63 - lm_MaxBytes lmt \<le> en_Size e))"
proof -
  obtain t where ch: "check_entries lmt (in_files ins) True [] no_totals (mf_Entries (in_Manifest ins)) = Inr t"
    and "0 < lm_MaxEntries lmt \<Longrightarrow> int (length (mf_Entries (in_Manifest ins))) \<le> lm_MaxEntries lmt"
    using Inspect_cases [OF assms(1)] by metis
  moreover have "0 < lm_MaxBytes lmt \<Longrightarrow> \<forall>e\<in>set (mf_Entries (in_Manifest ins)). en_Type e = EntryFile \<longrightarrow> en_Size e < 2 ^ 63 - lm_MaxBytes lmt
      \<Longrightarrow> file_bytes (mf_Entries (in_Manifest ins)) \<le> lm_MaxBytes lmt"
    using check_entries_bytes [OF ch _ assms(2)] by (simp add: no_totals_def)
  ultimately show ?thesis by (meson linorder_not_less)
qed


subsection \<open>Two archives\<close>

definition demo_digest :: string where "demo_digest = replicate 64 CHR ''0''"

definition demo_entry :: "string \<Rightarrow> string \<Rightarrow> int \<Rightarrow> entry" where
  "demo_entry p ty n =
     \<lparr>en_Path = p, en_Type = ty, en_Size = n, en_Mode = 420, en_UID = 1000, en_GID = 1000, en_ModTime = 0, en_Target = '''',
      en_SHA256 = (if ty = EntryFile then demo_digest else ''''), en_Image = False, en_NoCredentials = False\<rparr>"

definition demo_source :: archive_source where
  "demo_source =
     \<lparr>as_Agent = ''a'', as_UID = ''u'', as_Runtime = ''r'', as_RuntimeVersion = '''', as_Model = ''m'', as_Machine = '''',
      as_KyberVersion = ''v'', as_PersistenceMode = ''overlay'',
      as_Disk = \<lparr>dk_PVC = ''p'', dk_StorageClass = '''', dk_CapacityBytes = 0, dk_RequestBytes = 0, dk_AccessModes = [],
                 dk_VolumeMode = ''''\<rparr>, as_LoginFiles = [], as_Config = None\<rparr>"

text \<open>A directory with two files, of the sizes given; the totals are the ones Inspect computes.\<close>

definition demo_manifest :: "int \<Rightarrow> int \<Rightarrow> manifest" where
  "demo_manifest m n =
     \<lparr>mf_FormatVersion = FormatVersion, mf_ExportedAt = 0, mf_Source = demo_source, mf_Mounts = [], mf_Excluded = [],
      mf_Totals = \<lparr>to_Entries = 3, to_Files = 2, to_Dirs = 1, to_Symlinks = 0, to_Bytes = wrap64 (m + n)\<rparr>,
      mf_Entries = [demo_entry ''.'' EntryDir 0, demo_entry ''a'' EntryFile m, demo_entry ''b'' EntryFile n]\<rparr>"

definition demo_dir :: zip_file where
  "demo_dir = \<lparr>zf_Name = PayloadPrefix, zf_Method = 0, zf_CompressedSize = 0, zf_UncompressedSize = 0, zf_IsDir = True,
     zf_IsRegular = False, zf_IsSymlink = False, zf_Data = Some ''''\<rparr>"

definition demo_file :: "string \<Rightarrow> nat \<Rightarrow> nat \<Rightarrow> string option \<Rightarrow> zip_file" where
  "demo_file name c n data = \<lparr>zf_Name = name, zf_Method = 8, zf_CompressedSize = c, zf_UncompressedSize = n, zf_IsDir = False,
     zf_IsRegular = True, zf_IsSymlink = False, zf_Data = data\<rparr>"

definition demo_zip :: "nat \<Rightarrow> nat \<Rightarrow> nat \<Rightarrow> string option \<Rightarrow> zip_file list" where
  "demo_zip m c n data =
     [demo_dir, demo_file ''persist/a'' m m (Some (replicate m CHR ''x'')), demo_file ''persist/b'' c n data,
      demo_file ManifestName 2 2 (Some ''m'')]"

definition demo_lib :: "manifest \<Rightarrow> arch_lib" where
  "demo_lib m = \<lparr>al_decode = (\<lambda>data. if data = ''m'' then Some m else None), al_sha256 = (\<lambda>_. demo_digest), al_lower = id\<rparr>"

definition demo_limits :: limits where
  "demo_limits = \<lparr>lm_MaxEntries = 100, lm_MaxBytes = 1000, lm_MaxCompressionRatio = 0\<rparr>"

lemma demo_facts:
  "CleanRelPath ''.'' = Inr ''.''" "CleanRelPath ''a'' = Inr ''a''" "CleanRelPath ''b'' = Inr ''b''"
  "parentOf ''a'' = ''.''" "parentOf ''b'' = ''.''" "isSHA256 demo_digest"
  by code_simp+

lemma demo_Inspect:
  assumes "n \<le> 2 ^ 20 \<or> 0 < c \<and> n div c \<le> 1000" and "wrap64 (10 + int n) \<le> 1000"
  shows "\<exists>ins. Inspect (demo_lib (demo_manifest 10 (int n))) (Some (demo_zip 10 c n data)) demo_limits = Inr ins
     \<and> in_Manifest ins = demo_manifest 10 (int n)
     \<and> in_files ins = [(''persist/'', demo_dir), (''persist/a'', demo_file ''persist/a'' 10 10 (Some (replicate 10 CHR ''x''))),
         (''persist/b'', demo_file ''persist/b'' c n data)]"
proof -
  let ?fa = "demo_file ''persist/a'' 10 10 (Some (replicate 10 CHR ''x''))" and ?fb = "demo_file ''persist/b'' c n data"
  let ?files = "[(''persist/'', demo_dir), (''persist/a'', ?fa), (''persist/b'', ?fb)]"
  have ix: "index_zip (effective_ratio demo_limits) (demo_zip 10 c n data) [] None
      = Inr (?files, Some (demo_file ManifestName 2 2 (Some ''m'')))"
    using assms(1) by (auto simp: demo_zip_def demo_dir_def demo_file_def demo_limits_def effective_ratio_def
      ManifestName_def PayloadPrefix_def)
  have ch: "check_entries demo_limits ?files True [] no_totals (mf_Entries (demo_manifest 10 (int n)))
      = Inr \<lparr>to_Entries = 0, to_Files = 2, to_Dirs = 1, to_Symlinks = 0, to_Bytes = wrap64 (10 + int n)\<rparr>"
    using assms(2) by (simp add: demo_manifest_def demo_entry_def demo_facts entry_types ZipName_def PayloadPrefix_def
      count_entry_def no_totals_def demo_dir_def demo_file_def demo_limits_def wrap64_def)
  have fields: "mf_FormatVersion (demo_manifest 10 (int n)) = FormatVersion" "mf_Entries (demo_manifest 10 (int n)) \<noteq> []"
    "length (mf_Entries (demo_manifest 10 (int n))) = 3" "lm_MaxEntries demo_limits = 100"
    "mf_Totals (demo_manifest 10 (int n))
      = \<lparr>to_Entries = 3, to_Files = 2, to_Dirs = 1, to_Symlinks = 0, to_Bytes = wrap64 (10 + int n)\<rparr>"
    by (simp_all add: demo_manifest_def demo_limits_def)
  have decode: "al_decode (demo_lib m) (take maxManifestBytes ''m'') = Some m" for m
    by (simp add: demo_lib_def maxManifestBytes_def)
  have mf: "zf_Data (demo_file ManifestName 2 2 (Some ''m'')) = Some ''m''"
    "\<not> maxManifestBytes < zf_UncompressedSize (demo_file ManifestName 2 2 (Some ''m''))"
    by (simp_all add: demo_file_def maxManifestBytes_def)
  have v: "CheckVersion FormatVersion = None" by (simp add: CheckVersion_def SupportedFormatVersions_def)
  show ?thesis by (simp add: Inspect_def ix mf decode v fields ch)
qed


theorem inspect_within_limits_witness:
  "file_bytes (mf_Entries (demo_manifest 10 5)) \<le> 1000"
proof -
  obtain ins where ins: "Inspect (demo_lib (demo_manifest 10 5)) (Some (demo_zip 10 5 5 None)) demo_limits = Inr ins"
    "in_Manifest ins = demo_manifest 10 5"
    using demo_Inspect [of 5 5 None] by (auto simp: wrap64_def)
  have "lm_MaxBytes demo_limits = 1000" by (simp add: demo_limits_def)
  with inspect_within_limits [OF ins(1)] ins(2) show ?thesis
    by (simp add: demo_manifest_def demo_entry_def entry_types)
qed

text \<open>
  The byte limit can be passed: an archive of two files, of 10 bytes and of nearly 2^63, is accepted under a
  limit of 1000 bytes, because the sum wraps to a negative number before it is compared.
\<close>

theorem byte_limit_wraps:
  "\<exists>ins. Inspect (demo_lib (demo_manifest 10 9223372036854775803))
       (Some (demo_zip 10 9223372036854776 9223372036854775803 None)) demo_limits = Inr ins
     \<and> lm_MaxBytes demo_limits = 1000 \<and> file_bytes (mf_Entries (in_Manifest ins)) = 9223372036854775813"
proof -
  obtain ins where "Inspect (demo_lib (demo_manifest 10 9223372036854775803))
       (Some (demo_zip 10 9223372036854776 9223372036854775803 None)) demo_limits = Inr ins"
    and m: "in_Manifest ins = demo_manifest 10 9223372036854775803"
    using demo_Inspect [of 9223372036854775803 9223372036854776 None] by (auto simp: wrap64_def)
  moreover have "file_bytes (mf_Entries (in_Manifest ins)) = 9223372036854775813"
    by (simp add: m file_bytes_def demo_manifest_def demo_entry_def entry_types)
  ultimately show ?thesis by (auto simp: demo_limits_def)
qed

end
