(* ===== verification/Archive_Disk.thy ===== *)
theory Archive_Disk
  imports Archive_Format
begin

section \<open>A volume scanned, exported and restored (\<open>pkg/diskarchive\<close>: scan, write, extract; \<open>kyber-disk-archive\<close>)\<close>

text \<open>
  The volume is a map from paths, lists of names, to objects. \<open>os.Root\<close> resolves a path one name at a
  time; the model stops with \<open>ThroughLink\<close> where a name before the last is a symbolic link, and proves
  that this never happens. What the operating system can do to a call is the environment's: a fault on a
  path, a file that changed while it was read, a cancelled context, the clock, the process's own user.
\<close>

subsection \<open>The volume\<close>

datatype file_kind = KDir | KFile | KLink | KSocket | KPipe | KDevice | KOther

record inode =
  no_Kind :: file_kind
  no_Data :: string
  no_Perm :: nat
  no_Setuid :: bool
  no_Setgid :: bool
  no_Sticky :: bool
  no_UID :: int
  no_GID :: int
  no_MTime :: time

type_synonym volume = "(string list, inode) gomap"

record disk_env =
  ev_fault :: "string \<Rightarrow> bool"
  ev_changed :: "string \<Rightarrow> bool"
  ev_canceled :: "string \<Rightarrow> bool"
  ev_clock :: "string \<Rightarrow> time"
  ev_UID :: int
  ev_GID :: int

definition kind_at :: "volume \<Rightarrow> string list \<Rightarrow> file_kind option" where
  "kind_at v segs = map_option no_Kind (map_of v segs)"

text \<open>Every object other than the root has a directory above it, and a name the kernel allows; a link has mode 0777.\<close>

definition volume_ok :: "volume \<Rightarrow> bool" where
  "volume_ok v \<longleftrightarrow>
     distinct (map fst v) \<and> kind_at v [] = Some KDir
     \<and> list_all (\<lambda>(segs, n). no_Perm n < 512 \<and> 0 \<le> no_UID n \<and> 0 \<le> no_GID n
          \<and> (no_Kind n = KLink \<longrightarrow> no_Data n \<noteq> '''' \<and> CHR 0x00 \<notin> set (no_Data n) \<and> no_Perm n = 511
               \<and> \<not> no_Setuid n \<and> \<not> no_Setgid n \<and> \<not> no_Sticky n)
          \<and> (segs \<noteq> [] \<longrightarrow> kind_at v (butlast segs) = Some KDir \<and> plain_segment (last segs))) v"

subsection \<open>Scanning\<close>

text \<open>\<open>MaxEntries\<close> and \<open>MaxBytes\<close> bound the walk when positive.\<close>

record scan_options =
  so_Exclude :: "(string, string) gomap"
  so_MaxEntries :: int
  so_MaxBytes :: int

record scanner =
  sc_entries :: int
  sc_bytes :: int
  sc_names :: int
  sc_excluded :: "exclusion list"

definition new_scanner :: scanner where
  "new_scanner = \<lparr>sc_entries = 0, sc_bytes = 0, sc_names = 0, sc_excluded = []\<rparr>"

definition go_quot :: "int \<Rightarrow> int \<Rightarrow> int" where
  "go_quot a b = sgn a * sgn b * (\<bar>a\<bar> div \<bar>b\<bar>)"

definition estimate :: "scanner \<Rightarrow> int" where
  "estimate s = wrap64 (sc_bytes s + go_quot (sc_bytes s) 1000 + sc_entries s * 400 + 3 * sc_names s)"

definition mode_bits :: "inode \<Rightarrow> nat" where
  "mode_bits n = no_Perm n mod 512 + (if no_Setuid n then 2048 else 0) + (if no_Setgid n then 1024 else 0)
     + (if no_Sticky n then 512 else 0)"

text \<open>The entry, and why the object cannot be archived when it is a special file.\<close>

definition entryFromInfo :: "string \<Rightarrow> inode \<Rightarrow> arch_error + (entry \<times> string)" where
  "entryFromInfo rel n =
     (let e = \<lparr>en_Path = rel, en_Type = '''', en_Size = int (length (no_Data n)), en_Mode = mode_bits n, en_UID = no_UID n,
               en_GID = no_GID n, en_ModTime = no_MTime n, en_Target = '''', en_SHA256 = '''', en_Image = False,
               en_NoCredentials = False\<rparr> in
      case no_Kind n of
        KDir \<Rightarrow> Inr (e\<lparr>en_Type := EntryDir, en_Size := 0\<rparr>, '''')
      | KFile \<Rightarrow> Inr (e\<lparr>en_Type := EntryFile\<rparr>, '''')
      | KLink \<Rightarrow> Inr (e\<lparr>en_Type := EntrySymlink\<rparr>, '''')
      | KSocket \<Rightarrow> Inr (e, ''socket: not portable, recreated by the process that owns it'')
      | KPipe \<Rightarrow> Inr (e, ''named pipe: not portable, recreated by the process that owns it'')
      | KDevice \<Rightarrow> Inr (e, ''device node: not portable'')
      | KOther \<Rightarrow> Inl InvalidArchive)"

definition unsafe_name :: string where
  "unsafe_name = ''file name cannot be stored safely in a portable archive (not UTF-8, or ambiguous separators)''"

definition exclude_path :: "string \<Rightarrow> string \<Rightarrow> scanner \<Rightarrow> scanner" where
  "exclude_path p reason s = s\<lparr>sc_excluded := sc_excluded s @ [\<lparr>ex_Path = p, ex_Reason = reason\<rparr>]\<rparr>"

text \<open>\<open>Readdirnames\<close>, sorted.\<close>

definition child_names :: "volume \<Rightarrow> string list \<Rightarrow> string list" where
  "child_names v rel = sort (map (last \<circ> fst) (filter (\<lambda>(segs, _). segs \<noteq> [] \<and> butlast segs = rel) v))"

fun fold_result :: "('a \<Rightarrow> 'b \<Rightarrow> 'e + 'b) \<Rightarrow> 'a list \<Rightarrow> 'b \<Rightarrow> 'e + 'b" where
  "fold_result f [] b = Inr b"
| "fold_result f (x # xs) b = (case f x b of Inl err \<Rightarrow> Inl err | Inr b' \<Rightarrow> fold_result f xs b')"

lemma fold_result_cong [fundef_cong]:
  "xs = ys \<Longrightarrow> b = c \<Longrightarrow> (\<And>x d. x \<in> set xs \<Longrightarrow> f x d = g x d) \<Longrightarrow> fold_result f xs b = fold_result g ys c"
  by (induction xs arbitrary: ys b c) (auto split: sum.split)

lemma fold_result_append:
  "fold_result f (xs @ ys) b = (case fold_result f xs b of Inl err \<Rightarrow> Inl err | Inr c \<Rightarrow> fold_result f ys c)"
  by (induction xs arbitrary: b) (auto split: sum.split)

definition below :: "volume \<Rightarrow> string list \<Rightarrow> string list list" where
  "below v rel = filter (strict_prefix rel) (map fst v)"

lemma below_child:
  assumes "map_of v (rel @ [n]) = Some i"
  shows "length (below v (rel @ [n])) < length (below v rel)"
proof -
  have le: "length (filter (strict_prefix (rel @ [n])) xs) \<le> length (filter (strict_prefix rel) xs)" for xs
    by (induction xs) (auto simp: strict_prefix_def dest: append_prefixD)
  have "length (filter (strict_prefix (rel @ [n])) xs) < length (filter (strict_prefix rel) xs)" if "rel @ [n] \<in> set xs" for xs
    using that
  proof (induction xs)
    case (Cons x xs)
    show ?case
    proof (cases "x = rel @ [n]")
      case True
      then have "strict_prefix rel x" "\<not> strict_prefix (rel @ [n]) x" by (simp_all add: strict_prefix_def)
      then show ?thesis using le [of xs] by simp
    next
      case False
      then have "length (filter (strict_prefix (rel @ [n])) xs) < length (filter (strict_prefix rel) xs)" using Cons by simp
      moreover have "strict_prefix (rel @ [n]) x \<Longrightarrow> strict_prefix rel x"
        by (auto simp: strict_prefix_def dest: append_prefixD)
      ultimately show ?thesis by auto
    qed
  qed simp
  moreover have "rel @ [n] \<in> set (map fst v)" using map_of_SomeD [OF assms] by force
  ultimately show ?thesis unfolding below_def by blast
qed

lemma child_names_set [simp]: "set (child_names v rel) = {name. rel @ [name] \<in> go_keys v}"
proof -
  have "name \<in> set (child_names v rel) \<longleftrightarrow> (\<exists>x\<in>set v. fst x \<noteq> [] \<and> butlast (fst x) = rel \<and> last (fst x) = name)" for name
    by (auto simp: child_names_def case_prod_beta)
  moreover have "segs \<noteq> [] \<and> butlast segs = rel \<and> last segs = name \<longleftrightarrow> segs = rel @ [name]" for segs name
    by (cases segs rule: rev_cases) auto
  ultimately have mem: "name \<in> set (child_names v rel) \<longleftrightarrow> (\<exists>x\<in>set v. fst x = rel @ [name])" for name by simp
  show ?thesis unfolding set_eq_iff mem by force
qed

text \<open>
  \<open>scanner.walk\<close>. A replacement of invalid UTF-8 (\<open>strings.ToValidUTF8\<close>) is the function \<open>valid\<close>.
\<close>

type_synonym 'a visitor = "entry \<Rightarrow> inode \<Rightarrow> 'a \<Rightarrow> arch_error + 'a"

text \<open>What is done for one name before its directory is read: \<open>Inr (Inl r)\<close> when it is left out.\<close>

definition scan_item ::
  "disk_env \<Rightarrow> (string \<Rightarrow> string) \<Rightarrow> scan_options \<Rightarrow> string \<Rightarrow> inode option \<Rightarrow> scanner
     \<Rightarrow> arch_error + (scanner + (entry \<times> scanner))" where
  "scan_item ev valid opts p info s =
     (if ev_canceled ev p then Inl Canceled
      else if p \<noteq> ''.'' \<and> map_of (so_Exclude opts) p \<noteq> None
      then Inr (Inl (exclude_path p (the (map_of (so_Exclude opts) p)) s))
      else if CleanRelPath p = Inl UnsafePath then Inr (Inl (exclude_path (valid p) unsafe_name s))
      else case info of
        None \<Rightarrow> Inl Changed
      | Some n \<Rightarrow>
          if ev_fault ev p then Inl Changed
          else (case entryFromInfo p n of
                  Inl err \<Rightarrow> Inl err
                | Inr (e, special) \<Rightarrow>
                    if special \<noteq> '''' then Inr (Inl (exclude_path p special s))
                    else let e = (if en_Type e = EntrySymlink then e\<lparr>en_Target := no_Data n, en_Size := 0\<rparr> else e);
                             s = s\<lparr>sc_entries := sc_entries s + 1\<rparr> in
                      if 0 < so_MaxEntries opts \<and> so_MaxEntries opts < sc_entries s then Inl LimitExceeded
                      else let s = (if en_Type e = EntryFile then s\<lparr>sc_bytes := wrap64 (sc_bytes s + en_Size e)\<rparr> else s);
                               s = s\<lparr>sc_names := wrap64 (sc_names s + int (length p))\<rparr> in
                        if 0 < so_MaxBytes opts \<and> so_MaxBytes opts < estimate s then Inl LimitExceeded
                        else Inr (Inr (e, s))))"

function walk ::
  "disk_env \<Rightarrow> (string \<Rightarrow> string) \<Rightarrow> scan_options \<Rightarrow> 'a visitor \<Rightarrow> volume \<Rightarrow> string list \<Rightarrow> scanner \<times> 'a
     \<Rightarrow> arch_error + (scanner \<times> 'a)" where
  "walk ev valid opts visit v rel (s, acc) =
     (case scan_item ev valid opts (of_segs rel) (map_of v rel) s of
        Inl err \<Rightarrow> Inl err
      | Inr (Inl s) \<Rightarrow> Inr (s, acc)
      | Inr (Inr (e, s)) \<Rightarrow>
          (case map_of v rel of
             None \<Rightarrow> Inl Changed
           | Some n \<Rightarrow>
               (case visit e n acc of
                  Inl err \<Rightarrow> Inl err
                | Inr acc \<Rightarrow>
                    if en_Type e \<noteq> EntryDir then Inr (s, acc)
                    else fold_result (\<lambda>name. walk ev valid opts visit v (rel @ [name])) (child_names v rel) (s, acc))))"
  by pat_completeness auto
termination
proof (relation "measure (\<lambda>(ev, valid, opts, visit, v, rel, sa). length (below v rel))", goal_cases)
  case (2 ev valid opts visit v rel s acc x r e s' n acc' name)
  then have "rel @ [name] \<in> go_keys v" by simp
  then obtain i where "map_of v (rel @ [name]) = Some i" by (metis map_of_eq_None_iff not_None_eq)
  then show ?case using below_child by simp
qed simp


declare walk.simps [simp del]

text \<open>\<open>hashFile\<close>, a \<open>Scan\<close> with the sums, and \<open>CompareEntries\<close>.\<close>

definition hashFile :: "disk_env \<Rightarrow> arch_lib \<Rightarrow> entry \<Rightarrow> inode \<Rightarrow> arch_error + string" where
  "hashFile ev al e n = (if ev_changed ev (en_Path e) then Inl Changed else Inr (al_sha256 al (no_Data n)))"

definition scan_visit :: "disk_env \<Rightarrow> arch_lib \<Rightarrow> entry list visitor" where
  "scan_visit ev al e n acc =
     (if en_Type e = EntryFile then
        (case hashFile ev al e n of Inl err \<Rightarrow> Inl err | Inr digest \<Rightarrow> Inr (acc @ [e\<lparr>en_SHA256 := digest\<rparr>]))
      else Inr (acc @ [e]))"

definition Scan ::
  "disk_env \<Rightarrow> arch_lib \<Rightarrow> (string \<Rightarrow> string) \<Rightarrow> volume \<Rightarrow> scan_options \<Rightarrow> arch_error + (entry list \<times> exclusion list)" where
  "Scan ev al valid v opts =
     (case walk ev valid opts (scan_visit ev al) v [] (new_scanner, []) of
        Inl err \<Rightarrow> Inl err
      | Inr (s, es) \<Rightarrow> Inr (es, sc_excluded s))"

definition same_entry :: "entry \<Rightarrow> entry \<Rightarrow> bool" where
  "same_entry w g \<longleftrightarrow>
     en_Type g = en_Type w \<and> en_Size g = en_Size w \<and> en_Mode g = en_Mode w \<and> en_UID g = en_UID w \<and> en_GID g = en_GID w
     \<and> en_Target g = en_Target w \<and> en_SHA256 g = en_SHA256 w
     \<and> (en_Type w = EntrySymlink \<or> en_Path w = ''.'' \<or> en_ModTime g = en_ModTime w)"

fun compare_loop :: "entry list \<Rightarrow> (string, entry) gomap \<Rightarrow> arch_error option" where
  "compare_loop [] byPath = (if byPath = [] then None else Some InvalidArchive)"
| "compare_loop (w # ws) byPath =
     (case map_of byPath (en_Path w) of
        None \<Rightarrow> Some InvalidArchive
      | Some g \<Rightarrow> if \<not> same_entry w g then Some InvalidArchive else compare_loop ws (AList.delete (en_Path w) byPath))"

definition CompareEntries :: "entry list \<Rightarrow> entry list \<Rightarrow> arch_error option" where
  "CompareEntries want got = compare_loop want (fold (\<lambda>e m. AList.update (en_Path e) e m) got [])"

subsection \<open>Writing an archive\<close>

record write_options =
  wo_Scan :: scan_options
  wo_Source :: archive_source
  wo_Mounts :: "mount list"
  wo_Image :: "(string, image_file) gomap"

text \<open>What JSON and DEFLATE make of bytes: the manifest's encoding and the size of a compressed stream.\<close>

record zip_lib =
  zl_encode :: "manifest \<Rightarrow> string"
  zl_deflated :: "string \<Rightarrow> nat"

definition DefaultExclusions :: "(string, string) gomap" where
  "DefaultExclusions = [(''lost+found'', ''filesystem metadata recreated by mkfs, not agent state'')]"

type_synonym writer_state = "zip_file list \<times> entry list \<times> totals"

definition write_visit :: "disk_env \<Rightarrow> arch_lib \<Rightarrow> zip_lib \<Rightarrow> write_options \<Rightarrow> writer_state visitor" where
  "write_visit ev al zl opts e n acc =
     (case acc of (zs, es, t) \<Rightarrow>
        if en_Type e = EntryDir then
          Inr (zs @ [\<lparr>zf_Name = ZipName e, zf_Method = 0, zf_CompressedSize = 0, zf_UncompressedSize = 0, zf_IsDir = True,
                      zf_IsRegular = False, zf_IsSymlink = False, zf_Data = Some ''''\<rparr>],
               es @ [e], t\<lparr>to_Dirs := to_Dirs t + 1\<rparr>)
        else if en_Type e = EntrySymlink then
          Inr (zs @ [\<lparr>zf_Name = ZipName e, zf_Method = 0, zf_CompressedSize = length (en_Target e),
                      zf_UncompressedSize = length (en_Target e), zf_IsDir = False, zf_IsRegular = False, zf_IsSymlink = True,
                      zf_Data = Some (en_Target e)\<rparr>],
               es @ [e], t\<lparr>to_Symlinks := to_Symlinks t + 1\<rparr>)
        else if en_Type e = EntryFile then
          (case hashFile ev al e n of
             Inl err \<Rightarrow> Inl err
           | Inr digest \<Rightarrow>
               let e = e\<lparr>en_SHA256 := digest\<rparr>;
                   e = (if isPackageConfig (en_Path e) \<and> en_Size e \<le> maxPackageConfigBytes
                        then e\<lparr>en_NoCredentials := \<not> packageConfigHasCredentials (al_lower al) (no_Data n)\<rparr> else e);
                   e = e\<lparr>en_Image := Matches (map_of (wo_Image opts) (en_Path e)) e\<rparr> in
               Inr (zs @ [\<lparr>zf_Name = ZipName e, zf_Method = 8, zf_CompressedSize = zl_deflated zl (no_Data n),
                           zf_UncompressedSize = length (no_Data n), zf_IsDir = False, zf_IsRegular = True, zf_IsSymlink = False,
                           zf_Data = Some (no_Data n)\<rparr>],
                    es @ [e], t\<lparr>to_Files := to_Files t + 1, to_Bytes := wrap64 (to_Bytes t + en_Size e)\<rparr>))
        else Inr (zs, es @ [e], t))"

definition Write_archive ::
  "disk_env \<Rightarrow> arch_lib \<Rightarrow> zip_lib \<Rightarrow> (string \<Rightarrow> string) \<Rightarrow> volume \<Rightarrow> write_options \<Rightarrow> time
     \<Rightarrow> arch_error + (manifest \<times> zip_file list)" where
  "Write_archive ev al zl valid v opts now =
     (case walk ev valid (wo_Scan opts) (write_visit ev al zl opts) v [] (new_scanner, ([], [], no_totals)) of
        Inl err \<Rightarrow> Inl err
      | Inr (s, (zs, es, t)) \<Rightarrow>
          let m = \<lparr>mf_FormatVersion = FormatVersion, mf_ExportedAt = now, mf_Source = wo_Source opts, mf_Mounts = wo_Mounts opts,
                   mf_Excluded = sc_excluded s, mf_Totals = t\<lparr>to_Entries := int (length es)\<rparr>, mf_Entries = es\<rparr>;
              data = zl_encode zl m in
          Inr (m, zs @ [\<lparr>zf_Name = ManifestName, zf_Method = 8, zf_CompressedSize = zl_deflated zl data,
                         zf_UncompressedSize = length data, zf_IsDir = False, zf_IsRegular = True, zf_IsSymlink = False,
                         zf_Data = Some data\<rparr>]))"

subsection \<open>Extracting\<close>

definition through_link :: "volume \<Rightarrow> string list \<Rightarrow> bool" where
  "through_link v segs \<longleftrightarrow> list_ex (\<lambda>k. kind_at v (take k segs) = Some KLink) [0..<length segs]"

text \<open>
  Creating an object: its parent must be a directory and nothing may have the name (\<open>mkdir\<close>, \<open>O_EXCL\<close>,
  \<open>symlink\<close> alike). The parent's modification time moves; a set-group-ID parent gives its group.
\<close>

definition create_node :: "disk_env \<Rightarrow> string \<Rightarrow> file_kind \<Rightarrow> string \<Rightarrow> nat \<Rightarrow> volume \<Rightarrow> arch_error + volume" where
  "create_node ev p kd data perm v =
     (let segs = path_segs p; parent = butlast segs in
      if through_link v segs then Inl ThroughLink
      else if ev_fault ev p \<or> segs = [] \<or> map_of v segs \<noteq> None then Inl DestinationError
      else case map_of v parent of
        None \<Rightarrow> Inl DestinationError
      | Some d \<Rightarrow>
          if no_Kind d \<noteq> KDir then Inl DestinationError
          else Inr (AList.update segs
                 \<lparr>no_Kind = kd, no_Data = data, no_Perm = perm, no_Setuid = False, no_Setgid = (kd = KDir \<and> no_Setgid d),
                  no_Sticky = False, no_UID = ev_UID ev, no_GID = (if no_Setgid d then no_GID d else ev_GID ev),
                  no_MTime = ev_clock ev p\<rparr>
                 (AList.update parent (d\<lparr>no_MTime := ev_clock ev p\<rparr>) v)))"

text \<open>A change to the object at a path itself, not through a link.\<close>

definition change_node :: "disk_env \<Rightarrow> string \<Rightarrow> bool \<Rightarrow> (inode \<Rightarrow> inode) \<Rightarrow> volume \<Rightarrow> arch_error + volume" where
  "change_node ev p follow f v =
     (let segs = path_segs p in
      if through_link v segs \<or> (follow \<and> kind_at v segs = Some KLink) then Inl ThroughLink
      else if ev_fault ev p then Inl DestinationError
      else case map_of v segs of None \<Rightarrow> Inl DestinationError | Some n \<Rightarrow> Inr (AList.update segs (f n) v))"

definition toFileMode :: "nat \<Rightarrow> inode \<Rightarrow> inode" where
  "toFileMode md n =
     n\<lparr>no_Perm := md mod 512, no_Setuid := odd (md div 2048), no_Setgid := odd (md div 1024), no_Sticky := odd (md div 512)\<rparr>"

text \<open>A change of owner clears the set-ID bits of a regular file.\<close>

definition set_owner :: "int \<Rightarrow> int \<Rightarrow> inode \<Rightarrow> inode" where
  "set_owner u g n =
     n\<lparr>no_UID := u, no_GID := g, no_Setuid := (no_Setuid n \<and> no_Kind n \<noteq> KFile), no_Setgid := (no_Setgid n \<and> no_Kind n \<noteq> KFile)\<rparr>"

definition requireEmpty :: "disk_env \<Rightarrow> volume \<Rightarrow> string list \<Rightarrow> arch_error option" where
  "requireEmpty ev v allowed =
     (if ev_fault ev ''.'' then Some DestinationError
      else if list_all (\<lambda>n. n \<in> set allowed) (child_names v []) then None else Some NotEmpty)"

record extract_options =
  xo_Limits :: limits
  xo_PreserveOwnership :: bool
  xo_Allowed :: "string list"
  xo_Skip :: "(string, bool) gomap option"
  xo_SkipIf :: "(entry \<Rightarrow> bool) option"

definition skipped :: "(string, bool) gomap \<Rightarrow> entry \<Rightarrow> bool" where
  "skipped skip e \<longleftrightarrow> en_Type e = EntryFile \<and> map_of skip (en_Path e) = Some True"

definition skip_set :: "extract_options \<Rightarrow> entry list \<Rightarrow> arch_error + (string, bool) gomap" where
  "skip_set opts es =
     (case (xo_SkipIf opts, xo_Skip opts) of
        (None, None) \<Rightarrow> Inr []
      | (None, Some skip) \<Rightarrow> Inr skip
      | (Some f, None) \<Rightarrow> Inl SkipNeedsMap
      | (Some f, Some skip) \<Rightarrow>
          Inr (fold (\<lambda>e skip. if en_Type e = EntryFile \<and> f e then AList.update (en_Path e) True skip else skip) es skip))"

definition place_object :: "disk_env \<Rightarrow> arch_lib \<Rightarrow> inspected \<Rightarrow> (string, bool) gomap \<Rightarrow> entry \<Rightarrow> volume \<Rightarrow> arch_error + volume" where
  "place_object ev al ins skip e v =
     (if ev_canceled ev (en_Path e) then Inl Canceled
      else if en_Type e = EntryDir then
        (if en_Path e = ''.'' then Inr v else create_node ev (en_Path e) KDir '''' 448 v)
      else if en_Type e = EntryFile then
        (if skipped skip e then Inr v
         else case create_node ev (en_Path e) KFile '''' 384 v of
           Inl err \<Rightarrow> Inl err
         | Inr v \<Rightarrow>
             (case copyFile al ins e of
                Inl err \<Rightarrow> Inl err
              | Inr data \<Rightarrow>
                  (case map_of v (path_segs (en_Path e)) of
                     None \<Rightarrow> Inl DestinationError
                   | Some n \<Rightarrow> Inr (AList.update (path_segs (en_Path e)) (n\<lparr>no_Data := data\<rparr>) v))))
      else Inr v)"

definition place_link :: "disk_env \<Rightarrow> inspected \<Rightarrow> entry \<Rightarrow> volume \<Rightarrow> arch_error + volume" where
  "place_link ev ins e v =
     (if en_Type e \<noteq> EntrySymlink then Inr v
      else case readTarget ins e of
        Inl err \<Rightarrow> Inl err
      | Inr target \<Rightarrow> create_node ev (en_Path e) KLink target 511 v)"

definition place_owner :: "disk_env \<Rightarrow> (string, bool) gomap \<Rightarrow> entry \<Rightarrow> volume \<Rightarrow> arch_error + volume" where
  "place_owner ev skip e v =
     (if skipped skip e then Inr v else change_node ev (en_Path e) False (set_owner (en_UID e) (en_GID e)) v)"

definition place_mode :: "disk_env \<Rightarrow> (string, bool) gomap \<Rightarrow> entry \<Rightarrow> volume \<Rightarrow> arch_error + volume" where
  "place_mode ev skip e v =
     (if en_Type e = EntrySymlink \<or> skipped skip e then Inr v
      else case change_node ev (en_Path e) True (toFileMode (en_Mode e)) v of
        Inl err \<Rightarrow> Inl err
      | Inr v \<Rightarrow> change_node ev (en_Path e) True (\<lambda>n. n\<lparr>no_MTime := en_ModTime e\<rparr>) v)"

text \<open>The passes over an inspected archive, once the destination is known to be empty.\<close>

definition extract_passes ::
  "disk_env \<Rightarrow> arch_lib \<Rightarrow> inspected \<Rightarrow> bool \<Rightarrow> (string, bool) gomap \<Rightarrow> volume \<Rightarrow> arch_error + volume" where
  "extract_passes ev al ins preserve skip v =
     (let es = mf_Entries (in_Manifest ins) in
      case fold_result (place_object ev al ins skip) es v of
        Inl err \<Rightarrow> Inl err
      | Inr v \<Rightarrow>
          (case fold_result (place_link ev ins) es v of
             Inl err \<Rightarrow> Inl err
           | Inr v \<Rightarrow>
               (case (if preserve then fold_result (place_owner ev skip) es v else Inr v) of
                  Inl err \<Rightarrow> Inl err
                | Inr v \<Rightarrow> fold_result (place_mode ev skip) (rev es) v)))"

definition Extract ::
  "disk_env \<Rightarrow> arch_lib \<Rightarrow> zip_file list option \<Rightarrow> volume option \<Rightarrow> extract_options
     \<Rightarrow> arch_error + (manifest \<times> (string, bool) gomap \<times> volume)" where
  "Extract ev al zs dest opts =
     (case Inspect al zs (xo_Limits opts) of
        Inl err \<Rightarrow> Inl err
      | Inr ins \<Rightarrow>
          (case dest of
             None \<Rightarrow> Inl DestinationError
           | Some v \<Rightarrow>
               (case requireEmpty ev v (xo_Allowed opts) of
                  Some err \<Rightarrow> Inl err
                | None \<Rightarrow>
                    (case skip_set opts (mf_Entries (in_Manifest ins)) of
                       Inl err \<Rightarrow> Inl err
                     | Inr skip \<Rightarrow>
                         (case extract_passes ev al ins (xo_PreserveOwnership opts) skip v of
                            Inl err \<Rightarrow> Inl err
                          | Inr v \<Rightarrow> Inr (in_Manifest ins, skip, v))))))"

definition VerifyRestore ::
  "disk_env \<Rightarrow> arch_lib \<Rightarrow> (string \<Rightarrow> string) \<Rightarrow> volume \<Rightarrow> manifest \<Rightarrow> string list \<Rightarrow> (string, bool) gomap \<Rightarrow> arch_error option" where
  "VerifyRestore ev al valid v m allowed skip =
     (let exclude = fold (\<lambda>name x. AList.update name ''pre-existing on the destination volume'' x) allowed [] in
      case Scan ev al valid v \<lparr>so_Exclude = exclude, so_MaxEntries = 0, so_MaxBytes = 0\<rparr> of
        Inl err \<Rightarrow> Some err
      | Inr (got, _) \<Rightarrow> CompareEntries (filter (\<lambda>e. \<not> skipped skip e) (mf_Entries m)) got)"

subsection \<open>The restore pod\<close>

record restore_job =
  rj_skip_credentials :: string
  rj_skip_crontabs :: string
  rj_login_files :: string
  rj_max_bytes :: int
  rj_max_entries :: int
  rj_available :: int

definition restore_limits :: "restore_job \<Rightarrow> limits" where
  "restore_limits job =
     \<lparr>lm_MaxEntries = rj_max_entries job,
      lm_MaxBytes = (if rj_max_bytes job \<le> 0 \<or> rj_available job < rj_max_bytes job then rj_available job else rj_max_bytes job),
      lm_MaxCompressionRatio = 0\<rparr>"

definition restore_leaves_out :: "restore_job \<Rightarrow> entry \<Rightarrow> bool" where
  "restore_leaves_out job e \<longleftrightarrow>
     (let loginFiles = (if rj_login_files job \<noteq> '''' then split_on CHR '','' (rj_login_files job) else []) in
      (en_Type e = EntryFile \<and> IsLoginPath (en_Path e) loginFiles)
      \<or> (rj_skip_credentials job \<noteq> ''false'' \<and> IsSensitive e) \<or> (rj_skip_crontabs job \<noteq> ''false'' \<and> IsAgentCrontab e))"

definition restore_options :: "restore_job \<Rightarrow> extract_options" where
  "restore_options job =
     \<lparr>xo_Limits = restore_limits job, xo_PreserveOwnership = True, xo_Allowed = [''lost+found''], xo_Skip = Some [],
      xo_SkipIf = Some (restore_leaves_out job)\<rparr>"

definition runRestore ::
  "disk_env \<Rightarrow> disk_env \<Rightarrow> arch_lib \<Rightarrow> (string \<Rightarrow> string) \<Rightarrow> restore_job \<Rightarrow> zip_file list option \<Rightarrow> volume option
     \<Rightarrow> arch_error + (manifest \<times> (string, bool) gomap \<times> volume)" where
  "runRestore ev ev' al valid job zs dest =
     (case Extract ev al zs dest (restore_options job) of
        Inl err \<Rightarrow> Inl err
      | Inr (m, skip, v) \<Rightarrow>
          (case VerifyRestore ev' al valid v m [''lost+found''] skip of
             Some err \<Rightarrow> Inl err
           | None \<Rightarrow> Inr (m, skip, v)))"

end
