(* ===== verification/Archive_Restore.thy ===== *)
theory Archive_Restore
  imports Archive_Disk
begin

section \<open>What a restore does to the volume\<close>

text \<open>
  The passes of \<open>Extract\<close> are folds over the manifest. Each keeps one invariant, \<open>placed\<close>: the paths
  placed so far hold what the manifest says, everything else is as it was. The manifest being a tree then gives
  that no path is resolved through a symbolic link, and what a successful restore leaves on the volume.
\<close>

abbreviation seg :: "entry \<Rightarrow> string list" where
  "seg e \<equiv> path_segs (en_Path e)"

definition sound_entries :: "entry list \<Rightarrow> bool" where
  "sound_entries es \<longleftrightarrow> forms_tree es
     \<and> (\<forall>e\<in>set es. CleanRelPath (en_Path e) = Inr (en_Path e) \<and> en_Mode e < 4096 \<and> en_Type e \<in> {EntryDir, EntryFile, EntrySymlink}
          \<and> (en_Type e = EntryDir \<longrightarrow> en_Size e = 0))"

lemma entry_matches_sane:
  assumes "entry_matches files e"
  shows "CleanRelPath (en_Path e) = Inr (en_Path e) \<and> en_Mode e < 4096 \<and> en_Type e \<in> {EntryDir, EntryFile, EntrySymlink}
    \<and> (en_Type e = EntryDir \<longrightarrow> en_Size e = 0)"
  using assms by (auto simp: entry_matches_def entry_types)

lemma Inspect_entries:
  assumes "Inspect al (Some zs) lmt = Inr ins"
  shows "sound_entries (mf_Entries (in_Manifest ins))"
proof -
  note facts = inspected_facts [OF assms]
  have "\<forall>e\<in>set (mf_Entries (in_Manifest ins)). entry_matches (in_files ins) e" using facts by simp
  then show ?thesis using facts entry_matches_sane unfolding sound_entries_def by blast
qed

lemma Inspect_some: "Inspect al zs lmt = Inr ins \<Longrightarrow> \<exists>fs. zs = Some fs"
  by (cases zs) (simp_all add: Inspect_def)

lemma seg_inj:
  assumes "sound_entries es" and "d \<in> set es" and "e \<in> set es" and "seg d = seg e"
  shows "d = e"
proof -
  have "en_Path d = en_Path e" using assms path_segs_inj unfolding sound_entries_def by blast
  then show ?thesis using assms(1-3) unfolding sound_entries_def forms_tree_def by (auto simp: distinct_map inj_on_def)
qed

lemma distinct_seg:
  assumes "sound_entries es" shows "distinct (map seg es)"
proof -
  have "distinct (map en_Path es)" using assms by (simp add: sound_entries_def forms_tree_def)
  then have "distinct es" by (simp add: distinct_map)
  then show ?thesis using seg_inj [OF assms] by (auto simp: distinct_map inj_on_def)
qed

lemma seg_root: "sound_entries es \<Longrightarrow> e \<in> set es \<Longrightarrow> seg e = [] \<longleftrightarrow> en_Path e = ''.''"
  by (auto simp: path_segs_def)

text \<open>Every directory above an entry is an entry before it.\<close>

lemma seg_above:
  assumes "sound_entries es" and "es = xs @ e # ys" and "k < length (seg e)"
  shows "\<exists>d\<in>set xs. seg d = take k (seg e) \<and> en_Type d = EntryDir"
  using assms(2,3)
proof (induction "length (seg e) - k" arbitrary: e xs ys k rule: less_induct)
  case less
  have mem: "e \<in> set es" using less.prems(1) by simp
  have ne: "en_Path e \<noteq> ''.''" using less.prems(2) by (auto simp: path_segs_def)
  have clean: "CleanRelPath (en_Path e) = Inr (en_Path e)" using assms(1) mem unfolding sound_entries_def by blast
  obtain d where d: "d \<in> set xs" "en_Path d = parentOf (en_Path e)" "en_Type d = EntryDir"
    using assms(1) less.prems(1) ne unfolding sound_entries_def forms_tree_def by blast
  have sd: "seg d = butlast (seg e)" using d(2) parentOf_segs(2) [OF clean ne] by simp
  show ?case
  proof (cases "k = length (seg e) - 1")
    case True
    then have "seg d = take k (seg e)" using sd by (simp add: butlast_conv_take)
    then show ?thesis using d by blast
  next
    case False
    obtain us vs where xs: "xs = us @ d # vs" using d(1) split_list by metis
    have "k < length (seg d)" using False less.prems(2) by (simp add: sd)
    moreover have "length (seg d) - k < length (seg e) - k" using False less.prems(2) by (simp add: sd)
    ultimately obtain c where "c \<in> set us" "seg c = take k (seg d)" "en_Type c = EntryDir"
      using less.hyps [of d k us "vs @ e # ys"] less.prems(1) xs by auto
    moreover have "take k (seg d) = take k (seg e)" using False less.prems(2) by (simp add: sd take_butlast)
    ultimately show ?thesis using xs by auto
  qed
qed

subsection \<open>The invariant of the passes\<close>

text \<open>What the manifest fixes of an object, its owner, mode and time apart.\<close>

definition shape :: "arch_lib \<Rightarrow> inspected \<Rightarrow> entry \<Rightarrow> inode \<Rightarrow> bool" where
  "shape al ins e n \<longleftrightarrow>
     en_Type e = EntryDir \<and> no_Kind n = KDir
     \<or> en_Type e = EntryFile \<and> no_Kind n = KFile \<and> copyFile al ins e = Inr (no_Data n)
     \<or> en_Type e = EntrySymlink \<and> no_Kind n = KLink \<and> no_Data n = en_Target e \<and> mode_bits n = 511"

definition placed :: "arch_lib \<Rightarrow> inspected \<Rightarrow> entry set \<Rightarrow> volume \<Rightarrow> volume \<Rightarrow> bool" where
  "placed al ins D v0 v \<longleftrightarrow>
     (\<forall>segs. segs \<notin> insert [] (seg ` D) \<longrightarrow> map_of v segs = map_of v0 segs)
     \<and> (\<forall>e\<in>D. \<exists>n. map_of v (seg e) = Some n \<and> shape al ins e n)
     \<and> kind_at v [] = Some KDir"

definition ok_result :: "(volume \<Rightarrow> bool) \<Rightarrow> arch_error + volume \<Rightarrow> bool" where
  "ok_result P r \<longleftrightarrow> (case r of Inl err \<Rightarrow> err \<noteq> ThroughLink | Inr v \<Rightarrow> P v)"

lemma ok_result_simps [simp]: "ok_result P (Inl err) \<longleftrightarrow> err \<noteq> ThroughLink" "ok_result P (Inr v) \<longleftrightarrow> P v"
  by (simp_all add: ok_result_def)

lemma ok_result_case:
  "ok_result P r \<Longrightarrow> (\<And>v. P v \<Longrightarrow> ok_result Q (f v)) \<Longrightarrow> ok_result Q (case r of Inl err \<Rightarrow> Inl err | Inr v \<Rightarrow> f v)"
  by (cases r) simp_all

lemma fold_result_ok:
  assumes "\<And>xs x ys v. es = xs @ x # ys \<Longrightarrow> P xs v \<Longrightarrow> ok_result (P (xs @ [x])) (f x v)" and "P [] v"
  shows "ok_result (P es) (fold_result f es v)"
proof -
  have "ok_result (P es) (fold_result f ys w)" if "es = xs @ ys" "P xs w" for xs ys w
    using that
  proof (induction ys arbitrary: xs w)
    case (Cons y ys)
    have step: "ok_result (P (xs @ [y])) (f y w)" by (rule assms(1) [OF Cons.prems])
    show ?case
    proof (cases "f y w")
      case (Inl err)
      then show ?thesis using step by simp
    next
      case (Inr w')
      then have "P (xs @ [y]) w'" using step by simp
      then show ?thesis using Cons.IH [of "xs @ [y]" w'] Cons.prems(1) Inr by simp
    qed
  qed simp
  from this [of "[]" es v] assms(2) show ?thesis by simp
qed

lemma shape_dir: "shape al ins e n \<Longrightarrow> en_Type e = EntryDir \<Longrightarrow> no_Kind n = KDir"
  by (auto simp: shape_def entry_types)

text \<open>Where every directory above a path is placed, the path does not go through a link.\<close>

lemma placed_above:
  assumes "placed al ins D v0 v" and "\<And>k. k < length segs \<Longrightarrow> k \<noteq> 0 \<Longrightarrow> \<exists>d\<in>D. seg d = take k segs \<and> en_Type d = EntryDir"
  shows "k < length segs \<Longrightarrow> kind_at v (take k segs) = Some KDir" and "\<not> through_link v segs"
proof -
  show dir: "kind_at v (take k segs) = Some KDir" if kl: "k < length segs" for k
  proof (cases "k = 0")
    case True then show ?thesis using assms(1) by (simp add: placed_def)
  next
    case False
    then obtain d where d: "d \<in> D" "seg d = take k segs" "en_Type d = EntryDir" using assms(2) [OF kl] by blast
    then obtain n where "map_of v (seg d) = Some n" "shape al ins d n" using assms(1) unfolding placed_def by blast
    then show ?thesis using shape_dir [OF _ d(3)] d(2) by (simp add: kind_at_def)
  qed
  show "\<not> through_link v segs" using dir by (auto simp: through_link_def list_ex_iff)
qed


subsection \<open>The four passes\<close>

text \<open>Placing one more entry of the manifest.\<close>

lemma placed_insert:
  assumes pl: "placed al ins D v0 v" and parent: "map_of v (butlast (seg e)) = Some d" "no_Kind d = KDir"
    and v': "map_of v' = (map_of v)(butlast (seg e) \<mapsto> d\<lparr>no_MTime := tm\<rparr>, seg e \<mapsto> n)"
    and n: "shape al ins e n" and ne: "seg e \<noteq> []" and new: "seg e \<notin> seg ` D"
    and up: "butlast (seg e) = [] \<or> butlast (seg e) \<in> seg ` D"
  shows "placed al ins (insert e D) v0 v'"
proof -
  have diff: "butlast (seg e) \<noteq> seg e" using ne by (metis append_butlast_last_id not_Cons_self2 self_append_conv)
  have touched: "shape al ins x (y\<lparr>no_MTime := tm\<rparr>) = shape al ins x y" for x y by (simp add: shape_def mode_bits_def)
  have "map_of v' segs = map_of v0 segs" if "segs \<notin> insert [] (seg ` insert e D)" for segs
    using that pl up by (auto simp: v' placed_def)
  moreover have "\<exists>n. map_of v' (seg x) = Some n \<and> shape al ins x n" if "x \<in> insert e D" for x
  proof (cases "x = e")
    case True then show ?thesis using n by (simp add: v')
  next
    case False
    then have x: "x \<in> D" using that by simp
    then obtain y where y: "map_of v (seg x) = Some y" "shape al ins x y" using pl unfolding placed_def by blast
    have "seg x \<noteq> seg e" using new imageI [OF x, of seg] by metis
    then show ?thesis using y parent(1) touched by (auto simp: v')
  qed
  moreover have "kind_at v' [] = Some KDir"
    using pl parent ne by (auto simp: kind_at_def placed_def v')
  ultimately show ?thesis unfolding placed_def by blast
qed

text \<open>What is known of an entry when its turn comes: it is not placed, and what is above it is.\<close>

definition next_entry :: "entry set \<Rightarrow> entry \<Rightarrow> bool" where
  "next_entry D e \<longleftrightarrow>
     seg e \<noteq> [] \<and> seg e \<notin> seg ` D
     \<and> (\<forall>k. k < length (seg e) \<and> k \<noteq> 0 \<longrightarrow> (\<exists>d\<in>D. seg d = take k (seg e) \<and> en_Type d = EntryDir))"

lemma create_node_cases:
  assumes "placed al ins D v0 v" and "next_entry D e"
  shows "(\<exists>err. create_node ev (en_Path e) kd data perm v = Inl err \<and> err \<noteq> ThroughLink)
    \<or> (\<exists>v' d n. create_node ev (en_Path e) kd data perm v = Inr v' \<and> map_of v (butlast (seg e)) = Some d \<and> no_Kind d = KDir
         \<and> map_of v' = (map_of v)(butlast (seg e) \<mapsto> d\<lparr>no_MTime := ev_clock ev (en_Path e)\<rparr>, seg e \<mapsto> n)
         \<and> no_Kind n = kd \<and> no_Data n = data \<and> no_Perm n = perm \<and> \<not> no_Setuid n \<and> \<not> no_Sticky n
         \<and> (kd \<noteq> KDir \<longrightarrow> \<not> no_Setgid n))"
proof -
  have safe: "\<not> through_link v (seg e)"
    using placed_above(2) [OF assms(1)] assms(2) unfolding next_entry_def by blast
  show ?thesis
  proof (cases "ev_fault ev (en_Path e) \<or> seg e = [] \<or> map_of v (seg e) \<noteq> None")
    case True
    then show ?thesis using safe by (simp add: create_node_def Let_def)
  next
    case free: False
    show ?thesis
    proof (cases "map_of v (butlast (seg e))")
      case None
      then show ?thesis using safe free by (simp add: create_node_def Let_def)
    next
      case (Some d)
      show ?thesis
      proof (cases "no_Kind d = KDir")
        case True
        then show ?thesis using safe free Some by (auto simp: create_node_def Let_def update_conv')
      next
        case False
        then show ?thesis using safe free Some by (simp add: create_node_def Let_def)
      qed
    qed
  qed
qed

lemma create_node_placed:
  assumes pl: "placed al ins D v0 v" and nx: "next_entry D e" and up: "butlast (seg e) = [] \<or> butlast (seg e) \<in> seg ` D"
    and sh: "\<And>n. no_Kind n = kd \<Longrightarrow> no_Data n = data \<Longrightarrow> no_Perm n = perm \<Longrightarrow> \<not> no_Setuid n \<Longrightarrow> \<not> no_Sticky n
      \<Longrightarrow> (kd \<noteq> KDir \<Longrightarrow> \<not> no_Setgid n) \<Longrightarrow> shape al ins e n"
  shows "ok_result (placed al ins (insert e D) v0) (create_node ev (en_Path e) kd data perm v)"
  using create_node_cases [OF pl nx, of ev kd data perm]
proof (elim disjE exE conjE)
  fix err assume "create_node ev (en_Path e) kd data perm v = Inl err" "err \<noteq> ThroughLink"
  then show ?thesis by simp
next
  fix v' d n
  assume cr: "create_node ev (en_Path e) kd data perm v = Inr v'" and d: "map_of v (butlast (seg e)) = Some d" "no_Kind d = KDir"
    and v': "map_of v' = (map_of v)(butlast (seg e) \<mapsto> d\<lparr>no_MTime := ev_clock ev (en_Path e)\<rparr>, seg e \<mapsto> n)"
    and n: "no_Kind n = kd" "no_Data n = data" "no_Perm n = perm" "\<not> no_Setuid n" "\<not> no_Sticky n" "kd \<noteq> KDir \<longrightarrow> \<not> no_Setgid n"
  have "shape al ins e n" using sh [OF n(1-5)] n(6) by blast
  then show ?thesis using placed_insert [OF pl d v' _ _ _ up] nx cr unfolding next_entry_def by simp
qed


lemma next_entry_ok:
  assumes "sound_entries es" and es: "es = xs @ e # ys" and "en_Path e \<noteq> ''.''"
    and D: "D \<subseteq> set es - {e}" "{d \<in> set xs. en_Type d = EntryDir} \<subseteq> D"
  shows "next_entry D e" and "butlast (seg e) = [] \<or> butlast (seg e) \<in> seg ` D"
proof -
  have ne: "seg e \<noteq> []" using assms(3) by (simp add: path_segs_def)
  have mem: "e \<in> set es" using es by simp
  have above: "\<exists>d\<in>D. seg d = take k (seg e) \<and> en_Type d = EntryDir" if k: "k < length (seg e)" for k
    using seg_above [OF assms(1) es k] D(2) by blast
  have "seg e \<notin> seg ` D"
  proof
    assume "seg e \<in> seg ` D"
    then obtain d where "d \<in> D" "seg e = seg d" by blast
    then show False using seg_inj [OF assms(1) mem, of d] D(1) by blast
  qed
  then show "next_entry D e" using above ne unfolding next_entry_def by blast
  have "length (seg e) - 1 < length (seg e)" using ne by simp
  from above [OF this] obtain d where "d \<in> D" "seg d = take (length (seg e) - 1) (seg e)" by blast
  then have "butlast (seg e) = seg d" "d \<in> D" by (simp_all add: butlast_conv_take)
  then show "butlast (seg e) = [] \<or> butlast (seg e) \<in> seg ` D" by blast
qed

definition objects :: "(string, bool) gomap \<Rightarrow> entry list \<Rightarrow> entry set" where
  "objects skip es = {d \<in> set es. en_Type d \<noteq> EntrySymlink \<and> \<not> skipped skip d}"

definition links :: "entry list \<Rightarrow> entry set" where
  "links es = {d \<in> set es. en_Type d = EntrySymlink}"

lemma placed_same: "placed al ins D v0 v \<Longrightarrow> D' = D \<Longrightarrow> placed al ins D' v0 v" by simp

lemma copyFile_cases:
  "(\<exists>err. copyFile al ins e = Inl err \<and> err \<noteq> ThroughLink)
   \<or> (\<exists>data. copyFile al ins e = Inr data \<and> int (length data) = en_Size e \<and> al_sha256 al data = en_SHA256 e)"
  by (auto simp: copyFile_def Let_def split: option.split)

lemma place_object_ok:
  assumes sound: "sound_entries es" and es: "es = xs @ e # ys" and pl: "placed al ins (objects skip xs) v0 v"
  shows "ok_result (placed al ins (objects skip (xs @ [e])) v0) (place_object ev al ins skip e v)"
proof (cases "ev_canceled ev (en_Path e)")
  case True
  then show ?thesis by (simp add: place_object_def)
next
  case run: False
  have mem: "e \<in> set es" "e \<notin> set xs"
    using es sound unfolding sound_entries_def forms_tree_def by (auto simp: distinct_map)
  have sub: "objects skip xs \<subseteq> set es - {e}" "{d \<in> set xs. en_Type d = EntryDir} \<subseteq> objects skip xs"
    using es mem by (auto simp: objects_def skipped_def entry_types)
  have more: "objects skip (xs @ [e]) = (if en_Type e = EntrySymlink \<or> skipped skip e then objects skip xs else insert e (objects skip xs))"
    by (auto simp: objects_def)
  show ?thesis
  proof (cases "en_Type e = EntryDir")
    case dir: True
    then have ins: "objects skip (xs @ [e]) = insert e (objects skip xs)" by (simp add: more skipped_def entry_types)
    show ?thesis
    proof (cases "en_Path e = ''.''")
      case True
      then have "seg e = []" by (simp add: path_segs_def)
      then have "placed al ins (insert e (objects skip xs)) v0 v"
        using pl dir by (auto simp: placed_def kind_at_def shape_def)
      then show ?thesis using dir run True ins by (simp add: place_object_def)
    next
      case False
      show ?thesis
        using create_node_placed [OF pl next_entry_ok [OF sound es False sub], of KDir "''''" 448] dir run False ins
        by (simp add: place_object_def shape_def)
    qed
  next
    case nodir: False
    show ?thesis
    proof (cases "en_Type e = EntryFile \<and> \<not> skipped skip e")
      case False
      then have "objects skip (xs @ [e]) = objects skip xs"
        using nodir sound mem by (auto simp: more sound_entries_def)
      then show ?thesis using nodir run False pl by (auto simp: place_object_def)
    next
      case isfile: True
      then have ins: "objects skip (xs @ [e]) = insert e (objects skip xs)" by (simp add: more entry_types)
      show ?thesis
      proof (cases "en_Path e = ''.''")
        case True
        then have "create_node ev (en_Path e) KFile '''' 384 v = Inl DestinationError"
          by (simp add: create_node_def path_segs_def through_link_def)
        then show ?thesis using isfile run nodir by (simp add: place_object_def)
      next
        case path: False
        note nx = next_entry_ok [OF sound es path sub]
        have place: "place_object ev al ins skip e v =
            (case create_node ev (en_Path e) KFile '''' 384 v of
               Inl err \<Rightarrow> Inl err
             | Inr v \<Rightarrow>
                 (case copyFile al ins e of
                    Inl err \<Rightarrow> Inl err
                  | Inr data \<Rightarrow>
                      (case map_of v (path_segs (en_Path e)) of
                         None \<Rightarrow> Inl DestinationError
                       | Some n \<Rightarrow> Inr (AList.update (path_segs (en_Path e)) (n\<lparr>no_Data := data\<rparr>) v))))"
          using isfile run nodir by (simp add: place_object_def)
        show ?thesis
          using create_node_cases [OF pl nx(1), of ev KFile "''''" 384]
        proof (elim disjE exE conjE)
          fix err assume "create_node ev (en_Path e) KFile '''' 384 v = Inl err" "err \<noteq> ThroughLink"
          then show ?thesis by (simp add: place)
        next
          fix v' d n
          assume cr: "create_node ev (en_Path e) KFile '''' 384 v = Inr v'"
            and d: "map_of v (butlast (seg e)) = Some d" "no_Kind d = KDir"
            and v': "map_of v' = (map_of v)(butlast (seg e) \<mapsto> d\<lparr>no_MTime := ev_clock ev (en_Path e)\<rparr>, seg e \<mapsto> n)"
            and n: "no_Kind n = KFile"
          show ?thesis
            using copyFile_cases [of al ins e]
          proof (elim disjE exE conjE)
            fix err assume "copyFile al ins e = Inl err" "err \<noteq> ThroughLink"
            then show ?thesis by (simp add: place cr)
          next
            fix data assume data: "copyFile al ins e = Inr data" "int (length data) = en_Size e" "al_sha256 al data = en_SHA256 e"
            have "shape al ins e (n\<lparr>no_Data := data\<rparr>)" using isfile n data(1) by (simp add: shape_def)
            moreover have "map_of (AList.update (seg e) (n\<lparr>no_Data := data\<rparr>) v')
                = (map_of v)(butlast (seg e) \<mapsto> d\<lparr>no_MTime := ev_clock ev (en_Path e)\<rparr>, seg e \<mapsto> n\<lparr>no_Data := data\<rparr>)"
              by (simp add: update_conv' v')
            ultimately have "placed al ins (insert e (objects skip xs)) v0 (AList.update (seg e) (n\<lparr>no_Data := data\<rparr>) v')"
              using placed_insert [OF pl d _ _ _ _ nx(2)] nx(1) unfolding next_entry_def by blast
            then show ?thesis by (simp add: place cr data(1) v' ins)
          qed
        qed
      qed
    qed
  qed
qed

lemma place_link_ok:
  assumes sound: "sound_entries es" and es: "es = xs @ e # ys" and pl: "placed al ins (objects skip es \<union> links xs) v0 v"
  shows "ok_result (placed al ins (objects skip es \<union> links (xs @ [e])) v0) (place_link ev ins e v)"
proof (cases "en_Type e = EntrySymlink")
  case False
  then have "links (xs @ [e]) = links xs" by (auto simp: links_def)
  then show ?thesis using False pl by (simp add: place_link_def)
next
  case link: True
  then have more: "objects skip es \<union> links (xs @ [e]) = insert e (objects skip es \<union> links xs)" by (auto simp: links_def)
  show ?thesis
  proof (cases "readTarget ins e")
    case (Inl err)
    then have "err \<noteq> ThroughLink" by (auto simp: readTarget_def split: option.splits if_splits)
    then show ?thesis using link Inl by (simp add: place_link_def)
  next
    case (Inr target)
    then have target: "target = en_Target e" by (auto simp: readTarget_def split: option.splits if_splits)
    have place: "place_link ev ins e v = create_node ev (en_Path e) KLink target 511 v" using link Inr by (simp add: place_link_def)
    show ?thesis
    proof (cases "en_Path e = ''.''")
      case True
      then show ?thesis by (simp add: place create_node_def path_segs_def through_link_def)
    next
      case False
      have mem: "e \<notin> set xs" using es sound unfolding sound_entries_def forms_tree_def by (auto simp: distinct_map)
      have sub: "objects skip es \<union> links xs \<subseteq> set es - {e}" "{d \<in> set xs. en_Type d = EntryDir} \<subseteq> objects skip es \<union> links xs"
        using es mem link by (auto simp: objects_def links_def skipped_def entry_types)
      show ?thesis
        unfolding place more
        by (rule create_node_placed [OF pl next_entry_ok [OF sound es False sub]])
           (simp add: shape_def link target mode_bits_def)
    qed
  qed
qed

end
