(* ===== verification/Restore_Properties.thy ===== *)
theory Restore_Properties
  imports Archive_Restore
begin

section \<open>What a successful restore guarantees\<close>

text \<open>
  The passes over owners, modes and times, the whole of \<open>Extract\<close>, and its composition with the check of the
  restored volume.
\<close>

subsection \<open>Owners, modes and times\<close>

definition holds :: "(entry \<Rightarrow> inode \<Rightarrow> bool) \<Rightarrow> entry set \<Rightarrow> volume \<Rightarrow> bool" where
  "holds Q X v \<longleftrightarrow> (\<forall>e\<in>X. \<exists>n. map_of v (seg e) = Some n \<and> Q e n)"

definition owner_set :: "entry \<Rightarrow> inode \<Rightarrow> bool" where
  "owner_set e n \<longleftrightarrow> no_UID n = en_UID e \<and> no_GID n = en_GID e"

definition mode_set :: "entry \<Rightarrow> inode \<Rightarrow> bool" where
  "mode_set e n \<longleftrightarrow> mode_bits n = en_Mode e \<and> no_MTime n = en_ModTime e"

lemma toFileMode_bits: "md < 4096 \<Longrightarrow> mode_bits (toFileMode md n) = md"
proof -
  assume "md < 4096"
  define k r where "k = md div 512" and "r = md mod 512"
  then have md: "md = r + 512 * k" by simp
  have q: "md div 2048 = k div 4" "md div 1024 = k div 2" "md div 512 = k" "md mod 512 = r" "r mod 512 = r"
    using div_mult2_eq [of md 512 4] div_mult2_eq [of md 512 2] by (simp_all add: k_def r_def)
  have "k < 8" using \<open>md < 4096\<close> by (simp add: k_def)
  then have "k = 0 \<or> k = 1 \<or> k = 2 \<or> k = 3 \<or> k = 4 \<or> k = 5 \<or> k = 6 \<or> k = 7" by linarith
  then have "(if odd (k div 4) then 2048 else 0) + (if odd (k div 2) then 1024 else 0) + (if odd k then 512 else 0) = 512 * k"
    by (elim disjE) simp_all
  moreover have "mode_bits (toFileMode md n)
      = r + ((if odd (k div 4) then 2048 else 0) + (if odd (k div 2) then 1024 else 0) + (if odd k then 512 else 0))"
    by (simp add: mode_bits_def toFileMode_def q)
  ultimately show ?thesis using md by metis
qed

text \<open>The set of placed entries of a sound manifest, and that all is placed above each.\<close>

definition kept :: "(string, bool) gomap \<Rightarrow> entry list \<Rightarrow> entry set" where
  "kept skip es = {e \<in> set es. \<not> skipped skip e}"

lemma kept_Nil [simp]: "kept skip [] = {}" by (simp add: kept_def)

lemma kept_above:
  assumes "sound_entries es" and "e \<in> kept skip es" and "k < length (seg e)"
  shows "\<exists>d\<in>kept skip es. seg d = take k (seg e) \<and> en_Type d = EntryDir"
proof -
  have "e \<in> set es" using assms(2) by (simp add: kept_def)
  then obtain xs ys where es: "es = xs @ e # ys" using split_list by metis
  then obtain d where "d \<in> set xs" "seg d = take k (seg e)" "en_Type d = EntryDir"
    using seg_above [OF assms(1) es assms(3)] by blast
  then show ?thesis using es by (auto simp: kept_def skipped_def entry_types)
qed

lemma change_node_ok:
  assumes sound: "sound_entries es" and pl: "placed al ins (kept skip es) v0 v" and e: "e \<in> kept skip es"
    and f: "\<forall>n. no_Kind (f n) = no_Kind n" "\<forall>n. shape al ins e n \<longrightarrow> shape al ins e (f n)"
    and nolink: "follow \<longrightarrow> en_Type e \<noteq> EntrySymlink"
  shows "(\<exists>err. change_node ev (en_Path e) follow f v = Inl err \<and> err \<noteq> ThroughLink)
    \<or> (\<exists>v' n. change_node ev (en_Path e) follow f v = Inr v' \<and> map_of v (seg e) = Some n
         \<and> map_of v' = (map_of v)(seg e \<mapsto> f n) \<and> placed al ins (kept skip es) v0 v')"
proof -
  have safe: "\<not> through_link v (seg e)"
    using placed_above(2) [OF pl] kept_above [OF sound e] by blast
  obtain n where n: "map_of v (seg e) = Some n" "shape al ins e n" using pl e unfolding placed_def by blast
  have "follow \<Longrightarrow> no_Kind n \<noteq> KLink" using n(2) nolink by (auto simp: shape_def)
  then have notlink: "\<not> (follow \<and> kind_at v (seg e) = Some KLink)" using n(1) by (auto simp: kind_at_def)
  show ?thesis
  proof (cases "ev_fault ev (en_Path e)")
    case True
    then show ?thesis using safe notlink by (auto simp: change_node_def Let_def)
  next
    case False
    let ?v = "AList.update (seg e) (f n) v"
    have v': "map_of ?v = (map_of v)(seg e \<mapsto> f n)" by (simp add: update_conv')
    have "\<exists>m. map_of ?v (seg x) = Some m \<and> shape al ins x m" if x: "x \<in> kept skip es" for x
    proof (cases "seg x = seg e")
      case True
      have "x = e" using seg_inj [OF sound _ _ True] x e by (simp add: kept_def)
      then show ?thesis using f(2) n(2) by (simp add: v')
    next
      case False
      then show ?thesis using pl x unfolding placed_def v' by simp
    qed
    moreover have "map_of ?v segs = map_of v0 segs" if "segs \<notin> insert [] (seg ` kept skip es)" for segs
      using that pl e by (auto simp: placed_def v')
    moreover have "kind_at ?v [] = Some KDir"
      using pl n(1) f(1) by (auto simp: placed_def kind_at_def v')
    ultimately have "placed al ins (kept skip es) v0 ?v" unfolding placed_def by blast
    moreover have "change_node ev (en_Path e) follow f v = Inr ?v"
      using safe notlink False n(1) by (auto simp: change_node_def Let_def)
    ultimately show ?thesis using n(1) v' by blast
  qed
qed

lemma holds_change:
  assumes "holds Q X v" and "map_of v' = (map_of v)(seg e \<mapsto> f n)" and "map_of v (seg e) = Some n"
    and "\<And>x m. x \<in> X \<Longrightarrow> Q x m \<Longrightarrow> Q x (f m)"
  shows "holds Q X v'"
  unfolding holds_def
proof
  fix x assume x: "x \<in> X"
  then obtain m where m: "map_of v (seg x) = Some m" "Q x m" using assms(1) unfolding holds_def by blast
  show "\<exists>n. map_of v' (seg x) = Some n \<and> Q x n"
    using assms(2,3,4) x m by (cases "seg x = seg e") auto
qed

lemma holds_insert:
  "holds Q X v \<Longrightarrow> map_of v (seg e) = Some n \<Longrightarrow> Q e n \<Longrightarrow> holds Q (insert e X) v"
  by (simp add: holds_def)

lemma holds_mono: "holds Q X v \<Longrightarrow> Y \<subseteq> X \<Longrightarrow> holds Q Y v" by (auto simp: holds_def)

lemma place_owner_ok:
  assumes sound: "sound_entries es" and es: "es = xs @ e # ys"
    and pl: "placed al ins (kept skip es) v0 v" and own: "holds owner_set (kept skip xs) v"
  shows "ok_result (\<lambda>v. placed al ins (kept skip es) v0 v \<and> holds owner_set (kept skip (xs @ [e])) v) (place_owner ev skip e v)"
proof (cases "skipped skip e")
  case True
  then have "kept skip (xs @ [e]) = kept skip xs" by (auto simp: kept_def)
  then show ?thesis using True pl own by (simp add: place_owner_def)
next
  case False
  then have e: "e \<in> kept skip es" and ins: "kept skip (xs @ [e]) = insert e (kept skip xs)" using es by (auto simp: kept_def)
  let ?f = "set_owner (en_UID e) (en_GID e)"
  have f: "\<forall>n. no_Kind (?f n) = no_Kind n" "\<forall>n. shape al ins e n \<longrightarrow> shape al ins e (?f n)"
    by (auto simp: set_owner_def shape_def mode_bits_def)
  show ?thesis
    using change_node_ok [where f = ?f and follow = False and ev = ev, OF sound pl e f, simplified]
  proof (elim disjE exE conjE)
    fix err assume "change_node ev (en_Path e) False ?f v = Inl err" "err \<noteq> ThroughLink"
    then show ?thesis using False by (simp add: place_owner_def)
  next
    fix v' n assume ch: "change_node ev (en_Path e) False ?f v = Inr v'" "map_of v (seg e) = Some n"
      "map_of v' = (map_of v)(seg e \<mapsto> ?f n)" "placed al ins (kept skip es) v0 v'"
    have "seg x \<noteq> seg e" if "x \<in> kept skip xs" for x
    proof
      assume "seg x = seg e"
      then have "x = e" using seg_inj [OF sound, of x e] that es by (simp add: kept_def)
      then show False using that es sound by (auto simp: kept_def sound_entries_def forms_tree_def distinct_map)
    qed
    then have "holds owner_set (kept skip xs) v'" using own by (simp add: holds_def ch(3))
    moreover have "owner_set e (?f n)" by (simp add: owner_set_def set_owner_def)
    ultimately have "holds owner_set (insert e (kept skip xs)) v'" using ch(3) by (intro holds_insert) auto
    then show ?thesis using ch False ins by (simp add: place_owner_def)
  qed
qed

text \<open>An entry's mode and time, in two changes; what other passes set stays.\<close>

definition with_mode :: "entry set \<Rightarrow> entry set" where
  "with_mode X = {e \<in> X. en_Type e \<noteq> EntrySymlink}"

lemma place_mode_ok:
  assumes sound: "sound_entries es" and es: "rev es = xs @ e # ys"
    and pl: "placed al ins (kept skip es) v0 v" and own: "holds owner_set W v" and md: "holds mode_set (with_mode (kept skip xs)) v"
  shows "ok_result (\<lambda>v. placed al ins (kept skip es) v0 v \<and> holds owner_set W v \<and> holds mode_set (with_mode (kept skip (xs @ [e]))) v)
    (place_mode ev skip e v)"
proof (cases "en_Type e = EntrySymlink \<or> skipped skip e")
  case True
  then have "with_mode (kept skip (xs @ [e])) = with_mode (kept skip xs)" by (auto simp: kept_def with_mode_def)
  then show ?thesis using True pl own md by (simp add: place_mode_def)
next
  case False
  have mem: "e \<in> set es" "set xs \<subseteq> set es" "e \<notin> set xs"
  proof -
    have "distinct es" using sound by (simp add: sound_entries_def forms_tree_def distinct_map)
    then have "distinct (xs @ e # ys)" using es by (metis distinct_rev)
    moreover have "set es = set (xs @ e # ys)" using es by (metis set_rev)
    ultimately show "e \<in> set es" "set xs \<subseteq> set es" "e \<notin> set xs" using es by auto
  qed
  have e: "e \<in> kept skip es" and ins: "with_mode (kept skip (xs @ [e])) = insert e (with_mode (kept skip xs))"
    using False mem by (auto simp: kept_def with_mode_def)
  have nolk: "True \<longrightarrow> en_Type e \<noteq> EntrySymlink" using False by simp
  let ?f = "toFileMode (en_Mode e)" and ?g = "\<lambda>n. n\<lparr>no_MTime := en_ModTime e\<rparr>"
  have f: "\<forall>n. no_Kind (?f n) = no_Kind n" "\<forall>n. shape al ins e n \<longrightarrow> shape al ins e (?f n)"
    using False by (auto simp: toFileMode_def shape_def)
  have g: "\<forall>n. no_Kind (?g n) = no_Kind n" "\<forall>n. shape al ins e n \<longrightarrow> shape al ins e (?g n)"
    by (auto simp: shape_def mode_bits_def)
  have other: "seg x \<noteq> seg e" if "x \<in> with_mode (kept skip xs)" for x
  proof
    assume "seg x = seg e"
    then have "x = e" using seg_inj [OF sound, of x e] that mem by (auto simp: kept_def with_mode_def)
    then show False using that mem by (simp add: kept_def with_mode_def)
  qed
  have place: "place_mode ev skip e v = (case change_node ev (en_Path e) True ?f v of Inl err \<Rightarrow> Inl err
      | Inr v \<Rightarrow> change_node ev (en_Path e) True ?g v)"
    using False by (simp add: place_mode_def)
  show ?thesis
    using change_node_ok [where f = ?f and follow = True and ev = ev, OF sound pl e f nolk]
  proof (elim disjE exE conjE)
    fix err assume "change_node ev (en_Path e) True ?f v = Inl err" "err \<noteq> ThroughLink"
    then show ?thesis by (simp add: place)
  next
    fix v1 n assume c1: "change_node ev (en_Path e) True ?f v = Inr v1" "map_of v (seg e) = Some n"
      "map_of v1 = (map_of v)(seg e \<mapsto> ?f n)" "placed al ins (kept skip es) v0 v1"
    have own1: "holds owner_set W v1"
      by (rule holds_change [where f = ?f, OF own c1(3,2)]) (simp add: owner_set_def toFileMode_def)
    show ?thesis
      using change_node_ok [where f = ?g and follow = True and ev = ev, OF sound c1(4) e g nolk]
    proof (elim disjE exE conjE)
      fix err assume "change_node ev (en_Path e) True ?g v1 = Inl err" "err \<noteq> ThroughLink"
      then show ?thesis by (simp add: place c1(1))
    next
      fix v2 m assume c2: "change_node ev (en_Path e) True ?g v1 = Inr v2" "map_of v1 (seg e) = Some m"
        "map_of v2 = (map_of v1)(seg e \<mapsto> ?g m)" "placed al ins (kept skip es) v0 v2"
      have "holds owner_set W v2"
        by (rule holds_change [where f = ?g, OF own1 c2(3,2)]) (simp add: owner_set_def)
      moreover have "holds mode_set (with_mode (kept skip xs)) v2"
        using md other by (simp add: holds_def c1(3) c2(3))
      moreover have "mode_set e (?g m)"
      proof -
        have "m = ?f n" using c1(3) c2(2) by simp
        then have "mode_bits (?g m) = mode_bits (?f n)" by (simp add: mode_bits_def)
        moreover have "en_Mode e < 4096" using sound mem(1) by (simp add: sound_entries_def)
        ultimately show ?thesis using toFileMode_bits by (simp add: mode_set_def)
      qed
      ultimately have "holds owner_set W v2 \<and> holds mode_set (insert e (with_mode (kept skip xs))) v2"
        using c2(3) holds_insert [of mode_set "with_mode (kept skip xs)" v2 e "?g m"] by simp
      then show ?thesis using c2 by (simp add: place c1(1) ins)
    qed
  qed
qed


subsection \<open>All passes\<close>

definition restored_entry :: "arch_lib \<Rightarrow> inspected \<Rightarrow> bool \<Rightarrow> entry \<Rightarrow> inode \<Rightarrow> bool" where
  "restored_entry al ins preserve e n \<longleftrightarrow>
     shape al ins e n \<and> (preserve \<longrightarrow> owner_set e n) \<and> (en_Type e \<noteq> EntrySymlink \<longrightarrow> mode_set e n)"

text \<open>The volume holds exactly what the manifest says, less what is skipped; other paths are as they were.\<close>

definition restored :: "arch_lib \<Rightarrow> inspected \<Rightarrow> bool \<Rightarrow> (string, bool) gomap \<Rightarrow> entry list \<Rightarrow> volume \<Rightarrow> volume \<Rightarrow> bool" where
  "restored al ins preserve skip es v0 v \<longleftrightarrow>
     (\<forall>e\<in>kept skip es. \<exists>n. map_of v (seg e) = Some n \<and> restored_entry al ins preserve e n)
     \<and> (\<forall>segs. segs \<notin> insert [] (seg ` kept skip es) \<longrightarrow> map_of v segs = map_of v0 segs)
     \<and> kind_at v [] = Some KDir"

lemma restoredI:
  assumes "placed al ins (kept skip es) v0 v" and "preserve \<longrightarrow> holds owner_set (kept skip es) v"
    and "holds mode_set (with_mode (kept skip es)) v"
  shows "restored al ins preserve skip es v0 v"
proof -
  have "\<exists>n. map_of v (seg e) = Some n \<and> restored_entry al ins preserve e n" if e: "e \<in> kept skip es" for e
  proof -
    obtain n where n: "map_of v (seg e) = Some n" "shape al ins e n" using assms(1) e unfolding placed_def by blast
    moreover have "preserve \<longrightarrow> owner_set e n" using assms(2) e n(1) by (auto simp: holds_def)
    moreover have "en_Type e \<noteq> EntrySymlink \<longrightarrow> mode_set e n" using assms(3) e n(1) by (auto simp: holds_def with_mode_def)
    ultimately show ?thesis by (auto simp: restored_entry_def)
  qed
  then show ?thesis using assms(1) by (auto simp: restored_def placed_def)
qed

lemma extract_passes_ok:
  assumes sound: "sound_entries (mf_Entries (in_Manifest ins))" and root: "kind_at v0 [] = Some KDir"
  shows "ok_result (restored al ins preserve skip (mf_Entries (in_Manifest ins)) v0) (extract_passes ev al ins preserve skip v0)"
proof -
  let ?es = "mf_Entries (in_Manifest ins)"
  have all: "objects skip ?es \<union> links ?es = kept skip ?es" by (auto simp: objects_def links_def kept_def skipped_def entry_types)
  have start: "placed al ins (objects skip []) v0 v0" using root by (simp add: placed_def objects_def)
  have p1: "ok_result (placed al ins (objects skip ?es) v0) (fold_result (place_object ev al ins skip) ?es v0)"
    by (rule fold_result_ok [where P = "\<lambda>xs. placed al ins (objects skip xs) v0", OF place_object_ok [OF sound] start])
  have p2: "ok_result (placed al ins (kept skip ?es) v0) (fold_result (place_link ev ins) ?es v)"
    if "placed al ins (objects skip ?es) v0 v" for v
  proof -
    let ?P = "\<lambda>xs. placed al ins (objects skip ?es \<union> links xs) v0"
    have "ok_result (?P ?es) (fold_result (place_link ev ins) ?es v)"
    proof (rule fold_result_ok [where P = ?P])
      show "ok_result (?P (xs @ [e])) (place_link ev ins e w)" if "?es = xs @ e # ys" "?P xs w" for xs e ys w
        by (rule place_link_ok [OF sound that])
      show "?P [] v" using that by (simp add: links_def)
    qed
    then show ?thesis by (simp add: all)
  qed
  have p3: "ok_result (\<lambda>v. placed al ins (kept skip ?es) v0 v \<and> (preserve \<longrightarrow> holds owner_set (kept skip ?es) v))
      (if preserve then fold_result (place_owner ev skip) ?es v else Inr v)" if pl: "placed al ins (kept skip ?es) v0 v" for v
  proof (cases preserve)
    case True
    have "ok_result (\<lambda>v. placed al ins (kept skip ?es) v0 v \<and> holds owner_set (kept skip ?es) v) (fold_result (place_owner ev skip) ?es v)"
    proof (rule fold_result_ok [where P = "\<lambda>xs v. placed al ins (kept skip ?es) v0 v \<and> holds owner_set (kept skip xs) v"])
      show "ok_result (\<lambda>v. placed al ins (kept skip ?es) v0 v \<and> holds owner_set (kept skip (xs @ [e])) v) (place_owner ev skip e w)"
        if "?es = xs @ e # ys" "placed al ins (kept skip ?es) v0 w \<and> holds owner_set (kept skip xs) w" for xs e ys w
        using place_owner_ok [OF sound that(1)] that(2) by blast
    qed (simp add: pl holds_def)
    then show ?thesis using True by simp
  qed (simp add: pl)
  have p4: "ok_result (restored al ins preserve skip ?es v0) (fold_result (place_mode ev skip) (rev ?es) v)"
    if pl: "placed al ins (kept skip ?es) v0 v \<and> (preserve \<longrightarrow> holds owner_set (kept skip ?es) v)" for v
  proof -
    let ?W = "if preserve then kept skip ?es else {}"
    let ?P = "\<lambda>xs v. placed al ins (kept skip ?es) v0 v \<and> holds owner_set ?W v \<and> holds mode_set (with_mode (kept skip xs)) v"
    have "ok_result (?P (rev ?es)) (fold_result (place_mode ev skip) (rev ?es) v)"
    proof (rule fold_result_ok [where P = ?P])
      show "ok_result (?P (xs @ [e])) (place_mode ev skip e w)" if "rev ?es = xs @ e # ys" "?P xs w" for xs e ys w
        using place_mode_ok [OF sound that(1)] that(2) by blast
    qed (use pl in \<open>simp add: holds_def with_mode_def\<close>)
    moreover have "restored al ins preserve skip ?es v0 w" if "?P (rev ?es) w" for w
      using that by (intro restoredI) (auto simp: kept_def with_mode_def)
    ultimately show ?thesis by (cases "fold_result (place_mode ev skip) (rev ?es) v") simp_all
  qed
  show ?thesis
    unfolding extract_passes_def Let_def
    by (rule ok_result_case [OF p1], rule ok_result_case [OF p2], assumption, rule ok_result_case [OF p3], assumption, rule p4)
qed

lemma Extract_cases:
  assumes "Extract ev al zs (Some v0) opts = Inr (m, skip, v)"
  obtains fs ins where "zs = Some fs" and "Inspect al (Some fs) (xo_Limits opts) = Inr ins" and "m = in_Manifest ins"
    and "requireEmpty ev v0 (xo_Allowed opts) = None" and "skip_set opts (mf_Entries m) = Inr skip"
    and "extract_passes ev al ins (xo_PreserveOwnership opts) skip v0 = Inr v"
  using assms Inspect_some by (auto simp: Extract_def split: sum.splits option.splits) (metis option.inject)

lemma Extract_restored:
  assumes "Extract ev al zs (Some v0) opts = Inr (m, skip, v)" and "kind_at v0 [] = Some KDir"
  obtains ins where "Inspect al zs (xo_Limits opts) = Inr ins" and "m = in_Manifest ins" and "sound_entries (mf_Entries m)"
    and "restored al ins (xo_PreserveOwnership opts) skip (mf_Entries m) v0 v"
proof -
  obtain fs ins where ins: "zs = Some fs" "Inspect al (Some fs) (xo_Limits opts) = Inr ins" "m = in_Manifest ins"
    "extract_passes ev al ins (xo_PreserveOwnership opts) skip v0 = Inr v"
    by (rule Extract_cases [OF assms(1)])
  have sound: "sound_entries (mf_Entries m)" using Inspect_entries [OF ins(2)] ins(3) by simp
  then have "ok_result (restored al ins (xo_PreserveOwnership opts) skip (mf_Entries m) v0)
      (extract_passes ev al ins (xo_PreserveOwnership opts) skip v0)"
    using extract_passes_ok assms(2) ins(3) by simp
  then have "restored al ins (xo_PreserveOwnership opts) skip (mf_Entries m) v0 v" using ins(4) by simp
  then show ?thesis using that ins(1,2,3) sound by blast
qed

lemma index_zip_error: "index_zip ratio fs files found = Inl err \<Longrightarrow> err \<noteq> ThroughLink"
  by (induction fs arbitrary: files found) (auto split: if_split_asm)

lemma check_entries_error: "check_entries lmt files first types t es = Inl err \<Longrightarrow> err \<noteq> ThroughLink"
proof (induction es arbitrary: first types t)
  case (Cons e es)
  have "CleanRelPath (en_Path e) \<noteq> Inl ThroughLink" by (simp add: CleanRelPath_def)
  then show ?case using Cons by (auto split: sum.splits if_split_asm option.splits)
qed simp

lemma Inspect_error: "Inspect al zs lmt = Inl err \<Longrightarrow> err \<noteq> ThroughLink"
proof -
  have "CheckVersion ver \<noteq> Some ThroughLink" for ver by (simp add: CheckVersion_def)
  then show "Inspect al zs lmt = Inl err \<Longrightarrow> err \<noteq> ThroughLink"
    using index_zip_error check_entries_error
    by (fastforce simp: Inspect_def split: option.splits sum.splits prod.splits if_split_asm)
qed

lemma skip_set_error: "skip_set opts es = Inl err \<Longrightarrow> err = SkipNeedsMap"
  by (auto simp: skip_set_def split: option.splits)

subsection \<open>A restore of two files\<close>

definition calm_env :: disk_env where
  "calm_env = \<lparr>ev_fault = (\<lambda>_. False), ev_changed = (\<lambda>_. False), ev_canceled = (\<lambda>_. False), ev_clock = (\<lambda>_. 7),
     ev_UID = 0, ev_GID = 0\<rparr>"

definition demo_volume :: volume where
  "demo_volume = [([], \<lparr>no_Kind = KDir, no_Data = '''', no_Perm = 493, no_Setuid = False, no_Setgid = True, no_Sticky = False,
     no_UID = 0, no_GID = 1000, no_MTime = 3\<rparr>)]"

definition demo_inspected :: inspected where
  "demo_inspected =
     \<lparr>in_Manifest = demo_manifest 10 5,
      in_files = [(''persist/'', demo_dir), (''persist/a'', demo_file ''persist/a'' 10 10 (Some (replicate 10 CHR ''x''))),
         (''persist/b'', demo_file ''persist/b'' 5 5 (Some ''hello''))]\<rparr>"

definition demo_options :: extract_options where
  "demo_options = \<lparr>xo_Limits = demo_limits, xo_PreserveOwnership = True, xo_Allowed = [''lost+found''], xo_Skip = None, xo_SkipIf = None\<rparr>"

lemma demo_inspects:
  "Inspect (demo_lib (demo_manifest 10 5)) (Some (demo_zip 10 5 5 (Some ''hello''))) demo_limits = Inr demo_inspected"
  using demo_Inspect [of 5 5 "Some ''hello''"] by (auto simp: wrap64_def demo_inspected_def)

lemma demo_passes:
  "case extract_passes calm_env (demo_lib (demo_manifest 10 5)) demo_inspected True [] demo_volume of Inl _ \<Rightarrow> False | Inr _ \<Rightarrow> True"
  by code_simp

lemma demo_extracts:
  "\<exists>v. Extract calm_env (demo_lib (demo_manifest 10 5)) (Some (demo_zip 10 5 5 (Some ''hello''))) (Some demo_volume) demo_options
     = Inr (demo_manifest 10 5, [], v)"
proof -
  obtain v where v: "extract_passes calm_env (demo_lib (demo_manifest 10 5)) demo_inspected True [] demo_volume = Inr v"
    using demo_passes by (auto split: sum.splits)
  have f: "xo_Limits demo_options = demo_limits" "skip_set demo_options es = Inr []" "xo_PreserveOwnership demo_options" for es
    by (simp_all add: demo_options_def skip_set_def)
  have "requireEmpty calm_env demo_volume (xo_Allowed demo_options) = None"
    by (simp add: requireEmpty_def calm_env_def demo_volume_def child_names_def)
  then show ?thesis using v demo_inspects by (simp add: Extract_def f) (simp add: demo_inspected_def)
qed

lemma demo_root: "kind_at demo_volume [] = Some KDir"
  by (simp add: kind_at_def demo_volume_def)

text \<open>
  C36: No step of a restore is resolved through a symbolic link, whatever the archive holds: Extract, from
  reading the archive to the last change of a modification time, never reaches a path with a link before its last name
  (nor a link where it changes a mode), when the destination is a directory.
\<close>

theorem extract_never_through_link:
  assumes "kind_at v0 [] = Some KDir"
  shows "Extract ev al zs (Some v0) opts \<noteq> Inl ThroughLink"
proof (cases "Inspect al zs (xo_Limits opts)")
  case (Inl err)
  moreover have "err \<noteq> ThroughLink"
    using Inl Inspect_error by metis
  ultimately show ?thesis by (simp add: Extract_def)
next
  case (Inr ins)
  then obtain fs where "zs = Some fs" using Inspect_some by blast
  then have sound: "sound_entries (mf_Entries (in_Manifest ins))" using Inspect_entries Inr by simp
  have "requireEmpty ev v0 (xo_Allowed opts) \<noteq> Some ThroughLink" by (simp add: requireEmpty_def)
  moreover have "extract_passes ev al ins (xo_PreserveOwnership opts) skip v0 \<noteq> Inl ThroughLink" for skip
    using extract_passes_ok [OF sound assms] by (metis ok_result_simps(1))
  moreover have "skip_set opts (mf_Entries (in_Manifest ins)) \<noteq> Inl ThroughLink" using skip_set_error by blast
  ultimately show ?thesis using Inr by (auto simp: Extract_def split: option.split sum.split)
qed

theorem extract_never_through_link_witness:
  "Extract calm_env (demo_lib (demo_manifest 10 5)) (Some (demo_zip 10 5 5 None)) (Some demo_volume) demo_options \<noteq> Inl ThroughLink"
  by (rule extract_never_through_link [OF demo_root])



end
