(* ===== verification/Archive_Scan.thy ===== *)
theory Archive_Scan
  imports Archive_Disk
begin

section \<open>What a walk of a volume visits\<close>

text \<open>
  A successful walk is a fold of the visitor over a list of paths, the same for every visitor: parents before
  children, each path once, and nothing of the volume missing but what is listed as left out.
\<close>

definition raw_entry :: "string list \<Rightarrow> inode \<Rightarrow> entry" where
  "raw_entry x n =
     \<lparr>en_Path = of_segs x,
      en_Type = (case no_Kind n of KDir \<Rightarrow> EntryDir | KLink \<Rightarrow> EntrySymlink | _ \<Rightarrow> EntryFile),
      en_Size = (if no_Kind n = KFile then int (length (no_Data n)) else 0), en_Mode = mode_bits n, en_UID = no_UID n,
      en_GID = no_GID n, en_ModTime = no_MTime n, en_Target = (if no_Kind n = KLink then no_Data n else ''''),
      en_SHA256 = '''', en_Image = False, en_NoCredentials = False\<rparr>"

definition left_out :: "scan_options \<Rightarrow> volume \<Rightarrow> string list \<Rightarrow> bool" where
  "left_out opts v x \<longleftrightarrow>
     (of_segs x \<noteq> ''.'' \<and> map_of (so_Exclude opts) (of_segs x) \<noteq> None) \<or> CleanRelPath (of_segs x) = Inl UnsafePath
     \<or> kind_at v x \<in> {Some KSocket, Some KPipe, Some KDevice}"

definition archivable :: "scan_options \<Rightarrow> volume \<Rightarrow> string list \<Rightarrow> bool" where
  "archivable opts v x \<longleftrightarrow>
     (of_segs x = ''.'' \<or> map_of (so_Exclude opts) (of_segs x) = None) \<and> CleanRelPath (of_segs x) = Inr (of_segs x)
     \<and> kind_at v x \<in> {Some KDir, Some KFile, Some KLink}"

lemma CleanRelPath_cases: "CleanRelPath p = Inl UnsafePath \<or> CleanRelPath p = Inr p"
  by (auto simp: CleanRelPath_def)

lemma scan_item_entry:
  assumes "scan_item ev valid opts (of_segs x) (map_of v x) s = Inr (Inr (e, s'))"
  shows "archivable opts v x \<and> (\<exists>n. map_of v x = Some n \<and> e = raw_entry x n)"
proof -
  obtain n where n: "map_of v x = Some n"
    using assms by (cases "map_of v x") (simp_all add: scan_item_def split: if_split_asm)
  have c: "CleanRelPath (of_segs x) = Inr (of_segs x)"
    using assms CleanRelPath_cases [of "of_segs x"] by (auto simp: scan_item_def split: if_split_asm)
  show ?thesis
    using assms
    by (cases "no_Kind n")
      (auto simp: scan_item_def n c archivable_def kind_at_def entryFromInfo_def raw_entry_def Let_def entry_types
        split: if_split_asm)
qed

lemma scan_item_left_out:
  assumes "scan_item ev valid opts (of_segs x) (map_of v x) s = Inr (Inl s')"
  shows "left_out opts v x"
  using assms
  by (auto simp: scan_item_def left_out_def kind_at_def entryFromInfo_def Let_def entry_types
      split: if_split_asm option.splits file_kind.splits)

subsection \<open>The list of paths\<close>

definition visits :: "'a visitor \<Rightarrow> volume \<Rightarrow> string list list \<Rightarrow> 'a \<Rightarrow> arch_error + 'a" where
  "visits visit v L acc =
     fold_result (\<lambda>x acc. case map_of v x of None \<Rightarrow> Inl Changed | Some n \<Rightarrow> visit (raw_entry x n) n acc) L acc"

lemma visits_simps:
  "visits visit v [] acc = Inr acc"
  "map_of v x = Some n \<Longrightarrow> visits visit v (x # L) acc
     = (case visit (raw_entry x n) n acc of Inl err \<Rightarrow> Inl err | Inr acc \<Rightarrow> visits visit v L acc)"
  "visits visit v (L @ M) acc = (case visits visit v L acc of Inl err \<Rightarrow> Inl err | Inr acc \<Rightarrow> visits visit v M acc)"
  by (simp_all add: visits_def fold_result_append split: sum.split)

fun parents_first :: "string list set \<Rightarrow> string list list \<Rightarrow> bool" where
  "parents_first seen [] \<longleftrightarrow> True"
| "parents_first seen (x # xs) \<longleftrightarrow> x \<noteq> [] \<and> butlast x \<in> seen \<and> parents_first (insert x seen) xs"

lemma parents_first_append: "parents_first S (xs @ ys) \<longleftrightarrow> parents_first S xs \<and> parents_first (S \<union> set xs) ys"
  by (induction xs arbitrary: S) auto

lemma parents_first_mono: "parents_first S xs \<Longrightarrow> S \<subseteq> T \<Longrightarrow> parents_first T xs"
proof (induction xs arbitrary: S T)
  case (Cons x xs)
  then show ?case using Cons.IH [of "insert x S" "insert x T"] by auto
qed simp

definition complete :: "scan_options \<Rightarrow> volume \<Rightarrow> string list set \<Rightarrow> bool" where
  "complete opts v X \<longleftrightarrow>
     (\<forall>x\<in>X. kind_at v x = Some KDir \<longrightarrow> (\<forall>name. x @ [name] \<in> go_keys v \<longrightarrow> x @ [name] \<in> X \<or> left_out opts v (x @ [name])))"

text \<open>The paths visited at or below \<open>rel\<close>, and those below some of its names.\<close>

definition listing :: "scan_options \<Rightarrow> volume \<Rightarrow> string list \<Rightarrow> string list list \<Rightarrow> bool" where
  "listing opts v rel L \<longleftrightarrow>
     (L = [] \<and> left_out opts v rel)
     \<or> (\<exists>M. L = rel # M \<and> distinct L \<and> parents_first {rel} M \<and> (\<forall>x\<in>set L. archivable opts v x \<and> prefix rel x)
          \<and> complete opts v (set L))"

definition forest :: "scan_options \<Rightarrow> volume \<Rightarrow> string list \<Rightarrow> string list \<Rightarrow> string list list \<Rightarrow> bool" where
  "forest opts v rel ns L \<longleftrightarrow>
     distinct L \<and> parents_first {rel} L \<and> (\<forall>x\<in>set L. archivable opts v x \<and> (\<exists>name\<in>set ns. prefix (rel @ [name]) x))
     \<and> complete opts v (set L) \<and> (\<forall>name\<in>set ns. rel @ [name] \<in> set L \<or> left_out opts v (rel @ [name]))"

lemma complete_Un: "complete opts v X \<Longrightarrow> complete opts v Y \<Longrightarrow> complete opts v (X \<union> Y)"
  unfolding complete_def by blast

lemma forest_Cons:
  assumes "listing opts v (rel @ [n]) L" and "forest opts v rel ns M" and "n \<notin> set ns"
  shows "forest opts v rel (n # ns) (L @ M)"
proof (cases "L = []")
  case True
  then show ?thesis using assms(1,2) by (auto simp: listing_def forest_def)
next
  case False
  obtain K where K: "L = (rel @ [n]) # K" "distinct L" "parents_first {rel @ [n]} K" "complete opts v (set L)"
    and arch: "\<forall>x\<in>set L. archivable opts v x \<and> prefix (rel @ [n]) x"
    using assms(1) False unfolding listing_def by blast
  have M: "distinct M" "parents_first {rel} M" "complete opts v (set M)"
    "\<forall>x\<in>set M. archivable opts v x \<and> (\<exists>name\<in>set ns. prefix (rel @ [name]) x)"
    "\<forall>name\<in>set ns. rel @ [name] \<in> set M \<or> left_out opts v (rel @ [name])"
    using assms(2) unfolding forest_def by blast+
  have apart: "\<not> prefix (rel @ [name]) x" if "name \<in> set ns" "prefix (rel @ [n]) x" for name x
  proof
    assume "prefix (rel @ [name]) x"
    then have "name = n" using that(2) by (auto simp: prefix_def)
    then show False using that(1) assms(3) by simp
  qed
  then have "set L \<inter> set M = {}" using arch M(4) by blast
  then have "distinct (L @ M)" using K(2) M(1) by simp
  moreover have "parents_first {rel} (L @ M)"
  proof -
    have "parents_first {rel} L" using K(3) parents_first_mono [OF K(3), of "{rel @ [n], rel}"] by (simp add: K(1))
    then show ?thesis using parents_first_mono [OF M(2)] by (simp add: parents_first_append)
  qed
  moreover have "complete opts v (set (L @ M))" using complete_Un [OF K(4) M(3)] by simp
  moreover have "rel @ [n] \<in> set L" using K(1) by simp
  ultimately show ?thesis using arch M(4,5) unfolding forest_def by auto
qed

lemma listing_of_forest:
  assumes "archivable opts v rel" and "forest opts v rel (child_names v rel) M"
  shows "listing opts v rel (rel # M)"
proof -
  have M: "distinct M" "parents_first {rel} M" "complete opts v (set M)"
    "\<forall>x\<in>set M. archivable opts v x \<and> (\<exists>name\<in>set (child_names v rel). prefix (rel @ [name]) x)"
    "\<forall>name\<in>set (child_names v rel). rel @ [name] \<in> set M \<or> left_out opts v (rel @ [name])"
    using assms(2) unfolding forest_def by blast+
  have "rel \<notin> set M" using M(4) by (auto simp: prefix_def)
  moreover have "complete opts v (set (rel # M))" using M(3,5) by (simp add: complete_def)
  moreover have "\<forall>x\<in>set M. prefix rel x" using M(4) by (auto dest: append_prefixD)
  ultimately show ?thesis using assms(1) M(1,2,4) unfolding listing_def by auto
qed

lemma distinct_child_names:
  assumes "distinct (map fst v)" shows "distinct (child_names v rel)"
proof -
  let ?l = "map fst (filter (\<lambda>(segs, _). segs \<noteq> [] \<and> butlast segs = rel) v)"
  have "distinct ?l" using assms by (simp add: distinct_map_filter)
  moreover have "inj_on last (set ?l)"
    by (rule inj_onI) (auto, metis append_butlast_last_id)
  ultimately have "distinct (map last ?l)" using distinct_map [of last ?l] by blast
  moreover have "child_names v rel = sort (map last ?l)" by (simp add: child_names_def)
  ultimately show ?thesis by (simp only: distinct_sort)
qed

text \<open>A successful walk follows a listing.\<close>

lemma fold_names_listing:
  assumes "distinct ns"
    and "\<And>name s acc s' acc'. name \<in> set ns \<Longrightarrow> w name (s, acc) = Inr (s', acc')
      \<Longrightarrow> \<exists>L. listing opts v (rel @ [name]) L \<and> visits visit v L acc = Inr acc'"
    and "fold_result w ns (s, acc) = Inr (s', acc')"
  shows "\<exists>L. forest opts v rel ns L \<and> visits visit v L acc = Inr acc'"
  using assms
proof (induction ns arbitrary: s acc)
  case Nil
  then show ?case by (auto simp: forest_def complete_def visits_simps intro: exI [of _ "[]"])
next
  case (Cons n ns)
  obtain s1 acc1 where one: "w n (s, acc) = Inr (s1, acc1)" "fold_result w ns (s1, acc1) = Inr (s', acc')"
    using Cons.prems(3) by (auto split: sum.splits)
  obtain L where L: "listing opts v (rel @ [n]) L" "visits visit v L acc = Inr acc1"
    using Cons.prems(2) [OF _ one(1)] by auto
  obtain M where M: "forest opts v rel ns M" "visits visit v M acc1 = Inr acc'"
    using Cons.IH [OF _ _ one(2)] Cons.prems(1,2) by auto
  have "forest opts v rel (n # ns) (L @ M)" using forest_Cons [OF L(1) M(1)] Cons.prems(1) by simp
  then show ?case using L(2) M(2) by (auto simp: visits_simps(3))
qed

lemma walk_listing:
  assumes "distinct (map fst v)" and "walk ev valid opts visit v rel (s, acc) = Inr (s', acc')"
  shows "\<exists>L. listing opts v rel L \<and> visits visit v L acc = Inr acc'"
  using assms(2)
proof (induction "length (below v rel)" arbitrary: rel s acc s' acc' rule: less_induct)
  case less
  show ?case
  proof (cases "scan_item ev valid opts (of_segs rel) (map_of v rel) s")
    case (Inl err)
    then show ?thesis using less.prems by (subst (asm) walk.simps) simp
  next
    case item: (Inr r)
    show ?thesis
    proof (cases r)
      case (Inl s1)
      then have "left_out opts v rel" "acc' = acc"
        using item scan_item_left_out [of ev valid opts rel v s s1] less.prems by (simp_all add: walk.simps)
      then show ?thesis by (auto simp: listing_def visits_simps intro: exI [of _ "[]"])
    next
      case (Inr es)
      obtain e s1 where es: "es = (e, s1)" by force
      obtain n where n: "map_of v rel = Some n" "e = raw_entry rel n" and arch: "archivable opts v rel"
        using scan_item_entry [of ev valid opts rel v s e s1] item Inr es by auto
      obtain acc1 where acc1: "visit e n acc = Inr acc1"
        and rest: "(if en_Type e \<noteq> EntryDir then Inr (s1, acc1)
           else fold_result (\<lambda>name. walk ev valid opts visit v (rel @ [name])) (child_names v rel) (s1, acc1)) = Inr (s', acc')"
        using less.prems item Inr es n(1) by (auto simp: walk.simps split: sum.splits)
      show ?thesis
      proof (cases "no_Kind n = KDir")
        case False
        then have "en_Type e \<noteq> EntryDir" using arch n by (auto simp: raw_entry_def entry_types archivable_def kind_at_def)
        then have "acc' = acc1" using rest by simp
        then have "visits visit v [rel] acc = Inr acc'" using n acc1 by (simp add: visits_simps)
        moreover have "listing opts v rel [rel]"
          using arch False n(1) by (auto simp: listing_def complete_def kind_at_def)
        ultimately show ?thesis by blast
      next
        case True
        then have "fold_result (\<lambda>name. walk ev valid opts visit v (rel @ [name])) (child_names v rel) (s1, acc1) = Inr (s', acc')"
          using rest n(2) by (simp add: raw_entry_def)
        moreover have "\<exists>L. listing opts v (rel @ [name]) L \<and> visits visit v L a = Inr a'"
          if "name \<in> set (child_names v rel)" "walk ev valid opts visit v (rel @ [name]) (t, a) = Inr (t', a')" for name t a t' a'
        proof (rule less.hyps [OF _ that(2)])
          have "rel @ [name] \<in> go_keys v" using that(1) by simp
          then obtain i where "map_of v (rel @ [name]) = Some i" by (metis map_of_eq_None_iff not_None_eq)
          then show "length (below v (rel @ [name])) < length (below v rel)" by (rule below_child)
        qed
        ultimately obtain M where M: "forest opts v rel (child_names v rel) M" "visits visit v M acc1 = Inr acc'"
          using fold_names_listing [OF distinct_child_names [OF assms(1)],
              of rel "\<lambda>name. walk ev valid opts visit v (rel @ [name])" opts v rel visit s1 acc1 s' acc'] by blast
        have "visits visit v (rel # M) acc = Inr acc'" using n acc1 M(2) by (simp add: visits_simps)
        then show ?thesis using listing_of_forest [OF arch M(1)] by blast
      qed
    qed
  qed
qed

end
