(* ===== verification/Archive_Roundtrip.thy ===== *)
theory Archive_Roundtrip
  imports Restore_Properties Archive_Scan
begin

section \<open>A restored volume verifies, and an export restores\<close>

text \<open>
  The composition of the parts: the check of a restored volume accepts what \<open>Extract\<close> leaves, and what
  \<open>Write\<close> produces is accepted by \<open>Inspect\<close>.
\<close>

subsection \<open>Scanning\<close>

definition scan_entry :: "arch_lib \<Rightarrow> string list \<Rightarrow> inode \<Rightarrow> entry" where
  "scan_entry al x n =
     (if en_Type (raw_entry x n) = EntryFile then (raw_entry x n)\<lparr>en_SHA256 := al_sha256 al (no_Data n)\<rparr> else raw_entry x n)"

lemma scan_visits:
  assumes "visits (scan_visit ev al) v L acc = Inr acc'" and "\<forall>x\<in>set L. map_of v x = Some (nd x)"
  shows "acc' = acc @ map (\<lambda>x. scan_entry al x (nd x)) L"
  using assms
proof (induction L arbitrary: acc)
  case (Cons x L)
  have n: "map_of v x = Some (nd x)" using Cons.prems(2) by simp
  obtain acc1 where one: "scan_visit ev al (raw_entry x (nd x)) (nd x) acc = Inr acc1" "visits (scan_visit ev al) v L acc1 = Inr acc'"
    using Cons.prems(1) unfolding visits_simps(2) [OF n] by (auto split: sum.splits)
  have "acc1 = acc @ [scan_entry al x (nd x)]"
    using one(1) by (auto simp: scan_visit_def hashFile_def scan_entry_def split: if_split_asm)
  then show ?case using Cons.IH [OF one(2)] Cons.prems(2) by simp
qed (simp add: visits_simps)

text \<open>Every directory above a visited path is visited.\<close>

lemma parents_first_closed:
  assumes "parents_first S L" and "x \<in> set L"
  shows "x \<noteq> []" and "butlast x \<in> S \<union> set L"
proof -
  have "x \<noteq> [] \<and> butlast x \<in> S \<union> set L" using assms by (induction L arbitrary: S) auto
  then show "x \<noteq> []" "butlast x \<in> S \<union> set L" by simp_all
qed

lemma listing_prefixes:
  assumes "listing opts v [] L" and "x \<in> set L" and "k \<le> length x"
  shows "take k x \<in> set L"
  using assms(2,3)
proof (induction "length x - k" arbitrary: x)
  case 0
  then show ?case by simp
next
  case (Suc m)
  obtain M where L: "L = [] # M" "parents_first {[]} M" using assms(1) Suc.prems(1) by (auto simp: listing_def)
  have ne: "x \<noteq> []" using Suc by auto
  then have "x \<in> set M" using Suc.prems(1) L(1) by simp
  then have up: "butlast x \<in> set L" using parents_first_closed(2) [OF L(2)] L(1) by simp
  have "m = length (butlast x) - k" "k \<le> length (butlast x)" using Suc.hyps(2) Suc.prems(2) by simp_all
  then have "take k (butlast x) \<in> set L" using Suc.hyps(1) up by blast
  moreover have "take k (butlast x) = take k x" using Suc.hyps(2) by (simp add: take_butlast)
  ultimately show ?case by simp
qed

subsection \<open>No error without a fault\<close>

definition calm :: "disk_env \<Rightarrow> bool" where
  "calm ev \<longleftrightarrow> (\<forall>p. \<not> ev_fault ev p \<and> \<not> ev_changed ev p \<and> \<not> ev_canceled ev p)"

lemma fold_result_total:
  assumes "\<And>x b. x \<in> set xs \<Longrightarrow> \<exists>c. f x b = Inr c" shows "\<exists>c. fold_result f xs b = Inr c"
  using assms
proof (induction xs arbitrary: b)
  case (Cons x xs)
  obtain c where "f x b = Inr c" using Cons.prems [of x b] by auto
  moreover have "\<exists>d. fold_result f xs c = Inr d" by (rule Cons.IH) (simp add: Cons.prems)
  ultimately show ?case by auto
qed simp

text \<open>\<open>X\<close> is a set of paths closed under the names of its directories, those left out aside.\<close>

definition walkable :: "scan_options \<Rightarrow> volume \<Rightarrow> string list set \<Rightarrow> bool" where
  "walkable opts v X \<longleftrightarrow>
     (\<forall>x\<in>X. x \<in> go_keys v \<and> kind_at v x \<noteq> Some KOther) \<and> complete opts v X"

lemma archivable_not_left_out: "archivable opts v x \<Longrightarrow> \<not> left_out opts v x"
  by (auto simp: archivable_def left_out_def)

lemma scan_item_total:
  assumes calm: "calm ev" and lim: "so_MaxEntries opts = 0" "so_MaxBytes opts = 0"
    and x: "left_out opts v x \<or> (x \<in> go_keys v \<and> kind_at v x \<noteq> Some KOther)"
  shows "\<exists>r. scan_item ev valid opts (of_segs x) (map_of v x) s = Inr r"
proof (cases "(of_segs x \<noteq> ''.'' \<and> map_of (so_Exclude opts) (of_segs x) \<noteq> None) \<or> CleanRelPath (of_segs x) = Inl UnsafePath")
  case True
  then show ?thesis using calm by (auto simp: scan_item_def calm_def)
next
  case False
  then have "kind_at v x \<in> {Some KSocket, Some KPipe, Some KDevice} \<or> (x \<in> go_keys v \<and> kind_at v x \<noteq> Some KOther)"
    using x unfolding left_out_def by blast
  moreover have "kind_at v x \<noteq> None" if "x \<in> go_keys v" using that by (simp add: kind_at_def map_of_eq_None_iff)
  ultimately have "kind_at v x \<noteq> None \<and> kind_at v x \<noteq> Some KOther" by auto
  then obtain n where n: "map_of v x = Some n" "no_Kind n \<noteq> KOther" by (auto simp: kind_at_def)
  have "\<not> ev_canceled ev (of_segs x)" "\<not> ev_fault ev (of_segs x)" using calm by (simp_all add: calm_def)
  then show ?thesis using False n lim
    by (cases "no_Kind n") (simp_all add: scan_item_def entryFromInfo_def Let_def entry_types)
qed

lemma walk_total:
  assumes calm: "calm ev" and lim: "so_MaxEntries opts = 0" "so_MaxBytes opts = 0"
    and visit: "\<And>e n a. \<exists>a'. visit e n a = Inr a'" and X: "walkable opts v X" and rel: "rel \<in> X \<or> left_out opts v rel"
  shows "\<exists>r. walk ev valid opts visit v rel (s, acc) = Inr r"
  using rel
proof (induction "length (below v rel)" arbitrary: rel s acc rule: less_induct)
  case less
  have "left_out opts v rel \<or> (rel \<in> go_keys v \<and> kind_at v rel \<noteq> Some KOther)"
    using less.prems X unfolding walkable_def by blast
  then obtain r where item: "scan_item ev valid opts (of_segs rel) (map_of v rel) s = Inr r"
    using scan_item_total [OF calm lim, of v rel valid s] by blast
  show ?case
  proof (cases r)
    case (Inl s1)
    then show ?thesis using item by (simp add: walk.simps)
  next
    case (Inr es)
    obtain e s1 where es: "es = (e, s1)" by force
    obtain n where n: "map_of v rel = Some n" "e = raw_entry rel n" and arch: "archivable opts v rel"
      using scan_item_entry [of ev valid opts rel v s e s1] item Inr es by auto
    have relX: "rel \<in> X" using less.prems archivable_not_left_out [OF arch] by blast
    obtain acc1 where acc1: "visit e n acc = Inr acc1" using visit by blast
    show ?thesis
    proof (cases "en_Type e = EntryDir")
      case False
      then show ?thesis using item Inr es n(1) acc1 by (simp add: walk.simps)
    next
      case True
      then have dir: "kind_at v rel = Some KDir"
        using n arch by (cases "no_Kind n") (simp_all add: raw_entry_def kind_at_def entry_types archivable_def)
      have rest: "\<exists>c. fold_result (\<lambda>name. walk ev valid opts visit v (rel @ [name])) (child_names v rel) (s1, acc1) = Inr c"
      proof (rule fold_result_total)
        fix name sa assume "name \<in> set (child_names v rel)"
        then have key: "rel @ [name] \<in> go_keys v" by simp
        then have "rel @ [name] \<in> X \<or> left_out opts v (rel @ [name])"
          using X relX dir unfolding walkable_def complete_def by blast
        moreover obtain i where "map_of v (rel @ [name]) = Some i" using key by (metis map_of_eq_None_iff not_None_eq)
        then have "length (below v (rel @ [name])) < length (below v rel)" by (rule below_child)
        ultimately show "\<exists>c. walk ev valid opts visit v (rel @ [name]) sa = Inr c"
          using less.hyps [of "rel @ [name]" "fst sa" "snd sa"] by simp
      qed
      have "walk ev valid opts visit v rel (s, acc)
          = fold_result (\<lambda>name. walk ev valid opts visit v (rel @ [name])) (child_names v rel) (s1, acc1)"
        by (subst walk.simps) (simp add: item [unfolded n(1)] Inr es n(1) acc1 True)
      then show ?thesis using rest by simp
    qed
  qed
qed

lemma scan_visit_total: "calm ev \<Longrightarrow> \<exists>a'. scan_visit ev al e n a = Inr a'"
  by (simp add: scan_visit_def hashFile_def calm_def)

text \<open>In a calm environment a scan returns the entries of one listing.\<close>

lemma Scan_listing:
  assumes "calm ev" and "so_MaxEntries opts = 0" and "so_MaxBytes opts = 0" and "distinct (map fst v)"
    and "walkable opts v X" and "[] \<in> X"
  shows "\<exists>L xs. Scan ev al valid v opts = Inr (map (\<lambda>x. scan_entry al x (the (map_of v x))) L, xs) \<and> listing opts v [] L"
proof -
  obtain s es where w: "walk ev valid opts (scan_visit ev al) v [] (new_scanner, []) = Inr (s, es)"
    using walk_total [where valid = valid and visit = "scan_visit ev al" and rel = "[]" and s = new_scanner and acc = "[]",
        OF assms(1-3) scan_visit_total [OF assms(1)] assms(5)] assms(6) by auto
  obtain L where L: "listing opts v [] L" "visits (scan_visit ev al) v L [] = Inr es"
    using walk_listing [OF assms(4) w] by blast
  have "\<forall>x\<in>set L. map_of v x = Some (the (map_of v x))"
    using L(1) by (auto simp: listing_def archivable_def kind_at_def)
  then have "es = map (\<lambda>x. scan_entry al x (the (map_of v x))) L" using scan_visits [OF L(2)] by simp
  then show ?thesis using L(1) w by (auto simp: Scan_def)
qed


subsection \<open>Comparing\<close>

lemma update_fold_lookup:
  assumes "distinct (map en_Path es)"
  shows "map_of (fold (\<lambda>e m. AList.update (en_Path e) e m) es m0) p
    = (case map_of (map (\<lambda>e. (en_Path e, e)) es) p of None \<Rightarrow> map_of m0 p | Some e \<Rightarrow> Some e)"
  using assms
proof (induction es arbitrary: m0)
  case (Cons e es)
  have "map_of (map (\<lambda>e. (en_Path e, e)) es) (en_Path e) = None"
    using Cons.prems by (auto simp: map_of_eq_None_iff)
  then show ?case using Cons by (auto simp: update_conv' split: option.split)
qed simp

lemma update_fold_keys: "go_keys (fold (\<lambda>e m. AList.update (en_Path e) e m) es m0) = en_Path ` set es \<union> go_keys m0"
  by (induction es arbitrary: m0) (auto simp: dom_update [symmetric] update_conv' dom_map_of_conv_image_fst [symmetric])

lemma compare_loop_ok:
  assumes "distinct (map en_Path want)" and "go_keys byPath \<subseteq> en_Path ` set want"
    and "\<And>w. w \<in> set want \<Longrightarrow> \<exists>g. map_of byPath (en_Path w) = Some g \<and> same_entry w g"
  shows "compare_loop want byPath = None"
  using assms
proof (induction want arbitrary: byPath)
  case (Cons w ws)
  obtain g where g: "map_of byPath (en_Path w) = Some g" "same_entry w g" using Cons.prems(3) [of w] by auto
  have "compare_loop ws (AList.delete (en_Path w) byPath) = None"
  proof (rule Cons.IH)
    show "distinct (map en_Path ws)" using Cons.prems(1) by simp
    show "go_keys (AList.delete (en_Path w) byPath) \<subseteq> en_Path ` set ws"
    proof -
      have "go_keys (AList.delete (en_Path w) byPath) = go_keys byPath - {en_Path w}"
        using delete_keys [of "en_Path w" byPath] by (metis list.set_map set_removeAll)
      then show ?thesis using Cons.prems(2) by auto
    qed
    fix u assume u: "u \<in> set ws"
    then have "en_Path u \<noteq> en_Path w" using Cons.prems(1) by (metis distinct.simps(2) imageI list.set_map list.simps(9))
    then show "\<exists>g. map_of (AList.delete (en_Path w) byPath) (en_Path u) = Some g \<and> same_entry u g"
      using Cons.prems(3) [of u] u by (simp add: delete_conv')
  qed
  then show ?case using g by simp
qed simp

lemma CompareEntries_ok:
  assumes "distinct (map en_Path want)" and "distinct (map en_Path got)" and "en_Path ` set got = en_Path ` set want"
    and "\<And>w g. w \<in> set want \<Longrightarrow> g \<in> set got \<Longrightarrow> en_Path g = en_Path w \<Longrightarrow> same_entry w g"
  shows "CompareEntries want got = None"
  unfolding CompareEntries_def
proof (rule compare_loop_ok [OF assms(1)])
  let ?m = "fold (\<lambda>e m. AList.update (en_Path e) e m) got []"
  show "go_keys ?m \<subseteq> en_Path ` set want" by (simp add: update_fold_keys assms(3))
  fix w assume w: "w \<in> set want"
  then obtain g where g: "g \<in> set got" "en_Path g = en_Path w" using assms(3) by (metis imageE imageI)
  have "distinct (map fst (map (\<lambda>e. (en_Path e, e)) got))" using assms(2) by (simp add: o_def)
  moreover have "(en_Path w, g) \<in> set (map (\<lambda>e. (en_Path e, e)) got)" using g by (auto simp: image_iff intro!: bexI [of _ g])
  ultimately have "map_of (map (\<lambda>e. (en_Path e, e)) got) (en_Path w) = Some g" by (rule map_of_is_SomeI)
  then have "map_of ?m (en_Path w) = Some g" by (simp add: update_fold_lookup [OF assms(2)])
  then show "\<exists>g. map_of ?m (en_Path w) = Some g \<and> same_entry w g" using assms(4) [OF w g] by blast
qed

subsection \<open>A restored volume verifies\<close>

text \<open>What an export records of entries that are not regular files; \<open>Inspect\<close> does not check it.\<close>

definition portable :: "entry list \<Rightarrow> bool" where
  "portable es \<longleftrightarrow>
     (\<forall>e\<in>set es. (en_Path e = ''.'' \<longrightarrow> en_Type e = EntryDir) \<and> (en_Type e \<noteq> EntryFile \<longrightarrow> en_SHA256 e = '''')
        \<and> (en_Type e \<noteq> EntrySymlink \<longrightarrow> en_Target e = '''') \<and> (en_Type e = EntrySymlink \<longrightarrow> en_Size e = 0 \<and> en_Mode e = 511))"

lemma restored_same_entry:
  assumes "restored_entry al ins True e n" and "portable es" and "sound_entries es" and "e \<in> set es"
  shows "same_entry e (scan_entry al (seg e) n)"
proof -
  have shape: "shape al ins e n" and own: "owner_set e n" and md: "en_Type e \<noteq> EntrySymlink \<longrightarrow> mode_set e n"
    using assms(1) by (simp_all add: restored_entry_def)
  have po: "en_Type e \<noteq> EntryFile \<longrightarrow> en_SHA256 e = ''''" "en_Type e \<noteq> EntrySymlink \<longrightarrow> en_Target e = ''''"
    "en_Type e = EntrySymlink \<longrightarrow> en_Size e = 0 \<and> en_Mode e = 511" "en_Type e = EntryDir \<longrightarrow> en_Size e = 0"
    using assms(2-4) by (auto simp: portable_def sound_entries_def)
  consider "en_Type e = EntryDir" "no_Kind n = KDir"
    | "en_Type e = EntryFile" "no_Kind n = KFile" "al_sha256 al (no_Data n) = en_SHA256 e" "int (length (no_Data n)) = en_Size e"
    | "en_Type e = EntrySymlink" "no_Kind n = KLink" "no_Data n = en_Target e" "mode_bits n = 511"
    using shape copyFile_cases [of al ins e] unfolding shape_def by fastforce
  then show ?thesis
    using own md po
    by cases (simp_all add: same_entry_def scan_entry_def raw_entry_def owner_set_def mode_set_def entry_types)
qed

lemma fold_result_keeps:
  assumes "\<And>x b c. Q b \<Longrightarrow> f x b = Inr c \<Longrightarrow> Q c" and "Q b" and "fold_result f xs b = Inr c"
  shows "Q c"
  using assms(2,3) by (induction xs arbitrary: b) (auto split: sum.splits intro: assms(1))

abbreviation keys_ok :: "volume \<Rightarrow> bool" where
  "keys_ok v \<equiv> distinct (map fst v)"

lemma create_node_keys: "keys_ok v \<Longrightarrow> create_node ev p kd data perm v = Inr v' \<Longrightarrow> keys_ok v'"
  by (auto simp: create_node_def Let_def distinct_update split: if_split_asm option.splits)

lemma change_node_keys: "keys_ok v \<Longrightarrow> change_node ev p follow f v = Inr v' \<Longrightarrow> keys_ok v'"
  by (auto simp: change_node_def Let_def distinct_update split: if_split_asm option.splits)

lemma extract_passes_keys:
  assumes "keys_ok v" and "extract_passes ev al ins preserve skip v = Inr v'"
  shows "keys_ok v'"
proof -
  let ?es = "mf_Entries (in_Manifest ins)"
  obtain v1 v2 v3 where p: "fold_result (place_object ev al ins skip) ?es v = Inr v1" "fold_result (place_link ev ins) ?es v1 = Inr v2"
    "(if preserve then fold_result (place_owner ev skip) ?es v2 else Inr v2) = Inr v3"
    "fold_result (place_mode ev skip) (rev ?es) v3 = Inr v'"
    using assms(2) by (auto simp: extract_passes_def Let_def split: sum.splits)
  have "keys_ok c" if "keys_ok b" "place_object ev al ins skip e b = Inr c" for e b c
    using that create_node_keys [OF that(1)]
    by (auto simp: place_object_def distinct_update split: if_split_asm sum.splits option.splits)
  from fold_result_keeps [where Q = keys_ok, OF this assms(1) p(1)] have k1: "keys_ok v1" .
  have "keys_ok c" if "keys_ok b" "place_link ev ins e b = Inr c" for e b c
    using that create_node_keys [OF that(1)] by (auto simp: place_link_def split: if_split_asm sum.splits)
  from fold_result_keeps [where Q = keys_ok, OF this k1 p(2)] have k2: "keys_ok v2" .
  have own: "keys_ok c" if "keys_ok b" "place_owner ev skip e b = Inr c" for e b c
    using that change_node_keys [OF that(1)] by (auto simp: place_owner_def split: if_split_asm)
  have k3: "keys_ok v3"
  proof (cases preserve)
    case True
    then show ?thesis using fold_result_keeps [where Q = keys_ok, OF own k2] p(3) by simp
  qed (use k2 p(3) in simp)
  have "keys_ok c" if "keys_ok b" "place_mode ev skip e b = Inr c" for e b c
  proof -
    from that(2) consider "c = b" | b' where "change_node ev (en_Path e) True (toFileMode (en_Mode e)) b = Inr b'"
        "change_node ev (en_Path e) True (\<lambda>n. n\<lparr>no_MTime := en_ModTime e\<rparr>) b' = Inr c"
      by (auto simp: place_mode_def split: if_split_asm sum.splits)
    then show ?thesis by cases (use that(1) change_node_keys in blast)+
  qed
  from fold_result_keeps [where Q = keys_ok, OF this k3 p(4)] show ?thesis .
qed

text \<open>What may be on a destination: nothing at the top but the allowed names.\<close>

lemma volume_above:
  assumes "volume_ok v" and "x \<in> go_keys v" and "x \<noteq> []"
  shows "[hd x] \<in> go_keys v"
  using assms(2,3)
proof (induction x rule: rev_induct)
  case (snoc a xs)
  show ?case
  proof (cases "xs = []")
    case False
    obtain n where "(xs @ [a], n) \<in> set v" using snoc.prems(1) by auto
    then have "kind_at v xs = Some KDir" using assms(1) by (fastforce simp: volume_ok_def list_all_iff)
    then have "xs \<in> go_keys v" by (metis kind_at_def map_of_eq_None_iff option.simps(3) option.map(1))
    then show ?thesis using snoc.IH False by simp
  qed (use snoc.prems in simp)
qed simp

lemma destination_keys:
  assumes "volume_ok v" and "requireEmpty ev v allowed = None" and "x \<in> go_keys v" and "x \<noteq> []"
  shows "hd x \<in> set allowed" and "plain_segment (hd x)"
proof -
  have top: "[hd x] \<in> go_keys v" by (rule volume_above [OF assms(1,3,4)])
  then have "hd x \<in> set (child_names v [])" by simp
  then show "hd x \<in> set allowed"
    using assms(2) by (auto simp: requireEmpty_def list_all_iff split: if_split_asm)
  show "plain_segment (hd x)" using top assms(1) by (fastforce simp: volume_ok_def list_all_iff)
qed


lemma exclude_fold: "go_keys (fold (\<lambda>name x. AList.update name r x) ns m) = set ns \<union> go_keys m"
proof (induction ns arbitrary: m)
  case (Cons a ns)
  have "go_keys (AList.update a r m) = insert a (go_keys m)" by (simp add: dom_update)
  then show ?case using Cons by auto
qed simp

lemma of_segs_single: "plain_segment w \<Longrightarrow> of_segs [w] = w \<and> w \<noteq> ''.''"
  by (simp add: of_segs_def plain_segment_def)

text \<open>Where the entries of a restored volume are, and that the walk of it visits just them.\<close>

lemma restored_paths:
  assumes re: "restored al ins preserve skip es v0 v" and ok: "volume_ok v0" "requireEmpty ev v0 allowed = None"
    and x: "x \<in> go_keys v" "x \<noteq> []"
  shows "x \<in> seg ` kept skip es \<or> (hd x \<in> set allowed \<and> plain_segment (hd x))"
proof (cases "x \<in> seg ` kept skip es")
  case False
  then have "map_of v x = map_of v0 x" using re x(2) unfolding restored_def by blast
  then have "x \<in> go_keys v0" using x(1) by (metis map_of_eq_None_iff)
  then show ?thesis using destination_keys [OF ok _ x(2)] by blast
qed simp

lemma restored_walkable:
  assumes re: "restored al ins preserve skip es v0 v" and sound: "sound_entries es"
    and ok: "volume_ok v0" "requireEmpty ev v0 allowed = None"
    and apart: "\<forall>e\<in>set es. en_Path e \<notin> set allowed" and ex: "go_keys (so_Exclude opts) = set allowed"
  shows "walkable opts v (seg ` kept skip es)"
    and "e \<in> kept skip es \<Longrightarrow> archivable opts v (seg e)"
proof -
  have kind: "\<exists>n. map_of v (seg e) = Some n \<and> no_Kind n \<in> {KDir, KFile, KLink}" if "e \<in> kept skip es" for e
    using re that unfolding restored_def restored_entry_def shape_def by blast
  have free: "\<not> (hd x \<in> set allowed \<and> plain_segment (hd x))" if x: "x \<in> seg ` kept skip es" "x \<noteq> []" for x
  proof
    assume hd: "hd x \<in> set allowed \<and> plain_segment (hd x)"
    obtain e where e: "e \<in> kept skip es" "x = seg e" using x(1) by blast
    have "\<exists>d\<in>kept skip es. seg d = [hd x]"
    proof (cases "length x = 1")
      case True
      then have "x = [hd x]" using x(2) by (cases x) auto
      then show ?thesis using e by auto
    next
      case False
      moreover have "length x \<noteq> 0" using x(2) by simp
      ultimately have "1 < length (seg e)" unfolding e(2) by linarith
      then obtain d where "d \<in> kept skip es" "seg d = take 1 (seg e)" using kept_above [OF sound e(1)] by blast
      moreover have "take 1 (seg e) = [hd x]" unfolding e(2) [symmetric] using x(2) by (cases x) auto
      ultimately show ?thesis by auto
    qed
    then obtain d where d: "d \<in> kept skip es" "seg d = [hd x]" by blast
    have clean: "CleanRelPath (en_Path d) = Inr (en_Path d)" using sound d(1) by (simp add: kept_def sound_entries_def)
    have "en_Path d = of_segs [hd x]" using CleanRelPath_plain(2) [OF clean] d(2) by simp
    then have "en_Path d = hd x" using of_segs_single hd by simp
    moreover have "en_Path d \<notin> set allowed" using apart d(1) by (auto simp: kept_def)
    ultimately show False using hd by metis
  qed
  show arch: "archivable opts v (seg e)" if e: "e \<in> kept skip es" for e
  proof -
    have clean: "CleanRelPath (en_Path e) = Inr (en_Path e)" using sound e by (simp add: kept_def sound_entries_def)
    have p: "of_segs (seg e) = en_Path e" by (rule CleanRelPath_plain(2) [OF clean])
    have "en_Path e \<notin> go_keys (so_Exclude opts)" using apart e ex by (simp add: kept_def)
    then have "map_of (so_Exclude opts) (en_Path e) = None" by (simp add: map_of_eq_None_iff)
    then show ?thesis using kind [OF e] clean by (auto simp: archivable_def p kind_at_def)
  qed
  show "walkable opts v (seg ` kept skip es)"
    unfolding walkable_def
  proof
    have "x \<in> go_keys v \<and> kind_at v x \<noteq> Some KOther" if x: "x \<in> seg ` kept skip es" for x
    proof -
      obtain n where n: "map_of v x = Some n" "no_Kind n \<in> {KDir, KFile, KLink}" using kind x by blast
      have "x \<in> go_keys v" using n(1) by (metis map_of_eq_None_iff option.distinct(1))
      then show ?thesis using n by (auto simp: kind_at_def)
    qed
    then show "\<forall>x\<in>seg ` kept skip es. x \<in> go_keys v \<and> kind_at v x \<noteq> Some KOther" by blast
    show "complete opts v (seg ` kept skip es)"
      unfolding complete_def
    proof (intro ballI impI allI)
      fix x name assume x: "x \<in> seg ` kept skip es" and key: "x @ [name] \<in> go_keys v"
      have "x @ [name] \<in> seg ` kept skip es \<or> (hd (x @ [name]) \<in> set allowed \<and> plain_segment (hd (x @ [name])))"
        by (rule restored_paths [OF re ok key]) simp
      then show "x @ [name] \<in> seg ` kept skip es \<or> left_out opts v (x @ [name])"
      proof
        assume a: "hd (x @ [name]) \<in> set allowed \<and> plain_segment (hd (x @ [name]))"
        then have "x = []" using free [OF x] by (cases x) auto
        then have "of_segs (x @ [name]) = name" "name \<noteq> ''.''" "name \<in> go_keys (so_Exclude opts)"
          using a of_segs_single ex by auto
        then show ?thesis by (simp add: left_out_def map_of_eq_None_iff)
      qed simp
    qed
  qed
qed

lemma restored_listing:
  assumes re: "restored al ins preserve skip es v0 v" and sound: "sound_entries es"
    and ok: "volume_ok v0" "requireEmpty ev v0 allowed = None"
    and apart: "\<forall>e\<in>set es. en_Path e \<notin> set allowed" and ex: "go_keys (so_Exclude opts) = set allowed"
    and root: "[] \<in> seg ` kept skip es" and L: "listing opts v [] L"
  shows "set L = seg ` kept skip es" and "distinct L"
proof -
  note walkable = restored_walkable [OF re sound ok apart ex]
  have "archivable opts v []" using walkable(2) root by force
  then have ne: "L \<noteq> []" using L archivable_not_left_out by (auto simp: listing_def)
  then obtain M where M: "L = [] # M" "distinct L" "complete opts v (set L)" "\<forall>x\<in>set L. archivable opts v x"
    using L unfolding listing_def by blast
  then show "distinct L" by simp
  have "x \<in> seg ` kept skip es" if x: "x \<in> set L" for x
  proof (cases "x = []")
    case False
    have arch: "archivable opts v x" using M(4) x by blast
    have "x \<in> go_keys v" using arch by (auto simp: archivable_def kind_at_def dest: map_of_SomeD intro: rev_image_eqI)
    then consider "x \<in> seg ` kept skip es" | "hd x \<in> set allowed" "plain_segment (hd x)"
      using restored_paths [OF re ok _ False] by blast
    then show ?thesis
    proof cases
      case 2
      have "take 1 x \<in> set L" by (rule listing_prefixes [OF L x]) (use False in \<open>cases x; simp\<close>)
      moreover have "take 1 x = [hd x]" using False by (cases x) auto
      ultimately have "archivable opts v [hd x]" using M(4) by simp
      then have "hd x \<notin> go_keys (so_Exclude opts)"
        using of_segs_single [OF 2(2)] by (simp add: archivable_def map_of_eq_None_iff)
      then show ?thesis using ex 2(1) by simp
    qed
  qed (use root in simp)
  moreover have "seg e \<in> set L" if e: "e \<in> kept skip es" for e
  proof -
    have "k \<le> length (seg e) \<Longrightarrow> take k (seg e) \<in> set L" for k
    proof (induction k)
      case 0
      then show ?case using M(1) by simp
    next
      case (Suc k)
      have up: "take k (seg e) \<in> set L" "k < length (seg e)" using Suc by simp_all
      obtain d where d: "d \<in> kept skip es" "seg d = take k (seg e)" "en_Type d = EntryDir"
        using kept_above [OF sound e up(2)] by blast
      then have dir: "kind_at v (take k (seg e)) = Some KDir"
        using re shape_dir unfolding restored_def restored_entry_def kind_at_def by fastforce
      have snoc: "take (Suc k) (seg e) = take k (seg e) @ [seg e ! k]" using up(2) by (simp add: take_Suc_conv_app_nth)
      have "\<exists>c\<in>kept skip es. seg c = take (Suc k) (seg e)"
      proof (cases "Suc k = length (seg e)")
        case True
        then show ?thesis using e by auto
      next
        case False
        then have "Suc k < length (seg e)" using up(2) by simp
        from kept_above [OF sound e this] show ?thesis by blast
      qed
      then have arch: "archivable opts v (take (Suc k) (seg e))" using walkable(2) by metis
      then have key: "take (Suc k) (seg e) \<in> go_keys v"
        by (auto simp: archivable_def kind_at_def dest: map_of_SomeD intro: rev_image_eqI)
      have "take k (seg e) @ [seg e ! k] \<in> set L \<or> left_out opts v (take k (seg e) @ [seg e ! k])"
        using M(3) up(1) dir key unfolding complete_def snoc by blast
      then show ?case using archivable_not_left_out [OF arch] unfolding snoc by blast
    qed
    from this [of "length (seg e)"] show ?thesis by simp
  qed
  ultimately show "set L = seg ` kept skip es" by blast
qed

text \<open>The scan of a restored volume, compared with the manifest.\<close>

lemma restored_compares:
  assumes re: "restored al ins True skip es v0 v" and sound: "sound_entries es" and portable: "portable es"
    and L: "set L = seg ` kept skip es" "distinct L"
  shows "CompareEntries (filter (\<lambda>e. \<not> skipped skip e) es) (map (\<lambda>x. scan_entry al x (the (map_of v x))) L) = None"
    (is "CompareEntries ?want ?got = None")
proof (rule CompareEntries_ok)
  have path: "en_Path (scan_entry al x n) = of_segs x" for x n by (simp add: scan_entry_def raw_entry_def)
  have named: "of_segs (seg e) = en_Path e" if "e \<in> kept skip es" for e
  proof -
    have "CleanRelPath (en_Path e) = Inr (en_Path e)" using sound that by (simp add: sound_entries_def kept_def)
    then show ?thesis by (rule CleanRelPath_plain(2))
  qed
  have gotp: "map en_Path ?got = map of_segs L" by (simp add: path)
  show "distinct (map en_Path ?want)" using sound by (simp add: sound_entries_def forms_tree_def distinct_map_filter)
  have "inj_on of_segs (set L)"
  proof (rule inj_onI)
    fix x y assume "x \<in> set L" "y \<in> set L" "of_segs x = of_segs y"
    then show "x = y" unfolding L using named by auto
  qed
  then show "distinct (map en_Path ?got)" unfolding gotp using L(2) by (simp add: distinct_map)
  have "en_Path ` set ?got = of_segs ` set L" using arg_cong [OF gotp, of set] by (simp only: list.set_map)
  also have "\<dots> = en_Path ` kept skip es" unfolding L using named by (auto simp: image_iff)
  finally show "en_Path ` set ?got = en_Path ` set ?want" by (simp add: kept_def)
  fix w g assume "w \<in> set ?want" and g: "g \<in> set ?got" and same: "en_Path g = en_Path w"
  then have w: "w \<in> kept skip es" by (simp add: kept_def)
  obtain e where e: "e \<in> kept skip es" "g = scan_entry al (seg e) (the (map_of v (seg e)))" using g L(1) by auto
  have "en_Path e = en_Path w" using same e named by (simp add: path)
  then have g: "g = scan_entry al (seg w) (the (map_of v (seg w)))" using e(2) by simp
  obtain n where n: "map_of v (seg w) = Some n" "restored_entry al ins True w n" using re w unfolding restored_def by blast
  have "w \<in> set es" using w by (simp add: kept_def)
  from restored_same_entry [OF n(2) portable sound this] show "same_entry w g" using g n(1) by simp
qed



subsection \<open>An export is accepted\<close>

definition written_entry :: "arch_lib \<Rightarrow> write_options \<Rightarrow> string list \<Rightarrow> inode \<Rightarrow> entry" where
  "written_entry al opts x n =
     (let e = raw_entry x n in
      if en_Type e = EntryFile then
        let e = e\<lparr>en_SHA256 := al_sha256 al (no_Data n)\<rparr>;
            e = (if isPackageConfig (en_Path e) \<and> en_Size e \<le> maxPackageConfigBytes
                 then e\<lparr>en_NoCredentials := \<not> packageConfigHasCredentials (al_lower al) (no_Data n)\<rparr> else e)
        in e\<lparr>en_Image := Matches (map_of (wo_Image opts) (en_Path e)) e\<rparr>
      else e)"

lemma written_fields:
  "en_Path (written_entry al opts x n) = of_segs x"
  "en_Type (written_entry al opts x n) = en_Type (raw_entry x n)"
  "en_Size (written_entry al opts x n) = en_Size (raw_entry x n)"
  "en_Mode (written_entry al opts x n) = mode_bits n"
  "en_UID (written_entry al opts x n) = no_UID n"
  "en_GID (written_entry al opts x n) = no_GID n"
  "en_ModTime (written_entry al opts x n) = no_MTime n"
  "en_Target (written_entry al opts x n) = en_Target (raw_entry x n)"
  "en_SHA256 (written_entry al opts x n) = (if en_Type (raw_entry x n) = EntryFile then al_sha256 al (no_Data n) else '''')"
  by (simp_all add: written_entry_def raw_entry_def Let_def)

definition written_zip :: "zip_lib \<Rightarrow> string list \<Rightarrow> inode \<Rightarrow> zip_file" where
  "written_zip zl x n =
     \<lparr>zf_Name = ZipName (raw_entry x n), zf_Method = (if no_Kind n = KFile then 8 else 0),
      zf_CompressedSize = (case no_Kind n of KFile \<Rightarrow> zl_deflated zl (no_Data n) | KLink \<Rightarrow> length (no_Data n) | _ \<Rightarrow> 0),
      zf_UncompressedSize = (if no_Kind n = KDir then 0 else length (no_Data n)), zf_IsDir = (no_Kind n = KDir),
      zf_IsRegular = (no_Kind n = KFile), zf_IsSymlink = (no_Kind n = KLink),
      zf_Data = Some (if no_Kind n = KDir then '''' else no_Data n)\<rparr>"

definition count_written :: "entry \<Rightarrow> totals \<Rightarrow> totals" where
  "count_written e t =
     (if en_Type e = EntryDir then t\<lparr>to_Dirs := to_Dirs t + 1\<rparr>
      else if en_Type e = EntrySymlink then t\<lparr>to_Symlinks := to_Symlinks t + 1\<rparr>
      else t\<lparr>to_Files := to_Files t + 1, to_Bytes := wrap64 (to_Bytes t + en_Size e)\<rparr>)"

lemma write_visit_written:
  assumes "write_visit ev al zl opts (raw_entry x n) n (zs, es, t) = Inr acc" and "no_Kind n \<in> {KDir, KFile, KLink}"
  shows "acc = (zs @ [written_zip zl x n], es @ [written_entry al opts x n], count_written (written_entry al opts x n) t)"
proof -
  have ty: "en_Type (raw_entry x n) = (case no_Kind n of KDir \<Rightarrow> EntryDir | KLink \<Rightarrow> EntrySymlink | _ \<Rightarrow> EntryFile)"
    by (simp add: raw_entry_def)
  consider "no_Kind n = KDir" | "no_Kind n = KFile" | "no_Kind n = KLink" using assms(2) by blast
  then show ?thesis
  proof cases
    case 1
    then show ?thesis using assms(1)
      by (simp add: write_visit_def written_zip_def written_entry_def count_written_def ty entry_types Let_def)
  next
    case 2
    then show ?thesis using assms(1)
      by (auto simp: write_visit_def written_zip_def written_entry_def count_written_def ty entry_types Let_def hashFile_def
          raw_entry_def ZipName_def split: if_split_asm)
  next
    case 3
    then show ?thesis using assms(1)
      by (simp add: write_visit_def written_zip_def written_entry_def count_written_def ty entry_types Let_def)
        (simp add: raw_entry_def)
  qed
qed

lemma write_visits:
  assumes "visits (write_visit ev al zl opts) v L (zs, es, t) = Inr acc"
    and "\<forall>x\<in>set L. map_of v x = Some (nd x) \<and> no_Kind (nd x) \<in> {KDir, KFile, KLink}"
  shows "acc = (zs @ map (\<lambda>x. written_zip zl x (nd x)) L, es @ map (\<lambda>x. written_entry al opts x (nd x)) L,
    fold count_written (map (\<lambda>x. written_entry al opts x (nd x)) L) t)"
  using assms
proof (induction L arbitrary: zs es t)
  case (Cons x L)
  have n: "map_of v x = Some (nd x)" "no_Kind (nd x) \<in> {KDir, KFile, KLink}" using Cons.prems(2) by simp_all
  obtain acc1 where one: "write_visit ev al zl opts (raw_entry x (nd x)) (nd x) (zs, es, t) = Inr acc1"
    "visits (write_visit ev al zl opts) v L acc1 = Inr acc"
    using Cons.prems(1) unfolding visits_simps(2) [OF n(1)] by (auto split: sum.splits)
  note acc1 = write_visit_written [OF one(1) n(2)]
  show ?case using Cons.IH [OF one(2) [unfolded acc1]] Cons.prems(2) by simp
qed (simp add: visits_simps)

text \<open>Indexing the ZIP and checking the entries of a list of paths with parents first.\<close>

lemma index_zip_ok:
  assumes "distinct (map fst files @ map zf_Name fs)" and "ManifestName \<notin> set (map zf_Name fs)"
    and "\<forall>f\<in>set fs. zf_Method f \<in> {0, 8} \<and>
      (zf_UncompressedSize f \<le> 2 ^ 20 \<or> 0 < zf_CompressedSize f \<and> zf_UncompressedSize f div zf_CompressedSize f \<le> ratio)"
  shows "index_zip ratio (fs @ gs) files found = index_zip ratio gs (files @ map (\<lambda>f. (zf_Name f, f)) fs) found"
  using assms
proof (induction fs arbitrary: files)
  case (Cons f fs)
  have fresh: "zf_Name f \<notin> fst ` set files" using Cons.prems(1) by auto
  then have none: "map_of files (zf_Name f) = None" by (simp add: map_of_eq_None_iff)
  have upd: "AList.update (zf_Name f) f files = files @ [(zf_Name f, f)]" using fresh by (induction files) auto
  have "zf_Method f \<in> {0, 8}" "zf_Name f \<noteq> ManifestName"
    "\<not> (2 ^ 20 < zf_UncompressedSize f \<and> (zf_CompressedSize f = 0 \<or> ratio < zf_UncompressedSize f div zf_CompressedSize f))"
    using Cons.prems(2,3) by auto
  then have "index_zip ratio ((f # fs) @ gs) files found = index_zip ratio (fs @ gs) (files @ [(zf_Name f, f)]) found"
    using none upd by auto
  then show ?case using Cons.IH [of "files @ [(zf_Name f, f)]"] Cons.prems by simp
qed simp


lemma mode_bits_bound: "no_Perm n < 512 \<Longrightarrow> mode_bits n < 4096"
  by (simp add: mode_bits_def)

text \<open>What a volume guarantees of one object that can be archived.\<close>

definition sane_inode :: "inode \<Rightarrow> bool" where
  "sane_inode n \<longleftrightarrow>
     no_Kind n \<in> {KDir, KFile, KLink} \<and> no_Perm n < 512 \<and> 0 \<le> no_UID n \<and> 0 \<le> no_GID n
     \<and> (no_Kind n = KLink \<longrightarrow> no_Data n \<noteq> '''' \<and> CHR 0x00 \<notin> set (no_Data n) \<and> mode_bits n = 511)"

lemma count_written_entry:
  assumes "sane_inode n" and "\<forall>s. isSHA256 (al_sha256 al s)"
  shows "count_entry (written_entry al opts x n) (written_zip zl x n) t = Some (count_written (written_entry al opts x n) t)"
proof -
  consider "no_Kind n = KDir" | "no_Kind n = KFile" | "no_Kind n = KLink" using assms(1) unfolding sane_inode_def by blast
  then show ?thesis
    by cases (use assms in \<open>simp_all add: count_entry_def count_written_def written_fields written_zip_def raw_entry_def entry_types sane_inode_def\<close>)
qed

definition bytes_fit :: "limits \<Rightarrow> totals \<Rightarrow> entry list \<Rightarrow> bool" where
  "bytes_fit lmt t es \<longleftrightarrow>
     (0 < lm_MaxBytes lmt \<longrightarrow> lm_MaxBytes lmt < 2 ^ 63 \<and> 0 \<le> to_Bytes t \<and> to_Bytes t + file_bytes es \<le> lm_MaxBytes lmt)"

lemma file_bytes_nonneg: "\<forall>e\<in>set es. 0 \<le> en_Size e \<Longrightarrow> 0 \<le> file_bytes es"
  unfolding file_bytes_def by (rule sum_list_nonneg) auto

lemma bytes_fit_step:
  assumes "bytes_fit lmt t (e # es)" and "\<forall>x\<in>set (e # es). 0 \<le> en_Size x"
    and "en_Type e \<in> {EntryDir, EntryFile, EntrySymlink}"
  shows "bytes_fit lmt (count_written e t) es \<and> (0 < lm_MaxBytes lmt \<longrightarrow> to_Bytes (count_written e t) \<le> lm_MaxBytes lmt)"
proof (cases "0 < lm_MaxBytes lmt")
  case True
  have nn: "0 \<le> file_bytes es" using file_bytes_nonneg assms(2) by simp
  show ?thesis
  proof (cases "en_Type e = EntryDir \<or> en_Type e = EntrySymlink")
    case True
    then show ?thesis using assms nn by (auto simp: bytes_fit_def count_written_def file_bytes_def entry_types)
  next
    case False
    then have isfile: "en_Type e = EntryFile" using assms(3) by simp
    have b: "to_Bytes t + en_Size e + file_bytes es \<le> lm_MaxBytes lmt" "0 \<le> to_Bytes t" "lm_MaxBytes lmt < 2 ^ 63" "0 \<le> en_Size e"
      using assms \<open>0 < lm_MaxBytes lmt\<close> isfile by (simp_all add: bytes_fit_def file_bytes_def)
    then have "wrap64 (to_Bytes t + en_Size e) = to_Bytes t + en_Size e"
      using nn by (intro wrap64_id) (simp add: fits_int64_def)
    then show ?thesis using b nn False by (simp add: bytes_fit_def count_written_def)
  qed
qed (simp add: bytes_fit_def)

lemma check_entries_ok:
  assumes sha: "\<forall>s. isSHA256 (al_sha256 al s)"
    and x: "\<forall>x\<in>set L. x \<noteq> [] \<and> path_segs (of_segs x) = x \<and> CleanRelPath (of_segs x) = Inr (of_segs x) \<and> sane_inode (nd x)
      \<and> map_of files (ZipName (written_entry al opts x (nd x))) = Some (written_zip zl x (nd x))
      \<and> (butlast x \<in> S \<union> set L \<longrightarrow> en_Type (raw_entry (butlast x) (nd (butlast x))) = EntryDir)"
    and S: "\<forall>y\<in>S. path_segs (of_segs y) = y \<and> map_of types (of_segs y) = Some (en_Type (raw_entry y (nd y)))"
    and new: "\<forall>x\<in>set L. map_of types (of_segs x) = None"
    and pf: "parents_first S L" "distinct L"
    and fit: "bytes_fit lmt t (map (\<lambda>x. written_entry al opts x (nd x)) L)"
  shows "check_entries lmt files False types t (map (\<lambda>x. written_entry al opts x (nd x)) L)
    = Inr (fold count_written (map (\<lambda>x. written_entry al opts x (nd x)) L) t)"
  using x S new pf fit
proof (induction L arbitrary: S types t)
  case (Cons x L)
  let ?W = "\<lambda>x. written_entry al opts x (nd x)"
  have n: "sane_inode (nd x)" "CleanRelPath (of_segs x) = Inr (of_segs x)" "x \<noteq> []" "path_segs (of_segs x) = x"
    "map_of files (ZipName (?W x)) = Some (written_zip zl x (nd x))"
    using Cons.prems(1) by simp_all
  have up: "butlast x \<in> S" using Cons.prems(4) by simp
  have dot: "of_segs x \<noteq> ''.''" using n(3,4) by (auto simp: path_segs_def split: if_split_asm)
  have "parentOf (of_segs x) = of_segs (butlast x)" using parentOf_segs(1) [OF n(2) dot] n(4) by simp
  moreover have "en_Type (raw_entry (butlast x) (nd (butlast x))) = EntryDir" using Cons.prems(1) up by simp
  ultimately have parent: "map_of types (parentOf (of_segs x)) = Some EntryDir" using Cons.prems(2) up by simp
  have fresh: "map_of types (of_segs x) = None" using Cons.prems(3) by simp
  have sizes: "\<forall>e\<in>set (map ?W (x # L)). 0 \<le> en_Size e" by (auto simp: written_fields raw_entry_def)
  have ty: "en_Type (?W x) \<in> {EntryDir, EntryFile, EntrySymlink}"
    by (auto simp: written_fields raw_entry_def split: file_kind.split)
  have "bytes_fit lmt (count_written (?W x) t) (map ?W L) \<and> (0 < lm_MaxBytes lmt \<longrightarrow> to_Bytes (count_written (?W x) t) \<le> lm_MaxBytes lmt)"
    using bytes_fit_step [of lmt t "?W x" "map ?W L"] Cons.prems(6) sizes ty by simp
  then have fit: "bytes_fit lmt (count_written (?W x) t) (map ?W L)"
    "\<not> (0 < lm_MaxBytes lmt \<and> lm_MaxBytes lmt < to_Bytes (count_written (?W x) t))" by auto
  have sane: "\<not> (4096 \<le> en_Mode (?W x) \<or> en_Size (?W x) < 0 \<or> en_UID (?W x) < 0 \<or> en_GID (?W x) < 0)"
    using n(1) mode_bits_bound [of "nd x"] by (simp add: sane_inode_def written_fields raw_entry_def)
  have step: "check_entries lmt files False types t (map ?W (x # L))
      = check_entries lmt files False (AList.update (of_segs x) (en_Type (?W x)) types) (count_written (?W x) t) (map ?W L)"
    using dot fresh parent sane n(2,5) count_written_entry [OF n(1) sha]
    by (simp add: written_fields(1) if_not_P [OF fit(2)] del: not_less)
  let ?types = "AList.update (of_segs x) (en_Type (?W x)) types"
  have other: "of_segs y \<noteq> of_segs x" if "y \<in> S \<union> set L" "y \<noteq> x" for y
  proof
    assume "of_segs y = of_segs x"
    then have "path_segs (of_segs y) = x" using n(4) by simp
    moreover have "path_segs (of_segs y) = y" using that(1) Cons.prems(1,2) by auto
    ultimately show False using that(2) by simp
  qed
  have "check_entries lmt files False ?types (count_written (?W x) t) (map ?W L)
      = Inr (fold count_written (map ?W L) (count_written (?W x) t))"
  proof (rule Cons.IH)
    show "\<forall>y\<in>insert x S. path_segs (of_segs y) = y \<and> map_of ?types (of_segs y) = Some (en_Type (raw_entry y (nd y)))"
    proof
      fix y assume y: "y \<in> insert x S"
      show "path_segs (of_segs y) = y \<and> map_of ?types (of_segs y) = Some (en_Type (raw_entry y (nd y)))"
      proof (cases "y = x")
        case False
        then show ?thesis using other [of y] y Cons.prems(2) by (simp add: update_conv')
      qed (simp add: n(4) update_conv' written_fields)
    qed
    show "\<forall>y\<in>set L. map_of ?types (of_segs y) = None"
      using other Cons.prems(3,5) by (auto simp: update_conv')
    show "parents_first (insert x S) L" "distinct L" using Cons.prems(4,5) by simp_all
    show "bytes_fit lmt (count_written (?W x) t) (map ?W L)" by (rule fit(1))
    show "\<forall>y\<in>set L. y \<noteq> [] \<and> path_segs (of_segs y) = y \<and> CleanRelPath (of_segs y) = Inr (of_segs y) \<and> sane_inode (nd y)
        \<and> map_of files (ZipName (?W y)) = Some (written_zip zl y (nd y))
        \<and> (butlast y \<in> insert x S \<union> set L \<longrightarrow> en_Type (raw_entry (butlast y) (nd (butlast y))) = EntryDir)"
      using Cons.prems(1) by auto
  qed
  then show ?case using step by simp
qed simp


lemma volume_inode:
  assumes "volume_ok v" and "map_of v x = Some n"
  shows "no_Perm n < 512 \<and> 0 \<le> no_UID n \<and> 0 \<le> no_GID n
    \<and> (no_Kind n = KLink \<longrightarrow> no_Data n \<noteq> '''' \<and> CHR 0x00 \<notin> set (no_Data n) \<and> mode_bits n = 511)
    \<and> (x \<noteq> [] \<longrightarrow> kind_at v (butlast x) = Some KDir \<and> plain_segment (last x))"
  using assms(1) map_of_SomeD [OF assms(2)] by (auto simp: volume_ok_def list_all_iff mode_bits_def)

lemma volume_plain:
  assumes "volume_ok v" and "kind_at v x \<noteq> None"
  shows "list_all plain_segment x"
  using assms(2)
proof (induction x rule: rev_induct)
  case (snoc a xs)
  then obtain n where "map_of v (xs @ [a]) = Some n" by (auto simp: kind_at_def)
  from volume_inode [OF assms(1) this] snoc.IH show ?case by simp
qed simp

text \<open>What the list of visited paths is on a well-formed volume.\<close>

lemma listing_facts:
  assumes ok: "volume_ok v" and L: "listing opts v [] L"
  obtains M where "L = [] # M" and "distinct L" and "parents_first {[]} M"
    and "\<forall>x\<in>set L. archivable opts v x \<and> sane_inode (the (map_of v x)) \<and> map_of v x = Some (the (map_of v x))
        \<and> path_segs (of_segs x) = x"
    and "\<forall>x\<in>set M. x \<noteq> [] \<and> kind_at v (butlast x) = Some KDir"
proof -
  have "CleanRelPath (of_segs []) = Inr (of_segs [])" by (simp add: of_segs_def CleanRelPath_def)
  then have "archivable opts v []" using ok by (simp add: archivable_def of_segs_def volume_ok_def)
  then have "L \<noteq> []" using L archivable_not_left_out by (auto simp: listing_def)
  then obtain M where M: "L = [] # M" "distinct L" "parents_first {[]} M" "\<forall>x\<in>set L. archivable opts v x"
    using L unfolding listing_def by blast
  have facts: "archivable opts v x \<and> sane_inode (the (map_of v x)) \<and> map_of v x = Some (the (map_of v x)) \<and> path_segs (of_segs x) = x"
    if "x \<in> set L" for x
  proof -
    have arch: "archivable opts v x" using M(4) that by blast
    then obtain n where n: "map_of v x = Some n" "no_Kind n \<in> {KDir, KFile, KLink}" by (auto simp: archivable_def kind_at_def)
    have "sane_inode n" using volume_inode [OF ok n(1)] n(2) by (simp add: sane_inode_def)
    moreover have "path_segs (of_segs x) = x" using path_segs_of volume_plain [OF ok, of x] n(1) by (simp add: kind_at_def)
    ultimately show ?thesis using arch n(1) by simp
  qed
  have "x \<noteq> [] \<and> kind_at v (butlast x) = Some KDir" if x: "x \<in> set M" for x
  proof -
    have "x \<noteq> []" using parents_first_closed(1) [OF M(3) x] .
    moreover have "x \<in> set L" using M(1) x by simp
    then have "map_of v x = Some (the (map_of v x))" using facts by blast
    ultimately show ?thesis using volume_inode [OF ok] by blast
  qed
  then show ?thesis using that [OF M(1,2,3)] facts by blast
qed

lemma Write_listing:
  assumes "Write_archive ev al zl valid v opts now = Inr (m, zs)" and ok: "volume_ok v"
  obtains L where "listing (wo_Scan opts) v [] L"
    and "mf_Entries m = map (\<lambda>x. written_entry al opts x (the (map_of v x))) L"
    and "mf_Totals m = (fold count_written (mf_Entries m) no_totals)\<lparr>to_Entries := int (length (mf_Entries m))\<rparr>"
    and "mf_FormatVersion m = FormatVersion"
    and "zs = map (\<lambda>x. written_zip zl x (the (map_of v x))) L
        @ [\<lparr>zf_Name = ManifestName, zf_Method = 8, zf_CompressedSize = zl_deflated zl (zl_encode zl m),
            zf_UncompressedSize = length (zl_encode zl m), zf_IsDir = False, zf_IsRegular = True, zf_IsSymlink = False,
            zf_Data = Some (zl_encode zl m)\<rparr>]"
proof -
  obtain s zs' es t where w: "walk ev valid (wo_Scan opts) (write_visit ev al zl opts) v [] (new_scanner, ([], [], no_totals))
      = Inr (s, (zs', es, t))"
    and m: "m = \<lparr>mf_FormatVersion = FormatVersion, mf_ExportedAt = now, mf_Source = wo_Source opts, mf_Mounts = wo_Mounts opts,
         mf_Excluded = sc_excluded s, mf_Totals = t\<lparr>to_Entries := int (length es)\<rparr>, mf_Entries = es\<rparr>"
    and zs: "zs = zs' @ [\<lparr>zf_Name = ManifestName, zf_Method = 8, zf_CompressedSize = zl_deflated zl (zl_encode zl m),
            zf_UncompressedSize = length (zl_encode zl m), zf_IsDir = False, zf_IsRegular = True, zf_IsSymlink = False,
            zf_Data = Some (zl_encode zl m)\<rparr>]"
    using assms(1) by (auto simp: Write_archive_def Let_def split: sum.splits)
  have "keys_ok v" using ok by (simp add: volume_ok_def)
  from walk_listing [OF this w] obtain L
    where L: "listing (wo_Scan opts) v [] L" "visits (write_visit ev al zl opts) v L ([], [], no_totals) = Inr (zs', es, t)" by blast
  have "\<forall>x\<in>set L. map_of v x = Some (the (map_of v x)) \<and> no_Kind (the (map_of v x)) \<in> {KDir, KFile, KLink}"
  proof
    fix x assume x: "x \<in> set L"
    obtain M where "\<forall>x\<in>set L. archivable (wo_Scan opts) v x \<and> sane_inode (the (map_of v x)) \<and> map_of v x = Some (the (map_of v x))
        \<and> path_segs (of_segs x) = x" by (rule listing_facts [OF ok L(1)])
    then show "map_of v x = Some (the (map_of v x)) \<and> no_Kind (the (map_of v x)) \<in> {KDir, KFile, KLink}"
      using x by (simp add: sane_inode_def)
  qed
  from write_visits [OF L(2) this] show ?thesis using that [OF L(1)] m zs by simp
qed

text \<open>Copying a written entry back out of the archive.\<close>

lemma written_copies:
  assumes f: "map_of (in_files ins) (ZipName (written_entry al opts x n)) = Some (written_zip zl x n)"
    and n: "sane_inode n" and small: "int (length (no_Data n)) < 2 ^ 63 - 1"
  shows "no_Kind n = KFile \<Longrightarrow> copyFile al ins (written_entry al opts x n) = Inr (no_Data n)"
    and "no_Kind n = KLink \<Longrightarrow> readTarget ins (written_entry al opts x n) = Inr (no_Data n)"
proof -
  let ?e = "written_entry al opts x n"
  assume k: "no_Kind n = KFile"
  have e: "en_Size ?e = int (length (no_Data n))" "en_SHA256 ?e = al_sha256 al (no_Data n)"
    using k by (simp_all add: written_fields raw_entry_def entry_types)
  have "wrap64 (en_Size ?e + 1) = int (length (no_Data n)) + 1" unfolding e(1)
    by (rule wrap64_id) (use small in \<open>simp add: fits_int64_def\<close>)
  then have "limited (wrap64 (en_Size ?e + 1)) (no_Data n) = no_Data n" by (simp add: limited_def nat_add_distrib)
  then show "copyFile al ins ?e = Inr (no_Data n)"
    using f e k by (simp add: copyFile_def written_zip_def)
next
  assume k: "no_Kind n = KLink"
  then show "readTarget ins (written_entry al opts x n) = Inr (no_Data n)"
    using f by (simp add: readTarget_def written_zip_def limited_def written_fields raw_entry_def nat_add_distrib)
qed

definition small_ratios :: "nat \<Rightarrow> zip_file list \<Rightarrow> bool" where
  "small_ratios ratio zs \<longleftrightarrow>
     (\<forall>f\<in>set zs. zf_UncompressedSize f \<le> 2 ^ 20 \<or> 0 < zf_CompressedSize f \<and> zf_UncompressedSize f div zf_CompressedSize f \<le> ratio)"

lemma written_zip_name: "zf_Name (written_zip zl x n) = ZipName (written_entry al opts x n)"
  by (simp add: written_zip_def ZipName_def written_fields raw_entry_def)

lemma written_names:
  assumes "\<And>x. x \<in> set L \<Longrightarrow> path_segs (of_segs x) = x \<and> CleanRelPath (of_segs x) = Inr (of_segs x)" and "distinct L"
  shows "distinct (map zf_Name (map (\<lambda>x. written_zip zl x (nd x)) L))"
    and "ManifestName \<notin> set (map zf_Name (map (\<lambda>x. written_zip zl x (nd x)) L))"
proof -
  let ?N = "\<lambda>x. ZipName (raw_entry x (nd x))"
  have names: "map zf_Name (map (\<lambda>x. written_zip zl x (nd x)) L) = map ?N L" by (simp add: written_zip_def)
  have "inj_on ?N (set L)"
  proof (rule inj_onI)
    fix x y assume xy: "x \<in> set L" "y \<in> set L" "?N x = ?N y"
    have clean: "CleanRelPath (en_Path (raw_entry z (nd z))) = Inr (of_segs z)" if "z \<in> set L" for z
      using assms(1) [OF that] by (simp add: raw_entry_def)
    have "of_segs x = of_segs y"
      using ZipName_inj [OF clean [OF xy(1)] clean [OF xy(2)] xy(3)] by (simp add: raw_entry_def)
    then show "x = y" using assms(1) [OF xy(1)] assms(1) [OF xy(2)] by metis
  qed
  then show "distinct (map zf_Name (map (\<lambda>x. written_zip zl x (nd x)) L))" unfolding names using assms(2) by (simp add: distinct_map)
  have differs: "?N x \<noteq> ManifestName" for x by (auto simp: ZipName_def PayloadPrefix_def ManifestName_def)
  show "ManifestName \<notin> set (map zf_Name (map (\<lambda>x. written_zip zl x (nd x)) L))"
    unfolding names set_map
  proof
    assume "ManifestName \<in> ?N ` set L"
    then obtain x where "ManifestName = ?N x" by blast
    then show False using differs [of x] by simp
  qed
qed

text \<open>The codecs and the limits under which an export is read back.\<close>

definition readable ::
  "arch_lib \<Rightarrow> zip_lib \<Rightarrow> limits \<Rightarrow> volume \<Rightarrow> manifest \<Rightarrow> zip_file list \<Rightarrow> bool" where
  "readable al zl lmt v m zs \<longleftrightarrow>
     al_decode al (zl_encode zl m) = Some m \<and> length (zl_encode zl m) \<le> maxManifestBytes
     \<and> (\<forall>s. isSHA256 (al_sha256 al s))
     \<and> list_all (\<lambda>(x, n). int (length (no_Data n)) < 2 ^ 63 - 1) v
     \<and> small_ratios (effective_ratio lmt) zs
     \<and> (0 < lm_MaxEntries lmt \<longrightarrow> int (length (mf_Entries m)) \<le> lm_MaxEntries lmt)
     \<and> bytes_fit lmt no_totals (mf_Entries m)"

lemma export_inspects:
  assumes wr: "Write_archive ev al zl valid v opts now = Inr (m, zs)" and ok: "volume_ok v" and rd: "readable al zl lmt v m zs"
  obtains L where "listing (wo_Scan opts) v [] L"
    and "mf_Entries m = map (\<lambda>x. written_entry al opts x (the (map_of v x))) L"
    and "Inspect al (Some zs) lmt
      = Inr \<lparr>in_Manifest = m, in_files = map (\<lambda>f. (zf_Name f, f)) (map (\<lambda>x. written_zip zl x (the (map_of v x))) L)\<rparr>"
    and "\<forall>x\<in>set L.
      map_of (map (\<lambda>f. (zf_Name f, f)) (map (\<lambda>x. written_zip zl x (the (map_of v x))) L))
        (ZipName (written_entry al opts x (the (map_of v x)))) = Some (written_zip zl x (the (map_of v x)))"
    and "butlast zs = map (\<lambda>x. written_zip zl x (the (map_of v x))) L"
proof -
  let ?nd = "\<lambda>x. the (map_of v x)"
  let ?W = "\<lambda>x. written_entry al opts x (?nd x)" and ?Z = "\<lambda>x. written_zip zl x (?nd x)"
  obtain L where L: "listing (wo_Scan opts) v [] L" and es: "mf_Entries m = map ?W L"
    and tot: "mf_Totals m = (fold count_written (mf_Entries m) no_totals)\<lparr>to_Entries := int (length (mf_Entries m))\<rparr>"
    and ver: "mf_FormatVersion m = FormatVersion"
    and zs: "zs = map ?Z L @ [\<lparr>zf_Name = ManifestName, zf_Method = 8, zf_CompressedSize = zl_deflated zl (zl_encode zl m),
            zf_UncompressedSize = length (zl_encode zl m), zf_IsDir = False, zf_IsRegular = True, zf_IsSymlink = False,
            zf_Data = Some (zl_encode zl m)\<rparr>]" (is "_ = _ @ [?mf]")
    by (rule Write_listing [OF wr ok])
  obtain M where M: "L = [] # M" "distinct L" "parents_first {[]} M"
    and facts': "\<forall>x\<in>set L. archivable (wo_Scan opts) v x \<and> sane_inode (?nd x) \<and> map_of v x = Some (?nd x)
        \<and> path_segs (of_segs x) = x"
    and up': "\<forall>x\<in>set M. x \<noteq> [] \<and> kind_at v (butlast x) = Some KDir"
    by (rule listing_facts [OF ok L])
  note facts = bspec [OF facts'] and up = bspec [OF up']
  have clean: "path_segs (of_segs x) = x \<and> CleanRelPath (of_segs x) = Inr (of_segs x)" if "x \<in> set L" for x
    using facts [OF that] by (simp add: archivable_def)
  note names = written_names [OF clean M(2), where nd = ?nd and zl = zl]
  let ?files = "map (\<lambda>f. (zf_Name f, f)) (map ?Z L)"
  have found: "map_of ?files (ZipName (?W x)) = Some (?Z x)" if x: "x \<in> set L" for x
  proof (rule map_of_is_SomeI)
    show "distinct (map fst ?files)" using names(1) by (simp add: o_def)
    show "(ZipName (?W x), ?Z x) \<in> set ?files" using x written_zip_name [of zl x "?nd x" al opts] by force
  qed
  have sha: "\<forall>s. isSHA256 (al_sha256 al s)" using rd by (simp add: readable_def)
  have ratios: "small_ratios (effective_ratio lmt) zs" using rd by (simp add: readable_def)
  have methods: "\<forall>f\<in>set (map ?Z L). zf_Method f \<in> {0, 8}" by (simp add: written_zip_def)
  have "index_zip (effective_ratio lmt) (map ?Z L @ [?mf]) [] None = index_zip (effective_ratio lmt) [?mf] ([] @ ?files) None"
    by (rule index_zip_ok) (use names methods ratios zs in \<open>auto simp: small_ratios_def\<close>)
  moreover have "map_of ?files ManifestName = None"
    using names(2) by (simp add: map_of_eq_None_iff o_def image_iff)
  moreover have "\<not> (2 ^ 20 < zf_UncompressedSize ?mf \<and> (zf_CompressedSize ?mf = 0
      \<or> effective_ratio lmt < zf_UncompressedSize ?mf div zf_CompressedSize ?mf))"
    using ratios unfolding zs small_ratios_def by auto
  ultimately have ix: "index_zip (effective_ratio lmt) zs [] None = Inr (?files, Some ?mf)" unfolding zs by simp
  have dir: "en_Type (raw_entry y (?nd y)) = EntryDir" if "kind_at v y = Some KDir" for y
    using that by (auto simp: raw_entry_def kind_at_def)
  have rootdir: "kind_at v [] = Some KDir" using ok by (simp add: volume_ok_def)
  have root: "of_segs [] = ''.''" by (simp add: of_segs_def)
  have check: "check_entries lmt ?files True [] no_totals (map ?W L) = Inr (fold count_written (map ?W L) no_totals)"
  proof -
    have x0: "[] \<in> set L" using M(1) by simp
    have s0: "sane_inode (?nd [])" using facts [OF x0] by simp
    have fit: "bytes_fit lmt no_totals (?W [] # map ?W M)" using rd es M(1) by (simp add: readable_def)
    have ty: "en_Type (?W []) = EntryDir" using dir [OF rootdir] by (simp add: written_fields)
    have fit1: "bytes_fit lmt (count_written (?W []) no_totals) (map ?W M)"
      "\<not> (0 < lm_MaxBytes lmt \<and> lm_MaxBytes lmt < to_Bytes (count_written (?W []) no_totals))"
    proof -
      have "\<forall>e\<in>set (?W [] # map ?W M). 0 \<le> en_Size e" by (auto simp: written_fields raw_entry_def)
      then show "bytes_fit lmt (count_written (?W []) no_totals) (map ?W M)"
        "\<not> (0 < lm_MaxBytes lmt \<and> lm_MaxBytes lmt < to_Bytes (count_written (?W []) no_totals))"
        using bytes_fit_step [OF fit] ty by auto
    qed
    have sane: "\<not> (4096 \<le> en_Mode (?W []) \<or> en_Size (?W []) < 0 \<or> en_UID (?W []) < 0 \<or> en_GID (?W []) < 0)"
      using s0 mode_bits_bound [of "?nd []"] by (simp add: sane_inode_def written_fields raw_entry_def)
    have "check_entries lmt ?files True [] no_totals (?W [] # map ?W M)
        = check_entries lmt ?files False [(''.'', EntryDir)] (count_written (?W []) no_totals) (map ?W M)"
      using sane found [OF x0] count_written_entry [OF s0 sha, of opts "[]" zl no_totals] clean [OF x0] ty
      by (simp add: written_fields(1) root if_not_P [OF fit1(2)] del: not_less list.map)
    also have "\<dots> = Inr (fold count_written (map ?W M) (count_written (?W []) no_totals))"
    proof (rule check_entries_ok [OF sha, where S = "{[]}" and zl = zl])
      show "\<forall>x\<in>set M. x \<noteq> [] \<and> path_segs (of_segs x) = x \<and> CleanRelPath (of_segs x) = Inr (of_segs x) \<and> sane_inode (?nd x)
          \<and> map_of ?files (ZipName (?W x)) = Some (?Z x)
          \<and> (butlast x \<in> {[]} \<union> set M \<longrightarrow> en_Type (raw_entry (butlast x) (?nd (butlast x))) = EntryDir)"
      proof
        fix x assume x: "x \<in> set M"
        then have xL: "x \<in> set L" using M(1) by simp
        show "x \<noteq> [] \<and> path_segs (of_segs x) = x \<and> CleanRelPath (of_segs x) = Inr (of_segs x) \<and> sane_inode (?nd x)
          \<and> map_of ?files (ZipName (?W x)) = Some (?Z x)
          \<and> (butlast x \<in> {[]} \<union> set M \<longrightarrow> en_Type (raw_entry (butlast x) (?nd (butlast x))) = EntryDir)"
          using up [OF x] clean [OF xL] facts [OF xL] found [OF xL] dir by blast
      qed
      show "\<forall>y\<in>{[]}. path_segs (of_segs y) = y \<and> map_of [(''.'', EntryDir)] (of_segs y) = Some (en_Type (raw_entry y (?nd y)))"
        using dir [OF rootdir] by (simp add: root path_segs_def)
      show "\<forall>x\<in>set M. map_of [(''.'', EntryDir)] (of_segs x) = None"
      proof
        fix x assume x: "x \<in> set M"
        then have "path_segs (of_segs x) = x" "x \<noteq> []" using clean [of x] up [OF x] M(1) by simp_all
        then have "of_segs x \<noteq> ''.''" by (auto simp: path_segs_def)
        then show "map_of [(''.'', EntryDir)] (of_segs x) = None" by simp
      qed
      show "parents_first {[]} M" by (rule M(3))
      show "distinct M" using M(1,2) by simp
      show "bytes_fit lmt (count_written (?W []) no_totals) (map ?W M)" by (rule fit1(1))
    qed
    finally show ?thesis using M(1) by simp
  qed
  have "Inspect al (Some zs) lmt = Inr \<lparr>in_Manifest = m, in_files = ?files\<rparr>"
  proof -
    have dec: "al_decode al (take maxManifestBytes (zl_encode zl m)) = Some m" "\<not> maxManifestBytes < length (zl_encode zl m)"
      using rd by (simp_all add: readable_def)
    have v: "CheckVersion FormatVersion = None" by (simp add: CheckVersion_def SupportedFormatVersions_def)
    have me: "\<not> (0 < lm_MaxEntries lmt \<and> lm_MaxEntries lmt < int (length (mf_Entries m)))" using rd by (auto simp: readable_def)
    have ne: "mf_Entries m \<noteq> []" "length ?files = length (mf_Entries m)" using es M(1) by simp_all
    have ch: "check_entries lmt ?files True [] no_totals (mf_Entries m) = Inr (fold count_written (mf_Entries m) no_totals)"
      using check es by simp
    show ?thesis
      unfolding Inspect_def using dec v ver ne
      by (simp add: ix ch if_not_P [OF me] tot [symmetric] del: not_less length_map map_map)
  qed
  moreover have "butlast zs = map ?Z L" unfolding zs by simp
  ultimately show ?thesis using that [OF L es] found by blast
qed



subsection \<open>Export and restore\<close>

text \<open>Two objects that an archive does not tell apart: only the time of a link may differ.\<close>

definition same_object :: "inode \<Rightarrow> inode \<Rightarrow> bool" where
  "same_object a b \<longleftrightarrow>
     no_Kind a = no_Kind b \<and> (no_Kind a \<noteq> KDir \<longrightarrow> no_Data a = no_Data b) \<and> mode_bits a = mode_bits b
     \<and> no_UID a = no_UID b \<and> no_GID a = no_GID b \<and> (no_Kind a \<noteq> KLink \<longrightarrow> no_MTime a = no_MTime b)"

lemma skip_fold:
  assumes "map_of (fold (\<lambda>e skip. if en_Type e = EntryFile \<and> f e then AList.update (en_Path e) True skip else skip) es s) p = Some True"
    and "map_of s p = None"
  shows "\<exists>d\<in>set es. en_Path d = p \<and> en_Type d = EntryFile \<and> f d"
  using assms
proof (induction es arbitrary: s)
  case (Cons e es)
  show ?case
  proof (cases "en_Type e = EntryFile \<and> f e \<and> en_Path e = p")
    case False
    then show ?thesis using Cons by (auto simp: update_conv' split: if_split_asm)
  qed auto
qed simp

lemma volume_prefix:
  assumes "volume_ok v" and "kind_at v x \<noteq> None" and "k < length x"
  shows "kind_at v (take k x) = Some KDir"
  using assms(2,3)
proof (induction x rule: rev_induct)
  case (snoc a xs)
  obtain n where "map_of v (xs @ [a]) = Some n" using snoc.prems(1) by (auto simp: kind_at_def)
  from volume_inode [OF assms(1) this] have up: "kind_at v xs = Some KDir" by simp
  show ?case
  proof (cases "k = length xs")
    case False
    then show ?thesis using snoc.IH snoc.prems(2) up by simp
  qed (use up in simp)
qed simp

text \<open>A path is visited unless it, or a directory above it, is left out.\<close>

lemma listing_reaches:
  assumes ok: "volume_ok v" and L: "listing opts v [] L" and x: "kind_at v x \<noteq> None"
    and kept: "\<forall>k\<le>length x. \<not> left_out opts v (take k x)" and k: "k \<le> length x"
  shows "take k x \<in> set L"
  using k
proof (induction k)
  case 0
  then show ?case using L kept by (auto simp: listing_def)
next
  case (Suc k)
  have snoc: "take (Suc k) x = take k x @ [x ! k]" using Suc.prems by (simp add: take_Suc_conv_app_nth)
  have "take k x \<in> set L" "kind_at v (take k x) = Some KDir" using Suc volume_prefix [OF ok x] by simp_all
  moreover have "kind_at v (take (Suc k) x) \<noteq> None"
    using x volume_prefix [OF ok x, of "Suc k"] Suc.prems by (cases "Suc k = length x") simp_all
  then have "take k x @ [x ! k] \<in> go_keys v" unfolding snoc by (auto simp: kind_at_def dest: map_of_SomeD intro: rev_image_eqI)
  moreover have "complete opts v (set L)" using L by (auto simp: listing_def complete_def)
  ultimately have "take k x @ [x ! k] \<in> set L \<or> left_out opts v (take k x @ [x ! k])" unfolding complete_def by blast
  then show ?case using kept Suc.prems unfolding snoc [symmetric] by blast
qed

lemma restored_same_object:
  assumes "restored_entry al ins True (written_entry al opts x n) n'" and n: "sane_inode n"
    and f: "map_of (in_files ins) (ZipName (written_entry al opts x n)) = Some (written_zip zl x n)"
    and small: "int (length (no_Data n)) < 2 ^ 63 - 1" and link: "no_Kind n = KLink \<longrightarrow> mode_bits n = 511"
  shows "same_object n n'"
proof -
  note fields = same_object_def shape_def owner_set_def mode_set_def written_fields raw_entry_def entry_types
  have sh: "shape al ins (written_entry al opts x n) n'" "owner_set (written_entry al opts x n) n'"
    "en_Type (written_entry al opts x n) \<noteq> EntrySymlink \<longrightarrow> mode_set (written_entry al opts x n) n'"
    using assms(1) by (simp_all add: restored_entry_def)
  consider "no_Kind n = KDir" | "no_Kind n = KFile" | "no_Kind n = KLink" using n unfolding sane_inode_def by blast
  then show ?thesis
    by cases (use sh link written_copies(1) [OF f n small] in \<open>simp_all add: fields\<close>)
qed

text \<open>What the restore pod did, when it ends without error.\<close>

lemma runRestore_restored:
  assumes "runRestore ev1 ev2 al valid job zs (Some v0) = Inr (m, skip, v)" and "volume_ok v0"
  obtains ins where "Inspect al zs (restore_limits job) = Inr ins" and "m = in_Manifest ins"
    and "restored al ins True skip (mf_Entries m) v0 v"
    and "\<And>e. skipped skip e \<Longrightarrow> \<exists>d\<in>set (mf_Entries m). en_Path d = en_Path e \<and> en_Type d = EntryFile \<and> restore_leaves_out job d"
proof -
  have ex: "Extract ev1 al zs (Some v0) (restore_options job) = Inr (m, skip, v)"
    using assms(1) by (auto simp: runRestore_def split: sum.splits option.splits)
  have opt: "xo_Limits (restore_options job) = restore_limits job" "xo_PreserveOwnership (restore_options job) = True"
    by (simp_all add: restore_options_def)
  have "kind_at v0 [] = Some KDir" using assms(2) by (simp add: volume_ok_def)
  then obtain ins where ins: "Inspect al zs (restore_limits job) = Inr ins" "m = in_Manifest ins"
    "restored al ins True skip (mf_Entries m) v0 v"
    using Extract_restored [OF ex] unfolding opt by blast
  have "skip_set (restore_options job) (mf_Entries m) = Inr skip" by (rule Extract_cases [OF ex])
  then have "skip = fold (\<lambda>e skip. if en_Type e = EntryFile \<and> restore_leaves_out job e
      then AList.update (en_Path e) True skip else skip) (mf_Entries m) []"
    by (simp add: skip_set_def restore_options_def)
  then have "\<exists>d\<in>set (mf_Entries m). en_Path d = en_Path e \<and> en_Type d = EntryFile \<and> restore_leaves_out job d" if "skipped skip e" for e
    using skip_fold [of "restore_leaves_out job" "mf_Entries m" "[]" "en_Path e"] that by (simp add: skipped_def)
  then show ?thesis using that ins by blast
qed


subsection \<open>A volume exported and restored\<close>

definition export_file :: inode where
  "export_file = \<lparr>no_Kind = KFile, no_Data = ''hello'', no_Perm = 416, no_Setuid = True, no_Setgid = False, no_Sticky = False,
     no_UID = 1000, no_GID = 1000, no_MTime = 5\<rparr>"

definition export_volume :: volume where
  "export_volume = demo_volume @ [([''a''], export_file)]"

definition export_zip_lib :: zip_lib where
  "export_zip_lib = \<lparr>zl_encode = (\<lambda>_. ''m''), zl_deflated = length\<rparr>"

definition export_options :: write_options where
  "export_options = \<lparr>wo_Scan = \<lparr>so_Exclude = DefaultExclusions, so_MaxEntries = 0, so_MaxBytes = 0\<rparr>, wo_Source = demo_source,
     wo_Mounts = [], wo_Image = []\<rparr>"

definition export_manifest :: manifest where
  "export_manifest =
     \<lparr>mf_FormatVersion = FormatVersion, mf_ExportedAt = 9, mf_Source = demo_source, mf_Mounts = [], mf_Excluded = [],
      mf_Totals = \<lparr>to_Entries = 2, to_Files = 1, to_Dirs = 1, to_Symlinks = 0, to_Bytes = 5\<rparr>,
      mf_Entries =
        [\<lparr>en_Path = ''.'', en_Type = EntryDir, en_Size = 0, en_Mode = 1517, en_UID = 0, en_GID = 1000, en_ModTime = 3,
          en_Target = '''', en_SHA256 = '''', en_Image = False, en_NoCredentials = False\<rparr>,
         \<lparr>en_Path = ''a'', en_Type = EntryFile, en_Size = 5, en_Mode = 2464, en_UID = 1000, en_GID = 1000, en_ModTime = 5,
          en_Target = '''', en_SHA256 = demo_digest, en_Image = False, en_NoCredentials = False\<rparr>]\<rparr>"

definition export_zip :: "zip_file list" where
  "export_zip = [demo_dir, demo_file ''persist/a'' 5 5 (Some ''hello''), demo_file ManifestName 1 1 (Some ''m'')]"

definition export_job :: restore_job where
  "export_job = \<lparr>rj_skip_credentials = '''', rj_skip_crontabs = '''', rj_login_files = '''', rj_max_bytes = 0, rj_max_entries = 0,
     rj_available = 1000\<rparr>"

lemma export_writes:
  "Write_archive calm_env (demo_lib export_manifest) export_zip_lib id export_volume export_options 9 = Inr (export_manifest, export_zip)"
  by code_simp

lemma export_volume_ok: "volume_ok export_volume" "volume_ok demo_volume"
  by code_simp+

lemma export_readable: "readable (demo_lib export_manifest) export_zip_lib (restore_limits export_job) export_volume export_manifest export_zip"
proof -
  have "bytes_fit (restore_limits export_job) no_totals (mf_Entries export_manifest)"
    by (simp add: bytes_fit_def restore_limits_def export_job_def no_totals_def export_manifest_def file_bytes_def entry_types)
  moreover have "small_ratios 1000 export_zip"
    by (simp add: small_ratios_def export_zip_def demo_dir_def demo_file_def)
  moreover have "list_all (\<lambda>(x, n). int (length (no_Data n)) < 2 ^ 63 - 1) export_volume"
    by (simp add: export_volume_def demo_volume_def export_file_def)
  ultimately show ?thesis
    using demo_facts(6)
    by (simp add: readable_def demo_lib_def export_zip_lib_def maxManifestBytes_def effective_ratio_def restore_limits_def export_job_def)
qed

definition export_inspected :: inspected where
  "export_inspected =
     \<lparr>in_Manifest = export_manifest,
      in_files = [(PayloadPrefix, demo_dir), (''persist/a'', demo_file ''persist/a'' 5 5 (Some ''hello''))]\<rparr>"

lemma export_inspected_eq:
  "Inspect (demo_lib export_manifest) (Some export_zip) (restore_limits export_job) = Inr export_inspected"
proof -
  obtain L where ins: "Inspect (demo_lib export_manifest) (Some export_zip) (restore_limits export_job)
      = Inr \<lparr>in_Manifest = export_manifest, in_files = map (\<lambda>f. (zf_Name f, f))
          (map (\<lambda>x. written_zip export_zip_lib x (the (map_of export_volume x))) L)\<rparr>"
    and zs: "butlast export_zip = map (\<lambda>x. written_zip export_zip_lib x (the (map_of export_volume x))) L"
    by (rule export_inspects [OF export_writes export_volume_ok(1) export_readable])
  have "map (\<lambda>f. (zf_Name f, f)) (butlast export_zip) = in_files export_inspected"
    by (simp add: export_inspected_def export_zip_def demo_dir_def demo_file_def)
  then show ?thesis using ins unfolding zs by (simp add: export_inspected_def)
qed

lemma export_passes:
  "case extract_passes calm_env (demo_lib export_manifest) export_inspected True [] demo_volume of
     Inl _ \<Rightarrow> False
   | Inr v \<Rightarrow> VerifyRestore calm_env (demo_lib export_manifest) id v export_manifest [''lost+found''] [] = None"
  by code_simp

lemma export_keeps: "list_all (\<lambda>e. \<not> restore_leaves_out export_job e) (mf_Entries export_manifest)"
  by code_simp

lemma export_runs:
  "\<exists>v. runRestore calm_env calm_env (demo_lib export_manifest) id export_job (Some export_zip) (Some demo_volume)
     = Inr (export_manifest, [], v)"
proof -
  obtain v where v: "extract_passes calm_env (demo_lib export_manifest) export_inspected True [] demo_volume = Inr v"
    "VerifyRestore calm_env (demo_lib export_manifest) id v export_manifest [''lost+found''] [] = None"
    using export_passes by (auto split: sum.splits)
  have skip: "skip_set (restore_options export_job) (mf_Entries export_manifest) = Inr []"
    using export_keeps by (simp add: skip_set_def restore_options_def export_manifest_def)
  have "requireEmpty calm_env demo_volume (xo_Allowed (restore_options export_job)) = None"
    by (simp add: requireEmpty_def calm_env_def demo_volume_def child_names_def)
  moreover have "in_Manifest export_inspected = export_manifest" by (simp add: export_inspected_def)
  moreover have "xo_Limits (restore_options export_job) = restore_limits export_job" "xo_PreserveOwnership (restore_options export_job)"
    by (simp_all add: restore_options_def)
  ultimately have "Extract calm_env (demo_lib export_manifest) (Some export_zip) (Some demo_volume) (restore_options export_job)
      = Inr (export_manifest, [], v)"
    using v(1) skip export_inspected_eq by (simp add: Extract_def)
  then show ?thesis using v(2) by (simp add: runRestore_def)
qed



end
