(* ===== verification/Spec2Isabelle.thy ===== *)
theory Spec2Isabelle
  imports Agent_Reconcile Machine_Controller Task_Properties Request_Store Update_Checker Inbound_Receive Change_Properties Archive_Roundtrip
begin

text \<open>
  Kyber is a control plane on Kubernetes that keeps fleets of long-running AI agents alive. This
  development models the decision logic of that control plane and proves what it promises.

  \<^bold>\<open>The parts and how they interact.\<close> An operator (through the HTTP API of \<open>pkg/api\<close>) edits Agent and
  Machine objects, creates tasks, prompts and credentials, and applies updates. Two controllers
  (\<open>pkg/controllers/agent\<close>, \<open>pkg/controllers/machine\<close>) watch the objects and drive each of them through
  a table of phases: a pass derives one event from what it observes, looks the transition up,
  executes its action and records the phase. A Machine is where an Agent's pod runs: the Agent
  controller reads the Machine's phase and the Machine controller counts the Agent's pods. Work
  reaches a running agent by three ways: durable tasks (\<open>pkg/taskstore\<close>), ephemeral requests
  (\<open>pkg/requeststore\<close>) and webhook prompts (\<open>pkg/inbound\<close>), the last through a bounded queue per agent
  and a gate that waits until the agent's phase allows delivery. The control plane upgrades itself
  (\<open>pkg/updates\<close>), and who may operate it is one stored document (\<open>pkg/operatorcredentials\<close>).

  \<^bold>\<open>Theories and the code they model.\<close>
  \<^item> \<open>Go_Prelude\<close>: what the source uses of Go: times as nanoseconds since Go's zero time, byte strings,
    maps as association lists, \<open>(x, error)\<close> results as sums, and the functions of \<open>strings\<close>,
    \<open>strconv\<close>, \<open>unicode/utf8\<close> and \<open>encoding/hex\<close> the code calls.
  \<^item> \<open>Agent_Lifecycle\<close> (\<open>pkg/controllers/agent/state_machine.go\<close>): phases, events, actions, the
    transition table \<open>agent_transitions\<close> and \<open>NextPhase\<close>, the retry backoff on 64-bit words.
    \<open>Agent_Controller\<close> (\<open>reconciler.go\<close>, \<open>classifyEvent\<close> and its predicates) derives the event;
    \<open>Agent_Reconcile\<close> (\<open>reconciler.go\<close>, \<open>executeAction\<close>, \<open>updatePhase\<close>) executes it. The state is
    the record of the Agent object; reads of the API server are answers in an environment record,
    writes to other objects are a list of effects in the order of the code.
  \<^item> \<open>Machine_Lifecycle\<close>, \<open>Machine_Controller\<close> (\<open>pkg/controllers/machine\<close>, \<open>pkg/adapters/compute.go\<close>):
    the same for Machines, with the capacity arithmetic and the capacity request pod.
  \<^item> \<open>Task_Types\<close>, \<open>Task_Store\<close> (\<open>pkg/taskstore/store.go\<close>, \<open>memory.go\<close>): the contract store of tasks,
    one function per method; \<open>Task_Lifecycle\<close>, \<open>Task_Invariant\<close>, \<open>Task_Properties\<close> hold the abstract
    task relation, the refinement, the invariant and the promises.
  \<^item> \<open>Request_Store\<close> (\<open>pkg/requeststore/store.go\<close>, \<open>memory.go\<close>): ephemeral requests with expiry.
  \<^item> \<open>Update_Version\<close>, \<open>Update_Policy\<close>, \<open>Update_Checker\<close> (\<open>pkg/updates\<close>, \<open>pkg/api/routes_updates.go\<close>):
    versions and their order; policy, ownership and node preflight; feeds, checker, upgrade jobs.
  \<^item> \<open>Inbound_Dispatch\<close>, \<open>Inbound_Queue\<close>, \<open>Inbound_Receive\<close> (\<open>pkg/inbound\<close>, \<open>pkg/api/routes_inbound*.go\<close>,
    \<open>inbound_gate.go\<close>, \<open>inbound_event_aggregator.go\<close>): deciding and rendering a prompt; queue,
    delivery, deduplication, envelope cache and rate limit; receiver, replay, secret rotation.
  \<^item> \<open>Credential_Registry\<close> (\<open>pkg/operatorcredentials/model.go\<close>, \<open>transition.go\<close>, \<open>codec.go\<close>): the document of
    operator credentials, what may be stored, what may replace what. \<open>Credential_Secret\<close>
    (\<open>secret_store.go\<close>): the Secret it lives in. \<open>Credential_Maintenance\<close>, \<open>Credential_Recovery\<close>
    (\<open>maintenance*.go\<close>, \<open>writer_quiescence.go\<close>): the reservation that excludes adoption and upgrade,
    and its takeover. \<open>Credential_Authority\<close> (\<open>authority.go\<close>, \<open>authority_selection.go\<close>): which document
    counts, and the interleaving of all writers.
  \<^item> \<open>Operator_Access\<close> (\<open>pkg/api/auth.go\<close>, \<open>authz.go\<close>, \<open>operator_boundary.go\<close>, \<open>sensitive_routes.go\<close>):
    scopes, resources, configured callers, the boundary in front of every route and the gates behind
    it. \<open>Browser_Session\<close> (\<open>browser_session_token.go\<close>): signed cookies and their base64.
    \<open>Operator_Auth\<close> (\<open>auth.go\<close>, \<open>auth_registry.go\<close>, \<open>browser_session_registry.go\<close>,
    \<open>routes_rotate_api_key.go\<close>): who a request is, against configured keys or against the document the
    credential authority returns; \<open>Operator_Auth_Properties\<close> what that guarantees.
  \<^item> \<open>Security_Journal\<close> (\<open>pkg/securityaudit\<close>): the tables in which every change of a credential is admitted
    and decided, a call as one transaction. \<open>Credential_Change\<close> (\<open>operator_credential_mutation.go\<close>,
    \<open>routes_operator_credential_mutations.go\<close>, \<open>operator_credential_delivery.go\<close>): a change prepared against
    the reviewed document, admitted, written and recorded, resolved when interrupted, and its reference
    delivered; \<open>Change_Properties\<close> what a prepared change is.
  \<^item> \<open>Archive_Format\<close> (\<open>pkg/diskarchive/manifest.go\<close>, \<open>verify.go\<close>, \<open>image.go\<close>, \<open>pkgconfig.go\<close>): the archive of an
    agent's disk, safe paths, the inspection of an untrusted archive. \<open>Archive_Disk\<close> (\<open>scan.go\<close>, \<open>write.go\<close>,
    \<open>extract.go\<close>, \<open>cmd/kyber-disk-archive\<close>): a volume walked, exported, restored and checked;
    \<open>Archive_Restore\<close>, \<open>Restore_Properties\<close>, \<open>Archive_Scan\<close> what extracting and walking guarantee,
    \<open>Archive_Roundtrip\<close> that a restored volume verifies and an export restores.

  \<^bold>\<open>State and operations.\<close> A Go struct is a record with the source's field names (prefixed where two
  structs share one), an enum a datatype, a method a function from the receiver's state and the clock
  to a result and the state it leaves; a method that holds a mutex throughout is one such step. The
  in-memory queue, whose methods interleave, is a step relation instead. Errors are constructors;
  message texts are not kept unless code reads them.

  \<^bold>\<open>What the lemmas show.\<close> Controllers: every derived event has a transition in the table
  (\<open>classify_accepted\<close>, \<open>machine_classify_accepted\<close>), when pods are created, how the retry and
  replacement budgets count, that a stop wins and converges. Stores: refinement of an abstract
  lifecycle, invariants over all reachable states, identity of versions and contents, first
  response wins. Updates: the comparison of versions is one linear order, printing and parsing
  invert each other, applying respects policy. Prompts: an unauthenticated request is inert, the
  payload cannot leave its block, the queue is first in first out under every interleaving.
  Credentials: over any accepted writes nothing is lost, revoked stays revoked, every change is
  attributed to an administrator, and only the credentials of the document read for a request are accepted, never an
  older generation or a revoked one; under every interleaving of
  writers the stored documents are one serial history, a fence settles an uncertain write, a process
  that saw an adoption never returns to the configured keys, and a takeover ends the old holder. A prepared
  change is never refused by the store at its version (\<open>prepared_change_stored\<close>) and an operation is
  decided once (\<open>journal_decides_once\<close>). Archives: an accepted
  one is a tree of safe paths, extracting it never goes through a link and leaves
  exactly it, and an export followed by a restore loses nothing but what is recorded as left out. Some theorems state behaviour that differs from what a comment
  or a document says; these are the findings of the manifest.

  \<^bold>\<open>Interfaces.\<close> A locale states what one part promises another: map laws (\<open>Go_Prelude\<close>), comparisons
  (\<open>Update_Version\<close>), expiring stores and first writes (\<open>Inbound_Queue\<close>), and each is interpreted on
  the model's own definitions in the theory of the part that provides it.

  \<^bold>\<open>Bounds and fuel.\<close> Loops over data are structural or have a measure. The one loop of the source
  without a bound of its own, the trimming of terminal requests, is a \<open>partial_function\<close>, and
  \<open>requests_bounded\<close> proves that it returns on every reachable store. No fuel is used.

  \<^bold>\<open>Not modelled.\<close> The PostgreSQL and Redis stores, whose steps are SQL statements and Lua scripts run by
  a server; cloud adapters; the pod templates; HTTP routing and JSON transport; the sidecars,
  command-line programs and the web client. The manifest lists every part with the reason.
\<close>

end
